(* ===== verification/PyBase.thy ===== *)
theory PyBase
  imports Main "HOL-Library.Char_ord" "HOL-Library.List_Lexorder" "HOL-Library.Code_Target_Numeral"
begin

text \<open>
  The prelude of the development. It holds what every component shares:
  \<^item> the Python exceptions the code raises or catches, as one datatype, with the class
    membership tests the \<open>except\<close> clauses use;
  \<^item> results (\<open>exn + 'a\<close>) and stateful computations that may raise (\<open>('s, 'a) io\<close>), with
    the combinators for sequencing, \<open>raise\<close>, \<open>except\<close> and \<open>finally\<close>;
  \<^item> the part of Python's \<open>str\<close>, \<open>int\<close>, \<open>dict\<close> and \<open>sorted\<close> the code calls;
  \<^item> generic lemmas on lists and dictionaries, and the named collections of the library.

  A Python \<open>str\<close> is a \<^typ>\<open>string\<close>: a list of code points below 256 (Latin-1). Instants
  (\<open>datetime\<close>, monotonic clocks) and durations are integers counting microseconds, the
  resolution of Python's \<open>datetime\<close>.
\<close>

named_theorems io_simps \<open>unfolding rules of the computation combinators\<close>
named_theorems dict_simps \<open>lookup and update of ordered dictionaries\<close>
named_theorems table_simps \<open>lookup and update of database tables\<close>

type_synonym time = int

definition seconds :: "int \<Rightarrow> time" where
  "seconds n = n * 1000000"

lemma seconds_mono [simp]: "seconds a \<le> seconds b \<longleftrightarrow> a \<le> b" "seconds a < seconds b \<longleftrightarrow> a < b"
  by (simp_all add: seconds_def)

lemma seconds_pos [simp]: "0 < seconds a \<longleftrightarrow> 0 < a" "0 \<le> seconds a \<longleftrightarrow> 0 \<le> a"
  by (simp_all add: seconds_def zero_le_mult_iff)

section \<open>Exceptions\<close>

datatype exn =
    HTTPException nat string
  | ValueError string
  | TypeError string
  | KeyError string
  | AttributeError string
  | IndexError
  | LookupError string
  | RuntimeError string
  | AssertionError string
  | UnicodeDecodeError
  | JSONDecodeError
  | OverflowError
  | RedisError
  | SQLAlchemyError
  | HttpxRequestError
  | HttpxStatusError nat
  | SessionStoreError string
  | RequestReplayConflict string
  | RequestReplayInProgress string
  | ShardRoutingError string
  | DatabaseConfigurationError string
  | MessagePublishError string
  | RealtimeBackplaneError string
  | KisTokenCoordinatorError string
  | KisTokenConfigurationError string
  | KisTokenRefreshInProgress string
  | KisMarketDataError string
  | KisAccountConfigurationError string
  | KisDomesticAccountError string
  | YahooFinanceNewsTimeoutError string
  | YahooFinanceNewsProviderError string
  | OSError
  | HTTPError nat
  | SubprocessError string
  | StopIteration
  | AMQPConnectionError
  | WebSocketDisconnect

text \<open>\<open>isinstance(error, ValueError)\<close>: the subclasses of \<open>ValueError\<close> are caught with it.\<close>

fun is_value_error :: "exn \<Rightarrow> bool" where
  "is_value_error (ValueError _) = True"
| "is_value_error UnicodeDecodeError = True"
| "is_value_error JSONDecodeError = True"
| "is_value_error (KisAccountConfigurationError _) = True"
| "is_value_error _ = False"

fun is_type_error :: "exn \<Rightarrow> bool" where
  "is_type_error (TypeError _) = True"
| "is_type_error _ = False"

fun is_session_store_error :: "exn \<Rightarrow> bool" where
  "is_session_store_error (SessionStoreError _) = True"
| "is_session_store_error (RequestReplayConflict _) = True"
| "is_session_store_error (RequestReplayInProgress _) = True"
| "is_session_store_error _ = False"

fun is_token_error :: "exn \<Rightarrow> bool" where
  "is_token_error (KisTokenCoordinatorError _) = True"
| "is_token_error (KisTokenConfigurationError _) = True"
| "is_token_error (KisTokenRefreshInProgress _) = True"
| "is_token_error _ = False"

fun is_httpx_error :: "exn \<Rightarrow> bool" where
  "is_httpx_error HttpxRequestError = True"
| "is_httpx_error (HttpxStatusError _) = True"
| "is_httpx_error _ = False"

fun is_yahoo_error :: "exn \<Rightarrow> bool" where
  "is_yahoo_error (YahooFinanceNewsTimeoutError _) = True"
| "is_yahoo_error (YahooFinanceNewsProviderError _) = True"
| "is_yahoo_error _ = False"

fun is_runtime_error :: "exn \<Rightarrow> bool" where
  "is_runtime_error (RuntimeError _) = True"
| "is_runtime_error (SessionStoreError _) = True"
| "is_runtime_error (RequestReplayConflict _) = True"
| "is_runtime_error (RequestReplayInProgress _) = True"
| "is_runtime_error (ShardRoutingError _) = True"
| "is_runtime_error (DatabaseConfigurationError _) = True"
| "is_runtime_error (MessagePublishError _) = True"
| "is_runtime_error (RealtimeBackplaneError _) = True"
| "is_runtime_error (KisTokenCoordinatorError _) = True"
| "is_runtime_error (KisTokenConfigurationError _) = True"
| "is_runtime_error (KisTokenRefreshInProgress _) = True"
| "is_runtime_error (KisMarketDataError _) = True"
| "is_runtime_error (KisDomesticAccountError _) = True"
| "is_runtime_error (YahooFinanceNewsTimeoutError _) = True"
| "is_runtime_error (YahooFinanceNewsProviderError _) = True"
| "is_runtime_error _ = False"

text \<open>\<open>urllib.error.HTTPError\<close> is an \<open>OSError\<close>.\<close>

fun is_os_error :: "exn \<Rightarrow> bool" where
  "is_os_error OSError = True"
| "is_os_error (HTTPError _) = True"
| "is_os_error _ = False"

fun is_http_exception :: "exn \<Rightarrow> bool" where
  "is_http_exception (HTTPException _ _) = True"
| "is_http_exception _ = False"

section \<open>Results and stateful computations\<close>

type_synonym 'a result = "exn + 'a"
type_synonym ('s, 'a) io = "'s \<Rightarrow> 'a result \<times> 's"

definition bindE :: "'a result \<Rightarrow> ('a \<Rightarrow> 'b result) \<Rightarrow> 'b result" where
  "bindE r f = (case r of Inl e \<Rightarrow> Inl e | Inr x \<Rightarrow> f x)"

definition catchE :: "'a result \<Rightarrow> (exn \<Rightarrow> 'a result) \<Rightarrow> 'a result" where
  "catchE r h = (case r of Inl e \<Rightarrow> h e | Inr x \<Rightarrow> Inr x)"

fun mapE :: "('a \<Rightarrow> 'b result) \<Rightarrow> 'a list \<Rightarrow> 'b list result" where
  "mapE f [] = Inr []"
| "mapE f (x # xs) = bindE (f x) (\<lambda>y. bindE (mapE f xs) (\<lambda>ys. Inr (y # ys)))"

definition ret :: "'a \<Rightarrow> ('s, 'a) io" where
  "ret x s = (Inr x, s)"

definition raise :: "exn \<Rightarrow> ('s, 'a) io" where
  "raise e s = (Inl e, s)"

definition lift :: "'a result \<Rightarrow> ('s, 'a) io" where
  "lift r s = (r, s)"

definition bindS :: "('s, 'a) io \<Rightarrow> ('a \<Rightarrow> ('s, 'b) io) \<Rightarrow> ('s, 'b) io" where
  "bindS m f s = (case m s of (Inl e, s') \<Rightarrow> (Inl e, s') | (Inr x, s') \<Rightarrow> f x s')"

definition catchS :: "('s, 'a) io \<Rightarrow> (exn \<Rightarrow> ('s, 'a) io) \<Rightarrow> ('s, 'a) io" where
  "catchS m h s = (case m s of (Inl e, s') \<Rightarrow> h e s' | (Inr x, s') \<Rightarrow> (Inr x, s'))"

text \<open>
  \<open>try: m finally: f\<close>: \<open>f\<close> runs on both outcomes; an exception of \<open>f\<close> replaces the outcome
  of \<open>m\<close>, otherwise the outcome of \<open>m\<close> is kept.
\<close>

definition finallyS :: "('s, 'a) io \<Rightarrow> ('s, 'b) io \<Rightarrow> ('s, 'a) io" where
  "finallyS m f s = (case m s of (r, s') \<Rightarrow>
     (case f s' of (Inl e, s'') \<Rightarrow> (Inl e, s'') | (Inr _, s'') \<Rightarrow> (r, s'')))"

definition get_state :: "('s, 's) io" where
  "get_state s = (Inr s, s)"

definition modify :: "('s \<Rightarrow> 's) \<Rightarrow> ('s, unit) io" where
  "modify f s = (Inr (), f s)"

definition gets :: "('s \<Rightarrow> 'a) \<Rightarrow> ('s, 'a) io" where
  "gets f s = (Inr (f s), s)"

lemmas io_defs = ret_def raise_def lift_def bindS_def catchS_def finallyS_def get_state_def
  modify_def gets_def

lemma bindE_simps [simp, io_simps]:
  "bindE (Inl e) f = Inl e" "bindE (Inr x) f = f x"
  by (simp_all add: bindE_def)

lemma bindE_eq_Inr [io_simps]: "bindE r f = Inr y \<longleftrightarrow> (\<exists>x. r = Inr x \<and> f x = Inr y)"
  by (cases r) auto

lemma bindE_eq_Inl [io_simps]:
  "bindE r f = Inl e \<longleftrightarrow> r = Inl e \<or> (\<exists>x. r = Inr x \<and> f x = Inl e)"
  by (cases r) auto

lemma catchE_simps [simp, io_simps]:
  "catchE (Inl e) h = h e" "catchE (Inr x) h = Inr x"
  by (simp_all add: catchE_def)

lemma mapE_Inr_length: "mapE f xs = Inr ys \<Longrightarrow> length ys = length xs"
  by (induction xs arbitrary: ys) (auto simp: bindE_eq_Inr)

lemma mapE_all_Inr: "(\<And>x. x \<in> set xs \<Longrightarrow> f x = Inr (g x)) \<Longrightarrow> mapE f xs = Inr (map g xs)"
  by (induction xs) auto

lemma mapE_Inr_nth: "mapE f xs = Inr ys \<Longrightarrow> i < length xs \<Longrightarrow> f (xs ! i) = Inr (ys ! i)"
  by (induction xs arbitrary: ys i) (auto simp: bindE_eq_Inr nth_Cons split: nat.splits)

lemma bindS_eq_Inr:
  "bindS m f s = (Inr y, t) \<longleftrightarrow> (\<exists>x s'. m s = (Inr x, s') \<and> f x s' = (Inr y, t))"
  by (auto simp: bindS_def split: prod.splits sum.splits)

lemma bindS_run [io_simps]:
  "m s = (Inr x, s') \<Longrightarrow> bindS m f s = f x s'"
  "m s = (Inl e, s') \<Longrightarrow> bindS m f s = (Inl e, s')"
  by (simp_all add: bindS_def)

lemma run_simps [simp, io_simps]:
  "ret x s = (Inr x, s)" "raise e s = (Inl e, s)" "lift r s = (r, s)"
  "get_state s = (Inr s, s)" "modify g s = (Inr (), g s)" "gets h s = (Inr (h s), s)"
  by (simp_all add: io_defs)

lemma bindS_simps [simp, io_simps]:
  "bindS (ret x) f s = f x s" "bindS (raise e) f s = (Inl e, s)"
  "bindS (lift (Inr x)) f s = f x s" "bindS (lift (Inl e)) f s = (Inl e, s)"
  "bindS get_state g s = g s s" "bindS (modify k) h s = h () (k s)"
  "bindS (gets l) f s = f (l s) s"
  by (simp_all add: bindS_def)

lemma finallyS_run:
  "m s = (r, s') \<Longrightarrow> f s' = (Inr y, s'') \<Longrightarrow> finallyS m f s = (r, s'')"
  by (simp add: finallyS_def)

section \<open>Strings\<close>

abbreviation code :: "char \<Rightarrow> nat" where
  "code c \<equiv> of_char c"

text \<open>\<open>str.isspace\<close> on a Latin-1 character, as \<open>str.strip()\<close> uses it.\<close>

definition is_space :: "char \<Rightarrow> bool" where
  "is_space c = (let n = code c in 9 \<le> n \<and> n \<le> 13 \<or> 28 \<le> n \<and> n \<le> 32 \<or> n = 133 \<or> n = 160)"

definition lstrip :: "string \<Rightarrow> string" where
  "lstrip s = dropWhile is_space s"

definition rstrip_by :: "(char \<Rightarrow> bool) \<Rightarrow> string \<Rightarrow> string" where
  "rstrip_by p s = rev (dropWhile p (rev s))"

definition strip :: "string \<Rightarrow> string" where
  "strip s = rstrip_by is_space (lstrip s)"

text \<open>\<open>isdecimal\<close> holds for 0 to 9 only; \<open>isdigit\<close> also for the superscripts 2, 3 and 1
  (U+00B2, U+00B3, U+00B9). Both are false for the empty string.\<close>

definition dec_char :: "char \<Rightarrow> bool" where
  "dec_char c \<longleftrightarrow> 48 \<le> code c \<and> code c \<le> 57"

definition digit_char :: "char \<Rightarrow> bool" where
  "digit_char c \<longleftrightarrow> dec_char c \<or> code c \<in> {178, 179, 185}"

definition isdecimal :: "string \<Rightarrow> bool" where
  "isdecimal s \<longleftrightarrow> s \<noteq> [] \<and> list_all dec_char s"

definition isdigit :: "string \<Rightarrow> bool" where
  "isdigit s \<longleftrightarrow> s \<noteq> [] \<and> list_all digit_char s"

definition isascii :: "string \<Rightarrow> bool" where
  "isascii s \<longleftrightarrow> list_all (\<lambda>c. code c < 128) s"

text \<open>
  Case mapping on Latin-1. U+00DF upper-cases to two characters; U+00B5 and U+00FF have their
  upper case outside Latin-1 and are left unchanged.
\<close>

definition lower_char :: "char \<Rightarrow> char" where
  "lower_char c = (let n = code c in
     if 65 \<le> n \<and> n \<le> 90 \<or> 192 \<le> n \<and> n \<le> 222 \<and> n \<noteq> 215 then char_of (n + 32) else c)"

definition lower :: "string \<Rightarrow> string" where
  "lower s = map lower_char s"

definition upper_char :: "char \<Rightarrow> string" where
  "upper_char c = (let n = code c in
     if 97 \<le> n \<and> n \<le> 122 \<or> 224 \<le> n \<and> n \<le> 254 \<and> n \<noteq> 247 then [char_of (n - 32)]
     else if n = 223 then ''SS'' else [c])"

definition upper :: "string \<Rightarrow> string" where
  "upper s = concat (map upper_char s)"

text \<open>\<open>s.partition(c)\<close> and \<open>s.rpartition(c)\<close> for a separator of one character; the middle
  component tells whether the separator was found.\<close>

definition partition_at :: "char \<Rightarrow> string \<Rightarrow> string \<times> bool \<times> string" where
  "partition_at c s = (let h = takeWhile (\<lambda>x. x \<noteq> c) s; t = dropWhile (\<lambda>x. x \<noteq> c) s
     in case t of [] \<Rightarrow> (h, False, []) | _ # r \<Rightarrow> (h, True, r))"

definition rpartition_at :: "char \<Rightarrow> string \<Rightarrow> string \<times> bool \<times> string" where
  "rpartition_at c s = (case partition_at c (rev s) of
     (h, found, t) \<Rightarrow> if found then (rev t, True, rev h) else ([], False, s))"

fun split_at :: "char \<Rightarrow> string \<Rightarrow> string list" where
  "split_at c [] = [[]]"
| "split_at c (x # xs) = (if x = c then [] # split_at c xs
     else case split_at c xs of [] \<Rightarrow> [[x]] | w # ws \<Rightarrow> (x # w) # ws)"

fun join :: "string \<Rightarrow> string list \<Rightarrow> string" where
  "join sep [] = []"
| "join sep [x] = x"
| "join sep (x # y # ys) = x @ sep @ join sep (y # ys)"

lemma strip_Nil [simp]: "strip [] = []"
  by (simp add: strip_def lstrip_def rstrip_by_def)

lemma dropWhile_rev_id: "(xs \<noteq> [] \<Longrightarrow> \<not> p (last xs)) \<Longrightarrow> rev (dropWhile p (rev xs)) = xs"
  by (cases xs rule: rev_cases) auto

lemma hd_rstrip: "xs \<noteq> [] \<Longrightarrow> \<not> p (hd xs) \<Longrightarrow> rstrip_by p xs \<noteq> [] \<and> hd (rstrip_by p xs) = hd xs"
proof (induction xs rule: rev_induct)
  case (snoc x xs)
  then show ?case by (cases "xs = []") (auto simp: rstrip_by_def)
qed simp

lemma last_rstrip: "rstrip_by p xs \<noteq> [] \<Longrightarrow> \<not> p (last (rstrip_by p xs))"
  using hd_dropWhile [of p "rev xs"] by (auto simp: rstrip_by_def last_rev)

text \<open>Stripping is idempotent: what is left begins and ends with a non-space.\<close>

lemma strip_idem [simp]: "strip (strip s) = strip s"
proof (cases "strip s = []")
  case False
  then have l: "lstrip s \<noteq> []" by (auto simp: strip_def rstrip_by_def)
  then have h: "\<not> is_space (hd (lstrip s))" by (simp add: lstrip_def hd_dropWhile)
  from hd_rstrip [of "lstrip s" is_space, OF l h] have "\<not> is_space (hd (strip s))" using h by (simp add: strip_def)
  then have "lstrip (strip s) = strip s" using False by (cases "strip s") (auto simp: lstrip_def)
  moreover have "\<not> is_space (last (strip s))"
    using last_rstrip False by (simp add: strip_def)
  ultimately show ?thesis using dropWhile_rev_id [of "strip s" is_space] by (metis rstrip_by_def strip_def)
qed simp

lemma strip_all: "list_all (\<lambda>c. \<not> is_space c) s \<Longrightarrow> strip s = s"
proof -
  assume a: "list_all (\<lambda>c. \<not> is_space c) s"
  then have "dropWhile is_space s = s" by (cases s) auto
  moreover have "s \<noteq> [] \<Longrightarrow> \<not> is_space (last s)" using a by (simp add: list_all_iff)
  ultimately show ?thesis
    unfolding strip_def lstrip_def rstrip_by_def by (simp add: dropWhile_rev_id)
qed

lemma dec_not_space: "dec_char c \<Longrightarrow> \<not> is_space c"
  by (auto simp: dec_char_def is_space_def Let_def)

lemma strip_decimal: "list_all dec_char s \<Longrightarrow> strip s = s"
  by (rule strip_all) (auto simp: list_all_iff dec_not_space)

lemma split_at_Nil_iff [simp]: "split_at c s \<noteq> []"
  by (induction s) (auto split: list.splits)

lemma split_at_no_sep: "c \<notin> set s \<Longrightarrow> split_at c s = [s]"
  by (induction s) auto

lemma split_at_append: "c \<notin> set s \<Longrightarrow> split_at c (s @ c # t) = s # split_at c t"
  by (induction s) auto

lemma split_at_join:
  "ws \<noteq> [] \<Longrightarrow> (\<And>w. w \<in> set ws \<Longrightarrow> c \<notin> set w) \<Longrightarrow> split_at c (join [c] ws) = ws"
  by (induction "[c]" ws rule: join.induct) (auto simp: split_at_append split_at_no_sep)

lemma partition_at_append: "c \<notin> set h \<Longrightarrow> partition_at c (h @ c # t) = (h, True, t)"
proof -
  assume a: "c \<notin> set h"
  have "takeWhile (\<lambda>x. x \<noteq> c) (h @ c # t) = h" using a by (induction h) auto
  moreover have "dropWhile (\<lambda>x. x \<noteq> c) (h @ c # t) = c # t" using a by (induction h) auto
  ultimately show ?thesis by (simp add: partition_at_def)
qed

lemma partition_at_none: "c \<notin> set s \<Longrightarrow> partition_at c s = (s, False, [])"
proof -
  assume "c \<notin> set s"
  then have "takeWhile (\<lambda>x. x \<noteq> c) s = s" "dropWhile (\<lambda>x. x \<noteq> c) s = []" by (induction s) auto
  then show ?thesis by (simp only: partition_at_def Let_def list.case)
qed

lemma partition_at_True: "partition_at c s = (h, True, t) \<Longrightarrow> s = h @ c # t \<and> c \<notin> set h"
proof -
  assume a: "partition_at c s = (h, True, t)"
  then obtain x where d: "dropWhile (\<lambda>x. x \<noteq> c) s = x # t" and h: "h = takeWhile (\<lambda>x. x \<noteq> c) s"
    by (auto simp: partition_at_def Let_def split: list.splits)
  then have "x = c" using hd_dropWhile [of "\<lambda>x. x \<noteq> c" s] by simp
  moreover have "s = h @ x # t" using d h takeWhile_dropWhile_id [of "\<lambda>x. x \<noteq> c" s] by simp
  moreover have "c \<notin> set h" unfolding h by (auto dest: set_takeWhileD)
  ultimately show ?thesis by simp
qed

section \<open>Integers as text\<close>

definition digit_of :: "char \<Rightarrow> nat" where
  "digit_of c = code c - 48"

definition digits_val :: "string \<Rightarrow> nat" where
  "digits_val s = foldl (\<lambda>a c. 10 * a + digit_of c) 0 s"

text \<open>The digits of an integer literal: single underscores are allowed between digits.\<close>

fun int_digits :: "string \<Rightarrow> string option" where
  "int_digits [] = None"
| "int_digits [c] = (if dec_char c then Some [c] else None)"
| "int_digits (c # d # cs) =
     (if \<not> dec_char c then None
      else map_option ((#) c) (int_digits (if d = CHR ''_'' then cs else d # cs)))"

text \<open>\<open>int(s)\<close> in base ten: surrounding white space and one sign are allowed.\<close>

definition py_int :: "string \<Rightarrow> int result" where
  "py_int s = (let t = strip s;
       (neg, u) = (case t of c # r \<Rightarrow> if c = CHR ''-'' then (True, r)
                                      else if c = CHR ''+'' then (False, r) else (False, t)
                           | [] \<Rightarrow> (False, t))
     in case int_digits u of None \<Rightarrow> Inl (ValueError ''invalid literal for int()'')
        | Some ds \<Rightarrow> Inr ((if neg then -1 else 1) * int (digits_val ds)))"

fun string_of_nat :: "nat \<Rightarrow> string" where
  "string_of_nat n = (if n < 10 then [char_of (48 + n)]
     else string_of_nat (n div 10) @ [char_of (48 + n mod 10)])"

declare string_of_nat.simps [simp del]

definition string_of_int :: "int \<Rightarrow> string" where
  "string_of_int i = (if i < 0 then CHR ''-'' # string_of_nat (nat (- i)) else string_of_nat (nat i))"

lemma dec_char_digit [simp]: "(d::nat) < 10 \<Longrightarrow> dec_char (char_of (48 + d))"
  by (simp add: dec_char_def)

lemma digit_of_char [simp]: "(d::nat) < 10 \<Longrightarrow> digit_of (char_of (48 + d)) = d"
  by (simp add: digit_of_def)

lemma string_of_nat_decimal: "string_of_nat n \<noteq> [] \<and> list_all dec_char (string_of_nat n)"
  by (induction n rule: string_of_nat.induct) (subst string_of_nat.simps, auto simp: string_of_nat.simps)

lemma digits_val_snoc: "digits_val (s @ [c]) = 10 * digits_val s + digit_of c"
  by (simp add: digits_val_def)

lemma digits_val_string_of_nat [simp]: "digits_val (string_of_nat n) = n"
proof (induction n rule: string_of_nat.induct)
  case (1 n)
  show ?case
  proof (cases "n < 10")
    case True
    then show ?thesis by (simp add: string_of_nat.simps [of n] digits_val_def)
  next
    case False
    with 1 show ?thesis by (simp add: string_of_nat.simps [of n] digits_val_snoc)
  qed
qed

lemma dec_not_underscore: "dec_char c \<Longrightarrow> c \<noteq> CHR ''_''"
  by (auto simp: dec_char_def)

lemma int_digits_decimal: "s \<noteq> [] \<Longrightarrow> list_all dec_char s \<Longrightarrow> int_digits s = Some s"
  by (induction s rule: int_digits.induct) (auto simp: dec_not_underscore)

lemma dec_not_sign: "dec_char c \<Longrightarrow> c \<noteq> CHR ''-'' \<and> c \<noteq> CHR ''+''"
  by (auto simp: dec_char_def)

lemma py_int_decimal: "isdecimal s \<Longrightarrow> py_int s = Inr (int (digits_val s))"
proof -
  assume "isdecimal s"
  then have s: "s \<noteq> []" "list_all dec_char s" by (auto simp: isdecimal_def)
  then obtain c r where cr: "s = c # r" and "dec_char c" by (cases s) auto
  then have "c \<noteq> CHR ''-''" "c \<noteq> CHR ''+''" by (auto simp: dec_not_sign)
  then show ?thesis using s cr int_digits_decimal [OF s] by (simp add: py_int_def strip_decimal)
qed

lemma isdecimal_string_of_nat [simp]: "isdecimal (string_of_nat n)"
  using string_of_nat_decimal [of n] by (simp add: isdecimal_def)

lemma py_int_string_of_nat [simp]: "py_int (string_of_nat n) = Inr (int n)"
  by (simp add: py_int_decimal)

section \<open>Dictionaries\<close>

text \<open>A \<open>dict\<close> is an association list in insertion order; assigning to a present key keeps
  its position.\<close>

type_synonym ('k, 'v) dict = "('k \<times> 'v) list"

definition dict_get :: "('k, 'v) dict \<Rightarrow> 'k \<Rightarrow> 'v option" where
  "dict_get d k = map_of d k"

fun dict_set :: "'k \<Rightarrow> 'v \<Rightarrow> ('k, 'v) dict \<Rightarrow> ('k, 'v) dict" where
  "dict_set k v [] = [(k, v)]"
| "dict_set k v ((k', v') # d) = (if k' = k then (k, v) # d else (k', v') # dict_set k v d)"

definition dict_del :: "'k \<Rightarrow> ('k, 'v) dict \<Rightarrow> ('k, 'v) dict" where
  "dict_del k d = filter (\<lambda>p. fst p \<noteq> k) d"

definition dict_wf :: "('k, 'v) dict \<Rightarrow> bool" where
  "dict_wf d \<longleftrightarrow> distinct (map fst d)"

text \<open>\<open>{key(x): x for x in xs}\<close>: later values win, first positions stay.\<close>

definition dict_of :: "('a \<Rightarrow> 'k) \<Rightarrow> 'a list \<Rightarrow> ('k, 'a) dict" where
  "dict_of key xs = fold (\<lambda>x. dict_set (key x) x) xs []"

text \<open>\<open>list(dict.fromkeys(xs))\<close>: duplicates removed, first occurrences kept.\<close>

fun dedup :: "'a list \<Rightarrow> 'a list" where
  "dedup [] = []"
| "dedup (x # xs) = x # removeAll x (dedup xs)"

lemma dict_get_set [simp, dict_simps]:
  "dict_get (dict_set k v d) k' = (if k' = k then Some v else dict_get d k')"
  by (induction d) (auto simp: dict_get_def)

lemma dict_set_same: "dict_get d k = Some v \<Longrightarrow> dict_set k v d = d"
  by (induction d) (auto simp: dict_get_def split: if_splits)

lemma dict_get_del [simp, dict_simps]:
  "dict_get (dict_del k d) k' = (if k' = k then None else dict_get d k')"
  by (induction d) (auto simp: dict_get_def dict_del_def)

lemma dict_get_Nil [simp, dict_simps]: "dict_get [] k = None"
  by (simp add: dict_get_def)

lemma dict_get_None_iff: "dict_get d k = None \<longleftrightarrow> k \<notin> fst ` set d"
  by (simp add: dict_get_def map_of_eq_None_iff)

lemma fst_set_dict_set [dict_simps]: "fst ` set (dict_set k v d) = insert k (fst ` set d)"
  by (induction k v d rule: dict_set.induct) (simp_all add: insert_commute)

lemma dict_wf_Nil [simp, dict_simps]: "dict_wf []"
  by (simp add: dict_wf_def)

lemma map_fst_dict_set:
  "map fst (dict_set k v d) = (if k \<in> fst ` set d then map fst d else map fst d @ [k])"
  by (induction k v d rule: dict_set.induct) simp_all

lemma dict_wf_set [simp, dict_simps]: "dict_wf d \<Longrightarrow> dict_wf (dict_set k v d)"
  by (auto simp: dict_wf_def map_fst_dict_set)

lemma dict_wf_del [simp, dict_simps]: "dict_wf d \<Longrightarrow> dict_wf (dict_del k d)"
  unfolding dict_wf_def dict_del_def by (induction d) auto

lemma dict_wf_mem: "dict_wf d \<Longrightarrow> (k, v) \<in> set d \<longleftrightarrow> dict_get d k = Some v"
  by (simp add: dict_wf_def dict_get_def)

lemma dict_wf_of_aux: "dict_wf d \<Longrightarrow> dict_wf (fold (\<lambda>x. dict_set (key x) x) xs d)"
  by (induction xs arbitrary: d) auto

lemma dict_wf_of [simp]: "dict_wf (dict_of key xs)"
  by (simp add: dict_of_def dict_wf_of_aux)

lemma dict_of_get_aux:
  "dict_get (fold (\<lambda>x. dict_set (key x) x) xs d) k =
     (case find (\<lambda>x. key x = k) (rev xs) of None \<Rightarrow> dict_get d k | Some x \<Rightarrow> Some x)"
  by (induction xs arbitrary: d rule: rev_induct) auto

lemma dict_of_get: "dict_get (dict_of key xs) k = find (\<lambda>x. key x = k) (rev xs)"
  by (simp add: dict_of_def dict_of_get_aux split: option.splits)

lemma dict_of_key: "(k, v) \<in> set (dict_of key xs) \<Longrightarrow> key v = k \<and> v \<in> set xs"
proof -
  assume "(k, v) \<in> set (dict_of key xs)"
  then have "find (\<lambda>x. key x = k) (rev xs) = Some v"
    by (simp add: dict_wf_mem dict_of_get)
  then obtain i where "i < length (rev xs)" "v = rev xs ! i" "key v = k"
    by (auto simp: find_Some_iff)
  then show ?thesis by (metis nth_mem set_rev)
qed

lemma set_dedup [simp]: "set (dedup xs) = set xs"
  by (induction xs) auto

lemma distinct_dedup [simp]: "distinct (dedup xs)"
  by (induction xs) (auto simp: distinct_removeAll)

lemma dedup_Nil_iff [simp]: "dedup xs = [] \<longleftrightarrow> xs = []"
  by (cases xs) auto

lemma dedup_distinct: "distinct xs \<Longrightarrow> dedup xs = xs"
  by (induction xs) auto

lemma not_Some_pair_eq [simp]: "(\<forall>a b. x \<noteq> Some (a, b)) \<longleftrightarrow> x = None"
  by (cases x) auto

section \<open>Sorting\<close>

text \<open>\<open>sorted(xs, key=f)\<close> is stable, and stays stable under \<open>reverse=True\<close>.\<close>

definition sorted_by :: "('a \<Rightarrow> 'b::linorder) \<Rightarrow> 'a list \<Rightarrow> 'a list" where
  "sorted_by f xs = sort_key f xs"

definition sorted_by_desc :: "('a \<Rightarrow> 'b::linorder) \<Rightarrow> 'a list \<Rightarrow> 'a list" where
  "sorted_by_desc f xs = rev (sort_key f (rev xs))"

lemma distinct_map_sort_key [simp]: "distinct (map f (sort_key g xs)) \<longleftrightarrow> distinct (map f xs)"
  by (simp add: distinct_map)

lemma sorted_by_facts [simp]:
  "set (sorted_by f xs) = set xs" "length (sorted_by f xs) = length xs"
  "sorted (map f (sorted_by f xs))" "distinct (sorted_by f xs) = distinct xs"
  by (simp_all add: sorted_by_def)

lemma sorted_by_desc_facts [simp]:
  "set (sorted_by_desc f xs) = set xs" "length (sorted_by_desc f xs) = length xs"
  "sorted (map f (rev (sorted_by_desc f xs)))" "distinct (sorted_by_desc f xs) = distinct xs"
  by (simp_all add: sorted_by_desc_def)

end
