(* ===== verification/Json.thy ===== *)
theory Json
  imports PyBase
begin

text \<open>
  JSON as the code uses it: the values \<open>json.loads\<close> returns and \<open>json.dumps\<close> accepts, the
  printer with Python's default and compact separators (ASCII output, \<open>sort_keys\<close> as a
  separate pass) and the parser. A float is kept as its literal; nothing here computes with it.
  The parser takes fuel; \<open>json_loads\<close> gives it enough for every text (each call but the ones
  that step from a list to its first item consumes a character). Escapes above \<open>\u00ff\<close> are
  outside the character range of the development and are rejected.
  Main result: \<open>json_loads_dumps\<close>, parsing what was printed gives the value back.
\<close>

datatype json =
    JNull
  | JBool bool
  | JInt int
  | JFloat string
  | JStr string
  | JArr "json list"
  | JObj "(string \<times> json) list"

type_synonym jdict = "(string, json) dict"

section \<open>Printing\<close>

definition hex_char :: "nat \<Rightarrow> char" where
  "hex_char n = (if n < 10 then char_of (48 + n) else char_of (87 + n))"

definition hex_val :: "char \<Rightarrow> nat option" where
  "hex_val c = (let n = code c in
     if 48 \<le> n \<and> n \<le> 57 then Some (n - 48)
     else if 97 \<le> n \<and> n \<le> 102 then Some (n - 87)
     else if 65 \<le> n \<and> n \<le> 70 then Some (n - 55) else None)"

definition esc_char :: "char \<Rightarrow> string" where
  "esc_char c = (let n = code c in
     if n = 34 then [CHR 0x5C, CHR 0x22]
     else if n = 92 then [CHR 0x5C, CHR 0x5C]
     else if n = 10 then [CHR 0x5C, CHR ''n'']
     else if n = 13 then [CHR 0x5C, CHR ''r'']
     else if n = 9 then [CHR 0x5C, CHR ''t'']
     else if n = 12 then [CHR 0x5C, CHR ''f'']
     else if n = 8 then [CHR 0x5C, CHR ''b'']
     else if 32 \<le> n \<and> n \<le> 126 then [c]
     else [CHR 0x5C, CHR ''u'', CHR ''0'', CHR ''0'', hex_char (n div 16), hex_char (n mod 16)])"

fun esc_str :: "string \<Rightarrow> string" where
  "esc_str [] = []"
| "esc_str (c # s) = esc_char c @ esc_str s"

definition quote_str :: "string \<Rightarrow> string" where
  "quote_str s = CHR 0x22 # esc_str s @ [CHR 0x22]"

definition item_sep :: "bool \<Rightarrow> string" where
  "item_sep compact = (if compact then '','' else '', '')"

definition key_sep :: "bool \<Rightarrow> string" where
  "key_sep compact = (if compact then '':'' else '': '')"

fun jprint :: "bool \<Rightarrow> json \<Rightarrow> string"
and jprint_items :: "bool \<Rightarrow> json list \<Rightarrow> string"
and jprint_members :: "bool \<Rightarrow> (string \<times> json) list \<Rightarrow> string" where
  "jprint b JNull = ''null''"
| "jprint b (JBool x) = (if x then ''true'' else ''false'')"
| "jprint b (JInt i) = string_of_int i"
| "jprint b (JFloat t) = t"
| "jprint b (JStr s) = quote_str s"
| "jprint b (JArr vs) = CHR ''['' # jprint_items b vs @ [CHR '']'']"
| "jprint b (JObj kvs) = CHR ''{'' # jprint_members b kvs @ [CHR ''}'']"
| "jprint_items b [] = []"
| "jprint_items b (v # vs) = jprint b v @ (if vs = [] then [] else item_sep b @ jprint_items b vs)"
| "jprint_members b [] = []"
| "jprint_members b ((k, v) # kvs) = quote_str k @ key_sep b @ jprint b v @
     (if kvs = [] then [] else item_sep b @ jprint_members b kvs)"

text \<open>\<open>json.dumps(v)\<close>, with \<open>separators=(",", ":")\<close> when \<open>compact\<close>.\<close>

definition json_dumps :: "bool \<Rightarrow> json \<Rightarrow> string" where
  "json_dumps compact v = jprint compact v"

text \<open>\<open>sort_keys=True\<close>: the members of every object in key order.\<close>

fun sort_keys :: "json \<Rightarrow> json"
and sort_keys_items :: "json list \<Rightarrow> json list"
and sort_keys_members :: "(string \<times> json) list \<Rightarrow> (string \<times> json) list" where
  "sort_keys (JArr vs) = JArr (sort_keys_items vs)"
| "sort_keys (JObj kvs) = JObj (sort_key fst (sort_keys_members kvs))"
| "sort_keys v = v"
| "sort_keys_items [] = []"
| "sort_keys_items (v # vs) = sort_keys v # sort_keys_items vs"
| "sort_keys_members [] = []"
| "sort_keys_members ((k, v) # kvs) = (k, sort_keys v) # sort_keys_members kvs"

section \<open>Parsing\<close>

definition json_ws :: "char \<Rightarrow> bool" where
  "json_ws c \<longleftrightarrow> c = CHR '' '' \<or> code c = 9 \<or> code c = 10 \<or> code c = 13"

definition skip :: "string \<Rightarrow> string" where
  "skip s = dropWhile json_ws s"

definition simple_esc :: "char \<Rightarrow> char option" where
  "simple_esc c = (if code c = 34 then Some (CHR 0x22) else if code c = 92 then Some (CHR 0x5C)
     else if c = CHR ''/'' then Some c else if c = CHR ''n'' then Some (CHR 0x0A)
     else if c = CHR ''r'' then Some (CHR 0x0D) else if c = CHR ''t'' then Some (CHR 0x09)
     else if c = CHR ''f'' then Some (CHR 0x0C) else if c = CHR ''b'' then Some (CHR 0x08)
     else None)"

definition hex4 :: "char \<Rightarrow> char \<Rightarrow> char \<Rightarrow> char \<Rightarrow> nat option" where
  "hex4 a b c d = (case (hex_val a, hex_val b, hex_val c, hex_val d) of
     (Some w, Some x, Some y, Some z) \<Rightarrow> Some (((w * 16 + x) * 16 + y) * 16 + z) | _ \<Rightarrow> None)"

fun parse_str :: "string \<Rightarrow> (string \<times> string) option" where
  "parse_str [] = None"
| "parse_str (c # r) =
     (if code c = 34 then Some ([], r)
      else if code c = 92 then
        (case r of [] \<Rightarrow> None
         | e # r' \<Rightarrow>
             if e = CHR ''u'' then
               (case r' of w # x # y # z # r'' \<Rightarrow>
                  (case hex4 w x y z of None \<Rightarrow> None
                   | Some n \<Rightarrow> if n < 256 then map_option (apfst ((#) (char_of n))) (parse_str r'')
                               else None)
                | _ \<Rightarrow> None)
             else (case simple_esc e of None \<Rightarrow> None
                   | Some d \<Rightarrow> map_option (apfst ((#) d)) (parse_str r')))
      else if code c < 32 then None
      else map_option (apfst ((#) c)) (parse_str r))"

definition num_char :: "char \<Rightarrow> bool" where
  "num_char c \<longleftrightarrow> dec_char c \<or> c \<in> {CHR ''-'', CHR ''+'', CHR ''.'', CHR ''e'', CHR ''E''}"

definition drop_minus :: "string \<Rightarrow> string" where
  "drop_minus t = (case t of c # r \<Rightarrow> if c = CHR ''-'' then r else t | [] \<Rightarrow> [])"

definition int_part_ok :: "string \<Rightarrow> bool" where
  "int_part_ok t \<longleftrightarrow> t \<noteq> [] \<and> (hd t = CHR ''0'' \<longrightarrow> length t = 1)"

definition is_int_token :: "string \<Rightarrow> bool" where
  "is_int_token t \<longleftrightarrow> int_part_ok (drop_minus t) \<and> list_all dec_char (drop_minus t)"

definition exp_ok :: "string \<Rightarrow> bool" where
  "exp_ok r \<longleftrightarrow> (case r of [] \<Rightarrow> False | c # d \<Rightarrow> (c = CHR ''e'' \<or> c = CHR ''E'') \<and>
     (let u = (case d of x # y \<Rightarrow> if x = CHR ''-'' \<or> x = CHR ''+'' then y else d | [] \<Rightarrow> [])
      in u \<noteq> [] \<and> list_all dec_char u))"

definition is_float_token :: "string \<Rightarrow> bool" where
  "is_float_token t \<longleftrightarrow> (let u = drop_minus t; i = takeWhile dec_char u; r = dropWhile dec_char u
     in int_part_ok i \<and> (case r of [] \<Rightarrow> False
        | c # r' \<Rightarrow> if c = CHR ''.'' then
             takeWhile dec_char r' \<noteq> [] \<and> (dropWhile dec_char r' = [] \<or> exp_ok (dropWhile dec_char r'))
           else exp_ok r))"

definition parse_num :: "string \<Rightarrow> (json \<times> string) option" where
  "parse_num s = (let t = takeWhile num_char s; r = dropWhile num_char s
     in if is_int_token t then
          Some (JInt ((if hd t = CHR ''-'' then -1 else 1) * int (digits_val (drop_minus t))), r)
        else if is_float_token t then Some (JFloat t, r) else None)"

definition keyword :: "string \<Rightarrow> json \<Rightarrow> string \<Rightarrow> (json \<times> string) option" where
  "keyword w v s = (if take (length w) s = w then Some (v, drop (length w) s) else None)"

fun parse_value :: "nat \<Rightarrow> string \<Rightarrow> (json \<times> string) option"
and parse_items :: "nat \<Rightarrow> string \<Rightarrow> (json list \<times> string) option"
and parse_members :: "nat \<Rightarrow> string \<Rightarrow> ((string \<times> json) list \<times> string) option" where
  "parse_value 0 s = None"
| "parse_value (Suc n) s = (case s of [] \<Rightarrow> None
     | c # r \<Rightarrow>
         if code c = 34 then map_option (apfst JStr) (parse_str r)
         else if c = CHR ''['' then
           (case skip r of [] \<Rightarrow> None
            | d # r' \<Rightarrow> if d = CHR '']'' then Some (JArr [], r')
                        else map_option (apfst JArr) (parse_items n (d # r')))
         else if c = CHR ''{'' then
           (case skip r of [] \<Rightarrow> None
            | d # r' \<Rightarrow> if d = CHR ''}'' then Some (JObj [], r')
                        else map_option (apfst (\<lambda>kvs. JObj (fold (\<lambda>(k, v). dict_set k v) kvs [])))
                               (parse_members n (d # r')))
         else if c = CHR ''n'' then keyword ''null'' JNull s
         else if c = CHR ''t'' then keyword ''true'' (JBool True) s
         else if c = CHR ''f'' then keyword ''false'' (JBool False) s
         else if c = CHR ''N'' then keyword ''NaN'' (JFloat ''NaN'') s
         else if c = CHR ''I'' then keyword ''Infinity'' (JFloat ''Infinity'') s
         else if take 2 s = ''-I'' then keyword ''-Infinity'' (JFloat ''-Infinity'') s
         else parse_num s)"
| "parse_items 0 s = None"
| "parse_items (Suc n) s = (case parse_value n s of None \<Rightarrow> None
     | Some (v, r) \<Rightarrow> (case skip r of [] \<Rightarrow> None
         | c # r' \<Rightarrow> if c = CHR '','' then
               map_option (apfst ((#) v)) (parse_items n (skip r'))
             else if c = CHR '']'' then Some ([v], r') else None))"
| "parse_members 0 s = None"
| "parse_members (Suc n) s = (case s of [] \<Rightarrow> None
     | q # s' \<Rightarrow> if code q \<noteq> 34 then None
       else (case parse_str s' of None \<Rightarrow> None
         | Some (k, r) \<Rightarrow> (case skip r of [] \<Rightarrow> None
             | c # r' \<Rightarrow> if c \<noteq> CHR '':'' then None
               else (case parse_value n (skip r') of None \<Rightarrow> None
                 | Some (v, r1) \<Rightarrow> (case skip r1 of [] \<Rightarrow> None
                     | d # r2 \<Rightarrow> if d = CHR '','' then
                           map_option (apfst ((#) (k, v))) (parse_members n (skip r2))
                         else if d = CHR ''}'' then Some ([(k, v)], r2) else None)))))"

text \<open>\<open>json.loads\<close> on a \<open>str\<close>.\<close>

definition json_loads :: "string \<Rightarrow> json result" where
  "json_loads s = (case parse_value (2 * length s + 2) (skip s) of
     None \<Rightarrow> Inl JSONDecodeError
   | Some (v, r) \<Rightarrow> if skip r = [] then Inr v else Inl JSONDecodeError)"

section \<open>Round trip\<close>

text \<open>The values the printer is exact on: no key occurs twice in an object, and a float is a
  JSON float literal.\<close>

fun json_wf :: "json \<Rightarrow> bool"
and json_wf_items :: "json list \<Rightarrow> bool"
and json_wf_members :: "(string \<times> json) list \<Rightarrow> bool" where
  "json_wf (JFloat t) = is_float_token t"
| "json_wf (JArr vs) = json_wf_items vs"
| "json_wf (JObj kvs) = (distinct (map fst kvs) \<and> json_wf_members kvs)"
| "json_wf v = True"
| "json_wf_items [] = True"
| "json_wf_items (v # vs) = (json_wf v \<and> json_wf_items vs)"
| "json_wf_members [] = True"
| "json_wf_members ((k, v) # kvs) = (json_wf v \<and> json_wf_members kvs)"

lemma hex_val_char [simp]: "n < 16 \<Longrightarrow> hex_val (hex_char n) = Some n"
  by (auto simp: hex_val_def hex_char_def Let_def)

lemma hex4_code: "n < 256 \<Longrightarrow> hex4 (CHR ''0'') (CHR ''0'') (hex_char (n div 16)) (hex_char (n mod 16)) = Some n"
proof -
  assume "n < 256"
  then have "n div 16 < 16" "n mod 16 < 16" by auto
  moreover have "hex_val (CHR ''0'') = Some 0" by (simp add: hex_val_def Let_def)
  ultimately show ?thesis by (simp add: hex4_def)
qed

lemma parse_str_esc_char: "parse_str (esc_char c @ t) = map_option (apfst ((#) c)) (parse_str t)"
proof -
  have 256: "code c < 256" by (rule nat_of_char_less_256)
  consider "code c \<in> {34, 92, 10, 13, 9, 12, 8}"
    | "code c \<notin> {34, 92, 10, 13, 9, 12, 8}" "32 \<le> code c \<and> code c \<le> 126"
    | "code c \<notin> {34, 92, 10, 13, 9, 12, 8}" "\<not> (32 \<le> code c \<and> code c \<le> 126)"
    by blast
  then show ?thesis
  proof cases
    case 1
    then have "code c \<in> code ` {CHR 0x22, CHR 0x5C, CHR 0x0A, CHR 0x0D, CHR 0x09, CHR 0x0C, CHR 0x08}"
      by auto
    then have "c \<in> {CHR 0x22, CHR 0x5C, CHR 0x0A, CHR 0x0D, CHR 0x09, CHR 0x0C, CHR 0x08}"
      by (simp only: inj_image_mem_iff [OF inj_of_char])
    then show ?thesis by (auto simp: esc_char_def simple_esc_def)
  next
    case 2
    then show ?thesis by (auto simp: esc_char_def Let_def)
  next
    case 3
    then have "esc_char c = [CHR 0x5C, CHR ''u'', CHR ''0'', CHR ''0'',
        hex_char (code c div 16), hex_char (code c mod 16)]"
      by (auto simp: esc_char_def Let_def)
    then show ?thesis using 256 by (simp add: hex4_code del: hex_val_char)
  qed
qed

lemma parse_str_esc: "parse_str (esc_str s @ CHR 0x22 # r) = Some (s, r)"
  by (induction s) (simp_all add: parse_str_esc_char)

lemma skip_keep: "\<not> json_ws c \<Longrightarrow> skip (c # r) = c # r"
  by (simp add: skip_def)

lemma skip_space [simp]: "skip (CHR '' '' # r) = skip r"
  by (simp add: skip_def json_ws_def)

lemma skip_Nil [simp]: "skip [] = []"
  by (simp add: skip_def)

text \<open>How the text of a value begins: never with white space, and never with the bracket
  that closes an empty list or object.\<close>

definition first_ok :: "string \<Rightarrow> bool" where
  "first_ok s \<longleftrightarrow> (case s of [] \<Rightarrow> False | c # _ \<Rightarrow> \<not> json_ws c \<and> c \<noteq> CHR '']'' \<and> c \<noteq> CHR ''}'')"

lemma first_ok_skip [simp]: "first_ok s \<Longrightarrow> skip (s @ r) = s @ r"
  by (auto simp: first_ok_def skip_def split: list.splits)

lemma dec_not_ws: "dec_char c \<Longrightarrow> \<not> json_ws c \<and> c \<noteq> CHR '']'' \<and> c \<noteq> CHR ''}''"
  by (auto simp: dec_char_def json_ws_def)

lemma first_ok_nat: "first_ok (string_of_nat n)"
  using string_of_nat_decimal [of n] by (cases "string_of_nat n") (auto simp: first_ok_def dec_not_ws)

lemma first_ok_minus [simp]: "first_ok (CHR ''-'' # s)"
  by (simp add: first_ok_def json_ws_def)

lemma first_ok_float: "is_float_token t \<Longrightarrow> first_ok t"
proof -
  assume f: "is_float_token t"
  show ?thesis
  proof (cases t)
    case (Cons c r)
    with f have "c = CHR ''-'' \<or> dec_char c"
      by (auto simp: is_float_token_def drop_minus_def int_part_ok_def Let_def split: if_splits)
    then show ?thesis using Cons dec_not_ws by (auto simp: first_ok_def json_ws_def)
  qed (use f in \<open>simp add: is_float_token_def drop_minus_def int_part_ok_def Let_def\<close>)
qed

lemma first_ok_print: "json_wf v \<Longrightarrow> first_ok (jprint b v)"
proof (cases v)
  case (JInt i)
  then show ?thesis by (simp add: string_of_int_def first_ok_nat)
qed (auto simp: first_ok_float quote_str_def, auto simp: first_ok_def json_ws_def)

lemma string_of_nat_int_ok: "int_part_ok (string_of_nat n)"
proof (induction n rule: string_of_nat.induct)
  case (1 n)
  show ?case
  proof (cases "n < 10")
    case True
    then show ?thesis by (simp add: string_of_nat.simps [of n] int_part_ok_def)
  next
    case False
    then have d: "n div 10 \<noteq> 0" by auto
    have "hd (string_of_nat (n div 10)) \<noteq> CHR ''0''"
    proof
      assume z: "hd (string_of_nat (n div 10)) = CHR ''0''"
      with 1 [OF False] obtain c where "string_of_nat (n div 10) = [c]"
        by (auto simp: int_part_ok_def length_Suc_conv)
      with z have "digits_val (string_of_nat (n div 10)) = 0"
        by (simp add: digits_val_def digit_of_def)
      with d show False by simp
    qed
    then show ?thesis using False string_of_nat_decimal [of "n div 10"]
      by (simp add: string_of_nat.simps [of n] int_part_ok_def)
  qed
qed

definition rest_ok :: "string \<Rightarrow> bool" where
  "rest_ok r \<longleftrightarrow> (case r of [] \<Rightarrow> True | c # _ \<Rightarrow> \<not> num_char c)"

lemma takeWhile_rest: "list_all p t \<Longrightarrow> (case r of [] \<Rightarrow> True | c # _ \<Rightarrow> \<not> p c) \<Longrightarrow>
    takeWhile p (t @ r) = t \<and> dropWhile p (t @ r) = r"
  by (induction t) (auto split: list.splits)

lemma parse_num_token:
  "list_all num_char t \<Longrightarrow> rest_ok r \<Longrightarrow> parse_num (t @ r) =
     (if is_int_token t then
        Some (JInt ((if hd t = CHR ''-'' then -1 else 1) * int (digits_val (drop_minus t))), r)
      else if is_float_token t then Some (JFloat t, r) else None)"
  using takeWhile_rest [of num_char t r] by (simp add: parse_num_def rest_ok_def)

lemma num_chars_nat: "list_all num_char (string_of_nat n)"
  using string_of_nat_decimal [of n] by (auto simp: list_all_iff num_char_def)

lemma drop_minus_nat: "drop_minus (string_of_nat n) = string_of_nat n"
  using string_of_nat_decimal [of n]
  by (cases "string_of_nat n") (auto simp: drop_minus_def dest: dec_not_sign)

lemma hd_nat_not_minus: "hd (string_of_nat n) \<noteq> CHR ''-''"
  using string_of_nat_decimal [of n] by (cases "string_of_nat n") (auto simp: dec_not_sign)

lemma is_int_token_int: "is_int_token (string_of_int i)"
  using string_of_nat_decimal string_of_nat_int_ok
  by (simp add: string_of_int_def is_int_token_def drop_minus_nat) (simp add: drop_minus_def)

lemma parse_num_int: "rest_ok r \<Longrightarrow> parse_num (string_of_int i @ r) = Some (JInt i, r)"
proof -
  assume r: "rest_ok r"
  have "list_all num_char (string_of_int i)"
    using num_chars_nat by (simp add: string_of_int_def) (simp add: num_char_def)
  from parse_num_token [OF this r] is_int_token_int [of i] show ?thesis
    by (auto simp: string_of_int_def drop_minus_nat hd_nat_not_minus) (simp_all add: drop_minus_def)
qed

lemma num_chars_float: "is_float_token t \<Longrightarrow> list_all num_char t"
proof -
  assume f: "is_float_token t"
  have d: "list_all num_char xs" if "list_all dec_char xs" for xs
    using that by (auto simp: list_all_iff num_char_def)
  have dt: "list_all num_char (takeWhile dec_char xs)" for xs
    by (rule d) (auto simp: list_all_iff dest: set_takeWhileD)
  have e: "list_all num_char r" if "exp_ok r" for r
    using that by (auto simp: exp_ok_def Let_def num_char_def list_all_iff split: list.splits if_splits)
  have join: "list_all num_char xs" if "list_all num_char (dropWhile dec_char xs)" for xs
    using that dt [of xs] by (metis list_all_append takeWhile_dropWhile_id)
  have r: "list_all num_char (dropWhile dec_char (drop_minus t))"
  proof (cases "dropWhile dec_char (drop_minus t)")
    case (Cons c r)
    show ?thesis
    proof (cases "c = CHR ''.''")
      case True
      have "dropWhile dec_char r = [] \<or> exp_ok (dropWhile dec_char r)"
        using f Cons True by (simp add: is_float_token_def Let_def del: dropWhile_eq_Nil_conv)
      then have "list_all num_char (dropWhile dec_char r)" 
        by (elim disjE) (simp_all add: e del: dropWhile_eq_Nil_conv)
      from join [OF this] show ?thesis using True Cons by (simp add: num_char_def)
    next
      case False
      then have "exp_ok (c # r)" using f Cons by (simp add: is_float_token_def Let_def)
      from e [OF this] show ?thesis using Cons by simp
    qed
  qed (simp del: dropWhile_eq_Nil_conv)
  then have "list_all num_char (drop_minus t)" by (rule join)
  then show ?thesis by (auto simp: drop_minus_def num_char_def split: list.splits if_splits)
qed

lemma float_not_int: "is_float_token t \<Longrightarrow> \<not> is_int_token t"
proof
  assume f: "is_float_token t" and i: "is_int_token t"
  then have "dropWhile dec_char (drop_minus t) = []" by (simp add: is_int_token_def list_all_iff)
  with f show False by (simp add: is_float_token_def Let_def)
qed

lemma parse_num_float: "is_float_token t \<Longrightarrow> rest_ok r \<Longrightarrow> parse_num (t @ r) = Some (JFloat t, r)"
  by (simp add: parse_num_token num_chars_float float_not_int)

lemma rest_ok_sep [simp]:
  "rest_ok []" "rest_ok (CHR '','' # r)" "rest_ok (CHR '']'' # r)" "rest_ok (CHR ''}'' # r)"
  by (simp_all add: rest_ok_def num_char_def dec_char_def)

lemma token_first: "is_int_token t \<or> is_float_token t \<Longrightarrow>
    \<exists>c u. t = c # u \<and> (c = CHR ''-'' \<and> u \<noteq> [] \<and> dec_char (hd u) \<or> dec_char c)"
proof -
  assume "is_int_token t \<or> is_float_token t"
  then have d: "drop_minus t \<noteq> [] \<and> dec_char (hd (drop_minus t))"
    by (cases "drop_minus t")
      (auto simp: is_int_token_def is_float_token_def int_part_ok_def Let_def split: if_splits)
  then obtain c u where "t = c # u" by (cases t) (auto simp: drop_minus_def)
  with d show ?thesis by (auto simp: drop_minus_def split: if_splits)
qed

lemma parse_value_num:
  assumes "is_int_token t \<or> is_float_token t"
  shows "parse_value (Suc n) (t @ r) = parse_num (t @ r)"
proof -
  from token_first [OF assms] obtain c u where t: "t = c # u"
    and c: "c = CHR ''-'' \<and> u \<noteq> [] \<and> dec_char (hd u) \<or> dec_char c" by blast
  have "\<not> (c = CHR ''-'' \<and> take (Suc 0) u @ take (Suc 0 - length u) r = ''I'')"
    using c by (cases u) (auto simp: dec_char_def)
  moreover have "code c \<noteq> 34" using c by (auto simp: dec_char_def)
  moreover have "c \<noteq> CHR ''[''" "c \<noteq> CHR ''{''" "c \<noteq> CHR ''n''" "c \<noteq> CHR ''t''" "c \<noteq> CHR ''f''"
      "c \<noteq> CHR ''N''" "c \<noteq> CHR ''I''"
    using c by (auto simp: dec_char_def)
  ultimately show ?thesis unfolding t by auto
qed

lemma fold_dict_set_distinct:
  "distinct (map fst (d @ kvs)) \<Longrightarrow> fold (\<lambda>(k, v). dict_set k v) kvs d = d @ kvs"
proof (induction kvs arbitrary: d)
  case (Cons kv kvs)
  have new: "dict_set k v d = d @ [(k, v)]" if "k \<notin> fst ` set d" for k and v :: 'b
    using that by (induction k v d rule: dict_set.induct) auto
  from Cons.prems have "fst kv \<notin> fst ` set d" by auto
  then show ?case using Cons by (simp add: new split_beta)
qed simp

lemma quote_first [simp]: "skip (quote_str k @ r) = quote_str k @ r"
  by (simp add: quote_str_def skip_def json_ws_def)

lemma item_sep_skip: "skip (item_sep b @ r) = item_sep b @ r"
  by (simp add: item_sep_def skip_def json_ws_def)

text \<open>One step of the parser for each form of the printer's output; the recursive calls are premises.\<close>

lemma parse_array:
  assumes "json_wf_items vs" "vs \<noteq> [] \<Longrightarrow> parse_items m (jprint_items b vs @ CHR '']'' # r) = Some (vs, r)"
  shows "parse_value (Suc m) (jprint b (JArr vs) @ r) = Some (JArr vs, r)"
proof (cases vs)
  case Nil
  then show ?thesis by (simp add: skip_def json_ws_def)
next
  case (Cons v ws)
  then have "first_ok (jprint b v)" using assms(1) by (simp add: first_ok_print)
  then obtain c t where "jprint_items b vs = c # t" "c \<noteq> CHR '']''" "\<not> json_ws c"
    using Cons by (cases "jprint b v") (auto simp: first_ok_def)
  then show ?thesis using assms(2) Cons by (simp add: skip_keep)
qed

lemma parse_object:
  assumes "distinct (map fst kvs)" "kvs \<noteq> [] \<Longrightarrow> parse_members m (jprint_members b kvs @ CHR ''}'' # r) = Some (kvs, r)"
  shows "parse_value (Suc m) (jprint b (JObj kvs) @ r) = Some (JObj kvs, r)"
proof (cases kvs)
  case Nil
  then show ?thesis by (simp add: skip_def json_ws_def)
next
  case (Cons kv ws)
  then obtain t where "jprint_members b kvs = CHR 0x22 # t" by (cases kv) (simp add: quote_str_def)
  moreover have "fold (\<lambda>(k, v). dict_set k v) kvs [] = kvs" using assms(1) by (simp add: fold_dict_set_distinct)
  ultimately show ?thesis using assms(2) Cons by (simp add: skip_keep json_ws_def)
qed

lemma rest_ok_item_sep [simp]: "rest_ok (item_sep b @ r)"
  by (simp add: item_sep_def)

lemma parse_item_last:
  "parse_value m (jprint b v @ CHR '']'' # r) = Some (v, CHR '']'' # r) \<Longrightarrow>
     parse_items (Suc m) (jprint_items b [v] @ CHR '']'' # r) = Some ([v], r)"
  by (simp add: skip_keep json_ws_def)

lemma parse_item_more:
  assumes "json_wf_items vs" "vs \<noteq> []"
    and "parse_value m (jprint b v @ item_sep b @ jprint_items b vs @ CHR '']'' # r) = Some (v, item_sep b @ jprint_items b vs @ CHR '']'' # r)"
    and "parse_items m (jprint_items b vs @ CHR '']'' # r) = Some (vs, r)"
  shows "parse_items (Suc m) (jprint_items b (v # vs) @ CHR '']'' # r) = Some (v # vs, r)"
proof -
  from assms(2) obtain w ws where "vs = w # ws" by (cases vs) auto
  then have "first_ok (jprint_items b vs)"
    using first_ok_print [of w b] assms(1) by (cases "jprint b w") (auto simp: first_ok_def)
  then show ?thesis using assms by (cases b) (simp_all add: item_sep_def skip_keep json_ws_def)
qed

lemma parse_member_last:
  assumes "json_wf v" "parse_value m (jprint b v @ CHR ''}'' # r) = Some (v, CHR ''}'' # r)"
  shows "parse_members (Suc m) (jprint_members b [(k, v)] @ CHR ''}'' # r) = Some ([(k, v)], r)"
  using assms first_ok_print [of v b]
  by (cases b) (simp_all add: quote_str_def parse_str_esc key_sep_def skip_keep json_ws_def)

lemma parse_member_more:
  assumes "json_wf v" "kvs \<noteq> []"
    and "parse_value m (jprint b v @ item_sep b @ jprint_members b kvs @ CHR ''}'' # r) = Some (v, item_sep b @ jprint_members b kvs @ CHR ''}'' # r)"
    and "parse_members m (jprint_members b kvs @ CHR ''}'' # r) = Some (kvs, r)"
  shows "parse_members (Suc m) (jprint_members b ((k, v) # kvs) @ CHR ''}'' # r) = Some ((k, v) # kvs, r)"
proof -
  from assms(2) obtain j w ws where "kvs = (j, w) # ws" by (cases kvs) auto
  then have "skip (jprint_members b kvs @ CHR ''}'' # r) = jprint_members b kvs @ CHR ''}'' # r" by simp
  then show ?thesis using assms first_ok_print [OF assms(1), of b]
    by (cases b) (simp_all add: quote_str_def parse_str_esc key_sep_def item_sep_def skip_keep json_ws_def)
qed

text \<open>
  The parser undoes the printer, with fuel twice the length of the text. The three statements
  are proved together, by the recursion of the printer.
\<close>

lemma parse_print:
  "json_wf v \<Longrightarrow> rest_ok r \<Longrightarrow> 2 * length (jprint b v) \<le> n \<Longrightarrow>
     parse_value n (jprint b v @ r) = Some (v, r)"
  "json_wf_items vs \<Longrightarrow> vs \<noteq> [] \<Longrightarrow> 2 * length (jprint_items b vs) + 2 \<le> n \<Longrightarrow>
     parse_items n (jprint_items b vs @ CHR '']'' # r) = Some (vs, r)"
  "json_wf_members kvs \<Longrightarrow> kvs \<noteq> [] \<Longrightarrow> 2 * length (jprint_members b kvs) + 2 \<le> n \<Longrightarrow>
     parse_members n (jprint_members b kvs @ CHR ''}'' # r) = Some (kvs, r)"
proof (induction b v and b vs and b kvs arbitrary: n r and n r and n r
    rule: jprint_jprint_items_jprint_members.induct)
  case (1 b)
  then show ?case by (cases n) (auto simp: keyword_def)
next
  case (2 b x)
  then show ?case by (cases n) (auto simp: keyword_def split: if_splits)
next
  case (3 b i)
  have "string_of_int i \<noteq> []" using is_int_token_int [of i] token_first by fastforce
  with 3 show ?case using parse_value_num [of "string_of_int i"] is_int_token_int
    by (cases n) (simp_all add: parse_num_int del: parse_value.simps)
next
  case (4 b t)
  then have "t \<noteq> []" using token_first by fastforce
  with 4 show ?case using parse_value_num [of t] by (cases n) (simp_all add: parse_num_float del: parse_value.simps)
next
  case (5 b s)
  then show ?case by (cases n) (auto simp: quote_str_def parse_str_esc)
next
  case (6 b vs)
  then obtain m where n: "n = Suc m" by (cases n) auto
  show ?case unfolding n by (rule parse_array) (use 6 n in \<open>auto intro: "6.IH"\<close>)
next
  case (7 b kvs)
  then obtain m where n: "n = Suc m" by (cases n) auto
  show ?case unfolding n by (rule parse_object) (use 7 n in \<open>auto intro: "7.IH"\<close>)
next
  case (9 b v vs)
  then obtain m where n: "n = Suc m" by (cases n) auto
  show ?case
  proof (cases "vs = []")
    case True
    show ?thesis unfolding n True by (rule parse_item_last, rule "9.IH") (use 9 n True in auto)
  next
    case False
    show ?thesis unfolding n
      by (rule parse_item_more [OF _ False]) (use 9 n False in \<open>auto simp: item_sep_def split: if_splits intro!: "9.IH"\<close>)
  qed
next
  case (11 b k v kvs)
  then obtain m where n: "n = Suc m" by (cases n) auto
  show ?case
  proof (cases "kvs = []")
    case True
    show ?thesis unfolding n True by (rule parse_member_last, use 11 in simp, rule "11.IH") (use 11 n True in auto)
  next
    case False
    show ?thesis unfolding n
      by (rule parse_member_more [OF _ False]) (use 11 n False in \<open>auto simp: item_sep_def split: if_splits intro!: "11.IH"\<close>)
  qed
qed auto

theorem json_loads_dumps: "json_wf v \<Longrightarrow> json_loads (json_dumps b v) = Inr v"
  using parse_print(1) [of v "[]" b "2 * length (jprint b v) + 2"] first_ok_skip [OF first_ok_print, of v b "[]"]
  by (simp add: json_loads_def json_dumps_def)

section \<open>Sorted members\<close>

lemma sort_keys_members_map: "sort_keys_members kvs = map (\<lambda>(k, v). (k, sort_keys v)) kvs"
  by (induction kvs) auto

lemma json_wf_members_iff: "json_wf_members kvs \<longleftrightarrow> (\<forall>(k, v)\<in>set kvs. json_wf v)"
  by (induction kvs) auto

lemma json_wf_sort_keys:
  "json_wf v \<Longrightarrow> json_wf (sort_keys v)"
  "json_wf_items vs \<Longrightarrow> json_wf_items (sort_keys_items vs)"
  "json_wf_members kvs \<Longrightarrow> json_wf_members (sort_keys_members kvs)"
proof (induction v and vs and kvs rule: sort_keys_sort_keys_items_sort_keys_members.induct)
  case (2 kvs)
  have "distinct (map fst (sort_key fst (sort_keys_members kvs)))"
    using 2 by (simp add: sort_keys_members_map comp_def case_prod_unfold)
  moreover have "json_wf_members (sort_key fst (sort_keys_members kvs))"
    using 2 by (simp add: json_wf_members_iff)
  ultimately show ?case by simp
qed auto

definition sorted_dict :: "jdict \<Rightarrow> jdict" where
  "sorted_dict d = sort_key fst (map (\<lambda>(k, v). (k, sort_keys v)) d)"

lemma sort_keys_obj: "sort_keys (JObj d) = JObj (sorted_dict d)"
  by (simp add: sorted_dict_def sort_keys_members_map)

lemma sorted_dict_get:
  assumes "distinct (map fst d)"
  shows "dict_get (sorted_dict d) k = map_option sort_keys (dict_get d k)"
proof -
  let ?m = "map (\<lambda>(k, v). (k, sort_keys v)) d"
  have d: "distinct (map fst ?m)" using assms by (simp add: comp_def case_prod_unfold)
  then have d': "distinct (map fst (sort_key fst ?m))" by simp
  have "map_of (sort_key fst ?m) k = map_of ?m k"
    using d d' by (metis map_of_inject_set set_sort)
  moreover have "map_of ?m k = map_option sort_keys (map_of d k)" by (induction d) auto
  ultimately show ?thesis by (simp add: dict_get_def sorted_dict_def)
qed

section \<open>Python text of values\<close>

text \<open>Python's text functions that the worker calls on arbitrary values: \<open>str(error)\<close>,
  \<open>type(error).__name__\<close> and \<open>str\<close> of a float, list or dict.\<close>

record pytext =
  py_str_exn :: "exn \<Rightarrow> string"
  py_type_name :: "exn \<Rightarrow> string"
  py_repr :: "json \<Rightarrow> string"

fun py_str :: "pytext \<Rightarrow> json \<Rightarrow> string" where
  "py_str T (JStr s) = s"
| "py_str T (JInt i) = string_of_int i"
| "py_str T (JBool b) = (if b then ''True'' else ''False'')"
| "py_str T JNull = ''None''"
| "py_str T v = py_repr T v"

definition error_text :: "pytext \<Rightarrow> exn \<Rightarrow> string" where
  "error_text T e = (if py_str_exn T e = [] then py_type_name T e else py_str_exn T e)"


end
