(* ===== verification/Uuid.thy ===== *)
theory Uuid
  imports Json "HOL-Library.Word"
begin

text \<open>
  Python's \<open>uuid.UUID\<close>: a 128-bit value with its canonical text form \<open>str(u)\<close> and the parser
  \<open>UUID(text)\<close>, which also accepts the URN prefix, braces and hyphens anywhere.
  The name-based constructor \<open>uuid5\<close> (SHA-1) and \<open>hashlib.sha256(...).hexdigest()\<close> are
  functions the components take as arguments: the code relies on them being functions and, for
  its identifiers, on two names at hand not colliding.
\<close>

type_synonym uuid = "128 word"

type_synonym uuid5_fun = "uuid \<Rightarrow> string \<Rightarrow> uuid"
type_synonym sha256_fun = "string \<Rightarrow> string"

definition NAMESPACE_URL :: uuid where
  "NAMESPACE_URL = 0x6ba7b8119dad11d180b400c04fd430c8"

fun hexn :: "nat \<Rightarrow> nat \<Rightarrow> string" where
  "hexn 0 n = []"
| "hexn (Suc k) n = hexn k (n div 16) @ [hex_char (n mod 16)]"

definition str_uuid :: "uuid \<Rightarrow> string" where
  "str_uuid u = (let h = hexn 32 (unat u) in
     take 8 h @ ''-'' @ take 4 (drop 8 h) @ ''-'' @ take 4 (drop 12 h) @ ''-'' @
     take 4 (drop 16 h) @ ''-'' @ drop 20 h)"

text \<open>\<open>s.replace(w, "")\<close>\<close>

fun remove_sub :: "string \<Rightarrow> string \<Rightarrow> string" where
  "remove_sub w [] = []"
| "remove_sub w (c # s) = (if w \<noteq> [] \<and> take (length w) (c # s) = w
     then remove_sub w (drop (length w - 1) s) else c # remove_sub w s)"

definition strip_chars :: "char set \<Rightarrow> string \<Rightarrow> string" where
  "strip_chars A s = rstrip_by (\<lambda>c. c \<in> A) (dropWhile (\<lambda>c. c \<in> A) s)"

text \<open>\<open>int(s, 16)\<close>: white space around, a sign, the prefix \<open>0x\<close> and single underscores between
  digits are allowed.\<close>

fun hex_digits :: "string \<Rightarrow> nat \<Rightarrow> nat option" where
  "hex_digits [] a = None"
| "hex_digits [c] a = map_option (\<lambda>d. 16 * a + d) (hex_val c)"
| "hex_digits (c # d # cs) a = (case hex_val c of None \<Rightarrow> None
     | Some x \<Rightarrow> hex_digits (if d = CHR ''_'' then cs else d # cs) (16 * a + x))"

definition py_int16 :: "string \<Rightarrow> int option" where
  "py_int16 s = (let t = strip s;
       (neg, u) = (case t of c # r \<Rightarrow> if c = CHR ''-'' then (True, r)
                                      else if c = CHR ''+'' then (False, r) else (False, t)
                           | [] \<Rightarrow> (False, t));
       v = (if take 2 u = ''0x'' \<or> take 2 u = ''0X''
            then (case drop 2 u of c # r \<Rightarrow> if c = CHR ''_'' then r else c # r | [] \<Rightarrow> [])
            else u)
     in map_option (\<lambda>n. if neg then - int n else int n) (hex_digits v 0))"

definition uuid_of :: "string \<Rightarrow> uuid result" where
  "uuid_of s = (let h = remove_sub ''-'' (strip_chars {CHR ''{'', CHR ''}''}
                   (remove_sub ''uuid:'' (remove_sub ''urn:'' s)))
     in if length h \<noteq> 32 then Inl (ValueError ''badly formed hexadecimal UUID string'')
        else case py_int16 h of
          None \<Rightarrow> Inl (ValueError ''invalid literal for int() with base 16'')
        | Some i \<Rightarrow> if 0 \<le> i \<and> i < 2 ^ 128 then Inr (word_of_int i)
                    else Inl (ValueError ''int is out of range (need a 128-bit value)''))"

section \<open>Round trip\<close>

definition hex_lower :: "char \<Rightarrow> bool" where
  "hex_lower c \<longleftrightarrow> 48 \<le> code c \<and> code c \<le> 57 \<or> 97 \<le> code c \<and> code c \<le> 102"

lemma hex_lower_char [simp]: "n < 16 \<Longrightarrow> hex_lower (hex_char n)"
  by (auto simp: hex_lower_def hex_char_def)

lemma length_hexn [simp]: "length (hexn k n) = k"
  by (induction k arbitrary: n) auto

lemma hexn_lower: "list_all hex_lower (hexn k n)"
  by (induction k arbitrary: n) auto

lemma hex_lower_not:
  "hex_lower c \<Longrightarrow> c \<noteq> CHR ''-'' \<and> c \<noteq> CHR ''+'' \<and> c \<noteq> CHR ''_'' \<and> c \<noteq> CHR ''{'' \<and> c \<noteq> CHR ''}''
     \<and> c \<noteq> CHR ''u'' \<and> c \<noteq> CHR ''x'' \<and> c \<noteq> CHR ''X'' \<and> \<not> is_space c"
  by (auto simp: hex_lower_def is_space_def Let_def)

lemma hex_digits_append_last:
  "list_all hex_lower s \<Longrightarrow> s \<noteq> [] \<Longrightarrow> hex_digits s a = Some m \<Longrightarrow> d < 16 \<Longrightarrow>
     hex_digits (s @ [hex_char d]) a = Some (16 * m + d)"
proof (induction s a rule: hex_digits.induct)
  case (2 c a)
  then show ?case using hex_lower_not [of "hex_char d"] by auto
next
  case (3 c e cs a)
  then have "e \<noteq> CHR ''_''" using hex_lower_not by auto
  then show ?case using 3 by (auto split: option.splits)
qed simp

lemma hex_digits_hexn: "hex_digits (hexn (Suc k) n) 0 = Some (n mod 16 ^ Suc k)"
proof (induction k arbitrary: n)
  case (Suc k)
  have "hexn (Suc k) (n div 16) \<noteq> []" by (metis length_hexn list.size(3) nat.distinct(1))
  then have "hex_digits (hexn (Suc k) (n div 16) @ [hex_char (n mod 16)]) 0 =
      Some (16 * ((n div 16) mod 16 ^ Suc k) + n mod 16)"
    using hex_digits_append_last [OF hexn_lower _ Suc.IH [of "n div 16"]] by simp
  moreover have "16 * ((n div 16) mod 16 ^ Suc k) + n mod 16 = n mod 16 ^ Suc (Suc k)"
    using mod_mult2_eq [of n 16 "16 ^ Suc k"] by (simp add: mult.commute)
  ultimately show ?case by (metis hexn.simps(2))
qed simp

lemma remove_sub_absent: "w \<noteq> [] \<Longrightarrow> hd w \<notin> set s \<Longrightarrow> remove_sub w s = s"
  by (induction s) (auto simp: neq_Nil_conv)

lemma remove_sub_char_append:
  "remove_sub [c] (s @ t) = remove_sub [c] s @ remove_sub [c] t"
  by (induction s) auto

lemma strip_chars_none: "\<forall>c\<in>set s. c \<notin> A \<Longrightarrow> strip_chars A s = s"
proof -
  assume a: "\<forall>c\<in>set s. c \<notin> A"
  then have "dropWhile (\<lambda>c. c \<in> A) s = s" by (cases s) auto
  then show ?thesis using a by (simp add: strip_chars_def rstrip_by_def dropWhile_rev_id)
qed

lemma set_str_uuid: "c \<in> set (str_uuid u) \<Longrightarrow> hex_lower c \<or> c = CHR ''-''"
  using hexn_lower [of 32 "unat u"]
  by (auto simp: str_uuid_def Let_def list_all_iff dest!: in_set_takeD in_set_dropD)

lemma uuid_pieces:
  "take 8 h @ take 4 (drop 8 h) @ take 4 (drop 12 h) @ take 4 (drop 16 h) @ drop 20 h = h"
proof -
  have "take 4 (drop 16 h) @ drop 20 h = drop 16 h" using append_take_drop_id [of 4 "drop 16 h"] by simp
  moreover have "take 4 (drop 12 h) @ drop 16 h = drop 12 h" using append_take_drop_id [of 4 "drop 12 h"] by simp
  moreover have "take 4 (drop 8 h) @ drop 12 h = drop 8 h" using append_take_drop_id [of 4 "drop 8 h"] by simp
  ultimately show ?thesis by simp
qed

lemma unat_uuid_less: "unat (u :: uuid) < 2 ^ 128"
  using unsigned_less [of u, where 'a = nat] by simp

lemma remove_dash_lower: "list_all hex_lower s \<Longrightarrow> remove_sub ''-'' s = s"
  using hex_lower_not by (intro remove_sub_absent) (auto simp: list_all_iff)

lemma remove_dash_pieces:
  assumes "list_all hex_lower h"
  shows "remove_sub ''-'' (take 8 h @ ''-'' @ take 4 (drop 8 h) @ ''-'' @ take 4 (drop 12 h) @ ''-'' @
     take 4 (drop 16 h) @ ''-'' @ drop 20 h) = h"
proof -
  have "list_all hex_lower (take n (drop m h))" "list_all hex_lower (take n h)"
    "list_all hex_lower (drop n h)" for n m
    using assms by (auto simp: list_all_iff dest!: in_set_takeD in_set_dropD)
  then have r: "remove_sub ''-'' (take n (drop m h)) = take n (drop m h)"
    "remove_sub ''-'' (take n h) = take n h" "remove_sub ''-'' (drop n h) = drop n h" for n m
    by (simp_all only: remove_dash_lower)
  have d: "remove_sub ''-'' ''-'' = []" by simp
  show ?thesis
    unfolding remove_sub_char_append r d append_Nil by (rule uuid_pieces)
qed

lemma str_uuid_hex: "remove_sub ''-'' (str_uuid u) = hexn 32 (unat u)"
  unfolding str_uuid_def Let_def by (rule remove_dash_pieces) (rule hexn_lower)

lemma py_int16_lower:
  assumes all: "list_all hex_lower h" and "2 \<le> length h" and v: "hex_digits h 0 = Some n"
  shows "py_int16 h = Some (int n)"
proof -
  from assms(2) obtain c d r where h: "h = c # d # r"
    by (metis One_nat_def Suc_1 Suc_le_length_iff)
  then have "c \<noteq> CHR ''-''" "c \<noteq> CHR ''+''" "d \<noteq> CHR ''x''" "d \<noteq> CHR ''X''"
    using all hex_lower_not by auto
  moreover have "strip h = h"
    using all by (intro strip_all) (auto simp: list_all_iff hex_lower_not)
  ultimately show ?thesis using h v by (simp add: py_int16_def)
qed

lemma py_int16_hexn: "py_int16 (hexn 32 (unat (u::uuid))) = Some (int (unat u))"
proof (rule py_int16_lower)
  have e: "(32::nat) = Suc 31" by simp
  have m: "unat u mod 16 ^ Suc 31 = unat u" using unat_uuid_less [of u] by simp
  show "hex_digits (hexn 32 (unat u)) 0 = Some (unat u)"
    unfolding e hex_digits_hexn m ..
  show "2 \<le> length (hexn 32 (unat u))" unfolding length_hexn by simp
qed (rule hexn_lower)

text \<open>\<open>UUID(str(u)) == u\<close>\<close>

lemma uuid_of_str [simp]: "uuid_of (str_uuid u) = Inr u"
proof -
  have no: "c \<notin> set (str_uuid u)" if "c = CHR ''u'' \<or> c = CHR ''{'' \<or> c = CHR ''}''" for c
    using that set_str_uuid [of c u] hex_lower_not by fastforce
  then have "remove_sub ''uuid:'' (remove_sub ''urn:'' (str_uuid u)) = str_uuid u"
    by (simp add: remove_sub_absent)
  moreover have "strip_chars {CHR ''{'', CHR ''}''} (str_uuid u) = str_uuid u"
    using no by (intro strip_chars_none) auto
  moreover have "(unat u) < 2 ^ 128" using unat_uuid_less [of u] by simp
  then have "int (unat u) < 2 ^ 128" by (metis of_nat_less_iff of_nat_numeral of_nat_power)
  ultimately show ?thesis
    by (simp add: uuid_of_def str_uuid_hex py_int16_hexn Let_def)
qed

lemma str_uuid_inj [simp]: "str_uuid u = str_uuid v \<longleftrightarrow> u = v"
  by (metis sum.inject(2) uuid_of_str)

lemma str_uuid_nonempty [simp]: "str_uuid u \<noteq> []"
  by (simp add: str_uuid_def Let_def)

end
