(* ===== verification/Database.thy ===== *)
theory Database
  imports Uuid
begin

text \<open>
  The database layer: shard targets (\<open>infrastructure/database/routing.py\<close>), the session
  registry whose \<open>session(target)\<close> context manager is one transaction
  (\<open>infrastructure/database/session.py\<close>), the start-up that opens the engines
  (\<open>infrastructure/database/provider.py\<close>), the table operations the SQLAlchemy sessions perform,
  and the contract of a repository.

  A table is the list of its rows. A transaction runs its body on the database of the target:
  a body that returns is committed, a body that raises leaves the database as it was. A primary
  key or unique violation is the only SQL fault of the model and is raised as
  \<open>SQLAlchemyError\<close> by the statement that causes it. Transactions are the atomic steps of the
  development: every interleaving considered elsewhere is an interleaving of whole transactions.
\<close>

section \<open>Routing and transactions\<close>

record shard_target =
  st_store :: string
  st_shard_id :: "string option"

definition is_global :: "shard_target \<Rightarrow> bool" where
  "is_global t \<longleftrightarrow> st_shard_id t = None"

abbreviation global_target :: "string \<Rightarrow> shard_target" where
  "global_target store \<equiv> \<lparr>st_store = store, st_shard_id = None\<rparr>"

abbreviation shard_of :: "string \<Rightarrow> string \<Rightarrow> shard_target" where
  "shard_of store shard \<equiv> \<lparr>st_store = store, st_shard_id = Some shard\<rparr>"

record 'd registry =
  rg_global :: "(string, 'd) dict"
  rg_shard :: "(string \<times> string, 'd) dict"

definition engine_for :: "'d registry \<Rightarrow> shard_target \<Rightarrow> 'd result" where
  "engine_for rg t =
     (case (case st_shard_id t of None \<Rightarrow> dict_get (rg_global rg) (st_store t)
            | Some i \<Rightarrow> dict_get (rg_shard rg) (st_store t, i)) of
        None \<Rightarrow> Inl (ShardRoutingError ''Database engine is not configured'')
      | Some d \<Rightarrow> Inr d)"

definition commit_to :: "shard_target \<Rightarrow> 'd \<Rightarrow> 'd registry \<Rightarrow> 'd registry" where
  "commit_to t d rg = (case st_shard_id t of
       None \<Rightarrow> rg\<lparr>rg_global := dict_set (st_store t) d (rg_global rg)\<rparr>
     | Some i \<Rightarrow> rg\<lparr>rg_shard := dict_set (st_store t, i) d (rg_shard rg)\<rparr>)"

text \<open>\<open>async with registry.session(target) as session: body\<close>\<close>

definition with_session :: "shard_target \<Rightarrow> ('d, 'a) io \<Rightarrow> ('d registry, 'a) io" where
  "with_session t body rg = (case engine_for rg t of
       Inl e \<Rightarrow> (Inl e, rg)
     | Inr d \<Rightarrow> (case body d of
         (Inl e, _) \<Rightarrow> (Inl e, rg)
       | (Inr x, d') \<Rightarrow> (Inr x, commit_to t d' rg)))"

definition session_health_check :: "('d \<Rightarrow> unit result) \<Rightarrow> 'd registry \<Rightarrow> unit result" where
  "session_health_check select1 rg =
     bindE (mapE select1 (map snd (rg_global rg) @ map snd (rg_shard rg))) (\<lambda>_. Inr ())"

section \<open>Opening the engines\<close>

definition GLOBAL_DATABASES :: "(string \<times> string) list" where
  "GLOBAL_DATABASES = [(''identity'', ''IDENTITY_DATABASE_URL''),
                       (''automation'', ''AUTOMATION_DATABASE_URL'')]"

definition SHARD_DATABASES :: "(string \<times> string \<times> string) list" where
  "SHARD_DATABASES = [(''account'', ''1'', ''ACCOUNT_SHARD_1_DATABASE_URL''),
                      (''account'', ''2'', ''ACCOUNT_SHARD_2_DATABASE_URL'')]"

type_synonym environ = "(string, string) dict"

definition required_url :: "environ \<Rightarrow> string \<Rightarrow> string result" where
  "required_url env name = (case dict_get env name of
       Some v \<Rightarrow> if v = [] then Inl (DatabaseConfigurationError
                       (''Required environment variable is missing: '' @ name)) else Inr v
     | None \<Rightarrow> Inl (DatabaseConfigurationError (''Required environment variable is missing: '' @ name)))"

text \<open>The two loops of \<open>database_lifespan\<close>: \<open>engines\<close> collects what was opened so far, in order,
  also when a later variable is missing. \<open>connect\<close> is \<open>create_async_engine\<close>.\<close>

fun open_globals :: "environ \<Rightarrow> (string \<Rightarrow> 'd) \<Rightarrow> (string \<times> string) list
    \<Rightarrow> 'd list \<times> (string, 'd) dict \<Rightarrow> unit result \<times> 'd list \<times> (string, 'd) dict" where
  "open_globals env connect [] (es, m) = (Inr (), es, m)"
| "open_globals env connect ((store, name) # r) (es, m) = (case required_url env name of
       Inl e \<Rightarrow> (Inl e, es, m)
     | Inr url \<Rightarrow> open_globals env connect r (es @ [connect url], dict_set store (connect url) m))"

fun open_shards :: "environ \<Rightarrow> (string \<Rightarrow> 'd) \<Rightarrow> (string \<times> string \<times> string) list
    \<Rightarrow> 'd list \<times> (string \<times> string, 'd) dict
    \<Rightarrow> unit result \<times> 'd list \<times> (string \<times> string, 'd) dict" where
  "open_shards env connect [] (es, m) = (Inr (), es, m)"
| "open_shards env connect ((store, i, name) # r) (es, m) = (case required_url env name of
       Inl e \<Rightarrow> (Inl e, es, m)
     | Inr url \<Rightarrow> open_shards env connect r (es @ [connect url], dict_set (store, i) (connect url) m))"

text \<open>The lifespan: the registry is given to the application only when every engine is open; the
  second component lists the engines disposed of in the \<open>finally\<close> clause, in order.\<close>

definition database_lifespan ::
  "environ \<Rightarrow> (string \<Rightarrow> 'd) \<Rightarrow> ('d registry \<Rightarrow> 'a result) \<Rightarrow> 'a result \<times> 'd list" where
  "database_lifespan env connect app =
     (case open_globals env connect GLOBAL_DATABASES ([], []) of
        (Inl e, es, _) \<Rightarrow> (Inl e, rev es)
      | (Inr _, es, g) \<Rightarrow> (case open_shards env connect SHARD_DATABASES (es, []) of
          (Inl e, es', _) \<Rightarrow> (Inl e, rev es')
        | (Inr _, es', s) \<Rightarrow> (app \<lparr>rg_global = g, rg_shard = s\<rparr>, rev es')))"

section \<open>Tables\<close>

definition t_get :: "('r \<Rightarrow> 'k) \<Rightarrow> 'k \<Rightarrow> 'r list \<Rightarrow> 'r option" where
  "t_get key k t = find (\<lambda>r. key r = k) t"

definition t_wf :: "('r \<Rightarrow> 'k) \<Rightarrow> 'r list \<Rightarrow> bool" where
  "t_wf key t \<longleftrightarrow> distinct (map key t)"

text \<open>\<open>session.merge(record)\<close> with every column set: update the row of that primary key or
  insert it.\<close>

fun t_merge :: "('r \<Rightarrow> 'k) \<Rightarrow> 'r \<Rightarrow> 'r list \<Rightarrow> 'r list" where
  "t_merge key r [] = [r]"
| "t_merge key r (x # t) = (if key x = key r then r # t else x # t_merge key r t)"

text \<open>\<open>session.add(record)\<close>, and \<open>insert(...).on_conflict_do_nothing(index)\<close> with its row count.\<close>

definition t_insert :: "('r \<Rightarrow> 'k) \<Rightarrow> 'r \<Rightarrow> 'r list \<Rightarrow> 'r list result" where
  "t_insert key r t = (if key r \<in> key ` set t then Inl SQLAlchemyError else Inr (t @ [r]))"

definition t_insert_if_absent :: "('r \<Rightarrow> 'k) \<Rightarrow> 'r \<Rightarrow> 'r list \<Rightarrow> nat \<times> 'r list" where
  "t_insert_if_absent key r t = (if key r \<in> key ` set t then (0, t) else (1, t @ [r]))"

text \<open>\<open>update(...).where(p).values(f)\<close> with the rows it returns.\<close>

definition t_update :: "('r \<Rightarrow> bool) \<Rightarrow> ('r \<Rightarrow> 'r) \<Rightarrow> 'r list \<Rightarrow> 'r list \<times> 'r list" where
  "t_update p f t = (map f (filter p t), map (\<lambda>r. if p r then f r else r) t)"

section \<open>Lemmas: transactions\<close>

lemma with_session_Inl [io_simps]:
  "fst (with_session t body rg) = Inl e \<Longrightarrow> snd (with_session t body rg) = rg"
  by (auto simp: with_session_def split: sum.splits prod.splits)

lemma with_session_run [io_simps]:
  "engine_for rg t = Inl e \<Longrightarrow> with_session t body rg = (Inl e, rg)"
  "engine_for rg t = Inr d \<Longrightarrow> body d = (Inr x, d') \<Longrightarrow>
     with_session t body rg = (Inr x, commit_to t d' rg)"
  "engine_for rg t = Inr d \<Longrightarrow> body d = (Inl e, d') \<Longrightarrow> with_session t body rg = (Inl e, rg)"
  by (simp_all add: with_session_def)

lemma engine_for_commit [simp]:
  "engine_for (commit_to t d rg) t' = (if t' = t then Inr d else engine_for rg t')"
proof -
  have "st_shard_id t' = st_shard_id t \<Longrightarrow> st_store t' = st_store t \<Longrightarrow> t' = t" by simp
  then show ?thesis by (auto simp: engine_for_def commit_to_def split: option.splits)
qed

lemma commit_to_same [simp]:
  "engine_for rg t = Inr d \<Longrightarrow> commit_to t d rg = rg"
  by (cases rg; cases t)
    (auto simp: engine_for_def commit_to_def dict_set_same split: option.splits)

lemma with_session_other:
  "t' \<noteq> t \<Longrightarrow> engine_for (snd (with_session t body rg)) t' = engine_for rg t'"
  by (auto simp: with_session_def split: sum.splits prod.splits)

lemma with_session_same:
  "engine_for rg t = Inr d \<Longrightarrow>
   engine_for (snd (with_session t body rg)) t =
     Inr (case body d of (Inl e, _) \<Rightarrow> d | (Inr x, d') \<Rightarrow> d')"
  by (auto simp: with_session_def split: sum.splits prod.splits)

section \<open>Lemmas: tables\<close>

lemma t_get_Nil [simp, table_simps]: "t_get key k [] = None"
  by (simp add: t_get_def)

lemma t_get_Cons [simp, table_simps]:
  "t_get key k (r # t) = (if key r = k then Some r else t_get key k t)"
  by (simp add: t_get_def)

lemma t_get_append [simp, table_simps]:
  "t_get key k (s @ t) = (case t_get key k s of None \<Rightarrow> t_get key k t | Some r \<Rightarrow> Some r)"
  by (induction s) auto

lemma t_get_key: "t_get key k t = Some r \<Longrightarrow> key r = k \<and> r \<in> set t"
  by (induction t) (auto split: if_splits)

lemma t_get_None_iff [table_simps]: "t_get key k t = None \<longleftrightarrow> k \<notin> key ` set t"
  by (induction t) auto

lemma t_get_Some_iff: "t_wf key t \<Longrightarrow> t_get key k t = Some r \<longleftrightarrow> r \<in> set t \<and> key r = k"
  by (induction t) (auto simp: t_wf_def rev_image_eqI)

lemma t_get_mem: "t_wf key t \<Longrightarrow> r \<in> set t \<Longrightarrow> t_get key (key r) t = Some r"
  by (simp add: t_get_Some_iff)

lemma filter_key:
  "t_wf key t \<Longrightarrow> filter (\<lambda>r. key r = k) t = (case t_get key k t of None \<Rightarrow> [] | Some r \<Rightarrow> [r])"
proof (induction t)
  case (Cons a t)
  show ?case
  proof (cases "key a = k")
    case True
    then have "filter (\<lambda>r. key r = k) t = []"
      using Cons.prems by (auto simp: t_wf_def filter_empty_conv rev_image_eqI)
    then show ?thesis using True by simp
  next
    case False
    then show ?thesis using Cons by (simp add: t_wf_def)
  qed
qed simp

lemma t_wf_unique: "t_wf key t \<Longrightarrow> r \<in> set t \<Longrightarrow> s \<in> set t \<Longrightarrow> key r = key s \<Longrightarrow> r = s"
  by (auto simp: t_wf_def distinct_map inj_on_def)

lemma t_get_merge [simp, table_simps]:
  "t_get key k (t_merge key r t) = (if k = key r then Some r else t_get key k t)"
  by (induction t) auto

lemma keys_merge: "map key (t_merge key r t) =
    (if key r \<in> key ` set t then map key t else map key t @ [key r])"
  by (induction t) auto

lemma t_wf_Nil [simp, table_simps]: "t_wf key []"
  by (simp add: t_wf_def)

lemma t_wf_merge [simp, table_simps]: "t_wf key t \<Longrightarrow> t_wf key (t_merge key r t)"
  by (auto simp: t_wf_def keys_merge)

lemma set_merge: "t_wf key t \<Longrightarrow> set (t_merge key r t) = insert r {x \<in> set t. key x \<noteq> key r}"
  by (induction t) (auto simp: t_wf_def rev_image_eqI)

lemma merge_absent: "key r \<notin> key ` set t \<Longrightarrow> t_merge key r t = t @ [r]"
  by (induction t) auto

lemma merge_same: "t_get key (key r) t = Some r \<Longrightarrow> t_merge key r t = t"
  by (induction t) (auto split: if_splits)

lemma t_insert_Inr: "t_insert key r t = Inr t' \<longleftrightarrow> key r \<notin> key ` set t \<and> t' = t @ [r]"
  by (auto simp: t_insert_def)

lemma t_wf_insert: "t_wf key t \<Longrightarrow> t_insert key r t = Inr t' \<Longrightarrow> t_wf key t'"
  by (auto simp: t_insert_Inr t_wf_def)

lemma t_wf_insert_if_absent [simp, table_simps]:
  "t_wf key t \<Longrightarrow> t_wf key (snd (t_insert_if_absent key r t))"
  by (auto simp: t_insert_if_absent_def t_wf_def)

lemma t_get_insert_if_absent [table_simps]:
  "t_get key k (snd (t_insert_if_absent key r t)) =
     (case t_get key k t of Some x \<Rightarrow> Some x | None \<Rightarrow> if k = key r then Some r else None)"
proof (cases "key r \<in> key ` set t")
  case True
  then have "t_get key k t = None \<Longrightarrow> k \<noteq> key r" by (auto simp: t_get_None_iff)
  then show ?thesis using True by (auto simp: t_insert_if_absent_def split: option.splits)
qed (auto simp: t_insert_if_absent_def split: option.splits)

lemma t_update_keys:
  "(\<And>r. key (f r) = key r) \<Longrightarrow> map key (snd (t_update p f t)) = map key t"
  by (simp add: t_update_def)

lemma t_wf_update: "(\<And>r. key (f r) = key r) \<Longrightarrow> t_wf key t \<Longrightarrow> t_wf key (snd (t_update p f t))"
  unfolding t_wf_def by (simp only: t_update_keys)

lemma t_get_update:
  "(\<And>r. key (f r) = key r) \<Longrightarrow>
   t_get key k (snd (t_update p f t)) = map_option (\<lambda>r. if p r then f r else r) (t_get key k t)"
  by (induction t) (auto simp: t_update_def)

lemma t_update_none: "\<forall>r\<in>set t. \<not> p r \<Longrightarrow> t_update p f t = ([], t)"
  by (induction t) (auto simp: t_update_def)

text \<open>An update whose condition implies the primary key touches at most the row of that key.\<close>

lemma t_update_one:
  assumes "t_wf key t" "t_get key k t = Some j" "p j" "\<And>r. p r \<Longrightarrow> key r = k" "key (f j) = k"
  shows "t_update p f t = ([f j], t_merge key (f j) t)"
  using assms(1,2)
proof (induction t)
  case (Cons x t)
  show ?case
  proof (cases "key x = k")
    case True
    then have "x = j" and "\<forall>r\<in>set t. \<not> p r" using Cons.prems assms(4) by (auto simp: t_wf_def) (metis image_eqI)
    then show ?thesis
      using True assms(3,5) t_update_none [of t p f] by (simp add: t_update_def)
  next
    case False
    then have "\<not> p x" "t_update p f t = ([f j], t_merge key (f j) t)"
      using Cons assms(4) by (auto simp: t_wf_def)
    then show ?thesis using False assms(5) by (simp add: t_update_def)
  qed
qed simp

lemma t_update_zero:
  assumes "t_wf key t" "\<And>r. p r \<Longrightarrow> key r = k" "\<And>j. t_get key k t = Some j \<Longrightarrow> \<not> p j"
  shows "t_update p f t = ([], t)"
proof (rule t_update_none, rule ballI, rule notI)
  fix r assume "r \<in> set t" "p r"
  then show False using assms t_get_mem [of key t r] by auto
qed

section \<open>The repository contract\<close>

text \<open>
  What the repository protocols (\<open>modules/*/generated/repository.py\<close>) promise to the handlers,
  and what follows for every sequence of saves. The SQLAlchemy repositories and the in-memory
  fakes are interpretations.
\<close>

locale repository =
  fixes find_by_id :: "'k \<Rightarrow> 't \<Rightarrow> 'a option"
    and save :: "'a \<Rightarrow> 't \<Rightarrow> 't"
    and ident :: "'a \<Rightarrow> 'k"
    and inv :: "'t \<Rightarrow> bool"
  assumes find_save: "find_by_id k (save a t) = (if k = ident a then Some a else find_by_id k t)"
    and find_ident: "inv t \<Longrightarrow> find_by_id k t = Some a \<Longrightarrow> ident a = k"
    and inv_save: "inv t \<Longrightarrow> inv (save a t)"
begin

definition save_all :: "'a list \<Rightarrow> 't \<Rightarrow> 't" where
  "save_all xs t = fold save xs t"

lemma find_save_all:
  "find_by_id k (save_all xs t) =
     (case find (\<lambda>a. ident a = k) (rev xs) of Some a \<Rightarrow> Some a | None \<Rightarrow> find_by_id k t)"
  by (induction xs arbitrary: t rule: rev_induct) (auto simp: save_all_def find_save)

lemma save_all_present:
  "a \<in> set xs \<Longrightarrow> distinct (map ident xs) \<Longrightarrow> find_by_id (ident a) (save_all xs t) = Some a"
proof -
  assume a: "a \<in> set xs" and d: "distinct (map ident xs)"
  then have u: "\<forall>b\<in>set (rev xs). ident b = ident a \<longrightarrow> b = a" by (auto simp: distinct_map inj_on_def)
  obtain b where "find (\<lambda>x. ident x = ident a) (rev xs) = Some b"
    using a by (metis (mono_tags, lifting) find_None_iff not_None_eq set_rev)
  moreover from this have "b = a" using u by (auto simp: find_Some_iff) (metis length_rev nth_mem set_rev)
  ultimately show ?thesis by (simp add: find_save_all)
qed

lemma save_twice: "find_by_id k (save a (save a t)) = find_by_id k (save a t)"
  by (simp add: find_save)

lemma save_commute:
  "ident a \<noteq> ident b \<Longrightarrow> find_by_id k (save a (save b t)) = find_by_id k (save b (save a t))"
  by (simp add: find_save)

lemma inv_save_all: "inv t \<Longrightarrow> inv (save_all xs t)"
  unfolding save_all_def by (induction xs arbitrary: t) (auto intro: inv_save)

lemma save_found:
  "inv t \<Longrightarrow> find_by_id k t = Some a \<Longrightarrow> find_by_id j (save a t) = find_by_id j t"
  using find_ident [of t k a] by (auto simp: find_save)

end

text \<open>Two repositories over the same aggregate: when they agree on every lookup they still agree
  after the same saves, so a handler test on the fake speaks about the database repository.\<close>

locale repository_pair =
  a: repository find1 save1 ident inv1 + b: repository find2 save2 ident inv2
  for find1 :: "'k \<Rightarrow> 't \<Rightarrow> 'a option" and save1 :: "'a \<Rightarrow> 't \<Rightarrow> 't" and inv1 :: "'t \<Rightarrow> bool"
    and find2 :: "'k \<Rightarrow> 'u \<Rightarrow> 'a option" and save2 :: "'a \<Rightarrow> 'u \<Rightarrow> 'u" and inv2 :: "'u \<Rightarrow> bool"
    and ident :: "'a \<Rightarrow> 'k"
begin

definition agree :: "'t \<Rightarrow> 'u \<Rightarrow> bool" where
  "agree t u \<longleftrightarrow> inv1 t \<and> inv2 u \<and> (\<forall>k. find1 k t = find2 k u)"

lemma agree_save: "agree t u \<Longrightarrow> agree (save1 a t) (save2 a u)"
  by (simp add: agree_def a.find_save b.find_save a.inv_save b.inv_save)

lemma agree_saves: "agree t u \<Longrightarrow> agree (fold save1 xs t) (fold save2 xs u)"
  by (induction xs arbitrary: t u) (auto intro: agree_save)

end

end
