(* ===== verification/Tables.thy ===== *)
theory Tables
  imports Database
begin

text \<open>
  The tables of the service, one record per SQLAlchemy model: the rows of the outbox and inbox
  (\<open>infrastructure/outbox/models.py\<close>), of the durable jobs
  (\<open>infrastructure/durable_jobs/models.py\<close>) and of the modules
  (\<open>modules/*/generated/sqlalchemy_models.py\<close>), and the record \<open>db\<close> of all tables: the models
  share one metadata object, so a session can address each of them in whichever database it is
  bound to. A column of type \<open>Float\<close> is kept as the literal of its value (\<open>pyfloat\<close>): the code
  stores, compares and prints such values but does not compute with them.
\<close>

type_synonym pyfloat = string

section \<open>Outbox, inbox and jobs\<close>

record OutboxEventRecord =
  oe_event_id :: string
  oe_event_type :: string
  oe_event_version :: int
  oe_aggregate_id :: string
  oe_routing_key :: string
  oe_payload :: jdict
  oe_status :: string
  oe_attempts :: nat
  oe_available_at :: time
  oe_occurred_at :: time
  oe_published_at :: "time option"
  oe_last_error :: "string option"

record ProcessedMessageRecord =
  pm_event_id :: string
  pm_processed_at :: time

record DurableJobRecord =
  dj_job_id :: string
  dj_job_type :: string
  dj_run_key :: string
  dj_status :: string
  dj_payload :: jdict
  dj_result :: "jdict option"
  dj_error :: "string option"
  dj_requested_at :: time
  dj_updated_at :: time

section \<open>Module tables\<close>

record UserProfileRecord =
  upr_user_id :: uuid
  upr_investment_experience :: string
  upr_risk_tolerance :: string
  upr_investment_goal :: string
  upr_monthly_budget :: pyfloat
  upr_profile_completed :: bool

record BrokerageAccountConnectionRecord =
  bcr_connection_id :: uuid
  bcr_user_id :: uuid
  bcr_provider :: string
  bcr_environment :: string
  bcr_display_name :: string
  bcr_account_mask :: string
  bcr_credential_ref :: string
  bcr_status :: string
  bcr_created_at :: time
  bcr_updated_at :: time

record LoginAccountRecord =
  lar_user_id :: uuid
  lar_email :: string
  lar_password_hash :: string
  lar_is_active :: bool
  lar_access_level :: string
  lar_shard_id :: string
  lar_created_at :: time

record AccessLevelAuditRecord =
  aar_audit_id :: uuid
  aar_subject_user_id :: uuid
  aar_actor :: string
  aar_previous_access_level :: string
  aar_new_access_level :: string
  aar_changed_at :: time

record MarketPriceSnapshotRecord =
  mpr_snapshot_id :: uuid
  mpr_stock_code :: string
  mpr_current_price :: string
  mpr_observed_at :: time

record DomesticDailyCandleRecord =
  dcr_candle_id :: uuid
  dcr_stock_code :: string
  dcr_trading_date :: string
  dcr_open_price :: string
  dcr_high_price :: string
  dcr_low_price :: string
  dcr_close_price :: string
  dcr_volume :: int

record NewsArticleRecord =
  nar_source_key :: string
  nar_source_url :: string
  nar_provider :: string
  nar_title :: string
  nar_content :: "string option"
  nar_symbol :: string
  nar_published_at :: "time option"
  nar_publisher :: "string option"
  nar_collected_at :: time

record InAppNotificationRecord =
  nor_notification_id :: uuid
  nor_delivery_intent_id :: uuid
  nor_user_id :: uuid
  nor_signal_id :: uuid
  nor_stock_code :: string
  nor_created_at :: time
  nor_read_at :: "time option"

record PortfolioSnapshotRecord =
  psr_snapshot_id :: uuid
  psr_connection_id :: uuid
  psr_user_id :: uuid
  psr_captured_at :: time
  psr_position_count :: int

record PortfolioPositionSnapshotRecord =
  ppr_position_id :: uuid
  ppr_snapshot_id :: uuid
  ppr_user_id :: uuid
  ppr_stock_code :: string
  ppr_product_name :: string
  ppr_holding_quantity :: string
  ppr_orderable_quantity :: string
  ppr_current_price :: string

record SignalEventRecord =
  ser_signal_id :: uuid
  ser_stock_code :: string
  ser_direction :: string
  ser_price :: string
  ser_confidence :: pyfloat
  ser_observed_at :: time
  ser_expires_at :: "time option"

record SignalDeliveryIntentRecord =
  sir_intent_id :: uuid
  sir_signal_id :: uuid
  sir_subscription_id :: uuid
  sir_user_id :: uuid
  sir_shard_id :: string
  sir_stock_code :: string
  sir_expires_at :: time
  sir_status :: string

record SignalSubscriptionRecord =
  sur_subscription_id :: uuid
  sur_user_id :: uuid
  sur_stock_code :: string
  sur_enabled :: bool
  sur_revision :: int

record SignalSubscriptionProjectionRecord =
  sjr_subscription_id :: uuid
  sjr_user_id :: uuid
  sjr_shard_id :: string
  sjr_stock_code :: string
  sjr_enabled :: bool
  sjr_revision :: int

section \<open>The database\<close>

record db =
  outbox_events :: "OutboxEventRecord list"
  processed_messages :: "ProcessedMessageRecord list"
  durable_jobs :: "DurableJobRecord list"
  user_profiles :: "UserProfileRecord list"
  brokerage_account_connections :: "BrokerageAccountConnectionRecord list"
  login_accounts :: "LoginAccountRecord list"
  access_level_audits :: "AccessLevelAuditRecord list"
  market_price_snapshots :: "MarketPriceSnapshotRecord list"
  domestic_daily_candles :: "DomesticDailyCandleRecord list"
  news_articles :: "NewsArticleRecord list"
  in_app_notifications :: "InAppNotificationRecord list"
  portfolio_snapshots :: "PortfolioSnapshotRecord list"
  portfolio_position_snapshots :: "PortfolioPositionSnapshotRecord list"
  signal_events :: "SignalEventRecord list"
  signal_delivery_intents :: "SignalDeliveryIntentRecord list"
  signal_subscriptions :: "SignalSubscriptionRecord list"
  signal_subscription_projections :: "SignalSubscriptionProjectionRecord list"

definition empty_db :: db where
  "empty_db = \<lparr>outbox_events = [], processed_messages = [], durable_jobs = [],
     user_profiles = [],
     brokerage_account_connections = [],
     login_accounts = [],
     access_level_audits = [],
     market_price_snapshots = [],
     domestic_daily_candles = [],
     news_articles = [],
     in_app_notifications = [],
     portfolio_snapshots = [],
     portfolio_position_snapshots = [],
     signal_events = [],
     signal_delivery_intents = [],
     signal_subscriptions = [],
     signal_subscription_projections = []\<rparr>"

text \<open>The keys the schema declares: every table has distinct primary keys, jobs have distinct
  (type, run key) pairs and accounts distinct e-mail addresses.\<close>

definition db_wf :: "db \<Rightarrow> bool" where
  "db_wf d \<longleftrightarrow> t_wf oe_event_id (outbox_events d) \<and> t_wf pm_event_id (processed_messages d) \<and>
     t_wf dj_job_id (durable_jobs d) \<and> t_wf (\<lambda>j. (dj_job_type j, dj_run_key j)) (durable_jobs d) \<and>
     t_wf lar_email (login_accounts d) \<and>
     t_wf upr_user_id (user_profiles d) \<and>
     t_wf bcr_connection_id (brokerage_account_connections d) \<and>
     t_wf lar_user_id (login_accounts d) \<and>
     t_wf aar_audit_id (access_level_audits d) \<and>
     t_wf mpr_snapshot_id (market_price_snapshots d) \<and>
     t_wf dcr_candle_id (domestic_daily_candles d) \<and>
     t_wf nar_source_key (news_articles d) \<and>
     t_wf nor_notification_id (in_app_notifications d) \<and>
     t_wf psr_snapshot_id (portfolio_snapshots d) \<and>
     t_wf ppr_position_id (portfolio_position_snapshots d) \<and>
     t_wf ser_signal_id (signal_events d) \<and>
     t_wf sir_intent_id (signal_delivery_intents d) \<and>
     t_wf sur_subscription_id (signal_subscriptions d) \<and>
     t_wf sjr_subscription_id (signal_subscription_projections d)"

lemma db_wf_empty [simp]: "db_wf empty_db"
  by (simp add: db_wf_def empty_db_def)

type_synonym dbs = "db registry"

end
