(* ===== verification/Messaging.thy ===== *)
theory Messaging
  imports Tables
begin

text \<open>
  Domain events and their transport: \<open>EventMessage\<close> (\<open>infrastructure/messaging/protocol.py\<close>), the
  RabbitMQ publisher and consumer (\<open>infrastructure/messaging/rabbitmq.py\<close>) and the queues and
  bindings that are declared (\<open>declare_topology\<close>, \<open>modules/signal/messaging.py\<close>).

  The broker itself is not part of the repository: publishing on an exchange is an argument of
  \<open>rabbit_publish\<close>, \<open>is_connection_exception\<close> is membership in aio-pika's
  \<open>CONNECTION_EXCEPTIONS\<close>, and \<open>isoformat\<close>/\<open>fromisoformat\<close> are arguments of the encoder and the
  decoder. Main result: decoding an encoded event gives the event back, with the members of its
  payload in key order.
\<close>

section \<open>Events\<close>

record EventMessage =
  em_event_type :: string
  em_aggregate_id :: string
  em_payload :: jdict
  em_routing_key :: string
  em_event_id :: string
  em_event_version :: int
  em_occurred_at :: "time option"

text \<open>\<open>__post_init__\<close>: \<open>u\<close> is the value \<open>uuid4()\<close> returns and \<open>now\<close> the clock reading.\<close>

definition event_post_init :: "uuid \<Rightarrow> time \<Rightarrow> EventMessage \<Rightarrow> EventMessage" where
  "event_post_init u now m =
     (let m1 = (if em_event_id m = [] then m\<lparr>em_event_id := str_uuid u\<rparr> else m)
      in case em_occurred_at m1 of None \<Rightarrow> m1\<lparr>em_occurred_at := Some now\<rparr> | Some _ \<Rightarrow> m1)"

text \<open>\<open>EventMessage(event_type=..., aggregate_id=..., payload=..., routing_key=...)\<close> with the other
  fields left at their defaults, and with an event id given.\<close>

definition new_event :: "uuid \<Rightarrow> time \<Rightarrow> string \<Rightarrow> string \<Rightarrow> jdict \<Rightarrow> string \<Rightarrow> EventMessage" where
  "new_event u now ty agg payload rk = event_post_init u now
     \<lparr>em_event_type = ty, em_aggregate_id = agg, em_payload = payload, em_routing_key = rk,
      em_event_id = [], em_event_version = 1, em_occurred_at = None\<rparr>"

definition new_event_id :: "string \<Rightarrow> time \<Rightarrow> string \<Rightarrow> string \<Rightarrow> jdict \<Rightarrow> string \<Rightarrow> EventMessage" where
  "new_event_id eid now ty agg payload rk = event_post_init 0 now
     \<lparr>em_event_type = ty, em_aggregate_id = agg, em_payload = payload, em_routing_key = rk,
      em_event_id = eid, em_event_version = 1, em_occurred_at = None\<rparr>"

lemma new_event_simps [simp]:
  "em_event_type (new_event u now ty agg p rk) = ty"
  "em_aggregate_id (new_event u now ty agg p rk) = agg"
  "em_payload (new_event u now ty agg p rk) = p"
  "em_routing_key (new_event u now ty agg p rk) = rk"
  "em_event_id (new_event u now ty agg p rk) = str_uuid u"
  "em_event_version (new_event u now ty agg p rk) = 1"
  "em_occurred_at (new_event u now ty agg p rk) = Some now"
  by (simp_all add: new_event_def event_post_init_def)

lemma new_event_id_simps [simp]:
  "em_event_type (new_event_id eid now ty agg p rk) = ty"
  "em_aggregate_id (new_event_id eid now ty agg p rk) = agg"
  "em_payload (new_event_id eid now ty agg p rk) = p"
  "em_routing_key (new_event_id eid now ty agg p rk) = rk"
  "eid \<noteq> [] \<Longrightarrow> em_event_id (new_event_id eid now ty agg p rk) = eid"
  "em_occurred_at (new_event_id eid now ty agg p rk) = Some now"
  by (simp_all add: new_event_id_def event_post_init_def Let_def)

section \<open>Encoding\<close>

definition encode_event :: "(time \<Rightarrow> string) \<Rightarrow> EventMessage \<Rightarrow> string result" where
  "encode_event isoformat m = (case em_occurred_at m of
       None \<Rightarrow> Inl (AssertionError ''occurred_at'')
     | Some t \<Rightarrow> Inr (json_dumps True (sort_keys (JObj
         [(''event_id'', JStr (em_event_id m)),
          (''event_type'', JStr (em_event_type m)),
          (''event_version'', JInt (em_event_version m)),
          (''aggregate_id'', JStr (em_aggregate_id m)),
          (''payload'', JObj (em_payload m)),
          (''routing_key'', JStr (em_routing_key m)),
          (''occurred_at'', JStr (isoformat t))]))))"

text \<open>\<open>decoded[key]\<close>. The code does not check the types of the members; here a member of another
  type than the publisher writes is a \<open>TypeError\<close>.\<close>

definition member :: "jdict \<Rightarrow> string \<Rightarrow> json result" where
  "member d k = (case dict_get d k of None \<Rightarrow> Inl (KeyError k) | Some v \<Rightarrow> Inr v)"

fun as_str :: "json \<Rightarrow> string result" where
  "as_str (JStr s) = Inr s" | "as_str _ = Inl (TypeError ''str'')"

fun as_int :: "json \<Rightarrow> int result" where
  "as_int (JInt i) = Inr i" | "as_int _ = Inl (TypeError ''int'')"

fun as_obj :: "json \<Rightarrow> jdict result" where
  "as_obj (JObj d) = Inr d" | "as_obj _ = Inl (TypeError ''dict'')"

definition decode_event :: "(string \<Rightarrow> time result) \<Rightarrow> uuid \<Rightarrow> time \<Rightarrow> string \<Rightarrow> EventMessage result" where
  "decode_event fromisoformat u now body =
     bindE (bindE (json_loads body) as_obj) (\<lambda>d.
     bindE (bindE (member d ''event_id'') as_str) (\<lambda>eid.
     bindE (bindE (member d ''event_type'') as_str) (\<lambda>ty.
     bindE (bindE (member d ''event_version'') as_int) (\<lambda>ver.
     bindE (bindE (member d ''aggregate_id'') as_str) (\<lambda>agg.
     bindE (bindE (member d ''payload'') as_obj) (\<lambda>pl.
     bindE (bindE (member d ''routing_key'') as_str) (\<lambda>rk.
     bindE (bindE (member d ''occurred_at'') (\<lambda>v. bindE (as_str v) fromisoformat)) (\<lambda>t.
       Inr (event_post_init u now \<lparr>em_event_type = ty, em_aggregate_id = agg, em_payload = pl,
         em_routing_key = rk, em_event_id = eid, em_event_version = ver,
         em_occurred_at = Some t\<rparr>)))))))))"

section \<open>Publisher and consumer\<close>

text \<open>\<open>RabbitMQPublisher.publish\<close> once started: \<open>exchange_publish body message_id type routing_key\<close>
  is the broker call (persistent, mandatory).\<close>

definition rabbit_publish ::
  "(time \<Rightarrow> string) \<Rightarrow> (exn \<Rightarrow> bool) \<Rightarrow> (exn \<Rightarrow> string)
   \<Rightarrow> (string \<Rightarrow> string \<Rightarrow> string \<Rightarrow> string \<Rightarrow> ('b, unit) io) \<Rightarrow> EventMessage \<Rightarrow> ('b, unit) io" where
  "rabbit_publish isoformat is_connection_exception str exchange_publish m =
     bindS (lift (encode_event isoformat m)) (\<lambda>body.
     catchS (exchange_publish body (em_event_id m) (em_event_type m) (em_routing_key m))
       (\<lambda>e. raise (if is_connection_exception e then MessagePublishError (str e) else e)))"

text \<open>The publisher object: whether it has its exchange, beside the broker. \<open>declare\<close> is \<open>declare_topology\<close>.\<close>

definition publisher_start :: "('b, unit) io \<Rightarrow> (bool \<times> 'b, unit) io" where
  "publisher_start declare s = (case declare (snd s) of (Inl e, b) \<Rightarrow> (Inl e, (fst s, b)) | (Inr _, b) \<Rightarrow> (Inr (), (True, b)))"

definition publisher_publish ::
  "('b, unit) io \<Rightarrow> (time \<Rightarrow> string) \<Rightarrow> (exn \<Rightarrow> bool) \<Rightarrow> (exn \<Rightarrow> string)
   \<Rightarrow> (string \<Rightarrow> string \<Rightarrow> string \<Rightarrow> string \<Rightarrow> ('b, unit) io) \<Rightarrow> EventMessage \<Rightarrow> (bool \<times> 'b, unit) io" where
  "publisher_publish declare isoformat is_connection_exception str exchange_publish m =
     bindS (gets fst) (\<lambda>started.
     bindS (if started then ret () else publisher_start declare) (\<lambda>_ s.
       case rabbit_publish isoformat is_connection_exception str exchange_publish m (snd s) of (x, b) \<Rightarrow> (x, (fst s, b))))"

datatype delivery = Ack | Reject

text \<open>The consumer's \<open>process\<close>: \<open>message.process(requeue=False)\<close> acknowledges when the body returns
  and rejects (dead-letters) when it raises; the exception is logged and dropped.\<close>

definition rabbit_process ::
  "(string \<Rightarrow> time result) \<Rightarrow> uuid \<Rightarrow> time \<Rightarrow> (EventMessage \<Rightarrow> ('s, unit) io) \<Rightarrow> string \<Rightarrow> 's \<Rightarrow> delivery \<times> 's" where
  "rabbit_process fromisoformat u now handle body s =
     (case bindS (lift (decode_event fromisoformat u now body)) handle s of
        (Inr _, s') \<Rightarrow> (Ack, s') | (Inl _, s') \<Rightarrow> (Reject, s'))"

section \<open>Topology\<close>

definition EXCHANGE_NAME :: string where "EXCHANGE_NAME = ''kis.domain.events''"
definition QUEUE_NAME :: string where "QUEUE_NAME = ''kis.profile.events''"
definition ROUTING_KEY :: string where "ROUTING_KEY = ''account.profile.#''"
definition DEAD_LETTER_EXCHANGE :: string where "DEAD_LETTER_EXCHANGE = ''kis.domain.events.dlx''"
definition DEAD_LETTER_QUEUE :: string where "DEAD_LETTER_QUEUE = ''kis.profile.events.dead-letter''"

text \<open>What has been declared on the broker: topic exchanges, queues with their dead-letter
  exchange, and bindings (queue, exchange, pattern). Declaring twice is idempotent.\<close>

record topology =
  tp_exchanges :: "string list"
  tp_queues :: "(string \<times> string option) list"
  tp_bindings :: "(string \<times> string \<times> string) list"

definition declare_topology :: "string \<Rightarrow> string list \<Rightarrow> topology \<Rightarrow> topology" where
  "declare_topology queue_name routing_keys tp =
     (let t1 = tp\<lparr>tp_exchanges := List.insert DEAD_LETTER_EXCHANGE (tp_exchanges tp)\<rparr>;
          t2 = t1\<lparr>tp_queues := List.insert (DEAD_LETTER_QUEUE, None) (tp_queues t1)\<rparr>;
          t3 = t2\<lparr>tp_bindings := List.insert (DEAD_LETTER_QUEUE, DEAD_LETTER_EXCHANGE, ''#'') (tp_bindings t2)\<rparr>;
          t4 = t3\<lparr>tp_exchanges := List.insert EXCHANGE_NAME (tp_exchanges t3)\<rparr>;
          t5 = t4\<lparr>tp_queues := List.insert (queue_name, Some DEAD_LETTER_EXCHANGE) (tp_queues t4)\<rparr>
      in t5\<lparr>tp_bindings := fold (\<lambda>rk. List.insert (queue_name, EXCHANGE_NAME, rk)) routing_keys (tp_bindings t5)\<rparr>)"

definition SUBSCRIPTION_PROJECTION_QUEUE :: string where
  "SUBSCRIPTION_PROJECTION_QUEUE = ''kis.signal-subscription-projection.events''"
definition SUBSCRIPTION_PROJECTION_ROUTING_KEY :: string where
  "SUBSCRIPTION_PROJECTION_ROUTING_KEY = ''signal.subscription.updated''"
definition DELIVERY_INTENT_QUEUE :: string where
  "DELIVERY_INTENT_QUEUE = ''kis.signal-delivery-intent.events''"
definition DELIVERY_INTENT_ROUTING_KEY :: string where
  "DELIVERY_INTENT_ROUTING_KEY = ''signal.created''"
definition IN_APP_NOTIFICATION_QUEUE :: string where
  "IN_APP_NOTIFICATION_QUEUE = ''kis.in-app-notification.events''"
definition IN_APP_NOTIFICATION_ROUTING_KEY :: string where
  "IN_APP_NOTIFICATION_ROUTING_KEY = ''signal.delivery-intent.created''"

definition ensure_subscription_projection_topology :: "topology \<Rightarrow> topology" where
  "ensure_subscription_projection_topology = declare_topology SUBSCRIPTION_PROJECTION_QUEUE [SUBSCRIPTION_PROJECTION_ROUTING_KEY]"

definition ensure_delivery_intent_topology :: "topology \<Rightarrow> topology" where
  "ensure_delivery_intent_topology = declare_topology DELIVERY_INTENT_QUEUE [DELIVERY_INTENT_ROUTING_KEY]"

definition ensure_in_app_notification_topology :: "topology \<Rightarrow> topology" where
  "ensure_in_app_notification_topology = declare_topology IN_APP_NOTIFICATION_QUEUE [IN_APP_NOTIFICATION_ROUTING_KEY]"

definition declare_user_message_topology :: "topology \<Rightarrow> topology" where
  "declare_user_message_topology tp =
     ensure_in_app_notification_topology (ensure_delivery_intent_topology (ensure_subscription_projection_topology tp))"

text \<open>Topic matching (AMQP): words separated by dots; \<open>*\<close> is one word, \<open>#\<close> any number of words.\<close>

fun topic_words :: "string list \<Rightarrow> string list \<Rightarrow> bool" where
  "topic_words [] [] = True"
| "topic_words [] (w # ws) = False"
| "topic_words (p # ps) [] = (p = ''#'' \<and> topic_words ps [])"
| "topic_words (p # ps) (w # ws) =
     (if p = ''#'' then topic_words ps (w # ws) \<or> topic_words (p # ps) ws
      else (p = ''*'' \<or> p = w) \<and> topic_words ps ws)"

definition topic_match :: "string \<Rightarrow> string \<Rightarrow> bool" where
  "topic_match pat rk = topic_words (split_at CHR ''.'' pat) (split_at CHR ''.'' rk)"

definition routed_to :: "topology \<Rightarrow> string \<Rightarrow> string list" where
  "routed_to tp rk = map fst (filter (\<lambda>(q, x, pat). x = EXCHANGE_NAME \<and> topic_match pat rk) (tp_bindings tp))"

section \<open>A started publisher\<close>

text \<open>Publishing with a started publisher, as the relay does, is \<open>rabbit_publish\<close>; one that is not declares the
  topology first and publishes nothing when that fails.\<close>

lemma publisher_publish_run:
  "publisher_publish declare isof conn str xp m (True, b) = (case rabbit_publish isof conn str xp m b of (x, b') \<Rightarrow> (x, (True, b')))"
  "publisher_publish declare isof conn str xp m (False, b) = (case declare b of
       (Inl e, b1) \<Rightarrow> (Inl e, (False, b1))
     | (Inr _, b1) \<Rightarrow> publisher_publish declare isof conn str xp m (True, b1))"
  by (auto simp: publisher_publish_def publisher_start_def bindS_def split: prod.splits sum.splits)

section \<open>Round trip of the encoding\<close>

definition event_members :: "string \<Rightarrow> EventMessage \<Rightarrow> jdict" where
  "event_members at m =
     [(''aggregate_id'', JStr (em_aggregate_id m)),
      (''event_id'', JStr (em_event_id m)),
      (''event_type'', JStr (em_event_type m)),
      (''event_version'', JInt (em_event_version m)),
      (''occurred_at'', JStr at),
      (''payload'', JObj (sorted_dict (em_payload m))),
      (''routing_key'', JStr (em_routing_key m))]"

lemma encode_event_sorted:
  "em_occurred_at m = Some t \<Longrightarrow>
   encode_event isof m = Inr (json_dumps True (JObj (event_members (isof t) m)))"
  by (simp add: encode_event_def event_members_def sort_keys_members_map sorted_dict_def)

lemma json_wf_event:
  assumes "json_wf (JObj (em_payload m))"
  shows "json_wf (JObj (event_members a m))"
  using json_wf_sort_keys(1) [OF assms] unfolding sort_keys_obj by (simp add: event_members_def)

lemma decode_event_members:
  assumes "json_loads body = Inr (JObj (event_members a m))" and "from a = Inr t"
    and "em_event_id m \<noteq> []" and "em_occurred_at m = Some t"
  shows "decode_event from u now body = Inr (m\<lparr>em_payload := sorted_dict (em_payload m)\<rparr>)"
  using assms by (simp add: decode_event_def event_members_def member_def dict_get_def event_post_init_def)

lemma event_decodes:
  assumes "json_wf (JObj (em_payload m))" and "em_event_id m \<noteq> []" and "em_occurred_at m = Some t"
    and "fromisoformat (isoformat t) = Inr t"
  shows "\<exists>body. encode_event isoformat m = Inr body \<and>
    decode_event fromisoformat u now body = Inr (m\<lparr>em_payload := sorted_dict (em_payload m)\<rparr>)"
proof -
  have "json_loads (json_dumps True (JObj (event_members (isoformat t) m))) = Inr (JObj (event_members (isoformat t) m))"
    by (intro json_loads_dumps json_wf_event assms(1))
  from decode_event_members [of _ _ m fromisoformat, OF this assms(4, 2, 3)] show ?thesis
    using assms(3) by (simp add: encode_event_sorted)
qed

text \<open>The consumer on a message a publisher encoded.\<close>

lemma rabbit_process_encoded:
  assumes "json_wf (JObj (em_payload m))" and "em_event_id m \<noteq> []" and "em_occurred_at m = Some t"
    and "fromisoformat (isoformat t) = Inr t" and "encode_event isoformat m = Inr body"
  shows "rabbit_process fromisoformat u now handle body s =
    (case handle (m\<lparr>em_payload := sorted_dict (em_payload m)\<rparr>) s of (Inr _, s') \<Rightarrow> (Ack, s') | (Inl _, s') \<Rightarrow> (Reject, s'))"
  using event_decodes [where m = m and isoformat = isoformat and fromisoformat = fromisoformat, OF assms(1-4), of u now] assms(5) by (auto simp: rabbit_process_def bindS_def split: prod.splits sum.splits)

text \<open>
  C9: what the consumer decodes is the event the publisher encoded, for every event with an
  identifier, a time and a payload of JSON values; the payload's members come back in key
  order, which no lookup can see (\<open>sorted_dict_get\<close>).
\<close>

theorem event_roundtrip:
  assumes "json_wf (JObj (em_payload m))" and "em_event_id m \<noteq> []" and "em_occurred_at m = Some t"
    and "fromisoformat (isoformat t) = Inr t"
  shows "bindE (encode_event isoformat m) (decode_event fromisoformat u now) =
           Inr (m\<lparr>em_payload := sorted_dict (em_payload m)\<rparr>) \<and>
         (\<forall>k. dict_get (sorted_dict (em_payload m)) k = map_option sort_keys (dict_get (em_payload m) k))"
  using event_decodes [where m = m and isoformat = isoformat and fromisoformat = fromisoformat, OF assms, of u now] assms(1)
  by (auto simp: sorted_dict_get)

theorem event_roundtrip_witness:
  "bindE (encode_event (\<lambda>t. ''2026-01-02T03:04:05+00:00'')
       (new_event 7 5 ''signal.created'' ''a'' [(''z'', JInt 1), (''b'', JStr ''x'')] ''signal.created''))
     (decode_event (\<lambda>s. Inr 5) 0 0) =
   Inr (new_event 7 5 ''signal.created'' ''a'' [(''b'', JStr ''x''), (''z'', JInt 1)] ''signal.created'')"
  using event_roundtrip [of "new_event 7 5 ''signal.created'' ''a'' [(''z'', JInt 1), (''b'', JStr ''x'')] ''signal.created''"
      5 "\<lambda>s. Inr 5" "\<lambda>t. ''2026-01-02T03:04:05+00:00''" 0 0]
  by (simp add: sorted_dict_def new_event_def event_post_init_def)

end
