(* ===== verification/RedisApi.thy ===== *)
theory RedisApi
  imports Uuid
begin

text \<open>
  The Redis commands the clients of the repository issue. Redis is not part of the repository: the
  clients take a record of command functions on a server state, each with the server's clock
  reading, and each able to raise \<open>RedisError\<close>. The locale \<open>redis_server\<close> states the documented
  behaviour the clients rely on: under an abstraction of the server state, a command that returns
  does what the specification of that command says, and one that raises has taken effect or not. The specifications work on a map from keys to
  values with expiry times; a key is live until its expiry time. Reading a key of the other type
  (a string as a set or the reverse) is outside the model: the clients use disjoint keys.
\<close>

datatype rval = RStr string | RSet "string list"

type_synonym rstate = "string \<Rightarrow> (rval \<times> time option) option"

datatype redis_cmd =
    CSetEx string string int
  | CSAdd string string
  | CSRem string string
  | CExpire string int
  | CDel "string list"

record 'r redis_api =
  rd_ping :: "time \<Rightarrow> ('r, bool) io"
  rd_get :: "time \<Rightarrow> string \<Rightarrow> ('r, string option) io"
  rd_set_ex :: "time \<Rightarrow> string \<Rightarrow> string \<Rightarrow> int \<Rightarrow> ('r, unit) io"
  rd_set_nx :: "time \<Rightarrow> string \<Rightarrow> string \<Rightarrow> int \<Rightarrow> ('r, bool) io"
  rd_del :: "time \<Rightarrow> string list \<Rightarrow> ('r, nat) io"
  rd_smembers :: "time \<Rightarrow> string \<Rightarrow> ('r, string list) io"
  rd_exec :: "time \<Rightarrow> redis_cmd list \<Rightarrow> ('r, nat list) io"

section \<open>Documented behaviour\<close>

definition live :: "time \<Rightarrow> rstate \<Rightarrow> string \<Rightarrow> rval option" where
  "live now s k = (case s k of None \<Rightarrow> None
     | Some (v, None) \<Rightarrow> Some v
     | Some (v, Some e) \<Rightarrow> if e \<le> now then None else Some v)"

definition spec_get :: "time \<Rightarrow> string \<Rightarrow> rstate \<Rightarrow> string option" where
  "spec_get now k s = (case live now s k of Some (RStr v) \<Rightarrow> Some v | _ \<Rightarrow> None)"

definition spec_smembers :: "time \<Rightarrow> string \<Rightarrow> rstate \<Rightarrow> string list" where
  "spec_smembers now k s = (case live now s k of Some (RSet ms) \<Rightarrow> ms | _ \<Rightarrow> [])"

definition spec_set_ex :: "time \<Rightarrow> string \<Rightarrow> string \<Rightarrow> int \<Rightarrow> rstate \<Rightarrow> rstate" where
  "spec_set_ex now k v ttl s = s(k \<mapsto> (RStr v, Some (now + seconds ttl)))"

definition spec_set_nx :: "time \<Rightarrow> string \<Rightarrow> string \<Rightarrow> int \<Rightarrow> rstate \<Rightarrow> bool \<times> rstate" where
  "spec_set_nx now k v ttl s =
     (case live now s k of None \<Rightarrow> (True, spec_set_ex now k v ttl s) | Some _ \<Rightarrow> (False, s))"

definition spec_del :: "time \<Rightarrow> string list \<Rightarrow> rstate \<Rightarrow> nat \<times> rstate" where
  "spec_del now ks s = (length (filter (\<lambda>k. live now s k \<noteq> None) (dedup ks)),
     (\<lambda>k. if k \<in> set ks then None else s k))"

definition expiry_of :: "time \<Rightarrow> rstate \<Rightarrow> string \<Rightarrow> time option" where
  "expiry_of now s k = (case live now s k of None \<Rightarrow> None | Some _ \<Rightarrow> snd (the (s k)))"

fun spec_cmd :: "time \<Rightarrow> redis_cmd \<Rightarrow> rstate \<Rightarrow> nat \<times> rstate" where
  "spec_cmd now (CSetEx k v ttl) s = (1, spec_set_ex now k v ttl s)"
| "spec_cmd now (CSAdd k m) s = (let ms = spec_smembers now k s in
     if m \<in> set ms then (0, s) else (1, s(k \<mapsto> (RSet (ms @ [m]), expiry_of now s k))))"
| "spec_cmd now (CSRem k m) s = (let ms = spec_smembers now k s; ms' = removeAll m ms in
     if m \<notin> set ms then (0, s)
     else (1, if ms' = [] then s(k := None) else s(k \<mapsto> (RSet ms', expiry_of now s k))))"
| "spec_cmd now (CExpire k ttl) s = (case live now s k of None \<Rightarrow> (0, s)
     | Some v \<Rightarrow> (1, s(k \<mapsto> (v, Some (now + seconds ttl)))))"
| "spec_cmd now (CDel ks) s = spec_del now ks s"

fun spec_exec :: "time \<Rightarrow> redis_cmd list \<Rightarrow> rstate \<Rightarrow> nat list \<times> rstate" where
  "spec_exec now [] s = ([], s)"
| "spec_exec now (c # cs) s = (let (n, s1) = spec_cmd now c s; (ns, s2) = spec_exec now cs s1
     in (n # ns, s2))"

locale redis_server =
  fixes api :: "'r redis_api" and contents :: "'r \<Rightarrow> rstate"
  assumes get_ok: "rd_get api now k r = (Inr v, r') \<Longrightarrow> v = spec_get now k (contents r) \<and> contents r' = contents r"
    and set_ex_ok: "rd_set_ex api now k x ttl r = (Inr u, r') \<Longrightarrow> contents r' = spec_set_ex now k x ttl (contents r)"
    and set_nx_ok: "rd_set_nx api now k x ttl r = (Inr b, r') \<Longrightarrow> (b, contents r') = spec_set_nx now k x ttl (contents r)"
    and del_ok: "rd_del api now ks r = (Inr n, r') \<Longrightarrow> (n, contents r') = spec_del now ks (contents r)"
    and smembers_ok: "rd_smembers api now k r = (Inr ms, r') \<Longrightarrow>
      set ms = set (spec_smembers now k (contents r)) \<and> distinct ms \<and> contents r' = contents r"
    and exec_ok: "rd_exec api now cs r = (Inr ns, r') \<Longrightarrow> (ns, contents r') = spec_exec now cs (contents r)"
    and get_failed: "rd_get api now k r = (Inl e, r') \<Longrightarrow> contents r' = contents r"
    and set_ex_failed: "rd_set_ex api now k x ttl r = (Inl e, r') \<Longrightarrow>
      contents r' = contents r \<or> contents r' = spec_set_ex now k x ttl (contents r)"
    and set_nx_failed: "rd_set_nx api now k x ttl r = (Inl e, r') \<Longrightarrow>
      contents r' = contents r \<or> contents r' = snd (spec_set_nx now k x ttl (contents r))"
    and del_failed: "rd_del api now ks r = (Inl e, r') \<Longrightarrow>
      contents r' = contents r \<or> contents r' = snd (spec_del now ks (contents r))"
    and smembers_failed: "rd_smembers api now k r = (Inl e, r') \<Longrightarrow> contents r' = contents r"
    and exec_failed: "rd_exec api now cs r = (Inl e, r') \<Longrightarrow>
      contents r' = contents r \<or> contents r' = snd (spec_exec now cs (contents r))"

text \<open>A server in memory that never fails, with the specification as its implementation.\<close>

definition mem_redis :: "rstate redis_api" where
  "mem_redis = \<lparr>rd_ping = (\<lambda>now. ret True),
     rd_get = (\<lambda>now k. gets (spec_get now k)),
     rd_set_ex = (\<lambda>now k v ttl. modify (spec_set_ex now k v ttl)),
     rd_set_nx = (\<lambda>now k v ttl s. apfst Inr (spec_set_nx now k v ttl s)),
     rd_del = (\<lambda>now ks s. apfst Inr (spec_del now ks s)),
     rd_smembers = (\<lambda>now k. gets (\<lambda>s. dedup (spec_smembers now k s))),
     rd_exec = (\<lambda>now cs s. apfst Inr (spec_exec now cs s))\<rparr>"

interpretation mem: redis_server mem_redis "\<lambda>s. s"
  by unfold_locales (auto simp: mem_redis_def apfst_def map_prod_def split: prod.splits)

section \<open>Lemmas\<close>

lemma live_upd [simp]:
  "live n (s(k \<mapsto> (v, e))) k' = (if k' = k then (case e of None \<Rightarrow> Some v | Some t \<Rightarrow> if t \<le> n then None else Some v)
     else live n s k')"
  by (simp add: live_def split: option.splits)

lemma live_del [simp]: "live n (s(k := None)) k' = (if k' = k then None else live n s k')"
  by (simp add: live_def)

lemma live_set_ex [simp]:
  "live n (spec_set_ex now k v ttl s) k' =
     (if k' = k then (if now + seconds ttl \<le> n then None else Some (RStr v)) else live n s k')"
  by (simp add: spec_set_ex_def)

lemma spec_get_set_ex [simp]:
  "spec_get n k' (spec_set_ex now k v ttl s) =
     (if k' = k then (if now + seconds ttl \<le> n then None else Some v) else spec_get n k' s)"
  by (simp add: spec_get_def)

lemma spec_del_live [simp]: "live n (snd (spec_del now ks s)) k = (if k \<in> set ks then None else live n s k)"
  by (simp add: spec_del_def live_def)

lemma spec_get_del [simp]: "spec_get n k (snd (spec_del now ks s)) = (if k \<in> set ks then None else spec_get n k s)"
  by (simp add: spec_get_def)

text \<open>A key live at \<open>now\<close> is live with the same value later, or has expired.\<close>

lemma live_mono: "now \<le> n \<Longrightarrow> live now s k = Some v \<Longrightarrow> live n s k = Some v \<or> live n s k = None"
  by (auto simp: live_def split: option.splits if_splits)

lemma live_None_mono: "now \<le> n \<Longrightarrow> live now s k = None \<Longrightarrow> live n s k = None"
  by (auto simp: live_def split: option.splits if_splits)

end
