(* ===== verification/KeyValue.thy ===== *)
theory KeyValue
  imports RedisApi
begin

text \<open>
  The key-value store (\<open>infrastructure/key_value_store\<close>): configuration from the environment, the
  in-memory client \<open>FakeKeyValueStoreClient\<close>, the Redis client, and the service in front of them.
  A client is a record of operations on a state; every operation takes the clock reading. The
  locale \<open>kv_client\<close> is the contract of the protocol class: what a reader sees at a time \<open>n\<close> after
  an operation. Both clients meet it, so clients of the store (the KIS adapters) are verified
  once; a trace of gets and sets gives the same results on the fake and on Redis.
\<close>

record 's kv_ops =
  kv_get :: "time \<Rightarrow> string \<Rightarrow> ('s, string option) io"
  kv_set :: "time \<Rightarrow> string \<Rightarrow> string \<Rightarrow> int option \<Rightarrow> ('s, unit) io"
  kv_delete :: "time \<Rightarrow> string \<Rightarrow> ('s, bool) io"

section \<open>Configuration\<close>

definition environ_get :: "(string, string) dict \<Rightarrow> string \<Rightarrow> string option" where
  "environ_get env k = dict_get env k"

definition required_environment :: "(string, string) dict \<Rightarrow> string \<Rightarrow> string result" where
  "required_environment env name = (case environ_get env name of
       None \<Rightarrow> Inl (RuntimeError (name @ '' must be set''))
     | Some v \<Rightarrow> if v = [] then Inl (RuntimeError (name @ '' must be set'')) else Inr v)"

definition port_from_environment :: "(string, string) dict \<Rightarrow> string \<Rightarrow> int result" where
  "port_from_environment env name =
     bindE (required_environment env name) (\<lambda>v.
     case py_int v of
       Inl _ \<Rightarrow> Inl (RuntimeError (name @ '' must be an integer''))
     | Inr p \<Rightarrow> if \<not> (1 \<le> p \<and> p \<le> 65535)
                then Inl (RuntimeError (name @ '' must be between 1 and 65535'')) else Inr p)"

datatype KeyValueStoreBackend = KV_REDIS | KV_MEMCACHED
datatype RedisMode = STANDALONE | SENTINEL | CLUSTER

record KeyValueStoreConfig =
  kc_backend :: KeyValueStoreBackend
  kc_mode :: RedisMode
  kc_redis_url :: string
  kc_cluster_startup_nodes :: "string list"
  kc_sentinel_urls :: string
  kc_sentinel_master :: string
  kc_memcached_host :: string
  kc_memcached_port :: int
  kc_key_prefix :: string
  kc_ttl_seconds :: int

definition default_kv_config :: KeyValueStoreConfig where
  "default_kv_config = \<lparr>kc_backend = KV_REDIS, kc_mode = STANDALONE, kc_redis_url = '''',
     kc_cluster_startup_nodes = [], kc_sentinel_urls = '''', kc_sentinel_master = ''cache-primary'',
     kc_memcached_host = '''', kc_memcached_port = 11211, kc_key_prefix = ''kis-cache'',
     kc_ttl_seconds = 86400\<rparr>"

text \<open>\<open>value.strip() for value in text.split(',') if value.strip()\<close>\<close>

definition stripped_items :: "string \<Rightarrow> string list" where
  "stripped_items s = filter (\<lambda>v. v \<noteq> []) (map strip (split_at CHR '','' s))"

text \<open>\<open>from_environment\<close> for a backend and a mode; the module constants \<open>DEFAULT_BACKEND\<close> and
  \<open>DEFAULT_MODE\<close> select Redis, stand-alone.\<close>

definition kv_config_for ::
  "KeyValueStoreBackend \<Rightarrow> RedisMode \<Rightarrow> (string, string) dict \<Rightarrow> KeyValueStoreConfig result" where
  "kv_config_for backend mode env =
     (if backend = KV_MEMCACHED then
        bindE (required_environment env ''MEMCACHED_HOST'') (\<lambda>host.
        bindE (port_from_environment env ''MEMCACHED_PORT'') (\<lambda>port.
          Inr (default_kv_config\<lparr>kc_backend := backend, kc_memcached_host := host, kc_memcached_port := port\<rparr>)))
      else if mode = CLUSTER then
        bindE (required_environment env ''REDIS_CLUSTER_URL'') (\<lambda>url.
          Inr (default_kv_config\<lparr>kc_backend := backend, kc_mode := mode, kc_redis_url := url,
            kc_cluster_startup_nodes := stripped_items
              (case environ_get env ''REDIS_CLUSTER_STARTUP_NODES'' of Some v \<Rightarrow> v | None \<Rightarrow> '''')\<rparr>))
      else if mode = SENTINEL then
        bindE (required_environment env ''REDIS_SENTINEL_URLS'') (\<lambda>urls.
          Inr (default_kv_config\<lparr>kc_backend := backend, kc_mode := mode, kc_sentinel_urls := urls\<rparr>))
      else
        bindE (required_environment env ''REDIS_URL'') (\<lambda>url.
          Inr (default_kv_config\<lparr>kc_backend := backend, kc_mode := mode, kc_redis_url := url\<rparr>)))"

definition kv_config_from_environment :: "(string, string) dict \<Rightarrow> KeyValueStoreConfig result" where
  "kv_config_from_environment env = kv_config_for KV_REDIS STANDALONE env"

text \<open>Endpoints of the Redis client's constructor: \<open>urlparse\<close> gives host name and port.\<close>

definition cluster_startup_nodes ::
  "(string \<Rightarrow> string option \<times> int option) \<Rightarrow> string list \<Rightarrow> (string \<times> int) list" where
  "cluster_startup_nodes urlparse vs = concat (map (\<lambda>v. case urlparse v of
       (Some host, port) \<Rightarrow> if host = [] then [] else
          [(host, case port of Some p \<Rightarrow> if p = 0 then 6379 else p | None \<Rightarrow> 6379)]
     | (None, _) \<Rightarrow> []) vs)"

text \<open>\<open>repr\<close> of a string: the quote is chosen, the quote and the backslash are escaped, and
  characters that do not print are written as escapes.\<close>

definition repr_char :: "char \<Rightarrow> char \<Rightarrow> string" where
  "repr_char q c = (let n = of_char c :: nat in
     if c = q \<or> n = 92 then [CHR 0x5C, c] else if n = 9 then [CHR 0x5C, CHR ''t'']
     else if n = 10 then [CHR 0x5C, CHR ''n''] else if n = 13 then [CHR 0x5C, CHR ''r'']
     else if n < 32 \<or> (127 \<le> n \<and> n \<le> 160) \<or> n = 173 then [CHR 0x5C, CHR ''x''] @ hexn 2 n else [c])"

definition str_repr :: "string \<Rightarrow> string" where
  "str_repr s = (let q = (if CHR 0x27 \<in> set s \<and> CHR 0x22 \<notin> set s then CHR 0x22 else CHR 0x27)
     in [q] @ concat (map (repr_char q) s) @ [q])"

definition sentinel_endpoint :: "string \<Rightarrow> (string \<times> int) result" where
  "sentinel_endpoint item = (case rpartition_at CHR '':'' (strip item) of
     (host, sep, port_text) \<Rightarrow>
       if \<not> sep \<or> host = [] then Inl (ValueError (''Invalid Redis Sentinel endpoint: '' @ str_repr item))
       else case py_int port_text of
         Inl _ \<Rightarrow> Inl (ValueError (''Invalid Redis Sentinel port: '' @ str_repr item))
       | Inr p \<Rightarrow> Inr (host, p))"

definition sentinel_endpoints :: "string \<Rightarrow> (string \<times> int) list result" where
  "sentinel_endpoints v = bindE (mapE sentinel_endpoint (split_at CHR '','' v)) (\<lambda>es.
     if es = [] then Inl (ValueError ''Redis Sentinel endpoints are empty'') else Inr es)"

section \<open>The in-memory client\<close>

record FakeKeyValueStoreClient =
  fk_default_ttl :: int
  fk_values :: "(string, string \<times> time) dict"

definition fake_kv_new :: "int \<Rightarrow> FakeKeyValueStoreClient result" where
  "fake_kv_new default_ttl = (if default_ttl \<le> 0
     then Inl (ValueError ''default_ttl_seconds must be positive'')
     else Inr \<lparr>fk_default_ttl = default_ttl, fk_values = []\<rparr>)"

definition kv_require_key :: "string \<Rightarrow> unit result" where
  "kv_require_key k = (if k = [] then Inl (ValueError ''cache key must not be empty'') else Inr ())"

definition kv_ttl :: "int \<Rightarrow> int option \<Rightarrow> int result" where
  "kv_ttl dflt ttl_seconds = (let ttl = (case ttl_seconds of Some t \<Rightarrow> t | None \<Rightarrow> dflt) in
     if ttl \<le> 0 then Inl (ValueError ''ttl_seconds must be positive'') else Inr ttl)"

definition fake_kv_get :: "time \<Rightarrow> string \<Rightarrow> (FakeKeyValueStoreClient, string option) io" where
  "fake_kv_get now k =
     bindS (lift (kv_require_key k)) (\<lambda>_.
     bindS (gets (\<lambda>s. dict_get (fk_values s) k)) (\<lambda>stored. case stored of
       None \<Rightarrow> ret None
     | Some (v, expires_at) \<Rightarrow>
         if expires_at \<le> now then bindS (modify (fk_values_update (dict_del k))) (\<lambda>_. ret None)
         else ret (Some v)))"

definition fake_kv_set :: "time \<Rightarrow> string \<Rightarrow> string \<Rightarrow> int option \<Rightarrow> (FakeKeyValueStoreClient, unit) io" where
  "fake_kv_set now k v ttl_seconds =
     bindS (lift (kv_require_key k)) (\<lambda>_.
     bindS (gets (\<lambda>s. kv_ttl (fk_default_ttl s) ttl_seconds)) (\<lambda>r.
     bindS (lift r) (\<lambda>ttl.
       modify (fk_values_update (dict_set k (v, now + seconds ttl))))))"

definition fake_kv_delete :: "time \<Rightarrow> string \<Rightarrow> (FakeKeyValueStoreClient, bool) io" where
  "fake_kv_delete now k =
     bindS (lift (kv_require_key k)) (\<lambda>_.
     bindS (gets (\<lambda>s. dict_get (fk_values s) k)) (\<lambda>stored.
     bindS (modify (fk_values_update (dict_del k))) (\<lambda>_. ret (stored \<noteq> None))))"

definition fake_kv :: "FakeKeyValueStoreClient kv_ops" where
  "fake_kv = \<lparr>kv_get = fake_kv_get, kv_set = fake_kv_set, kv_delete = fake_kv_delete\<rparr>"

section \<open>The Redis client\<close>

definition kv_key :: "KeyValueStoreConfig \<Rightarrow> string \<Rightarrow> string result" where
  "kv_key cfg k = (if k = [] then Inl (ValueError ''cache key must not be empty'')
     else Inr (kc_key_prefix cfg @ '':'' @ k))"

definition redis_kv_get :: "'r redis_api \<Rightarrow> KeyValueStoreConfig \<Rightarrow> time \<Rightarrow> string \<Rightarrow> ('r, string option) io" where
  "redis_kv_get api cfg now k = bindS (lift (kv_key cfg k)) (\<lambda>key. rd_get api now key)"

definition redis_kv_set ::
  "'r redis_api \<Rightarrow> KeyValueStoreConfig \<Rightarrow> time \<Rightarrow> string \<Rightarrow> string \<Rightarrow> int option \<Rightarrow> ('r, unit) io" where
  "redis_kv_set api cfg now k v ttl_seconds =
     bindS (lift (kv_key cfg k)) (\<lambda>key.
     bindS (lift (kv_ttl (kc_ttl_seconds cfg) ttl_seconds)) (\<lambda>ttl. rd_set_ex api now key v ttl))"

definition redis_kv_delete :: "'r redis_api \<Rightarrow> KeyValueStoreConfig \<Rightarrow> time \<Rightarrow> string \<Rightarrow> ('r, bool) io" where
  "redis_kv_delete api cfg now k =
     bindS (lift (kv_key cfg k)) (\<lambda>key. bindS (rd_del api now [key]) (\<lambda>n. ret (n \<noteq> 0)))"

definition redis_kv_health_check :: "'r redis_api \<Rightarrow> time \<Rightarrow> ('r, unit) io" where
  "redis_kv_health_check api now = bindS (rd_ping api now) (\<lambda>ok.
     if ok then ret () else raise (RuntimeError ''Redis key-value store health check failed''))"

definition redis_kv :: "'r redis_api \<Rightarrow> KeyValueStoreConfig \<Rightarrow> 'r kv_ops" where
  "redis_kv api cfg = \<lparr>kv_get = redis_kv_get api cfg, kv_set = redis_kv_set api cfg,
     kv_delete = redis_kv_delete api cfg\<rparr>"

section \<open>The service\<close>

definition kv_service :: "'s kv_ops \<Rightarrow> int \<Rightarrow> 's kv_ops" where
  "kv_service client default_ttl = \<lparr>kv_get = kv_get client,
     kv_set = (\<lambda>now k v ttl. kv_set client now k v
        (Some (case ttl of None \<Rightarrow> default_ttl | Some t \<Rightarrow> t))),
     kv_delete = kv_delete client\<rparr>"

section \<open>The contract\<close>

locale kv_client =
  fixes ops :: "'s kv_ops" and look :: "time \<Rightarrow> 's \<Rightarrow> string \<Rightarrow> string option" and default_ttl :: "'s \<Rightarrow> int"
  assumes get_law: "kv_get ops now k s = (Inr v, s') \<Longrightarrow>
      v = look now s k \<and> (\<forall>n\<ge>now. \<forall>j. look n s' j = look n s j) \<and> default_ttl s' = default_ttl s"
    and set_law: "kv_set ops now k x ttl s = (Inr u, s') \<Longrightarrow>
      k \<noteq> [] \<and> 0 < (case ttl of None \<Rightarrow> default_ttl s | Some t \<Rightarrow> t) \<and> default_ttl s' = default_ttl s \<and>
      (\<forall>n\<ge>now. \<forall>j. look n s' j = (if j = k
         then if now + seconds (case ttl of None \<Rightarrow> default_ttl s | Some t \<Rightarrow> t) \<le> n then None else Some x
         else look n s j))"
    and delete_law: "kv_delete ops now k s = (Inr b, s') \<Longrightarrow>
      default_ttl s' = default_ttl s \<and> (\<forall>n\<ge>now. \<forall>j. look n s' j = (if j = k then None else look n s j))"
begin

text \<open>A value is read back until its time to live is over, whatever is done to other keys.\<close>

lemma get_after_set:
  assumes "kv_set ops t0 k x (Some ttl) s = (Inr (), s1)" "kv_get ops t1 k s1 = (Inr v, s2)" "t0 \<le> t1"
  shows "v = (if t1 < t0 + seconds ttl then Some x else None)"
  using set_law [OF assms(1)] get_law [OF assms(2)] assms(3) by auto

lemma set_other:
  assumes "kv_set ops t0 k x ttl s = (Inr (), s1)" "kv_get ops t1 j s1 = (Inr v, s2)" "t0 \<le> t1" "j \<noteq> k"
  shows "v = look t1 s j"
  using set_law [OF assms(1)] get_law [OF assms(2)] assms(3,4) by auto

end

definition fake_look :: "time \<Rightarrow> FakeKeyValueStoreClient \<Rightarrow> string \<Rightarrow> string option" where
  "fake_look n s k = (case dict_get (fk_values s) k of None \<Rightarrow> None
     | Some (v, e) \<Rightarrow> if e \<le> n then None else Some v)"

definition redis_look :: "('r \<Rightarrow> rstate) \<Rightarrow> KeyValueStoreConfig \<Rightarrow> time \<Rightarrow> 'r \<Rightarrow> string \<Rightarrow> string option" where
  "redis_look contents cfg n r k = spec_get n (kc_key_prefix cfg @ '':'' @ k) (contents r)"

lemma fake_kv_set_run:
  "fake_kv_set now k v ttl s = (if k = [] then (Inl (ValueError ''cache key must not be empty''), s)
     else case kv_ttl (fk_default_ttl s) ttl of Inl e \<Rightarrow> (Inl e, s)
       | Inr t \<Rightarrow> (Inr (), s\<lparr>fk_values := dict_set k (v, now + seconds t) (fk_values s)\<rparr>))"
  by (auto simp: fake_kv_set_def kv_require_key_def bindS_def split: sum.splits)

lemma fake_kv_delete_run:
  "fake_kv_delete now k s = (if k = [] then (Inl (ValueError ''cache key must not be empty''), s)
     else (Inr (dict_get (fk_values s) k \<noteq> None), s\<lparr>fk_values := dict_del k (fk_values s)\<rparr>))"
  by (auto simp: fake_kv_delete_def kv_require_key_def)

lemma kv_ttl_Inr: "kv_ttl d ttl = Inr t \<longleftrightarrow> 0 < t \<and> t = (case ttl of None \<Rightarrow> d | Some t \<Rightarrow> t)"
  by (auto simp: kv_ttl_def Let_def split: option.splits)

interpretation fake_kv: kv_client fake_kv fake_look fk_default_ttl
proof
  fix now k s v s'
  assume "kv_get fake_kv now k s = (Inr v, s')"
  then show "v = fake_look now s k \<and> (\<forall>n\<ge>now. \<forall>j. fake_look n s' j = fake_look n s j) \<and> fk_default_ttl s' = fk_default_ttl s"
    by (auto simp: fake_kv_def fake_kv_get_def kv_require_key_def fake_look_def bindS_def
        split: option.splits if_splits)
next
  fix now k x ttl s u s'
  assume "kv_set fake_kv now k x ttl s = (Inr u, s')"
  then show "k \<noteq> [] \<and> 0 < (case ttl of None \<Rightarrow> fk_default_ttl s | Some t \<Rightarrow> t) \<and> fk_default_ttl s' = fk_default_ttl s \<and>
      (\<forall>n\<ge>now. \<forall>j. fake_look n s' j = (if j = k
         then if now + seconds (case ttl of None \<Rightarrow> fk_default_ttl s | Some t \<Rightarrow> t) \<le> n then None else Some x
         else fake_look n s j))"
    by (auto simp: fake_kv_def fake_kv_set_run fake_look_def kv_ttl_Inr split: if_splits sum.splits)
next
  fix now k s b s'
  assume "kv_delete fake_kv now k s = (Inr b, s')"
  then show "fk_default_ttl s' = fk_default_ttl s \<and> (\<forall>n\<ge>now. \<forall>j. fake_look n s' j = (if j = k then None else fake_look n s j))"
    by (auto simp: fake_kv_def fake_kv_delete_run fake_look_def split: if_splits)
qed

lemma kv_key_Inr: "kv_key cfg k = Inr j \<longleftrightarrow> k \<noteq> [] \<and> j = kc_key_prefix cfg @ '':'' @ k"
  by (auto simp: kv_key_def)

lemma spec_del_snd: "(n, s') = spec_del now ks s \<Longrightarrow> s' = snd (spec_del now ks s)"
  by (metis snd_conv)

sublocale redis_server \<subseteq> kv: kv_client "redis_kv api cfg" "redis_look contents cfg" "\<lambda>_. kc_ttl_seconds cfg"
proof
  fix now k s v s'
  assume "kv_get (redis_kv api cfg) now k s = (Inr v, s')"
  then obtain j where "k \<noteq> []" "rd_get api now (kc_key_prefix cfg @ '':'' @ k) s = (Inr v, s')"
    by (auto simp: redis_kv_def redis_kv_get_def kv_key_def split: if_splits)
  then show "v = redis_look contents cfg now s k \<and> (\<forall>n\<ge>now. \<forall>j. redis_look contents cfg n s' j = redis_look contents cfg n s j) \<and>
      kc_ttl_seconds cfg = kc_ttl_seconds cfg"
    by (auto dest!: get_ok simp: redis_look_def)
next
  fix now k x ttl s u s'
  assume "kv_set (redis_kv api cfg) now k x ttl s = (Inr u, s')"
  then obtain t where t: "k \<noteq> []" "kv_ttl (kc_ttl_seconds cfg) ttl = Inr t"
    "rd_set_ex api now (kc_key_prefix cfg @ '':'' @ k) x t s = (Inr u, s')"
    by (auto simp: redis_kv_def redis_kv_set_def kv_key_def bindS_def split: if_splits sum.splits)
  then show "k \<noteq> [] \<and> 0 < (case ttl of None \<Rightarrow> kc_ttl_seconds cfg | Some t \<Rightarrow> t) \<and> kc_ttl_seconds cfg = kc_ttl_seconds cfg \<and>
      (\<forall>n\<ge>now. \<forall>j. redis_look contents cfg n s' j = (if j = k
         then if now + seconds (case ttl of None \<Rightarrow> kc_ttl_seconds cfg | Some t \<Rightarrow> t) \<le> n then None else Some x
         else redis_look contents cfg n s j))"
    using set_ex_ok [OF t(3)] by (auto simp: redis_look_def kv_ttl_Inr)
next
  fix now k s b s'
  assume "kv_delete (redis_kv api cfg) now k s = (Inr b, s')"
  then obtain n where n: "k \<noteq> []" "rd_del api now [kc_key_prefix cfg @ '':'' @ k] s = (Inr n, s')"
    by (auto simp: redis_kv_def redis_kv_delete_def kv_key_def bindS_def split: if_splits sum.splits prod.splits)
  then show "kc_ttl_seconds cfg = kc_ttl_seconds cfg \<and>
      (\<forall>n\<ge>now. \<forall>j. redis_look contents cfg n s' j = (if j = k then None else redis_look contents cfg n s j))"
    using spec_del_snd [OF del_ok [OF n(2)]] by (auto simp: redis_look_def)
qed

context redis_server
begin

lemmas redis_kv_client = kv.kv_client_axioms

end

lemma kv_service_client:
  assumes "kv_client ops look dt"
  shows "kv_client (kv_service ops d) look (\<lambda>_. d)"
proof (rule kv_client.intro)
  fix now k s v s'
  assume "kv_get (kv_service ops d) now k s = (Inr v, s')"
  then show "v = look now s k \<and> (\<forall>n\<ge>now. \<forall>j. look n s' j = look n s j) \<and> d = d"
    using kv_client.get_law [OF assms, of now k s v s'] by (simp add: kv_service_def)
next
  fix now k x ttl s u s'
  assume "kv_set (kv_service ops d) now k x ttl s = (Inr u, s')"
  then have "kv_set ops now k x (Some (case ttl of None \<Rightarrow> d | Some t \<Rightarrow> t)) s = (Inr u, s')"
    by (simp add: kv_service_def)
  from kv_client.set_law [OF assms this]
  show "k \<noteq> [] \<and> 0 < (case ttl of None \<Rightarrow> d | Some t \<Rightarrow> t) \<and> d = d \<and>
      (\<forall>n\<ge>now. \<forall>j. look n s' j = (if j = k then if now + seconds (case ttl of None \<Rightarrow> d | Some t \<Rightarrow> t) \<le> n
         then None else Some x else look n s j))" by simp
next
  fix now k s b s'
  assume "kv_delete (kv_service ops d) now k s = (Inr b, s')"
  then show "d = d \<and> (\<forall>n\<ge>now. \<forall>j. look n s' j = (if j = k then None else look n s j))"
    using kv_client.delete_law [OF assms, of now k s b s'] by (simp add: kv_service_def)
qed

section \<open>The fake and Redis agree\<close>

datatype kv_op = KGet string | KSet string string "int option" | KDel string

fun kv_step :: "'s kv_ops \<Rightarrow> time \<Rightarrow> kv_op \<Rightarrow> ('s, string option) io" where
  "kv_step ops t (KGet k) = kv_get ops t k"
| "kv_step ops t (KSet k v ttl) = bindS (kv_set ops t k v ttl) (\<lambda>_. ret None)"
| "kv_step ops t (KDel k) = bindS (kv_delete ops t k) (\<lambda>_. ret None)"

fun kv_trace :: "'s kv_ops \<Rightarrow> (time \<times> kv_op) list \<Rightarrow> 's \<Rightarrow> string option result list" where
  "kv_trace ops [] s = []"
| "kv_trace ops ((t, op) # xs) s = (case kv_step ops t op s of (r, s') \<Rightarrow> r # kv_trace ops xs s')"

text \<open>A server that answers every command.\<close>

definition redis_up :: "'r redis_api \<Rightarrow> bool" where
  "redis_up api \<longleftrightarrow> (\<forall>now r. (\<forall>k. \<exists>v r'. rd_get api now k r = (Inr v, r')) \<and>
     (\<forall>k x ttl. \<exists>r'. rd_set_ex api now k x ttl r = (Inr (), r')) \<and>
     (\<forall>ks. \<exists>n r'. rd_del api now ks r = (Inr n, r')) \<and>
     (\<forall>k x ttl. \<exists>b r'. rd_set_nx api now k x ttl r = (Inr b, r')))"

lemma mem_redis_up: "redis_up mem_redis"
  by (auto simp: redis_up_def mem_redis_def apfst_def map_prod_def split: prod.splits)

text \<open>The clients raise on the same arguments, before touching the state.\<close>

definition kv_bad :: "int \<Rightarrow> kv_op \<Rightarrow> exn option" where
  "kv_bad d op = (let k = (case op of KGet k \<Rightarrow> k | KSet k _ _ \<Rightarrow> k | KDel k \<Rightarrow> k) in
     if k = [] then Some (ValueError ''cache key must not be empty'')
     else case op of KSet _ _ ttl \<Rightarrow> (case kv_ttl d ttl of Inl e \<Rightarrow> Some e | Inr _ \<Rightarrow> None) | _ \<Rightarrow> None)"

lemma fake_step_error: "kv_bad (fk_default_ttl s) op = Some e \<Longrightarrow> kv_step fake_kv t op s = (Inl e, s)"
  by (cases op) (auto simp: kv_bad_def fake_kv_def fake_kv_get_def fake_kv_set_run fake_kv_delete_run
      kv_require_key_def bindS_def split: if_splits sum.splits)

lemma fake_step_ok: "kv_bad (fk_default_ttl s) op = None \<Longrightarrow> \<exists>v s'. kv_step fake_kv t op s = (Inr v, s')"
  by (cases op) (auto simp: kv_bad_def fake_kv_def fake_kv_get_def fake_kv_set_run fake_kv_delete_run
      kv_require_key_def bindS_def split: if_splits sum.splits option.splits)

lemma redis_step_error: "kv_bad (kc_ttl_seconds cfg) op = Some e \<Longrightarrow> kv_step (redis_kv api cfg) t op r = (Inl e, r)"
  by (cases op) (auto simp: kv_bad_def redis_kv_def redis_kv_get_def redis_kv_set_def redis_kv_delete_def
      kv_key_def bindS_def split: if_splits sum.splits)

lemma redis_step_ok:
  assumes "redis_up api" "kv_bad (kc_ttl_seconds cfg) op = None"
  shows "\<exists>v r'. kv_step (redis_kv api cfg) t op r = (Inr v, r')"
proof (cases op)
  case (KGet k)
  then show ?thesis using assms by (auto simp: kv_bad_def redis_kv_def redis_kv_get_def kv_key_def redis_up_def split: if_splits)
next
  case (KSet k v ttl)
  obtain d where d: "kv_ttl (kc_ttl_seconds cfg) ttl = Inr d" "k \<noteq> []"
    using assms(2) KSet by (auto simp: kv_bad_def split: if_splits sum.splits)
  obtain r' where "rd_set_ex api t (kc_key_prefix cfg @ '':'' @ k) v d r = (Inr (), r')"
    using assms(1) unfolding redis_up_def by blast
  then show ?thesis using KSet d by (simp add: redis_kv_def redis_kv_set_def kv_key_def bindS_def)
next
  case (KDel k)
  obtain n r' where "rd_del api t [kc_key_prefix cfg @ '':'' @ k] r = (Inr n, r')"
    using assms(1) unfolding redis_up_def by blast
  then show ?thesis using assms(2) KDel
    by (auto simp: kv_bad_def redis_kv_def redis_kv_delete_def kv_key_def bindS_def split: if_splits)
qed

text \<open>What an operation does to the visible values.\<close>

definition kv_effect :: "int \<Rightarrow> time \<Rightarrow> kv_op \<Rightarrow> (time \<Rightarrow> string \<Rightarrow> string option) \<Rightarrow> time \<Rightarrow> string \<Rightarrow> string option" where
  "kv_effect d t op lk n j = (case op of KGet k \<Rightarrow> lk n j
     | KSet k x ttl \<Rightarrow> if j = k then if t + seconds (case ttl of None \<Rightarrow> d | Some i \<Rightarrow> i) \<le> n then None else Some x else lk n j
     | KDel k \<Rightarrow> if j = k then None else lk n j)"

definition kv_reply :: "time \<Rightarrow> kv_op \<Rightarrow> (time \<Rightarrow> string \<Rightarrow> string option) \<Rightarrow> string option" where
  "kv_reply t op lk = (case op of KGet k \<Rightarrow> lk t k | _ \<Rightarrow> None)"

context kv_client
begin

lemma step_law:
  assumes "kv_step ops t op s = (Inr v, s')"
  shows "v = kv_reply t op (\<lambda>n. look n s) \<and> default_ttl s' = default_ttl s \<and>
    (\<forall>n\<ge>t. \<forall>j. look n s' j = kv_effect (default_ttl s) t op (\<lambda>n. look n s) n j)"
proof (cases op)
  case (KGet k)
  then show ?thesis using get_law [of t k s v s'] assms by (simp add: kv_reply_def kv_effect_def)
next
  case (KSet k x ttl)
  then have "kv_set ops t k x ttl s = (Inr (), s')" "v = None" using assms by (auto simp: bindS_eq_Inr)
  then show ?thesis using set_law KSet by (simp add: kv_reply_def kv_effect_def)
next
  case (KDel k)
  then obtain b where "kv_delete ops t k s = (Inr b, s')" "v = None" using assms by (auto simp: bindS_eq_Inr)
  then show ?thesis using delete_law KDel by (simp add: kv_reply_def kv_effect_def)
qed

end

lemma kv_trace_agree:
  assumes kv: "kv_client (redis_kv api cfg) (redis_look contents cfg) (\<lambda>_. kc_ttl_seconds cfg)"
    and up: "redis_up api"
  shows "sorted (map fst xs) \<Longrightarrow> \<forall>x\<in>set xs. t0 \<le> fst x \<Longrightarrow> fk_default_ttl f = kc_ttl_seconds cfg \<Longrightarrow>
    \<forall>n\<ge>t0. \<forall>k. fake_look n f k = redis_look contents cfg n r k \<Longrightarrow>
    kv_trace fake_kv xs f = kv_trace (redis_kv api cfg) xs r"
proof (induction xs arbitrary: t0 f r)
  case (Cons x xs)
  obtain t op where x: "x = (t, op)" by (cases x)
  have t: "t0 \<le> t" and rest: "sorted (map fst xs)" "\<forall>y\<in>set xs. t \<le> fst y" using Cons.prems x by auto
  show ?case
  proof (cases "kv_bad (kc_ttl_seconds cfg) op")
    case (Some e)
    then have "kv_step fake_kv t op f = (Inl e, f)" using Cons.prems(3) by (simp add: fake_step_error)
    moreover have "kv_step (redis_kv api cfg) t op r = (Inl e, r)" using Some by (rule redis_step_error)
    moreover have "kv_trace fake_kv xs f = kv_trace (redis_kv api cfg) xs r"
      using Cons.prems t by (intro Cons.IH [OF rest]) auto
    ultimately show ?thesis using x by simp
  next
    case None
    obtain v f' where f: "kv_step fake_kv t op f = (Inr v, f')"
      using fake_step_ok [of f op t] None Cons.prems(3) by auto
    obtain w r' where r: "kv_step (redis_kv api cfg) t op r = (Inr w, r')"
      using redis_step_ok [OF up None] by blast
    note lf = fake_kv.step_law [OF f] and lr = kv_client.step_law [OF kv r]
    have "v = w" using lf lr Cons.prems(4) t by (cases op) (auto simp: kv_reply_def)
    moreover have "kv_trace fake_kv xs f' = kv_trace (redis_kv api cfg) xs r'"
      using Cons.prems t lf lr by (intro Cons.IH [OF rest]) (auto simp: kv_effect_def split: kv_op.splits)
    ultimately show ?thesis using f r x by simp
  qed
qed simp



text \<open>
  Deleting a key whose time to live is over reports \<open>True\<close> on the in-memory client and
  \<open>False\<close> on Redis: the fake pops the entry without looking at its expiry.
\<close>

theorem fake_delete_expired:
  assumes "redis_server api contents" and "k \<noteq> []" and "dict_get (fk_values f) k = Some (v, e)" and "e \<le> now"
    and "live now (contents r) (kc_key_prefix cfg @ '':'' @ k) = None"
    and "kv_delete (redis_kv api cfg) now k r = (Inr b, r')"
  shows "fst (kv_delete fake_kv now k f) = Inr True \<and> \<not> b"
proof -
  obtain n where n: "rd_del api now [kc_key_prefix cfg @ '':'' @ k] r = (Inr n, r')" "b = (n \<noteq> 0)"
    using assms(2,6) by (auto simp: redis_kv_def redis_kv_delete_def kv_key_def bindS_eq_Inr)
  then have "n = 0" using redis_server.del_ok [OF assms(1) n(1)] assms(5) by (simp add: spec_del_def)
  then show ?thesis using n assms by (simp add: fake_kv_def fake_kv_delete_run)
qed

theorem fake_delete_expired_witness:
  "fst (kv_delete fake_kv 9 ''a'' \<lparr>fk_default_ttl = 1, fk_values = [(''a'', (''x'', 5))]\<rparr>) = Inr True \<and> \<not> False"
proof -
  have r: "kv_delete (redis_kv mem_redis default_kv_config) 9 ''a''
      [''kis-cache:a'' \<mapsto> (RStr ''x'', Some 5)] = (Inr False, (\<lambda>k. None))"
    by (auto simp: redis_kv_def redis_kv_delete_def kv_key_def default_kv_config_def mem_redis_def bindS_def
        spec_del_def live_def apfst_def map_prod_def)
  show ?thesis
    by (rule fake_delete_expired [OF mem.redis_server_axioms _ _ _ _ r])
       (auto simp: dict_get_def default_kv_config_def)
qed

end
