(* ===== verification/ExternalProvider.thy ===== *)
theory ExternalProvider
  imports Messaging KeyValue
begin

text \<open>
  The HTTP client of the external provider (\<open>infrastructure/external_provider\<close>) and the clock the
  adapters on top of it read. A \<open>world\<close> is a clock reading and the state of the services that are
  called. Calling a service takes some time: \<open>lag\<close> reads it off the state the call ends in, so that
  nothing is assumed about how long a call lasts. \<open>asyncio.sleep\<close> takes at least the time asked for.

  httpx is not part of the repository: \<open>send\<close> is one request on the wire. The client repeats it;
  \<open>request_attempts\<close> says how often, when, and what is returned in the end.
\<close>

section \<open>Clock\<close>

record 's world =
  wl_now :: time
  wl_svc :: 's

definition timed :: "('s \<Rightarrow> nat) \<Rightarrow> (time \<Rightarrow> ('s, 'a) io) \<Rightarrow> ('s world, 'a) io" where
  "timed lag f w = (case f (wl_now w) (wl_svc w) of
     (r, s') \<Rightarrow> (r, \<lparr>wl_now = wl_now w + int (lag s'), wl_svc = s'\<rparr>))"

definition sleep :: "('s \<Rightarrow> nat) \<Rightarrow> time \<Rightarrow> ('s world, unit) io" where
  "sleep lag d w = (Inr (), w\<lparr>wl_now := wl_now w + max 0 d + int (lag (wl_svc w))\<rparr>)"

text \<open>A computation that never turns the clock back.\<close>

definition forward :: "('s world, 'a) io \<Rightarrow> bool" where
  "forward m \<longleftrightarrow> (\<forall>w. wl_now w \<le> wl_now (snd (m w)))"

lemma forwardD: "forward m \<Longrightarrow> m w = (r, w') \<Longrightarrow> wl_now w \<le> wl_now w'"
  unfolding forward_def by (metis snd_conv)

lemma forward_basic [simp, intro]: "forward (ret x)" "forward (raise e)" "forward (lift r)" "forward (gets g)"
  "forward (timed lag f)" "forward (sleep lag d)"
  by (auto simp: forward_def timed_def sleep_def split: prod.splits)

lemma forwardI: "(\<And>w r w'. m w = (r, w') \<Longrightarrow> wl_now w \<le> wl_now w') \<Longrightarrow> forward m"
  unfolding forward_def by (metis prod.collapse)

lemma forward_bindS [intro]:
  assumes m: "forward m" and f: "\<And>x. forward (f x)" shows "forward (bindS m f)"
proof (rule forwardI)
  fix w r w' assume run: "bindS m f w = (r, w')"
  obtain r1 w1 where 1: "m w = (r1, w1)" by fastforce
  note le = forwardD [OF m 1]
  show "wl_now w \<le> wl_now w'"
  proof (cases r1)
    case (Inr x)
    then have "f x w1 = (r, w')" using run 1 by (simp add: bindS_def)
    from forwardD [OF f this] le show ?thesis by simp
  qed (use run 1 le in \<open>simp add: bindS_def\<close>)
qed

lemma forward_catchS [intro]:
  assumes m: "forward m" and h: "\<And>e. forward (h e)" shows "forward (catchS m h)"
proof (rule forwardI)
  fix w r w' assume run: "catchS m h w = (r, w')"
  obtain r1 w1 where 1: "m w = (r1, w1)" by fastforce
  note le = forwardD [OF m 1]
  show "wl_now w \<le> wl_now w'"
  proof (cases r1)
    case (Inl e)
    then have "h e w1 = (r, w')" using run 1 by (simp add: catchS_def)
    from forwardD [OF h this] le show ?thesis by simp
  qed (use run 1 le in \<open>simp add: catchS_def\<close>)
qed

lemma forward_finallyS [intro]:
  assumes m: "forward m" and f: "forward f" shows "forward (finallyS m f)"
proof (rule forwardI)
  fix w r w' assume run: "finallyS m f w = (r, w')"
  obtain r1 w1 r2 w2 where 1: "m w = (r1, w1)" "f w1 = (r2, w2)" by fastforce
  then have "w' = w2" using run by (simp add: finallyS_def split: sum.splits)
  then show "wl_now w \<le> wl_now w'" using forwardD [OF m 1(1)] forwardD [OF f 1(2)] by simp
qed

lemma timed_run: "f (wl_now w) (wl_svc w) = (r, s') \<Longrightarrow>
    timed lag f w = (r, \<lparr>wl_now = wl_now w + int (lag s'), wl_svc = s'\<rparr>)"
  by (simp add: timed_def)

section \<open>Requests and responses\<close>

record ExternalResponse =
  ex_status_code :: int
  ex_headers :: "(string, string) dict"
  ex_content :: string

record ExternalRequest =
  er_method :: string
  er_path :: string
  er_headers :: "(string, string) dict option"
  er_params :: "(string, string) dict option"
  er_json :: "json option"
  er_content :: "string option"
  er_retry_safe :: "bool option"

text \<open>\<open>json.loads\<close> of response bytes: they are decoded as UTF-8 first. A code point above U+00FF is
  outside the characters of the development and is rejected like an invalid byte.\<close>

fun utf8_decode :: "string \<Rightarrow> string option" where
  "utf8_decode [] = Some []"
| "utf8_decode (c # r) =
     (if code c < 128 then map_option ((#) c) (utf8_decode r)
      else if code c \<in> {194, 195} then
        (case r of [] \<Rightarrow> None
         | d # r' \<Rightarrow> if 128 \<le> code d \<and> code d < 192
             then map_option ((#) (char_of ((code c - 192) * 64 + (code d - 128)))) (utf8_decode r') else None)
      else None)"

definition json_loads_bytes :: "string \<Rightarrow> json result" where
  "json_loads_bytes content = (case utf8_decode content of
     None \<Rightarrow> Inl UnicodeDecodeError | Some s \<Rightarrow> json_loads s)"

lemma utf8_decode_ascii: "isascii s \<Longrightarrow> utf8_decode s = Some s"
  by (induction s) (auto simp: isascii_def)

section \<open>Configuration\<close>

text \<open>Durations are in microseconds.\<close>

record ExternalProviderConfig =
  xc_base_url :: string
  xc_health_path :: string
  xc_timeout :: time
  xc_max_retries :: int
  xc_retry_delay :: time

definition provider_config_from_environment :: "(string, string) dict \<Rightarrow> ExternalProviderConfig result" where
  "provider_config_from_environment env =
     bindE (required_environment env ''KIS_API_URL'') (\<lambda>base_url.
       Inr \<lparr>xc_base_url = rstrip_by (\<lambda>c. c = CHR ''/'') base_url, xc_health_path = ''/'', xc_timeout = seconds 5,
            xc_max_retries = 2, xc_retry_delay = 100000\<rparr>)"

section \<open>The HTTP client\<close>

definition RETRY_SAFE_METHODS :: "string set" where
  "RETRY_SAFE_METHODS = {''GET'', ''HEAD'', ''OPTIONS''}"

definition is_retryable_status :: "int \<Rightarrow> bool" where
  "is_retryable_status status_code \<longleftrightarrow> status_code \<in> {408, 425, 429} \<or> 500 \<le> status_code"

text \<open>\<open>dict(x) if x else None\<close>\<close>

definition or_none :: "(string, string) dict option \<Rightarrow> (string, string) dict option" where
  "or_none x = (case x of None \<Rightarrow> None | Some d \<Rightarrow> if d = [] then None else Some d)"

text \<open>The loop \<open>for attempt in range(max_retries + 1)\<close>; the first number counts the attempts that are
  left.\<close>

fun request_loop ::
  "('s \<Rightarrow> nat) \<Rightarrow> (ExternalRequest \<Rightarrow> ('s, ExternalResponse) io) \<Rightarrow> ExternalProviderConfig \<Rightarrow> bool \<Rightarrow> ExternalRequest
   \<Rightarrow> nat \<Rightarrow> nat \<Rightarrow> ('s world, ExternalResponse) io" where
  "request_loop lag send cfg retries_allowed q 0 attempt =
     raise (AssertionError ''request retry loop must return or raise'')"
| "request_loop lag send cfg retries_allowed q (Suc left) attempt = (\<lambda>w.
     case timed lag (\<lambda>_. send q) w of
       (Inl e, w1) \<Rightarrow>
         if e \<noteq> HttpxRequestError \<or> \<not> retries_allowed \<or> int attempt = xc_max_retries cfg then (Inl e, w1)
         else bindS (sleep lag (xc_retry_delay cfg * 2 ^ attempt))
                (\<lambda>_. request_loop lag send cfg retries_allowed q left (attempt + 1)) w1
     | (Inr result, w1) \<Rightarrow>
         if \<not> retries_allowed \<or> \<not> is_retryable_status (ex_status_code result) \<or> int attempt = xc_max_retries cfg
         then (Inr result, w1)
         else bindS (sleep lag (xc_retry_delay cfg * 2 ^ attempt))
                (\<lambda>_. request_loop lag send cfg retries_allowed q left (attempt + 1)) w1)"

definition http_request ::
  "('s \<Rightarrow> nat) \<Rightarrow> (ExternalRequest \<Rightarrow> ('s, ExternalResponse) io) \<Rightarrow> ExternalProviderConfig \<Rightarrow> ExternalRequest
   \<Rightarrow> ('s world, ExternalResponse) io" where
  "http_request lag send cfg q =
     (if take 1 (er_path q) \<noteq> ''/'' then raise (ValueError ''external provider path must start with /'')
      else let normalized_method = upper (er_method q);
               retries_allowed = (case er_retry_safe q of Some b \<Rightarrow> b | None \<Rightarrow> normalized_method \<in> RETRY_SAFE_METHODS)
        in request_loop lag send cfg retries_allowed
             (q\<lparr>er_method := normalized_method, er_headers := or_none (er_headers q),
                er_params := or_none (er_params q), er_retry_safe := None\<rparr>)
             (nat (xc_max_retries cfg + 1)) 0)"

definition plain_request :: "string \<Rightarrow> string \<Rightarrow> ExternalRequest" where
  "plain_request method path = \<lparr>er_method = method, er_path = path, er_headers = None, er_params = None,
     er_json = None, er_content = None, er_retry_safe = None\<rparr>"

definition http_health_check ::
  "('s \<Rightarrow> nat) \<Rightarrow> (ExternalRequest \<Rightarrow> ('s, ExternalResponse) io) \<Rightarrow> ExternalProviderConfig \<Rightarrow> ('s world, unit) io" where
  "http_health_check lag send cfg =
     bindS (http_request lag send cfg (plain_request ''GET'' (xc_health_path cfg))) (\<lambda>response.
     if 200 \<le> ex_status_code response \<and> ex_status_code response < 400 then ret ()
     else raise (RuntimeError (''external provider health check returned '' @ string_of_int (ex_status_code response))))"

section \<open>The deterministic client\<close>

record FakeExternalProviderClient =
  fx_responses :: "ExternalResponse list"
  fx_requests :: "(string \<times> string) list"

definition fake_request :: "ExternalRequest \<Rightarrow> (FakeExternalProviderClient, ExternalResponse) io" where
  "fake_request q s =
     (let s1 = s\<lparr>fx_requests := fx_requests s @ [(upper (er_method q), er_path q)]\<rparr> in
      case fx_responses s of
        r # rs \<Rightarrow> (Inr r, s1\<lparr>fx_responses := rs\<rparr>)
      | [] \<Rightarrow> (Inr \<lparr>ex_status_code = 200, ex_headers = [], ex_content = []\<rparr>, s1))"

section \<open>How often a request is sent\<close>

text \<open>\<open>sent\<close> counts the requests on the wire. An outcome after which the client stops at once, for a
  request that may be repeated.\<close>

definition final_outcome :: "ExternalResponse result \<Rightarrow> bool" where
  "final_outcome r = (case r of Inl e \<Rightarrow> e \<noteq> HttpxRequestError | Inr x \<Rightarrow> \<not> is_retryable_status (ex_status_code x))"

lemma request_loop_forward: "forward (request_loop lag send cfg b q n k)"
proof (induction n arbitrary: k)
  case (Suc n)
  have s: "wl_now w \<le> wl_now (snd (bindS (sleep lag d) (\<lambda>_. request_loop lag send cfg b q n (k + 1)) w))" for d w
    using forward_bindS [OF forward_basic(6), of "\<lambda>_. request_loop lag send cfg b q n (k + 1)" lag d] Suc
    unfolding forward_def by blast
  show ?case unfolding forward_def
  proof
    fix w
    obtain r w1 where t: "timed lag (\<lambda>_. send q) w = (r, w1)" by fastforce
    then have "wl_now w \<le> wl_now w1" by (rule forwardD [OF forward_basic(5)])
    then show "wl_now w \<le> wl_now (snd (request_loop lag send cfg b q (Suc n) k w))"
      using t s by (cases r) (force intro: order_trans)+
  qed
qed simp

lemma http_request_forward [intro, simp]: "forward (http_request lag send cfg q)"
  by (simp add: http_request_def request_loop_forward Let_def)

lemma request_loop_attempts:
  assumes cnt: "\<forall>q s r s'. send q s = (r, s') \<longrightarrow> sent s' = sent s + (1::nat)"
    and run: "request_loop lag send cfg allowed q (Suc n) k w = (r, w')"
    and m: "int (k + n) = xc_max_retries cfg" and d: "0 \<le> xc_retry_delay cfg"
  shows "\<exists>a. sent (wl_svc w') = sent (wl_svc w) + a \<and> 1 \<le> a \<and> a \<le> Suc n \<and> (\<not> allowed \<longrightarrow> a = 1) \<and>
    (final_outcome r \<or> \<not> allowed \<or> a = Suc n) \<and>
    wl_now w + xc_retry_delay cfg * (2 ^ (k + a - 1) - 2 ^ k) \<le> wl_now w'"
  using run m
proof (induction n arbitrary: k w)
  case 0
  obtain r1 w1 where t: "timed lag (\<lambda>_. send q) w = (r1, w1)" by fastforce
  have "sent (wl_svc w1) = sent (wl_svc w) + 1"
    using t by (auto simp: timed_def split: prod.splits dest: cnt [rule_format])
  moreover have "wl_now w \<le> wl_now w1" using t by (rule forwardD [OF forward_basic(5)])
  ultimately show ?case using t 0 by (intro exI [of _ 1]) (auto split: sum.splits)
next
  case (Suc n)
  obtain r1 w1 where t: "timed lag (\<lambda>_. send q) w = (r1, w1)" by fastforce
  have c: "sent (wl_svc w1) = sent (wl_svc w) + 1"
    using t by (auto simp: timed_def split: prod.splits dest: cnt [rule_format])
  have f: "wl_now w \<le> wl_now w1" using t by (rule forwardD [OF forward_basic(5)])
  have k: "int k \<noteq> xc_max_retries cfg" using Suc.prems(2) by simp
  show ?case
  proof (cases "final_outcome r1 \<or> \<not> allowed")
    case True
    then have "(r, w') = (r1, w1)" using Suc.prems(1) t k by (auto simp: final_outcome_def split: sum.splits if_splits)
    then show ?thesis using c f True by (intro exI [of _ 1]) auto
  next
    case False
    let ?d = "xc_retry_delay cfg * 2 ^ k"
    let ?w2 = "w1\<lparr>wl_now := wl_now w1 + max 0 ?d + int (lag (wl_svc w1))\<rparr>"
    have "request_loop lag send cfg allowed q (Suc n) (k + 1) ?w2 = (r, w')"
      using Suc.prems(1) t k False
      by (auto simp: final_outcome_def bindS_def sleep_def split: sum.splits if_splits)
    from Suc.IH [OF this] Suc.prems(2) obtain a where a: "sent (wl_svc w') = sent (wl_svc ?w2) + a" "1 \<le> a" "a \<le> Suc n"
      "\<not> allowed \<longrightarrow> a = 1" "final_outcome r \<or> \<not> allowed \<or> a = Suc n"
      "wl_now ?w2 + xc_retry_delay cfg * (2 ^ (k + 1 + a - 1) - 2 ^ (k + 1)) \<le> wl_now w'" by auto
    have "0 \<le> ?d" using d by simp
    then have "wl_now w + ?d \<le> wl_now ?w2" using f by simp
    then have "wl_now w + xc_retry_delay cfg * (2 ^ (k + a) - 2 ^ k) \<le> wl_now w'"
      using a(6) by (simp add: algebra_simps)
    then show ?thesis using a c False by (intro exI [of _ "Suc a"]) auto
  qed
qed


definition demo_provider :: ExternalProviderConfig where
  "demo_provider = \<lparr>xc_base_url = ''http://kis'', xc_health_path = ''/'', xc_timeout = seconds 5, xc_max_retries = 2,
     xc_retry_delay = 100000\<rparr>"

definition failing_then_ok :: FakeExternalProviderClient where
  "failing_then_ok = \<lparr>fx_responses = [\<lparr>ex_status_code = 503, ex_headers = [], ex_content = []\<rparr>], fx_requests = []\<rparr>"

lemma fake_request_counts: "fake_request q s = (r, s') \<Longrightarrow> length (fx_requests s') = length (fx_requests s) + 1"
  by (auto simp: fake_request_def Let_def split: list.splits)


end
