(* ===== verification/Locks.thy ===== *)
theory Locks
  imports KeyValue
begin

text \<open>
  The distributed lock (\<open>infrastructure/distributed_lock\<close>): configuration, the in-memory client, the
  Redis client with its release script, and the service. The locale \<open>lock_client\<close> is the contract
  of the protocol class in terms of the live holder of a key: an acquisition succeeds only when
  nobody holds the key, and a release only with the holder's token. From it follows mutual
  exclusion over every interleaving of operations, for both clients.
\<close>

record 's lock_ops =
  lk_acquire :: "time \<Rightarrow> string \<Rightarrow> int option \<Rightarrow> ('s, string option) io"
  lk_release :: "time \<Rightarrow> string \<Rightarrow> string \<Rightarrow> ('s, bool) io"

section \<open>Configuration\<close>

record DistributedLockConfig =
  lc_mode :: RedisMode
  lc_redis_url :: string
  lc_cluster_startup_nodes :: "string list"
  lc_sentinel_urls :: string
  lc_sentinel_master :: string
  lc_key_prefix :: string
  lc_ttl_seconds :: int

definition default_lock_config :: DistributedLockConfig where
  "default_lock_config = \<lparr>lc_mode = STANDALONE, lc_redis_url = [], lc_cluster_startup_nodes = [],
     lc_sentinel_urls = [], lc_sentinel_master = ''lock-primary'', lc_key_prefix = ''kis-lock'',
     lc_ttl_seconds = 30\<rparr>"

definition lock_config_for :: "RedisMode \<Rightarrow> (string, string) dict \<Rightarrow> DistributedLockConfig result" where
  "lock_config_for mode env =
     (if mode = CLUSTER then
        bindE (required_environment env ''REDIS_CLUSTER_URL'') (\<lambda>url.
          Inr (default_lock_config\<lparr>lc_mode := mode, lc_redis_url := url,
            lc_cluster_startup_nodes := stripped_items
              (case environ_get env ''REDIS_CLUSTER_STARTUP_NODES'' of Some v \<Rightarrow> v | None \<Rightarrow> [])\<rparr>))
      else if mode = SENTINEL then
        bindE (required_environment env ''REDIS_SENTINEL_URLS'') (\<lambda>urls.
          Inr (default_lock_config\<lparr>lc_mode := mode, lc_sentinel_urls := urls\<rparr>))
      else
        bindE (required_environment env ''REDIS_URL'') (\<lambda>url.
          Inr (default_lock_config\<lparr>lc_mode := mode, lc_redis_url := url\<rparr>)))"

definition lock_config_from_environment :: "(string, string) dict \<Rightarrow> DistributedLockConfig result" where
  "lock_config_from_environment env = lock_config_for STANDALONE env"

section \<open>The in-memory client\<close>

record FakeDistributedLockClient =
  fl_default_ttl :: int
  fl_leases :: "(string, string \<times> time) dict"
  fl_next_token :: nat

definition fake_lock_new :: "int \<Rightarrow> FakeDistributedLockClient result" where
  "fake_lock_new default_ttl = (if default_ttl \<le> 0
     then Inl (ValueError ''default_ttl_seconds must be positive'')
     else Inr \<lparr>fl_default_ttl = default_ttl, fl_leases = [], fl_next_token = 0\<rparr>)"

definition lock_require_key :: "string \<Rightarrow> unit result" where
  "lock_require_key k = (if k = [] then Inl (ValueError ''lock key must not be empty'') else Inr ())"

definition lock_ttl :: "int \<Rightarrow> int option \<Rightarrow> int result" where
  "lock_ttl dflt ttl_seconds = (let ttl = (case ttl_seconds of Some t \<Rightarrow> t | None \<Rightarrow> dflt) in
     if ttl \<le> 0 then Inl (ValueError ''ttl_seconds must be positive'') else Inr ttl)"

definition fake_lock_expire :: "time \<Rightarrow> string \<Rightarrow> (FakeDistributedLockClient, unit) io" where
  "fake_lock_expire now k = modify (fl_leases_update (\<lambda>m. case dict_get m k of
       Some (_, e) \<Rightarrow> if e \<le> now then dict_del k m else m
     | None \<Rightarrow> m))"

definition fake_lock_acquire :: "time \<Rightarrow> string \<Rightarrow> int option \<Rightarrow> (FakeDistributedLockClient, string option) io" where
  "fake_lock_acquire now k ttl_seconds =
     bindS (lift (lock_require_key k)) (\<lambda>_.
     bindS (fake_lock_expire now k) (\<lambda>_.
     bindS get_state (\<lambda>s.
       if dict_get (fl_leases s) k \<noteq> None then ret None
       else
         bindS (lift (lock_ttl (fl_default_ttl s) ttl_seconds)) (\<lambda>ttl.
         let n = fl_next_token s + 1; token = ''lock-token-'' @ string_of_nat n in
         bindS (modify (\<lambda>s. s\<lparr>fl_next_token := n,
                  fl_leases := dict_set k (token, now + seconds ttl) (fl_leases s)\<rparr>)) (\<lambda>_.
           ret (Some token))))))"

definition fake_lock_release :: "time \<Rightarrow> string \<Rightarrow> string \<Rightarrow> (FakeDistributedLockClient, bool) io" where
  "fake_lock_release now k token =
     bindS (lift (lock_require_key k)) (\<lambda>_.
     bindS (fake_lock_expire now k) (\<lambda>_.
     bindS (gets (\<lambda>s. dict_get (fl_leases s) k)) (\<lambda>lease. case lease of
       None \<Rightarrow> ret False
     | Some (t, _) \<Rightarrow> if t \<noteq> token then ret False
         else bindS (modify (fl_leases_update (dict_del k))) (\<lambda>_. ret True))))"

definition fake_lock :: "FakeDistributedLockClient lock_ops" where
  "fake_lock = \<lparr>lk_acquire = fake_lock_acquire, lk_release = fake_lock_release\<rparr>"

section \<open>The Redis client\<close>

definition lock_key :: "DistributedLockConfig \<Rightarrow> string \<Rightarrow> string result" where
  "lock_key cfg k = (if k = [] then Inl (ValueError ''lock key must not be empty'')
     else Inr (lc_key_prefix cfg @ '':'' @ k))"

text \<open>\<open>token_urlsafe r\<close> is what \<open>secrets.token_urlsafe(32)\<close> returns in state \<open>r\<close>.\<close>

definition redis_lock_acquire ::
  "'r redis_api \<Rightarrow> ('r \<Rightarrow> string) \<Rightarrow> DistributedLockConfig \<Rightarrow> time \<Rightarrow> string \<Rightarrow> int option \<Rightarrow> ('r, string option) io" where
  "redis_lock_acquire api token_urlsafe cfg now k ttl_seconds =
     bindS (lift (lock_ttl (lc_ttl_seconds cfg) ttl_seconds)) (\<lambda>ttl.
     bindS (gets token_urlsafe) (\<lambda>token.
     bindS (lift (lock_key cfg k)) (\<lambda>key.
     bindS (rd_set_nx api now key token ttl) (\<lambda>acquired.
       ret (if acquired then Some token else None)))))"

text \<open>The script \<open>_RELEASE_IF_OWNER\<close>, run by the server as one command.\<close>

definition release_if_owner :: "'r redis_api \<Rightarrow> time \<Rightarrow> string \<Rightarrow> string \<Rightarrow> ('r, nat) io" where
  "release_if_owner api now key token =
     bindS (rd_get api now key) (\<lambda>v. if v = Some token then rd_del api now [key] else ret 0)"

definition redis_lock_release ::
  "'r redis_api \<Rightarrow> DistributedLockConfig \<Rightarrow> time \<Rightarrow> string \<Rightarrow> string \<Rightarrow> ('r, bool) io" where
  "redis_lock_release api cfg now k token =
     bindS (lift (lock_key cfg k)) (\<lambda>key.
     bindS (release_if_owner api now key token) (\<lambda>n. ret (n \<noteq> 0)))"

definition redis_lock_health_check :: "'r redis_api \<Rightarrow> time \<Rightarrow> ('r, unit) io" where
  "redis_lock_health_check api now = bindS (rd_ping api now) (\<lambda>ok.
     if ok then ret () else raise (RuntimeError ''Redis lock health check failed''))"

definition redis_lock :: "'r redis_api \<Rightarrow> ('r \<Rightarrow> string) \<Rightarrow> DistributedLockConfig \<Rightarrow> 'r lock_ops" where
  "redis_lock api token_urlsafe cfg = \<lparr>lk_acquire = redis_lock_acquire api token_urlsafe cfg,
     lk_release = redis_lock_release api cfg\<rparr>"

section \<open>The service\<close>

definition lock_service :: "'s lock_ops \<Rightarrow> int \<Rightarrow> 's lock_ops" where
  "lock_service client default_ttl = \<lparr>
     lk_acquire = (\<lambda>now k ttl. lk_acquire client now k (Some (case ttl of None \<Rightarrow> default_ttl | Some t \<Rightarrow> t))),
     lk_release = lk_release client\<rparr>"

section \<open>The contract and mutual exclusion\<close>

datatype lk_op = Acq string "int option" | Rel string string

fun lk_step :: "'s lock_ops \<Rightarrow> time \<Rightarrow> lk_op \<Rightarrow> ('s, string option) io" where
  "lk_step ops t (Acq k ttl) = lk_acquire ops t k ttl"
| "lk_step ops t (Rel k tok) = bindS (lk_release ops t k tok) (\<lambda>_. ret None)"

fun lk_trace :: "'s lock_ops \<Rightarrow> (time \<times> lk_op) list \<Rightarrow> 's \<Rightarrow> string option result list" where
  "lk_trace ops [] s = []"
| "lk_trace ops ((t, op) # xs) s = (case lk_step ops t op s of (r, s') \<Rightarrow> r # lk_trace ops xs s')"

locale lock_client =
  fixes ops :: "'s lock_ops" and holder :: "time \<Rightarrow> 's \<Rightarrow> string \<Rightarrow> string option"
  assumes acquired: "lk_acquire ops now k ttl s = (Inr (Some tok), s') \<Longrightarrow> holder now s k = None \<and>
      (\<exists>d>0. (\<forall>i. ttl = Some i \<longrightarrow> d = i) \<and> (\<forall>n\<ge>now. \<forall>j. holder n s' j =
         (if j = k then if now + seconds d \<le> n then None else Some tok else holder n s j)))"
    and refused: "lk_acquire ops now k ttl s = (Inr None, s') \<Longrightarrow>
      \<forall>n\<ge>now. \<forall>j. holder n s' j = holder n s j"
    and acquire_error: "lk_acquire ops now k ttl s = (Inl e, s') \<Longrightarrow> \<forall>n\<ge>now. \<forall>j. holder n s j \<noteq> None \<longrightarrow> holder n s' j = holder n s j"
    and released: "lk_release ops now k tok s = (Inr b, s') \<Longrightarrow> (b \<longleftrightarrow> holder now s k = Some tok) \<and>
      (\<forall>n\<ge>now. \<forall>j. holder n s' j = (if b \<and> j = k then None else holder n s j))"
    and release_error: "lk_release ops now k tok s = (Inl e, s') \<Longrightarrow> \<forall>n\<ge>now. \<forall>j. holder n s j \<noteq> Some tok \<longrightarrow> holder n s' j = holder n s j"
    and holder_expires: "now \<le> n \<Longrightarrow> holder n s k = Some tok \<Longrightarrow> holder now s k = Some tok"
begin

text \<open>While \<open>tok\<close> holds \<open>k\<close> up to time \<open>e\<close>, an operation before \<open>e\<close> that does not release \<open>k\<close> with
  \<open>tok\<close> leaves it so, and does not acquire \<open>k\<close>.\<close>

lemma step_keeps:
  assumes h: "\<forall>n. t0 \<le> n \<longrightarrow> n < e \<longrightarrow> holder n s k = Some tok" and t: "t0 \<le> t" "t < e"
    and op: "\<And>j. op \<noteq> Rel j tok" and run: "lk_step ops t op s = (r, s')"
  shows "(\<forall>n. t \<le> n \<longrightarrow> n < e \<longrightarrow> holder n s' k = Some tok) \<and> (\<forall>ttl x. op = Acq k ttl \<longrightarrow> r \<noteq> Inr (Some x))"
proof (cases op)
  case (Acq j ttl)
  show ?thesis
  proof (cases r)
    case (Inl err)
    then show ?thesis using acquire_error [of t j ttl s err s'] run Acq h t by auto
  next
    case (Inr v)
    show ?thesis
    proof (cases v)
      case None
      then show ?thesis using refused [of t j ttl s s'] run Acq Inr h t by auto
    next
      case (Some x)
      have a: "holder t s j = None" "\<forall>n\<ge>t. \<forall>i. i \<noteq> j \<longrightarrow> holder n s' i = holder n s i"
        using acquired [of t j ttl s x s'] run Acq Inr Some by auto
      then have "j \<noteq> k" using h t by auto
      then show ?thesis using a h t Acq by auto
    qed
  qed
next
  case (Rel j x)
  then have x: "x \<noteq> tok" using op by blast
  obtain b where "lk_release ops t j x s = (Inr b, s') \<or> (\<exists>err. lk_release ops t j x s = (Inl err, s'))"
    using run Rel by (auto simp: bindS_def split: prod.splits sum.splits)
  then show ?thesis
  proof (elim disjE exE)
    assume "lk_release ops t j x s = (Inr b, s')"
    from released [OF this] show ?thesis using h t x Rel by (cases "j = k") auto
  next
    fix err assume "lk_release ops t j x s = (Inl err, s')"
    from release_error [OF this] show ?thesis using h t x Rel by auto
  qed
qed

lemma trace_excludes:
  assumes "\<forall>n. t0 \<le> n \<longrightarrow> n < e \<longrightarrow> holder n s k = Some tok" and "sorted (map fst xs)"
    and "\<forall>(t, op)\<in>set xs. t0 \<le> t \<and> t < e \<and> (\<forall>j. op \<noteq> Rel j tok)"
    and "i < length xs" and "snd (xs ! i) = Acq k ttl"
  shows "lk_trace ops xs s ! i \<noteq> Inr (Some x)"
  using assms
proof (induction xs arbitrary: i s t0)
  case (Cons y xs)
  obtain t op where y: "y = (t, op)" by (cases y)
  obtain r s' where run: "lk_step ops t op s = (r, s')" by fastforce
  have t: "t0 \<le> t" "t < e" "\<And>j. op \<noteq> Rel j tok" using Cons.prems(3) y by auto
  note k = step_keeps [OF Cons.prems(1) t run]
  show ?case
  proof (cases i)
    case 0
    then show ?thesis using k run y Cons.prems(5) by auto
  next
    case (Suc i')
    have "\<forall>(u, op)\<in>set xs. t \<le> u \<and> u < e \<and> (\<forall>j. op \<noteq> Rel j tok)" using Cons.prems(2,3) y by fastforce
    then have "lk_trace ops xs s' ! i' \<noteq> Inr (Some x)"
      using Cons.IH [of t s' i'] k Cons.prems(2,4,5) y Suc by auto
    then show ?thesis using run y Suc by simp
  qed
qed simp

text \<open>Mutual exclusion: from an acquisition until its time to live is over, no operation of anybody
  that is not a release with that token lets anybody acquire the key.\<close>

lemma mutual_exclusion:
  assumes "lk_acquire ops t0 k (Some d) s = (Inr (Some tok), s')" and "sorted (map fst xs)"
    and "\<forall>(t, op)\<in>set xs. t0 \<le> t \<and> t < t0 + seconds d \<and> (\<forall>j. op \<noteq> Rel j tok)"
    and "i < length xs" and "snd (xs ! i) = Acq k ttl"
  shows "lk_trace ops xs s' ! i \<noteq> Inr (Some x)"
proof (rule trace_excludes [OF _ assms(2,3,4,5)])
  show "\<forall>n. t0 \<le> n \<longrightarrow> n < t0 + seconds d \<longrightarrow> holder n s' k = Some tok"
    using acquired [OF assms(1)] by auto
qed

end

section \<open>Both clients meet the contract\<close>

definition fake_holder :: "time \<Rightarrow> FakeDistributedLockClient \<Rightarrow> string \<Rightarrow> string option" where
  "fake_holder n s k = (case dict_get (fl_leases s) k of None \<Rightarrow> None
     | Some (t, e) \<Rightarrow> if e \<le> n then None else Some t)"

definition redis_holder :: "('r \<Rightarrow> rstate) \<Rightarrow> DistributedLockConfig \<Rightarrow> time \<Rightarrow> 'r \<Rightarrow> string \<Rightarrow> string option" where
  "redis_holder contents cfg n r k = spec_get n (lc_key_prefix cfg @ '':'' @ k) (contents r)"

lemma lock_ttl_Inr: "lock_ttl d ttl = Inr t \<longleftrightarrow> 0 < t \<and> t = (case ttl of None \<Rightarrow> d | Some t \<Rightarrow> t)"
  by (auto simp: lock_ttl_def Let_def split: option.splits)

lemma fake_holder_expire:
  "fake_lock_expire now k s = (Inr (), s') \<Longrightarrow>
     (\<forall>n\<ge>now. \<forall>j. fake_holder n s' j = fake_holder n s j) \<and>
     (dict_get (fl_leases s') k = None \<longleftrightarrow> fake_holder now s k = None) \<and>
     (\<forall>t e. dict_get (fl_leases s') k = Some (t, e) \<longrightarrow> fake_holder now s k = Some t)"
  by (cases "dict_get (fl_leases s) k") (auto simp: fake_lock_expire_def fake_holder_def split: if_splits)

lemma fake_holder_set:
  "fake_holder n (s\<lparr>fl_next_token := m, fl_leases := dict_set k (t, e) (fl_leases s)\<rparr>) j =
     (if j = k then if e \<le> n then None else Some t else fake_holder n s j)"
  by (simp add: fake_holder_def)

lemma fake_holder_del:
  "fake_holder n (s\<lparr>fl_leases := dict_del k (fl_leases s)\<rparr>) j = (if j = k then None else fake_holder n s j)"
  by (simp add: fake_holder_def)

text \<open>The laws of the contract for the in-memory client; every operation first drops an expired lease of the key.\<close>

lemma fake_expire_total: "\<exists>s1. fake_lock_expire now k s = (Inr (), s1)"
  by (simp add: fake_lock_expire_def)

lemmas fake_lock_unfold = fake_lock_def fake_lock_acquire_def fake_lock_release_def bindS_def lock_require_key_def Let_def

lemma fake_acquired:
  assumes "lk_acquire fake_lock now k ttl s = (Inr (Some tok), s')"
  shows "fake_holder now s k = None \<and> (\<exists>d>0. (\<forall>i. ttl = Some i \<longrightarrow> d = i) \<and> (\<forall>n\<ge>now. \<forall>j.
      fake_holder n s' j = (if j = k then if now + seconds d \<le> n then None else Some tok else fake_holder n s j)))"
proof -
  obtain s1 where s1: "fake_lock_expire now k s = (Inr (), s1)" using fake_expire_total by blast
  obtain d where "dict_get (fl_leases s1) k = None" "lock_ttl (fl_default_ttl s1) ttl = Inr d"
    "s' = s1\<lparr>fl_next_token := fl_next_token s1 + 1, fl_leases := dict_set k (tok, now + seconds d) (fl_leases s1)\<rparr>"
    using assms s1 by (cases "lock_ttl (fl_default_ttl s1) ttl") (auto simp: fake_lock_unfold split: if_splits)
  then show ?thesis
    using fake_holder_expire [OF s1] by (intro conjI exI [of _ d]) (auto simp: lock_ttl_Inr fake_holder_set)
qed

lemma fake_not_acquired:
  assumes "lk_acquire fake_lock now k ttl s = (x, s')" "x = Inr None \<or> x = Inl e"
  shows "\<forall>n\<ge>now. \<forall>j. fake_holder n s' j = fake_holder n s j"
proof -
  obtain s1 where s1: "fake_lock_expire now k s = (Inr (), s1)" using fake_expire_total by blast
  have "s' = s \<or> s' = s1" using assms s1 by (auto simp: fake_lock_unfold split: if_splits sum.splits)
  then show ?thesis using fake_holder_expire [OF s1] by auto
qed

lemma fake_released:
  assumes "lk_release fake_lock now k tok s = (Inr b, s')"
  shows "(b \<longleftrightarrow> fake_holder now s k = Some tok) \<and>
      (\<forall>n\<ge>now. \<forall>j. fake_holder n s' j = (if b \<and> j = k then None else fake_holder n s j))"
proof -
  obtain s1 where s1: "fake_lock_expire now k s = (Inr (), s1)" using fake_expire_total by blast
  note x = fake_holder_expire [OF s1]
  from assms s1 consider e where "b" "dict_get (fl_leases s1) k = Some (tok, e)" "s' = s1\<lparr>fl_leases := dict_del k (fl_leases s1)\<rparr>"
    | "\<not> b" "\<forall>e. dict_get (fl_leases s1) k \<noteq> Some (tok, e)" "s' = s1"
    by (auto simp: fake_lock_unfold split: if_splits option.splits)
  then show ?thesis
  proof cases
    case 1
    then show ?thesis using x by (auto simp: fake_holder_del)
  next
    case 2
    then have "fake_holder now s k \<noteq> Some tok" using x by (cases "dict_get (fl_leases s1) k") auto
    then show ?thesis using 2 x by auto
  qed
qed

interpretation fake_lock: lock_client fake_lock fake_holder
proof (unfold_locales, goal_cases)
  case (3 now k ttl s e s')
  then show ?case using fake_not_acquired [OF 3] by simp
next
  case (5 now k tok s e s')
  then show ?case by (auto simp: fake_lock_unfold fake_lock_expire_def split: if_splits option.splits)
qed (use fake_acquired fake_not_acquired fake_released in \<open>auto simp: fake_holder_def split: option.splits if_splits\<close>)

lemma spec_set_nx_True: "(True, s') = spec_set_nx now k v ttl s \<longleftrightarrow> live now s k = None \<and> s' = spec_set_ex now k v ttl s"
  by (auto simp: spec_set_nx_def split: option.splits)

lemma spec_set_nx_False: "(False, s') = spec_set_nx now k v ttl s \<longleftrightarrow> live now s k \<noteq> None \<and> s' = s"
  by (auto simp: spec_set_nx_def split: option.splits)

text \<open>The laws for the Redis client, from the laws of the commands it issues.\<close>

context redis_server
begin

lemma redis_acquired:
  assumes "lk_acquire (redis_lock api token_urlsafe cfg) now k ttl s = (Inr (Some tok), s')"
  shows "redis_holder contents cfg now s k = None \<and> (\<exists>d>0. (\<forall>i. ttl = Some i \<longrightarrow> d = i) \<and> (\<forall>n\<ge>now. \<forall>j.
      redis_holder contents cfg n s' j = (if j = k then if now + seconds d \<le> n then None else Some tok else redis_holder contents cfg n s j)))"
proof -
  let ?key = "lc_key_prefix cfg @ '':'' @ k"
  obtain d where d: "lock_ttl (lc_ttl_seconds cfg) ttl = Inr d" "rd_set_nx api now ?key tok d s = (Inr True, s')"
    using assms by (auto simp: redis_lock_def redis_lock_acquire_def bindS_eq_Inr lock_key_def split: if_splits)
  from set_nx_ok [OF d(2)] have "live now (contents s) ?key = None" "contents s' = spec_set_ex now ?key tok d (contents s)"
    by (simp_all add: spec_set_nx_True)
  then show ?thesis using d(1) by (intro conjI exI [of _ d]) (auto simp: redis_holder_def lock_ttl_Inr spec_get_def)
qed

lemma redis_refused:
  assumes "lk_acquire (redis_lock api token_urlsafe cfg) now k ttl s = (Inr None, s')"
  shows "\<forall>n\<ge>now. \<forall>j. redis_holder contents cfg n s' j = redis_holder contents cfg n s j"
proof -
  obtain d tok where "rd_set_nx api now (lc_key_prefix cfg @ '':'' @ k) tok d s = (Inr False, s')"
    using assms by (auto simp: redis_lock_def redis_lock_acquire_def bindS_eq_Inr lock_key_def split: if_splits)
  from set_nx_ok [OF this] show ?thesis by (simp add: redis_holder_def spec_set_nx_False)
qed

lemma redis_acquire_error:
  assumes "lk_acquire (redis_lock api token_urlsafe cfg) now k ttl s = (Inl e, s')"
  shows "\<forall>n\<ge>now. \<forall>j. redis_holder contents cfg n s j \<noteq> None \<longrightarrow> redis_holder contents cfg n s' j = redis_holder contents cfg n s j"
proof -
  from assms consider "s' = s" | d tok where "rd_set_nx api now (lc_key_prefix cfg @ '':'' @ k) tok d s = (Inl e, s')"
    by (auto simp: redis_lock_def redis_lock_acquire_def bindS_def lock_key_def split: if_splits sum.splits prod.splits)
  then show ?thesis
  proof cases
    case (2 d tok)
    from set_nx_failed [OF this] show ?thesis
      by (auto simp: redis_holder_def spec_set_nx_def spec_get_def dest: live_None_mono split: option.splits rval.splits if_splits)
  qed simp
qed

lemma redis_held_live:
  "rd_get api now key s = (Inr (Some tok), s1) \<Longrightarrow> contents s1 = contents s \<and> live now (contents s) key = Some (RStr tok)"
  by (drule get_ok) (auto simp: spec_get_def split: option.splits rval.splits)

lemma redis_released:
  assumes "lk_release (redis_lock api token_urlsafe cfg) now k tok s = (Inr b, s')"
  shows "(b \<longleftrightarrow> redis_holder contents cfg now s k = Some tok) \<and>
      (\<forall>n\<ge>now. \<forall>j. redis_holder contents cfg n s' j = (if b \<and> j = k then None else redis_holder contents cfg n s j))"
proof -
  let ?key = "lc_key_prefix cfg @ '':'' @ k"
  obtain s1 v where 1: "rd_get api now ?key s = (Inr v, s1)"
    "if v = Some tok then \<exists>n. rd_del api now [?key] s1 = (Inr n, s') \<and> b = (n \<noteq> 0) else s' = s1 \<and> \<not> b"
    using assms by (auto simp: redis_lock_def redis_lock_release_def release_if_owner_def bindS_eq_Inr lock_key_def split: if_splits)
  note g = get_ok [OF 1(1)]
  show ?thesis
  proof (cases "v = Some tok")
    case True
    then obtain n where n: "rd_del api now [?key] s1 = (Inr n, s')" "b = (n \<noteq> 0)" using 1(2) by auto
    have "n = 1" using del_ok [OF n(1)] redis_held_live [of now ?key s tok s1] 1(1) True by (simp add: spec_del_def)
    moreover have "contents s' = snd (spec_del now [?key] (contents s))"
      using spec_del_snd [OF del_ok [OF n(1)]] g by simp
    ultimately show ?thesis using n(2) True g by (auto simp: redis_holder_def)
  next
    case False
    then show ?thesis using 1(2) g by (auto simp: redis_holder_def)
  qed
qed

lemma redis_release_error:
  assumes "lk_release (redis_lock api token_urlsafe cfg) now k tok s = (Inl e, s')"
  shows "\<forall>n\<ge>now. \<forall>j. redis_holder contents cfg n s j \<noteq> Some tok \<longrightarrow> redis_holder contents cfg n s' j = redis_holder contents cfg n s j"
proof -
  let ?key = "lc_key_prefix cfg @ '':'' @ k"
  from assms consider "s' = s" | "rd_get api now ?key s = (Inl e, s')"
    | s1 where "rd_get api now ?key s = (Inr (Some tok), s1)" "rd_del api now [?key] s1 = (Inl e, s')"
    by (auto simp: redis_lock_def redis_lock_release_def release_if_owner_def bindS_def lock_key_def
        split: if_splits sum.splits prod.splits)
  then show ?thesis
  proof cases
    case (3 s1)
    note g = redis_held_live [OF 3(1)]
    have old: "redis_holder contents cfg n s k = Some tok \<or> redis_holder contents cfg n s k = None" if "now \<le> n" for n
      using live_mono [OF that conjunct2 [OF g]] by (auto simp: redis_holder_def spec_get_def)
    from del_failed [OF 3(2)] g consider "contents s' = contents s" | "contents s' = snd (spec_del now [?key] (contents s))" by auto
    then show ?thesis
    proof cases
      case 2
      then have "redis_holder contents cfg n s' j = (if j = k then None else redis_holder contents cfg n s j)" for n j
        by (simp add: redis_holder_def)
      then show ?thesis using old by (metis option.distinct(1))
    qed (simp add: redis_holder_def)
  qed (auto dest: get_failed simp: redis_holder_def)
qed

lemma redis_holder_expires: "now \<le> n \<Longrightarrow> redis_holder contents cfg n s k = Some tok \<Longrightarrow> redis_holder contents cfg now s k = Some tok"
  by (auto simp: redis_holder_def spec_get_def live_def split: option.splits if_splits rval.splits)

end

sublocale redis_server \<subseteq> lk: lock_client "redis_lock api token_urlsafe cfg" "redis_holder contents cfg"
  by unfold_locales (rule redis_acquired redis_refused redis_acquire_error redis_released redis_release_error redis_holder_expires; assumption)+

context redis_server
begin

lemmas redis_lock_client = lk.lock_client_axioms

end

lemma lock_service_step:
  "lk_step (lock_service ops d) t (Acq k ttl) = lk_step ops t (Acq k (Some (case ttl of None \<Rightarrow> d | Some i \<Rightarrow> i)))"
  "lk_step (lock_service ops d) t (Rel k tok) = lk_step ops t (Rel k tok)"
  by (simp_all add: lock_service_def)

text \<open>
  C10: mutual exclusion of the Redis lock. Once somebody has acquired a key for \<open>d\<close> seconds with a
  token, then in every interleaving of acquisitions and releases by anybody on any keys during
  these \<open>d\<close> seconds in which nobody releases with that token, no acquisition of the key succeeds;
  server errors in between, whether the command took effect or not, do not change this.
\<close>

theorem redis_lock_mutual_exclusion:
  assumes "redis_server api contents"
    and "lk_acquire (redis_lock api token_urlsafe cfg) t0 k (Some d) s = (Inr (Some tok), s')"
    and "sorted (map fst xs)"
    and "\<forall>(t, op)\<in>set xs. t0 \<le> t \<and> t < t0 + seconds d \<and> (\<forall>j. op \<noteq> Rel j tok)"
    and "i < length xs" and "snd (xs ! i) = Acq k ttl"
  shows "lk_trace (redis_lock api token_urlsafe cfg) xs s' ! i \<noteq> Inr (Some x)"
  using lock_client.mutual_exclusion [OF redis_server.redis_lock_client [OF assms(1)] assms(2-6)] .

theorem redis_lock_mutual_exclusion_witness:
  "lk_trace (redis_lock mem_redis (\<lambda>_. ''t'') default_lock_config) [(1, Rel ''a'' ''other''), (2, Acq ''a'' None)]
     [''kis-lock:a'' \<mapsto> (RStr ''t'', Some (seconds 9))] ! 1 \<noteq> Inr (Some ''t2'')"
proof -
  have a: "lk_acquire (redis_lock mem_redis (\<lambda>_. ''t'') default_lock_config) 0 ''a'' (Some 9) (\<lambda>_. None) =
      (Inr (Some ''t''), [''kis-lock:a'' \<mapsto> (RStr ''t'', Some (seconds 9))])"
    by (auto simp: redis_lock_def redis_lock_acquire_def lock_ttl_def lock_key_def default_lock_config_def
        mem_redis_def bindS_def spec_set_nx_def spec_set_ex_def live_def apfst_def map_prod_def)
  show ?thesis
    by (rule redis_lock_mutual_exclusion [OF mem.redis_server_axioms a]) (auto simp: seconds_def)
qed

text \<open>
  Only the holder releases. On the in-memory client a release with a token that is not the
  live holder's returns false and leaves every holder in place, now and later; with the holder's
  token it returns true and frees just that key.
\<close>

theorem fake_lock_owner_release:
  assumes "k \<noteq> []"
  shows "\<exists>s'. lk_release fake_lock now k tok s = (Inr (fake_holder now s k = Some tok), s') \<and>
    (\<forall>n\<ge>now. \<forall>j. fake_holder n s' j =
       (if fake_holder now s k = Some tok \<and> j = k then None else fake_holder n s j))"
proof -
  obtain v s' where v: "lk_release fake_lock now k tok s = (v, s')" by fastforce
  then obtain b where r: "lk_release fake_lock now k tok s = (Inr b, s')"
    using assms by (cases v) (auto simp: fake_lock_def fake_lock_release_def fake_lock_expire_def
        lock_require_key_def bindS_def split: option.splits if_splits)
  from fake_lock.released [OF r] r show ?thesis by auto
qed

theorem fake_lock_owner_release_witness:
  "\<exists>s'. lk_release fake_lock 3 ''a'' ''y'' \<lparr>fl_default_ttl = 30, fl_leases = [(''a'', (''x'', 9))], fl_next_token = 1\<rparr> = (Inr False, s')"
  using fake_lock_owner_release [of "''a''" 3 "''y''" "\<lparr>fl_default_ttl = 30, fl_leases = [(''a'', (''x'', 9))], fl_next_token = 1\<rparr>"]
  by (auto simp: fake_holder_def dict_get_def)

end
