(* ===== verification/KisToken.thy ===== *)
theory KisToken
  imports ExternalProvider Locks
begin

text \<open>
  The token coordinator (\<open>infrastructure/kis_token_coordinator.py\<close>): one OAuth token of the KIS
  provider, cached in the key-value store and refreshed under the distributed lock. The coordinator
  works on a \<open>world\<close>, and calls the cache, the lock and the provider of a \<open>kis_env\<close>; what it needs of
  them is the locale \<open>kis_services\<close>. The locale holds for the Redis clients with the HTTP client and
  for the three in-memory clients.

  SHA-256, \<open>isoformat\<close>/\<open>fromisoformat\<close> and the arithmetic of floats are arguments.
  \<open>fromisoformat\<close> gives no instant for a date without a time zone.
\<close>

section \<open>Credentials\<close>

record KisTokenCredentials =
  kc_app_key :: string
  kc_app_secret :: string
  kc_scope :: string

definition missing_names :: "(string, string) dict \<Rightarrow> string list \<Rightarrow> string list" where
  "missing_names env names = filter (\<lambda>n. case environ_get env n of None \<Rightarrow> True | Some v \<Rightarrow> v = []) names"

definition token_credentials_from_environment :: "(string, string) dict \<Rightarrow> KisTokenCredentials result" where
  "token_credentials_from_environment env =
     (let missing = missing_names env [''KIS_APP_KEY'', ''KIS_APP_SECRET''] in
      if missing \<noteq> [] then Inl (KisTokenConfigurationError
        (''Missing required KIS environment variables: '' @ join '', '' missing))
      else Inr \<lparr>kc_app_key = the (environ_get env ''KIS_APP_KEY''), kc_app_secret = the (environ_get env ''KIS_APP_SECRET''),
        kc_scope = (case environ_get env ''KIS_TOKEN_SCOPE'' of Some v \<Rightarrow> v | None \<Rightarrow> ''default'')\<rparr>)"

section \<open>The environment of the coordinator\<close>

record float_ops =
  fo_finite :: "string \<Rightarrow> bool"
  fo_positive :: "string \<Rightarrow> bool"
  fo_micros :: "string \<Rightarrow> int"

record 's kis_env =
  ke_lag :: "'s \<Rightarrow> nat"
  ke_cache :: "'s kv_ops"
  ke_lock :: "'s lock_ops"
  ke_request :: "ExternalRequest \<Rightarrow> ('s world, ExternalResponse) io"
  ke_sha256 :: "string \<Rightarrow> string"
  ke_isoformat :: "time \<Rightarrow> string"
  ke_fromisoformat :: "string \<Rightarrow> time option result"
  ke_floats :: float_ops
  ke_wait_timeout :: time
  ke_credentials :: KisTokenCredentials

definition new_coordinator :: "'s kis_env \<Rightarrow> 's kis_env result" where
  "new_coordinator env = (if ke_wait_timeout env < 0
     then Inl (ValueError ''refresh_wait_timeout_seconds must not be negative'') else Inr env)"

record KisAccessToken =
  kt_value :: string
  kt_token_type :: string
  kt_expires_at :: time

definition identity_suffix :: "'s kis_env \<Rightarrow> string" where
  "identity_suffix env = take 16 (ke_sha256 env (kc_scope (ke_credentials env) @ '':'' @ kc_app_key (ke_credentials env)))"

definition token_cache_key :: "'s kis_env \<Rightarrow> string" where
  "token_cache_key env = ''oauth:token:'' @ identity_suffix env"

definition token_lock_key :: "'s kis_env \<Rightarrow> string" where
  "token_lock_key env = ''oauth:refresh:'' @ identity_suffix env"

section \<open>Token payloads\<close>

text \<open>\<open>payload[k]\<close> on a value of any type.\<close>

definition subscript :: "json \<Rightarrow> string \<Rightarrow> json result" where
  "subscript v k = (case v of JObj d \<Rightarrow> member d k | _ \<Rightarrow> Inl (TypeError ''subscript''))"

definition payload_error :: "exn \<Rightarrow> bool" where
  "payload_error e \<longleftrightarrow> is_value_error e \<or> is_type_error e \<or> (\<exists>k. e = KeyError k)"

lemma payload_error_code [code]:
  "payload_error e = (is_value_error e \<or> is_type_error e \<or> (case e of KeyError _ \<Rightarrow> True | _ \<Rightarrow> False))"
  by (cases e) (simp_all add: payload_error_def)

definition cached_members :: "'s kis_env \<Rightarrow> string \<Rightarrow> (json \<times> json \<times> time option) result" where
  "cached_members env value =
     bindE (json_loads value) (\<lambda>payload.
     bindE (subscript payload ''access_token'') (\<lambda>access_token.
     bindE (subscript payload ''token_type'') (\<lambda>token_type.
     bindE (bindE (bindE (subscript payload ''expires_at'') as_str) (ke_fromisoformat env)) (\<lambda>expires_at.
       Inr (access_token, token_type, expires_at)))))"

definition valid_cached :: "time \<Rightarrow> json \<times> json \<times> time option \<Rightarrow> KisAccessToken option" where
  "valid_cached now m = (case m of
       (JStr access_token, JStr token_type, Some expires_at) \<Rightarrow>
         if access_token = [] \<or> token_type = [] \<or> expires_at \<le> now then None
         else Some \<lparr>kt_value = access_token, kt_token_type = token_type, kt_expires_at = expires_at\<rparr>
     | _ \<Rightarrow> None)"

text \<open>The largest instant of \<open>datetime\<close>, 9999-12-31T23:59:59.999999, in microseconds since 1970, and
  the integers that \<open>math.isfinite\<close> converts to a float.\<close>

definition DATETIME_MAX :: time where "DATETIME_MAX = 253402300799999999"

definition int_has_float :: "int \<Rightarrow> bool" where
  "int_has_float n \<longleftrightarrow> \<bar>n\<bar> < 2 ^ 1024 - 2 ^ 970"

lemma int_has_float_code [code]:
  "int_has_float n = (if \<bar>n\<bar> < 9007199254740992 then True else \<bar>n\<bar> < 2 ^ 1024 - 2 ^ 970)"
  by (simp add: int_has_float_def)

definition lifetime_of :: "float_ops \<Rightarrow> json \<Rightarrow> time option result" where
  "lifetime_of F v = (case v of
       JInt n \<Rightarrow> if \<not> int_has_float n then Inl OverflowError else Inr (if n \<le> 0 then None else Some (seconds n))
     | JFloat x \<Rightarrow> Inr (if fo_finite F x \<and> fo_positive F x then Some (fo_micros F x) else None)
     | _ \<Rightarrow> Inr None)"

definition token_response_invalid :: exn where
  "token_response_invalid = KisTokenCoordinatorError ''KIS token response is invalid''"

definition token_members :: "string \<Rightarrow> (json \<times> json \<times> json) result" where
  "token_members content =
     bindE (json_loads_bytes content) (\<lambda>payload.
     bindE (subscript payload ''access_token'') (\<lambda>access_token.
     bindE (subscript payload ''token_type'') (\<lambda>token_type.
     bindE (subscript payload ''expires_in'') (\<lambda>expires_in. Inr (access_token, token_type, expires_in)))))"

fun issue_token :: "float_ops \<Rightarrow> time \<Rightarrow> json \<times> json \<times> json \<Rightarrow> KisAccessToken result" where
  "issue_token F now (JStr access_token, JStr token_type, expires_in) =
     (if access_token = [] \<or> token_type = [] then Inl token_response_invalid
      else bindE (lifetime_of F expires_in) (\<lambda>life. case life of
          None \<Rightarrow> Inl token_response_invalid
        | Some d \<Rightarrow> if DATETIME_MAX < now + d then Inl OverflowError
            else Inr \<lparr>kt_value = access_token, kt_token_type = token_type, kt_expires_at = now + d\<rparr>))"
| "issue_token F now _ = Inl token_response_invalid"

definition parse_token_response :: "'s kis_env \<Rightarrow> time \<Rightarrow> string \<Rightarrow> KisAccessToken result" where
  "parse_token_response env now content =
     bindE (catchE (token_members content) (\<lambda>e. Inl (if payload_error e then token_response_invalid else e)))
       (issue_token (ke_floats env) now)"

definition cached_payload :: "'s kis_env \<Rightarrow> KisAccessToken \<Rightarrow> string" where
  "cached_payload env token = json_dumps True (JObj [(''access_token'', JStr (kt_value token)),
     (''token_type'', JStr (kt_token_type token)), (''expires_at'', JStr (ke_isoformat env (kt_expires_at token)))])"

section \<open>The coordinator\<close>

definition drop_cached :: "'s kis_env \<Rightarrow> ('s world, KisAccessToken option) io" where
  "drop_cached env = bindS (timed (ke_lag env) (\<lambda>n. kv_delete (ke_cache env) n (token_cache_key env))) (\<lambda>_. ret None)"

definition read_cached_token :: "'s kis_env \<Rightarrow> ('s world, KisAccessToken option) io" where
  "read_cached_token env =
     bindS (timed (ke_lag env) (\<lambda>n. kv_get (ke_cache env) n (token_cache_key env))) (\<lambda>value. case value of
       None \<Rightarrow> ret None
     | Some v \<Rightarrow> (case cached_members env v of
           Inl e \<Rightarrow> if payload_error e then drop_cached env else raise e
         | Inr m \<Rightarrow> bindS (gets wl_now) (\<lambda>now. case valid_cached now m of
               None \<Rightarrow> drop_cached env
             | Some token \<Rightarrow> ret (Some token))))"

definition token_request :: "'s kis_env \<Rightarrow> ExternalRequest" where
  "token_request env = (plain_request ''POST'' ''/oauth2/tokenP'')\<lparr>
     er_json := Some (JObj [(''grant_type'', JStr ''client_credentials''),
       (''appkey'', JStr (kc_app_key (ke_credentials env))), (''appsecret'', JStr (kc_app_secret (ke_credentials env)))]),
     er_retry_safe := Some False\<rparr>"

definition token_ttl :: "time \<Rightarrow> KisAccessToken \<Rightarrow> int" where
  "token_ttl now token = max 1 ((kt_expires_at token - now) div 1000000 - 60)"

definition request_and_cache_token :: "'s kis_env \<Rightarrow> ('s world, KisAccessToken) io" where
  "request_and_cache_token env =
     bindS (ke_request env (token_request env)) (\<lambda>response.
     if \<not> (200 \<le> ex_status_code response \<and> ex_status_code response < 300)
     then raise (KisTokenCoordinatorError (''KIS token request returned HTTP '' @ string_of_int (ex_status_code response)))
     else bindS (gets wl_now) (\<lambda>now.
       bindS (lift (parse_token_response env now (ex_content response))) (\<lambda>token.
       bindS (timed (ke_lag env) (\<lambda>n. kv_set (ke_cache env) n (token_cache_key env) (cached_payload env token)
                (Some (token_ttl now token)))) (\<lambda>_. ret token))))"

definition POLL_INTERVAL :: time where "POLL_INTERVAL = 100000"

text \<open>The loop of \<open>_wait_for_refresh\<close>. It ends because every round sleeps for the interval.\<close>

lemma drop_cached_forward [intro, simp]: "forward (drop_cached env)"
  unfolding drop_cached_def by blast

lemma read_cached_forward [intro, simp]: "forward (read_cached_token env)"
  unfolding read_cached_token_def by (intro forward_bindS) (auto split: option.splits sum.splits intro!: forward_bindS)

lemma poll_advances:
  assumes "bindS (sleep lag POLL_INTERVAL) (\<lambda>_. read_cached_token env) w = (r, w1)"
  shows "wl_now w + POLL_INTERVAL + int (lag (wl_svc w)) \<le> wl_now w1"
  using assms forwardD [OF read_cached_forward] by (fastforce simp: bindS_def sleep_def POLL_INTERVAL_def)

function wait_loop :: "'s kis_env \<Rightarrow> time \<Rightarrow> 's world \<Rightarrow> KisAccessToken result \<times> 's world" where
  "wait_loop env deadline w =
     (if wl_now w < deadline then
        (case bindS (sleep (ke_lag env) POLL_INTERVAL) (\<lambda>_. read_cached_token env) w of
           (Inl e, w1) \<Rightarrow> (Inl e, w1)
         | (Inr (Some token), w1) \<Rightarrow> (Inr token, w1)
         | (Inr None, w1) \<Rightarrow> wait_loop env deadline w1)
      else (Inl (KisTokenRefreshInProgress ''KIS token refresh is already in progress''), w))"
  by pat_completeness auto

termination
proof (relation "measure (\<lambda>(env, deadline, w). nat (deadline - wl_now w))", goal_cases)
  case (2 env deadline w r w1 v)
  from poll_advances [OF 2(2) [symmetric]] 2 show ?case by (simp add: POLL_INTERVAL_def)
qed simp

declare wait_loop.simps [simp del]

definition wait_for_refresh :: "'s kis_env \<Rightarrow> ('s world, KisAccessToken) io" where
  "wait_for_refresh env w = wait_loop env (wl_now w + ke_wait_timeout env) w"

definition get_access_token :: "'s kis_env \<Rightarrow> ('s world, KisAccessToken) io" where
  "get_access_token env =
     bindS (read_cached_token env) (\<lambda>cached. case cached of
       Some token \<Rightarrow> ret token
     | None \<Rightarrow>
         bindS (timed (ke_lag env) (\<lambda>n. lk_acquire (ke_lock env) n (token_lock_key env) (Some 30))) (\<lambda>lock_token.
         case lock_token of
           None \<Rightarrow> wait_for_refresh env
         | Some t \<Rightarrow>
             finallyS
               (bindS (read_cached_token env) (\<lambda>cached'. case cached' of
                  Some token \<Rightarrow> ret token
                | None \<Rightarrow> request_and_cache_token env))
               (timed (ke_lag env) (\<lambda>n. lk_release (ke_lock env) n (token_lock_key env) t))))"

section \<open>What the coordinator needs of the services\<close>

definition usable :: "time \<Rightarrow> KisAccessToken \<Rightarrow> bool" where
  "usable now tok \<longleftrightarrow> kt_value tok \<noteq> [] \<and> kt_token_type tok \<noteq> [] \<and> now < kt_expires_at tok"

text \<open>A positive number of seconds is at least one microsecond, or rounds to none: the code accepts both.
  \<open>fo_positive_micros\<close> excludes the second.\<close>

definition fo_positive_micros :: "float_ops \<Rightarrow> bool" where
  "fo_positive_micros F \<longleftrightarrow> (\<forall>x. fo_positive F x \<longrightarrow> 0 < fo_micros F x)"

text \<open>\<open>sent\<close> counts the requests that reached the provider, \<open>look\<close> is the contents of the cache.\<close>

locale kis_services =
  fixes env :: "'s kis_env" and look :: "time \<Rightarrow> 's \<Rightarrow> string \<Rightarrow> string option" and dflt :: "'s \<Rightarrow> int"
    and sent :: "'s \<Rightarrow> nat"
  assumes cache_contract: "kv_client (ke_cache env) look dflt"
    and get_sent: "kv_get (ke_cache env) now k s = (rg, s') \<Longrightarrow> sent s' = sent s"
    and set_sent: "kv_set (ke_cache env) now k v ttl s = (rs, s') \<Longrightarrow> sent s' = sent s"
    and delete_sent: "kv_delete (ke_cache env) now k s = (rd, s') \<Longrightarrow> sent s' = sent s"
    and acquire_apart: "lk_acquire (ke_lock env) now k ttl s = (ra, s') \<Longrightarrow>
      sent s' = sent s \<and> (\<forall>n\<ge>now. \<forall>j. look n s' j = look n s j)"
    and release_apart: "lk_release (ke_lock env) now k tok s = (rb, s') \<Longrightarrow>
      sent s' = sent s \<and> (\<forall>n\<ge>now. \<forall>j. look n s' j = look n s j)"
    and request_once: "er_retry_safe q = Some False \<Longrightarrow> take 1 (er_path q) = ''/'' \<Longrightarrow> ke_request env q w = (rq, w') \<Longrightarrow>
      sent (wl_svc w') = sent (wl_svc w) + 1"
    and request_forward: "forward (ke_request env q)"
    and iso_roundtrip: "ke_fromisoformat env (ke_isoformat env t) = Inr (Some t)"
begin

lemma usable_mono: "usable n tok \<Longrightarrow> m \<le> n \<Longrightarrow> usable m tok"
  by (auto simp: usable_def)

lemma valid_usable: "valid_cached now m = Some tok \<Longrightarrow> usable now tok"
  by (auto simp: valid_cached_def usable_def split: json.splits option.splits prod.splits if_splits)

lemma drop_sent: "drop_cached env w = (r, w') \<Longrightarrow> sent (wl_svc w') = sent (wl_svc w) \<and> r \<noteq> Inr (Some tok)"
  by (auto simp: drop_cached_def bindS_def timed_def split: prod.splits sum.splits dest: delete_sent)

lemma read_outcome:
  assumes "read_cached_token env w = (r, w')"
  shows "sent (wl_svc w') = sent (wl_svc w) \<and> (\<forall>tok. r = Inr (Some tok) \<longrightarrow> usable (wl_now w') tok)"
proof -
  obtain v s1 where g: "kv_get (ke_cache env) (wl_now w) (token_cache_key env) (wl_svc w) = (v, s1)" by fastforce
  note s = get_sent [OF g]
  let ?w1 = "\<lparr>wl_now = wl_now w + int (ke_lag env s1), wl_svc = s1\<rparr>"
  consider (err) e where "v = Inl e" | (none) "v = Inr None" | (some) x where "v = Inr (Some x)"
    by (cases v) auto
  then show ?thesis
  proof cases
    case some
    show ?thesis
    proof (cases "\<exists>m tok. cached_members env x = Inr m \<and> valid_cached (wl_now ?w1) m = Some tok")
      case True
      then obtain m tok where "cached_members env x = Inr m" "valid_cached (wl_now ?w1) m = Some tok" by blast
      then have "r = Inr (Some tok)" "w' = ?w1"
        using assms g some by (auto simp: read_cached_token_def bindS_def timed_def)
      then show ?thesis using valid_usable \<open>valid_cached (wl_now ?w1) m = Some tok\<close> s by auto
    next
      case False
      then have "drop_cached env ?w1 = (r, w') \<or> (\<exists>e. r = Inl e \<and> w' = ?w1)"
        using assms g some
        by (auto simp: read_cached_token_def bindS_def timed_def split: sum.splits if_splits option.splits)
      then show ?thesis using drop_sent [of ?w1 r w'] s by auto
    qed
  qed (use assms g s in \<open>auto simp: read_cached_token_def bindS_def timed_def\<close>)
qed

text \<open>Waiting sends nothing, and gives a usable token, the error after the deadline, or an error of the
  cache.\<close>

lemma wait_outcome:
  "wait_loop env deadline w = (r, w') \<Longrightarrow> wl_now w \<le> wl_now w' \<and> sent (wl_svc w') = sent (wl_svc w) \<and>
    (\<forall>tok. r = Inr tok \<longrightarrow> usable (wl_now w') tok) \<and>
    (\<forall>e. r = Inl e \<longrightarrow> (e = KisTokenRefreshInProgress ''KIS token refresh is already in progress'' \<and> deadline \<le> wl_now w') \<or>
       (\<exists>u u'. read_cached_token env u = (Inl e, u')))"
proof (induction "nat (deadline - wl_now w)" arbitrary: w rule: less_induct)
  case (less w)
  show ?case
  proof (cases "wl_now w < deadline")
    case True
    let ?w0 = "w\<lparr>wl_now := wl_now w + max 0 POLL_INTERVAL + int (ke_lag env (wl_svc w))\<rparr>"
    obtain r1 w1 where b: "bindS (sleep (ke_lag env) POLL_INTERVAL) (\<lambda>_. read_cached_token env) w = (r1, w1)" by fastforce
    then have rd: "read_cached_token env ?w0 = (r1, w1)" by (simp add: bindS_def sleep_def)
    note ro = read_outcome [OF rd] and adv = poll_advances [OF b]
    have le: "wl_now w \<le> wl_now w1" using adv by (simp add: POLL_INTERVAL_def)
    consider (err) e where "r1 = Inl e" | (none) "r1 = Inr None" | (some) tok where "r1 = Inr (Some tok)"
      by (cases r1) auto
    then show ?thesis
    proof cases
      case none
      then have "wait_loop env deadline w1 = (r, w')"
        using less.prems True b by (subst (asm) wait_loop.simps) simp
      moreover have "nat (deadline - wl_now w1) < nat (deadline - wl_now w)" using adv True by (simp add: POLL_INTERVAL_def)
      ultimately show ?thesis using less.hyps [of w1] ro le none by auto
    next
      case err
      then have "r = Inl e \<and> w' = w1" using less.prems True b by (subst (asm) wait_loop.simps) simp
      then show ?thesis using ro le rd err by auto
    next
      case some
      then have "r = Inr tok \<and> w' = w1" using less.prems True b by (subst (asm) wait_loop.simps) simp
      then show ?thesis using ro le some by auto
    qed
  qed (use less.prems in \<open>auto simp: wait_loop.simps\<close>)
qed

text \<open>Every token that is returned is usable, and at most one request is sent.\<close>

lemma lifetime_pos: "lifetime_of F v = Inr (Some d) \<Longrightarrow> fo_positive_micros F \<Longrightarrow> 0 < d"
  by (auto simp: lifetime_of_def fo_positive_micros_def split: json.splits if_splits)

lemma issue_token_Inr:
  assumes "issue_token F now (JStr a, JStr t, x) = Inr tok"
  obtains d where "a \<noteq> []" "t \<noteq> []" "lifetime_of F x = Inr (Some d)"
    "tok = \<lparr>kt_value = a, kt_token_type = t, kt_expires_at = now + d\<rparr>"
proof -
  from assms obtain l where l: "a \<noteq> []" "t \<noteq> []" "lifetime_of F x = Inr l"
    by (auto simp: bindE_eq_Inr split: if_splits)
  with assms obtain d where "l = Some d" "tok = \<lparr>kt_value = a, kt_token_type = t, kt_expires_at = now + d\<rparr>"
    by (cases l) (auto split: if_splits)
  with l that show ?thesis by blast
qed

lemma issue_usable: "issue_token F now m = Inr tok \<Longrightarrow> fo_positive_micros F \<Longrightarrow> usable now tok"
proof (induction F now m rule: issue_token.induct)
  case (1 F now a t x)
  from issue_token_Inr [OF 1(1)] obtain d where "a \<noteq> []" "t \<noteq> []" "lifetime_of F x = Inr (Some d)"
    "tok = \<lparr>kt_value = a, kt_token_type = t, kt_expires_at = now + d\<rparr>" .
  then show ?case using lifetime_pos 1(2) by (simp add: usable_def)
qed simp_all

lemma parse_usable: "parse_token_response env now c = Inr tok \<Longrightarrow> fo_positive_micros (ke_floats env) \<Longrightarrow> usable now tok"
  by (auto simp: parse_token_response_def bindE_eq_Inr dest: issue_usable)

lemma request_outcome:
  assumes "request_and_cache_token env w = (r, w')"
  shows "sent (wl_svc w') = sent (wl_svc w) + 1 \<and> (\<forall>tok. r = Inr tok \<longrightarrow> (\<exists>c now u s1.
    wl_now w \<le> now \<and> now \<le> wl_now w' \<and> parse_token_response env now c = Inr tok \<and>
    kv_set (ke_cache env) now (token_cache_key env) (cached_payload env tok) (Some (token_ttl now tok)) s1 = (Inr u, wl_svc w')))"
proof -
  obtain r1 w1 where q: "ke_request env (token_request env) w = (r1, w1)" by fastforce
  have once: "sent (wl_svc w1) = sent (wl_svc w) + 1"
    using request_once [OF _ _ q] by (simp add: token_request_def plain_request_def)
  note le = forwardD [OF request_forward q]
  show ?thesis
  proof (cases "\<exists>x tok. r1 = Inr x \<and> 200 \<le> ex_status_code x \<and> ex_status_code x < 300 \<and>
      parse_token_response env (wl_now w1) (ex_content x) = Inr tok")
    case True
    then obtain x tok where x: "r1 = Inr x" "200 \<le> ex_status_code x" "ex_status_code x < 300"
      "parse_token_response env (wl_now w1) (ex_content x) = Inr tok" by blast
    obtain r2 s2 where st: "kv_set (ke_cache env) (wl_now w1) (token_cache_key env) (cached_payload env tok)
        (Some (token_ttl (wl_now w1) tok)) (wl_svc w1) = (r2, s2)" by fastforce
    have w': "w' = \<lparr>wl_now = wl_now w1 + int (ke_lag env s2), wl_svc = s2\<rparr>"
      and r: "r = (case r2 of Inl e \<Rightarrow> Inl e | Inr _ \<Rightarrow> Inr tok)"
      using assms q x st by (auto simp: request_and_cache_token_def bindS_def timed_def split: sum.splits)
    show ?thesis
    proof (intro conjI allI impI)
      show "sent (wl_svc w') = sent (wl_svc w) + 1" using once set_sent [OF st] w' by simp
      fix t assume "r = Inr t"
      then obtain u where "r2 = Inr u" "t = tok" using r by (auto split: sum.splits)
      then show "\<exists>c now u s1. wl_now w \<le> now \<and> now \<le> wl_now w' \<and> parse_token_response env now c = Inr t \<and>
        kv_set (ke_cache env) now (token_cache_key env) (cached_payload env t) (Some (token_ttl now t)) s1 = (Inr u, wl_svc w')"
        using le x(4) st w' by (intro exI [of _ "ex_content x"] exI [of _ "wl_now w1"] exI [of _ u] exI [of _ "wl_svc w1"]) simp
    qed
  next
    case False
    then have "w' = w1 \<and> (\<forall>tok. r \<noteq> Inr tok)" using assms q
      by (cases r1) (auto simp: request_and_cache_token_def bindS_def split: sum.splits if_splits)
    then show ?thesis using once by auto
  qed
qed

definition stored :: "time \<Rightarrow> 's world \<Rightarrow> KisAccessToken \<Rightarrow> bool" where
  "stored from w tok \<longleftrightarrow> (\<exists>now. from \<le> now \<and> now \<le> wl_now w \<and> (fo_positive_micros (ke_floats env) \<longrightarrow> usable now tok) \<and>
     (\<forall>n\<ge>wl_now w. look n (wl_svc w) (token_cache_key env) =
        (if now + seconds (token_ttl now tok) \<le> n then None else Some (cached_payload env tok))))"

lemma request_stored:
  assumes "request_and_cache_token env w = (Inr tok, w')"
  shows "stored (wl_now w) w' tok"
proof -
  from request_outcome [OF assms] obtain c now u s1 where n: "wl_now w \<le> now" "now \<le> wl_now w'"
    "parse_token_response env now c = Inr tok"
    and st: "kv_set (ke_cache env) now (token_cache_key env) (cached_payload env tok) (Some (token_ttl now tok)) s1 = (Inr u, wl_svc w')"
    by blast
  from kv_client.set_law [OF cache_contract st] n parse_usable show ?thesis
    unfolding stored_def by (intro exI [of _ now]) auto
qed

lemma stored_later:
  assumes "stored t w tok" "wl_now w \<le> wl_now w'" "t' \<le> t"
    and same: "\<forall>n\<ge>wl_now w'. look n (wl_svc w') (token_cache_key env) = look n (wl_svc w) (token_cache_key env)"
  shows "stored t' w' tok"
proof -
  from assms(1) obtain now where n: "t \<le> now" "now \<le> wl_now w" "fo_positive_micros (ke_floats env) \<longrightarrow> usable now tok"
    and l: "\<forall>n\<ge>wl_now w. look n (wl_svc w) (token_cache_key env) =
      (if now + seconds (token_ttl now tok) \<le> n then None else Some (cached_payload env tok))"
    unfolding stored_def by blast
  have "look n (wl_svc w') (token_cache_key env) =
      (if now + seconds (token_ttl now tok) \<le> n then None else Some (cached_payload env tok))" if "wl_now w' \<le> n" for n
    using same l that assms(2) by (metis order_trans)
  then show ?thesis unfolding stored_def using n assms(2,3) by (intro exI [of _ now]) auto
qed

lemma read_then:
  assumes "bindS (read_cached_token env) (\<lambda>c. case c of Some tok \<Rightarrow> ret tok | None \<Rightarrow> f) w = (r, w')"
  shows "(\<exists>w1. read_cached_token env w = (Inr None, w1) \<and> f w1 = (r, w')) \<or>
    sent (wl_svc w') = sent (wl_svc w) \<and> wl_now w \<le> wl_now w' \<and> (\<forall>tok. r = Inr tok \<longrightarrow> usable (wl_now w') tok)"
proof -
  obtain r1 w1 where rd: "read_cached_token env w = (r1, w1)" by fastforce
  consider (err) e where "r1 = Inl e" | (none) "r1 = Inr None" | (some) tok where "r1 = Inr (Some tok)"
    by (cases r1) auto
  then show ?thesis
    using assms rd read_outcome [OF rd] forwardD [OF read_cached_forward rd] by cases (auto simp: bindS_def)
qed

lemma token_outcome:
  assumes run: "get_access_token env w = (r, w')"
  shows "sent (wl_svc w') = sent (wl_svc w) \<and> (\<forall>tok. r = Inr tok \<longrightarrow> usable (wl_now w) tok) \<or>
    sent (wl_svc w') = sent (wl_svc w) + 1 \<and> (\<forall>tok. r = Inr tok \<longrightarrow> stored (wl_now w) w' tok)"
proof -
  from read_then [OF run [unfolded get_access_token_def]] show ?thesis
  proof (elim disjE exE conjE, goal_cases)
    case (1 w1)
    obtain ra s2 where ac: "lk_acquire (ke_lock env) (wl_now w1) (token_lock_key env) (Some 30) (wl_svc w1) = (ra, s2)" by fastforce
    let ?w2 = "\<lparr>wl_now = wl_now w1 + int (ke_lag env s2), wl_svc = s2\<rparr>"
    have s2: "sent s2 = sent (wl_svc w)" "wl_now w \<le> wl_now ?w2"
      using acquire_apart [OF ac] read_outcome [OF 1(1)] forwardD [OF read_cached_forward 1(1)] by auto
    consider (err) e where "ra = Inl e" | (held) "ra = Inr None" | (got) t where "ra = Inr (Some t)" by (cases ra) auto
    then show ?case
    proof cases
      case held
      then have "wait_loop env (wl_now ?w2 + ke_wait_timeout env) ?w2 = (r, w')"
        using 1(2) ac by (simp add: bindS_def timed_def wait_for_refresh_def)
      from wait_outcome [OF this] show ?thesis using s2 by (auto intro: usable_mono)
    next
      case got
      let ?inner = "bindS (read_cached_token env) (\<lambda>c. case c of Some tok \<Rightarrow> ret tok | None \<Rightarrow> request_and_cache_token env)"
      obtain r3 w3 where in3: "?inner ?w2 = (r3, w3)" by fastforce
      obtain rr s4 where rl: "lk_release (ke_lock env) (wl_now w3) (token_lock_key env) t (wl_svc w3) = (rr, s4)" by fastforce
      let ?w4 = "\<lparr>wl_now = wl_now w3 + int (ke_lag env s4), wl_svc = s4\<rparr>"
      have w': "w' = ?w4" "\<forall>tok. r = Inr tok \<longrightarrow> r3 = Inr tok"
        using 1(2) ac got in3 rl by (auto simp: bindS_def timed_def finallyS_def split: sum.splits)
      note rel = release_apart [OF rl]
      from read_then [OF in3] show ?thesis
      proof (elim disjE exE conjE, goal_cases)
        case (1 w5)
        have t5: "wl_now w \<le> wl_now w5" "sent (wl_svc w5) = sent (wl_svc w)"
          using forwardD [OF read_cached_forward 1(1)] read_outcome [OF 1(1)] s2 by auto
        have "stored (wl_now w) w' tok" if "r = Inr tok" for tok
        proof (rule stored_later)
          have "r3 = Inr tok" using w'(2) that by blast
          then show "stored (wl_now w5) w3 tok" using request_stored [of w5 tok w3] 1(2) by simp
        qed (use w'(1) rel t5 in auto)
        then show ?case using request_outcome [OF 1(2)] w'(1) rel t5 by auto
      qed (use w' rel s2 in \<open>auto intro: usable_mono\<close>)
    qed (use 1(2) ac s2 in \<open>auto simp: bindS_def timed_def\<close>)
  qed (auto intro: usable_mono)
qed

lemma cached_members_payload:
  "cached_members env (cached_payload env tok) = Inr (JStr (kt_value tok), JStr (kt_token_type tok), Some (kt_expires_at tok))"
  by (simp add: cached_members_def cached_payload_def json_loads_dumps subscript_def member_def dict_get_def iso_roundtrip)

text \<open>What was stored is read back until 61 seconds before the token expires.\<close>

lemma stored_read:
  assumes st: "stored t w tok" and "fo_positive_micros (ke_floats env)"
    and "wl_now w \<le> wl_now w2"
    and "look (wl_now w2) (wl_svc w2) (token_cache_key env) = look (wl_now w2) (wl_svc w) (token_cache_key env)"
    and early: "wl_now w2 + seconds 61 \<le> kt_expires_at tok"
    and get: "kv_get (ke_cache env) (wl_now w2) (token_cache_key env) (wl_svc w2) = (Inr v, s3)"
    and check: "wl_now w2 + int (ke_lag env s3) < kt_expires_at tok"
  shows "get_access_token env w2 = (Inr tok, \<lparr>wl_now = wl_now w2 + int (ke_lag env s3), wl_svc = s3\<rparr>)"
proof -
  from st obtain now where n: "now \<le> wl_now w" "usable now tok"
    and l: "\<forall>n\<ge>wl_now w. look n (wl_svc w) (token_cache_key env) =
      (if now + seconds (token_ttl now tok) \<le> n then None else Some (cached_payload env tok))"
    unfolding stored_def using assms(2) by blast
  have "(kt_expires_at tok - now) div 1000000 * 1000000 + (kt_expires_at tok - now) mod 1000000 = kt_expires_at tok - now"
    by simp
  moreover have "(kt_expires_at tok - now) mod 1000000 < 1000000" by simp
  moreover have "now + seconds ((kt_expires_at tok - now) div 1000000 - 60) \<le> now + seconds (token_ttl now tok)"
    by (simp add: token_ttl_def)
  ultimately have "wl_now w2 < now + seconds (token_ttl now tok)"
    using early unfolding seconds_def by (simp add: algebra_simps)
  then have "look (wl_now w2) (wl_svc w2) (token_cache_key env) = Some (cached_payload env tok)" using l assms(3,4) by auto
  then have v: "v = Some (cached_payload env tok)" using kv_client.get_law [OF cache_contract get] by simp
  have "valid_cached (wl_now w2 + int (ke_lag env s3)) (JStr (kt_value tok), JStr (kt_token_type tok), Some (kt_expires_at tok)) = Some tok"
    using n check by (simp add: valid_cached_def usable_def)
  then show ?thesis using get v
    by (simp add: get_access_token_def read_cached_token_def bindS_def timed_def cached_members_payload)
qed

text \<open>When no call takes longer than \<open>L\<close>, waiting ends at the latest one round after the deadline.\<close>

lemma drop_time: "drop_cached env w = (r, w') \<Longrightarrow> \<forall>s. int (ke_lag env s) \<le> L \<Longrightarrow> wl_now w' \<le> wl_now w + L"
  by (auto simp: drop_cached_def bindS_def timed_def split: prod.splits sum.splits)

lemma read_time:
  assumes run: "read_cached_token env w = (r, w')" and lag: "\<forall>s. int (ke_lag env s) \<le> L" and L: "0 \<le> L"
  shows "wl_now w' \<le> wl_now w + 2 * L"
proof -
  obtain v s1 where g: "kv_get (ke_cache env) (wl_now w) (token_cache_key env) (wl_svc w) = (v, s1)" by fastforce
  let ?w1 = "\<lparr>wl_now = wl_now w + int (ke_lag env s1), wl_svc = s1\<rparr>"
  have "w' = ?w1 \<or> drop_cached env ?w1 = (r, w')" using run g
    by (auto simp: read_cached_token_def bindS_def timed_def split: sum.splits option.splits if_splits)
  then show ?thesis
  proof
    assume "drop_cached env ?w1 = (r, w')"
    from drop_time [OF this lag] lag [rule_format, of s1] show ?thesis by simp
  next
    assume "w' = ?w1"
    then show ?thesis using lag [rule_format, of s1] L by simp
  qed
qed

lemma wait_bound:
  assumes lag: "\<forall>s. int (ke_lag env s) \<le> L" and L: "0 \<le> L"
  shows "wait_loop env deadline w = (r, w') \<Longrightarrow> wl_now w' \<le> max (wl_now w) (deadline + POLL_INTERVAL + 3 * L)"
proof (induction "nat (deadline - wl_now w)" arbitrary: w rule: less_induct)
  case (less w)
  show ?case
  proof (cases "wl_now w < deadline")
    case True
    obtain r1 w1 where b: "bindS (sleep (ke_lag env) POLL_INTERVAL) (\<lambda>_. read_cached_token env) w = (r1, w1)" by fastforce
    then have rd: "read_cached_token env (w\<lparr>wl_now := wl_now w + max 0 POLL_INTERVAL + int (ke_lag env (wl_svc w))\<rparr>) = (r1, w1)"
      by (simp add: bindS_def sleep_def)
    have w1: "wl_now w1 \<le> wl_now w + POLL_INTERVAL + 3 * L"
      using read_time [OF rd lag L] lag [rule_format, of "wl_svc w"] by (simp add: POLL_INTERVAL_def)
    have "w' = w1 \<or> wait_loop env deadline w1 = (r, w')"
      using less.prems True b by (subst (asm) wait_loop.simps) (auto split: sum.splits option.splits)
    moreover have "nat (deadline - wl_now w1) < nat (deadline - wl_now w)"
      using poll_advances [OF b] True by (simp add: POLL_INTERVAL_def)
    ultimately show ?thesis using less.hyps [of w1] w1 True by auto
  qed (use less.prems in \<open>auto simp: wait_loop.simps\<close>)
qed

end

section \<open>The coordinator on Redis and the HTTP client\<close>

definition on_fst :: "('a, 'x) io \<Rightarrow> ('a \<times> 'b, 'x) io" where
  "on_fst m s = (case m (fst s) of (r, a) \<Rightarrow> (r, (a, snd s)))"

definition on_snd :: "('b, 'x) io \<Rightarrow> ('a \<times> 'b, 'x) io" where
  "on_snd m s = (case m (snd s) of (r, b) \<Rightarrow> (r, (fst s, b)))"

definition kv_fst :: "'a kv_ops \<Rightarrow> ('a \<times> 'b) kv_ops" where
  "kv_fst ops = \<lparr>kv_get = (\<lambda>n k. on_fst (kv_get ops n k)), kv_set = (\<lambda>n k v t. on_fst (kv_set ops n k v t)),
     kv_delete = (\<lambda>n k. on_fst (kv_delete ops n k))\<rparr>"

definition lock_fst :: "'a lock_ops \<Rightarrow> ('a \<times> 'b) lock_ops" where
  "lock_fst ops = \<lparr>lk_acquire = (\<lambda>n k t. on_fst (lk_acquire ops n k t)), lk_release = (\<lambda>n k t. on_fst (lk_release ops n k t))\<rparr>"

text \<open>\<open>KisTokenCoordinator.from_environment\<close>: the services are built in the order of the arguments.
  The libraries behind them are the parameters of \<open>kis_libs\<close>.\<close>

record ('r, 'p) kis_libs =
  kl_redis :: "'r redis_api"
  kl_token_urlsafe :: "'r \<Rightarrow> string"
  kl_send :: "ExternalRequest \<Rightarrow> ('p, ExternalResponse) io"
  kl_lag :: "'r \<times> 'p \<Rightarrow> nat"
  kl_sha256 :: "string \<Rightarrow> string"
  kl_isoformat :: "time \<Rightarrow> string"
  kl_fromisoformat :: "string \<Rightarrow> time option result"
  kl_floats :: float_ops

definition coordinator ::
  "('r, 'p) kis_libs \<Rightarrow> ExternalProviderConfig \<Rightarrow> DistributedLockConfig \<Rightarrow> KeyValueStoreConfig \<Rightarrow> KisTokenCredentials
   \<Rightarrow> ('r \<times> 'p) kis_env" where
  "coordinator L provider lock cache credentials = \<lparr>ke_lag = kl_lag L,
     ke_cache = kv_fst (kv_service (redis_kv (kl_redis L) cache) (kc_ttl_seconds cache)),
     ke_lock = lock_fst (lock_service (redis_lock (kl_redis L) (kl_token_urlsafe L) lock) (lc_ttl_seconds lock)),
     ke_request = http_request (kl_lag L) (\<lambda>q. on_snd (kl_send L q)) provider,
     ke_sha256 = kl_sha256 L, ke_isoformat = kl_isoformat L, ke_fromisoformat = kl_fromisoformat L,
     ke_floats = kl_floats L, ke_wait_timeout = seconds 10, ke_credentials = credentials\<rparr>"

definition coordinator_from_environment :: "('r, 'p) kis_libs \<Rightarrow> (string, string) dict \<Rightarrow> ('r \<times> 'p) kis_env result" where
  "coordinator_from_environment L env =
     bindE (provider_config_from_environment env) (\<lambda>provider.
     bindE (lock_config_from_environment env) (\<lambda>lock.
     bindE (kv_config_from_environment env) (\<lambda>cache.
     bindE (token_credentials_from_environment env) (\<lambda>credentials.
       new_coordinator (coordinator L provider lock cache credentials)))))"

lemma coordinator_configs:
  assumes "coordinator_from_environment L env = Inr k"
  obtains provider lock cache credentials where "k = coordinator L provider lock cache credentials"
    "lc_key_prefix lock = ''kis-lock''" "kc_key_prefix cache = ''kis-cache''"
    "xc_max_retries provider = 2" "xc_retry_delay provider = 100000"
  using assms
  by (fastforce simp: coordinator_from_environment_def provider_config_from_environment_def lock_config_from_environment_def
      lock_config_for_def kv_config_from_environment_def kv_config_for_def new_coordinator_def bindE_eq_Inr
      default_lock_config_def default_kv_config_def split: if_splits)

lemma on_fst_run: "on_fst m s = (r, s') \<longleftrightarrow> m (fst s) = (r, fst s') \<and> snd s' = snd s"
  by (cases s') (auto simp: on_fst_def split: prod.splits)

lemma kv_fst_client:
  assumes "kv_client ops look dt"
  shows "kv_client (kv_fst ops) (\<lambda>n s. look n (fst s)) (\<lambda>s. dt (fst s))"
proof (rule kv_client.intro)
  fix now k s v s'
  assume "kv_get (kv_fst ops) now k s = (Inr v, s')"
  then show "v = look now (fst s) k \<and> (\<forall>n\<ge>now. \<forall>j. look n (fst s') j = look n (fst s) j) \<and> dt (fst s') = dt (fst s)"
    using kv_client.get_law [OF assms, of now k "fst s" v "fst s'"] by (simp add: kv_fst_def on_fst_run)
next
  fix now k x ttl s u s'
  assume "kv_set (kv_fst ops) now k x ttl s = (Inr u, s')"
  then have "kv_set ops now k x ttl (fst s) = (Inr u, fst s')" by (simp add: kv_fst_def on_fst_run)
  from kv_client.set_law [OF assms this] show "k \<noteq> [] \<and> 0 < (case ttl of None \<Rightarrow> dt (fst s) | Some t \<Rightarrow> t) \<and>
      dt (fst s') = dt (fst s) \<and> (\<forall>n\<ge>now. \<forall>j. look n (fst s') j = (if j = k
         then if now + seconds (case ttl of None \<Rightarrow> dt (fst s) | Some t \<Rightarrow> t) \<le> n then None else Some x
         else look n (fst s) j))" .
next
  fix now k s b s'
  assume "kv_delete (kv_fst ops) now k s = (Inr b, s')"
  then have "kv_delete ops now k (fst s) = (Inr b, fst s')" by (simp add: kv_fst_def on_fst_run)
  from kv_client.delete_law [OF assms this] show "dt (fst s') = dt (fst s) \<and>
      (\<forall>n\<ge>now. \<forall>j. look n (fst s') j = (if j = k then None else look n (fst s) j))" .
qed

context redis_server
begin

lemma set_nx_any: "rd_set_nx api now k x ttl r = (b, r') \<Longrightarrow>
    contents r' = contents r \<or> contents r' = snd (spec_set_nx now k x ttl (contents r))"
  by (cases b) (auto dest: set_nx_failed set_nx_ok [THEN arg_cong [of _ _ snd]])

lemma del_any: "rd_del api now ks r = (b, r') \<Longrightarrow>
    contents r' = contents r \<or> contents r' = snd (spec_del now ks (contents r))"
  by (cases b) (auto dest: del_failed del_ok [THEN arg_cong [of _ _ snd]])

text \<open>The keys of locks and of the cache have different prefixes: a lock operation leaves the cache
  alone, also when the server fails.\<close>

lemma lock_other_keys:
  assumes "lk_acquire (lock_service (redis_lock api tu lock) d) now k ttl r = (x, r') \<or>
    lk_release (lock_service (redis_lock api tu lock) d) now k tok r = (y, r')"
    and "\<And>j. key \<noteq> lc_key_prefix lock @ '':'' @ j"
  shows "contents r' key = contents r key"
  using assms(1)
proof
  assume "lk_acquire (lock_service (redis_lock api tu lock) d) now k ttl r = (x, r')"
  then have "r' = r \<or> (\<exists>t b. rd_set_nx api now (lc_key_prefix lock @ '':'' @ k) (tu r) t r = (b, r'))"
    by (auto simp: lock_service_def redis_lock_def redis_lock_acquire_def lock_key_def bindS_def
        split: sum.splits if_splits prod.splits)
  then show ?thesis
  proof (elim disjE exE)
    fix t b assume a: "rd_set_nx api now (lc_key_prefix lock @ '':'' @ k) (tu r) t r = (b, r')"
    have "contents r' = contents r \<or> contents r' = snd (spec_set_nx now (lc_key_prefix lock @ '':'' @ k) (tu r) t (contents r))"
      using a by (rule set_nx_any)
    then show ?thesis using assms(2) [of k]
      by (auto simp: spec_set_nx_def spec_set_ex_def split: option.splits)
  qed simp
next
  assume rel: "lk_release (lock_service (redis_lock api tu lock) d) now k tok r = (y, r')"
  let ?key = "lc_key_prefix lock @ '':'' @ k"
  obtain g r1 where g: "rd_get api now ?key r = (g, r1)" by fastforce
  have c1: "contents r1 = contents r" using g get_ok [of now ?key r _ r1] get_failed [of now ?key r _ r1] by (cases g) auto
  have "r' = r \<or> r' = r1 \<or> (\<exists>b. rd_del api now [?key] r1 = (b, r'))"
    using rel g by (auto simp: lock_service_def redis_lock_def redis_lock_release_def release_if_owner_def lock_key_def bindS_def
        split: sum.splits if_splits prod.splits)
  then show ?thesis
  proof (elim disjE exE)
    fix b assume a: "rd_del api now [?key] r1 = (b, r')"
    have "contents r' = contents r1 \<or> contents r' = snd (spec_del now [?key] (contents r1))"
      using a by (rule del_any)
    then show ?thesis using assms(2) [of k] c1 by (auto simp: spec_del_def)
  qed (use c1 in auto)
qed

lemma coordinator_services:
  assumes L: "kl_redis L = api"
    and cfg: "lc_key_prefix lock = ''kis-lock''" "kc_key_prefix cache = ''kis-cache''"
      "xc_max_retries provider = 2" "xc_retry_delay provider = 100000"
    and cnt: "\<forall>q s r s'. kl_send L q s = (r, s') \<longrightarrow> sent s' = sent s + (1::nat)"
    and iso: "\<forall>t. kl_fromisoformat L (kl_isoformat L t) = Inr (Some t)"
  shows "kis_services (coordinator L provider lock cache cred) (\<lambda>n s. redis_look contents cache n (fst s))
    (\<lambda>_. kc_ttl_seconds cache) (\<lambda>s. sent (snd s))"
proof -
  let ?k = "coordinator L provider lock cache cred"
  have look: "redis_look contents cache n r' j = redis_look contents cache n r j"
    if "lk_acquire (lock_service (redis_lock api tu lock) d) now k ttl r = (x, r') \<or>
      lk_release (lock_service (redis_lock api tu lock) d) now k tok r = (y, r')" for n tu d now k ttl tok r r' x y j
    using lock_other_keys [OF that, of "''kis-cache'' @ '':'' @ j"] cfg by (simp add: redis_look_def spec_get_def live_def)
  show ?thesis
  proof (rule kis_services.intro)
    show "kv_client (ke_cache ?k) (\<lambda>n s. redis_look contents cache n (fst s)) (\<lambda>_. kc_ttl_seconds cache)"
      using kv_fst_client [OF kv_service_client [OF redis_kv_client]] by (simp add: coordinator_def L)
  next
    fix now k ttl s ra s'
    assume "lk_acquire (ke_lock ?k) now k ttl s = (ra, s')"
    then show "sent (snd s') = sent (snd s) \<and> (\<forall>n\<ge>now. \<forall>j. redis_look contents cache n (fst s') j = redis_look contents cache n (fst s) j)"
      using look [OF disjI1] by (auto simp: coordinator_def lock_fst_def on_fst_run L)
  next
    fix now k tok s rb s'
    assume "lk_release (ke_lock ?k) now k tok s = (rb, s')"
    then show "sent (snd s') = sent (snd s) \<and> (\<forall>n\<ge>now. \<forall>j. redis_look contents cache n (fst s') j = redis_look contents cache n (fst s) j)"
      using look [OF disjI2] by (auto simp: coordinator_def lock_fst_def on_fst_run L)
  next
    fix q w rq w'
    assume q: "er_retry_safe q = Some False" "take 1 (er_path q) = ''/''" "ke_request ?k q w = (rq, w')"
    have c: "\<forall>q s r s'. on_snd (kl_send L q) s = (r, s') \<longrightarrow> sent (snd s') = sent (snd s) + 1"
      using cnt by (auto simp: on_snd_def split: prod.splits)
    from q(3) have "http_request (kl_lag L) (\<lambda>q. on_snd (kl_send L q)) provider q w = (rq, w')" by (simp add: coordinator_def)
    then have "request_loop (kl_lag L) (\<lambda>q. on_snd (kl_send L q)) provider False
        (q\<lparr>er_method := upper (er_method q), er_headers := or_none (er_headers q),
          er_params := or_none (er_params q), er_retry_safe := None\<rparr>) (Suc 2) 0 w = (rq, w')"
      using q(1,2) cfg unfolding http_request_def Let_def by (simp del: request_loop.simps)
    from request_loop_attempts [where sent = "\<lambda>s. sent (snd s)", OF c this] cfg
    show "sent (snd (wl_svc w')) = sent (snd (wl_svc w)) + 1" by auto
  qed (auto simp: coordinator_def kv_fst_def on_fst_run iso)
qed

end

section \<open>A closed instance\<close>

definition demo_libs :: "(rstate, FakeExternalProviderClient) kis_libs" where
  "demo_libs = \<lparr>kl_redis = mem_redis, kl_token_urlsafe = (\<lambda>_. ''token''), kl_send = fake_request, kl_lag = (\<lambda>_. 1000),
     kl_sha256 = (\<lambda>s. s), kl_isoformat = (\<lambda>t. json_dumps True (JInt t)),
     kl_fromisoformat = (\<lambda>s. case json_loads s of Inr (JInt t) \<Rightarrow> Inr (Some t) | _ \<Rightarrow> Inl (ValueError s)),
     kl_floats = \<lparr>fo_finite = (\<lambda>_. False), fo_positive = (\<lambda>_. False), fo_micros = (\<lambda>_. 0)\<rparr>\<rparr>"

definition demo_variables :: "(string, string) dict" where
  "demo_variables = [(''KIS_API_URL'', ''http://kis''), (''REDIS_URL'', ''redis://''), (''KIS_APP_KEY'', ''key''),
     (''KIS_APP_SECRET'', ''secret'')]"

definition demo_env :: "(rstate \<times> FakeExternalProviderClient) kis_env" where
  "demo_env = coordinator demo_libs \<lparr>xc_base_url = ''http://kis'', xc_health_path = ''/'', xc_timeout = seconds 5,
      xc_max_retries = 2, xc_retry_delay = 100000\<rparr> (default_lock_config\<lparr>lc_redis_url := ''redis://''\<rparr>)
      (default_kv_config\<lparr>kc_redis_url := ''redis://''\<rparr>) \<lparr>kc_app_key = ''key'', kc_app_secret = ''secret'', kc_scope = ''default''\<rparr>"

definition demo_world :: "ExternalResponse list \<Rightarrow> (rstate \<times> FakeExternalProviderClient) world" where
  "demo_world rs = \<lparr>wl_now = 0, wl_svc = ((\<lambda>_. None), \<lparr>fx_responses = rs, fx_requests = []\<rparr>)\<rparr>"

definition token_response :: ExternalResponse where
  "token_response = \<lparr>ex_status_code = 200, ex_headers = [], ex_content = json_dumps True (JObj
     [(''access_token'', JStr ''abc''), (''token_type'', JStr ''Bearer''), (''expires_in'', JInt 3600)])\<rparr>"

lemma demo_coordinator: "coordinator_from_environment demo_libs demo_variables = Inr demo_env"
  by (simp add: demo_env_def coordinator_from_environment_def provider_config_from_environment_def required_environment_def
      environ_get_def demo_variables_def dict_get_def lock_config_from_environment_def lock_config_for_def kv_config_for_def
      kv_config_from_environment_def token_credentials_from_environment_def missing_names_def new_coordinator_def
      coordinator_def rstrip_by_def default_lock_config_def default_kv_config_def seconds_def)

lemma demo_assumptions: "redis_server (kl_redis demo_libs) (\<lambda>s. s)"
  "\<forall>q s r s'. kl_send demo_libs q s = (r, s') \<longrightarrow> length (fx_requests s') = length (fx_requests s) + 1"
  "\<forall>t. kl_fromisoformat demo_libs (kl_isoformat demo_libs t) = Inr (Some t)"
  "fo_positive_micros (kl_floats demo_libs)"
  using mem.redis_server_axioms
  by (simp_all add: demo_libs_def fake_request_counts json_loads_dumps fo_positive_micros_def)

interpretation demo_kis: kis_services demo_env
  "\<lambda>n s. redis_look (\<lambda>s. s) (default_kv_config\<lparr>kc_redis_url := ''redis://''\<rparr>) n (fst s)"
  "\<lambda>_. kc_ttl_seconds (default_kv_config\<lparr>kc_redis_url := ''redis://''\<rparr>)" "\<lambda>s. length (fx_requests (snd s))"
  unfolding demo_env_def
  by (rule redis_server.coordinator_services [where sent = "\<lambda>s. length (fx_requests s)", OF demo_assumptions(1) refl _ _ _ _ demo_assumptions(2,3)])
    (simp_all add: default_lock_config_def default_kv_config_def)

section \<open>Properties\<close>

definition cache_entry :: "'s kis_env \<Rightarrow> string" where
  "cache_entry env = ''kis-cache:'' @ token_cache_key env"

text \<open>
  C28: A call of \<open>get_access_token\<close> that returns sends at most one token request, and the token it
  returns has not expired. When it sent the request, the token is shared: as long as nobody changes
  the cache entry and the clock is at least 61 seconds before the expiry, every other call returns
  the same token after one read of the cache, without the lock and without the provider.
\<close>

theorem token_reused:
  assumes "redis_server (kl_redis L) contents" and "coordinator_from_environment L env = Inr k"
    and "\<forall>q s r s'. kl_send L q s = (r, s') \<longrightarrow> sent s' = sent s + (1::nat)"
    and "\<forall>t. kl_fromisoformat L (kl_isoformat L t) = Inr (Some t)" and "fo_positive_micros (kl_floats L)"
    and "get_access_token k w = (Inr tok, w1)"
  shows "sent (snd (wl_svc w1)) \<le> sent (snd (wl_svc w)) + 1 \<and> usable (wl_now w) tok \<and>
    (sent (snd (wl_svc w1)) \<noteq> sent (snd (wl_svc w)) \<longrightarrow>
      (\<forall>w2 v r3. wl_now w1 \<le> wl_now w2 \<longrightarrow>
         contents (fst (wl_svc w2)) (cache_entry k) = contents (fst (wl_svc w1)) (cache_entry k) \<longrightarrow>
         wl_now w2 + seconds 61 \<le> kt_expires_at tok \<longrightarrow>
         rd_get (kl_redis L) (wl_now w2) (cache_entry k) (fst (wl_svc w2)) = (Inr v, r3) \<longrightarrow>
         wl_now w2 + int (kl_lag L (r3, snd (wl_svc w2))) < kt_expires_at tok \<longrightarrow>
         get_access_token k w2 = (Inr tok, \<lparr>wl_now = wl_now w2 + int (kl_lag L (r3, snd (wl_svc w2))),
           wl_svc = (r3, snd (wl_svc w2))\<rparr>)))"
proof -
  from coordinator_configs [OF assms(2)] obtain provider lock cache cred where
    k: "k = coordinator L provider lock cache cred" and cfg: "lc_key_prefix lock = ''kis-lock''" "kc_key_prefix cache = ''kis-cache''"
      "xc_max_retries provider = 2" "xc_retry_delay provider = 100000" .
  let ?look = "\<lambda>n s. redis_look contents cache n (fst s)"
  have svc: "kis_services k ?look (\<lambda>_. kc_ttl_seconds cache) (\<lambda>s. sent (snd s))"
    unfolding k by (rule redis_server.coordinator_services [OF assms(1) refl cfg assms(3,4)])
  have pos: "fo_positive_micros (ke_floats k)" using assms(5) k by (simp add: coordinator_def)
  note out = kis_services.token_outcome [OF svc assms(6)]
  have us: "usable (wl_now w) tok" using out pos kis_services.stored_def [OF svc]
    by (auto intro: kis_services.usable_mono [OF svc])
  moreover have "get_access_token k w2 = (Inr tok, \<lparr>wl_now = wl_now w2 + int (kl_lag L (r3, snd (wl_svc w2))), wl_svc = (r3, snd (wl_svc w2))\<rparr>)"
    if a: "sent (snd (wl_svc w1)) \<noteq> sent (snd (wl_svc w))" "wl_now w1 \<le> wl_now w2"
      "contents (fst (wl_svc w2)) (cache_entry k) = contents (fst (wl_svc w1)) (cache_entry k)"
      "wl_now w2 + seconds 61 \<le> kt_expires_at tok"
      "rd_get (kl_redis L) (wl_now w2) (cache_entry k) (fst (wl_svc w2)) = (Inr v, r3)"
      "wl_now w2 + int (kl_lag L (r3, snd (wl_svc w2))) < kt_expires_at tok" for w2 v r3
  proof -
    have st: "kis_services.stored k ?look (wl_now w) w1 tok" using out a(1) by auto
    have lag: "ke_lag k = kl_lag L" using k by (simp add: coordinator_def)
    have same: "?look (wl_now w2) (wl_svc w2) (token_cache_key k) = ?look (wl_now w2) (wl_svc w1) (token_cache_key k)"
      using a(3) cfg by (simp add: redis_look_def spec_get_def live_def cache_entry_def)
    have "token_cache_key k \<noteq> []" by (simp add: token_cache_key_def)
    then have get: "kv_get (ke_cache k) (wl_now w2) (token_cache_key k) (wl_svc w2) = (Inr v, (r3, snd (wl_svc w2)))"
      using a(5) k cfg by (simp add: coordinator_def kv_fst_def on_fst_run kv_service_def redis_kv_def redis_kv_get_def
          kv_key_def cache_entry_def)
    from kis_services.stored_read [OF svc st pos a(2) same a(4) get] a(6) lag show ?thesis by simp
  qed
  ultimately show ?thesis using out by auto
qed

theorem token_reused_witness:
  "\<exists>tok w1 w2. get_access_token demo_env (demo_world [token_response]) = (Inr tok, w1) \<and>
     length (fx_requests (snd (wl_svc w1))) = 1 \<and> get_access_token demo_env w1 = (Inr tok, w2) \<and> kt_value tok = ''abc''"
proof -
  let ?p = "get_access_token demo_env (demo_world [token_response])"
  let ?tok = "\<lparr>kt_value = ''abc'', kt_token_type = ''Bearer'', kt_expires_at = 3600004000\<rparr>"
  have r: "fst ?p = Inr ?tok" by code_simp
  have n: "length (fx_requests (snd (wl_svc (snd ?p)))) = 1" "wl_now (snd ?p) = 6000" by code_simp+
  have g: "rd_get (kl_redis demo_libs) t j s = (Inr (spec_get t j s), s)" "kl_lag demo_libs x = 1000" for t j s x
    by (simp_all add: demo_libs_def mem_redis_def)
  from r have p: "?p = (Inr ?tok, snd ?p)" by (metis prod.collapse)
  have "length (fx_requests (snd (wl_svc (demo_world [token_response])))) = 0" by (simp add: demo_world_def)
  with token_reused [where sent = "\<lambda>s. length (fx_requests s)", OF demo_assumptions(1) demo_coordinator demo_assumptions(2-4) p] n g
  have "get_access_token demo_env (snd ?p) = (Inr ?tok, \<lparr>wl_now = wl_now (snd ?p) + 1000, wl_svc = wl_svc (snd ?p)\<rparr>)"
    by (simp add: seconds_def)
  with p n(1) show ?thesis by (metis KisAccessToken.select_convs(1))
qed

text \<open>
  C29: Waiting for the refresh of another replica ends. It sends nothing to the provider; it returns a
  token that has not expired, or raises \<open>KisTokenRefreshInProgress\<close> when the ten seconds are over, or
  passes on an error of the cache. If no call takes longer than \<open>M\<close>, it ends at most one polling round
  of \<open>0.1\<close> seconds and three calls after the deadline.
\<close>

theorem token_wait_ends:
  assumes "redis_server (kl_redis L) contents" and "coordinator_from_environment L env = Inr k"
    and "\<forall>q s r s'. kl_send L q s = (r, s') \<longrightarrow> sent s' = sent s + (1::nat)"
    and "\<forall>t. kl_fromisoformat L (kl_isoformat L t) = Inr (Some t)"
    and "\<forall>s. int (kl_lag L s) \<le> M"
  shows "\<exists>r w'. wait_for_refresh k w = (r, w') \<and> sent (snd (wl_svc w')) = sent (snd (wl_svc w)) \<and>
    wl_now w' \<le> wl_now w + seconds 10 + 100000 + 3 * M \<and>
    (case r of Inr tok \<Rightarrow> usable (wl_now w') tok
     | Inl e \<Rightarrow> e = KisTokenRefreshInProgress ''KIS token refresh is already in progress'' \<and> wl_now w + seconds 10 \<le> wl_now w' \<or>
         (\<exists>u u'. read_cached_token k u = (Inl e, u')))"
proof -
  from coordinator_configs [OF assms(2)] obtain provider lock cache cred where
    k: "k = coordinator L provider lock cache cred" and cfg: "lc_key_prefix lock = ''kis-lock''" "kc_key_prefix cache = ''kis-cache''"
      "xc_max_retries provider = 2" "xc_retry_delay provider = 100000" .
  have svc: "kis_services k (\<lambda>n s. redis_look contents cache n (fst s)) (\<lambda>_. kc_ttl_seconds cache) (\<lambda>s. sent (snd s))"
    unfolding k by (rule redis_server.coordinator_services [OF assms(1) refl cfg assms(3,4)])
  have to: "ke_wait_timeout k = seconds 10" "\<forall>s. int (ke_lag k s) \<le> M" using k assms(5) by (simp_all add: coordinator_def)
  have M: "0 \<le> M" using assms(5) by (meson of_nat_0_le_iff order_trans)
  obtain r w' where run: "wait_loop k (wl_now w + seconds 10) w = (r, w')" by fastforce
  note out = kis_services.wait_outcome [OF svc run] and bound = kis_services.wait_bound [OF svc to(2) M run]
  have "wl_now w' \<le> wl_now w + seconds 10 + 100000 + 3 * M"
    using bound M by (simp add: POLL_INTERVAL_def seconds_def)
  then show ?thesis using run out to(1) unfolding wait_for_refresh_def
    by (intro exI [of _ r] exI [of _ w']) (auto split: sum.splits)
qed

theorem token_wait_ends_witness:
  "\<exists>r w'. wait_for_refresh demo_env (demo_world []) = (r, w') \<and> length (fx_requests (snd (wl_svc w'))) = 0 \<and> wl_now w' \<le> 10103000"
proof -
  have lag: "\<forall>s. int (kl_lag demo_libs s) \<le> 1000" by (simp add: demo_libs_def)
  from token_wait_ends [where sent = "\<lambda>s. length (fx_requests s)" and w = "demo_world []",
      OF demo_assumptions(1) demo_coordinator demo_assumptions(2,3) lag]
  show ?thesis by (auto simp: demo_world_def seconds_def)
qed

end
