(* ===== verification/Repositories.thy ===== *)
theory Repositories
  imports Tables
begin

text \<open>
  The aggregates of the modules (\<open>modules/*/generated/models.py\<close>), their SQLAlchemy repositories
  (\<open>sqlalchemy_repositories.py\<close>) and the in-memory fakes (\<open>fake_repository.py\<close>). A repository
  copies the aggregate to a row and back column by column; \<open>find_by_id\<close> is \<open>session.get\<close> and
  \<open>save\<close> is \<open>session.merge\<close> on the table. Each repository interprets the contract
  \<open>repository\<close>, and each pair of database and fake repository \<open>repository_pair\<close>. Two of them
  can raise and are stated separately: saving a login account may violate the unique e-mail
  column, and loading a news article validates columns that are nullable in the table.
  The queries with an order and a limit return rows with equal sort keys in table order.
\<close>

section \<open>UserProfile\<close>

record UserProfile =
  up_user_id :: uuid
  up_investment_experience :: string
  up_risk_tolerance :: string
  up_investment_goal :: string
  up_monthly_budget :: pyfloat
  up_profile_completed :: bool

definition UserProfile_to_record :: "UserProfile \<Rightarrow> UserProfileRecord" where
  "UserProfile_to_record a =
     \<lparr>upr_user_id = up_user_id a,
       upr_investment_experience = up_investment_experience a,
       upr_risk_tolerance = up_risk_tolerance a,
       upr_investment_goal = up_investment_goal a,
       upr_monthly_budget = up_monthly_budget a,
       upr_profile_completed = up_profile_completed a\<rparr>"

definition UserProfile_of_record :: "UserProfileRecord \<Rightarrow> UserProfile" where
  "UserProfile_of_record r =
     \<lparr>up_user_id = upr_user_id r,
       up_investment_experience = upr_investment_experience r,
       up_risk_tolerance = upr_risk_tolerance r,
       up_investment_goal = upr_investment_goal r,
       up_monthly_budget = upr_monthly_budget r,
       up_profile_completed = upr_profile_completed r\<rparr>"

definition SQL_UserProfile_find_by_id :: "uuid \<Rightarrow> UserProfileRecord list \<Rightarrow> UserProfile option" where
  "SQL_UserProfile_find_by_id k t = map_option UserProfile_of_record (t_get upr_user_id k t)"

definition SQL_UserProfile_save :: "UserProfile \<Rightarrow> UserProfileRecord list \<Rightarrow> UserProfileRecord list" where
  "SQL_UserProfile_save a t = t_merge upr_user_id (UserProfile_to_record a) t"

definition Fake_UserProfile_find_by_id :: "uuid \<Rightarrow> (uuid, UserProfile) dict \<Rightarrow> UserProfile option" where
  "Fake_UserProfile_find_by_id k items = dict_get items k"

definition Fake_UserProfile_save :: "UserProfile \<Rightarrow> (uuid, UserProfile) dict \<Rightarrow> (uuid, UserProfile) dict" where
  "Fake_UserProfile_save a items = dict_set (up_user_id a) a items"

section \<open>BrokerageAccountConnection\<close>

record BrokerageAccountConnection =
  bc_connection_id :: uuid
  bc_user_id :: uuid
  bc_provider :: string
  bc_environment :: string
  bc_display_name :: string
  bc_account_mask :: string
  bc_credential_ref :: string
  bc_status :: string
  bc_created_at :: time
  bc_updated_at :: time

definition BrokerageAccountConnection_to_record :: "BrokerageAccountConnection \<Rightarrow> BrokerageAccountConnectionRecord" where
  "BrokerageAccountConnection_to_record a =
     \<lparr>bcr_connection_id = bc_connection_id a,
       bcr_user_id = bc_user_id a,
       bcr_provider = bc_provider a,
       bcr_environment = bc_environment a,
       bcr_display_name = bc_display_name a,
       bcr_account_mask = bc_account_mask a,
       bcr_credential_ref = bc_credential_ref a,
       bcr_status = bc_status a,
       bcr_created_at = bc_created_at a,
       bcr_updated_at = bc_updated_at a\<rparr>"

definition BrokerageAccountConnection_of_record :: "BrokerageAccountConnectionRecord \<Rightarrow> BrokerageAccountConnection" where
  "BrokerageAccountConnection_of_record r =
     \<lparr>bc_connection_id = bcr_connection_id r,
       bc_user_id = bcr_user_id r,
       bc_provider = bcr_provider r,
       bc_environment = bcr_environment r,
       bc_display_name = bcr_display_name r,
       bc_account_mask = bcr_account_mask r,
       bc_credential_ref = bcr_credential_ref r,
       bc_status = bcr_status r,
       bc_created_at = bcr_created_at r,
       bc_updated_at = bcr_updated_at r\<rparr>"

definition SQL_BrokerageAccountConnection_find_by_id :: "uuid \<Rightarrow> BrokerageAccountConnectionRecord list \<Rightarrow> BrokerageAccountConnection option" where
  "SQL_BrokerageAccountConnection_find_by_id k t = map_option BrokerageAccountConnection_of_record (t_get bcr_connection_id k t)"

definition SQL_BrokerageAccountConnection_save :: "BrokerageAccountConnection \<Rightarrow> BrokerageAccountConnectionRecord list \<Rightarrow> BrokerageAccountConnectionRecord list" where
  "SQL_BrokerageAccountConnection_save a t = t_merge bcr_connection_id (BrokerageAccountConnection_to_record a) t"

definition Fake_BrokerageAccountConnection_find_by_id :: "uuid \<Rightarrow> (uuid, BrokerageAccountConnection) dict \<Rightarrow> BrokerageAccountConnection option" where
  "Fake_BrokerageAccountConnection_find_by_id k items = dict_get items k"

definition Fake_BrokerageAccountConnection_save :: "BrokerageAccountConnection \<Rightarrow> (uuid, BrokerageAccountConnection) dict \<Rightarrow> (uuid, BrokerageAccountConnection) dict" where
  "Fake_BrokerageAccountConnection_save a items = dict_set (bc_connection_id a) a items"

section \<open>LoginAccount\<close>

record LoginAccount =
  la_user_id :: uuid
  la_email :: string
  la_password_hash :: string
  la_is_active :: bool
  la_access_level :: string
  la_shard_id :: string
  la_created_at :: time

definition LoginAccount_to_record :: "LoginAccount \<Rightarrow> LoginAccountRecord" where
  "LoginAccount_to_record a =
     \<lparr>lar_user_id = la_user_id a,
       lar_email = la_email a,
       lar_password_hash = la_password_hash a,
       lar_is_active = la_is_active a,
       lar_access_level = la_access_level a,
       lar_shard_id = la_shard_id a,
       lar_created_at = la_created_at a\<rparr>"

definition LoginAccount_of_record :: "LoginAccountRecord \<Rightarrow> LoginAccount" where
  "LoginAccount_of_record r =
     \<lparr>la_user_id = lar_user_id r,
       la_email = lar_email r,
       la_password_hash = lar_password_hash r,
       la_is_active = lar_is_active r,
       la_access_level = lar_access_level r,
       la_shard_id = lar_shard_id r,
       la_created_at = lar_created_at r\<rparr>"

definition SQL_LoginAccount_find_by_id :: "uuid \<Rightarrow> LoginAccountRecord list \<Rightarrow> LoginAccount option" where
  "SQL_LoginAccount_find_by_id k t = map_option LoginAccount_of_record (t_get lar_user_id k t)"

text \<open>\<open>merge\<close> of a row whose e-mail address another row has violates the unique constraint.\<close>

definition SQL_LoginAccount_save ::
  "LoginAccount \<Rightarrow> LoginAccountRecord list \<Rightarrow> LoginAccountRecord list result" where
  "SQL_LoginAccount_save a t =
     (if \<exists>r\<in>set t. lar_email r = la_email a \<and> lar_user_id r \<noteq> la_user_id a then Inl SQLAlchemyError
      else Inr (t_merge lar_user_id (LoginAccount_to_record a) t))"

definition SQL_LoginAccount_find_by_email ::
  "string \<Rightarrow> LoginAccountRecord list \<Rightarrow> LoginAccount option" where
  "SQL_LoginAccount_find_by_email e t = map_option LoginAccount_of_record (t_get lar_email e t)"

definition Fake_LoginAccount_find_by_email :: "string \<Rightarrow> (uuid, LoginAccount) dict \<Rightarrow> LoginAccount option" where
  "Fake_LoginAccount_find_by_email e items = find (\<lambda>a. la_email a = e) (map snd items)"

definition Fake_LoginAccount_find_by_id :: "uuid \<Rightarrow> (uuid, LoginAccount) dict \<Rightarrow> LoginAccount option" where
  "Fake_LoginAccount_find_by_id k items = dict_get items k"

definition Fake_LoginAccount_save :: "LoginAccount \<Rightarrow> (uuid, LoginAccount) dict \<Rightarrow> (uuid, LoginAccount) dict" where
  "Fake_LoginAccount_save a items = dict_set (la_user_id a) a items"

section \<open>AccessLevelAudit\<close>

record AccessLevelAudit =
  aa_audit_id :: uuid
  aa_subject_user_id :: uuid
  aa_actor :: string
  aa_previous_access_level :: string
  aa_new_access_level :: string
  aa_changed_at :: time

definition AccessLevelAudit_to_record :: "AccessLevelAudit \<Rightarrow> AccessLevelAuditRecord" where
  "AccessLevelAudit_to_record a =
     \<lparr>aar_audit_id = aa_audit_id a,
       aar_subject_user_id = aa_subject_user_id a,
       aar_actor = aa_actor a,
       aar_previous_access_level = aa_previous_access_level a,
       aar_new_access_level = aa_new_access_level a,
       aar_changed_at = aa_changed_at a\<rparr>"

definition AccessLevelAudit_of_record :: "AccessLevelAuditRecord \<Rightarrow> AccessLevelAudit" where
  "AccessLevelAudit_of_record r =
     \<lparr>aa_audit_id = aar_audit_id r,
       aa_subject_user_id = aar_subject_user_id r,
       aa_actor = aar_actor r,
       aa_previous_access_level = aar_previous_access_level r,
       aa_new_access_level = aar_new_access_level r,
       aa_changed_at = aar_changed_at r\<rparr>"

definition SQL_AccessLevelAudit_find_by_id :: "uuid \<Rightarrow> AccessLevelAuditRecord list \<Rightarrow> AccessLevelAudit option" where
  "SQL_AccessLevelAudit_find_by_id k t = map_option AccessLevelAudit_of_record (t_get aar_audit_id k t)"

definition SQL_AccessLevelAudit_save :: "AccessLevelAudit \<Rightarrow> AccessLevelAuditRecord list \<Rightarrow> AccessLevelAuditRecord list" where
  "SQL_AccessLevelAudit_save a t = t_merge aar_audit_id (AccessLevelAudit_to_record a) t"

definition Fake_AccessLevelAudit_find_by_id :: "uuid \<Rightarrow> (uuid, AccessLevelAudit) dict \<Rightarrow> AccessLevelAudit option" where
  "Fake_AccessLevelAudit_find_by_id k items = dict_get items k"

definition Fake_AccessLevelAudit_save :: "AccessLevelAudit \<Rightarrow> (uuid, AccessLevelAudit) dict \<Rightarrow> (uuid, AccessLevelAudit) dict" where
  "Fake_AccessLevelAudit_save a items = dict_set (aa_audit_id a) a items"

section \<open>MarketPriceSnapshot\<close>

record MarketPriceSnapshot =
  mp_snapshot_id :: uuid
  mp_stock_code :: string
  mp_current_price :: string
  mp_observed_at :: time

definition MarketPriceSnapshot_to_record :: "MarketPriceSnapshot \<Rightarrow> MarketPriceSnapshotRecord" where
  "MarketPriceSnapshot_to_record a =
     \<lparr>mpr_snapshot_id = mp_snapshot_id a,
       mpr_stock_code = mp_stock_code a,
       mpr_current_price = mp_current_price a,
       mpr_observed_at = mp_observed_at a\<rparr>"

definition MarketPriceSnapshot_of_record :: "MarketPriceSnapshotRecord \<Rightarrow> MarketPriceSnapshot" where
  "MarketPriceSnapshot_of_record r =
     \<lparr>mp_snapshot_id = mpr_snapshot_id r,
       mp_stock_code = mpr_stock_code r,
       mp_current_price = mpr_current_price r,
       mp_observed_at = mpr_observed_at r\<rparr>"

definition SQL_MarketPriceSnapshot_find_by_id :: "uuid \<Rightarrow> MarketPriceSnapshotRecord list \<Rightarrow> MarketPriceSnapshot option" where
  "SQL_MarketPriceSnapshot_find_by_id k t = map_option MarketPriceSnapshot_of_record (t_get mpr_snapshot_id k t)"

definition SQL_MarketPriceSnapshot_save :: "MarketPriceSnapshot \<Rightarrow> MarketPriceSnapshotRecord list \<Rightarrow> MarketPriceSnapshotRecord list" where
  "SQL_MarketPriceSnapshot_save a t = t_merge mpr_snapshot_id (MarketPriceSnapshot_to_record a) t"

definition Fake_MarketPriceSnapshot_find_by_id :: "uuid \<Rightarrow> (uuid, MarketPriceSnapshot) dict \<Rightarrow> MarketPriceSnapshot option" where
  "Fake_MarketPriceSnapshot_find_by_id k items = dict_get items k"

definition Fake_MarketPriceSnapshot_save :: "MarketPriceSnapshot \<Rightarrow> (uuid, MarketPriceSnapshot) dict \<Rightarrow> (uuid, MarketPriceSnapshot) dict" where
  "Fake_MarketPriceSnapshot_save a items = dict_set (mp_snapshot_id a) a items"

section \<open>DomesticDailyCandle\<close>

record DomesticDailyCandle =
  dc_candle_id :: uuid
  dc_stock_code :: string
  dc_trading_date :: string
  dc_open_price :: string
  dc_high_price :: string
  dc_low_price :: string
  dc_close_price :: string
  dc_volume :: int

definition DomesticDailyCandle_to_record :: "DomesticDailyCandle \<Rightarrow> DomesticDailyCandleRecord" where
  "DomesticDailyCandle_to_record a =
     \<lparr>dcr_candle_id = dc_candle_id a,
       dcr_stock_code = dc_stock_code a,
       dcr_trading_date = dc_trading_date a,
       dcr_open_price = dc_open_price a,
       dcr_high_price = dc_high_price a,
       dcr_low_price = dc_low_price a,
       dcr_close_price = dc_close_price a,
       dcr_volume = dc_volume a\<rparr>"

definition DomesticDailyCandle_of_record :: "DomesticDailyCandleRecord \<Rightarrow> DomesticDailyCandle" where
  "DomesticDailyCandle_of_record r =
     \<lparr>dc_candle_id = dcr_candle_id r,
       dc_stock_code = dcr_stock_code r,
       dc_trading_date = dcr_trading_date r,
       dc_open_price = dcr_open_price r,
       dc_high_price = dcr_high_price r,
       dc_low_price = dcr_low_price r,
       dc_close_price = dcr_close_price r,
       dc_volume = dcr_volume r\<rparr>"

definition SQL_DomesticDailyCandle_find_by_id :: "uuid \<Rightarrow> DomesticDailyCandleRecord list \<Rightarrow> DomesticDailyCandle option" where
  "SQL_DomesticDailyCandle_find_by_id k t = map_option DomesticDailyCandle_of_record (t_get dcr_candle_id k t)"

definition SQL_DomesticDailyCandle_save :: "DomesticDailyCandle \<Rightarrow> DomesticDailyCandleRecord list \<Rightarrow> DomesticDailyCandleRecord list" where
  "SQL_DomesticDailyCandle_save a t = t_merge dcr_candle_id (DomesticDailyCandle_to_record a) t"

definition Fake_DomesticDailyCandle_find_by_id :: "uuid \<Rightarrow> (uuid, DomesticDailyCandle) dict \<Rightarrow> DomesticDailyCandle option" where
  "Fake_DomesticDailyCandle_find_by_id k items = dict_get items k"

definition Fake_DomesticDailyCandle_save :: "DomesticDailyCandle \<Rightarrow> (uuid, DomesticDailyCandle) dict \<Rightarrow> (uuid, DomesticDailyCandle) dict" where
  "Fake_DomesticDailyCandle_save a items = dict_set (dc_candle_id a) a items"

definition SQL_DomesticDailyCandle_list_by_stock_code :: "string \<Rightarrow> DomesticDailyCandleRecord list \<Rightarrow> DomesticDailyCandle list" where
  "SQL_DomesticDailyCandle_list_by_stock_code k t = map DomesticDailyCandle_of_record
     (take 100 (sorted_by_desc dcr_trading_date (filter (\<lambda>r. dcr_stock_code r = k) t)))"

definition Fake_DomesticDailyCandle_list_by_stock_code :: "string \<Rightarrow> (uuid, DomesticDailyCandle) dict \<Rightarrow> DomesticDailyCandle list" where
  "Fake_DomesticDailyCandle_list_by_stock_code k items = take 100 (sorted_by_desc dc_trading_date (filter (\<lambda>a. dc_stock_code a = k) (map snd items)))"

section \<open>NewsArticle\<close>

record NewsArticle =
  na_source_key :: string
  na_source_url :: string
  na_provider :: string
  na_title :: string
  na_content :: "string option"
  na_symbol :: string
  na_published_at :: time
  na_publisher :: string
  na_collected_at :: time

definition NewsArticle_to_record :: "NewsArticle \<Rightarrow> NewsArticleRecord" where
  "NewsArticle_to_record a =
     \<lparr>nar_source_key = na_source_key a,
       nar_source_url = na_source_url a,
       nar_provider = na_provider a,
       nar_title = na_title a,
       nar_content = na_content a,
       nar_symbol = na_symbol a,
       nar_published_at = Some (na_published_at a),
       nar_publisher = Some (na_publisher a),
       nar_collected_at = na_collected_at a\<rparr>"

text \<open>The columns \<open>published_at\<close> and \<open>publisher\<close> are nullable, the model fields are not: the
  constructor raises a validation error (a \<open>ValueError\<close>) on a row that lacks one of them.\<close>

definition NewsArticle_of_record :: "NewsArticleRecord \<Rightarrow> NewsArticle result" where
  "NewsArticle_of_record r = (case (nar_published_at r, nar_publisher r) of
     (Some pub, Some who) \<Rightarrow> Inr
      \<lparr>na_source_key = nar_source_key r,
       na_source_url = nar_source_url r,
       na_provider = nar_provider r,
       na_title = nar_title r,
       na_content = nar_content r,
       na_symbol = nar_symbol r,
       na_published_at = pub,
       na_publisher = who,
       na_collected_at = nar_collected_at r\<rparr>
   | _ \<Rightarrow> Inl (ValueError ''NewsArticle''))"

definition SQL_NewsArticle_find_by_id :: "string \<Rightarrow> NewsArticleRecord list \<Rightarrow> NewsArticle option result" where
  "SQL_NewsArticle_find_by_id k t = (case t_get nar_source_key k t of None \<Rightarrow> Inr None
     | Some r \<Rightarrow> bindE (NewsArticle_of_record r) (\<lambda>a. Inr (Some a)))"

definition SQL_NewsArticle_save :: "NewsArticle \<Rightarrow> NewsArticleRecord list \<Rightarrow> NewsArticleRecord list" where
  "SQL_NewsArticle_save a t = t_merge nar_source_key (NewsArticle_to_record a) t"

definition Fake_NewsArticle_find_by_id :: "string \<Rightarrow> (string, NewsArticle) dict \<Rightarrow> NewsArticle option" where
  "Fake_NewsArticle_find_by_id k items = dict_get items k"

definition Fake_NewsArticle_save :: "NewsArticle \<Rightarrow> (string, NewsArticle) dict \<Rightarrow> (string, NewsArticle) dict" where
  "Fake_NewsArticle_save a items = dict_set (na_source_key a) a items"

section \<open>InAppNotification\<close>

record InAppNotification =
  no_notification_id :: uuid
  no_delivery_intent_id :: uuid
  no_user_id :: uuid
  no_signal_id :: uuid
  no_stock_code :: string
  no_created_at :: time
  no_read_at :: "time option"

definition InAppNotification_to_record :: "InAppNotification \<Rightarrow> InAppNotificationRecord" where
  "InAppNotification_to_record a =
     \<lparr>nor_notification_id = no_notification_id a,
       nor_delivery_intent_id = no_delivery_intent_id a,
       nor_user_id = no_user_id a,
       nor_signal_id = no_signal_id a,
       nor_stock_code = no_stock_code a,
       nor_created_at = no_created_at a,
       nor_read_at = no_read_at a\<rparr>"

definition InAppNotification_of_record :: "InAppNotificationRecord \<Rightarrow> InAppNotification" where
  "InAppNotification_of_record r =
     \<lparr>no_notification_id = nor_notification_id r,
       no_delivery_intent_id = nor_delivery_intent_id r,
       no_user_id = nor_user_id r,
       no_signal_id = nor_signal_id r,
       no_stock_code = nor_stock_code r,
       no_created_at = nor_created_at r,
       no_read_at = nor_read_at r\<rparr>"

definition SQL_InAppNotification_find_by_id :: "uuid \<Rightarrow> InAppNotificationRecord list \<Rightarrow> InAppNotification option" where
  "SQL_InAppNotification_find_by_id k t = map_option InAppNotification_of_record (t_get nor_notification_id k t)"

definition SQL_InAppNotification_save :: "InAppNotification \<Rightarrow> InAppNotificationRecord list \<Rightarrow> InAppNotificationRecord list" where
  "SQL_InAppNotification_save a t = t_merge nor_notification_id (InAppNotification_to_record a) t"

definition Fake_InAppNotification_find_by_id :: "uuid \<Rightarrow> (uuid, InAppNotification) dict \<Rightarrow> InAppNotification option" where
  "Fake_InAppNotification_find_by_id k items = dict_get items k"

definition Fake_InAppNotification_save :: "InAppNotification \<Rightarrow> (uuid, InAppNotification) dict \<Rightarrow> (uuid, InAppNotification) dict" where
  "Fake_InAppNotification_save a items = dict_set (no_notification_id a) a items"

definition SQL_InAppNotification_list_by_user_id :: "uuid \<Rightarrow> InAppNotificationRecord list \<Rightarrow> InAppNotification list" where
  "SQL_InAppNotification_list_by_user_id k t = map InAppNotification_of_record
     (take 100 (sorted_by_desc nor_created_at (filter (\<lambda>r. nor_user_id r = k) t)))"

definition Fake_InAppNotification_list_by_user_id :: "uuid \<Rightarrow> (uuid, InAppNotification) dict \<Rightarrow> InAppNotification list" where
  "Fake_InAppNotification_list_by_user_id k items = take 100 (sorted_by_desc no_created_at (filter (\<lambda>a. no_user_id a = k) (map snd items)))"

section \<open>PortfolioSnapshot\<close>

record PortfolioSnapshot =
  ps_snapshot_id :: uuid
  ps_connection_id :: uuid
  ps_user_id :: uuid
  ps_captured_at :: time
  ps_position_count :: int

definition PortfolioSnapshot_to_record :: "PortfolioSnapshot \<Rightarrow> PortfolioSnapshotRecord" where
  "PortfolioSnapshot_to_record a =
     \<lparr>psr_snapshot_id = ps_snapshot_id a,
       psr_connection_id = ps_connection_id a,
       psr_user_id = ps_user_id a,
       psr_captured_at = ps_captured_at a,
       psr_position_count = ps_position_count a\<rparr>"

definition PortfolioSnapshot_of_record :: "PortfolioSnapshotRecord \<Rightarrow> PortfolioSnapshot" where
  "PortfolioSnapshot_of_record r =
     \<lparr>ps_snapshot_id = psr_snapshot_id r,
       ps_connection_id = psr_connection_id r,
       ps_user_id = psr_user_id r,
       ps_captured_at = psr_captured_at r,
       ps_position_count = psr_position_count r\<rparr>"

definition SQL_PortfolioSnapshot_find_by_id :: "uuid \<Rightarrow> PortfolioSnapshotRecord list \<Rightarrow> PortfolioSnapshot option" where
  "SQL_PortfolioSnapshot_find_by_id k t = map_option PortfolioSnapshot_of_record (t_get psr_snapshot_id k t)"

definition SQL_PortfolioSnapshot_save :: "PortfolioSnapshot \<Rightarrow> PortfolioSnapshotRecord list \<Rightarrow> PortfolioSnapshotRecord list" where
  "SQL_PortfolioSnapshot_save a t = t_merge psr_snapshot_id (PortfolioSnapshot_to_record a) t"

definition Fake_PortfolioSnapshot_find_by_id :: "uuid \<Rightarrow> (uuid, PortfolioSnapshot) dict \<Rightarrow> PortfolioSnapshot option" where
  "Fake_PortfolioSnapshot_find_by_id k items = dict_get items k"

definition Fake_PortfolioSnapshot_save :: "PortfolioSnapshot \<Rightarrow> (uuid, PortfolioSnapshot) dict \<Rightarrow> (uuid, PortfolioSnapshot) dict" where
  "Fake_PortfolioSnapshot_save a items = dict_set (ps_snapshot_id a) a items"

section \<open>PortfolioPositionSnapshot\<close>

record PortfolioPositionSnapshot =
  pp_position_id :: uuid
  pp_snapshot_id :: uuid
  pp_user_id :: uuid
  pp_stock_code :: string
  pp_product_name :: string
  pp_holding_quantity :: string
  pp_orderable_quantity :: string
  pp_current_price :: string

definition PortfolioPositionSnapshot_to_record :: "PortfolioPositionSnapshot \<Rightarrow> PortfolioPositionSnapshotRecord" where
  "PortfolioPositionSnapshot_to_record a =
     \<lparr>ppr_position_id = pp_position_id a,
       ppr_snapshot_id = pp_snapshot_id a,
       ppr_user_id = pp_user_id a,
       ppr_stock_code = pp_stock_code a,
       ppr_product_name = pp_product_name a,
       ppr_holding_quantity = pp_holding_quantity a,
       ppr_orderable_quantity = pp_orderable_quantity a,
       ppr_current_price = pp_current_price a\<rparr>"

definition PortfolioPositionSnapshot_of_record :: "PortfolioPositionSnapshotRecord \<Rightarrow> PortfolioPositionSnapshot" where
  "PortfolioPositionSnapshot_of_record r =
     \<lparr>pp_position_id = ppr_position_id r,
       pp_snapshot_id = ppr_snapshot_id r,
       pp_user_id = ppr_user_id r,
       pp_stock_code = ppr_stock_code r,
       pp_product_name = ppr_product_name r,
       pp_holding_quantity = ppr_holding_quantity r,
       pp_orderable_quantity = ppr_orderable_quantity r,
       pp_current_price = ppr_current_price r\<rparr>"

definition SQL_PortfolioPositionSnapshot_find_by_id :: "uuid \<Rightarrow> PortfolioPositionSnapshotRecord list \<Rightarrow> PortfolioPositionSnapshot option" where
  "SQL_PortfolioPositionSnapshot_find_by_id k t = map_option PortfolioPositionSnapshot_of_record (t_get ppr_position_id k t)"

definition SQL_PortfolioPositionSnapshot_save :: "PortfolioPositionSnapshot \<Rightarrow> PortfolioPositionSnapshotRecord list \<Rightarrow> PortfolioPositionSnapshotRecord list" where
  "SQL_PortfolioPositionSnapshot_save a t = t_merge ppr_position_id (PortfolioPositionSnapshot_to_record a) t"

definition Fake_PortfolioPositionSnapshot_find_by_id :: "uuid \<Rightarrow> (uuid, PortfolioPositionSnapshot) dict \<Rightarrow> PortfolioPositionSnapshot option" where
  "Fake_PortfolioPositionSnapshot_find_by_id k items = dict_get items k"

definition Fake_PortfolioPositionSnapshot_save :: "PortfolioPositionSnapshot \<Rightarrow> (uuid, PortfolioPositionSnapshot) dict \<Rightarrow> (uuid, PortfolioPositionSnapshot) dict" where
  "Fake_PortfolioPositionSnapshot_save a items = dict_set (pp_position_id a) a items"

definition SQL_PortfolioPositionSnapshot_list_by_snapshot_id :: "uuid \<Rightarrow> PortfolioPositionSnapshotRecord list \<Rightarrow> PortfolioPositionSnapshot list" where
  "SQL_PortfolioPositionSnapshot_list_by_snapshot_id k t = map PortfolioPositionSnapshot_of_record
     (take 1000 (sorted_by ppr_stock_code (filter (\<lambda>r. ppr_snapshot_id r = k) t)))"

definition Fake_PortfolioPositionSnapshot_list_by_snapshot_id :: "uuid \<Rightarrow> (uuid, PortfolioPositionSnapshot) dict \<Rightarrow> PortfolioPositionSnapshot list" where
  "Fake_PortfolioPositionSnapshot_list_by_snapshot_id k items = take 1000 (sorted_by pp_stock_code (filter (\<lambda>a. pp_snapshot_id a = k) (map snd items)))"

section \<open>SignalEvent\<close>

record SignalEvent =
  se_signal_id :: uuid
  se_stock_code :: string
  se_direction :: string
  se_price :: string
  se_confidence :: pyfloat
  se_observed_at :: time
  se_expires_at :: "time option"

definition SignalEvent_to_record :: "SignalEvent \<Rightarrow> SignalEventRecord" where
  "SignalEvent_to_record a =
     \<lparr>ser_signal_id = se_signal_id a,
       ser_stock_code = se_stock_code a,
       ser_direction = se_direction a,
       ser_price = se_price a,
       ser_confidence = se_confidence a,
       ser_observed_at = se_observed_at a,
       ser_expires_at = se_expires_at a\<rparr>"

definition SignalEvent_of_record :: "SignalEventRecord \<Rightarrow> SignalEvent" where
  "SignalEvent_of_record r =
     \<lparr>se_signal_id = ser_signal_id r,
       se_stock_code = ser_stock_code r,
       se_direction = ser_direction r,
       se_price = ser_price r,
       se_confidence = ser_confidence r,
       se_observed_at = ser_observed_at r,
       se_expires_at = ser_expires_at r\<rparr>"

definition SQL_SignalEvent_find_by_id :: "uuid \<Rightarrow> SignalEventRecord list \<Rightarrow> SignalEvent option" where
  "SQL_SignalEvent_find_by_id k t = map_option SignalEvent_of_record (t_get ser_signal_id k t)"

definition SQL_SignalEvent_save :: "SignalEvent \<Rightarrow> SignalEventRecord list \<Rightarrow> SignalEventRecord list" where
  "SQL_SignalEvent_save a t = t_merge ser_signal_id (SignalEvent_to_record a) t"

definition Fake_SignalEvent_find_by_id :: "uuid \<Rightarrow> (uuid, SignalEvent) dict \<Rightarrow> SignalEvent option" where
  "Fake_SignalEvent_find_by_id k items = dict_get items k"

definition Fake_SignalEvent_save :: "SignalEvent \<Rightarrow> (uuid, SignalEvent) dict \<Rightarrow> (uuid, SignalEvent) dict" where
  "Fake_SignalEvent_save a items = dict_set (se_signal_id a) a items"

section \<open>SignalDeliveryIntent\<close>

record SignalDeliveryIntent =
  si_intent_id :: uuid
  si_signal_id :: uuid
  si_subscription_id :: uuid
  si_user_id :: uuid
  si_shard_id :: string
  si_stock_code :: string
  si_expires_at :: time
  si_status :: string

definition SignalDeliveryIntent_to_record :: "SignalDeliveryIntent \<Rightarrow> SignalDeliveryIntentRecord" where
  "SignalDeliveryIntent_to_record a =
     \<lparr>sir_intent_id = si_intent_id a,
       sir_signal_id = si_signal_id a,
       sir_subscription_id = si_subscription_id a,
       sir_user_id = si_user_id a,
       sir_shard_id = si_shard_id a,
       sir_stock_code = si_stock_code a,
       sir_expires_at = si_expires_at a,
       sir_status = si_status a\<rparr>"

definition SignalDeliveryIntent_of_record :: "SignalDeliveryIntentRecord \<Rightarrow> SignalDeliveryIntent" where
  "SignalDeliveryIntent_of_record r =
     \<lparr>si_intent_id = sir_intent_id r,
       si_signal_id = sir_signal_id r,
       si_subscription_id = sir_subscription_id r,
       si_user_id = sir_user_id r,
       si_shard_id = sir_shard_id r,
       si_stock_code = sir_stock_code r,
       si_expires_at = sir_expires_at r,
       si_status = sir_status r\<rparr>"

definition SQL_SignalDeliveryIntent_find_by_id :: "uuid \<Rightarrow> SignalDeliveryIntentRecord list \<Rightarrow> SignalDeliveryIntent option" where
  "SQL_SignalDeliveryIntent_find_by_id k t = map_option SignalDeliveryIntent_of_record (t_get sir_intent_id k t)"

definition SQL_SignalDeliveryIntent_save :: "SignalDeliveryIntent \<Rightarrow> SignalDeliveryIntentRecord list \<Rightarrow> SignalDeliveryIntentRecord list" where
  "SQL_SignalDeliveryIntent_save a t = t_merge sir_intent_id (SignalDeliveryIntent_to_record a) t"

definition Fake_SignalDeliveryIntent_find_by_id :: "uuid \<Rightarrow> (uuid, SignalDeliveryIntent) dict \<Rightarrow> SignalDeliveryIntent option" where
  "Fake_SignalDeliveryIntent_find_by_id k items = dict_get items k"

definition Fake_SignalDeliveryIntent_save :: "SignalDeliveryIntent \<Rightarrow> (uuid, SignalDeliveryIntent) dict \<Rightarrow> (uuid, SignalDeliveryIntent) dict" where
  "Fake_SignalDeliveryIntent_save a items = dict_set (si_intent_id a) a items"

section \<open>SignalSubscription\<close>

record SignalSubscription =
  su_subscription_id :: uuid
  su_user_id :: uuid
  su_stock_code :: string
  su_enabled :: bool
  su_revision :: int

definition SignalSubscription_to_record :: "SignalSubscription \<Rightarrow> SignalSubscriptionRecord" where
  "SignalSubscription_to_record a =
     \<lparr>sur_subscription_id = su_subscription_id a,
       sur_user_id = su_user_id a,
       sur_stock_code = su_stock_code a,
       sur_enabled = su_enabled a,
       sur_revision = su_revision a\<rparr>"

definition SignalSubscription_of_record :: "SignalSubscriptionRecord \<Rightarrow> SignalSubscription" where
  "SignalSubscription_of_record r =
     \<lparr>su_subscription_id = sur_subscription_id r,
       su_user_id = sur_user_id r,
       su_stock_code = sur_stock_code r,
       su_enabled = sur_enabled r,
       su_revision = sur_revision r\<rparr>"

definition SQL_SignalSubscription_find_by_id :: "uuid \<Rightarrow> SignalSubscriptionRecord list \<Rightarrow> SignalSubscription option" where
  "SQL_SignalSubscription_find_by_id k t = map_option SignalSubscription_of_record (t_get sur_subscription_id k t)"

definition SQL_SignalSubscription_save :: "SignalSubscription \<Rightarrow> SignalSubscriptionRecord list \<Rightarrow> SignalSubscriptionRecord list" where
  "SQL_SignalSubscription_save a t = t_merge sur_subscription_id (SignalSubscription_to_record a) t"

definition Fake_SignalSubscription_find_by_id :: "uuid \<Rightarrow> (uuid, SignalSubscription) dict \<Rightarrow> SignalSubscription option" where
  "Fake_SignalSubscription_find_by_id k items = dict_get items k"

definition Fake_SignalSubscription_save :: "SignalSubscription \<Rightarrow> (uuid, SignalSubscription) dict \<Rightarrow> (uuid, SignalSubscription) dict" where
  "Fake_SignalSubscription_save a items = dict_set (su_subscription_id a) a items"

section \<open>SignalSubscriptionProjection\<close>

record SignalSubscriptionProjection =
  sj_subscription_id :: uuid
  sj_user_id :: uuid
  sj_shard_id :: string
  sj_stock_code :: string
  sj_enabled :: bool
  sj_revision :: int

definition SignalSubscriptionProjection_to_record :: "SignalSubscriptionProjection \<Rightarrow> SignalSubscriptionProjectionRecord" where
  "SignalSubscriptionProjection_to_record a =
     \<lparr>sjr_subscription_id = sj_subscription_id a,
       sjr_user_id = sj_user_id a,
       sjr_shard_id = sj_shard_id a,
       sjr_stock_code = sj_stock_code a,
       sjr_enabled = sj_enabled a,
       sjr_revision = sj_revision a\<rparr>"

definition SignalSubscriptionProjection_of_record :: "SignalSubscriptionProjectionRecord \<Rightarrow> SignalSubscriptionProjection" where
  "SignalSubscriptionProjection_of_record r =
     \<lparr>sj_subscription_id = sjr_subscription_id r,
       sj_user_id = sjr_user_id r,
       sj_shard_id = sjr_shard_id r,
       sj_stock_code = sjr_stock_code r,
       sj_enabled = sjr_enabled r,
       sj_revision = sjr_revision r\<rparr>"

definition SQL_SignalSubscriptionProjection_find_by_id :: "uuid \<Rightarrow> SignalSubscriptionProjectionRecord list \<Rightarrow> SignalSubscriptionProjection option" where
  "SQL_SignalSubscriptionProjection_find_by_id k t = map_option SignalSubscriptionProjection_of_record (t_get sjr_subscription_id k t)"

definition SQL_SignalSubscriptionProjection_save :: "SignalSubscriptionProjection \<Rightarrow> SignalSubscriptionProjectionRecord list \<Rightarrow> SignalSubscriptionProjectionRecord list" where
  "SQL_SignalSubscriptionProjection_save a t = t_merge sjr_subscription_id (SignalSubscriptionProjection_to_record a) t"

definition Fake_SignalSubscriptionProjection_find_by_id :: "uuid \<Rightarrow> (uuid, SignalSubscriptionProjection) dict \<Rightarrow> SignalSubscriptionProjection option" where
  "Fake_SignalSubscriptionProjection_find_by_id k items = dict_get items k"

definition Fake_SignalSubscriptionProjection_save :: "SignalSubscriptionProjection \<Rightarrow> (uuid, SignalSubscriptionProjection) dict \<Rightarrow> (uuid, SignalSubscriptionProjection) dict" where
  "Fake_SignalSubscriptionProjection_save a items = dict_set (sj_subscription_id a) a items"

section \<open>The contracts hold\<close>

text \<open>A fake keeps each aggregate under its own key.\<close>

definition fake_wf :: "('a \<Rightarrow> 'k) \<Rightarrow> ('k, 'a) dict \<Rightarrow> bool" where
  "fake_wf key items \<longleftrightarrow> list_all (\<lambda>(k, a). key a = k) items"

lemma fake_wf_set: "fake_wf key items \<Longrightarrow> fake_wf key (dict_set (key a) a items)"
  unfolding fake_wf_def by (induction items) auto

lemma fake_wf_get: "fake_wf key items \<Longrightarrow> dict_get items k = Some a \<Longrightarrow> key a = k"
  by (auto simp: fake_wf_def dict_get_def list_all_iff dest!: map_of_SomeD)

text \<open>Writing an aggregate to a row and reading it back is the identity.\<close>

lemma UserProfile_record_inv [simp]: "UserProfile_of_record (UserProfile_to_record a) = a"
  by (simp add: UserProfile_of_record_def UserProfile_to_record_def)

lemma UserProfile_record_key [simp]: "upr_user_id (UserProfile_to_record a) = up_user_id a"
  by (simp add: UserProfile_to_record_def)

lemma BrokerageAccountConnection_record_inv [simp]: "BrokerageAccountConnection_of_record (BrokerageAccountConnection_to_record a) = a"
  by (simp add: BrokerageAccountConnection_of_record_def BrokerageAccountConnection_to_record_def)

lemma BrokerageAccountConnection_record_key [simp]: "bcr_connection_id (BrokerageAccountConnection_to_record a) = bc_connection_id a"
  by (simp add: BrokerageAccountConnection_to_record_def)

lemma LoginAccount_record_inv [simp]: "LoginAccount_of_record (LoginAccount_to_record a) = a"
  by (simp add: LoginAccount_of_record_def LoginAccount_to_record_def)

lemma LoginAccount_record_key [simp]: "lar_user_id (LoginAccount_to_record a) = la_user_id a"
  by (simp add: LoginAccount_to_record_def)

lemma AccessLevelAudit_record_inv [simp]: "AccessLevelAudit_of_record (AccessLevelAudit_to_record a) = a"
  by (simp add: AccessLevelAudit_of_record_def AccessLevelAudit_to_record_def)

lemma AccessLevelAudit_record_key [simp]: "aar_audit_id (AccessLevelAudit_to_record a) = aa_audit_id a"
  by (simp add: AccessLevelAudit_to_record_def)

lemma MarketPriceSnapshot_record_inv [simp]: "MarketPriceSnapshot_of_record (MarketPriceSnapshot_to_record a) = a"
  by (simp add: MarketPriceSnapshot_of_record_def MarketPriceSnapshot_to_record_def)

lemma MarketPriceSnapshot_record_key [simp]: "mpr_snapshot_id (MarketPriceSnapshot_to_record a) = mp_snapshot_id a"
  by (simp add: MarketPriceSnapshot_to_record_def)

lemma DomesticDailyCandle_record_inv [simp]: "DomesticDailyCandle_of_record (DomesticDailyCandle_to_record a) = a"
  by (simp add: DomesticDailyCandle_of_record_def DomesticDailyCandle_to_record_def)

lemma DomesticDailyCandle_record_key [simp]: "dcr_candle_id (DomesticDailyCandle_to_record a) = dc_candle_id a"
  by (simp add: DomesticDailyCandle_to_record_def)

lemma NewsArticle_record_inv [simp]: "NewsArticle_of_record (NewsArticle_to_record a) = Inr a"
  by (simp add: NewsArticle_of_record_def NewsArticle_to_record_def)

lemma NewsArticle_record_key [simp]: "nar_source_key (NewsArticle_to_record a) = na_source_key a"
  by (simp add: NewsArticle_to_record_def)

lemma InAppNotification_record_inv [simp]: "InAppNotification_of_record (InAppNotification_to_record a) = a"
  by (simp add: InAppNotification_of_record_def InAppNotification_to_record_def)

lemma InAppNotification_record_key [simp]: "nor_notification_id (InAppNotification_to_record a) = no_notification_id a"
  by (simp add: InAppNotification_to_record_def)

lemma PortfolioSnapshot_record_inv [simp]: "PortfolioSnapshot_of_record (PortfolioSnapshot_to_record a) = a"
  by (simp add: PortfolioSnapshot_of_record_def PortfolioSnapshot_to_record_def)

lemma PortfolioSnapshot_record_key [simp]: "psr_snapshot_id (PortfolioSnapshot_to_record a) = ps_snapshot_id a"
  by (simp add: PortfolioSnapshot_to_record_def)

lemma PortfolioPositionSnapshot_record_inv [simp]: "PortfolioPositionSnapshot_of_record (PortfolioPositionSnapshot_to_record a) = a"
  by (simp add: PortfolioPositionSnapshot_of_record_def PortfolioPositionSnapshot_to_record_def)

lemma PortfolioPositionSnapshot_record_key [simp]: "ppr_position_id (PortfolioPositionSnapshot_to_record a) = pp_position_id a"
  by (simp add: PortfolioPositionSnapshot_to_record_def)

lemma SignalEvent_record_inv [simp]: "SignalEvent_of_record (SignalEvent_to_record a) = a"
  by (simp add: SignalEvent_of_record_def SignalEvent_to_record_def)

lemma SignalEvent_record_key [simp]: "ser_signal_id (SignalEvent_to_record a) = se_signal_id a"
  by (simp add: SignalEvent_to_record_def)

lemma SignalDeliveryIntent_record_inv [simp]: "SignalDeliveryIntent_of_record (SignalDeliveryIntent_to_record a) = a"
  by (simp add: SignalDeliveryIntent_of_record_def SignalDeliveryIntent_to_record_def)

lemma SignalDeliveryIntent_record_key [simp]: "sir_intent_id (SignalDeliveryIntent_to_record a) = si_intent_id a"
  by (simp add: SignalDeliveryIntent_to_record_def)

lemma SignalSubscription_record_inv [simp]: "SignalSubscription_of_record (SignalSubscription_to_record a) = a"
  by (simp add: SignalSubscription_of_record_def SignalSubscription_to_record_def)

lemma SignalSubscription_record_key [simp]: "sur_subscription_id (SignalSubscription_to_record a) = su_subscription_id a"
  by (simp add: SignalSubscription_to_record_def)

lemma SignalSubscriptionProjection_record_inv [simp]: "SignalSubscriptionProjection_of_record (SignalSubscriptionProjection_to_record a) = a"
  by (simp add: SignalSubscriptionProjection_of_record_def SignalSubscriptionProjection_to_record_def)

lemma SignalSubscriptionProjection_record_key [simp]: "sjr_subscription_id (SignalSubscriptionProjection_to_record a) = sj_subscription_id a"
  by (simp add: SignalSubscriptionProjection_to_record_def)

lemma UserProfile_model_key [simp]: "up_user_id (UserProfile_of_record r) = upr_user_id r"
  by (simp add: UserProfile_of_record_def)

lemma BrokerageAccountConnection_model_key [simp]: "bc_connection_id (BrokerageAccountConnection_of_record r) = bcr_connection_id r"
  by (simp add: BrokerageAccountConnection_of_record_def)

lemma LoginAccount_model_key [simp]: "la_user_id (LoginAccount_of_record r) = lar_user_id r"
  by (simp add: LoginAccount_of_record_def)

lemma AccessLevelAudit_model_key [simp]: "aa_audit_id (AccessLevelAudit_of_record r) = aar_audit_id r"
  by (simp add: AccessLevelAudit_of_record_def)

lemma MarketPriceSnapshot_model_key [simp]: "mp_snapshot_id (MarketPriceSnapshot_of_record r) = mpr_snapshot_id r"
  by (simp add: MarketPriceSnapshot_of_record_def)

lemma DomesticDailyCandle_model_key [simp]: "dc_candle_id (DomesticDailyCandle_of_record r) = dcr_candle_id r"
  by (simp add: DomesticDailyCandle_of_record_def)

lemma InAppNotification_model_key [simp]: "no_notification_id (InAppNotification_of_record r) = nor_notification_id r"
  by (simp add: InAppNotification_of_record_def)

lemma PortfolioSnapshot_model_key [simp]: "ps_snapshot_id (PortfolioSnapshot_of_record r) = psr_snapshot_id r"
  by (simp add: PortfolioSnapshot_of_record_def)

lemma PortfolioPositionSnapshot_model_key [simp]: "pp_position_id (PortfolioPositionSnapshot_of_record r) = ppr_position_id r"
  by (simp add: PortfolioPositionSnapshot_of_record_def)

lemma SignalEvent_model_key [simp]: "se_signal_id (SignalEvent_of_record r) = ser_signal_id r"
  by (simp add: SignalEvent_of_record_def)

lemma SignalDeliveryIntent_model_key [simp]: "si_intent_id (SignalDeliveryIntent_of_record r) = sir_intent_id r"
  by (simp add: SignalDeliveryIntent_of_record_def)

lemma SignalSubscription_model_key [simp]: "su_subscription_id (SignalSubscription_of_record r) = sur_subscription_id r"
  by (simp add: SignalSubscription_of_record_def)

lemma SignalSubscriptionProjection_model_key [simp]: "sj_subscription_id (SignalSubscriptionProjection_of_record r) = sjr_subscription_id r"
  by (simp add: SignalSubscriptionProjection_of_record_def)

interpretation up_sql: repository SQL_UserProfile_find_by_id SQL_UserProfile_save up_user_id "t_wf upr_user_id"
  by unfold_locales
    (auto simp: SQL_UserProfile_find_by_id_def SQL_UserProfile_save_def dest!: t_get_key)

interpretation up_fake: repository Fake_UserProfile_find_by_id Fake_UserProfile_save up_user_id "fake_wf up_user_id"
  by unfold_locales
    (auto simp: Fake_UserProfile_find_by_id_def Fake_UserProfile_save_def intro: fake_wf_set dest: fake_wf_get)

interpretation up_pair: repository_pair SQL_UserProfile_find_by_id SQL_UserProfile_save "t_wf upr_user_id"
  Fake_UserProfile_find_by_id Fake_UserProfile_save "fake_wf up_user_id" up_user_id
  by unfold_locales

interpretation bc_sql: repository SQL_BrokerageAccountConnection_find_by_id SQL_BrokerageAccountConnection_save bc_connection_id "t_wf bcr_connection_id"
  by unfold_locales
    (auto simp: SQL_BrokerageAccountConnection_find_by_id_def SQL_BrokerageAccountConnection_save_def dest!: t_get_key)

interpretation bc_fake: repository Fake_BrokerageAccountConnection_find_by_id Fake_BrokerageAccountConnection_save bc_connection_id "fake_wf bc_connection_id"
  by unfold_locales
    (auto simp: Fake_BrokerageAccountConnection_find_by_id_def Fake_BrokerageAccountConnection_save_def intro: fake_wf_set dest: fake_wf_get)

interpretation bc_pair: repository_pair SQL_BrokerageAccountConnection_find_by_id SQL_BrokerageAccountConnection_save "t_wf bcr_connection_id"
  Fake_BrokerageAccountConnection_find_by_id Fake_BrokerageAccountConnection_save "fake_wf bc_connection_id" bc_connection_id
  by unfold_locales

interpretation la_fake: repository Fake_LoginAccount_find_by_id Fake_LoginAccount_save la_user_id "fake_wf la_user_id"
  by unfold_locales
    (auto simp: Fake_LoginAccount_find_by_id_def Fake_LoginAccount_save_def intro: fake_wf_set dest: fake_wf_get)

interpretation aa_sql: repository SQL_AccessLevelAudit_find_by_id SQL_AccessLevelAudit_save aa_audit_id "t_wf aar_audit_id"
  by unfold_locales
    (auto simp: SQL_AccessLevelAudit_find_by_id_def SQL_AccessLevelAudit_save_def dest!: t_get_key)

interpretation aa_fake: repository Fake_AccessLevelAudit_find_by_id Fake_AccessLevelAudit_save aa_audit_id "fake_wf aa_audit_id"
  by unfold_locales
    (auto simp: Fake_AccessLevelAudit_find_by_id_def Fake_AccessLevelAudit_save_def intro: fake_wf_set dest: fake_wf_get)

interpretation aa_pair: repository_pair SQL_AccessLevelAudit_find_by_id SQL_AccessLevelAudit_save "t_wf aar_audit_id"
  Fake_AccessLevelAudit_find_by_id Fake_AccessLevelAudit_save "fake_wf aa_audit_id" aa_audit_id
  by unfold_locales

interpretation mp_sql: repository SQL_MarketPriceSnapshot_find_by_id SQL_MarketPriceSnapshot_save mp_snapshot_id "t_wf mpr_snapshot_id"
  by unfold_locales
    (auto simp: SQL_MarketPriceSnapshot_find_by_id_def SQL_MarketPriceSnapshot_save_def dest!: t_get_key)

interpretation mp_fake: repository Fake_MarketPriceSnapshot_find_by_id Fake_MarketPriceSnapshot_save mp_snapshot_id "fake_wf mp_snapshot_id"
  by unfold_locales
    (auto simp: Fake_MarketPriceSnapshot_find_by_id_def Fake_MarketPriceSnapshot_save_def intro: fake_wf_set dest: fake_wf_get)

interpretation mp_pair: repository_pair SQL_MarketPriceSnapshot_find_by_id SQL_MarketPriceSnapshot_save "t_wf mpr_snapshot_id"
  Fake_MarketPriceSnapshot_find_by_id Fake_MarketPriceSnapshot_save "fake_wf mp_snapshot_id" mp_snapshot_id
  by unfold_locales

interpretation dc_sql: repository SQL_DomesticDailyCandle_find_by_id SQL_DomesticDailyCandle_save dc_candle_id "t_wf dcr_candle_id"
  by unfold_locales
    (auto simp: SQL_DomesticDailyCandle_find_by_id_def SQL_DomesticDailyCandle_save_def dest!: t_get_key)

interpretation dc_fake: repository Fake_DomesticDailyCandle_find_by_id Fake_DomesticDailyCandle_save dc_candle_id "fake_wf dc_candle_id"
  by unfold_locales
    (auto simp: Fake_DomesticDailyCandle_find_by_id_def Fake_DomesticDailyCandle_save_def intro: fake_wf_set dest: fake_wf_get)

interpretation dc_pair: repository_pair SQL_DomesticDailyCandle_find_by_id SQL_DomesticDailyCandle_save "t_wf dcr_candle_id"
  Fake_DomesticDailyCandle_find_by_id Fake_DomesticDailyCandle_save "fake_wf dc_candle_id" dc_candle_id
  by unfold_locales

interpretation na_fake: repository Fake_NewsArticle_find_by_id Fake_NewsArticle_save na_source_key "fake_wf na_source_key"
  by unfold_locales
    (auto simp: Fake_NewsArticle_find_by_id_def Fake_NewsArticle_save_def intro: fake_wf_set dest: fake_wf_get)

interpretation no_sql: repository SQL_InAppNotification_find_by_id SQL_InAppNotification_save no_notification_id "t_wf nor_notification_id"
  by unfold_locales
    (auto simp: SQL_InAppNotification_find_by_id_def SQL_InAppNotification_save_def dest!: t_get_key)

interpretation no_fake: repository Fake_InAppNotification_find_by_id Fake_InAppNotification_save no_notification_id "fake_wf no_notification_id"
  by unfold_locales
    (auto simp: Fake_InAppNotification_find_by_id_def Fake_InAppNotification_save_def intro: fake_wf_set dest: fake_wf_get)

interpretation no_pair: repository_pair SQL_InAppNotification_find_by_id SQL_InAppNotification_save "t_wf nor_notification_id"
  Fake_InAppNotification_find_by_id Fake_InAppNotification_save "fake_wf no_notification_id" no_notification_id
  by unfold_locales

interpretation ps_sql: repository SQL_PortfolioSnapshot_find_by_id SQL_PortfolioSnapshot_save ps_snapshot_id "t_wf psr_snapshot_id"
  by unfold_locales
    (auto simp: SQL_PortfolioSnapshot_find_by_id_def SQL_PortfolioSnapshot_save_def dest!: t_get_key)

interpretation ps_fake: repository Fake_PortfolioSnapshot_find_by_id Fake_PortfolioSnapshot_save ps_snapshot_id "fake_wf ps_snapshot_id"
  by unfold_locales
    (auto simp: Fake_PortfolioSnapshot_find_by_id_def Fake_PortfolioSnapshot_save_def intro: fake_wf_set dest: fake_wf_get)

interpretation ps_pair: repository_pair SQL_PortfolioSnapshot_find_by_id SQL_PortfolioSnapshot_save "t_wf psr_snapshot_id"
  Fake_PortfolioSnapshot_find_by_id Fake_PortfolioSnapshot_save "fake_wf ps_snapshot_id" ps_snapshot_id
  by unfold_locales

interpretation pp_sql: repository SQL_PortfolioPositionSnapshot_find_by_id SQL_PortfolioPositionSnapshot_save pp_position_id "t_wf ppr_position_id"
  by unfold_locales
    (auto simp: SQL_PortfolioPositionSnapshot_find_by_id_def SQL_PortfolioPositionSnapshot_save_def dest!: t_get_key)

interpretation pp_fake: repository Fake_PortfolioPositionSnapshot_find_by_id Fake_PortfolioPositionSnapshot_save pp_position_id "fake_wf pp_position_id"
  by unfold_locales
    (auto simp: Fake_PortfolioPositionSnapshot_find_by_id_def Fake_PortfolioPositionSnapshot_save_def intro: fake_wf_set dest: fake_wf_get)

interpretation pp_pair: repository_pair SQL_PortfolioPositionSnapshot_find_by_id SQL_PortfolioPositionSnapshot_save "t_wf ppr_position_id"
  Fake_PortfolioPositionSnapshot_find_by_id Fake_PortfolioPositionSnapshot_save "fake_wf pp_position_id" pp_position_id
  by unfold_locales

interpretation se_sql: repository SQL_SignalEvent_find_by_id SQL_SignalEvent_save se_signal_id "t_wf ser_signal_id"
  by unfold_locales
    (auto simp: SQL_SignalEvent_find_by_id_def SQL_SignalEvent_save_def dest!: t_get_key)

interpretation se_fake: repository Fake_SignalEvent_find_by_id Fake_SignalEvent_save se_signal_id "fake_wf se_signal_id"
  by unfold_locales
    (auto simp: Fake_SignalEvent_find_by_id_def Fake_SignalEvent_save_def intro: fake_wf_set dest: fake_wf_get)

interpretation se_pair: repository_pair SQL_SignalEvent_find_by_id SQL_SignalEvent_save "t_wf ser_signal_id"
  Fake_SignalEvent_find_by_id Fake_SignalEvent_save "fake_wf se_signal_id" se_signal_id
  by unfold_locales

interpretation si_sql: repository SQL_SignalDeliveryIntent_find_by_id SQL_SignalDeliveryIntent_save si_intent_id "t_wf sir_intent_id"
  by unfold_locales
    (auto simp: SQL_SignalDeliveryIntent_find_by_id_def SQL_SignalDeliveryIntent_save_def dest!: t_get_key)

interpretation si_fake: repository Fake_SignalDeliveryIntent_find_by_id Fake_SignalDeliveryIntent_save si_intent_id "fake_wf si_intent_id"
  by unfold_locales
    (auto simp: Fake_SignalDeliveryIntent_find_by_id_def Fake_SignalDeliveryIntent_save_def intro: fake_wf_set dest: fake_wf_get)

interpretation si_pair: repository_pair SQL_SignalDeliveryIntent_find_by_id SQL_SignalDeliveryIntent_save "t_wf sir_intent_id"
  Fake_SignalDeliveryIntent_find_by_id Fake_SignalDeliveryIntent_save "fake_wf si_intent_id" si_intent_id
  by unfold_locales

interpretation su_sql: repository SQL_SignalSubscription_find_by_id SQL_SignalSubscription_save su_subscription_id "t_wf sur_subscription_id"
  by unfold_locales
    (auto simp: SQL_SignalSubscription_find_by_id_def SQL_SignalSubscription_save_def dest!: t_get_key)

interpretation su_fake: repository Fake_SignalSubscription_find_by_id Fake_SignalSubscription_save su_subscription_id "fake_wf su_subscription_id"
  by unfold_locales
    (auto simp: Fake_SignalSubscription_find_by_id_def Fake_SignalSubscription_save_def intro: fake_wf_set dest: fake_wf_get)

interpretation su_pair: repository_pair SQL_SignalSubscription_find_by_id SQL_SignalSubscription_save "t_wf sur_subscription_id"
  Fake_SignalSubscription_find_by_id Fake_SignalSubscription_save "fake_wf su_subscription_id" su_subscription_id
  by unfold_locales

interpretation sj_sql: repository SQL_SignalSubscriptionProjection_find_by_id SQL_SignalSubscriptionProjection_save sj_subscription_id "t_wf sjr_subscription_id"
  by unfold_locales
    (auto simp: SQL_SignalSubscriptionProjection_find_by_id_def SQL_SignalSubscriptionProjection_save_def dest!: t_get_key)

interpretation sj_fake: repository Fake_SignalSubscriptionProjection_find_by_id Fake_SignalSubscriptionProjection_save sj_subscription_id "fake_wf sj_subscription_id"
  by unfold_locales
    (auto simp: Fake_SignalSubscriptionProjection_find_by_id_def Fake_SignalSubscriptionProjection_save_def intro: fake_wf_set dest: fake_wf_get)

interpretation sj_pair: repository_pair SQL_SignalSubscriptionProjection_find_by_id SQL_SignalSubscriptionProjection_save "t_wf sjr_subscription_id"
  Fake_SignalSubscriptionProjection_find_by_id Fake_SignalSubscriptionProjection_save "fake_wf sj_subscription_id" sj_subscription_id
  by unfold_locales

end
