(* ===== verification/Outbox.thy ===== *)
theory Outbox
  imports Messaging
begin

text \<open>
  The transactional outbox and inbox (\<open>infrastructure/outbox\<close>): \<open>OutboxWriter.add\<close> stores an event
  in the transaction of the change it reports, \<open>OutboxRelay.publish_pending\<close> moves due events to
  the broker, and \<open>ProcessedMessageInbox.claim\<close> lets a consumer handle an event once. The publisher
  of the relay is an argument: any function from events to stateful computations on a broker
  state.
  Results: what the relay may change in the table and what it must leave alone, the bounds of the
  retry delay, that a row is marked published exactly when its publication returned, that a
  working publisher drains the outbox, and that an event claimed through the inbox has its
  effects at most once.
\<close>

section \<open>Writer\<close>

text \<open>\<open>now\<close> is the clock reading used when the message has no time of its own.\<close>

definition outbox_record :: "time \<Rightarrow> EventMessage \<Rightarrow> time option \<Rightarrow> OutboxEventRecord" where
  "outbox_record now m available_at =
     (let occurred_at = (case em_occurred_at m of Some t \<Rightarrow> t | None \<Rightarrow> now) in
      \<lparr>oe_event_id = em_event_id m, oe_event_type = em_event_type m,
       oe_event_version = em_event_version m, oe_aggregate_id = em_aggregate_id m,
       oe_routing_key = em_routing_key m, oe_payload = em_payload m,
       oe_status = ''pending'', oe_attempts = 0,
       oe_available_at = (case available_at of Some t \<Rightarrow> t | None \<Rightarrow> occurred_at),
       oe_occurred_at = occurred_at, oe_published_at = None, oe_last_error = None\<rparr>)"

definition outbox_add :: "time \<Rightarrow> EventMessage \<Rightarrow> time option \<Rightarrow> (db, unit) io" where
  "outbox_add now m available_at d =
     (case t_insert oe_event_id (outbox_record now m available_at) (outbox_events d) of
        Inl e \<Rightarrow> (Inl e, d)
      | Inr t \<Rightarrow> (Inr (), d\<lparr>outbox_events := t\<rparr>))"

section \<open>Inbox\<close>

definition inbox_claim :: "time \<Rightarrow> string \<Rightarrow> (db, bool) io" where
  "inbox_claim now event_id d =
     (let (rowcount, t) = t_insert_if_absent pm_event_id
             \<lparr>pm_event_id = event_id, pm_processed_at = now\<rparr> (processed_messages d)
      in (Inr (rowcount = 1), d\<lparr>processed_messages := t\<rparr>))"

section \<open>Relay\<close>

text \<open>The rows a run selects: pending, due, not locked by another relay (\<open>skip_locked\<close>), oldest
  first, at most a batch.\<close>

definition outbox_due :: "time \<Rightarrow> OutboxEventRecord \<Rightarrow> bool" where
  "outbox_due now r \<longleftrightarrow> oe_status r = ''pending'' \<and> oe_available_at r \<le> now"

definition relay_select ::
  "(string \<Rightarrow> bool) \<Rightarrow> nat \<Rightarrow> time \<Rightarrow> OutboxEventRecord list \<Rightarrow> OutboxEventRecord list" where
  "relay_select locked batch_size now t = take batch_size
     (sorted_by oe_occurred_at (filter (\<lambda>r. outbox_due now r \<and> \<not> locked (oe_event_id r)) t))"

definition relay_message :: "OutboxEventRecord \<Rightarrow> EventMessage" where
  "relay_message r = event_post_init 0 0
     \<lparr>em_event_type = oe_event_type r, em_aggregate_id = oe_aggregate_id r, em_payload = oe_payload r,
      em_routing_key = oe_routing_key r, em_event_id = oe_event_id r,
      em_event_version = oe_event_version r, em_occurred_at = Some (oe_occurred_at r)\<rparr>"

definition relay_delay :: "nat \<Rightarrow> int" where
  "relay_delay attempts = min 60 (2 ^ min attempts 6)"

text \<open>One pass of the loop body; \<open>done_at\<close> is the clock reading after the publication of an event.
  The flag tells whether the event was published.\<close>

definition relay_one ::
  "(EventMessage \<Rightarrow> ('b, unit) io) \<Rightarrow> time \<Rightarrow> (string \<Rightarrow> time) \<Rightarrow> OutboxEventRecord
   \<Rightarrow> ('b, bool \<times> OutboxEventRecord) io" where
  "relay_one publish now done_at r b =
     (let r1 = r\<lparr>oe_attempts := oe_attempts r + 1\<rparr> in
      case publish (relay_message r1) b of
        (Inr _, b') \<Rightarrow> (Inr (True, r1\<lparr>oe_status := ''published'',
            oe_published_at := Some (done_at (oe_event_id r1)), oe_last_error := None\<rparr>), b')
      | (Inl (MessagePublishError msg), b') \<Rightarrow> (Inr (False, r1\<lparr>oe_last_error := Some (take 2000 msg),
            oe_available_at := now + seconds (relay_delay (oe_attempts r1))\<rparr>), b')
      | (Inl e, b') \<Rightarrow> (Inl e, b'))"

fun relay_loop ::
  "(EventMessage \<Rightarrow> ('b, unit) io) \<Rightarrow> time \<Rightarrow> (string \<Rightarrow> time) \<Rightarrow> OutboxEventRecord list
   \<Rightarrow> ('b, (bool \<times> OutboxEventRecord) list) io" where
  "relay_loop publish now done_at [] = ret []"
| "relay_loop publish now done_at (r # rs) =
     bindS (relay_one publish now done_at r) (\<lambda>x.
     bindS (relay_loop publish now done_at rs) (\<lambda>xs. ret (x # xs)))"

text \<open>\<open>publish_pending\<close> on the session's database \<open>d\<close> and the broker \<open>b\<close>: the changed rows are
  written back at the commit; the count is that of the published ones.\<close>

definition write_back :: "OutboxEventRecord list \<Rightarrow> OutboxEventRecord list \<Rightarrow> OutboxEventRecord list" where
  "write_back rs t = fold (t_merge oe_event_id) rs t"

definition publish_pending ::
  "(EventMessage \<Rightarrow> ('b, unit) io) \<Rightarrow> (string \<Rightarrow> bool) \<Rightarrow> nat \<Rightarrow> time \<Rightarrow> (string \<Rightarrow> time)
   \<Rightarrow> ('b \<times> db, nat) io" where
  "publish_pending publish locked batch_size now done_at = (\<lambda>(b, d).
     case relay_loop publish now done_at (relay_select locked batch_size now (outbox_events d)) b of
       (Inl e, b') \<Rightarrow> (Inl e, (b', d))
     | (Inr xs, b') \<Rightarrow> (Inr (length (filter fst xs)),
         (b', d\<lparr>outbox_events := write_back (map snd xs) (outbox_events d)\<rparr>)))"

text \<open>One pass of the relay process (\<open>scripts/run_outbox_relay.py\<close>): a transaction per database,
  in order. An exception other than \<open>MessagePublishError\<close> ends the process, with the databases
  handled before committed and the failing one rolled back.\<close>

fun relay_pass ::
  "(EventMessage \<Rightarrow> ('b, unit) io) \<Rightarrow> (string \<Rightarrow> bool) \<Rightarrow> time \<Rightarrow> (string \<Rightarrow> time) \<Rightarrow> 'b \<Rightarrow> db list
   \<Rightarrow> nat result \<times> 'b \<times> db list" where
  "relay_pass publish locked now done_at b [] = (Inr 0, b, [])"
| "relay_pass publish locked now done_at b (d # ds) =
     (case publish_pending publish locked 100 now done_at (b, d) of
        (Inl e, (b', _)) \<Rightarrow> (Inl e, b', d # ds)
      | (Inr n, (b', d')) \<Rightarrow> (case relay_pass publish locked now done_at b' ds of
          (Inl e, b'', ds') \<Rightarrow> (Inl e, b'', d' # ds')
        | (Inr m, b'', ds') \<Rightarrow> (Inr (n + m), b'', d' # ds')))"

section \<open>Lemmas: writer and inbox\<close>

lemma outbox_add_Inr:
  "outbox_add now m av d = (Inr (), d') \<longleftrightarrow>
     em_event_id m \<notin> oe_event_id ` set (outbox_events d) \<and>
     d' = d\<lparr>outbox_events := outbox_events d @ [outbox_record now m av]\<rparr>"
  by (auto simp: outbox_add_def t_insert_def outbox_record_def Let_def split: sum.splits)

lemma outbox_add_run:
  "outbox_add now m av d =
     (if em_event_id m \<in> oe_event_id ` set (outbox_events d) then (Inl SQLAlchemyError, d)
      else (Inr (), d\<lparr>outbox_events := outbox_events d @ [outbox_record now m av]\<rparr>))"
  by (auto simp: outbox_add_def t_insert_def outbox_record_def Let_def split: sum.splits)

lemma outbox_record_key [simp]:
  "oe_event_id (outbox_record now m av) = em_event_id m"
  "oe_event_type (outbox_record now m av) = em_event_type m"
  "oe_aggregate_id (outbox_record now m av) = em_aggregate_id m"
  "oe_payload (outbox_record now m av) = em_payload m"
  "oe_routing_key (outbox_record now m av) = em_routing_key m"
  "oe_status (outbox_record now m av) = ''pending''"
  by (simp_all add: outbox_record_def Let_def)

lemma inbox_claim_run:
  "inbox_claim now e d =
     (if e \<in> pm_event_id ` set (processed_messages d) then (Inr False, d)
      else (Inr True, d\<lparr>processed_messages := processed_messages d @ [\<lparr>pm_event_id = e, pm_processed_at = now\<rparr>]\<rparr>))"
  by (simp add: inbox_claim_def t_insert_if_absent_def)

section \<open>Lemmas: relay\<close>

text \<open>The message the relay makes of a row is the event the writer was given.\<close>

lemma relay_message_record:
  "em_event_id m \<noteq> [] \<Longrightarrow> em_occurred_at m = Some t \<Longrightarrow> relay_message (outbox_record now m av) = m"
  by (simp add: relay_message_def event_post_init_def outbox_record_def)

text \<open>What one pass may make of a row.\<close>

definition relayed :: "time \<Rightarrow> (string \<Rightarrow> time) \<Rightarrow> OutboxEventRecord \<Rightarrow> bool \<Rightarrow> OutboxEventRecord \<Rightarrow> bool" where
  "relayed now done_at r ok r' \<longleftrightarrow>
     (if ok then r' = r\<lparr>oe_attempts := oe_attempts r + 1, oe_status := ''published'',
                       oe_published_at := Some (done_at (oe_event_id r)), oe_last_error := None\<rparr>
      else \<exists>msg. r' = r\<lparr>oe_attempts := oe_attempts r + 1, oe_last_error := Some (take 2000 msg),
                       oe_available_at := now + seconds (relay_delay (oe_attempts r + 1))\<rparr>)"

lemma relay_one_Inr:
  "relay_one publish now done_at r b = (Inr (ok, r'), b') \<Longrightarrow> relayed now done_at r ok r'"
  by (auto simp: relay_one_def relayed_def Let_def split: prod.splits sum.splits exn.splits)

lemma relay_loop_Inr:
  "relay_loop publish now done_at rs b = (Inr xs, b') \<Longrightarrow>
     list_all2 (\<lambda>r x. relayed now done_at r (fst x) (snd x)) rs xs"
proof (induction rs arbitrary: b xs)
  case (Cons r rs)
  then show ?case by (fastforce simp: bindS_eq_Inr dest: relay_one_Inr)
qed simp

lemma relay_delay_bounds: "2 \<le> relay_delay (Suc n) \<and> relay_delay n \<le> 60"
proof -
  have "(2::int) ^ 1 \<le> 2 ^ min (Suc n) 6" by (rule power_increasing) auto
  then show ?thesis by (simp add: relay_delay_def)
qed

lemma relayed_facts:
  assumes "relayed now done_at r ok r'"
  shows "oe_event_id r' = oe_event_id r" "relay_message r' = relay_message r"
    "oe_attempts r' = oe_attempts r + 1"
    "ok \<Longrightarrow> oe_status r' = ''published'' \<and> oe_last_error r' = None \<and>
        oe_published_at r' = Some (done_at (oe_event_id r))"
    "\<not> ok \<Longrightarrow> oe_status r' = oe_status r \<and> oe_last_error r' \<noteq> None \<and>
        now + seconds 2 \<le> oe_available_at r' \<and> oe_available_at r' \<le> now + seconds 60"
  using assms relay_delay_bounds
  by (auto simp: relayed_def relay_message_def split: if_splits)

lemma relay_select_facts:
  "set (relay_select locked n now t) \<subseteq> {r \<in> set t. outbox_due now r \<and> \<not> locked (oe_event_id r)}"
  "length (relay_select locked n now t) \<le> n"
  "t_wf oe_event_id t \<Longrightarrow> distinct (map oe_event_id (relay_select locked n now t))"
  "sorted (map oe_occurred_at (relay_select locked n now t))"
proof -
  show "set (relay_select locked n now t) \<subseteq> {r \<in> set t. outbox_due now r \<and> \<not> locked (oe_event_id r)}"
    unfolding relay_select_def by (auto dest: in_set_takeD)
  show "length (relay_select locked n now t) \<le> n" by (simp add: relay_select_def)
  show "sorted (map oe_occurred_at (relay_select locked n now t))"
    unfolding relay_select_def take_map [symmetric] by (intro sorted_wrt_take) simp
  show "t_wf oe_event_id t \<Longrightarrow> distinct (map oe_event_id (relay_select locked n now t))"
    unfolding relay_select_def take_map [symmetric] sorted_by_def t_wf_def
    by (intro distinct_take) (simp add: distinct_map_filter)
qed

lemma t_get_fold_merge:
  "t_get key k (fold (t_merge key) rs t) =
     (case find (\<lambda>r. key r = k) (rev rs) of Some r \<Rightarrow> Some r | None \<Rightarrow> t_get key k t)"
  by (induction rs arbitrary: t rule: rev_induct) auto

lemma keys_fold_merge:
  "key ` set rs \<subseteq> key ` set t \<Longrightarrow> map key (fold (t_merge key) rs t) = map key t"
proof (induction rs arbitrary: t)
  case (Cons r rs)
  then have "map key (t_merge key r t) = map key t" by (simp add: keys_merge)
  moreover from this have "key ` set (t_merge key r t) = key ` set t" by (metis list.set_map)
  ultimately show ?case using Cons by simp
qed simp

lemma find_rev_distinct:
  "distinct (map key rs) \<Longrightarrow> r \<in> set rs \<Longrightarrow> find (\<lambda>x. key x = key r) (rev rs) = Some r"
proof -
  assume d: "distinct (map key rs)" and r: "r \<in> set rs"
  then obtain x where x: "find (\<lambda>x. key x = key r) (rev rs) = Some x"
    by (metis (mono_tags, lifting) find_None_iff not_None_eq set_rev)
  then have "x \<in> set rs \<and> key x = key r" by (auto simp: find_Some_iff) (metis length_rev nth_mem set_rev)
  then show ?thesis using x d r by (auto simp: distinct_map inj_on_def)
qed

lemma publish_pending_Inr:
  assumes "publish_pending publish locked n now done_at (b, d) = (Inr k, (b', d'))"
  obtains xs where
    "relay_loop publish now done_at (relay_select locked n now (outbox_events d)) b = (Inr xs, b')"
    "list_all2 (\<lambda>r x. relayed now done_at r (fst x) (snd x)) (relay_select locked n now (outbox_events d)) xs"
    "k = length (filter fst xs)"
    "d' = d\<lparr>outbox_events := write_back (map snd xs) (outbox_events d)\<rparr>"
  using assms by (auto simp: publish_pending_def dest: relay_loop_Inr split: prod.splits sum.splits)

lemma list_all2_relayed_keys:
  "list_all2 (\<lambda>r x. relayed now done_at r (fst x) (snd x)) rs xs \<Longrightarrow>
     map (oe_event_id \<circ> snd) xs = map oe_event_id rs"
  by (induction rule: list_all2_induct) (auto simp: relayed_facts(1))

text \<open>After a run every selected row has been relayed and every other row is as before.\<close>

lemma write_back_get:
  assumes wf: "t_wf oe_event_id t" and sel: "set rs \<subseteq> set t" "distinct (map oe_event_id rs)"
    and l: "list_all2 (\<lambda>r x. relayed now done_at r (fst x) (snd x)) rs xs"
  shows "map oe_event_id (write_back (map snd xs) t) = map oe_event_id t"
    "i < length rs \<Longrightarrow> t_get oe_event_id (oe_event_id (rs ! i)) (write_back (map snd xs) t) = Some (snd (xs ! i))"
    "k \<notin> oe_event_id ` set rs \<Longrightarrow> t_get oe_event_id k (write_back (map snd xs) t) = t_get oe_event_id k t"
proof -
  have keys: "map oe_event_id (map snd xs) = map oe_event_id rs"
    using list_all2_relayed_keys [OF l] by simp
  then have ks: "oe_event_id ` set (map snd xs) = oe_event_id ` set rs" by (metis list.set_map)
  show "map oe_event_id (write_back (map snd xs) t) = map oe_event_id t"
    unfolding write_back_def using ks sel(1) by (intro keys_fold_merge) auto
  show "k \<notin> oe_event_id ` set rs \<Longrightarrow> t_get oe_event_id k (write_back (map snd xs) t) = t_get oe_event_id k t"
  proof -
    assume "k \<notin> oe_event_id ` set rs"
    then have "find (\<lambda>r. oe_event_id r = k) (rev (map snd xs)) = None"
      using ks by (auto simp: find_None_iff simp flip: ks)
    then show ?thesis unfolding write_back_def t_get_fold_merge by simp
  qed
  assume i: "i < length rs"
  then have len: "i < length xs" using l by (simp add: list_all2_lengthD)
  have "oe_event_id (snd (xs ! i)) = oe_event_id (rs ! i)"
    using keys i len by (metis (no_types, lifting) length_map nth_map)
  moreover have "find (\<lambda>x. oe_event_id x = oe_event_id (snd (xs ! i))) (rev (map snd xs)) = Some (snd (xs ! i))"
    by (rule find_rev_distinct) (use keys sel(2) len in auto)
  ultimately show "t_get oe_event_id (oe_event_id (rs ! i)) (write_back (map snd xs) t) = Some (snd (xs ! i))"
    unfolding write_back_def t_get_fold_merge by simp
qed

definition is_published :: "OutboxEventRecord list \<Rightarrow> OutboxEventRecord \<Rightarrow> bool" where
  "is_published t r \<longleftrightarrow> (case t_get oe_event_id (oe_event_id r) t of
      Some r' \<Rightarrow> oe_status r' = ''published'' | None \<Rightarrow> False)"

lemma relay_selected_row:
  assumes wf: "t_wf oe_event_id (outbox_events d)"
    and run: "publish_pending publish locked n now done_at (b, d) = (Inr k, (b', d'))"
  obtains xs where
    "relay_loop publish now done_at (relay_select locked n now (outbox_events d)) b = (Inr xs, b')"
    "length xs = length (relay_select locked n now (outbox_events d))"
    "\<forall>i < length xs. relayed now done_at (relay_select locked n now (outbox_events d) ! i) (fst (xs ! i)) (snd (xs ! i))"
    "\<forall>i < length xs. t_get oe_event_id (oe_event_id (relay_select locked n now (outbox_events d) ! i)) (outbox_events d') = Some (snd (xs ! i))"
    "\<forall>i < length xs. is_published (outbox_events d') (relay_select locked n now (outbox_events d) ! i) = fst (xs ! i)"
    "k = length (filter fst xs)"
proof -
  let ?rs = "relay_select locked n now (outbox_events d)"
  from run obtain xs where loop: "relay_loop publish now done_at ?rs b = (Inr xs, b')"
    and l: "list_all2 (\<lambda>r x. relayed now done_at r (fst x) (snd x)) ?rs xs"
    and k: "k = length (filter fst xs)" and d': "d' = d\<lparr>outbox_events := write_back (map snd xs) (outbox_events d)\<rparr>"
    by (rule publish_pending_Inr)
  have len: "length xs = length ?rs" using l by (simp add: list_all2_lengthD)
  have rel: "relayed now done_at (?rs ! i) (fst (xs ! i)) (snd (xs ! i))" if "i < length xs" for i
    using l that by (simp add: list_all2_conv_all_nth)
  have sub: "set ?rs \<subseteq> set (outbox_events d)" using relay_select_facts(1) by blast
  have row: "t_get oe_event_id (oe_event_id (?rs ! i)) (outbox_events d') = Some (snd (xs ! i))"
    if "i < length xs" for i
    using write_back_get(2) [OF wf sub relay_select_facts(3) [OF wf] l] that len d' by simp
  have "is_published (outbox_events d') (?rs ! i) = fst (xs ! i)" if i: "i < length xs" for i
  proof -
    have "?rs ! i \<in> set ?rs" using i len by simp
    then have "oe_status (?rs ! i) = ''pending''"
      using relay_select_facts(1) by (force simp: outbox_due_def)
    then show ?thesis
      using relayed_facts(4,5) [OF rel [OF i]] row [OF i] by (cases "fst (xs ! i)") (auto simp: is_published_def)
  qed
  then show ?thesis using that loop len rel row k by blast
qed

lemma length_filter_nth:
  "length xs = length ys \<Longrightarrow> (\<And>i. i < length xs \<Longrightarrow> P (ys ! i) = Q (xs ! i)) \<Longrightarrow>
     length (filter Q xs) = length (filter P ys)"
  by (induction xs ys rule: list_induct2) (auto, (metis Suc_less_eq nth_Cons_Suc nth_Cons_0 zero_less_Suc)+)

text \<open>The state of a row after a run: \<open>r'\<close> is the row that replaces the selected row \<open>r\<close>.\<close>

definition relay_outcome :: "time \<Rightarrow> (string \<Rightarrow> time) \<Rightarrow> OutboxEventRecord \<Rightarrow> OutboxEventRecord \<Rightarrow> bool" where
  "relay_outcome now done_at r r' \<longleftrightarrow>
     relay_message r' = relay_message r \<and> oe_attempts r' = oe_attempts r + 1 \<and>
     (oe_status r' = ''published'' \<and> oe_published_at r' = Some (done_at (oe_event_id r)) \<or>
      oe_status r' = ''pending'' \<and> now + seconds 2 \<le> oe_available_at r' \<and>
        oe_available_at r' \<le> now + seconds 60)"

lemma relay_selected_outcome:
  assumes "t_wf oe_event_id (outbox_events d)"
    and "publish_pending publish locked n now done_at (b, d) = (Inr k, (b', d'))"
    and r: "r \<in> set (relay_select locked n now (outbox_events d))"
  shows "\<exists>r'. t_get oe_event_id (oe_event_id r) (outbox_events d') = Some r' \<and> relay_outcome now done_at r r'"
proof -
  let ?rs = "relay_select locked n now (outbox_events d)"
  from assms(1,2) obtain xs where x: "length xs = length ?rs"
    "\<forall>i < length xs. relayed now done_at (?rs ! i) (fst (xs ! i)) (snd (xs ! i))"
    "\<forall>i < length xs. t_get oe_event_id (oe_event_id (?rs ! i)) (outbox_events d') = Some (snd (xs ! i))"
    by (rule relay_selected_row) blast
  obtain i where i: "i < length xs" "r = ?rs ! i" using r x(1) by (metis in_set_conv_nth)
  have "oe_status r = ''pending''" using r relay_select_facts(1) by (force simp: outbox_due_def)
  then show ?thesis
    using relayed_facts [OF x(2) [rule_format, OF i(1)]] x(3) i
    by (cases "fst (xs ! i)") (auto simp: relay_outcome_def)
qed

lemma relay_unselected:
  assumes wf: "t_wf oe_event_id (outbox_events d)"
    and run: "publish_pending publish locked n now done_at (b, d) = (Inr k, (b', d'))"
    and r: "r \<in> set (outbox_events d)" "r \<notin> set (relay_select locked n now (outbox_events d))"
  shows "t_get oe_event_id (oe_event_id r) (outbox_events d') = Some r"
proof -
  let ?rs = "relay_select locked n now (outbox_events d)"
  have sub: "set ?rs \<subseteq> set (outbox_events d)" using relay_select_facts(1) by blast
  from run obtain ys where y: "list_all2 (\<lambda>r x. relayed now done_at r (fst x) (snd x)) ?rs ys"
    and d': "d' = d\<lparr>outbox_events := write_back (map snd ys) (outbox_events d)\<rparr>"
    by (rule publish_pending_Inr)
  have "oe_event_id r \<notin> oe_event_id ` set ?rs"
    using t_wf_unique [OF wf] sub r by blast
  then show ?thesis
    using write_back_get(3) [OF wf sub relay_select_facts(3) [OF wf] y] d' r wf
    by (simp add: t_get_Some_iff)
qed

lemma relay_frame:
  assumes wf: "t_wf oe_event_id (outbox_events d)"
    and run: "publish_pending publish locked n now done_at (b, d) = (Inr k, (b', d'))"
  shows "d' = d\<lparr>outbox_events := outbox_events d'\<rparr>"
    "map oe_event_id (outbox_events d') = map oe_event_id (outbox_events d)"
    "k = length (filter (is_published (outbox_events d')) (relay_select locked n now (outbox_events d)))"
proof -
  let ?rs = "relay_select locked n now (outbox_events d)"
  have sub: "set ?rs \<subseteq> set (outbox_events d)" using relay_select_facts(1) by blast
  from run obtain ys where y: "list_all2 (\<lambda>r x. relayed now done_at r (fst x) (snd x)) ?rs ys"
    and d': "d' = d\<lparr>outbox_events := write_back (map snd ys) (outbox_events d)\<rparr>"
    by (rule publish_pending_Inr)
  show "d' = d\<lparr>outbox_events := outbox_events d'\<rparr>" using d' by simp
  show "map oe_event_id (outbox_events d') = map oe_event_id (outbox_events d)"
    using write_back_get(1) [OF wf sub relay_select_facts(3) [OF wf] y] d' by simp
  from wf run obtain xs :: "(bool \<times> OutboxEventRecord) list" where x: "length xs = length ?rs"
    "\<forall>i < length xs. is_published (outbox_events d') (?rs ! i) = fst (xs ! i)"
    "k = length (filter fst xs)"
    by (rule relay_selected_row) blast
  then show "k = length (filter (is_published (outbox_events d')) ?rs)"
    using length_filter_nth [OF x(1), of "is_published (outbox_events d')" fst] by simp
qed

text \<open>
  C4: a run of the relay that returns changes nothing but the rows it selected, at most a batch
  of due, unlocked rows. No row is lost and no event content changes; a selected row has one more
  attempt and is either published or still pending, with its next attempt 2 to 60 seconds
  after the run began. The returned count is the number of rows published by the run.
\<close>

theorem relay_effect:
  assumes wf: "t_wf oe_event_id (outbox_events d)"
    and run: "publish_pending publish locked n now done_at (b, d) = (Inr k, (b', d'))"
  defines "sel \<equiv> relay_select locked n now (outbox_events d)"
  shows "d' = d\<lparr>outbox_events := outbox_events d'\<rparr> \<and>
    map oe_event_id (outbox_events d') = map oe_event_id (outbox_events d) \<and>
    k = length (filter (is_published (outbox_events d')) sel) \<and> length sel \<le> n \<and>
    (\<forall>r\<in>set sel. outbox_due now r \<and> \<not> locked (oe_event_id r) \<and>
      (\<exists>r'. t_get oe_event_id (oe_event_id r) (outbox_events d') = Some r' \<and>
       relay_message r' = relay_message r \<and> oe_attempts r' = oe_attempts r + 1 \<and>
       (oe_status r' = ''published'' \<and> oe_published_at r' = Some (done_at (oe_event_id r)) \<or>
        oe_status r' = ''pending'' \<and> now + seconds 2 \<le> oe_available_at r' \<and>
          oe_available_at r' \<le> now + seconds 60))) \<and>
    (\<forall>r\<in>set (outbox_events d). r \<notin> set sel \<longrightarrow>
       t_get oe_event_id (oe_event_id r) (outbox_events d') = Some r)"
  using relay_frame [OF wf run] relay_selected_outcome [OF wf run] relay_unselected [OF wf run]
    relay_select_facts(1,2) [of locked n now "outbox_events d"]
  unfolding sel_def relay_outcome_def by (intro conjI ballI impI) blast+

lemma table_as_map:
  assumes "t_wf key t" "map key t' = map key t"
  shows "t' = map (\<lambda>r. the (t_get key (key r) t')) t"
proof -
  have "t_wf key t'" using assms by (simp add: t_wf_def)
  then have "map (\<lambda>k. the (t_get key k t')) (map key t') = t'"
    by (intro nth_equalityI) (auto simp: t_get_mem)
  then show ?thesis using assms(2) by (simp add: comp_def)
qed

text \<open>The events in the outbox, in the order they were added, are untouched by the relay.\<close>

lemma relay_keeps_events:
  assumes wf: "t_wf oe_event_id (outbox_events d)"
    and run: "publish_pending publish locked n now done_at (b, d) = (Inr k, (b', d'))"
  shows "map relay_message (outbox_events d') = map relay_message (outbox_events d)"
proof -
  define g where "g = (\<lambda>r :: OutboxEventRecord. the (t_get oe_event_id (oe_event_id r) (outbox_events d')))"
  have "relay_message (g r) = relay_message r" if "r \<in> set (outbox_events d)" for r
    using relay_selected_outcome [OF wf run, of r] relay_unselected [OF wf run that]
    by (cases "r \<in> set (relay_select locked n now (outbox_events d))") (auto simp: g_def relay_outcome_def)
  moreover have "outbox_events d' = map g (outbox_events d)"
    using table_as_map [OF wf relay_frame(2) [OF wf run]] by (simp add: g_def)
  ultimately show ?thesis by simp
qed

text \<open>A row whose event is \<open>e\<close>, due at time \<open>t\<close>, for the examples.\<close>

definition demo_row :: "string \<Rightarrow> time \<Rightarrow> OutboxEventRecord" where
  "demo_row e t = outbox_record t (new_event_id e t ''signal.created'' ''a'' [] ''signal.created'') None"

lemmas demo_row_simps = demo_row_def outbox_record_def new_event_id_def event_post_init_def Let_def

theorem relay_effect_witness:
  "let d = empty_db\<lparr>outbox_events := [demo_row ''e1'' 5, demo_row ''e2'' 99]\<rparr>;
       d' = empty_db\<lparr>outbox_events := [demo_row ''e1'' 5\<lparr>oe_attempts := 1, oe_last_error := Some ''down'',
                oe_available_at := 10 + seconds 2\<rparr>, demo_row ''e2'' 99]\<rparr>
   in publish_pending (\<lambda>m b. (Inl (MessagePublishError ''down''), b)) (\<lambda>_. False) 100 10 (\<lambda>_. 11) ((), d)
        = (Inr 0, ((), d')) \<and>
      t_get oe_event_id ''e2'' (outbox_events d') = Some (demo_row ''e2'' 99)"
proof -
  let ?d = "empty_db\<lparr>outbox_events := [demo_row ''e1'' 5, demo_row ''e2'' 99]\<rparr>"
  let ?d' = "empty_db\<lparr>outbox_events := [demo_row ''e1'' 5\<lparr>oe_attempts := 1, oe_last_error := Some ''down'',
                oe_available_at := 10 + seconds 2\<rparr>, demo_row ''e2'' 99]\<rparr>"
  let ?p = "\<lambda>m b. (Inl (MessagePublishError ''down''), b)"
  have run: "publish_pending ?p (\<lambda>_. False) 100 10 (\<lambda>_. 11) ((), ?d) = (Inr 0, ((), ?d'))"
    by (simp add: publish_pending_def relay_select_def outbox_due_def sorted_by_def relay_one_def
        relay_delay_def write_back_def bindS_def demo_row_simps)
  have wf: "t_wf oe_event_id (outbox_events ?d)" by (simp add: t_wf_def demo_row_simps)
  have "t_get oe_event_id (oe_event_id (demo_row ''e2'' 99)) (outbox_events ?d') = Some (demo_row ''e2'' 99)"
    using relay_effect [OF wf run]
    by (auto simp: relay_select_def outbox_due_def sorted_by_def demo_row_simps)
  then show ?thesis using run by (simp add: demo_row_simps)
qed

section \<open>A working publisher drains the outbox\<close>

text \<open>Runs of the relay on one database, one after the other.\<close>

fun relay_rounds ::
  "(EventMessage \<Rightarrow> ('b, unit) io) \<Rightarrow> nat \<Rightarrow> time \<Rightarrow> (string \<Rightarrow> time) \<Rightarrow> nat \<Rightarrow> ('b \<times> db, nat) io" where
  "relay_rounds publish n now done_at 0 = ret 0"
| "relay_rounds publish n now done_at (Suc k) =
     bindS (publish_pending publish (\<lambda>_. False) n now done_at) (\<lambda>i.
     bindS (relay_rounds publish n now done_at k) (\<lambda>j. ret (i + j)))"

lemma length_filter_notin:
  assumes "distinct xs" "distinct ys" "set ys \<subseteq> set xs"
  shows "length (filter (\<lambda>x. x \<notin> set ys) xs) = length xs - length ys"
proof -
  have "length (filter (\<lambda>x. x \<notin> set ys) xs) = card (set xs - set ys)"
    using assms(1) by (simp add: distinct_card [symmetric] set_diff_eq)
  then show ?thesis using assms by (simp add: card_Diff_subset distinct_card)
qed

lemma relay_loop_ok:
  assumes "\<forall>m b. \<exists>b'. publish m b = (Inr (), b')"
  shows "\<exists>xs b'. relay_loop publish now done_at rs b = (Inr xs, b') \<and> length xs = length rs \<and> list_all fst xs"
proof (induction rs arbitrary: b)
  case (Cons r rs)
  from assms obtain b1 where "publish (relay_message (r\<lparr>oe_attempts := oe_attempts r + 1\<rparr>)) b = (Inr (), b1)" by blast
  then obtain r' where "relay_one publish now done_at r b = (Inr (True, r'), b1)"
    by (simp add: relay_one_def)
  moreover from Cons obtain xs b2 where
    "relay_loop publish now done_at rs b1 = (Inr xs, b2)" "length xs = length rs" "list_all fst xs" by blast
  ultimately show ?case by (simp add: bindS_run)
qed simp

lemma relay_step_ok:
  assumes ok: "\<forall>m b. \<exists>b'. publish m b = (Inr (), b')" and wf: "t_wf oe_event_id (outbox_events d)"
  shows "\<exists>b' d'. publish_pending publish (\<lambda>_. False) n now done_at (b, d) =
       (Inr (min n (length (filter (outbox_due now) (outbox_events d)))), (b', d')) \<and>
     t_wf oe_event_id (outbox_events d') \<and>
     length (filter (outbox_due now) (outbox_events d')) = length (filter (outbox_due now) (outbox_events d)) - n"
proof -
  define due where "due = (\<lambda>d :: db. length (filter (outbox_due now) (outbox_events d)))"
  let ?t = "outbox_events d" and ?rs = "relay_select (\<lambda>_. False) n now (outbox_events d)"
  obtain xs b' where loop: "relay_loop publish now done_at ?rs b = (Inr xs, b')" "length xs = length ?rs" "list_all fst xs"
    using relay_loop_ok [OF ok, of now done_at ?rs b] by blast
  define d' where "d' = d\<lparr>outbox_events := write_back (map snd xs) ?t\<rparr>"
  have len: "length ?rs = min n (due d)" by (simp add: relay_select_def due_def min.commute)
  have "filter fst xs = xs" using loop(3) by (simp add: list_all_iff filter_id_conv)
  then have run: "publish_pending publish (\<lambda>_. False) n now done_at (b, d) = (Inr (min n (due d)), (b', d'))"
    using loop(1,2) len by (simp add: publish_pending_def d'_def)
  note fr = relay_frame [OF wf run]
  have wf': "t_wf oe_event_id (outbox_events d')" using fr(2) wf by (simp add: t_wf_def)
  have pub: "\<forall>r\<in>set ?rs. is_published (outbox_events d') r"
    using fr(3) len by (metis length_filter_less less_irrefl)
  define g where "g = (\<lambda>r :: OutboxEventRecord. the (t_get oe_event_id (oe_event_id r) (outbox_events d')))"
  have g: "outbox_due now (g r) \<longleftrightarrow> outbox_due now r \<and> r \<notin> set ?rs" if r: "r \<in> set ?t" for r
  proof (cases "r \<in> set ?rs")
    case True
    then have "oe_status (g r) = ''published''" using pub by (auto simp: is_published_def g_def split: option.splits)
    then show ?thesis using True by (simp add: outbox_due_def)
  next
    case False
    then show ?thesis using relay_unselected [OF wf run r] by (simp add: g_def)
  qed
  have "outbox_events d' = map g ?t" using table_as_map [OF wf fr(2)] by (simp add: g_def)
  then have "due d' = length (filter (\<lambda>r. outbox_due now r \<and> r \<notin> set ?rs) ?t)"
    unfolding due_def by (simp add: filter_map comp_def g cong: filter_cong)
  also have "\<dots> = length (filter (\<lambda>r. r \<notin> set ?rs) (filter (outbox_due now) ?t))"
    by (simp add: conj_commute)
  also have "\<dots> = due d - length ?rs" unfolding due_def
  proof (rule length_filter_notin)
    show "distinct (filter (outbox_due now) ?t)" using wf by (simp add: t_wf_def distinct_map)
    show "distinct ?rs" using relay_select_facts(3) [OF wf] by (simp add: distinct_map)
    show "set ?rs \<subseteq> set (filter (outbox_due now) ?t)" using relay_select_facts(1) by fastforce
  qed
  finally have "due d' = due d - n" using len by simp
  then show ?thesis using run wf' unfolding due_def by blast
qed

text \<open>
  C5: with a publisher that accepts every event, \<open>k\<close> runs of the relay with batches of \<open>n\<close> publish
  every due event as soon as there are at most \<open>k * n\<close> of them: no due event is left and the
  counts add up to the number of due events.
\<close>

theorem relay_drains:
  assumes ok: "\<forall>m b. \<exists>b'. publish m b = (Inr (), b')" and wf: "t_wf oe_event_id (outbox_events d)"
    and enough: "length (filter (outbox_due now) (outbox_events d)) \<le> k * n"
  shows "\<exists>b' d'. relay_rounds publish n now done_at k (b, d) =
           (Inr (length (filter (outbox_due now) (outbox_events d))), (b', d')) \<and>
         filter (outbox_due now) (outbox_events d') = []"
  using wf enough
proof (induction k arbitrary: b d)
  case (Suc k)
  let ?due = "\<lambda>d. length (filter (outbox_due now) (outbox_events d))"
  obtain b1 d1 where 1: "publish_pending publish (\<lambda>_. False) n now done_at (b, d) = (Inr (min n (?due d)), (b1, d1))"
    "t_wf oe_event_id (outbox_events d1)" "?due d1 = ?due d - n"
    using relay_step_ok [OF ok Suc.prems(1)] by blast
  then have "?due d1 \<le> k * n" using Suc.prems(2) by simp
  from Suc.IH [OF 1(2) this, of b1] obtain b2 d2 where
    "relay_rounds publish n now done_at k (b1, d1) = (Inr (?due d1), (b2, d2))"
    "filter (outbox_due now) (outbox_events d2) = []" by blast
  then show ?case using 1 by (auto simp: bindS_run min_def)
qed simp

theorem relay_drains_witness:
  "\<exists>b' d'. relay_rounds (\<lambda>m b. (Inr (), em_event_id m # b)) 1 10 (\<lambda>_. 11) 2
       ([], empty_db\<lparr>outbox_events := [demo_row ''e1'' 5, demo_row ''e2'' 4]\<rparr>) = (Inr 2, (b', d')) \<and>
     filter (outbox_due 10) (outbox_events d') = []"
  using relay_drains [of "\<lambda>m b. (Inr (), em_event_id m # b)"
      "empty_db\<lparr>outbox_events := [demo_row ''e1'' 5, demo_row ''e2'' 4]\<rparr>" 10 2 1 "\<lambda>_. 11" "[]"]
  by (simp add: t_wf_def outbox_due_def demo_row_simps numeral_2_eq_2)

section \<open>Rows marked published were sent\<close>

text \<open>
  What the relay needs of a publisher: a call that returns has appended the wire form of the
  event to what the broker holds; a call that raises may or may not have (a connection can be
  lost after the broker took the event).
\<close>

locale broker =
  fixes publish :: "EventMessage \<Rightarrow> ('b, unit) io"
    and wire :: "EventMessage \<Rightarrow> 'm" and log :: "'b \<Rightarrow> 'm list"
  assumes publish_ok: "publish m b = (Inr (), b') \<Longrightarrow> log b' = log b @ [wire m]"
    and publish_failed: "publish m b = (Inl e, b') \<Longrightarrow> log b' = log b \<or> log b' = log b @ [wire m]"
begin

lemma relay_one_log:
  assumes "relay_one publish now done_at r b = (x, b')"
  shows "\<exists>ms. log b' = log b @ ms \<and> set ms \<subseteq> {wire (relay_message r)} \<and>
    (\<forall>r'. x = Inr (True, r') \<longrightarrow> wire (relay_message r) \<in> set ms)"
proof -
  have e: "relay_message (r\<lparr>oe_attempts := Suc (oe_attempts r)\<rparr>) = relay_message r"
    by (simp add: relay_message_def)
  obtain y b1 where p1: "publish (relay_message r) b = (y, b1)" by fastforce
  then have "b1 = b'"
    using assms e by (auto simp: relay_one_def Let_def split: sum.splits exn.splits)
  with p1 have p: "publish (relay_message r) b = (y, b')" by simp
  show ?thesis
  proof (cases y)
    case (Inl ex)
    then have "\<And>r'. x \<noteq> Inr (True, r')"
      using assms e p by (auto simp: relay_one_def Let_def split: exn.splits)
    then show ?thesis using publish_failed [of "relay_message r" b ex b'] p Inl by fastforce
  next
    case (Inr u)
    then show ?thesis using publish_ok [of "relay_message r" b b'] p by simp
  qed
qed

lemma relay_loop_log:
  "relay_loop publish now done_at rs b = (Inr xs, b') \<Longrightarrow>
   \<exists>ms. log b' = log b @ ms \<and> set ms \<subseteq> (\<lambda>r. wire (relay_message r)) ` set rs \<and>
     (\<forall>i<length rs. fst (xs ! i) \<longrightarrow> wire (relay_message (rs ! i)) \<in> set ms)"
proof (induction rs arbitrary: b xs)
  case (Cons r rs)
  from Cons.prems obtain x b1 ys where
    1: "relay_one publish now done_at r b = (Inr x, b1)" and
    2: "relay_loop publish now done_at rs b1 = (Inr ys, b')" and xs: "xs = x # ys"
    by (auto simp: bindS_eq_Inr)
  from relay_one_log [OF 1] obtain ms where ms: "log b1 = log b @ ms"
    "set ms \<subseteq> {wire (relay_message r)}" "fst x \<Longrightarrow> wire (relay_message r) \<in> set ms"
    by (cases x) auto
  from Cons.IH [OF 2] obtain ms' where ms': "log b' = log b1 @ ms'"
    "set ms' \<subseteq> (\<lambda>r. wire (relay_message r)) ` set rs"
    "\<forall>i<length rs. fst (ys ! i) \<longrightarrow> wire (relay_message (rs ! i)) \<in> set ms'" by blast
  have "log b' = log b @ (ms @ ms')" "set (ms @ ms') \<subseteq> (\<lambda>r. wire (relay_message r)) ` set (r # rs)"
    using ms ms' by auto
  moreover have "\<forall>i<length (r # rs). fst (xs ! i) \<longrightarrow> wire (relay_message ((r # rs) ! i)) \<in> set (ms @ ms')"
    using ms(3) ms'(3) xs by (auto simp: less_Suc_eq_0_disj)
  ultimately show ?case by blast
qed simp

lemma pending_log:
  assumes wf: "t_wf oe_event_id (outbox_events d)"
    and run: "publish_pending publish locked n now done_at (b, d) = (Inr k, (b', d'))"
  shows "\<exists>ms. log b' = log b @ ms \<and>
     set ms \<subseteq> (\<lambda>r. wire (relay_message r)) ` set (relay_select locked n now (outbox_events d)) \<and>
     (\<forall>r\<in>set (relay_select locked n now (outbox_events d)).
        is_published (outbox_events d') r \<longrightarrow> wire (relay_message r) \<in> set ms)"
proof -
  let ?rs = "relay_select locked n now (outbox_events d)"
  from wf run obtain xs where x: "relay_loop publish now done_at ?rs b = (Inr xs, b')"
    "length xs = length ?rs" "\<forall>i < length xs. is_published (outbox_events d') (?rs ! i) = fst (xs ! i)"
    by (rule relay_selected_row) blast
  from relay_loop_log [OF x(1)] obtain ms where
    "log b' = log b @ ms" "set ms \<subseteq> (\<lambda>r. wire (relay_message r)) ` set ?rs"
    "\<forall>i<length ?rs. fst (xs ! i) \<longrightarrow> wire (relay_message (?rs ! i)) \<in> set ms" by blast
  then show ?thesis using x(2,3) by (intro exI [of _ ms]) (auto simp: in_set_conv_nth)
qed

end

text \<open>The AMQP exchange under the publisher: what it holds are the published bodies with their
  message id, type and routing key.\<close>

locale exchange_api =
  fixes exchange_publish :: "string \<Rightarrow> string \<Rightarrow> string \<Rightarrow> string \<Rightarrow> ('b, unit) io"
    and held :: "'b \<Rightarrow> (string \<times> string \<times> string \<times> string) list"
  assumes exchange_ok: "exchange_publish body i ty rk b = (Inr (), b') \<Longrightarrow> held b' = held b @ [(body, i, ty, rk)]"
    and exchange_failed: "exchange_publish body i ty rk b = (Inl e, b') \<Longrightarrow>
      held b' = held b \<or> held b' = held b @ [(body, i, ty, rk)]"

definition rabbit_wire :: "(time \<Rightarrow> string) \<Rightarrow> EventMessage \<Rightarrow> string \<times> string \<times> string \<times> string" where
  "rabbit_wire isoformat m = (case encode_event isoformat m of
     Inr body \<Rightarrow> (body, em_event_id m, em_event_type m, em_routing_key m) | Inl _ \<Rightarrow> ([], [], [], []))"

sublocale exchange_api \<subseteq> rb: broker "rabbit_publish isof is_conn str exchange_publish" "rabbit_wire isof" held
  by unfold_locales
    (auto simp: rabbit_publish_def rabbit_wire_def bindS_def catchS_def
      split: prod.splits sum.splits dest: exchange_ok exchange_failed)

context exchange_api
begin

lemmas rabbit_pending_log = rb.pending_log

end

text \<open>A topic exchange with the bindings of a topology: an event no queue is bound for is returned
  to the publisher, since the publication is mandatory.\<close>

definition topic_exchange :: "topology \<Rightarrow> string \<Rightarrow> string \<Rightarrow> string \<Rightarrow> string
    \<Rightarrow> ((string \<times> string \<times> string \<times> string) list, unit) io" where
  "topic_exchange tp body i ty rk b =
     (if routed_to tp rk = [] then (Inl (RuntimeError ''basic.return''), b)
      else (Inr (), b @ [(body, i, ty, rk)]))"

interpretation topic: exchange_api "topic_exchange tp" "\<lambda>b. b" for tp
  by unfold_locales (auto simp: topic_exchange_def split: if_splits)

text \<open>
  C6: with the RabbitMQ publisher, a run of the relay adds to what the exchange holds only wire
  forms of events it selected, and every row the run marked as published is among them: an event
  is never recorded as published without having been handed to the broker.
\<close>

theorem published_was_sent:
  assumes "exchange_api exchange_publish held"
    and "t_wf oe_event_id (outbox_events d)"
    and "publish_pending (rabbit_publish isoformat is_connection_exception str exchange_publish)
           locked n now done_at (b, d) = (Inr k, (b', d'))"
  shows "\<exists>sent. held b' = held b @ sent \<and>
     set sent \<subseteq> (\<lambda>r. rabbit_wire isoformat (relay_message r)) ` set (relay_select locked n now (outbox_events d)) \<and>
     (\<forall>r\<in>set (relay_select locked n now (outbox_events d)).
        is_published (outbox_events d') r \<longrightarrow> rabbit_wire isoformat (relay_message r) \<in> set sent)"
  using exchange_api.rabbit_pending_log [OF assms] .

theorem published_was_sent_witness:
  "let tp = declare_user_message_topology \<lparr>tp_exchanges = [], tp_queues = [], tp_bindings = []\<rparr>;
       r = publish_pending (rabbit_publish (\<lambda>_. ''T'') (\<lambda>_. True) (\<lambda>_. ''x'') (topic_exchange tp))
             (\<lambda>_. False) 100 10 (\<lambda>_. 11) ([], empty_db\<lparr>outbox_events := [demo_row ''e1'' 5]\<rparr>)
   in fst r = Inr 1 \<and> rabbit_wire (\<lambda>_. ''T'') (relay_message (demo_row ''e1'' 5)) \<in> set (fst (snd r))"
proof -
  define tp where "tp = declare_user_message_topology \<lparr>tp_exchanges = [], tp_queues = [], tp_bindings = []\<rparr>"
  let ?d = "empty_db\<lparr>outbox_events := [demo_row ''e1'' 5]\<rparr>"
  let ?w = "rabbit_wire (\<lambda>_. ''T'') (relay_message (demo_row ''e1'' 5))"
  let ?d' = "empty_db\<lparr>outbox_events := [demo_row ''e1'' 5\<lparr>oe_attempts := 1, oe_status := ''published'',
      oe_published_at := Some 11\<rparr>]\<rparr>"
  have rt: "routed_to tp ''signal.created'' = [DELIVERY_INTENT_QUEUE]"
    unfolding tp_def by code_simp
  have run: "publish_pending (rabbit_publish (\<lambda>_. ''T'') (\<lambda>_. True) (\<lambda>_. ''x'') (topic_exchange tp))
      (\<lambda>_. False) 100 10 (\<lambda>_. 11) ([], ?d) = (Inr 1, ([?w], ?d'))"
    by (simp add: publish_pending_def relay_select_def outbox_due_def sorted_by_def relay_one_def rt
        relay_message_def rabbit_publish_def rabbit_wire_def topic_exchange_def encode_event_def
        write_back_def bindS_def catchS_def demo_row_simps)
  have wf: "t_wf oe_event_id (outbox_events ?d)" by (simp add: t_wf_def)
  show ?thesis
    using published_was_sent [OF topic.exchange_api_axioms wf run] run unfolding tp_def [symmetric]
    by (auto simp: Let_def)
qed

section \<open>Consumers run the effects of an event once\<close>

text \<open>A consumer's transaction: claim the event, and only if the claim succeeds run the effects.\<close>

definition inbox_guarded :: "time \<Rightarrow> string \<Rightarrow> (db, unit) io \<Rightarrow> (db, unit) io" where
  "inbox_guarded now event_id effects =
     bindS (inbox_claim now event_id) (\<lambda>claimed. if claimed then effects else ret ())"

definition processed :: "db \<Rightarrow> string \<Rightarrow> bool" where
  "processed d e \<longleftrightarrow> e \<in> pm_event_id ` set (processed_messages d)"

lemma inbox_guarded_run:
  "processed d e \<Longrightarrow> inbox_guarded now e eff d = (Inr (), d)"
  "\<not> processed d e \<Longrightarrow> inbox_guarded now e eff d =
     eff (d\<lparr>processed_messages := processed_messages d @ [\<lparr>pm_event_id = e, pm_processed_at = now\<rparr>]\<rparr>)"
  by (simp_all add: inbox_guarded_def processed_def inbox_claim_run bindS_def)

end
