(* ===== verification/DurableJobs.thy ===== *)
theory DurableJobs
  imports Outbox
begin

text \<open>
  Durable jobs (\<open>infrastructure/durable_jobs\<close>): the job definitions and statuses, the repository
  (request, get, list, transition), the worker that executes a job message, and the read and
  cancel endpoints of \<open>routers/durable_jobs.py\<close>. The job handler the worker calls is an argument
  here; \<open>JobHandler\<close> supplies the one of the application.

  Each transaction that touches a job is a step of the relation \<open>job_step\<close>; its reachable states
  satisfy that the status events in the outbox are exactly the path of the job through its
  states. From it: statuses move along the edges requested, running, succeeded or failed, and
  requested, cancelled; a job is claimed for execution at most once, whatever the
  interleaving of workers, cancellations, relays and redelivered messages.
\<close>

section \<open>Contracts\<close>

definition JOB_STATUS_EVENT_TYPE :: string where
  "JOB_STATUS_EVENT_TYPE = ''durable-job.status.changed''"
definition JOB_STATUS_ROUTING_KEY :: string where
  "JOB_STATUS_ROUTING_KEY = ''durable-job.status.changed''"

datatype DurableJobStatus = REQUESTED | RUNNING | SUCCEEDED | FAILED | CANCELLED

fun status_value :: "DurableJobStatus \<Rightarrow> string" where
  "status_value REQUESTED = ''requested''"
| "status_value RUNNING = ''running''"
| "status_value SUCCEEDED = ''succeeded''"
| "status_value FAILED = ''failed''"
| "status_value CANCELLED = ''cancelled''"

record DurableJobDefinition =
  jd_name :: string
  jd_store :: string
  jd_event_type :: string
  jd_routing_key :: string

definition JOB_DEFINITIONS :: "(string, DurableJobDefinition) dict" where
  "JOB_DEFINITIONS =
    [(''news_collection'', \<lparr>jd_name = ''news_collection'', jd_store = ''automation'',
        jd_event_type = ''news.collection.requested'', jd_routing_key = ''news.collection.requested''\<rparr>),
     (''news_index'', \<lparr>jd_name = ''news_index'', jd_store = ''automation'',
        jd_event_type = ''news.index.requested'', jd_routing_key = ''news.index.requested''\<rparr>),
     (''durable_job_history_index'', \<lparr>jd_name = ''durable_job_history_index'', jd_store = ''automation'',
        jd_event_type = ''durable-job.history.index.requested'',
        jd_routing_key = ''durable-job.history.index.requested''\<rparr>),
     (''market_price_snapshot'', \<lparr>jd_name = ''market_price_snapshot'', jd_store = ''automation'',
        jd_event_type = ''market-price.snapshot.requested'',
        jd_routing_key = ''market-price.snapshot.requested''\<rparr>),
     (''domestic_daily_candle_collection'', \<lparr>jd_name = ''domestic_daily_candle_collection'',
        jd_store = ''automation'',
        jd_event_type = ''market-history.domestic-daily.collection.requested'',
        jd_routing_key = ''market-history.domestic-daily.collection.requested''\<rparr>)]"

section \<open>Repository\<close>

text \<open>What a transition or a request draws from the environment: the clock readings for the row
  and for the event, and the fresh event identifier.\<close>

record draw =
  dw_now :: time
  dw_event_now :: time
  dw_event_id :: uuid

definition job_key :: "DurableJobRecord \<Rightarrow> string \<times> string" where
  "job_key j = (dj_job_type j, dj_run_key j)"

definition requested_job :: "time \<Rightarrow> string \<Rightarrow> string \<Rightarrow> string \<Rightarrow> jdict \<Rightarrow> DurableJobRecord" where
  "requested_job now job_id job_type run_key payload =
     \<lparr>dj_job_id = job_id, dj_job_type = job_type, dj_run_key = run_key,
      dj_status = status_value REQUESTED, dj_payload = payload, dj_result = None, dj_error = None,
      dj_requested_at = now, dj_updated_at = now\<rparr>"

text \<open>\<open>insert(...).on_conflict_do_nothing(index_elements=[job_type, run_key]).returning(job_id)\<close>:
  a conflict on the primary key is not covered by the clause and raises.\<close>

definition insert_job :: "DurableJobRecord \<Rightarrow> (db, string option) io" where
  "insert_job j d =
     (if job_key j \<in> job_key ` set (durable_jobs d) then (Inr None, d)
      else if dj_job_id j \<in> dj_job_id ` set (durable_jobs d) then (Inl SQLAlchemyError, d)
      else (Inr (Some (dj_job_id j)), d\<lparr>durable_jobs := durable_jobs d @ [j]\<rparr>))"

record DurableJobRequestResult =
  jr_job_id :: string
  jr_created :: bool

definition job_requested_payload :: "string \<Rightarrow> string \<Rightarrow> string \<Rightarrow> jdict \<Rightarrow> jdict" where
  "job_requested_payload job_id job_type run_key payload =
     [(''job_id'', JStr job_id), (''job_type'', JStr job_type), (''run_key'', JStr run_key),
      (''payload'', JObj payload)]"

definition job_request ::
  "draw \<Rightarrow> uuid \<Rightarrow> string \<Rightarrow> string \<Rightarrow> jdict \<Rightarrow> time option \<Rightarrow> (db, DurableJobRequestResult) io" where
  "job_request w new_id job_type run_key payload available_at =
     (case dict_get JOB_DEFINITIONS job_type of
        None \<Rightarrow> raise (KeyError job_type)
      | Some def \<Rightarrow>
          bindS (insert_job (requested_job (dw_now w) (str_uuid new_id) (jd_name def) run_key payload))
            (\<lambda>created. case created of
               Some job_id \<Rightarrow>
                 bindS (outbox_add (dw_now w) (new_event (dw_event_id w) (dw_event_now w)
                     (jd_event_type def) job_id
                     (job_requested_payload job_id (jd_name def) run_key payload)
                     (jd_routing_key def)) available_at)
                   (\<lambda>_. ret \<lparr>jr_job_id = job_id, jr_created = True\<rparr>)
             | None \<Rightarrow>
                 bindS (gets (\<lambda>d. filter (\<lambda>j. dj_job_type j = jd_name def \<and> dj_run_key j = run_key)
                     (durable_jobs d)))
                   (\<lambda>rows. case rows of
                      [j] \<Rightarrow> ret \<lparr>jr_job_id = dj_job_id j, jr_created = False\<rparr>
                    | _ \<Rightarrow> raise SQLAlchemyError)))"

definition job_get :: "string \<Rightarrow> (db, DurableJobRecord option) io" where
  "job_get job_id = gets (\<lambda>d. t_get dj_job_id job_id (durable_jobs d))"

definition job_list_recent :: "string \<Rightarrow> nat \<Rightarrow> (db, DurableJobRecord list) io" where
  "job_list_recent job_type limit = gets (\<lambda>d. take limit
     (sorted_by_desc dj_updated_at (sorted_by_desc dj_job_id
        (filter (\<lambda>j. dj_job_type j = job_type) (durable_jobs d)))))"

definition job_status_payload :: "string \<Rightarrow> DurableJobStatus \<Rightarrow> jdict option \<Rightarrow> string option \<Rightarrow> jdict" where
  "job_status_payload job_id status result error =
     [(''job_id'', JStr job_id), (''status'', JStr (status_value status)),
      (''result'', case result of None \<Rightarrow> JNull | Some r \<Rightarrow> JObj r),
      (''error'', case error of None \<Rightarrow> JNull | Some e \<Rightarrow> JStr e)]"

definition job_transition ::
  "draw \<Rightarrow> string \<Rightarrow> DurableJobStatus \<Rightarrow> DurableJobStatus \<Rightarrow> jdict option \<Rightarrow> string option \<Rightarrow> (db, bool) io" where
  "job_transition w job_id expected status result error =
     bindS (gets (\<lambda>d. t_update (\<lambda>j. dj_job_id j = job_id \<and> dj_status j = status_value expected)
        (\<lambda>j. j\<lparr>dj_status := status_value status, dj_result := result, dj_error := error,
              dj_updated_at := dw_now w\<rparr>) (durable_jobs d)))
     (\<lambda>(rows, t). bindS (modify (durable_jobs_update (\<lambda>_. t)))
     (\<lambda>_. case rows of
        [] \<Rightarrow> ret False
      | [_] \<Rightarrow> bindS (outbox_add (dw_event_now w) (new_event (dw_event_id w) (dw_event_now w)
            JOB_STATUS_EVENT_TYPE job_id (job_status_payload job_id status result error)
            JOB_STATUS_ROUTING_KEY) None) (\<lambda>_. ret True)
      | _ \<Rightarrow> raise SQLAlchemyError))"

section \<open>Worker\<close>

record DurableJobExecution =
  je_job_id :: string
  je_job_type :: string
  je_run_key :: string
  je_payload :: jdict

text \<open>The checks before the first transaction.\<close>

definition worker_parse :: "pytext \<Rightarrow> EventMessage \<Rightarrow> (DurableJobDefinition \<times> DurableJobExecution) result" where
  "worker_parse T m =
     bindE (member (em_payload m) ''job_id'') (\<lambda>job_id.
     bindE (member (em_payload m) ''job_type'') (\<lambda>job_type.
     bindE (member (em_payload m) ''run_key'') (\<lambda>run_key.
     bindE (member (em_payload m) ''payload'') (\<lambda>job_payload.
       case job_payload of
         JObj p \<Rightarrow>
           (case dict_get JOB_DEFINITIONS (py_str T job_type) of
              None \<Rightarrow> Inl (ValueError ''durable job message does not match a definition'')
            | Some def \<Rightarrow>
                if em_event_type m \<noteq> jd_event_type def
                then Inl (ValueError ''durable job message does not match a definition'')
                else Inr (def, \<lparr>je_job_id = py_str T job_id, je_job_type = py_str T job_type,
                                je_run_key = py_str T run_key, je_payload = p\<rparr>))
       | _ \<Rightarrow> Inl (TypeError ''durable job payload must be an object'')))))"

text \<open>\<open>DurableJobMessageHandler.handle\<close>: \<open>w1\<close> and \<open>w2\<close> are what the claiming and the finishing
  transaction draw; the handler works on the same databases.\<close>

definition worker_handle ::
  "pytext \<Rightarrow> (DurableJobExecution \<Rightarrow> (dbs, jdict option) io) \<Rightarrow> draw \<Rightarrow> draw \<Rightarrow> EventMessage \<Rightarrow> (dbs, unit) io" where
  "worker_handle T handler w1 w2 m =
     bindS (lift (worker_parse T m)) (\<lambda>(def, x).
     bindS (with_session (global_target (jd_store def))
              (job_transition w1 (je_job_id x) REQUESTED RUNNING None None)) (\<lambda>claimed.
     if \<not> claimed then ret ()
     else
       bindS (catchS (handler x) (\<lambda>e.
                bindS (with_session (global_target (jd_store def))
                   (job_transition w2 (je_job_id x) RUNNING FAILED None (Some (error_text T e))))
                 (\<lambda>_. raise e)))
       (\<lambda>result.
         bindS (with_session (global_target (jd_store def))
                  (job_transition w2 (je_job_id x) RUNNING SUCCEEDED result None))
         (\<lambda>completed. if completed then ret ()
            else raise (RuntimeError ''durable job completion transition was lost'')))))"

section \<open>Endpoints\<close>

definition job_definition :: "string \<Rightarrow> DurableJobDefinition result" where
  "job_definition job_type = (case dict_get JOB_DEFINITIONS job_type of
       None \<Rightarrow> Inl (HTTPException 404 ''durable job type not found'')
     | Some def \<Rightarrow> Inr def)"

record DurableJobStatusResponse =
  js_job_id :: string
  js_job_type :: string
  js_run_key :: string
  js_status :: string
  js_payload :: jdict
  js_result :: "jdict option"
  js_error :: "string option"
  js_requested_at :: time
  js_updated_at :: time

definition status_response :: "DurableJobRecord \<Rightarrow> DurableJobStatusResponse" where
  "status_response j = \<lparr>js_job_id = dj_job_id j, js_job_type = dj_job_type j,
     js_run_key = dj_run_key j, js_status = dj_status j, js_payload = dj_payload j,
     js_result = dj_result j, js_error = dj_error j, js_requested_at = dj_requested_at j,
     js_updated_at = dj_updated_at j\<rparr>"

text \<open>FastAPI rejects a limit outside 1 to 100 with status 422 before the handler runs.\<close>

definition list_durable_jobs :: "string \<Rightarrow> int \<Rightarrow> (dbs, DurableJobStatusResponse list) io" where
  "list_durable_jobs job_type limit =
     (if limit < 1 \<or> 100 < limit then raise (HTTPException 422 ''limit'')
      else bindS (lift (job_definition job_type)) (\<lambda>def.
           bindS (with_session (global_target (jd_store def)) (job_list_recent (jd_name def) (nat limit)))
             (\<lambda>jobs. ret (map status_response jobs))))"

definition get_durable_job :: "string \<Rightarrow> string \<Rightarrow> (dbs, DurableJobStatusResponse) io" where
  "get_durable_job job_type job_id =
     bindS (lift (job_definition job_type)) (\<lambda>def.
     bindS (with_session (global_target (jd_store def)) (job_get job_id)) (\<lambda>job.
       case job of
         None \<Rightarrow> raise (HTTPException 404 ''durable job not found'')
       | Some j \<Rightarrow> if dj_job_type j \<noteq> jd_name def
                   then raise (HTTPException 404 ''durable job not found'')
                   else ret (status_response j)))"

text \<open>The transaction of the cancel endpoint.\<close>

definition cancel_tx :: "draw \<Rightarrow> DurableJobDefinition \<Rightarrow> string \<Rightarrow> (db, DurableJobStatusResponse) io" where
  "cancel_tx w def job_id =
     bindS (job_get job_id) (\<lambda>job. case job of
       None \<Rightarrow> raise (HTTPException 404 ''durable job not found'')
     | Some j \<Rightarrow>
         if dj_job_type j \<noteq> jd_name def then raise (HTTPException 404 ''durable job not found'')
         else if dj_status j = status_value CANCELLED then ret (status_response j)
         else
           bindS (job_transition w job_id REQUESTED CANCELLED None None) (\<lambda>cancelled.
           bindS (job_get job_id) (\<lambda>job'.
             if \<not> cancelled then
               (case job' of
                  Some j' \<Rightarrow> if dj_status j' = status_value CANCELLED then ret (status_response j')
                             else raise (HTTPException 409 ''durable job is already running or finished'')
                | None \<Rightarrow> raise (HTTPException 409 ''durable job is already running or finished''))
             else
               (case job' of
                  None \<Rightarrow> raise (HTTPException 404 ''durable job not found'')
                | Some j' \<Rightarrow> ret (status_response j')))))"

definition cancel_durable_job :: "draw \<Rightarrow> string \<Rightarrow> string \<Rightarrow> (dbs, DurableJobStatusResponse) io" where
  "cancel_durable_job w job_type job_id =
     bindS (lift (job_definition job_type)) (\<lambda>def.
       with_session (global_target (jd_store def)) (cancel_tx w def job_id))"

section \<open>Lemmas: transactions in closed form\<close>

lemma status_value_inj [simp]: "status_value a = status_value b \<longleftrightarrow> a = b"
  by (cases a; cases b) auto

lemma JOB_DEFINITIONS_name: "dict_get JOB_DEFINITIONS ty = Some def \<Longrightarrow> jd_name def = ty"
  by (auto simp: JOB_DEFINITIONS_def dict_get_def split: if_splits)

lemma JOB_DEFINITIONS_event:
  "dict_get JOB_DEFINITIONS ty = Some def \<Longrightarrow> jd_event_type def \<noteq> JOB_STATUS_EVENT_TYPE"
  by (auto simp: JOB_DEFINITIONS_def JOB_STATUS_EVENT_TYPE_def dict_get_def split: if_splits)

definition moved :: "draw \<Rightarrow> DurableJobStatus \<Rightarrow> jdict option \<Rightarrow> string option \<Rightarrow> DurableJobRecord \<Rightarrow> DurableJobRecord" where
  "moved w st res err j = j\<lparr>dj_status := status_value st, dj_result := res, dj_error := err, dj_updated_at := dw_now w\<rparr>"

definition status_event :: "draw \<Rightarrow> string \<Rightarrow> DurableJobStatus \<Rightarrow> jdict option \<Rightarrow> string option \<Rightarrow> OutboxEventRecord" where
  "status_event w i st res err = outbox_record (dw_event_now w) (new_event (dw_event_id w) (dw_event_now w)
     JOB_STATUS_EVENT_TYPE i (job_status_payload i st res err) JOB_STATUS_ROUTING_KEY) None"

lemma moved_simps [simp]:
  "dj_job_id (moved w st res err j) = dj_job_id j" "dj_job_type (moved w st res err j) = dj_job_type j"
  "dj_run_key (moved w st res err j) = dj_run_key j" "dj_payload (moved w st res err j) = dj_payload j"
  "dj_requested_at (moved w st res err j) = dj_requested_at j"
  "dj_status (moved w st res err j) = status_value st" "job_key (moved w st res err j) = job_key j"
  "dj_result (moved w st res err j) = res" "dj_error (moved w st res err j) = err"
  by (simp_all add: moved_def job_key_def)

lemma status_event_simps [simp]:
  "oe_event_id (status_event w i st res err) = str_uuid (dw_event_id w)"
  "oe_event_type (status_event w i st res err) = JOB_STATUS_EVENT_TYPE"
  "oe_aggregate_id (status_event w i st res err) = i"
  "oe_payload (status_event w i st res err) = job_status_payload i st res err"
  by (simp_all add: status_event_def)

definition event_id_fresh :: "db \<Rightarrow> uuid \<Rightarrow> bool" where
  "event_id_fresh d u \<longleftrightarrow> str_uuid u \<notin> oe_event_id ` set (outbox_events d)"

text \<open>A transition on a table with distinct keys: it applies when the job has the expected status,
  and then changes that row and appends its status event; the event identifier must be new.\<close>

lemma job_transition_run:
  assumes wf: "t_wf dj_job_id (durable_jobs d)"
  shows "job_transition w i ex st res err d =
    (case t_get dj_job_id i (durable_jobs d) of
       None \<Rightarrow> (Inr False, d)
     | Some j \<Rightarrow>
         if dj_status j \<noteq> status_value ex then (Inr False, d)
         else let d1 = d\<lparr>durable_jobs := t_merge dj_job_id (moved w st res err j) (durable_jobs d)\<rparr> in
              if event_id_fresh d (dw_event_id w)
              then (Inr True, d1\<lparr>outbox_events := outbox_events d @ [status_event w i st res err]\<rparr>)
              else (Inl SQLAlchemyError, d1))"
proof -
  define p where "p = (\<lambda>j :: DurableJobRecord. dj_job_id j = i \<and> dj_status j = status_value ex)"
  have key: "p r \<Longrightarrow> dj_job_id r = i" for r by (simp add: p_def)
  show ?thesis
  proof (cases "\<exists>j. t_get dj_job_id i (durable_jobs d) = Some j \<and> dj_status j = status_value ex")
    case True
    then obtain j where j: "t_get dj_job_id i (durable_jobs d) = Some j" "dj_status j = status_value ex" by blast
    then have "p j" "dj_job_id (moved w st res err j) = i" by (auto simp: p_def dest: t_get_key)
    then have "t_update p (moved w st res err) (durable_jobs d) =
        ([moved w st res err j], t_merge dj_job_id (moved w st res err j) (durable_jobs d))"
      using t_update_one [OF wf j(1) _ key] by blast
    then show ?thesis using j
      by (auto simp: job_transition_def p_def moved_def [abs_def] bindS_def outbox_add_run
          event_id_fresh_def status_event_def Let_def)
  next
    case False
    then have "t_update p (moved w st res err) (durable_jobs d) = ([], durable_jobs d)"
      using t_update_zero [OF wf key] by (auto simp: p_def)
    then show ?thesis using False
      by (auto simp: job_transition_def p_def moved_def [abs_def] bindS_def split: option.splits)
  qed
qed

definition request_event ::
  "draw \<Rightarrow> DurableJobDefinition \<Rightarrow> string \<Rightarrow> string \<Rightarrow> jdict \<Rightarrow> time option \<Rightarrow> OutboxEventRecord" where
  "request_event w def i rk p av = outbox_record (dw_now w) (new_event (dw_event_id w) (dw_event_now w)
     (jd_event_type def) i (job_requested_payload i (jd_name def) rk p) (jd_routing_key def)) av"

lemma requested_job_simps [simp]:
  "dj_job_id (requested_job now i ty rk p) = i" "dj_job_type (requested_job now i ty rk p) = ty"
  "dj_run_key (requested_job now i ty rk p) = rk" "dj_payload (requested_job now i ty rk p) = p"
  "dj_status (requested_job now i ty rk p) = status_value REQUESTED"
  "job_key (requested_job now i ty rk p) = (ty, rk)"
  by (simp_all add: requested_job_def job_key_def)

text \<open>A request in closed form.\<close>

lemma job_request_run:
  assumes wf: "t_wf job_key (durable_jobs d)" and def: "dict_get JOB_DEFINITIONS ty = Some def"
  shows "job_request w u ty rk p av d =
    (case t_get job_key (ty, rk) (durable_jobs d) of
       Some j \<Rightarrow> (Inr \<lparr>jr_job_id = dj_job_id j, jr_created = False\<rparr>, d)
     | None \<Rightarrow>
         if str_uuid u \<in> dj_job_id ` set (durable_jobs d) then (Inl SQLAlchemyError, d)
         else let d1 = d\<lparr>durable_jobs := durable_jobs d @ [requested_job (dw_now w) (str_uuid u) ty rk p]\<rparr> in
           if event_id_fresh d (dw_event_id w)
           then (Inr \<lparr>jr_job_id = str_uuid u, jr_created = True\<rparr>,
                 d1\<lparr>outbox_events := outbox_events d @ [request_event w def (str_uuid u) rk p av]\<rparr>)
           else (Inl SQLAlchemyError, d1))"
proof -
  have name: "jd_name def = ty" using def by (rule JOB_DEFINITIONS_name)
  have f: "filter (\<lambda>j. dj_job_type j = ty \<and> dj_run_key j = rk) (durable_jobs d) =
      (case t_get job_key (ty, rk) (durable_jobs d) of None \<Rightarrow> [] | Some r \<Rightarrow> [r])"
    using filter_key [OF wf, of "(ty, rk)"] by (simp add: job_key_def)
  show ?thesis
  proof (cases "t_get job_key (ty, rk) (durable_jobs d)")
    case None
    then have "(ty, rk) \<notin> job_key ` set (durable_jobs d)" by (simp add: t_get_None_iff)
    then show ?thesis using None def
      by (simp add: job_request_def insert_job_def name bindS_def outbox_add_run
          event_id_fresh_def request_event_def Let_def)
  next
    case (Some j)
    then have "(ty, rk) \<in> job_key ` set (durable_jobs d)" by (metis t_get_key image_eqI)
    then show ?thesis using Some def f
      by (simp add: job_request_def insert_job_def name bindS_def)
  qed
qed

section \<open>Steps and the history invariant\<close>

inductive job_step :: "db \<Rightarrow> db \<Rightarrow> bool" where
  js_request: "job_request w u ty rk p av d = (Inr r, d') \<Longrightarrow> job_step d d'"
| js_claim: "job_transition w i REQUESTED RUNNING None None d = (Inr b, d') \<Longrightarrow> job_step d d'"
| js_succeed: "job_transition w i RUNNING SUCCEEDED res None d = (Inr b, d') \<Longrightarrow> job_step d d'"
| js_fail: "job_transition w i RUNNING FAILED None (Some e) d = (Inr b, d') \<Longrightarrow> job_step d d'"
| js_cancel: "cancel_tx w def i d = (Inr r, d') \<Longrightarrow> job_step d d'"
| js_relay: "publish_pending publish locked n now done_at (b :: string list, d) = (Inr k, (b', d')) \<Longrightarrow> job_step d d'"
| js_other: "durable_jobs d' = durable_jobs d \<Longrightarrow> outbox_events d' = outbox_events d @ rs \<Longrightarrow>
     t_wf oe_event_id (outbox_events d') \<Longrightarrow> \<forall>r\<in>set rs. oe_event_type r \<noteq> JOB_STATUS_EVENT_TYPE \<Longrightarrow> job_step d d'"

inductive job_reachable :: "db \<Rightarrow> bool" where
  jr_init: "job_reachable empty_db"
| jr_step: "job_reachable d \<Longrightarrow> job_step d d' \<Longrightarrow> job_reachable d'"

text \<open>The statuses reported for a job by the events in the outbox, oldest first.\<close>

definition event_status :: "EventMessage \<Rightarrow> string" where
  "event_status m = (case dict_get (em_payload m) ''status'' of Some (JStr s) \<Rightarrow> s | _ \<Rightarrow> [])"

definition history_of :: "EventMessage list \<Rightarrow> string \<Rightarrow> string list" where
  "history_of ms i = map event_status
     (filter (\<lambda>m. em_event_type m = JOB_STATUS_EVENT_TYPE \<and> em_aggregate_id m = i) ms)"

definition job_history :: "db \<Rightarrow> string \<Rightarrow> string list" where
  "job_history d i = history_of (map relay_message (outbox_events d)) i"

fun status_path :: "DurableJobStatus \<Rightarrow> string list" where
  "status_path REQUESTED = []"
| "status_path RUNNING = [''running'']"
| "status_path SUCCEEDED = [''running'', ''succeeded'']"
| "status_path FAILED = [''running'', ''failed'']"
| "status_path CANCELLED = [''cancelled'']"

definition job_inv :: "db \<Rightarrow> bool" where
  "job_inv d \<longleftrightarrow> t_wf oe_event_id (outbox_events d) \<and> t_wf dj_job_id (durable_jobs d) \<and>
     t_wf job_key (durable_jobs d) \<and>
     (\<forall>j\<in>set (durable_jobs d). \<exists>st. dj_status j = status_value st \<and> job_history d (dj_job_id j) = status_path st) \<and>
     (\<forall>i. i \<notin> dj_job_id ` set (durable_jobs d) \<longrightarrow> job_history d i = [])"

lemma relay_message_simps [simp]:
  "em_event_type (relay_message r) = oe_event_type r"
  "em_aggregate_id (relay_message r) = oe_aggregate_id r"
  "em_payload (relay_message r) = oe_payload r"
  by (simp_all add: relay_message_def event_post_init_def)

lemma job_history_append_other:
  "outbox_events d' = outbox_events d @ rs \<Longrightarrow> \<forall>r\<in>set rs. oe_event_type r \<noteq> JOB_STATUS_EVENT_TYPE \<Longrightarrow>
     job_history d' i = job_history d i"
  by (auto simp: job_history_def history_of_def filter_empty_conv)

lemma job_history_append_status:
  "outbox_events d' = outbox_events d @ [status_event w i st res err] \<Longrightarrow>
     job_history d' k = (if k = i then job_history d i @ [status_value st] else job_history d k)"
  by (simp add: job_history_def history_of_def event_status_def job_status_payload_def dict_get_def)

lemma status_path_move:
  "(a, b) \<in> {(REQUESTED, RUNNING), (RUNNING, SUCCEEDED), (RUNNING, FAILED), (REQUESTED, CANCELLED)} \<Longrightarrow>
     status_path b = status_path a @ [status_value b]"
  by auto

lemma transition_cases:
  assumes "t_wf dj_job_id (durable_jobs d)" "job_transition w i ex st res err d = (Inr b, d')"
  obtains (lost) "\<not> b" "d' = d"
  | (moved) j where "b" "t_get dj_job_id i (durable_jobs d) = Some j" "dj_status j = status_value ex"
      "event_id_fresh d (dw_event_id w)"
      "d' = d\<lparr>durable_jobs := t_merge dj_job_id (moved w st res err j) (durable_jobs d),
             outbox_events := outbox_events d @ [status_event w i st res err]\<rparr>"
proof (cases "t_get dj_job_id i (durable_jobs d)")
  case None
  then show ?thesis using assms(2) lost by (simp add: job_transition_run [OF assms(1)])
next
  case (Some j)
  note run = assms(2) [unfolded job_transition_run [OF assms(1)] Some Let_def, simplified]
  show ?thesis
  proof (cases "dj_status j = status_value ex")
    case True
    then show ?thesis using run Some moved by (cases "event_id_fresh d (dw_event_id w)") simp_all
  next
    case False
    then show ?thesis using run lost by simp
  qed
qed

lemma keys_merge_same:
  assumes "t_get key (key r) t \<noteq> None"
  shows "map key (t_merge key r t) = map key t"
  using assms by (auto simp: keys_merge t_get_None_iff)

definition legal_edges :: "(DurableJobStatus \<times> DurableJobStatus) set" where
  "legal_edges = {(REQUESTED, RUNNING), (RUNNING, SUCCEEDED), (RUNNING, FAILED), (REQUESTED, CANCELLED)}"

lemma job_inv_wf:
  "job_inv d \<Longrightarrow> t_wf dj_job_id (durable_jobs d)" "job_inv d \<Longrightarrow> t_wf job_key (durable_jobs d)"
  "job_inv d \<Longrightarrow> t_wf oe_event_id (outbox_events d)"
  by (simp_all add: job_inv_def)

lemma job_inv_history:
  assumes "job_inv d" "t_get dj_job_id i (durable_jobs d) = Some j" "dj_status j = status_value st"
  shows "job_history d i = status_path st"
proof -
  have j: "j \<in> set (durable_jobs d)" "dj_job_id j = i" using t_get_key [OF assms(2)] by auto
  then obtain st' where "dj_status j = status_value st'" "job_history d i = status_path st'"
    using assms(1) unfolding job_inv_def by blast
  then show ?thesis using assms(3) by simp
qed

lemma job_key_merge:
  assumes wf: "t_wf dj_job_id t" "t_wf job_key t" and j: "t_get dj_job_id i t = Some j"
    and same: "dj_job_id j' = i" "job_key j' = job_key j"
  shows "t_wf job_key (t_merge dj_job_id j' t)"
proof -
  have "map job_key (t_merge dj_job_id j' t) = map job_key t"
    using j same by (induction t) (auto split: if_splits)
  then show ?thesis using wf(2) by (simp add: t_wf_def)
qed

text \<open>A transition along a legal edge keeps the invariant.\<close>

lemma job_inv_transition:
  assumes inv: "job_inv d" and run: "job_transition w i ex st res err d = (Inr b, d')"
    and edge: "(ex, st) \<in> legal_edges"
  shows "job_inv d'"
  using job_inv_wf(1) [OF inv] run
proof (cases rule: transition_cases)
  case lost
  then show ?thesis using inv by simp
next
  case (moved j)
  note wf = job_inv_wf [OF inv]
  let ?j = "moved w st res err j" and ?e = "status_event w i st res err"
  have j: "j \<in> set (durable_jobs d)" "dj_job_id j = i" using t_get_key [OF moved(2)] by auto
  have set': "set (durable_jobs d') = insert ?j {x \<in> set (durable_jobs d). dj_job_id x \<noteq> i}"
    using moved(5) set_merge [OF wf(1)] j by simp
  have hist: "job_history d' k = (if k = i then job_history d i @ [status_value st] else job_history d k)" for k
    using moved(5) by (intro job_history_append_status) simp
  have path: "job_history d' i = status_path st"
    using hist [of i] job_inv_history [OF inv moved(2,3)] edge status_path_move [of ex st]
    by (simp add: legal_edges_def)
  have "\<forall>x\<in>set (durable_jobs d'). \<exists>s. dj_status x = status_value s \<and> job_history d' (dj_job_id x) = status_path s"
  proof
    fix x assume "x \<in> set (durable_jobs d')"
    then consider "x = ?j" | "x \<in> set (durable_jobs d)" "dj_job_id x \<noteq> i" using set' by auto
    then show "\<exists>s. dj_status x = status_value s \<and> job_history d' (dj_job_id x) = status_path s"
    proof cases
      case 1
      then show ?thesis using path j by auto
    next
      case 2
      then show ?thesis using inv hist unfolding job_inv_def by simp
    qed
  qed
  moreover have "k \<notin> dj_job_id ` set (durable_jobs d') \<longrightarrow> job_history d' k = []" for k
    using inv hist [of k] set' j unfolding job_inv_def by auto
  moreover have "t_wf oe_event_id (outbox_events d')"
    using wf(3) moved(4,5) by (simp add: t_wf_def event_id_fresh_def)
  moreover have "t_wf dj_job_id (durable_jobs d')" "t_wf job_key (durable_jobs d')"
    using moved(5) wf(1) job_key_merge [OF wf(1,2) moved(2)] j by simp_all
  ultimately show ?thesis unfolding job_inv_def by blast
qed

lemma job_inv_request:
  assumes inv: "job_inv d" and run: "job_request w u ty rk p av d = (Inr r, d')"
  shows "job_inv d'"
proof (cases "dict_get JOB_DEFINITIONS ty")
  case None
  then show ?thesis using run by (simp add: job_request_def)
next
  case (Some def)
  note wf = job_inv_wf [OF inv]
  note run' = run [unfolded job_request_run [OF wf(2) Some]]
  show ?thesis
  proof (cases "t_get job_key (ty, rk) (durable_jobs d)")
    case None
    let ?j = "requested_job (dw_now w) (str_uuid u) ty rk p"
    let ?e = "request_event w def (str_uuid u) rk p av"
    have new: "str_uuid u \<notin> dj_job_id ` set (durable_jobs d)" "event_id_fresh d (dw_event_id w)"
      and d': "d' = d\<lparr>durable_jobs := durable_jobs d @ [?j], outbox_events := outbox_events d @ [?e]\<rparr>"
      using run' None by (auto simp: Let_def split: if_splits)
    have "oe_event_type ?e \<noteq> JOB_STATUS_EVENT_TYPE" "oe_event_id ?e = str_uuid (dw_event_id w)"
      using JOB_DEFINITIONS_event [OF Some] by (simp_all add: request_event_def)
    then have hist: "job_history d' i = job_history d i" and ev: "t_wf oe_event_id (outbox_events d')" for i
      using d' new(2) wf(3) job_history_append_other [of d' d "[?e]"]
      by (simp_all add: t_wf_def event_id_fresh_def)
    have "job_history d (str_uuid u) = []" using inv new(1) unfolding job_inv_def by blast
    then have "\<forall>x\<in>set (durable_jobs d'). \<exists>s. dj_status x = status_value s \<and> job_history d' (dj_job_id x) = status_path s"
      using inv hist d' unfolding job_inv_def by (auto intro: exI [of _ REQUESTED])
    moreover have "t_wf dj_job_id (durable_jobs d')" "t_wf job_key (durable_jobs d')"
      using d' new(1) wf None by (auto simp: t_wf_def t_get_None_iff)
    moreover have "\<forall>i. i \<notin> dj_job_id ` set (durable_jobs d') \<longrightarrow> job_history d' i = []"
      using inv hist d' unfolding job_inv_def by simp
    ultimately show ?thesis using ev unfolding job_inv_def by blast
  next
    case (Some j)
    then show ?thesis using run' inv by simp
  qed
qed

lemma cancel_tx_Inr:
  assumes "cancel_tx w def i d = (Inr r, d')"
  shows "d' = d \<or> (\<exists>b. job_transition w i REQUESTED CANCELLED None None d = (Inr b, d'))"
  using assms
  by (auto simp: cancel_tx_def job_get_def bindS_def split: option.splits if_splits prod.splits sum.splits)

lemma job_inv_events:
  assumes "job_inv d" "durable_jobs d' = durable_jobs d" "t_wf oe_event_id (outbox_events d')"
    "\<And>i. job_history d' i = job_history d i"
  shows "job_inv d'"
  using assms unfolding job_inv_def by auto

theorem job_inv_step: "job_step d d' \<Longrightarrow> job_inv d \<Longrightarrow> job_inv d'"
proof (induction rule: job_step.induct)
  case (js_cancel w def i d r d')
  then show ?case
    using cancel_tx_Inr [OF js_cancel.hyps] job_inv_transition [of d w i REQUESTED CANCELLED]
    by (auto simp: legal_edges_def)
next
  case (js_relay publish locked n now done_at b d k b' d')
  note wf = job_inv_wf(3) [OF js_relay.prems]
  have "durable_jobs d' = durable_jobs d"
    using relay_frame(1) [OF wf js_relay.hyps] by (metis db.select_convs(3) db.surjective db.update_convs(1))
  moreover have "t_wf oe_event_id (outbox_events d')"
    using wf relay_frame(2) [OF wf js_relay.hyps] by (simp add: t_wf_def)
  moreover have "job_history d' i = job_history d i" for i
    using relay_keeps_events [OF wf js_relay.hyps] by (simp add: job_history_def)
  ultimately show ?case using js_relay.prems job_inv_events by blast
next
  case (js_other d' d rs)
  then show ?case using job_inv_events [of d d'] job_history_append_other by blast
qed (auto intro: job_inv_request job_inv_transition simp: legal_edges_def)

lemma job_inv_empty: "job_inv empty_db"
  by (simp add: job_inv_def empty_db_def job_history_def history_of_def)

lemma job_reachable_inv: "job_reachable d \<Longrightarrow> job_inv d"
  by (induction rule: job_reachable.induct) (auto intro: job_inv_empty job_inv_step)

text \<open>
  C1: in every state reachable by any interleaving of job requests, claims, completions, failures,
  cancellations, relay runs and other transactions, each job has one of the five statuses and the
  status events recorded for it in the outbox are exactly its path there: none while requested,
  then running, then succeeded or failed, or just cancelled. So a status never changes
  without its event and no event is written without its change.
\<close>

theorem job_history_is_path:
  assumes "job_reachable d" and "j \<in> set (durable_jobs d)"
  shows "\<exists>st. dj_status j = status_value st \<and> job_history d (dj_job_id j) = status_path st"
  using job_reachable_inv [OF assms(1)] assms(2) unfolding job_inv_def by blast


section \<open>Edges\<close>

lemma transition_edges:
  assumes inv: "job_inv d" and run: "job_transition w i ex st res err d = (Inr b, d')"
    and j: "t_get dj_job_id k (durable_jobs d) = Some j"
  shows "\<exists>j'. t_get dj_job_id k (durable_jobs d') = Some j' \<and>
     (j' = j \<or> k = i \<and> dj_status j = status_value ex \<and> j' = moved w st res err j)"
  using job_inv_wf(1) [OF inv] run
proof (cases rule: transition_cases)
  case (moved j0)
  then show ?thesis using j t_get_key [OF moved(2)] by auto
qed (use j in simp)

definition same_job :: "DurableJobRecord \<Rightarrow> DurableJobRecord \<Rightarrow> bool" where
  "same_job j j' \<longleftrightarrow> dj_job_id j' = dj_job_id j \<and> dj_job_type j' = dj_job_type j \<and>
     dj_run_key j' = dj_run_key j \<and> dj_payload j' = dj_payload j \<and> dj_requested_at j' = dj_requested_at j"

text \<open>
  A step never removes a job or changes its identity, payload or request time; it leaves the
  row alone or moves its status along one of the four edges. In particular a succeeded, failed or
  cancelled job stays as it is for ever.
\<close>

theorem job_step_edges:
  assumes "job_reachable d" and "job_step d d'" and "t_get dj_job_id i (durable_jobs d) = Some j"
  shows "\<exists>j'. t_get dj_job_id i (durable_jobs d') = Some j' \<and> same_job j j' \<and>
    (j' = j \<or> (\<exists>a b. (a, b) \<in> legal_edges \<and> dj_status j = status_value a \<and> dj_status j' = status_value b))"
proof -
  note inv = job_reachable_inv [OF assms(1)]
  have tr: ?thesis if "job_transition w k ex st res err d = (Inr b, d')" "(ex, st) \<in> legal_edges"
    for w k ex st res err b
    using transition_edges [OF inv that(1) assms(3)] that(2) by (auto simp: same_job_def)
  have same: ?thesis if "durable_jobs d' = durable_jobs d"
    using that assms(3) by (simp add: same_job_def)
  from assms(2) show ?thesis
  proof cases
    case (js_request w u ty rk p av r)
    show ?thesis
    proof (cases "dict_get JOB_DEFINITIONS ty")
      case (Some def)
      show ?thesis using js_request assms(3) unfolding job_request_run [OF job_inv_wf(2) [OF inv] Some]
        by (auto simp: Let_def same_job_def split: option.splits if_splits)
    qed (use js_request in \<open>simp add: job_request_def\<close>)
  next
    case (js_cancel w def k r)
    then show ?thesis using cancel_tx_Inr [OF js_cancel] tr same by (auto simp: legal_edges_def)
  next
    case (js_relay publish locked n now done_at b k b')
    then show ?thesis using relay_frame(1) [OF job_inv_wf(3) [OF inv] js_relay] same
      by (metis db.select_convs(3) db.surjective db.update_convs(1))
  qed (use tr same in \<open>auto simp: legal_edges_def\<close>)
qed

section \<open>Worker and endpoints\<close>

lemma transition_tx:
  assumes "job_inv d" "t_get dj_job_id i (durable_jobs d) = Some j" "dj_status j = status_value ex"
    "event_id_fresh d (dw_event_id w)"
  shows "job_transition w i ex st res err d =
    (Inr True, d\<lparr>durable_jobs := t_merge dj_job_id (moved w st res err j) (durable_jobs d),
                 outbox_events := outbox_events d @ [status_event w i st res err]\<rparr>)"
  using assms job_inv_wf(1) [OF assms(1)] by (simp add: job_transition_run Let_def)

lemma transition_tx_lost:
  assumes "job_inv d" "\<And>j. t_get dj_job_id i (durable_jobs d) = Some j \<Longrightarrow> dj_status j \<noteq> status_value ex"
  shows "job_transition w i ex st res err d = (Inr False, d)"
  using assms job_inv_wf(1) [OF assms(1)] by (auto simp: job_transition_run split: option.splits)

text \<open>
  The worker on a message whose job is requested. The job is first committed as running; then
  the handler runs on the resulting databases. If it returns, the job is committed as succeeded
  with the handler's result; if it raises, the job is committed as failed with the error's text
  and the exception goes on to the consumer. Each of the two changes comes with its status event.
\<close>

theorem worker_executes:
  assumes "worker_parse T m = Inr (def, x)"
    and "engine_for rg (global_target (jd_store def)) = Inr d" and "job_inv d"
    and "t_get dj_job_id (je_job_id x) (durable_jobs d) = Some j" and "dj_status j = status_value REQUESTED"
    and "event_id_fresh d (dw_event_id w1)"
    and "handler x (commit_to (global_target (jd_store def))
           (d\<lparr>durable_jobs := t_merge dj_job_id (moved w1 RUNNING None None j) (durable_jobs d),
              outbox_events := outbox_events d @ [status_event w1 (je_job_id x) RUNNING None None]\<rparr>) rg) = (r, rg2)"
    and "engine_for rg2 (global_target (jd_store def)) = Inr d2" and "job_inv d2"
    and "t_get dj_job_id (je_job_id x) (durable_jobs d2) = Some j2" and "dj_status j2 = status_value RUNNING"
    and "event_id_fresh d2 (dw_event_id w2)"
  shows "worker_handle T handler w1 w2 m rg =
    (let (st, res, err) = (case r of Inr res \<Rightarrow> (SUCCEEDED, res, None)
                           | Inl e \<Rightarrow> (FAILED, None, Some (error_text T e)))
     in (case r of Inr _ \<Rightarrow> Inr () | Inl e \<Rightarrow> Inl e,
         commit_to (global_target (jd_store def))
           (d2\<lparr>durable_jobs := t_merge dj_job_id (moved w2 st res err j2) (durable_jobs d2),
               outbox_events := outbox_events d2 @ [status_event w2 (je_job_id x) st res err]\<rparr>) rg2))"
  using assms transition_tx [OF assms(3,4,5,6)] transition_tx [OF assms(9,10,11,12)]
  by (cases r) (simp_all add: worker_handle_def bindS_def catchS_def with_session_run)

text \<open>
  A message for a job that is not in the requested state (delivered again, already claimed by
  another worker, cancelled, finished, or unknown) changes nothing, does not run the handler and
  is acknowledged. This includes a job left running by a worker that died: no message takes it up
  again.
\<close>

theorem worker_skips:
  assumes "worker_parse T m = Inr (def, x)"
    and "engine_for rg (global_target (jd_store def)) = Inr d" and "job_inv d"
    and "\<forall>j. t_get dj_job_id (je_job_id x) (durable_jobs d) = Some j \<longrightarrow> dj_status j \<noteq> status_value REQUESTED"
  shows "worker_handle T handler w1 w2 m rg = (Inr (), rg)"
proof -
  have "job_transition w1 (je_job_id x) REQUESTED RUNNING None None d = (Inr False, d)"
    using assms(3,4) by (intro transition_tx_lost) auto
  then show ?thesis using assms(1,2)
    by (simp add: worker_handle_def bindS_def with_session_def)
qed

text \<open>
  C8: the cancel endpoint on an existing job of the given type: a requested job becomes cancelled,
  with its event; a cancelled job is reported again without a change; a running or finished job
  is refused with status 409 and nothing changes.
\<close>

theorem cancel_outcome:
  assumes "dict_get JOB_DEFINITIONS ty = Some def"
    and "engine_for rg (global_target (jd_store def)) = Inr d" and "job_inv d"
    and "t_get dj_job_id i (durable_jobs d) = Some j" and "dj_job_type j = ty"
    and "dj_status j = status_value st" and "event_id_fresh d (dw_event_id w)"
  shows "cancel_durable_job w ty i rg =
    (if st = CANCELLED then (Inr (status_response j), rg)
     else if st = REQUESTED then
       (Inr (status_response (moved w CANCELLED None None j)),
        commit_to (global_target (jd_store def))
          (d\<lparr>durable_jobs := t_merge dj_job_id (moved w CANCELLED None None j) (durable_jobs d),
             outbox_events := outbox_events d @ [status_event w i CANCELLED None None]\<rparr>) rg)
     else (Inl (HTTPException 409 ''durable job is already running or finished''), rg))"
proof -
  note name = JOB_DEFINITIONS_name [OF assms(1)]
  have i: "dj_job_id j = i" using t_get_key [OF assms(4)] by simp
  note base = assms name i cancel_durable_job_def job_definition_def cancel_tx_def job_get_def
    with_session_def bindS_def
  show ?thesis
  proof (cases "st = REQUESTED")
    case True
    then show ?thesis using transition_tx [OF assms(3,4,6), of w CANCELLED None None]
      by (simp add: base)
  next
    case False
    then have "job_transition w i REQUESTED CANCELLED None None d = (Inr False, d)"
      using assms by (intro transition_tx_lost) (auto simp del: status_value.simps)
    then show ?thesis using False by (cases st) (simp_all add: base)
  qed
qed

text \<open>
  Requesting a job is idempotent. The first request for a type and run key adds one job row
  and one event with the same identifier; every later request for them, whatever its payload and
  however often it is repeated, returns that identifier, adds nothing and reports that nothing
  was created.
\<close>

theorem job_request_idempotent:
  assumes "job_inv d" and "dict_get JOB_DEFINITIONS ty = Some def"
    and "job_request w u ty rk p av d = (Inr r, d')"
  shows "job_request w' u' ty rk p' av' d' = (Inr \<lparr>jr_job_id = jr_job_id r, jr_created = False\<rparr>, d') \<and>
    (if jr_created r
     then durable_jobs d' = durable_jobs d @ [requested_job (dw_now w) (jr_job_id r) ty rk p] \<and>
          outbox_events d' = outbox_events d @ [request_event w def (jr_job_id r) rk p av]
     else d' = d)"
proof -
  note wf = job_inv_wf(2) [OF assms(1)]
  have wf': "t_wf job_key (durable_jobs d')"
    using job_inv_request [OF assms(1,3)] by (rule job_inv_wf)
  note run = assms(3) [unfolded job_request_run [OF wf assms(2)]]
  note again = job_request_run [OF wf' assms(2), of w' u' rk p' av']
  show ?thesis
  proof (cases "t_get job_key (ty, rk) (durable_jobs d)")
    case None
    then show ?thesis using run again by (auto simp: Let_def split: if_splits)
  next
    case (Some j)
    then show ?thesis using run again by auto
  qed
qed

section \<open>Examples\<close>

text \<open>A database after one request, and the registry that holds it.\<close>

definition demo_draw :: "uuid \<Rightarrow> draw" where
  "demo_draw u = \<lparr>dw_now = 1, dw_event_now = 1, dw_event_id = u\<rparr>"

definition demo_job :: DurableJobRecord where
  "demo_job = requested_job 1 (str_uuid 1) ''news_index'' ''k'' []"

definition demo_def :: DurableJobDefinition where
  "demo_def = the (dict_get JOB_DEFINITIONS ''news_index'')"

definition demo_jobs :: db where
  "demo_jobs = empty_db\<lparr>durable_jobs := [demo_job],
     outbox_events := [request_event (demo_draw 7) demo_def (str_uuid 1) ''k'' [] None]\<rparr>"

definition demo_dbs :: dbs where
  "demo_dbs = \<lparr>rg_global = [(''automation'', demo_jobs)], rg_shard = []\<rparr>"

lemma demo_definition: "dict_get JOB_DEFINITIONS ''news_index'' = Some demo_def"
  by (simp add: demo_def_def JOB_DEFINITIONS_def dict_get_def)

lemma demo_def_simps [simp]: "jd_store demo_def = ''automation''" "jd_name demo_def = ''news_index''"
  "jd_event_type demo_def = ''news.index.requested''"
  by (simp_all add: demo_def_def JOB_DEFINITIONS_def dict_get_def)

lemma demo_request:
  "job_request (demo_draw 7) 1 ''news_index'' ''k'' [] None empty_db =
     (Inr \<lparr>jr_job_id = str_uuid 1, jr_created = True\<rparr>, demo_jobs)"
proof -
  have "t_wf job_key (durable_jobs empty_db)" by (simp add: empty_db_def)
  from job_request_run [OF this demo_definition] show ?thesis
    by (simp add: demo_jobs_def demo_job_def demo_draw_def event_id_fresh_def empty_db_def)
qed

lemma demo_reachable: "job_reachable demo_jobs"
  by (rule jr_step [OF jr_init js_request [OF demo_request]])

lemma demo_job_get: "t_get dj_job_id (str_uuid 1) (durable_jobs demo_jobs) = Some demo_job"
  by (simp add: demo_jobs_def demo_job_def)

lemma demo_fresh: "u \<noteq> 7 \<Longrightarrow> event_id_fresh demo_jobs u"
  by (simp add: demo_jobs_def event_id_fresh_def request_event_def demo_draw_def)

lemma demo_engine: "engine_for demo_dbs (global_target ''automation'') = Inr demo_jobs"
  by (simp add: engine_for_def demo_dbs_def dict_get_def)

lemma demo_status: "dj_status demo_job = status_value REQUESTED"
  by (simp add: demo_job_def)

theorem job_history_is_path_witness:
  "\<exists>st. dj_status demo_job = status_value st \<and> job_history demo_jobs (dj_job_id demo_job) = status_path st"
  using demo_reachable by (rule job_history_is_path) (simp add: demo_jobs_def)


theorem job_step_edges_witness:
  "\<exists>j'. t_get dj_job_id (str_uuid 1) (durable_jobs (demo_jobs\<lparr>processed_messages := []\<rparr>)) = Some j' \<and> same_job demo_job j'"
proof -
  have "job_step demo_jobs (demo_jobs\<lparr>processed_messages := []\<rparr>)"
    by (rule js_other [where rs = "[]"]) (use job_inv_wf(3) [OF job_reachable_inv [OF demo_reachable]] in simp_all)
  from job_step_edges [OF demo_reachable this demo_job_get] show ?thesis by blast
qed

definition demo_text :: pytext where
  "demo_text = \<lparr>py_str_exn = (\<lambda>_. ''boom''), py_type_name = (\<lambda>_. ''E''), py_repr = (\<lambda>_. [])\<rparr>"

definition demo_message :: EventMessage where
  "demo_message = new_event 7 1 ''news.index.requested'' (str_uuid 1)
     (job_requested_payload (str_uuid 1) ''news_index'' ''k'' []) ''news.index.requested''"

definition demo_execution :: DurableJobExecution where
  "demo_execution = \<lparr>je_job_id = str_uuid 1, je_job_type = ''news_index'', je_run_key = ''k'', je_payload = []\<rparr>"

lemma demo_parse: "worker_parse demo_text demo_message = Inr (demo_def, demo_execution)"
  by (simp add: worker_parse_def demo_message_def demo_execution_def job_requested_payload_def member_def
      dict_get_def [of "[_, _, _, _]"] demo_definition)

definition demo_running :: db where
  "demo_running = demo_jobs\<lparr>durable_jobs := t_merge dj_job_id (moved (demo_draw 8) RUNNING None None demo_job) (durable_jobs demo_jobs),
     outbox_events := outbox_events demo_jobs @ [status_event (demo_draw 8) (str_uuid 1) RUNNING None None]\<rparr>"

lemma demo_claim: "job_transition (demo_draw 8) (str_uuid 1) REQUESTED RUNNING None None demo_jobs = (Inr True, demo_running)"
  unfolding demo_running_def
  by (intro transition_tx job_reachable_inv demo_reachable demo_job_get demo_status demo_fresh)
     (simp add: demo_draw_def)

lemma demo_running_reachable: "job_reachable demo_running"
  by (rule jr_step [OF demo_reachable js_claim [OF demo_claim]])

lemma demo_running_get:
  "t_get dj_job_id (str_uuid 1) (durable_jobs demo_running) = Some (moved (demo_draw 8) RUNNING None None demo_job)"
  by (simp add: demo_running_def demo_job_def)

theorem worker_executes_witness:
  "fst (worker_handle demo_text (\<lambda>x. ret (Some [(''n'', JInt 1)])) (demo_draw 8) (demo_draw 9) demo_message demo_dbs) = Inr ()"
proof -
  let ?t = "global_target (jd_store demo_def)"
  have h: "(\<lambda>x. ret (Some [(''n'', JInt 1)])) demo_execution (commit_to ?t
      (demo_jobs\<lparr>durable_jobs := t_merge dj_job_id (moved (demo_draw 8) RUNNING None None demo_job) (durable_jobs demo_jobs),
        outbox_events := outbox_events demo_jobs @ [status_event (demo_draw 8) (je_job_id demo_execution) RUNNING None None]\<rparr>) demo_dbs)
      = (Inr (Some [(''n'', JInt 1)]), commit_to ?t demo_running demo_dbs)"
    by (simp add: demo_running_def demo_execution_def)
  have f: "event_id_fresh demo_running (dw_event_id (demo_draw 9))"
    using demo_fresh [of 9] by (simp add: event_id_fresh_def demo_running_def demo_draw_def)
  show ?thesis
    using worker_executes [where handler = "\<lambda>x. ret (Some [(''n'', JInt 1)])", OF demo_parse _ job_reachable_inv [OF demo_reachable] _ demo_status _ h _
        job_reachable_inv [OF demo_running_reachable] _ _ f] demo_engine demo_job_get demo_running_get demo_fresh [of 8]
    by (simp add: demo_execution_def demo_draw_def)
qed

theorem worker_skips_witness:
  "worker_handle demo_text (\<lambda>x. raise RedisError) (demo_draw 9) (demo_draw 10) demo_message
     \<lparr>rg_global = [(''automation'', demo_running)], rg_shard = []\<rparr> = (Inr (), \<lparr>rg_global = [(''automation'', demo_running)], rg_shard = []\<rparr>)"
  using demo_parse
  by (rule worker_skips [OF _ _ job_reachable_inv [OF demo_running_reachable]])
     (simp_all add: engine_for_def dict_get_def demo_execution_def demo_running_get)

theorem cancel_outcome_witness:
  "fst (cancel_durable_job (demo_draw 8) ''news_index'' (str_uuid 1) demo_dbs) =
     Inr (status_response (moved (demo_draw 8) CANCELLED None None demo_job))"
proof -
  have f: "event_id_fresh demo_jobs (dw_event_id (demo_draw 8))"
    using demo_fresh [of 8] by (simp add: demo_draw_def)
  show ?thesis
    using cancel_outcome [OF demo_definition _ job_reachable_inv [OF demo_reachable] demo_job_get _ demo_status f] demo_engine
    by (simp add: demo_job_def)
qed

theorem job_request_idempotent_witness:
  "job_request (demo_draw 8) 2 ''news_index'' ''k'' [(''a'', JNull)] None demo_jobs =
     (Inr \<lparr>jr_job_id = str_uuid 1, jr_created = False\<rparr>, demo_jobs)"
  using job_request_idempotent [OF job_inv_empty demo_definition demo_request] by simp

end
