(* ===== verification/KisMarket.thy ===== *)
theory KisMarket
  imports KisToken Repositories DurableJobs
begin

text \<open>
  The read-only KIS market data client (\<open>infrastructure/kis_market_data.py\<close>) with its cache of
  prices and daily candles, and the two places that store what it returns
  (\<open>application/market_price_snapshots.py\<close>, \<open>modules/market_history/handlers.py\<close>).
  The client runs on the world of the token coordinator; a handler that also writes to the databases
  runs on a \<open>plat\<close>, the databases beside the world.
\<close>

section \<open>Databases and services\<close>

record 's plat =
  pl_dbs :: dbs
  pl_world :: "'s world"

definition on_store :: "(dbs, 'a) io \<Rightarrow> ('s plat, 'a) io" where
  "on_store m p = (case m (pl_dbs p) of (r, d) \<Rightarrow> (r, p\<lparr>pl_dbs := d\<rparr>))"

definition on_world :: "('s world, 'a) io \<Rightarrow> ('s plat, 'a) io" where
  "on_world m p = (case m (pl_world p) of (r, w) \<Rightarrow> (r, p\<lparr>pl_world := w\<rparr>))"

section \<open>The client\<close>

record KisDomesticStockPrice =
  kp_stock_code :: string
  kp_current_price :: string
  kp_output :: jdict

record KisDomesticDailyCandle =
  kd_stock_code :: string
  kd_trading_date :: string
  kd_open_price :: string
  kd_high_price :: string
  kd_low_price :: string
  kd_close_price :: string
  kd_volume :: int

record 's market_client =
  mc_env :: "'s kis_env"
  mc_price_cache :: "'s kv_ops option"
  mc_text :: pytext

text \<open>\<open>KisMarketDataClient.from_environment\<close>. The order differs from the coordinator's own: the
  credentials come first.\<close>

definition market_client_from_environment ::
  "('r, 'p) kis_libs \<Rightarrow> pytext \<Rightarrow> (string, string) dict \<Rightarrow> ('r \<times> 'p) market_client result" where
  "market_client_from_environment L T env =
     bindE (token_credentials_from_environment env) (\<lambda>credentials.
     bindE (provider_config_from_environment env) (\<lambda>provider.
     bindE (kv_config_from_environment env) (\<lambda>cache.
     bindE (lock_config_from_environment env) (\<lambda>lock.
     bindE (new_coordinator (coordinator L provider lock cache credentials)) (\<lambda>k.
       Inr \<lparr>mc_env = k, mc_price_cache = Some (ke_cache k), mc_text = T\<rparr>)))))"

definition is_stock_code :: "string \<Rightarrow> bool" where
  "is_stock_code s \<longleftrightarrow> length s = 6 \<and> list_all dec_char s"

definition price_cache_key :: "'s kis_env \<Rightarrow> string \<Rightarrow> string" where
  "price_cache_key env stock_code = ''market:domestic-price:'' @ identity_suffix env @ '':'' @ stock_code"

definition daily_cache_key :: "'s kis_env \<Rightarrow> string \<Rightarrow> string" where
  "daily_cache_key env stock_code = ''market:domestic-daily:'' @ identity_suffix env @ '':'' @ stock_code"

definition market_headers :: "'s kis_env \<Rightarrow> KisAccessToken \<Rightarrow> string \<Rightarrow> (string, string) dict" where
  "market_headers env token tr_id = [
     (''content-type'', ''application/json''),
     (''accept'', ''text/plain''),
     (''charset'', ''UTF-8''),
     (''authorization'', kt_token_type token @ '' '' @ kt_value token),
     (''appkey'', kc_app_key (ke_credentials env)),
     (''appsecret'', kc_app_secret (ke_credentials env)),
     (''tr_id'', tr_id),
     (''custtype'', ''P''),
     (''tr_cont'', '''')]"

definition get_request :: "string \<Rightarrow> (string, string) dict \<Rightarrow> (string, string) dict \<Rightarrow> ExternalRequest" where
  "get_request path headers params = (plain_request ''GET'' path)\<lparr>er_headers := Some headers, er_params := Some params,
     er_retry_safe := Some True\<rparr>"

definition price_request :: "'s kis_env \<Rightarrow> KisAccessToken \<Rightarrow> string \<Rightarrow> ExternalRequest" where
  "price_request env token stock_code = get_request ''/uapi/domestic-stock/v1/quotations/inquire-price''
     (market_headers env token ''FHKST01010100'')
     [(''FID_COND_MRKT_DIV_CODE'', ''J''), (''FID_INPUT_ISCD'', stock_code)]"

definition daily_request :: "'s kis_env \<Rightarrow> KisAccessToken \<Rightarrow> string \<Rightarrow> ExternalRequest" where
  "daily_request env token stock_code = get_request ''/uapi/domestic-stock/v1/quotations/inquire-daily-price''
     (market_headers env token ''FHKST01010400'')
     [(''FID_COND_MRKT_DIV_CODE'', ''J''), (''FID_INPUT_ISCD'', stock_code), (''FID_PERIOD_DIV_CODE'', ''D''),
      (''FID_ORG_ADJ_PRC'', ''0'')]"

section \<open>Responses\<close>

text \<open>\<open>json.loads(content)\<close> under \<open>except json.JSONDecodeError\<close>: bytes that are not UTF-8 raise
  \<open>UnicodeDecodeError\<close>, which is not caught.\<close>

definition loads_or :: "exn \<Rightarrow> string \<Rightarrow> json result" where
  "loads_or invalid content = catchE (json_loads_bytes content) (\<lambda>e. Inl (if e = JSONDecodeError then invalid else e))"

definition price_invalid :: exn where
  "price_invalid = KisMarketDataError ''KIS domestic stock price response is invalid''"

definition parse_price_response :: "pytext \<Rightarrow> string \<Rightarrow> int \<Rightarrow> string \<Rightarrow> KisDomesticStockPrice result" where
  "parse_price_response T stock_code status_code content =
     (if \<not> (200 \<le> status_code \<and> status_code < 300)
      then Inl (KisMarketDataError (''KIS domestic stock price returned HTTP '' @ string_of_int status_code))
      else bindE (loads_or price_invalid content) (\<lambda>payload. case payload of
        JObj d \<Rightarrow>
          if dict_get d ''rt_cd'' \<noteq> Some (JStr ''0'')
          then Inl (KisMarketDataError (''KIS domestic stock price failed: '' @
            (case dict_get d ''msg1'' of None \<Rightarrow> ''unknown KIS error'' | Some m \<Rightarrow> py_str T m)))
          else (case dict_get d ''output'' of
            Some (JObj output) \<Rightarrow>
              (case dict_get output ''stck_prpr'' of
                 Some (JStr current_price) \<Rightarrow>
                   if current_price = [] then Inl price_invalid
                   else Inr \<lparr>kp_stock_code = stock_code, kp_current_price = current_price, kp_output = output\<rparr>
               | _ \<Rightarrow> Inl price_invalid)
          | _ \<Rightarrow> Inl price_invalid)
      | _ \<Rightarrow> Inl price_invalid))"

definition daily_invalid :: exn where
  "daily_invalid = KisMarketDataError ''KIS domestic daily price response is invalid''"

text \<open>\<open>isinstance(value, str) and value\<close>\<close>

definition nonempty_str :: "json option \<Rightarrow> string option" where
  "nonempty_str v = (case v of Some (JStr s) \<Rightarrow> if s = [] then None else Some s | _ \<Rightarrow> None)"

definition parse_candle :: "string \<Rightarrow> json \<Rightarrow> KisDomesticDailyCandle result" where
  "parse_candle stock_code item = (case item of
       JObj d \<Rightarrow>
         (case (nonempty_str (dict_get d ''stck_bsop_date''), nonempty_str (dict_get d ''stck_oprc''),
                nonempty_str (dict_get d ''stck_hgpr''), nonempty_str (dict_get d ''stck_lwpr''),
                nonempty_str (dict_get d ''stck_clpr''), nonempty_str (dict_get d ''acml_vol'')) of
            (Some trading_date, Some open_price, Some high_price, Some low_price, Some close_price, Some volume) \<Rightarrow>
              if length trading_date \<noteq> 8 \<or> \<not> isdigit trading_date \<or> \<not> isdigit volume then Inl daily_invalid
              else bindE (py_int volume) (\<lambda>v.
                Inr \<lparr>kd_stock_code = stock_code, kd_trading_date = trading_date, kd_open_price = open_price,
                     kd_high_price = high_price, kd_low_price = low_price, kd_close_price = close_price, kd_volume = v\<rparr>)
          | _ \<Rightarrow> Inl daily_invalid)
     | _ \<Rightarrow> Inl daily_invalid)"

definition parse_daily_price_response :: "string \<Rightarrow> int \<Rightarrow> string \<Rightarrow> KisDomesticDailyCandle list result" where
  "parse_daily_price_response stock_code status_code content =
     (if \<not> (200 \<le> status_code \<and> status_code < 300)
      then Inl (KisMarketDataError (''KIS domestic daily price returned HTTP '' @ string_of_int status_code))
      else bindE (loads_or daily_invalid content) (\<lambda>payload. case payload of
        JObj d \<Rightarrow>
          if dict_get d ''rt_cd'' \<noteq> Some (JStr ''0'') then Inl daily_invalid
          else (case dict_get d ''output'' of Some (JArr output) \<Rightarrow> mapE (parse_candle stock_code) output
                | _ \<Rightarrow> Inl daily_invalid)
      | _ \<Rightarrow> Inl daily_invalid))"

section \<open>The cache\<close>

definition cached_price :: "string \<Rightarrow> string \<Rightarrow> KisDomesticStockPrice option" where
  "cached_price stock_code value = (case json_loads value of
       Inr (JObj d) \<Rightarrow> (case (dict_get d ''output'', dict_get d ''current_price'') of
           (Some (JObj output), Some (JStr current_price)) \<Rightarrow>
             Some \<lparr>kp_stock_code = stock_code, kp_current_price = current_price, kp_output = output\<rparr>
         | _ \<Rightarrow> None)
     | _ \<Rightarrow> None)"

definition price_payload :: "KisDomesticStockPrice \<Rightarrow> string" where
  "price_payload price = json_dumps True (JObj [(''current_price'', JStr (kp_current_price price)),
     (''output'', JObj (kp_output price))])"

definition candle_json :: "KisDomesticDailyCandle \<Rightarrow> json" where
  "candle_json c = JObj [(''stck_bsop_date'', JStr (kd_trading_date c)), (''stck_oprc'', JStr (kd_open_price c)),
     (''stck_hgpr'', JStr (kd_high_price c)), (''stck_lwpr'', JStr (kd_low_price c)),
     (''stck_clpr'', JStr (kd_close_price c)), (''acml_vol'', JStr (string_of_int (kd_volume c)))]"

definition candles_payload :: "KisDomesticDailyCandle list \<Rightarrow> string" where
  "candles_payload cs = json_dumps True (JArr (map candle_json cs))"

text \<open>\<open>except (KisMarketDataError, TypeError, ValueError): return None\<close>\<close>

definition unreadable :: "exn \<Rightarrow> bool" where
  "unreadable e \<longleftrightarrow> is_value_error e \<or> is_type_error e \<or> (case e of KisMarketDataError _ \<Rightarrow> True | _ \<Rightarrow> False)"

definition cached_candles :: "string \<Rightarrow> string \<Rightarrow> KisDomesticDailyCandle list option result" where
  "cached_candles stock_code value =
     catchE (bindE (json_loads value) (\<lambda>payload. case payload of
         JArr items \<Rightarrow> bindE (parse_daily_price_response stock_code 200
             (json_dumps False (JObj [(''rt_cd'', JStr ''0''), (''output'', JArr items)]))) (\<lambda>cs. Inr (Some cs))
       | _ \<Rightarrow> Inr None))
     (\<lambda>e. if unreadable e then Inr None else Inl e)"

definition read_cached_price :: "'s market_client \<Rightarrow> string \<Rightarrow> ('s world, KisDomesticStockPrice option) io" where
  "read_cached_price c stock_code = (case mc_price_cache c of
       None \<Rightarrow> ret None
     | Some cache \<Rightarrow> bindS (timed (ke_lag (mc_env c)) (\<lambda>n. kv_get cache n (price_cache_key (mc_env c) stock_code)))
         (\<lambda>value. ret (case value of None \<Rightarrow> None | Some v \<Rightarrow> cached_price stock_code v)))"

definition write_cached_price :: "'s market_client \<Rightarrow> KisDomesticStockPrice \<Rightarrow> ('s world, unit) io" where
  "write_cached_price c price = (case mc_price_cache c of
       None \<Rightarrow> ret ()
     | Some cache \<Rightarrow> timed (ke_lag (mc_env c)) (\<lambda>n. kv_set cache n (price_cache_key (mc_env c) (kp_stock_code price))
         (price_payload price) (Some 2)))"

definition read_cached_daily_candles ::
  "'s market_client \<Rightarrow> string \<Rightarrow> ('s world, KisDomesticDailyCandle list option) io" where
  "read_cached_daily_candles c stock_code = (case mc_price_cache c of
       None \<Rightarrow> ret None
     | Some cache \<Rightarrow> bindS (timed (ke_lag (mc_env c)) (\<lambda>n. kv_get cache n (daily_cache_key (mc_env c) stock_code)))
         (\<lambda>value. case value of None \<Rightarrow> ret None | Some v \<Rightarrow> lift (cached_candles stock_code v)))"

definition write_cached_daily_candles ::
  "'s market_client \<Rightarrow> string \<Rightarrow> KisDomesticDailyCandle list \<Rightarrow> ('s world, unit) io" where
  "write_cached_daily_candles c stock_code cs = (case mc_price_cache c of
       None \<Rightarrow> ret ()
     | Some cache \<Rightarrow> timed (ke_lag (mc_env c)) (\<lambda>n. kv_set cache n (daily_cache_key (mc_env c) stock_code)
         (candles_payload cs) (Some 300)))"

section \<open>Operations\<close>

definition get_domestic_stock_price :: "'s market_client \<Rightarrow> string \<Rightarrow> ('s world, KisDomesticStockPrice) io" where
  "get_domestic_stock_price c stock_code =
     (if \<not> is_stock_code stock_code then raise (ValueError ''stock_code must be a six-digit domestic stock code'')
      else bindS (read_cached_price c stock_code) (\<lambda>cached. case cached of
        Some price \<Rightarrow> ret price
      | None \<Rightarrow>
          bindS (get_access_token (mc_env c)) (\<lambda>token.
          bindS (ke_request (mc_env c) (price_request (mc_env c) token stock_code)) (\<lambda>response.
          bindS (lift (parse_price_response (mc_text c) stock_code (ex_status_code response) (ex_content response))) (\<lambda>price.
          bindS (write_cached_price c price) (\<lambda>_. ret price))))))"

definition get_domestic_daily_candles :: "'s market_client \<Rightarrow> string \<Rightarrow> ('s world, KisDomesticDailyCandle list) io" where
  "get_domestic_daily_candles c stock_code =
     (if \<not> is_stock_code stock_code then raise (ValueError ''stock_code must be a six-digit domestic stock code'')
      else bindS (read_cached_daily_candles c stock_code) (\<lambda>cached. case cached of
        Some candles \<Rightarrow> ret candles
      | None \<Rightarrow>
          bindS (get_access_token (mc_env c)) (\<lambda>token.
          bindS (ke_request (mc_env c) (daily_request (mc_env c) token stock_code)) (\<lambda>response.
          bindS (lift (parse_daily_price_response stock_code (ex_status_code response) (ex_content response))) (\<lambda>candles.
          bindS (write_cached_daily_candles c stock_code candles) (\<lambda>_. ret candles))))))"

section \<open>Stored snapshots and candles\<close>

definition save_market_price_snapshot :: "uuid \<Rightarrow> time \<Rightarrow> KisDomesticStockPrice \<Rightarrow> (dbs, MarketPriceSnapshot) io" where
  "save_market_price_snapshot new_id now price =
     (let snapshot = \<lparr>mp_snapshot_id = new_id, mp_stock_code = kp_stock_code price, mp_current_price = kp_current_price price,
                      mp_observed_at = now\<rparr>
      in bindS (with_session (global_target ''automation'') (modify (\<lambda>d. d\<lparr>market_price_snapshots :=
             SQL_MarketPriceSnapshot_save snapshot (market_price_snapshots d)\<rparr>))) (\<lambda>_. ret snapshot))"

definition get_market_price_snapshot :: "uuid \<Rightarrow> (dbs, MarketPriceSnapshot option) io" where
  "get_market_price_snapshot snapshot_id = with_session (global_target ''automation'')
     (gets (\<lambda>d. SQL_MarketPriceSnapshot_find_by_id snapshot_id (market_price_snapshots d)))"

definition stored_candle :: "uuid5_fun \<Rightarrow> KisDomesticDailyCandle \<Rightarrow> DomesticDailyCandle" where
  "stored_candle uuid5 c = \<lparr>dc_candle_id = uuid5 NAMESPACE_URL (''kis:domestic-daily:'' @ kd_stock_code c @ '':'' @ kd_trading_date c),
     dc_stock_code = kd_stock_code c, dc_trading_date = kd_trading_date c, dc_open_price = kd_open_price c,
     dc_high_price = kd_high_price c, dc_low_price = kd_low_price c, dc_close_price = kd_close_price c, dc_volume = kd_volume c\<rparr>"

definition save_domestic_daily_candles ::
  "uuid5_fun \<Rightarrow> KisDomesticDailyCandle list \<Rightarrow> (dbs, DomesticDailyCandle list) io" where
  "save_domestic_daily_candles uuid5 candles =
     (let models = map (stored_candle uuid5) candles
      in bindS (with_session (global_target ''automation'') (modify (\<lambda>d. d\<lparr>domestic_daily_candles :=
             fold SQL_DomesticDailyCandle_save models (domestic_daily_candles d)\<rparr>))) (\<lambda>_. ret models))"

definition list_domestic_daily_candles :: "string \<Rightarrow> (dbs, DomesticDailyCandle list) io" where
  "list_domestic_daily_candles stock_code = with_session (global_target ''automation'')
     (gets (\<lambda>d. SQL_DomesticDailyCandle_list_by_stock_code stock_code (domestic_daily_candles d)))"

section \<open>The cache gives back what was parsed\<close>

lemma isascii_append [simp]: "isascii (a @ b) \<longleftrightarrow> isascii a \<and> isascii b" "isascii (c # s) \<longleftrightarrow> code c < 128 \<and> isascii s" "isascii []"
  by (simp_all add: isascii_def)

lemma dec_ascii: "list_all dec_char s \<Longrightarrow> isascii s"
  by (auto simp: isascii_def dec_char_def list_all_iff)

lemma num_ascii: "list_all num_char s \<Longrightarrow> isascii s"
  by (auto simp: isascii_def num_char_def dec_char_def list_all_iff)

lemma hex_char_ascii: "n < 16 \<Longrightarrow> code (hex_char n) < 128"
  by (simp add: hex_char_def of_char_of)

lemma esc_char_ascii: "isascii (esc_char c)"
proof -
  have "code c < 256" by (rule nat_of_char_less_256)
  then have "code c < 16 * 16" by simp
  then have "code c div 16 < 16" by (rule less_mult_imp_div_less)
  then show ?thesis by (simp add: esc_char_def Let_def hex_char_ascii)
qed

lemma esc_str_ascii [simp]: "isascii (esc_str s)"
  by (induction s) (simp_all add: esc_char_ascii)

lemma string_of_int_ascii: "isascii (string_of_int i)"
  using string_of_nat_decimal by (auto simp: string_of_int_def dec_ascii)

text \<open>\<open>json.dumps\<close> writes ASCII, so encoding its result and decoding it again changes nothing.\<close>

lemma jprint_ascii:
  "json_wf v \<Longrightarrow> isascii (jprint b v)"
  "json_wf_items vs \<Longrightarrow> isascii (jprint_items b vs)"
  "json_wf_members kvs \<Longrightarrow> isascii (jprint_members b kvs)"
  by (induction b v and b vs and b kvs rule: jprint_jprint_items_jprint_members.induct)
    (auto simp: quote_str_def item_sep_def key_sep_def string_of_int_ascii num_ascii num_chars_float)

lemma loads_dumps_bytes: "json_wf v \<Longrightarrow> json_loads_bytes (json_dumps b v) = Inr v"
  by (simp add: json_loads_bytes_def json_dumps_def utf8_decode_ascii jprint_ascii json_loads_dumps [unfolded json_dumps_def])

lemma nonempty_str_Some: "nonempty_str v = Some s \<longleftrightarrow> v = Some (JStr s) \<and> s \<noteq> []"
  by (auto simp: nonempty_str_def split: option.splits json.splits)

lemma set_strip: "set (strip s) \<subseteq> set s"
  by (auto simp: strip_def rstrip_by_def lstrip_def dest!: set_dropWhileD)

lemma py_int_isdigit:
  assumes d: "isdigit s" and v: "py_int s = Inr v" shows "0 \<le> v"
proof -
  have "\<not> (\<exists>r. strip s = CHR ''-'' # r)"
  proof
    assume "\<exists>r. strip s = CHR ''-'' # r"
    then have "CHR ''-'' \<in> set s" using set_strip [of s] by auto
    then show False using d by (auto simp: isdigit_def digit_char_def dec_char_def list_all_iff)
  qed
  then show ?thesis using v by (auto simp: py_int_def Let_def split: list.splits if_splits option.splits)
qed

lemma parse_candle_facts:
  assumes "parse_candle stock_code item = Inr c"
  shows "kd_stock_code c = stock_code \<and> length (kd_trading_date c) = 8 \<and> isdigit (kd_trading_date c) \<and>
    kd_open_price c \<noteq> [] \<and> kd_high_price c \<noteq> [] \<and> kd_low_price c \<noteq> [] \<and> kd_close_price c \<noteq> [] \<and> 0 \<le> kd_volume c"
  using assms
  by (auto simp: parse_candle_def bindE_eq_Inr nonempty_str_Some split: json.splits option.splits if_splits dest: py_int_isdigit)

lemma parse_candle_json:
  assumes "parse_candle stock_code item = Inr c"
  shows "parse_candle stock_code (candle_json c) = Inr c"
proof -
  note f = parse_candle_facts [OF assms]
  have "string_of_int (kd_volume c) = string_of_nat (nat (kd_volume c))" using f by (simp add: string_of_int_def)
  moreover have "isdigit (string_of_nat n)" for n
    using string_of_nat_decimal [of n] by (auto simp: isdigit_def digit_char_def list_all_iff)
  ultimately show ?thesis using f string_of_nat_decimal
    by (auto simp: parse_candle_def candle_json_def dict_get_def nonempty_str_def isdigit_def)
qed

lemma json_wf_items_all: "json_wf_items vs \<longleftrightarrow> (\<forall>v\<in>set vs. json_wf v)"
  by (induction vs) simp_all

lemma candle_json_wf: "json_wf_items (map candle_json cs)"
  by (auto simp: json_wf_items_all candle_json_def)

lemma mapE_reparse:
  "mapE f xs = Inr ys \<Longrightarrow> (\<And>x y. f x = Inr y \<Longrightarrow> f (g y) = Inr y) \<Longrightarrow> mapE f (map g ys) = Inr ys"
  by (induction xs arbitrary: ys) (auto simp: bindE_eq_Inr)

lemma candles_roundtrip:
  assumes "parse_daily_price_response stock_code status content = Inr cs"
  shows "cached_candles stock_code (candles_payload cs) = Inr (Some cs)"
proof -
  obtain payload where p: "loads_or daily_invalid content = Inr payload"
    using assms by (auto simp: parse_daily_price_response_def bindE_eq_Inr split: if_splits)
  then obtain d where d: "payload = JObj d" "dict_get d ''rt_cd'' = Some (JStr ''0'')"
    using assms by (cases payload) (auto simp: parse_daily_price_response_def split: if_splits)
  then obtain items where "dict_get d ''output'' = Some (JArr items)" "mapE (parse_candle stock_code) items = Inr cs"
    using assms p by (cases "the (dict_get d ''output'')")
      (auto simp: parse_daily_price_response_def split: if_splits option.splits)
  then have m: "mapE (parse_candle stock_code) (map candle_json cs) = Inr cs"
    by (auto intro: mapE_reparse parse_candle_json)
  have "json_loads (candles_payload cs) = Inr (JArr (map candle_json cs))"
    unfolding candles_payload_def by (rule json_loads_dumps) (simp add: candle_json_wf)
  moreover have "json_loads_bytes (json_dumps False (JObj [(''rt_cd'', JStr ''0''), (''output'', JArr (map candle_json cs))])) =
      Inr (JObj [(''rt_cd'', JStr ''0''), (''output'', JArr (map candle_json cs))])"
    by (rule loads_dumps_bytes) (simp add: candle_json_wf)
  ultimately show ?thesis
    by (simp add: cached_candles_def parse_daily_price_response_def loads_or_def dict_get_def m)
qed

lemma candles_fetched:
  assumes run: "get_domestic_daily_candles c sc w = (Inr cs, w1)" and cache: "mc_price_cache c = Some cache"
    and miss: "read_cached_daily_candles c sc w = (Inr None, w0)"
    and fwd: "\<And>q. forward (ke_request (mc_env c) q)" "forward (get_access_token (mc_env c))"
  obtains t s0 status content where "wl_now w \<le> t" "t \<le> wl_now w1" "is_stock_code sc"
    "parse_daily_price_response sc status content = Inr cs"
    "kv_set cache t (daily_cache_key (mc_env c) sc) (candles_payload cs) (Some 300) s0 = (Inr (), wl_svc w1)"
proof -
  have sc: "is_stock_code sc" using run by (auto simp: get_domestic_daily_candles_def split: if_splits)
  obtain tok w2 where t: "get_access_token (mc_env c) w0 = (Inr tok, w2)"
    using run miss sc by (auto simp: get_domestic_daily_candles_def bindS_eq_Inr)
  obtain rs w3 where q: "ke_request (mc_env c) (daily_request (mc_env c) tok sc) w2 = (Inr rs, w3)"
    using run miss sc t by (auto simp: get_domestic_daily_candles_def bindS_eq_Inr)
  have p: "parse_daily_price_response sc (ex_status_code rs) (ex_content rs) = Inr cs"
    and s: "write_cached_daily_candles c sc cs w3 = (Inr (), w1)"
    using run miss sc t q by (auto simp: get_domestic_daily_candles_def bindS_eq_Inr)
  obtain s' where k: "kv_set cache (wl_now w3) (daily_cache_key (mc_env c) sc) (candles_payload cs) (Some 300) (wl_svc w3) = (Inr (), s')"
    "w1 = \<lparr>wl_now = wl_now w3 + int (ke_lag (mc_env c) s'), wl_svc = s'\<rparr>"
    using s cache by (auto simp: write_cached_daily_candles_def timed_def split: prod.splits)
  have "forward (read_cached_daily_candles c sc)"
    by (auto simp: read_cached_daily_candles_def split: option.splits intro!: forward_bindS)
  from forwardD [OF this miss] forwardD [OF fwd(2) t] forwardD [OF fwd(1) q]
  have "wl_now w \<le> wl_now w3" by simp
  then show thesis using that [of "wl_now w3", OF _ _ sc p, of "wl_svc w3"] k by auto
qed

lemma wait_loop_forward: "wl_now w \<le> wl_now (snd (wait_loop env deadline w))"
proof (induction "nat (deadline - wl_now w)" arbitrary: w rule: less_induct)
  case (less w)
  show ?case
  proof (cases "wl_now w < deadline")
    case True
    obtain r1 w1 where b: "bindS (sleep (ke_lag env) POLL_INTERVAL) (\<lambda>_. read_cached_token env) w = (r1, w1)" by fastforce
    have le: "wl_now w < wl_now w1" using poll_advances [OF b] by (simp add: POLL_INTERVAL_def)
    then have "wl_now w1 \<le> wl_now (snd (wait_loop env deadline w1))" using less [of w1] True by simp
    then show ?thesis using b le True
      by (subst wait_loop.simps) (auto split: sum.splits option.splits)
  qed (simp add: wait_loop.simps)
qed

lemma get_access_token_forward [intro]:
  assumes "\<And>q. forward (ke_request env q)" shows "forward (get_access_token env)"
proof -
  have "forward (wait_for_refresh env)" using wait_loop_forward by (auto simp: forward_def wait_for_refresh_def)
  moreover have "forward (request_and_cache_token env)"
    using assms by (auto simp: request_and_cache_token_def intro!: forward_bindS)
  ultimately show ?thesis
    by (auto simp: get_access_token_def intro!: forward_bindS forward_finallyS split: option.splits)
qed

lemma market_client_parts:
  assumes "market_client_from_environment L T env = Inr c"
  obtains provider lock cache cred where "mc_env c = coordinator L provider lock cache cred"
    "mc_price_cache c = Some (kv_fst (kv_service (redis_kv (kl_redis L) cache) (kc_ttl_seconds cache)))"
    "kc_key_prefix cache = ''kis-cache''"
proof -
  from assms obtain cred provider cache lock where "kv_config_from_environment env = Inr cache"
    "new_coordinator (coordinator L provider lock cache cred) = Inr (mc_env c)" "mc_price_cache c = Some (ke_cache (mc_env c))"
    unfolding market_client_from_environment_def bindE_eq_Inr by fastforce
  moreover from this have "mc_env c = coordinator L provider lock cache cred" by (simp add: new_coordinator_def split: if_splits)
  ultimately show thesis
    by (intro that [of provider lock cache cred])
      (auto simp: kv_config_from_environment_def kv_config_for_def default_kv_config_def bindE_eq_Inr coordinator_def)
qed

definition daily_entry :: "'s market_client \<Rightarrow> string \<Rightarrow> string" where
  "daily_entry c stock_code = ''kis-cache:'' @ daily_cache_key (mc_env c) stock_code"

text \<open>
  C30: Daily candles are fetched once in five minutes. When a call misses the cache and returns
  candles, then as long as nobody changes the cache entry and the clock is less than 300 seconds after
  the call began, the next call returns exactly the same candles after one read of the cache: it needs
  no token and sends no request. In particular what the cache stores is parsed back to the same
  candles by the checks that were applied to the provider's response.
\<close>

theorem candles_reused:
  assumes "redis_server (kl_redis L) contents" and "market_client_from_environment L T env = Inr c"
    and "read_cached_daily_candles c stock_code w = (Inr None, w0)"
    and "get_domestic_daily_candles c stock_code w = (Inr cs, w1)"
    and "wl_now w1 \<le> wl_now w2" and "wl_now w2 < wl_now w + seconds 300"
    and "contents (fst (wl_svc w2)) (daily_entry c stock_code) = contents (fst (wl_svc w1)) (daily_entry c stock_code)"
    and "rd_get (kl_redis L) (wl_now w2) (daily_entry c stock_code) (fst (wl_svc w2)) = (Inr v, r3)"
  shows "get_domestic_daily_candles c stock_code w2 =
    (Inr cs, \<lparr>wl_now = wl_now w2 + int (kl_lag L (r3, snd (wl_svc w2))), wl_svc = (r3, snd (wl_svc w2))\<rparr>)"
proof -
  from market_client_parts [OF assms(2)] obtain provider lock cache cred where
    e: "mc_env c = coordinator L provider lock cache cred"
    and p: "mc_price_cache c = Some (kv_fst (kv_service (redis_kv (kl_redis L) cache) (kc_ttl_seconds cache)))"
    and k: "kc_key_prefix cache = ''kis-cache''" .
  have f: "forward (ke_request (mc_env c) q)" for q by (simp add: e coordinator_def)
  from candles_fetched [OF assms(4) p assms(3) f get_access_token_forward [OF f]]
  obtain t s0 status content where t: "wl_now w \<le> t" "t \<le> wl_now w1" "is_stock_code stock_code"
    and ps: "parse_daily_price_response stock_code status content = Inr cs"
    and st: "kv_set (kv_fst (kv_service (redis_kv (kl_redis L) cache) (kc_ttl_seconds cache))) t
      (daily_cache_key (mc_env c) stock_code) (candles_payload cs) (Some 300) s0 = (Inr (), wl_svc w1)" .
  note kv = kv_fst_client [OF kv_service_client [OF redis_server.redis_kv_client [OF assms(1), of cache], of "kc_ttl_seconds cache"]]
  have ne: "daily_cache_key (mc_env c) stock_code \<noteq> []" by (simp add: daily_cache_key_def)
  have "redis_look contents cache (wl_now w2) (fst (wl_svc w1)) (daily_cache_key (mc_env c) stock_code) = Some (candles_payload cs)"
    using kv_client.set_law [OF kv st] t assms(5,6) by auto
  then have l: "redis_look contents cache (wl_now w2) (fst (wl_svc w2)) (daily_cache_key (mc_env c) stock_code) = Some (candles_payload cs)"
    using assms(7) k by (simp add: redis_look_def spec_get_def live_def daily_entry_def)
  have g: "kv_get (kv_fst (kv_service (redis_kv (kl_redis L) cache) (kc_ttl_seconds cache))) (wl_now w2)
      (daily_cache_key (mc_env c) stock_code) (wl_svc w2) = (Inr v, (r3, snd (wl_svc w2)))"
    using assms(8) k ne by (simp add: kv_fst_def on_fst_run kv_service_def redis_kv_def redis_kv_get_def kv_key_def daily_entry_def)
  then have "v = Some (candles_payload cs)" using kv_client.get_law [OF kv g] l by simp
  then have "read_cached_daily_candles c stock_code w2 = (Inr (Some cs),
      \<lparr>wl_now = wl_now w2 + int (kl_lag L (r3, snd (wl_svc w2))), wl_svc = (r3, snd (wl_svc w2))\<rparr>)"
    using g p candles_roundtrip [OF ps] by (simp add: read_cached_daily_candles_def timed_def bindS_def e coordinator_def)
  then show ?thesis using t(3) by (simp add: get_domestic_daily_candles_def bindS_def)
qed

definition demo_client :: "(rstate \<times> FakeExternalProviderClient) market_client" where
  "demo_client = \<lparr>mc_env = demo_env, mc_price_cache = Some (ke_cache demo_env),
     mc_text = \<lparr>py_str_exn = (\<lambda>_. []), py_type_name = (\<lambda>_. []), py_repr = (\<lambda>_. [])\<rparr>\<rparr>"

definition daily_response :: ExternalResponse where
  "daily_response = \<lparr>ex_status_code = 200, ex_headers = [], ex_content = json_dumps False (JObj [(''rt_cd'', JStr ''0''), (''output'',
     JArr [JObj [(''stck_bsop_date'', JStr ''20240102''), (''stck_oprc'', JStr ''1''), (''stck_hgpr'', JStr ''3''),
       (''stck_lwpr'', JStr ''1''), (''stck_clpr'', JStr ''2''), (''acml_vol'', JStr ''007'')]])])\<rparr>"

lemma demo_client_env: "market_client_from_environment demo_libs (mc_text demo_client) demo_variables = Inr demo_client"
  by (simp add: demo_client_def demo_env_def market_client_from_environment_def provider_config_from_environment_def required_environment_def
      environ_get_def demo_variables_def dict_get_def lock_config_from_environment_def lock_config_for_def kv_config_for_def
      kv_config_from_environment_def token_credentials_from_environment_def missing_names_def new_coordinator_def
      coordinator_def rstrip_by_def default_lock_config_def default_kv_config_def seconds_def)

theorem candles_reused_witness:
  "\<exists>cs w1 w2. get_domestic_daily_candles demo_client ''005930'' (demo_world [token_response, daily_response]) = (Inr cs, w1) \<and>
     length (fx_requests (snd (wl_svc w1))) = 2 \<and> get_domestic_daily_candles demo_client ''005930'' w1 = (Inr cs, w2) \<and>
     map kd_volume cs = [7]"
proof -
  let ?w = "demo_world [token_response, daily_response]"
  let ?p = "get_domestic_daily_candles demo_client ''005930'' ?w" and ?q = "read_cached_daily_candles demo_client ''005930'' ?w"
  let ?cs = "[\<lparr>kd_stock_code = ''005930'', kd_trading_date = ''20240102'', kd_open_price = ''1'', kd_high_price = ''3'',
    kd_low_price = ''1'', kd_close_price = ''2'', kd_volume = 7\<rparr>]"
  have q: "fst ?q = Inr None" by code_simp
  have r: "fst ?p = Inr ?cs" by code_simp
  have n: "length (fx_requests (snd (wl_svc (snd ?p)))) = 2" "wl_now (snd ?p) = 9000" by code_simp+
  have g: "rd_get (kl_redis demo_libs) t j s = (Inr (spec_get t j s), s)" for t j s by (simp add: demo_libs_def mem_redis_def)
  from q have q': "?q = (Inr None, snd ?q)" by (metis prod.collapse)
  from r have p: "?p = (Inr ?cs, snd ?p)" by (metis prod.collapse)
  have early: "wl_now (snd ?p) < wl_now ?w + seconds 300" using n(2) by (simp add: demo_world_def seconds_def)
  show ?thesis
    by (intro exI conjI, rule p, rule n(1), rule candles_reused [OF demo_assumptions(1) demo_client_env q' p order_refl early refl g])
      simp
qed

end
