(* ===== verification/Base64.thy ===== *)
theory Base64
  imports PyBase
begin

text \<open>
  \<open>str.encode("utf-8")\<close> on the development's characters, \<open>base64.urlsafe_b64encode\<close> and
  \<open>base64.urlsafe_b64decode\<close> (the non-strict decoder: characters outside the alphabet are skipped,
  decoding stops at complete padding, an incomplete group is an error). Bytes are numbers below
  256. Results: decoding inverts encoding, and the encoding without its padding is injective.
\<close>

definition utf8_char :: "char \<Rightarrow> nat list" where
  "utf8_char c = (let n = code c in if n < 128 then [n] else [192 + n div 64, 128 + n mod 64])"

definition utf8 :: "string \<Rightarrow> nat list" where
  "utf8 s = concat (map utf8_char s)"

definition b64_char :: "nat \<Rightarrow> char" where
  "b64_char n = (if n < 26 then char_of (65 + n) else if n < 52 then char_of (71 + n)
     else if n < 62 then char_of (n - 4) else if n = 62 then CHR ''-'' else CHR ''_'')"

definition b64_val :: "char \<Rightarrow> nat option" where
  "b64_val c = (let n = code c in
     if 65 \<le> n \<and> n \<le> 90 then Some (n - 65) else if 97 \<le> n \<and> n \<le> 122 then Some (n - 71)
     else if 48 \<le> n \<and> n \<le> 57 then Some (n + 4)
     else if c = CHR ''-'' \<or> c = CHR ''+'' then Some 62
     else if c = CHR ''_'' \<or> c = CHR ''/'' then Some 63 else None)"

fun b64encode :: "nat list \<Rightarrow> string" where
  "b64encode [] = []"
| "b64encode [a] = [b64_char (a div 4), b64_char (a mod 4 * 16), CHR ''='', CHR ''='']"
| "b64encode [a, b] = [b64_char (a div 4), b64_char (a mod 4 * 16 + b div 16), b64_char (b mod 16 * 4), CHR ''='']"
| "b64encode (a # b # c # r) = [b64_char (a div 4), b64_char (a mod 4 * 16 + b div 16),
     b64_char (b mod 16 * 4 + c div 64), b64_char (c mod 64)] @ b64encode r"

text \<open>The decoder's loop: position in the group, bits left over, padding characters seen.\<close>

fun a2b :: "string \<Rightarrow> nat \<Rightarrow> nat \<Rightarrow> nat \<Rightarrow> nat list option" where
  "a2b [] quad_pos left pads = (if quad_pos = 0 then Some [] else None)"
| "a2b (ch # r) quad_pos left pads =
     (if ch = CHR ''='' then
        (if 2 \<le> quad_pos then if 4 \<le> quad_pos + (pads + 1) then Some [] else a2b r quad_pos left (pads + 1)
         else a2b r quad_pos left pads)
      else case b64_val ch of
        None \<Rightarrow> a2b r quad_pos left pads
      | Some x \<Rightarrow>
          if quad_pos = 0 then a2b r 1 x 0
          else if quad_pos = 1 then map_option ((#) (left * 4 + x div 16)) (a2b r 2 (x mod 16) 0)
          else if quad_pos = 2 then map_option ((#) (left * 16 + x div 4)) (a2b r 3 (x mod 4) 0)
          else map_option ((#) (left * 64 + x)) (a2b r 0 0 0))"

definition b64decode :: "string \<Rightarrow> nat list result" where
  "b64decode s = (case a2b s 0 0 0 of None \<Rightarrow> Inl (ValueError ''base64'') | Some bs \<Rightarrow> Inr bs)"

section \<open>Round trip\<close>

definition is_bytes :: "nat list \<Rightarrow> bool" where
  "is_bytes bs \<longleftrightarrow> list_all (\<lambda>b. b < 256) bs"

lemma b64_val_char [simp]: "n < 64 \<Longrightarrow> b64_val (b64_char n) = Some n"
  by (auto simp: b64_val_def b64_char_def Let_def)

lemma code_b64_char:
  "n < 64 \<Longrightarrow> 65 \<le> code (b64_char n) \<and> code (b64_char n) \<le> 90 \<or> 97 \<le> code (b64_char n) \<and> code (b64_char n) \<le> 122 \<or>
     48 \<le> code (b64_char n) \<and> code (b64_char n) \<le> 57 \<or> code (b64_char n) = 45 \<or> code (b64_char n) = 95"
  by (auto simp: b64_char_def)

lemma b64_char_not [simp]: "n < 64 \<Longrightarrow> b64_char n \<noteq> CHR ''=''"
  using code_b64_char [of n] by auto

lemma b64_char_safe:
  assumes "n < 64"
  shows "b64_char n \<noteq> CHR ''.''" "b64_char n \<noteq> CHR ''$''" "b64_char n \<noteq> CHR ''{''" "b64_char n \<noteq> CHR ''}''"
    "code (b64_char n) < 128"
  using code_b64_char [OF assms] by auto

lemma a2b_encode: "is_bytes bs \<Longrightarrow> a2b (b64encode bs) 0 0 p = Some bs"
proof (induction bs arbitrary: p rule: b64encode.induct)
  case (4 a b c r)
  then have "a < 256" "b < 256" "c < 256" "a2b (b64encode r) 0 0 0 = Some r"
    by (auto simp: is_bytes_def)
  then show ?case by (simp add: less_mult_imp_div_less)
qed (auto simp: is_bytes_def less_mult_imp_div_less)

lemma b64decode_encode [simp]: "is_bytes bs \<Longrightarrow> b64decode (b64encode bs) = Inr bs"
  by (simp add: b64decode_def a2b_encode)

lemma utf8_bytes [simp]: "is_bytes (utf8 s)"
proof -
  have "code c div 64 < 4" for c by (simp add: less_mult_imp_div_less)
  then have "code c div 64 < 64" "code c mod 64 < 128" for c
    using order.strict_trans [of "code c mod 64" 64 128] order.strict_trans [of "code c div 64" 4 64] by simp_all
  then have "list_all (\<lambda>b. b < 256) (utf8_char c)" for c by (simp add: utf8_char_def Let_def)
  then show ?thesis by (induction s) (auto simp: is_bytes_def utf8_def)
qed

section \<open>Without padding\<close>

definition unpadded :: "string \<Rightarrow> string" where
  "unpadded s = rstrip_by (\<lambda>c. c = CHR ''='') s"

definition is_b64 :: "char \<Rightarrow> bool" where
  "is_b64 c \<longleftrightarrow> (\<exists>n<64. c = b64_char n)"

lemma is_b64_char [simp]: "n < 64 \<Longrightarrow> is_b64 (b64_char n)"
  by (auto simp: is_b64_def)

lemma is_b64_safe:
  "is_b64 c \<Longrightarrow> c \<noteq> CHR ''='' \<and> c \<noteq> CHR ''.'' \<and> c \<noteq> CHR ''$'' \<and> c \<noteq> CHR ''{'' \<and> c \<noteq> CHR ''}'' \<and> code c < 128"
  using b64_char_safe b64_char_not by (auto simp: is_b64_def)

text \<open>An encoding is a text without padding characters followed by at most two of them.\<close>

definition padded :: "string \<Rightarrow> string \<Rightarrow> nat \<Rightarrow> bool" where
  "padded s t p \<longleftrightarrow> s = t @ replicate p CHR ''='' \<and> p \<le> 2 \<and> (length t + p) mod 4 = 0 \<and> list_all is_b64 t"

lemma sextets:
  "b div 16 < 16 \<Longrightarrow> a mod 4 * 16 + b div 16 < (64::nat)" "c div 64 < 4 \<Longrightarrow> b mod 16 * 4 + c div 64 < (64::nat)"
  using mod_less_divisor [of 4 a] mod_less_divisor [of 16 b] by linarith+

lemma b64encode_padded: "is_bytes bs \<Longrightarrow> \<exists>t p. padded (b64encode bs) t p"
proof (induction bs rule: b64encode.induct)
  case 1
  then show ?case by (auto simp: padded_def intro: exI [of _ 0])
next
  case (2 a)
  then have "padded (b64encode [a]) [b64_char (a div 4), b64_char (a mod 4 * 16)] 2"
    by (simp add: padded_def is_bytes_def less_mult_imp_div_less numeral_2_eq_2)
  then show ?case by blast
next
  case (3 a b)
  then have "b div 16 < 16" by (simp add: is_bytes_def less_mult_imp_div_less)
  then have "a mod 4 * 16 + b div 16 < 64" by (rule sextets)
  then have "padded (b64encode [a, b]) [b64_char (a div 4), b64_char (a mod 4 * 16 + b div 16), b64_char (b mod 16 * 4)] 1"
    using 3 by (simp add: padded_def is_bytes_def less_mult_imp_div_less)
  then show ?case by blast
next
  case (4 a b c r)
  then obtain t p where t: "padded (b64encode r) t p" by (auto simp: is_bytes_def)
  let ?q = "[b64_char (a div 4), b64_char (a mod 4 * 16 + b div 16), b64_char (b mod 16 * 4 + c div 64), b64_char (c mod 64)]"
  have "a div 4 < 64" "a mod 4 * 16 + b div 16 < 64" "b mod 16 * 4 + c div 64 < 64"
    using 4 sextets [of b a] sextets(2) [of c b] by (simp_all add: is_bytes_def less_mult_imp_div_less)
  moreover have "(length (?q @ t) + p) mod 4 = 0"
    using t unfolding padded_def by (simp add: mod_add_left_eq [symmetric, of 4 _ 4])
  ultimately have "padded (b64encode (a # b # c # r)) (?q @ t) p" using t by (simp add: padded_def)
  then show ?case by blast
qed

lemma padded_unpadded: "padded s t p \<Longrightarrow> unpadded s = t"
proof -
  assume a: "padded s t p"
  then have "t \<noteq> [] \<Longrightarrow> last t \<noteq> CHR ''=''" using is_b64_safe by (auto simp: padded_def list_all_iff)
  then have "rev (dropWhile (\<lambda>c. c = CHR ''='') (rev t)) = t" by (rule dropWhile_rev_id)
  moreover have "dropWhile (\<lambda>c. c = CHR ''='') (replicate p CHR ''='' @ rev t) = dropWhile (\<lambda>c. c = CHR ''='') (rev t)"
    by (induction p) auto
  ultimately show ?thesis using a by (simp add: unpadded_def rstrip_by_def padded_def)
qed

lemma unpadded_encode:
  assumes "is_bytes bs"
  obtains p where "padded (b64encode bs) (unpadded (b64encode bs)) p"
  using b64encode_padded [OF assms] padded_unpadded by blast

lemma pad_unique: "(l + p) mod 4 = 0 \<Longrightarrow> (l + q) mod 4 = 0 \<Longrightarrow> p \<le> 2 \<Longrightarrow> q \<le> 2 \<Longrightarrow> p = (q::nat)"
  by presburger

text \<open>The padding is determined by the rest, so the encoding is injective without it too.\<close>

lemma unpadded_inj:
  assumes "is_bytes a" "is_bytes b" "unpadded (b64encode a) = unpadded (b64encode b)"
  shows "a = b"
proof -
  obtain p where p: "padded (b64encode a) (unpadded (b64encode a)) p" using unpadded_encode [OF assms(1)] .
  obtain q where q: "padded (b64encode b) (unpadded (b64encode b)) q" using unpadded_encode [OF assms(2)] .
  have "p = q" using p q assms(3) pad_unique unfolding padded_def by metis
  then have "b64encode a = b64encode b" using p q assms(3) unfolding padded_def by metis
  then show ?thesis using assms(1,2) b64decode_encode by (metis sum.inject(2))
qed

lemma utf8_Nil_iff [simp]: "utf8 s = [] \<longleftrightarrow> s = []"
  by (cases s) (auto simp: utf8_def utf8_char_def Let_def)

lemma utf8_char_inj:
  assumes "utf8_char c @ xs = utf8_char d @ ys"
  shows "c = d \<and> xs = ys"
proof -
  have e: "code x div 64 * 64 + code x mod 64 = code x" for x by (rule div_mult_mod_eq)
  have "code c = code d"
  proof (cases "code c < 128 \<or> code d < 128")
    case True
    then show ?thesis using assms by (auto simp: utf8_char_def Let_def split: if_splits)
  next
    case False
    then have "code c div 64 = code d div 64" "code c mod 64 = code d mod 64"
      using assms by (simp_all add: utf8_char_def Let_def)
    then show ?thesis using e by metis
  qed
  then have "c = d" by (metis char_of_char)
  then show ?thesis using assms by simp
qed

lemma utf8_inj: "utf8 s = utf8 t \<Longrightarrow> s = t"
proof (induction s arbitrary: t)
  case (Cons c s)
  then obtain d t' where t: "t = d # t'" by (metis list.exhaust list.distinct(1) utf8_Nil_iff)
  have "utf8_char c @ utf8 s = utf8_char d @ utf8 t'" using Cons.prems t by (simp add: utf8_def)
  from utf8_char_inj [OF this] show ?case using t Cons.IH by auto
qed (metis utf8_Nil_iff)

end
