(* ===== verification/SessionStore.thy ===== *)
theory SessionStore
  imports RedisApi Base64
begin

text \<open>
  User sessions (\<open>infrastructure/session_store\<close>): session identifiers with a routing tag, the
  in-memory store, the Redis store, and the bearer dependency \<open>get_current_session\<close>. A store is a
  record of operations; the locale \<open>session_store\<close> is the contract of the protocol class: which
  sessions a reader sees at a time \<open>n\<close> after an operation. Both stores meet it. The in-memory store
  keeps its index of sessions by user exact; the Redis store keeps every live session in the live
  index of its user, so that revoking a user's sessions reaches all of them. Session data is JSON;
  Redis returns it with the members in key order.
\<close>

section \<open>Identifiers\<close>

definition user_routing_tag :: "string \<Rightarrow> string result" where
  "user_routing_tag user_id = (if user_id = [] then Inl (ValueError ''user_id must not be empty'')
     else Inr (unpadded (b64encode (utf8 user_id))))"

definition session_routing_tag :: "string \<Rightarrow> string result" where
  "session_routing_tag session_id = (case partition_at CHR ''.'' session_id of
     (tag, separator, secret) \<Rightarrow>
       if \<not> separator \<or> tag = [] \<or> secret = []
       then Inl (ValueError ''session_id must be created by create_session_id'') else Inr tag)"

text \<open>\<open>secret\<close> is what \<open>secrets.token_urlsafe(32)\<close> returns.\<close>

definition create_session_id :: "string \<Rightarrow> string \<Rightarrow> string result" where
  "create_session_id secret user_id = bindE (user_routing_tag user_id) (\<lambda>tag. Inr (tag @ ''.'' @ secret))"

record SessionData =
  sd_session_id :: string
  sd_user_id :: string
  sd_data :: jdict

record 's session_ops =
  ss_create :: "time \<Rightarrow> SessionData \<Rightarrow> ('s, unit) io"
  ss_get :: "time \<Rightarrow> string \<Rightarrow> ('s, SessionData option) io"
  ss_refresh :: "time \<Rightarrow> string \<Rightarrow> ('s, bool) io"
  ss_revoke :: "time \<Rightarrow> string \<Rightarrow> ('s, bool) io"
  ss_revoke_user :: "time \<Rightarrow> string \<Rightarrow> ('s, nat) io"

section \<open>The in-memory store\<close>

record FakeSessionStore =
  fs_ttl :: int
  fs_sessions :: "(string, SessionData \<times> time) dict"
  fs_user_sessions :: "(string, string list) dict"

definition fake_session_new :: "int \<Rightarrow> FakeSessionStore result" where
  "fake_session_new ttl = (if ttl \<le> 0 then Inl (ValueError ''ttl_seconds must be positive'')
     else Inr \<lparr>fs_ttl = ttl, fs_sessions = [], fs_user_sessions = []\<rparr>)"

definition fake_unindex :: "string \<Rightarrow> string \<Rightarrow> (string, string list) dict \<Rightarrow> (string, string list) dict" where
  "fake_unindex user_id session_id idx = (case dict_get idx user_id of
       None \<Rightarrow> idx
     | Some ids \<Rightarrow> let ids' = removeAll session_id ids in
         if ids' = [] then dict_del user_id idx else dict_set user_id ids' idx)"

definition fake_session_revoke :: "time \<Rightarrow> string \<Rightarrow> (FakeSessionStore, bool) io" where
  "fake_session_revoke now session_id s = (case dict_get (fs_sessions s) session_id of
       None \<Rightarrow> (Inr False, s)
     | Some (x, _) \<Rightarrow> (Inr True, s\<lparr>fs_sessions := dict_del session_id (fs_sessions s),
         fs_user_sessions := fake_unindex (sd_user_id x) session_id (fs_user_sessions s)\<rparr>))"

definition fake_index :: "string \<Rightarrow> string \<Rightarrow> (string, string list) dict \<Rightarrow> (string, string list) dict" where
  "fake_index user_id session_id idx = dict_set user_id
     (List.insert session_id (case dict_get idx user_id of None \<Rightarrow> [] | Some ids \<Rightarrow> ids)) idx"

definition fake_session_create :: "time \<Rightarrow> SessionData \<Rightarrow> (FakeSessionStore, unit) io" where
  "fake_session_create now x =
     bindS (fake_session_revoke now (sd_session_id x)) (\<lambda>_.
     modify (\<lambda>s. s\<lparr>fs_sessions := dict_set (sd_session_id x) (x, now + seconds (fs_ttl s)) (fs_sessions s),
       fs_user_sessions := fake_index (sd_user_id x) (sd_session_id x) (fs_user_sessions s)\<rparr>))"

definition fake_session_get :: "time \<Rightarrow> string \<Rightarrow> (FakeSessionStore, SessionData option) io" where
  "fake_session_get now session_id =
     bindS (gets (\<lambda>s. dict_get (fs_sessions s) session_id)) (\<lambda>stored. case stored of
       None \<Rightarrow> ret None
     | Some (x, expires_at) \<Rightarrow>
         if expires_at \<le> now then bindS (fake_session_revoke now session_id) (\<lambda>_. ret None)
         else ret (Some x))"

definition fake_session_refresh :: "time \<Rightarrow> string \<Rightarrow> (FakeSessionStore, bool) io" where
  "fake_session_refresh now session_id =
     bindS (fake_session_get now session_id) (\<lambda>stored. case stored of
       None \<Rightarrow> ret False
     | Some x \<Rightarrow>
         bindS (modify (\<lambda>s. s\<lparr>fs_sessions := dict_set session_id (x, now + seconds (fs_ttl s)) (fs_sessions s)\<rparr>))
           (\<lambda>_. ret True))"

fun fake_revoke_all :: "time \<Rightarrow> string list \<Rightarrow> (FakeSessionStore, unit) io" where
  "fake_revoke_all now [] = ret ()"
| "fake_revoke_all now (i # is) = bindS (fake_session_revoke now i) (\<lambda>_. fake_revoke_all now is)"

definition fake_session_revoke_user :: "time \<Rightarrow> string \<Rightarrow> (FakeSessionStore, nat) io" where
  "fake_session_revoke_user now user_id =
     bindS (gets (\<lambda>s. case dict_get (fs_user_sessions s) user_id of None \<Rightarrow> [] | Some ids \<Rightarrow> ids)) (\<lambda>ids.
     bindS (fake_revoke_all now ids) (\<lambda>_. ret (length ids)))"

definition fake_sessions :: "FakeSessionStore session_ops" where
  "fake_sessions = \<lparr>ss_create = fake_session_create, ss_get = fake_session_get,
     ss_refresh = fake_session_refresh, ss_revoke = fake_session_revoke,
     ss_revoke_user = fake_session_revoke_user\<rparr>"

section \<open>The Redis store\<close>

definition SESSION_NAMESPACE :: string where "SESSION_NAMESPACE = ''kis_session''"
definition SESSION_TTL :: int where "SESSION_TTL = 3600"

definition session_key :: "string \<Rightarrow> string result" where
  "session_key session_id = bindE (session_routing_tag session_id) (\<lambda>tag.
     Inr (SESSION_NAMESPACE @ '':{'' @ tag @ ''}:session:'' @ session_id))"

definition user_key :: "string \<Rightarrow> string result" where
  "user_key user_id = bindE (user_routing_tag user_id) (\<lambda>tag.
     Inr (SESSION_NAMESPACE @ '':{'' @ tag @ ''}:user-sessions''))"

definition redis_error_as :: "exn \<Rightarrow> ('r, 'a) io \<Rightarrow> ('r, 'a) io" where
  "redis_error_as err m = catchS m (\<lambda>e. raise (if e = RedisError then err else e))"

definition session_payload :: "SessionData \<Rightarrow> string" where
  "session_payload x = json_dumps True (sort_keys (JObj
     [(''user_id'', JStr (sd_user_id x)), (''data'', JObj (sd_data x))]))"

definition redis_session_create :: "'r redis_api \<Rightarrow> time \<Rightarrow> SessionData \<Rightarrow> ('r, unit) io" where
  "redis_session_create api now x =
     bindS (lift (session_routing_tag (sd_session_id x))) (\<lambda>tag.
     bindS (lift (user_routing_tag (sd_user_id x))) (\<lambda>utag.
     if tag \<noteq> utag then raise (SessionStoreError ''Session ID does not belong to the session user'')
     else
       bindS (lift (session_key (sd_session_id x))) (\<lambda>sk.
       bindS (lift (user_key (sd_user_id x))) (\<lambda>uk.
       redis_error_as (SessionStoreError ''Redis session create failed'')
         (bindS (rd_exec api now [CSetEx sk (session_payload x) SESSION_TTL, CSAdd uk (sd_session_id x),
                   CExpire uk SESSION_TTL]) (\<lambda>_. ret ()))))))"

text \<open>The payload decoded: \<open>decoded["user_id"]\<close>, \<open>decoded["data"]\<close>. A payload of another shape than
  \<open>create\<close> writes raises here.\<close>

definition decode_session :: "string \<Rightarrow> string \<Rightarrow> SessionData result" where
  "decode_session session_id payload = bindE (json_loads payload) (\<lambda>v. case v of
     JObj d \<Rightarrow> (case (dict_get d ''user_id'', dict_get d ''data'') of
         (Some (JStr u), Some (JObj dt)) \<Rightarrow> Inr \<lparr>sd_session_id = session_id, sd_user_id = u, sd_data = dt\<rparr>
       | (None, _) \<Rightarrow> Inl (KeyError ''user_id'')
       | (_, None) \<Rightarrow> Inl (KeyError ''data'')
       | _ \<Rightarrow> Inl (TypeError ''session payload''))
   | _ \<Rightarrow> Inl (TypeError ''session payload''))"

definition redis_session_get :: "'r redis_api \<Rightarrow> time \<Rightarrow> string \<Rightarrow> ('r, SessionData option) io" where
  "redis_session_get api now session_id =
     bindS (lift (session_key session_id)) (\<lambda>sk.
     bindS (redis_error_as (SessionStoreError ''Redis session get failed'') (rd_get api now sk)) (\<lambda>payload.
     case payload of
       None \<Rightarrow> ret None
     | Some p \<Rightarrow> bindS (lift (decode_session session_id p)) (\<lambda>x. ret (Some x))))"

definition redis_session_refresh :: "'r redis_api \<Rightarrow> time \<Rightarrow> string \<Rightarrow> ('r, bool) io" where
  "redis_session_refresh api now session_id =
     bindS (redis_session_get api now session_id) (\<lambda>x. case x of
       None \<Rightarrow> ret False
     | Some y \<Rightarrow>
         bindS (lift (session_key session_id)) (\<lambda>sk.
         bindS (lift (user_key (sd_user_id y))) (\<lambda>uk.
         redis_error_as (SessionStoreError ''Redis session refresh failed'')
           (bindS (rd_exec api now [CExpire sk SESSION_TTL, CExpire uk SESSION_TTL]) (\<lambda>rs. ret (hd rs \<noteq> 0))))))"

definition redis_session_revoke :: "'r redis_api \<Rightarrow> time \<Rightarrow> string \<Rightarrow> ('r, bool) io" where
  "redis_session_revoke api now session_id =
     bindS (redis_session_get api now session_id) (\<lambda>x. case x of
       None \<Rightarrow> ret False
     | Some y \<Rightarrow>
         bindS (lift (session_key session_id)) (\<lambda>sk.
         bindS (lift (user_key (sd_user_id y))) (\<lambda>uk.
         redis_error_as (SessionStoreError ''Redis session revoke failed'')
           (bindS (rd_exec api now [CDel [sk], CSRem uk session_id]) (\<lambda>rs. ret (hd rs \<noteq> 0))))))"

text \<open>\<open>revoke_user_sessions\<close> reads the index at \<open>now\<close> and deletes at \<open>now'\<close>: two commands.\<close>

definition redis_session_revoke_user :: "'r redis_api \<Rightarrow> time \<Rightarrow> time \<Rightarrow> string \<Rightarrow> ('r, nat) io" where
  "redis_session_revoke_user api now now' user_id =
     bindS (lift (user_key user_id)) (\<lambda>uk.
     redis_error_as (SessionStoreError ''Redis user session revoke failed'')
       (bindS (rd_smembers api now uk) (\<lambda>ids.
        if ids = [] then ret 0
        else bindS (lift (mapE session_key ids)) (\<lambda>keys.
             bindS (rd_del api now' (keys @ [uk])) (\<lambda>_. ret (length ids))))))"

definition redis_session_health_check :: "'r redis_api \<Rightarrow> time \<Rightarrow> ('r, unit) io" where
  "redis_session_health_check api now =
     redis_error_as (SessionStoreError ''Redis session health check failed'')
       (bindS (rd_ping api now) (\<lambda>ok. if ok then ret ()
          else raise (SessionStoreError ''Redis session health check failed'')))"

definition redis_sessions :: "'r redis_api \<Rightarrow> 'r session_ops" where
  "redis_sessions api = \<lparr>ss_create = redis_session_create api, ss_get = redis_session_get api,
     ss_refresh = redis_session_refresh api, ss_revoke = redis_session_revoke api,
     ss_revoke_user = (\<lambda>now. redis_session_revoke_user api now now)\<rparr>"

section \<open>The bearer dependency\<close>

definition get_current_session :: "'s session_ops \<Rightarrow> time \<Rightarrow> string option \<Rightarrow> ('s, SessionData) io" where
  "get_current_session store now credentials = (case credentials of
       None \<Rightarrow> raise (HTTPException 401 ''Bearer session is required'')
     | Some token \<Rightarrow> bindS (ss_get store now token) (\<lambda>session. case session of
         None \<Rightarrow> raise (HTTPException 401 ''Invalid session'')
       | Some x \<Rightarrow> ret x))"

section \<open>The contract\<close>

text \<open>Sequences of operations by any clients, with the times they take effect. \<open>None\<close> when one raises.\<close>

datatype session_op = SCreate SessionData | SGet string | SRefresh string | SRevoke string | SRevokeUser string

fun ss_step :: "'s session_ops \<Rightarrow> time \<Rightarrow> session_op \<Rightarrow> 's \<Rightarrow> 's option" where
  "ss_step ops t (SCreate x) s = (case ss_create ops t x s of (Inr _, s') \<Rightarrow> Some s' | _ \<Rightarrow> None)"
| "ss_step ops t (SGet i) s = (case ss_get ops t i s of (Inr _, s') \<Rightarrow> Some s' | _ \<Rightarrow> None)"
| "ss_step ops t (SRefresh i) s = (case ss_refresh ops t i s of (Inr _, s') \<Rightarrow> Some s' | _ \<Rightarrow> None)"
| "ss_step ops t (SRevoke i) s = (case ss_revoke ops t i s of (Inr _, s') \<Rightarrow> Some s' | _ \<Rightarrow> None)"
| "ss_step ops t (SRevokeUser u) s = (case ss_revoke_user ops t u s of (Inr _, s') \<Rightarrow> Some s' | _ \<Rightarrow> None)"

fun ss_run :: "'s session_ops \<Rightarrow> (time \<times> session_op) list \<Rightarrow> 's \<Rightarrow> 's option" where
  "ss_run ops [] s = Some s"
| "ss_run ops ((t, op) # xs) s = (case ss_step ops t op s of None \<Rightarrow> None | Some s' \<Rightarrow> ss_run ops xs s')"

fun creates_for :: "string \<Rightarrow> session_op \<Rightarrow> bool" where
  "creates_for u (SCreate x) = (sd_user_id x = u)"
| "creates_for u _ = False"

fun touches :: "string \<Rightarrow> string \<Rightarrow> session_op \<Rightarrow> bool" where
  "touches i u (SCreate x) = (sd_session_id x = i)"
| "touches i u (SGet _) = False"
| "touches i u (SRefresh j) = (j = i)"
| "touches i u (SRevoke j) = (j = i)"
| "touches i u (SRevokeUser v) = (v = u)"

fun op_ok :: "(SessionData \<Rightarrow> bool) \<Rightarrow> session_op \<Rightarrow> bool" where
  "op_ok ok (SCreate x) = ok x"
| "op_ok ok _ = True"

locale session_store =
  fixes ops :: "'s session_ops" and view :: "time \<Rightarrow> 's \<Rightarrow> string \<Rightarrow> SessionData option"
    and inv :: "time \<Rightarrow> 's \<Rightarrow> bool" and ttl :: "'s \<Rightarrow> int"
    and norm :: "SessionData \<Rightarrow> SessionData" and ok :: "SessionData \<Rightarrow> bool"
  assumes create_law: "inv now s \<Longrightarrow> ok x \<Longrightarrow> ss_create ops now x s = (Inr un, s') \<Longrightarrow> inv now s' \<and> ttl s' = ttl s \<and>
      (\<forall>n\<ge>now. \<forall>i. view n s' i = (if i = sd_session_id x
         then if now + seconds (ttl s) \<le> n then None else Some (norm x) else view n s i))"
    and get_law: "inv now s \<Longrightarrow> ss_get ops now i s = (Inr v, s') \<Longrightarrow> v = view now s i \<and> inv now s' \<and> ttl s' = ttl s \<and>
      (\<forall>n\<ge>now. \<forall>j. view n s' j = view n s j)"
    and refresh_law: "inv now s \<Longrightarrow> ss_refresh ops now i s = (Inr b, s') \<Longrightarrow> b = (view now s i \<noteq> None) \<and> inv now s' \<and>
      ttl s' = ttl s \<and> (\<forall>n\<ge>now. \<forall>j. view n s' j = (if b \<and> j = i
         then if now + seconds (ttl s) \<le> n then None else view now s i else view n s j))"
    and revoke_law: "inv now s \<Longrightarrow> ss_revoke ops now i s = (Inr b, s') \<Longrightarrow> (view now s i \<noteq> None \<longrightarrow> b) \<and> inv now s' \<and>
      ttl s' = ttl s \<and> (\<forall>n\<ge>now. \<forall>j. view n s' j = (if j = i then None else view n s j))"
    and revoke_user_law: "inv now s \<Longrightarrow> ss_revoke_user ops now u s = (Inr k, s') \<Longrightarrow> inv now s' \<and> ttl s' = ttl s \<and>
      (\<forall>n\<ge>now. \<forall>j. view n s' j = (case view n s j of None \<Rightarrow> None
         | Some x \<Rightarrow> if sd_user_id x = u then None else Some x))"
    and norm_ids: "sd_session_id (norm x) = sd_session_id x" "sd_user_id (norm x) = sd_user_id x"
    and inv_later: "inv now s \<Longrightarrow> now \<le> n \<Longrightarrow> inv n s"
begin

text \<open>A bearer token is accepted exactly while its session is visible.\<close>

lemma current_session:
  assumes "inv now s" and "ss_get ops now token s = (Inr v, s')"
  shows "fst (get_current_session ops now (Some token) s) =
    (case view now s token of None \<Rightarrow> Inl (HTTPException 401 ''Invalid session'') | Some x \<Rightarrow> Inr x)"
  using get_law [OF assms] assms(2) by (auto simp: get_current_session_def bindS_def split: option.splits)

text \<open>What a single operation does to the visible sessions.\<close>

lemma step_view:
  assumes "inv t s" "op_ok ok op" "ss_step ops t op s = Some s'"
  shows "inv t s' \<and> ttl s' = ttl s \<and>
    (\<forall>n\<ge>t. \<forall>i x. view n s' i = Some x \<longrightarrow> view n s i = Some x \<or> (\<exists>m\<ge>t. view m s i = Some x) \<or> (\<exists>y. op = SCreate y \<and> x = norm y)) \<and>
    (\<forall>n\<ge>t. \<forall>i u. (\<forall>x. view n s i = Some x \<longrightarrow> sd_user_id x = u) \<longrightarrow> \<not> touches i u op \<longrightarrow> view n s' i = view n s i)"
proof (cases op)
  case (SCreate x)
  then obtain un where r: "ss_create ops t x s = (Inr un, s')" using assms(3) by (auto split: prod.splits sum.splits)
  have "ok x" using assms(2) SCreate by simp
  from create_law [OF assms(1) this r] show ?thesis using SCreate by auto
next
  case (SGet i)
  then obtain v where r: "ss_get ops t i s = (Inr v, s')" using assms(3) by (auto split: prod.splits sum.splits)
  from get_law [OF assms(1) r] show ?thesis by auto
next
  case (SRefresh i)
  then obtain v where r: "ss_refresh ops t i s = (Inr v, s')" using assms(3) by (auto split: prod.splits sum.splits)
  from refresh_law [OF assms(1) r] show ?thesis using SRefresh by (auto split: if_splits)
next
  case (SRevoke i)
  then obtain v where r: "ss_revoke ops t i s = (Inr v, s')" using assms(3) by (auto split: prod.splits sum.splits)
  from revoke_law [OF assms(1) r] show ?thesis using SRevoke by (auto split: if_splits)
next
  case (SRevokeUser u)
  then obtain v where r: "ss_revoke_user ops t u s = (Inr v, s')" using assms(3) by (auto split: prod.splits sum.splits)
  from revoke_user_law [OF assms(1) r] show ?thesis using SRevokeUser by (auto split: if_splits option.splits)
qed

definition signed_out :: "string \<Rightarrow> time \<Rightarrow> 's \<Rightarrow> bool" where
  "signed_out u t s \<longleftrightarrow> (\<forall>n\<ge>t. \<forall>i x. view n s i = Some x \<longrightarrow> sd_user_id x \<noteq> u)"

lemma signed_out_run:
  assumes "ss_run ops xs s = Some s'" "inv t s" "signed_out u t s" "sorted (map fst xs)"
    "\<forall>(t', op)\<in>set xs. t \<le> t' \<and> t' \<le> m \<and> op_ok ok op \<and> \<not> creates_for u op" "t \<le> m"
  shows "inv m s' \<and> signed_out u m s'"
  using assms
proof (induction xs arbitrary: s t)
  case Nil
  have "signed_out u m s"
    unfolding signed_out_def
  proof (intro allI impI)
    fix n i x assume "m \<le> n" "view n s i = Some x"
    then show "sd_user_id x \<noteq> u" using Nil.prems(3) order_trans [OF Nil.prems(6)] unfolding signed_out_def by blast
  qed
  then show ?case using Nil inv_later [OF Nil.prems(2,6)] by simp
next
  case (Cons p xs)
  obtain t1 op where p: "p = (t1, op)" by (cases p)
  obtain s1 where s1: "ss_step ops t1 op s = Some s1" "ss_run ops xs s1 = Some s'"
    using Cons.prems(1) p by (auto split: option.splits)
  have op: "t \<le> t1" "t1 \<le> m" "op_ok ok op" "\<not> creates_for u op" using Cons.prems(5) p by auto
  have "inv t1 s" using inv_later [OF Cons.prems(2) op(1)] .
  note v = step_view [OF this op(3) s1(1)]
  have "signed_out u t1 s1"
    unfolding signed_out_def
  proof (intro allI impI)
    fix n i x assume n: "t1 \<le> n" "view n s1 i = Some x"
    then consider m' where "t1 \<le> m'" "view m' s i = Some x" | y where "op = SCreate y" "x = norm y" using v by blast
    then show "sd_user_id x \<noteq> u"
    proof cases
      case 1
      then show ?thesis using Cons.prems(3) order_trans [OF op(1) 1(1)] unfolding signed_out_def by blast
    qed (use op(4) norm_ids in auto)
  qed
  moreover have "\<forall>(t', op)\<in>set xs. t1 \<le> t' \<and> t' \<le> m \<and> op_ok ok op \<and> \<not> creates_for u op"
    using Cons.prems(4,5) p by fastforce
  ultimately show ?case using Cons.IH [OF s1(2)] v Cons.prems(4) op p by auto
qed

text \<open>After a user's sessions were revoked, no later reader sees one until a new one is created.\<close>

lemma revocation_holds:
  assumes "inv t0 s" "ss_revoke_user ops t0 u s = (Inr k, s1)" "ss_run ops xs s1 = Some s2" "sorted (map fst xs)"
    "\<forall>(t', op)\<in>set xs. t0 \<le> t' \<and> t' \<le> t1 \<and> op_ok ok op \<and> \<not> creates_for u op" "t0 \<le> t1"
    and "ss_get ops t1 i s2 = (Inr (Some x), s3)"
  shows "sd_user_id x \<noteq> u"
proof -
  note r = revoke_user_law [OF assms(1,2)]
  then have "signed_out u t0 s1" by (auto simp: signed_out_def split: option.splits if_splits)
  from signed_out_run [OF assms(3) _ this assms(4-6)] have "inv t1 s2" "signed_out u t1 s2" using r by auto
  moreover from get_law [OF this(1) assms(7)] have "view t1 s2 i = Some x" by simp
  ultimately show ?thesis unfolding signed_out_def by blast
qed

lemma untouched_run:
  assumes "ss_run ops xs s = Some s'" "inv t s" "sorted (map fst xs)"
    "\<forall>(t', op)\<in>set xs. t \<le> t' \<and> t' \<le> m \<and> op_ok ok op \<and> \<not> touches i u op" "t \<le> m"
    "\<forall>n\<ge>t. \<forall>x. view n s i = Some x \<longrightarrow> sd_user_id x = u"
  shows "inv m s' \<and> view m s' i = view m s i"
  using assms
proof (induction xs arbitrary: s t)
  case Nil
  then show ?case using inv_later by auto
next
  case (Cons p xs)
  obtain t1 op where p: "p = (t1, op)" by (cases p)
  obtain s1 where s1: "ss_step ops t1 op s = Some s1" "ss_run ops xs s1 = Some s'"
    using Cons.prems(1) p by (auto split: option.splits)
  have op: "t \<le> t1" "t1 \<le> m" "op_ok ok op" "\<not> touches i u op" using Cons.prems(4) p by auto
  have "inv t1 s" using inv_later [OF Cons.prems(2) op(1)] .
  note v = step_view [OF this op(3) s1(1)]
  have same: "\<forall>n\<ge>t1. view n s1 i = view n s i"
  proof (intro allI impI)
    fix n assume n: "t1 \<le> n"
    then have "\<forall>x. view n s i = Some x \<longrightarrow> sd_user_id x = u" using Cons.prems(6) order_trans [OF op(1) n] by simp
    from v [THEN conjunct2, THEN conjunct2, THEN conjunct2, THEN spec, THEN mp, OF n, THEN spec, THEN spec, THEN mp, OF this]
    show "view n s1 i = view n s i" using op(4) by (rule mp)
  qed
  have all: "\<forall>(t', op)\<in>set xs. t1 \<le> t' \<and> t' \<le> m \<and> op_ok ok op \<and> \<not> touches i u op"
    using Cons.prems(3,4) p by fastforce
  have own: "\<forall>n\<ge>t1. \<forall>x. view n s1 i = Some x \<longrightarrow> sd_user_id x = u"
  proof (intro allI impI)
    fix n x assume n: "t1 \<le> n" "view n s1 i = Some x"
    then have "view n s i = Some x" using same by simp
    then show "sd_user_id x = u" using Cons.prems(6) order_trans [OF op(1) n(1)] by blast
  qed
  have "inv t1 s1" "sorted (map fst xs)" using v Cons.prems(3) by auto
  from Cons.IH [OF s1(2) this all op(2) own] show ?case using same op by simp
qed

text \<open>A session lives for its lifetime, whatever happens to others, and no longer.\<close>

lemma session_lifetime:
  assumes "inv t0 s" "ok x" "ss_create ops t0 x s = (Inr un, s1)" "ss_run ops xs s1 = Some s2" "sorted (map fst xs)"
    "\<forall>(t', op)\<in>set xs. t0 \<le> t' \<and> t' \<le> t1 \<and> op_ok ok op \<and> \<not> touches (sd_session_id x) (sd_user_id x) op" "t0 \<le> t1"
    and "ss_get ops t1 (sd_session_id x) s2 = (Inr v, s3)"
  shows "v = (if t1 < t0 + seconds (ttl s) then Some (norm x) else None)"
proof -
  note c = create_law [OF assms(1-3)]
  then have "\<forall>n\<ge>t0. \<forall>y. view n s1 (sd_session_id x) = Some y \<longrightarrow> sd_user_id y = sd_user_id x"
    using norm_ids by auto
  from untouched_run [OF assms(4) _ assms(5-7) this] have "inv t1 s2" "view t1 s2 (sd_session_id x) = view t1 s1 (sd_session_id x)"
    using c by auto
  then show ?thesis using get_law [OF _ assms(8)] c assms(7) by auto
qed

end

section \<open>The in-memory store meets the contract\<close>

text \<open>The index lists, for each user with sessions, exactly the identifiers of the stored ones.\<close>

definition index_ids :: "(string \<Rightarrow> string list option) \<Rightarrow> string \<Rightarrow> string list" where
  "index_ids ix u = (case ix u of None \<Rightarrow> [] | Some ids \<Rightarrow> ids)"

definition owner :: "(string \<Rightarrow> (SessionData \<times> time) option) \<Rightarrow> string \<Rightarrow> string option" where
  "owner m i = map_option (\<lambda>p. sd_user_id (fst p)) (m i)"

definition sessions_indexed ::
  "(string \<Rightarrow> (SessionData \<times> time) option) \<Rightarrow> (string \<Rightarrow> string list option) \<Rightarrow> bool" where
  "sessions_indexed m ix \<longleftrightarrow> (\<forall>i p. m i = Some p \<longrightarrow> sd_session_id (fst p) = i) \<and>
     (\<forall>u. set (index_ids ix u) = {i. owner m i = Some u}) \<and>
     (\<forall>u ids. ix u = Some ids \<longrightarrow> ids \<noteq> [] \<and> distinct ids)"

definition fake_sessions_wf :: "FakeSessionStore \<Rightarrow> bool" where
  "fake_sessions_wf s \<longleftrightarrow> sessions_indexed (dict_get (fs_sessions s)) (dict_get (fs_user_sessions s))"

definition fake_view :: "time \<Rightarrow> FakeSessionStore \<Rightarrow> string \<Rightarrow> SessionData option" where
  "fake_view n s i = (case dict_get (fs_sessions s) i of None \<Rightarrow> None
     | Some (x, e) \<Rightarrow> if e \<le> n then None else Some x)"

lemma dict_get_unindex:
  "dict_get (fake_unindex u i idx) v = (if v = u then (case dict_get idx u of None \<Rightarrow> None
     | Some ids \<Rightarrow> if removeAll i ids = [] then None else Some (removeAll i ids)) else dict_get idx v)"
  by (auto simp: fake_unindex_def Let_def split: option.splits)

lemma dict_get_index:
  "dict_get (fake_index u i idx) v = (if v = u then Some (List.insert i (case dict_get idx u of None \<Rightarrow> [] | Some ids \<Rightarrow> ids))
     else dict_get idx v)"
  by (simp add: fake_index_def)

lemma indexed_remove:
  assumes "sessions_indexed m ix" "m i = Some (x, e)"
  shows "sessions_indexed (m(i := None)) (\<lambda>v. if v = sd_user_id x then (case ix v of None \<Rightarrow> None
     | Some ids \<Rightarrow> if removeAll i ids = [] then None else Some (removeAll i ids)) else ix v)"
    (is "sessions_indexed _ ?ix")
proof -
  have ids: "index_ids ?ix v = (if v = sd_user_id x then removeAll i (index_ids ix v) else index_ids ix v)" for v
    by (auto simp: index_ids_def split: option.splits)
  have own: "owner (m(i := None)) j = (if j = i then None else owner m j)" for j by (simp add: owner_def)
  have oi: "owner m i = Some (sd_user_id x)" using assms(2) by (simp add: owner_def)
  have "set (index_ids ?ix u) = {j. owner (m(i := None)) j = Some u}" for u
    using assms(1) oi unfolding sessions_indexed_def ids own by auto
  moreover have "?ix u = Some l \<Longrightarrow> l \<noteq> [] \<and> distinct l" for u l
    using assms(1) unfolding sessions_indexed_def
    by (auto split: if_splits option.splits simp: distinct_removeAll)
  moreover have "(m(i := None)) j = Some p \<Longrightarrow> sd_session_id (fst p) = j" for j p
    using assms(1) unfolding sessions_indexed_def by (cases p) (auto split: if_splits)
  ultimately show ?thesis unfolding sessions_indexed_def by blast
qed

lemma indexed_add:
  assumes "sessions_indexed m ix" "m i = None" "sd_session_id x = i"
  shows "sessions_indexed (m(i \<mapsto> (x, e))) (ix(sd_user_id x \<mapsto> List.insert i (index_ids ix (sd_user_id x))))"
    (is "sessions_indexed ?m ?ix")
proof -
  have ids: "index_ids ?ix v = (if v = sd_user_id x then List.insert i (index_ids ix v) else index_ids ix v)" for v
    by (simp add: index_ids_def)
  have own: "owner ?m j = (if j = i then Some (sd_user_id x) else owner m j)" for j by (simp add: owner_def)
  have oi: "owner m i = None" using assms(2) by (simp add: owner_def)
  have "set (index_ids ?ix u) = {j. owner ?m j = Some u}" for u
    using assms(1) oi unfolding sessions_indexed_def ids own by auto
  moreover have "distinct (index_ids ix v)" for v
    using assms(1) unfolding sessions_indexed_def by (simp add: index_ids_def split: option.splits)
  then have "?ix u = Some l \<Longrightarrow> l \<noteq> [] \<and> distinct l" for u l
    using assms(1) oi unfolding sessions_indexed_def by (auto simp: List.insert_def split: if_splits)
  moreover have "?m j = Some p \<Longrightarrow> sd_session_id (fst p) = j" for j p
    using assms unfolding sessions_indexed_def by (cases p) (auto split: if_splits)
  ultimately show ?thesis unfolding sessions_indexed_def by blast
qed

lemma indexed_retime:
  assumes "sessions_indexed m ix" "m i = Some (x, e)"
  shows "sessions_indexed (m(i \<mapsto> (x, e'))) ix"
proof -
  have "owner (m(i \<mapsto> (x, e'))) = owner m" using assms(2) by (auto simp: owner_def fun_eq_iff)
  then show ?thesis using assms unfolding sessions_indexed_def by (auto split: if_splits)
qed

lemma dict_get_fun [simp]:
  "dict_get (dict_del k d) = (dict_get d)(k := None)" "dict_get (dict_set k v d) = (dict_get d)(k \<mapsto> v)"
  by (auto simp: fun_eq_iff)

lemma fake_revoke_run:
  assumes "fake_sessions_wf s"
  shows "\<exists>b s'. fake_session_revoke now i s = (Inr b, s') \<and> fake_sessions_wf s' \<and> fs_ttl s' = fs_ttl s \<and>
    dict_get (fs_sessions s') = (dict_get (fs_sessions s))(i := None) \<and> b = (dict_get (fs_sessions s) i \<noteq> None)"
proof (cases "dict_get (fs_sessions s) i")
  case (Some p)
  obtain x e where p: "p = (x, e)" by (cases p)
  have "dict_get (fake_unindex (sd_user_id x) i (fs_user_sessions s)) = (\<lambda>v. if v = sd_user_id x then (case dict_get (fs_user_sessions s) v of None \<Rightarrow> None
     | Some ids \<Rightarrow> if removeAll i ids = [] then None else Some (removeAll i ids)) else dict_get (fs_user_sessions s) v)"
    by (auto simp: fun_eq_iff dict_get_unindex)
  then show ?thesis using Some p assms indexed_remove [of "dict_get (fs_sessions s)" "dict_get (fs_user_sessions s)" i x e]
    by (auto simp: fake_session_revoke_def fake_sessions_wf_def)
next
  case None
  then have "(dict_get (fs_sessions s))(i := None) = dict_get (fs_sessions s)" by (simp add: fun_upd_idem)
  then show ?thesis using None assms by (auto simp: fake_session_revoke_def)
qed

lemma fake_view_map:
  "dict_get (fs_sessions s') = f \<Longrightarrow> fake_view n s' i = (case f i of None \<Rightarrow> None | Some (x, e) \<Rightarrow> if e \<le> n then None else Some x)"
  by (simp add: fake_view_def)

lemma fake_get_run:
  assumes "fake_sessions_wf s"
  shows "\<exists>s'. fake_session_get now i s = (Inr (fake_view now s i), s') \<and> fake_sessions_wf s' \<and> fs_ttl s' = fs_ttl s \<and>
    (\<forall>n\<ge>now. \<forall>j. fake_view n s' j = fake_view n s j) \<and>
    (fake_view now s i \<noteq> None \<longrightarrow> s' = s)"
proof (cases "\<exists>x e. dict_get (fs_sessions s) i = Some (x, e) \<and> e \<le> now")
  case True
  then obtain x e where x: "dict_get (fs_sessions s) i = Some (x, e)" "e \<le> now" by blast
  obtain b s' where r: "fake_session_revoke now i s = (Inr b, s')" "fake_sessions_wf s'" "fs_ttl s' = fs_ttl s"
    "dict_get (fs_sessions s') = (dict_get (fs_sessions s))(i := None)" using fake_revoke_run [OF assms] by blast
  have "\<forall>n\<ge>now. \<forall>j. fake_view n s' j = fake_view n s j"
    using x r(4) by (auto simp: fake_view_def)
  then show ?thesis using x r by (simp add: fake_session_get_def fake_view_def bindS_def)
next
  case False
  then show ?thesis using assms
    by (cases "dict_get (fs_sessions s) i") (auto simp: fake_session_get_def fake_view_def)
qed

lemma fake_create_run:
  assumes "fake_sessions_wf s"
  shows "\<exists>s'. fake_session_create now x s = (Inr (), s') \<and> fake_sessions_wf s' \<and> fs_ttl s' = fs_ttl s \<and>
    dict_get (fs_sessions s') = (dict_get (fs_sessions s))(sd_session_id x \<mapsto> (x, now + seconds (fs_ttl s)))"
proof -
  obtain b s1 where r: "fake_session_revoke now (sd_session_id x) s = (Inr b, s1)" "fake_sessions_wf s1" "fs_ttl s1 = fs_ttl s"
    "dict_get (fs_sessions s1) = (dict_get (fs_sessions s))(sd_session_id x := None)" using fake_revoke_run [OF assms] by blast
  let ?s = "s1\<lparr>fs_sessions := dict_set (sd_session_id x) (x, now + seconds (fs_ttl s1)) (fs_sessions s1),
       fs_user_sessions := fake_index (sd_user_id x) (sd_session_id x) (fs_user_sessions s1)\<rparr>"
  have "fake_sessions_wf ?s"
    using indexed_add [of "dict_get (fs_sessions s1)" "dict_get (fs_user_sessions s1)" "sd_session_id x" x] r(2,4)
    by (simp add: fake_sessions_wf_def fake_index_def index_ids_def)
  then show ?thesis using r by (simp add: fake_session_create_def bindS_def)
qed

lemma fake_revoke_all_run:
  assumes "fake_sessions_wf s"
  shows "\<exists>s'. fake_revoke_all now ids s = (Inr (), s') \<and> fake_sessions_wf s' \<and> fs_ttl s' = fs_ttl s \<and>
    dict_get (fs_sessions s') = (\<lambda>i. if i \<in> set ids then None else dict_get (fs_sessions s) i)"
  using assms
proof (induction ids arbitrary: s)
  case (Cons i ids)
  obtain b s1 where r: "fake_session_revoke now i s = (Inr b, s1)" "fake_sessions_wf s1" "fs_ttl s1 = fs_ttl s"
    "dict_get (fs_sessions s1) = (dict_get (fs_sessions s))(i := None)" using fake_revoke_run [OF Cons.prems] by blast
  from Cons.IH [OF r(2)] obtain s2 where "fake_revoke_all now ids s1 = (Inr (), s2)" "fake_sessions_wf s2"
    "fs_ttl s2 = fs_ttl s1" "dict_get (fs_sessions s2) = (\<lambda>i. if i \<in> set ids then None else dict_get (fs_sessions s1) i)" by blast
  then show ?case using r by (auto simp: bindS_def fun_eq_iff)
qed auto

lemma fake_index_exact:
  assumes "fake_sessions_wf s" "dict_get (fs_sessions s) i = Some (x, e)"
  shows "i \<in> set (index_ids (dict_get (fs_user_sessions s)) u) \<longleftrightarrow> sd_user_id x = u"
  using assms unfolding fake_sessions_wf_def sessions_indexed_def by (simp add: owner_def)

lemma fake_refresh_run:
  assumes "fake_sessions_wf s" "fake_session_refresh now i s = (Inr b, s')"
  shows "b = (fake_view now s i \<noteq> None) \<and> fake_sessions_wf s' \<and> fs_ttl s' = fs_ttl s \<and> (\<forall>n\<ge>now. \<forall>j. fake_view n s' j =
    (if b \<and> j = i then if now + seconds (fs_ttl s) \<le> n then None else fake_view now s i else fake_view n s j))"
proof -
  obtain s1 where g: "fake_session_get now i s = (Inr (fake_view now s i), s1)" "fake_sessions_wf s1" "fs_ttl s1 = fs_ttl s"
    "\<forall>n\<ge>now. \<forall>j. fake_view n s1 j = fake_view n s j" "fake_view now s i \<noteq> None \<longrightarrow> s1 = s"
    using fake_get_run [OF assms(1)] by blast
  show ?thesis
  proof (cases "fake_view now s i")
    case None
    then show ?thesis using assms(2) g by (auto simp: fake_session_refresh_def bindS_def)
  next
    case (Some x)
    then have s1: "s1 = s" using g(5) by simp
    obtain e where e: "dict_get (fs_sessions s) i = Some (x, e)" using Some by (auto simp: fake_view_def split: option.splits if_splits)
    have b: "b" "s' = s\<lparr>fs_sessions := dict_set i (x, now + seconds (fs_ttl s)) (fs_sessions s)\<rparr>"
      using assms(2) g(1) Some s1 by (auto simp: fake_session_refresh_def bindS_def)
    have "fake_sessions_wf s'" using assms(1) b(2) indexed_retime [of "dict_get (fs_sessions s)", OF _ e] by (simp add: fake_sessions_wf_def)
    then show ?thesis using Some b by (auto simp: fake_view_def)
  qed
qed

interpretation fake_store: session_store fake_sessions fake_view "\<lambda>_. fake_sessions_wf" fs_ttl "\<lambda>x. x" "\<lambda>_. True"
proof
  fix now s x un s'
  assume "fake_sessions_wf s" "ss_create fake_sessions now x s = (Inr un, s')"
  then show "fake_sessions_wf s' \<and> fs_ttl s' = fs_ttl s \<and> (\<forall>n\<ge>now. \<forall>i. fake_view n s' i = (if i = sd_session_id x
         then if now + seconds (fs_ttl s) \<le> n then None else Some x else fake_view n s i))"
    using fake_create_run [of s now x] by (auto simp: fake_sessions_def fake_view_def)
next
  fix now s i v s'
  assume "fake_sessions_wf s" "ss_get fake_sessions now i s = (Inr v, s')"
  then show "v = fake_view now s i \<and> fake_sessions_wf s' \<and> fs_ttl s' = fs_ttl s \<and> (\<forall>n\<ge>now. \<forall>j. fake_view n s' j = fake_view n s j)"
    using fake_get_run [of s now i] by (auto simp: fake_sessions_def)
next
  fix now s i b s'
  assume "fake_sessions_wf s" "ss_revoke fake_sessions now i s = (Inr b, s')"
  then show "(fake_view now s i \<noteq> None \<longrightarrow> b) \<and> fake_sessions_wf s' \<and> fs_ttl s' = fs_ttl s \<and>
      (\<forall>n\<ge>now. \<forall>j. fake_view n s' j = (if j = i then None else fake_view n s j))"
    using fake_revoke_run [of s now i] by (auto simp: fake_sessions_def fake_view_def)
next
  fix now s u k s'
  assume a: "fake_sessions_wf s" "ss_revoke_user fake_sessions now u s = (Inr k, s')"
  let ?ids = "index_ids (dict_get (fs_user_sessions s)) u"
  obtain s1 where r: "fake_revoke_all now ?ids s = (Inr (), s1)" "fake_sessions_wf s1" "fs_ttl s1 = fs_ttl s"
    "dict_get (fs_sessions s1) = (\<lambda>i. if i \<in> set ?ids then None else dict_get (fs_sessions s) i)"
    using fake_revoke_all_run [OF a(1)] by blast
  have "s' = s1" using a(2) r(1) by (simp add: fake_sessions_def fake_session_revoke_user_def bindS_def index_ids_def)
  moreover have "fake_view n s1 j = (case fake_view n s j of None \<Rightarrow> None | Some x \<Rightarrow> if sd_user_id x = u then None else Some x)" for n j
    using fake_index_exact [OF a(1), of j _ _ u] r(4)
    by (cases "dict_get (fs_sessions s) j") (auto simp: fake_view_def)
  ultimately show "fake_sessions_wf s' \<and> fs_ttl s' = fs_ttl s \<and> (\<forall>n\<ge>now. \<forall>j. fake_view n s' j = (case fake_view n s j of None \<Rightarrow> None
         | Some x \<Rightarrow> if sd_user_id x = u then None else Some x))" using r by simp
qed (use fake_refresh_run in \<open>auto simp: fake_sessions_def\<close>)

section \<open>The Redis store meets the contract\<close>

lemma user_tag_Inr:
  "user_routing_tag u = Inr t \<Longrightarrow> u \<noteq> [] \<and> t = unpadded (b64encode (utf8 u)) \<and> list_all is_b64 t"
proof -
  assume "user_routing_tag u = Inr t"
  then have "u \<noteq> []" "t = unpadded (b64encode (utf8 u))" by (auto simp: user_routing_tag_def split: if_splits)
  moreover obtain p where "padded (b64encode (utf8 u)) (unpadded (b64encode (utf8 u))) p"
    using unpadded_encode [OF utf8_bytes] by blast
  ultimately show ?thesis by (simp add: padded_def)
qed

lemma user_tag_inj: "user_routing_tag u = Inr t \<Longrightarrow> user_routing_tag v = Inr t \<Longrightarrow> u = v"
  by (metis user_tag_Inr unpadded_inj utf8_bytes utf8_inj)

lemma user_tag_no_dot: "user_routing_tag u = Inr t \<Longrightarrow> CHR ''.'' \<notin> set t"
  using user_tag_Inr is_b64_safe by (auto simp: list_all_iff)

lemma session_tag_Inr: "session_routing_tag i = Inr t \<Longrightarrow> \<exists>sec. i = t @ CHR ''.'' # sec \<and> CHR ''.'' \<notin> set t"
  by (auto simp: session_routing_tag_def split: prod.splits if_splits dest: partition_at_True)

lemma session_key_Inr:
  "session_key i = Inr k \<Longrightarrow> \<exists>t sec. session_routing_tag i = Inr t \<and> i = t @ CHR ''.'' # sec \<and> CHR ''.'' \<notin> set t \<and>
     k = (SESSION_NAMESPACE @ '':{'' @ t @ ''}:session:'' @ t) @ CHR ''.'' # sec"
proof -
  assume "session_key i = Inr k"
  then obtain t where t: "session_routing_tag i = Inr t" "k = SESSION_NAMESPACE @ '':{'' @ t @ ''}:session:'' @ i"
    by (auto simp: session_key_def bindE_eq_Inr)
  obtain sec where "i = t @ CHR ''.'' # sec" "CHR ''.'' \<notin> set t" using session_tag_Inr [OF t(1)] by blast
  then show ?thesis using t by (intro exI [of _ t] exI [of _ sec]) simp
qed

lemma namespace_no_dot: "CHR ''.'' \<notin> set SESSION_NAMESPACE"
  by (simp add: SESSION_NAMESPACE_def)

lemma session_key_partition:
  assumes "session_key i = Inr k"
  shows "\<exists>t sec. i = t @ CHR ''.'' # sec \<and> partition_at CHR ''.'' k = (SESSION_NAMESPACE @ '':{'' @ t @ ''}:session:'' @ t, True, sec)"
proof -
  from session_key_Inr [OF assms] obtain t sec where t: "i = t @ CHR ''.'' # sec" "CHR ''.'' \<notin> set t"
    "k = (SESSION_NAMESPACE @ '':{'' @ t @ ''}:session:'' @ t) @ CHR ''.'' # sec" by blast
  then have "CHR ''.'' \<notin> set (SESSION_NAMESPACE @ '':{'' @ t @ ''}:session:'' @ t)" using namespace_no_dot by simp
  then show ?thesis using t partition_at_append by blast
qed

lemma session_key_inj: "session_key i = Inr k \<Longrightarrow> session_key j = Inr k \<Longrightarrow> i = j"
proof -
  assume a: "session_key i = Inr k" "session_key j = Inr k"
  obtain t sec where t: "i = t @ CHR ''.'' # sec"
    "partition_at CHR ''.'' k = (SESSION_NAMESPACE @ '':{'' @ t @ ''}:session:'' @ t, True, sec)"
    using session_key_partition [OF a(1)] by blast
  obtain t' sec' where t': "j = t' @ CHR ''.'' # sec'"
    "partition_at CHR ''.'' k = (SESSION_NAMESPACE @ '':{'' @ t' @ ''}:session:'' @ t', True, sec')"
    using session_key_partition [OF a(2)] by blast
  have e: "SESSION_NAMESPACE @ '':{'' @ t @ ''}:session:'' @ t = SESSION_NAMESPACE @ '':{'' @ t' @ ''}:session:'' @ t'" and s: "sec = sec'"
    using t(2) t'(2) by (simp_all only: prod.inject)
  have "length t = length t'" using arg_cong [OF e, of length] by simp
  moreover have "(SESSION_NAMESPACE @ '':{'' @ t @ ''}:session:'') @ t = (SESSION_NAMESPACE @ '':{'' @ t' @ ''}:session:'') @ t'"
    using e by (simp only: append_assoc)
  ultimately have "t = t'" using append_eq_append_conv [THEN iffD1] by blast
  then show ?thesis using t(1) t'(1) s by simp
qed

lemma user_key_Inr:
  "user_key u = Inr k \<Longrightarrow> \<exists>t. user_routing_tag u = Inr t \<and> k = SESSION_NAMESPACE @ '':{'' @ t @ ''}:user-sessions''"
  by (auto simp: user_key_def bindE_eq_Inr)

lemma user_key_inj: "user_key u = Inr k \<Longrightarrow> user_key v = Inr k \<Longrightarrow> u = v"
proof -
  assume a: "user_key u = Inr k" "user_key v = Inr k"
  obtain t where t: "user_routing_tag u = Inr t" "k = SESSION_NAMESPACE @ '':{'' @ t @ ''}:user-sessions''"
    using user_key_Inr [OF a(1)] by blast
  obtain t' where t': "user_routing_tag v = Inr t'" "k = SESSION_NAMESPACE @ '':{'' @ t' @ ''}:user-sessions''"
    using user_key_Inr [OF a(2)] by blast
  have "t = t'" using t(2) t'(2) by (simp only: same_append_eq append_same_eq)
  then show ?thesis using user_tag_inj t(1) t'(1) by blast
qed

lemma keys_disjoint: "session_key i = Inr k \<Longrightarrow> user_key u = Inr k' \<Longrightarrow> k \<noteq> k'"
proof
  assume a: "session_key i = Inr k" "user_key u = Inr k'" "k = k'"
  have "CHR ''.'' \<in> set k" using session_key_Inr [OF a(1)] by auto
  moreover obtain t where t: "user_routing_tag u = Inr t" "k' = SESSION_NAMESPACE @ '':{'' @ t @ ''}:user-sessions''"
    using user_key_Inr [OF a(2)] by blast
  then have "CHR ''.'' \<notin> set k'" using user_tag_no_dot [OF t(1)] namespace_no_dot by simp
  ultimately show False using a(3) by simp
qed

text \<open>The state of one session key, and of the whole store, at a time: a live session is decodable,
  belongs to the user of its tag, lives no longer than its user's index, and is in the index.\<close>

definition session_ok :: "time \<Rightarrow> rstate \<Rightarrow> string \<Rightarrow> string \<Rightarrow> bool" where
  "session_ok now c i k \<longleftrightarrow> (live now c k \<noteq> None \<longrightarrow>
     (\<exists>p x e uk ms eu. c k = Some (RStr p, Some e) \<and> decode_session i p = Inr x \<and>
        session_routing_tag i = user_routing_tag (sd_user_id x) \<and> user_key (sd_user_id x) = Inr uk \<and>
        e \<le> now + seconds SESSION_TTL \<and> c uk = Some (RSet ms, Some eu) \<and> e \<le> eu \<and> i \<in> set ms))"

definition index_ok :: "rstate \<Rightarrow> string \<Rightarrow> string \<Rightarrow> bool" where
  "index_ok c u k \<longleftrightarrow> (\<forall>ms ex. c k = Some (RSet ms, ex) \<longrightarrow> (\<forall>i\<in>set ms. session_routing_tag i = user_routing_tag u))"

definition redis_sessions_ok :: "time \<Rightarrow> rstate \<Rightarrow> bool" where
  "redis_sessions_ok now c \<longleftrightarrow> (\<forall>i k. session_key i = Inr k \<longrightarrow> session_ok now c i k) \<and>
     (\<forall>u k. user_key u = Inr k \<longrightarrow> index_ok c u k)"

definition session_view :: "time \<Rightarrow> rstate \<Rightarrow> string \<Rightarrow> SessionData option" where
  "session_view n c i = (case session_key i of Inl _ \<Rightarrow> None
     | Inr k \<Rightarrow> (case spec_get n k c of None \<Rightarrow> None
        | Some p \<Rightarrow> (case decode_session i p of Inl _ \<Rightarrow> None | Inr x \<Rightarrow> Some x)))"

definition session_norm :: "SessionData \<Rightarrow> SessionData" where
  "session_norm x = x\<lparr>sd_data := sorted_dict (sd_data x)\<rparr>"

lemma decode_session_payload:
  assumes "json_wf (JObj (sd_data x))"
  shows "decode_session (sd_session_id x) (session_payload x) = Inr (session_norm x)"
proof -
  have "session_payload x = json_dumps True (JObj [(''data'', JObj (sorted_dict (sd_data x))), (''user_id'', JStr (sd_user_id x))])"
    by (simp add: session_payload_def sort_keys_members_map sorted_dict_def)
  moreover have "json_wf (JObj [(''data'', JObj (sorted_dict (sd_data x))), (''user_id'', JStr (sd_user_id x))])"
    using json_wf_sort_keys(1) [OF assms] unfolding sort_keys_obj by simp
  ultimately show ?thesis
    by (simp add: decode_session_def json_loads_dumps dict_get_def session_norm_def)
qed

lemma session_ok_view:
  assumes "redis_sessions_ok now c" "session_key i = Inr k" "now \<le> n" "live n c k \<noteq> None"
  obtains p x e uk ms eu where "c k = Some (RStr p, Some e)" "decode_session i p = Inr x" "session_view n c i = Some x"
    "session_routing_tag i = user_routing_tag (sd_user_id x)" "user_key (sd_user_id x) = Inr uk"
    "n < e" "e \<le> now + seconds SESSION_TTL" "c uk = Some (RSet ms, Some eu)" "e \<le> eu" "i \<in> set ms"
proof -
  have lv: "live now c k \<noteq> None" using live_None_mono [OF assms(3), of c k] assms(4) by auto
  have "session_ok now c i k" using assms(1,2) unfolding redis_sessions_ok_def by simp
  with lv obtain p x e uk ms eu where *: "c k = Some (RStr p, Some e)" "decode_session i p = Inr x"
    "session_routing_tag i = user_routing_tag (sd_user_id x)" "user_key (sd_user_id x) = Inr uk"
    "e \<le> now + seconds SESSION_TTL" "c uk = Some (RSet ms, Some eu)" "e \<le> eu" "i \<in> set ms"
    unfolding session_ok_def by blast
  moreover have "n < e" using assms(4) *(1) by (simp add: live_def split: if_splits)
  moreover from this have "session_view n c i = Some x"
    using * assms(2) by (simp add: session_view_def spec_get_def live_def)
  ultimately show ?thesis using that by blast
qed

lemma session_view_cases:
  assumes "redis_sessions_ok now c" "session_key i = Inr k" "now \<le> n"
  shows "session_view n c i = None \<longleftrightarrow> live n c k = None"
proof (cases "live n c k = None")
  case False
  then show ?thesis using session_ok_view [OF assms False] by (metis option.distinct(1))
qed (use assms in \<open>simp add: session_view_def spec_get_def\<close>)

lemma redis_ok_later:
  assumes "redis_sessions_ok now c" "now \<le> n"
  shows "redis_sessions_ok n c"
proof -
  have "session_ok n c i k" if k: "session_key i = Inr k" for i k
  proof (cases "live n c k = None")
    case False
    obtain p x e uk ms eu where
      *: "c k = Some (RStr p, Some e)" "decode_session i p = Inr x" "session_view n c i = Some x"
      "session_routing_tag i = user_routing_tag (sd_user_id x)" "user_key (sd_user_id x) = Inr uk"
      "n < e" "e \<le> now + seconds SESSION_TTL" "c uk = Some (RSet ms, Some eu)" "e \<le> eu" "i \<in> set ms"
      by (rule session_ok_view [OF assms(1) k assms(2) False])
    moreover have "e \<le> n + seconds SESSION_TTL" using *(7) assms(2) by simp
    ultimately show ?thesis unfolding session_ok_def by blast
  qed (simp add: session_ok_def)
  then show ?thesis using assms(1) unfolding redis_sessions_ok_def by blast
qed

lemma session_view_live: "session_key i = Inr k \<Longrightarrow> live n c' k = live n c k \<Longrightarrow> session_view n c' i = session_view n c i"
  by (simp add: session_view_def spec_get_def)

lemma session_view_dead: "session_key i = Inr k \<Longrightarrow> live n c k = None \<Longrightarrow> session_view n c i = None"
  by (simp add: session_view_def spec_get_def)

lemma session_view_no_key: "session_key i = Inl e \<Longrightarrow> session_view n c i = None"
  by (simp add: session_view_def)

lemma session_okI:
  assumes "c k = Some (RStr p, Some e)" "decode_session i p = Inr x" "session_routing_tag i = user_routing_tag (sd_user_id x)"
    "user_key (sd_user_id x) = Inr uk" "e \<le> now + seconds SESSION_TTL" "c uk = Some (RSet ms, Some eu)" "e \<le> eu" "i \<in> set ms"
  shows "session_ok now c i k"
  using assms unfolding session_ok_def by blast

text \<open>What creating and refreshing do to the keys: the session and its user's index are written with
  the full lifetime, and the index keeps its live members.\<close>

lemma redis_ok_put:
  fixes c i p x ms' uk now
  defines "T \<equiv> now + seconds SESSION_TTL"
  assumes "redis_sessions_ok now c" "session_key i = Inr sk" "decode_session i p = Inr x"
    "session_routing_tag i = user_routing_tag (sd_user_id x)" "user_key (sd_user_id x) = Inr uk" "i \<in> set ms'"
    "set (spec_smembers now uk c) \<subseteq> set ms'" "\<forall>j\<in>set ms'. session_routing_tag j = user_routing_tag (sd_user_id x)"
  shows "redis_sessions_ok now (c(sk \<mapsto> (RStr p, Some T), uk \<mapsto> (RSet ms', Some T)))" (is "redis_sessions_ok now ?c")
proof -
  have ne: "sk \<noteq> uk" by (rule keys_disjoint [OF assms(3,6)])
  have "session_ok now ?c j k" if k: "session_key j = Inr k" for j k
  proof (cases "j = i")
    case True
    then have "k = sk" using k assms(3) by simp
    then show ?thesis using session_okI [of ?c k p T j x uk now ms' T] assms ne True T_def by simp
  next
    case False
    then have k': "k \<noteq> sk" "k \<noteq> uk" using session_key_inj [OF k] assms(3) keys_disjoint [OF k assms(6)] by blast+
    show ?thesis
    proof (cases "live now c k = None")
      case True
      then show ?thesis using k' by (simp add: session_ok_def)
    next
      case live: False
      obtain q y e vk ms eu where *: "c k = Some (RStr q, Some e)" "decode_session j q = Inr y" "session_view now c j = Some y"
        "session_routing_tag j = user_routing_tag (sd_user_id y)" "user_key (sd_user_id y) = Inr vk"
        "now < e" "e \<le> now + seconds SESSION_TTL" "c vk = Some (RSet ms, Some eu)" "e \<le> eu" "j \<in> set ms"
        by (rule session_ok_view [OF assms(2) k order_refl live])
      have "vk \<noteq> sk" using keys_disjoint [OF assms(3) *(5)] by simp
      moreover have "j \<in> set ms'" if "vk = uk"
        using that assms(8) * by (auto simp: spec_smembers_def live_def)
      ultimately show ?thesis
        using session_okI [of ?c k q e j y vk now ms' T] session_okI [of ?c k q e j y vk now ms eu] * k' T_def
        by (cases "vk = uk") simp_all
    qed
  qed
  moreover have "index_ok ?c v k" if k: "user_key v = Inr k" for v k
  proof (cases "k = uk")
    case True
    then have "v = sd_user_id x" using user_key_inj [OF k] assms(6) by blast
    then show ?thesis using True assms(9) by (simp add: index_ok_def)
  next
    case False
    moreover have "k \<noteq> sk" using keys_disjoint [OF assms(3) k] by simp
    ultimately show ?thesis using assms(2) k unfolding redis_sessions_ok_def index_ok_def by simp
  qed
  ultimately show ?thesis unfolding redis_sessions_ok_def by blast
qed

lemma redis_view_put:
  assumes "session_key i = Inr sk" "user_key u = Inr uk" "decode_session i p = Inr x"
  shows "session_view n (c(sk \<mapsto> (RStr p, Some t), uk \<mapsto> (RSet ms', et))) j =
    (if j = i then if t \<le> n then None else Some x else session_view n c j)" (is "session_view n ?c j = _")
proof (cases "session_key j")
  case (Inr k)
  then have k: "k \<noteq> uk" "k = sk \<longleftrightarrow> j = i" using session_key_inj assms(1) keys_disjoint [OF Inr assms(2)] by auto
  show ?thesis
  proof (cases "j = i")
    case True
    then show ?thesis using assms k Inr by (simp add: session_view_def spec_get_def)
  next
    case False
    then show ?thesis using session_view_live [OF Inr, of n ?c c] k by simp
  qed
qed (use assms(1) in \<open>auto simp: session_view_no_key\<close>)

text \<open>What revoking does: sessions of one user are deleted, and leave that user's index.\<close>

lemma redis_ok_remove:
  fixes c c' D u uk
  assumes "redis_sessions_ok now c" "user_key u = Inr uk"
    and sess: "\<And>j k. session_key j = Inr k \<Longrightarrow> c' k = (if j \<in> D then None else c k)"
    and other: "\<And>v k. user_key v = Inr k \<Longrightarrow> v \<noteq> u \<Longrightarrow> c' k = c k"
    and index: "\<And>ms eu. c uk = Some (RSet ms, eu) \<Longrightarrow> \<not> set ms \<subseteq> D \<Longrightarrow> live now c uk \<noteq> None \<Longrightarrow>
       \<exists>ms'. c' uk = Some (RSet ms', eu) \<and> set ms - D \<subseteq> set ms'"
    and tags: "index_ok c' u uk"
  shows "redis_sessions_ok now c'"
proof -
  have "session_ok now c' j k" if k: "session_key j = Inr k" for j k
  proof (cases "live now c k = None \<or> j \<in> D")
    case True
    then show ?thesis using sess [OF k] by (auto simp: session_ok_def live_def)
  next
    case False
    then have lv: "live now c k \<noteq> None" and D: "j \<notin> D" by auto
    obtain q y e vk ms eu where *: "c k = Some (RStr q, Some e)" "decode_session j q = Inr y" "session_view now c j = Some y"
      "session_routing_tag j = user_routing_tag (sd_user_id y)" "user_key (sd_user_id y) = Inr vk"
      "now < e" "e \<le> now + seconds SESSION_TTL" "c vk = Some (RSet ms, Some eu)" "e \<le> eu" "j \<in> set ms"
      by (rule session_ok_view [OF assms(1) k order_refl lv])
    have "\<exists>ms'. c' vk = Some (RSet ms', Some eu) \<and> j \<in> set ms'"
    proof (cases "sd_user_id y = u")
      case True
      then have "vk = uk" using *(5) assms(2) by simp
      moreover have "live now c uk \<noteq> None" using * calculation by (simp add: live_def)
      ultimately show ?thesis using index [of ms "Some eu"] * D by blast
    next
      case False
      then show ?thesis using other [OF *(5)] * by simp
    qed
    then obtain ms' where "c' vk = Some (RSet ms', Some eu)" "j \<in> set ms'" by blast
    then show ?thesis using session_okI [of c' k q e j y vk now ms' eu] * sess [OF k] D by simp
  qed
  moreover have "index_ok c' v k" if k: "user_key v = Inr k" for v k
    using tags other [OF k] k assms(1,2) unfolding redis_sessions_ok_def index_ok_def
    by (cases "v = u") auto
  ultimately show ?thesis unfolding redis_sessions_ok_def by blast
qed

lemma redis_view_remove:
  assumes "\<And>j k. session_key j = Inr k \<Longrightarrow> c' k = (if j \<in> D then None else c k)"
  shows "session_view n c' j = (if j \<in> D then None else session_view n c j)"
proof (cases "session_key j")
  case (Inr k)
  then show ?thesis using assms [OF Inr] by (auto simp: session_view_def spec_get_def live_def)
qed (simp add: session_view_no_key)

lemma redis_error_as_Inr [simp]: "redis_error_as err m s = (Inr v, s') \<longleftrightarrow> m s = (Inr v, s')"
  by (auto simp: redis_error_as_def catchS_def raise_def split: prod.splits sum.splits)

lemma expiry_of_later: "expiry_of now s k = Some e \<Longrightarrow> now < e"
  by (auto simp: expiry_of_def live_def split: option.splits if_splits)

lemma exec_create:
  assumes "sk \<noteq> uk"
  shows "snd (spec_exec now [CSetEx sk p SESSION_TTL, CSAdd uk i, CExpire uk SESSION_TTL] c) =
    c(sk \<mapsto> (RStr p, Some (now + seconds SESSION_TTL)), uk \<mapsto> (RSet (let ms = spec_smembers now uk c in
        if i \<in> set ms then ms else ms @ [i]), Some (now + seconds SESSION_TTL)))"
proof -
  let ?c = "c(sk \<mapsto> (RStr p, Some (now + seconds SESSION_TTL)))"
  have ms: "spec_smembers now uk ?c = spec_smembers now uk c" using assms by (simp add: spec_smembers_def)
  show ?thesis
  proof (cases "i \<in> set (spec_smembers now uk c)")
    case True
    then have "live now ?c uk = Some (RSet (spec_smembers now uk c))"
      using assms by (cases "live now c uk") (auto simp: spec_smembers_def split: rval.splits)
    then show ?thesis using True ms by (simp add: spec_set_ex_def Let_def)
  next
    case False
    then show ?thesis using ms expiry_of_later [of now ?c uk]
      by (auto simp: spec_set_ex_def Let_def fun_eq_iff split: option.splits)
  qed
qed

lemma exec_refresh:
  assumes "sk \<noteq> uk" "live now c sk = Some v" "live now c uk = Some w"
  shows "spec_exec now [CExpire sk SESSION_TTL, CExpire uk SESSION_TTL] c =
    ([1, 1], c(sk \<mapsto> (v, Some (now + seconds SESSION_TTL)), uk \<mapsto> (w, Some (now + seconds SESSION_TTL))))"
  using assms by simp

lemma exec_revoke:
  fixes sk :: string
  assumes "sk \<noteq> uk" "live now c sk \<noteq> None" "live now c uk = Some (RSet ms)" "i \<in> set ms"
  shows "spec_exec now [CDel [sk], CSRem uk i] c = ([1, 1], (c(sk := None))(uk :=
    if removeAll i ms = [] then None else Some (RSet (removeAll i ms), expiry_of now c uk)))"
proof -
  have d: "spec_del now [sk] c = (1, c(sk := None))" using assms(2) by (auto simp: spec_del_def fun_eq_iff)
  have "spec_smembers now uk (c(sk := None)) = ms" "expiry_of now (c(sk := None)) uk = expiry_of now c uk"
    using assms by (simp_all add: spec_smembers_def expiry_of_def)
  then show ?thesis using d assms(4) by (simp add: Let_def)
qed

context redis_server
begin

lemma session_get_run:
  assumes "redis_session_get api now i r = (Inr v, r')"
  shows "v = session_view now (contents r) i \<and> contents r' = contents r \<and> (\<exists>k. session_key i = Inr k)"
proof -
  obtain k p r1 where k: "session_key i = Inr k" "rd_get api now k r = (Inr p, r1)"
    "(case p of None \<Rightarrow> ret None | Some q \<Rightarrow> bindS (lift (decode_session i q)) (\<lambda>x. ret (Some x))) r1 = (Inr v, r')"
    using assms by (auto simp: redis_session_get_def bindS_eq_Inr)
  then show ?thesis using get_ok [OF k(2)]
    by (auto simp: session_view_def bindS_eq_Inr split: option.splits)
qed

lemma session_create_run:
  assumes "redis_session_create api now x r = (Inr un, r')"
  shows "\<exists>sk uk. session_key (sd_session_id x) = Inr sk \<and> user_key (sd_user_id x) = Inr uk \<and>
    session_routing_tag (sd_session_id x) = user_routing_tag (sd_user_id x) \<and>
    contents r' = snd (spec_exec now [CSetEx sk (session_payload x) SESSION_TTL, CSAdd uk (sd_session_id x),
                   CExpire uk SESSION_TTL] (contents r))"
proof -
  obtain sk uk ns where k: "session_key (sd_session_id x) = Inr sk" "user_key (sd_user_id x) = Inr uk"
    "session_routing_tag (sd_session_id x) = user_routing_tag (sd_user_id x)"
    and e: "rd_exec api now [CSetEx sk (session_payload x) SESSION_TTL, CSAdd uk (sd_session_id x),
                   CExpire uk SESSION_TTL] r = (Inr ns, r')"
    using assms by (auto simp: redis_session_create_def bindS_eq_Inr split: if_splits)
  have "contents r' = snd (spec_exec now [CSetEx sk (session_payload x) SESSION_TTL, CSAdd uk (sd_session_id x),
                   CExpire uk SESSION_TTL] (contents r))" using exec_ok [OF e] by (metis snd_conv)
  then show ?thesis using k by blast
qed

lemma create_contract:
  assumes ok: "redis_sessions_ok now (contents r)" and wf: "json_wf (JObj (sd_data x))"
    and run: "redis_session_create api now x r = (Inr un, r')"
  shows "redis_sessions_ok now (contents r')" and "session_view n (contents r') i =
    (if i = sd_session_id x then if now + seconds SESSION_TTL \<le> n then None else Some (session_norm x)
     else session_view n (contents r) i)"
proof -
  let ?c = "contents r" and ?i = "sd_session_id x"
  obtain sk uk where k: "session_key ?i = Inr sk" "user_key (sd_user_id x) = Inr uk"
    and tag: "session_routing_tag ?i = user_routing_tag (sd_user_id x)"
    and c': "contents r' = snd (spec_exec now [CSetEx sk (session_payload x) SESSION_TTL, CSAdd uk ?i,
                   CExpire uk SESSION_TTL] ?c)" using session_create_run [OF run] by blast
  define ms where "ms = (let ms = spec_smembers now uk ?c in if ?i \<in> set ms then ms else ms @ [?i])"
  have c'': "contents r' = ?c(sk \<mapsto> (RStr (session_payload x), Some (now + seconds SESSION_TTL)),
      uk \<mapsto> (RSet ms, Some (now + seconds SESSION_TTL)))"
    unfolding c' ms_def by (rule exec_create [OF keys_disjoint [OF k]])
  have i: "\<forall>j\<in>set (spec_smembers now uk ?c). session_routing_tag j = user_routing_tag (sd_user_id x)"
    using ok k(2) unfolding redis_sessions_ok_def index_ok_def
    by (auto simp: spec_smembers_def live_def split: option.splits rval.splits if_splits)
  have ms: "?i \<in> set ms" "set (spec_smembers now uk ?c) \<subseteq> set ms"
    "\<forall>j\<in>set ms. session_routing_tag j = user_routing_tag (sd_user_id (session_norm x))"
    using i tag by (auto simp: ms_def Let_def session_norm_def)
  note d = decode_session_payload [OF wf]
  show "redis_sessions_ok now (contents r')"
    unfolding c'' using redis_ok_put [OF ok k(1) d _ _ ms(1)] ms(2,3) k(2) tag by (simp add: session_norm_def)
  show "session_view n (contents r') i =
    (if i = sd_session_id x then if now + seconds SESSION_TTL \<le> n then None else Some (session_norm x)
     else session_view n (contents r) i)" unfolding c'' by (rule redis_view_put [OF k d])
qed

end

lemma removed_keys:
  assumes "session_key i = Inr sk" "user_key u = Inr uk" "session_key j = Inr k"
  shows "((c(sk := None))(uk := w)) k = (if j \<in> {i} then None else c k)"
proof -
  have "k \<noteq> uk" using keys_disjoint [OF assms(3,2)] .
  moreover have "k = sk \<longleftrightarrow> j = i" using session_key_inj [OF assms(1), of j] assms by auto
  ultimately show ?thesis by simp
qed

context redis_server
begin

text \<open>A session read at \<open>now\<close>: what the two keys hold.\<close>

lemma live_session:
  assumes "redis_sessions_ok now (contents r)" "redis_session_get api now i r = (Inr (Some x), r1)"
  obtains sk uk p ms e eu where "session_key i = Inr sk" "user_key (sd_user_id x) = Inr uk" "sk \<noteq> uk"
    "contents r sk = Some (RStr p, Some e)" "now < e" "decode_session i p = Inr x" "session_view now (contents r) i = Some x"
    "session_routing_tag i = user_routing_tag (sd_user_id x)" "contents r uk = Some (RSet ms, Some eu)" "now < eu"
    "i \<in> set ms" "\<forall>j\<in>set ms. session_routing_tag j = user_routing_tag (sd_user_id x)" "contents r1 = contents r"
proof -
  let ?c = "contents r"
  obtain sk where sk: "session_key i = Inr sk" and v: "session_view now ?c i = Some x" and c1: "contents r1 = ?c"
    using session_get_run [OF assms(2)] by auto
  have "live now ?c sk \<noteq> None" using session_view_dead [OF sk, of now ?c] v by auto
  then obtain p y e uk ms eu where *: "?c sk = Some (RStr p, Some e)" "decode_session i p = Inr y" "session_view now ?c i = Some y"
      "session_routing_tag i = user_routing_tag (sd_user_id y)" "user_key (sd_user_id y) = Inr uk"
      "now < e" "e \<le> now + seconds SESSION_TTL" "?c uk = Some (RSet ms, Some eu)" "e \<le> eu" "i \<in> set ms"
    by (rule session_ok_view [OF assms(1) sk order_refl])
  have y: "y = x" using v *(3) by simp
  have "index_ok ?c (sd_user_id x) uk" using assms(1) *(5) y unfolding redis_sessions_ok_def by blast
  then have t: "\<forall>j\<in>set ms. session_routing_tag j = user_routing_tag (sd_user_id x)" using *(8) unfolding index_ok_def by blast
  have "now < eu" using *(6,9) by simp
  then show ?thesis using that [of sk uk p e ms eu] sk * y v c1 t keys_disjoint [OF sk *(5)] by blast
qed

lemma view_gone:
  assumes "redis_sessions_ok now (contents r)" "session_view now (contents r) i = None" "now \<le> n"
  shows "session_view n (contents r) i = None"
proof (cases "session_key i")
  case (Inr k)
  have "live now (contents r) k = None" using session_view_cases [OF assms(1) Inr order_refl] assms(2) by simp
  then show ?thesis by (intro session_view_dead [OF Inr] live_None_mono [OF assms(3)])
qed (rule session_view_no_key)

lemma refresh_contract:
  assumes ok: "redis_sessions_ok now (contents r)" and run: "redis_session_refresh api now i r = (Inr b, r')"
  shows "b = (session_view now (contents r) i \<noteq> None) \<and> redis_sessions_ok now (contents r') \<and>
    (\<forall>n\<ge>now. \<forall>j. session_view n (contents r') j = (if b \<and> j = i
       then if now + seconds SESSION_TTL \<le> n then None else session_view now (contents r) i
       else session_view n (contents r) j))"
proof -
  obtain v r1 where g: "redis_session_get api now i r = (Inr v, r1)"
    using run by (auto simp: redis_session_refresh_def bindS_eq_Inr)
  show ?thesis
  proof (cases v)
    case None
    then show ?thesis using g run session_get_run [OF g] ok by (auto simp: redis_session_refresh_def bindS_eq_Inr)
  next
    case (Some x)
    obtain sk uk p ms e eu where *: "session_key i = Inr sk" "user_key (sd_user_id x) = Inr uk" "sk \<noteq> uk"
    "contents r sk = Some (RStr p, Some e)" "now < e" "decode_session i p = Inr x" "session_view now (contents r) i = Some x"
    "session_routing_tag i = user_routing_tag (sd_user_id x)" "contents r uk = Some (RSet ms, Some eu)" "now < eu"
    "i \<in> set ms" "\<forall>j\<in>set ms. session_routing_tag j = user_routing_tag (sd_user_id x)" "contents r1 = contents r"
      by (rule live_session [OF ok g [unfolded Some]])
    obtain ns where ns: "rd_exec api now [CExpire sk SESSION_TTL, CExpire uk SESSION_TTL] r1 = (Inr ns, r')" "b = (hd ns \<noteq> 0)"
      using run g Some * by (auto simp: redis_session_refresh_def bindS_eq_Inr)
    have lv: "live now (contents r) sk = Some (RStr p)" "live now (contents r) uk = Some (RSet ms)"
      using * by (simp_all add: live_def)
    have c': "contents r' = (contents r)(sk \<mapsto> (RStr p, Some (now + seconds SESSION_TTL)), uk \<mapsto> (RSet ms, Some (now + seconds SESSION_TTL)))"
      and b: "b" using exec_ok [OF ns(1)] ns(2) unfolding *(13) exec_refresh [OF *(3) lv] by simp_all
    have "redis_sessions_ok now (contents r')"
      unfolding c' by (rule redis_ok_put [OF ok *(1,6,8,2,11) _ *(12)]) (simp add: spec_smembers_def lv)
    then show ?thesis using b *(7) redis_view_put [OF *(1,2,6)] unfolding c' by simp
  qed
qed

lemma revoke_contract:
  assumes ok: "redis_sessions_ok now (contents r)" and run: "redis_session_revoke api now i r = (Inr b, r')"
  shows "b = (session_view now (contents r) i \<noteq> None) \<and> redis_sessions_ok now (contents r') \<and>
    (\<forall>n\<ge>now. \<forall>j. session_view n (contents r') j = (if j = i then None else session_view n (contents r) j))"
proof -
  obtain v r1 where g: "redis_session_get api now i r = (Inr v, r1)"
    using run by (auto simp: redis_session_revoke_def bindS_eq_Inr)
  show ?thesis
  proof (cases v)
    case None
    then show ?thesis using g run session_get_run [OF g] ok view_gone [OF ok, of i]
      by (auto simp: redis_session_revoke_def bindS_eq_Inr)
  next
    case (Some x)
    obtain sk uk p ms e eu where *: "session_key i = Inr sk" "user_key (sd_user_id x) = Inr uk" "sk \<noteq> uk"
    "contents r sk = Some (RStr p, Some e)" "now < e" "decode_session i p = Inr x" "session_view now (contents r) i = Some x"
    "session_routing_tag i = user_routing_tag (sd_user_id x)" "contents r uk = Some (RSet ms, Some eu)" "now < eu"
    "i \<in> set ms" "\<forall>j\<in>set ms. session_routing_tag j = user_routing_tag (sd_user_id x)" "contents r1 = contents r"
      by (rule live_session [OF ok g [unfolded Some]])
    obtain ns where ns: "rd_exec api now [CDel [sk], CSRem uk i] r1 = (Inr ns, r')" "b = (hd ns \<noteq> 0)"
      using run g Some * by (auto simp: redis_session_revoke_def bindS_eq_Inr)
    have lv: "live now (contents r) sk \<noteq> None" "live now (contents r) uk = Some (RSet ms)" "expiry_of now (contents r) uk = Some eu"
      using * by (simp_all add: live_def expiry_of_def)
    have c': "contents r' = ((contents r)(sk := None))(uk := if removeAll i ms = [] then None else Some (RSet (removeAll i ms), Some eu))"
      and b: "b" using exec_ok [OF ns(1)] ns(2) unfolding *(13) exec_revoke [OF *(3) lv(1,2) *(11)] lv(3) by simp_all
    have sess: "contents r' k = (if j \<in> {i} then None else contents r k)" if "session_key j = Inr k" for j k
      unfolding c' by (rule removed_keys [OF *(1,2) that])
    have "redis_sessions_ok now (contents r')"
    proof (rule redis_ok_remove [OF ok *(2) sess])
      fix v k assume "user_key v = Inr k" "v \<noteq> sd_user_id x"
      then show "contents r' k = contents r k"
        using user_key_inj [OF *(2), of v] keys_disjoint [OF *(1), of v k] unfolding c' by auto
    next
      fix ms0 eu0 assume a: "contents r uk = Some (RSet ms0, eu0)" "\<not> set ms0 \<subseteq> {i}"
      then have "removeAll i ms \<noteq> []" using *(9) by (auto simp: removeAll_filter_not_eq filter_empty_conv)
      then show "\<exists>ms'. contents r' uk = Some (RSet ms', eu0) \<and> set ms0 - {i} \<subseteq> set ms'"
        using a *(9) unfolding c' by auto
    qed (use *(12) in \<open>auto simp: c' index_ok_def split: if_splits\<close>)
    then show ?thesis using b *(7) redis_view_remove [of "contents r'" "{i}" "contents r", OF sess] by simp
  qed
qed

end

lemma session_keys_of:
  assumes "mapE session_key ids = Inr keys" "session_key j = Inr k"
  shows "k \<in> set keys \<longleftrightarrow> j \<in> set ids"
  using assms(1)
proof (induction ids arbitrary: keys)
  case (Cons i ids)
  then obtain k1 ks where "session_key i = Inr k1" "mapE session_key ids = Inr ks" "keys = k1 # ks"
    by (auto simp: bindE_eq_Inr)
  then show ?case using Cons.IH session_key_inj [OF assms(2), of i] assms(2) by auto
qed simp

lemma user_keys_not_sessions:
  assumes "mapE session_key ids = Inr keys" "user_key v = Inr k"
  shows "k \<notin> set keys"
  using assms(1)
proof (induction ids arbitrary: keys)
  case (Cons i ids)
  then obtain k1 ks where "session_key i = Inr k1" "mapE session_key ids = Inr ks" "keys = k1 # ks"
    by (auto simp: bindE_eq_Inr)
  then show ?case using Cons.IH keys_disjoint [of i k1 v k] assms(2) by auto
qed simp

context redis_server
begin

lemma user_sessions_listed:
  assumes ok: "redis_sessions_ok now (contents r)" and uk: "user_key u = Inr uk" and "now \<le> n"
    and v: "session_view n (contents r) j = Some x"
  shows "j \<in> set (spec_smembers now uk (contents r)) \<longleftrightarrow> sd_user_id x = u"
proof -
  obtain k where k: "session_key j = Inr k" using v by (cases "session_key j") (auto simp: session_view_no_key)
  have lv: "live n (contents r) k \<noteq> None" using session_view_dead [OF k, of n "contents r"] v by auto
  obtain p y e vk ms eu where *: "contents r k = Some (RStr p, Some e)" "decode_session j p = Inr y" "session_view n (contents r) j = Some y"
    "session_routing_tag j = user_routing_tag (sd_user_id y)" "user_key (sd_user_id y) = Inr vk"
    "n < e" "e \<le> now + seconds SESSION_TTL" "contents r vk = Some (RSet ms, Some eu)" "e \<le> eu" "j \<in> set ms"
    by (rule session_ok_view [OF ok k assms(3) lv])
  have y: "y = x" using v *(3) by simp
  show ?thesis
  proof
    assume "j \<in> set (spec_smembers now uk (contents r))"
    then obtain ms' ex where "contents r uk = Some (RSet ms', ex)" "j \<in> set ms'"
      by (auto simp: spec_smembers_def live_def split: option.splits rval.splits if_splits)
    then have "session_routing_tag j = user_routing_tag u" using ok uk unfolding redis_sessions_ok_def index_ok_def by blast
    moreover obtain t where "user_routing_tag u = Inr t" using user_key_Inr [OF uk] by blast
    ultimately show "sd_user_id x = u" using *(4) y user_tag_inj by metis
  next
    assume "sd_user_id x = u"
    then have "vk = uk" using *(5) uk y by simp
    moreover have "now < eu" using *(6,9) assms(3) by simp
    ultimately show "j \<in> set (spec_smembers now uk (contents r))" using * by (simp add: spec_smembers_def live_def)
  qed
qed

lemma revoke_user_contract:
  assumes ok: "redis_sessions_ok now (contents r)" and run: "redis_session_revoke_user api now now u r = (Inr cnt, r')"
  shows "redis_sessions_ok now (contents r')" and "now \<le> n \<Longrightarrow> session_view n (contents r') j =
     (case session_view n (contents r) j of None \<Rightarrow> None | Some x \<Rightarrow> if sd_user_id x = u then None else Some x)"
proof -
  let ?c = "contents r" and ?c' = "contents r'"
  obtain uk ids r1 where uk: "user_key u = Inr uk" and sm: "rd_smembers api now uk r = (Inr ids, r1)"
    and rest: "(if ids = [] then ret 0 else bindS (lift (mapE session_key ids)) (\<lambda>keys.
             bindS (rd_del api now (keys @ [uk])) (\<lambda>_. ret (length ids)))) r1 = (Inr cnt, r')"
    using run by (auto simp: redis_session_revoke_user_def bindS_eq_Inr)
  have ids: "set ids = set (spec_smembers now uk ?c)" and c1: "contents r1 = ?c" using smembers_ok [OF sm] by auto
  have sess: "?c' k = (if j \<in> set ids then None else ?c k)" if k: "session_key j = Inr k" for j k
  proof (cases "ids = []")
    case False
    then obtain keys m where km: "mapE session_key ids = Inr keys" "rd_del api now (keys @ [uk]) r1 = (Inr m, r')"
      using rest by (auto simp: bindS_eq_Inr)
    have "k \<noteq> uk" using keys_disjoint [OF k uk] .
    then show ?thesis using del_ok [OF km(2)] session_keys_of [OF km(1) k] c1 by (auto simp: spec_del_def)
  qed (use rest c1 in simp)
  have users: "?c' k = (if v = u \<and> ids \<noteq> [] then None else ?c k)" if k: "user_key v = Inr k" for v k
  proof (cases "ids = []")
    case False
    then obtain keys m where km: "mapE session_key ids = Inr keys" "rd_del api now (keys @ [uk]) r1 = (Inr m, r')"
      using rest by (auto simp: bindS_eq_Inr)
    have "k = uk \<longleftrightarrow> v = u" using user_key_inj [OF k, of u] uk k by auto
    then show ?thesis using del_ok [OF km(2)] user_keys_not_sessions [OF km(1) k] c1 False by (auto simp: spec_del_def)
  qed (use rest c1 in simp)
  show "redis_sessions_ok now ?c'"
  proof (rule redis_ok_remove [OF ok uk sess])
    fix ms eu assume "?c uk = Some (RSet ms, eu)" "\<not> set ms \<subseteq> set ids" "live now ?c uk \<noteq> None"
    then show "\<exists>ms'. ?c' uk = Some (RSet ms', eu) \<and> set ms - set ids \<subseteq> set ms'"
      unfolding ids by (auto simp: spec_smembers_def live_def split: option.splits if_splits)
  next
    show "index_ok ?c' u uk" using users [OF uk] ok uk unfolding redis_sessions_ok_def
      by (cases "ids = []") (auto simp: index_ok_def)
  qed (use users in auto)
  show "session_view n ?c' j = (case session_view n ?c j of None \<Rightarrow> None | Some x \<Rightarrow> if sd_user_id x = u then None else Some x)"
    if "now \<le> n"
    using redis_view_remove [of ?c' "set ids" ?c n j, OF sess] user_sessions_listed [OF ok uk that, of j] ids
    by (auto split: option.splits)
qed

end

sublocale redis_server \<subseteq> ss: session_store "redis_sessions api" "\<lambda>n r. session_view n (contents r)"
    "\<lambda>now r. redis_sessions_ok now (contents r)" "\<lambda>_. SESSION_TTL" session_norm "\<lambda>x. json_wf (JObj (sd_data x))"
proof
  fix now r x un r'
  assume "redis_sessions_ok now (contents r)" "json_wf (JObj (sd_data x))" "ss_create (redis_sessions api) now x r = (Inr un, r')"
  then show "redis_sessions_ok now (contents r') \<and> SESSION_TTL = SESSION_TTL \<and> (\<forall>n\<ge>now. \<forall>i. session_view n (contents r') i =
      (if i = sd_session_id x then if now + seconds SESSION_TTL \<le> n then None else Some (session_norm x)
       else session_view n (contents r) i))"
    using create_contract by (simp add: redis_sessions_def)
next
  fix now r u k r'
  assume "redis_sessions_ok now (contents r)" "ss_revoke_user (redis_sessions api) now u r = (Inr k, r')"
  then show "redis_sessions_ok now (contents r') \<and> SESSION_TTL = SESSION_TTL \<and> (\<forall>n\<ge>now. \<forall>j. session_view n (contents r') j =
      (case session_view n (contents r) j of None \<Rightarrow> None | Some x \<Rightarrow> if sd_user_id x = u then None else Some x))"
    using revoke_user_contract by (simp add: redis_sessions_def)
next
  fix now r i v r'
  assume "ss_get (redis_sessions api) now i r = (Inr v, r')" "redis_sessions_ok now (contents r)"
  then show "v = session_view now (contents r) i \<and> redis_sessions_ok now (contents r') \<and> SESSION_TTL = SESSION_TTL \<and>
      (\<forall>n\<ge>now. \<forall>j. session_view n (contents r') j = session_view n (contents r) j)"
    using session_get_run [of now i r v r'] by (simp add: redis_sessions_def)
next
  fix now r i b r'
  assume "redis_sessions_ok now (contents r)" "ss_refresh (redis_sessions api) now i r = (Inr b, r')"
  then show "b = (session_view now (contents r) i \<noteq> None) \<and> redis_sessions_ok now (contents r') \<and> SESSION_TTL = SESSION_TTL \<and>
      (\<forall>n\<ge>now. \<forall>j. session_view n (contents r') j = (if b \<and> j = i
         then if now + seconds SESSION_TTL \<le> n then None else session_view now (contents r) i
         else session_view n (contents r) j))"
    using refresh_contract [of now r i b r'] by (simp add: redis_sessions_def)
next
  fix now r i b r'
  assume "redis_sessions_ok now (contents r)" "ss_revoke (redis_sessions api) now i r = (Inr b, r')"
  then show "(session_view now (contents r) i \<noteq> None \<longrightarrow> b) \<and> redis_sessions_ok now (contents r') \<and> SESSION_TTL = SESSION_TTL \<and>
      (\<forall>n\<ge>now. \<forall>j. session_view n (contents r') j = (if j = i then None else session_view n (contents r) j))"
    using revoke_contract [of now r i b r'] by (simp add: redis_sessions_def)
next
  show "sd_session_id (session_norm x) = sd_session_id x" "sd_user_id (session_norm x) = sd_user_id x" for x
    by (simp_all add: session_norm_def)
  show "redis_sessions_ok n (contents r)" if "redis_sessions_ok now (contents r)" "now \<le> n" for now n r
    using redis_ok_later that by blast
qed

context redis_server
begin

lemmas redis_session_store = ss.session_store_axioms

end

section \<open>Properties\<close>


lemma redis_ok_empty: "redis_sessions_ok now (\<lambda>_. None)"
  by (simp add: redis_sessions_ok_def session_ok_def index_ok_def live_def)

definition demo_session :: "string \<Rightarrow> string \<Rightarrow> SessionData" where
  "demo_session i u = \<lparr>sd_session_id = i, sd_user_id = u, sd_data = [(''shard_id'', JInt 0)]\<rparr>"

lemmas session_eval = redis_sessions_def redis_session_create_def redis_session_get_def redis_session_revoke_user_def
  redis_error_as_def session_payload_def decode_session_def mem_redis_def demo_session_def session_key_def user_key_def
  session_routing_tag_def user_routing_tag_def SESSION_NAMESPACE_def SESSION_TTL_def seconds_def

text \<open>
  C13: the lifetime of a session. On the Redis store a created session is returned, with the data it
  was created with (members in key order), at every time before its lifetime of 3600 seconds ends and never after, whatever
  other clients do meanwhile to other sessions.
\<close>

theorem redis_session_lifetime:
  assumes "redis_server api contents" and "redis_sessions_ok t0 (contents r)" and "json_wf (JObj (sd_data x))"
    and "ss_create (redis_sessions api) t0 x r = (Inr un, r1)"
    and "ss_run (redis_sessions api) xs r1 = Some r2" and "sorted (map fst xs)"
    and "\<forall>(t, op)\<in>set xs. t0 \<le> t \<and> t \<le> t1 \<and> op_ok (\<lambda>x. json_wf (JObj (sd_data x))) op \<and>
       \<not> touches (sd_session_id x) (sd_user_id x) op"
    and "t0 \<le> t1" and "ss_get (redis_sessions api) t1 (sd_session_id x) r2 = (Inr v, r3)"
  shows "v = (if t1 < t0 + seconds SESSION_TTL then Some (session_norm x) else None)"
  using session_store.session_lifetime [OF redis_server.redis_session_store [OF assms(1)] assms(2-)] .

lemma run_result: "fst p = Inr v \<Longrightarrow> p = (Inr v, snd p)"
  by (cases p) simp

definition demo_redis :: rstate where
  "demo_redis = snd (redis_session_create mem_redis 0 (demo_session ''YQ.s'' ''a'') (\<lambda>_. None))"

lemma ss_run_single:
  "ss_create ops t x s = (Inr un, s') \<Longrightarrow> ss_run ops [(t, SCreate x)] s = Some s'"
  "ss_revoke ops t i s = (Inr b, s') \<Longrightarrow> ss_run ops [(t, SRevoke i)] s = Some s'"
  by simp_all

lemma demo_redis_ok: "redis_sessions_ok 1 demo_redis"
proof -
  have "redis_session_create mem_redis 0 (demo_session ''YQ.s'' ''a'') (\<lambda>_. None) = (Inr (), demo_redis)"
    unfolding demo_redis_def by (rule run_result) code_simp
  from mem.create_contract(1) [OF redis_ok_empty _ this] have "redis_sessions_ok 0 demo_redis" by (simp add: demo_session_def)
  then show ?thesis using redis_ok_later by force
qed


theorem redis_session_lifetime_witness:
  "Some (demo_session ''YQ.u'' ''a'') = (if 3 < (1 :: int) + seconds SESSION_TTL then Some (session_norm (demo_session ''YQ.u'' ''a'')) else None)"
proof -
  let ?r1 = "snd (ss_create (redis_sessions mem_redis) 1 (demo_session ''YQ.u'' ''a'') demo_redis)"
  let ?r2 = "snd (ss_revoke (redis_sessions mem_redis) 2 ''YQ.s'' ?r1)"
  let ?g = "ss_get (redis_sessions mem_redis) 3 (sd_session_id (demo_session ''YQ.u'' ''a'')) ?r2"
  have 1: "ss_create (redis_sessions mem_redis) 1 (demo_session ''YQ.u'' ''a'') demo_redis = (Inr (), ?r1)" by (rule run_result) code_simp
  have "ss_revoke (redis_sessions mem_redis) 2 ''YQ.s'' ?r1 = (Inr True, ?r2)" by (rule run_result) code_simp
  then have 2: "ss_run (redis_sessions mem_redis) [(2, SRevoke ''YQ.s'')] ?r1 = Some ?r2" by (rule ss_run_single)
  have 3: "?g = (Inr (Some (demo_session ''YQ.u'' ''a'')), snd ?g)" by (rule run_result) code_simp
  show ?thesis
    by (rule redis_session_lifetime [OF mem.redis_server_axioms demo_redis_ok _ 1 2 _ _ _ 3]) (auto simp: demo_session_def)
qed

definition hash_tag :: "string \<Rightarrow> string" where
  "hash_tag k = (case partition_at CHR ''{'' k of (_, opened, rest) \<Rightarrow>
     (case partition_at CHR ''}'' rest of (tag, closed, _) \<Rightarrow> if opened \<and> closed \<and> tag \<noteq> [] then tag else k))"

lemma hash_tag_of:
  assumes "CHR ''{'' \<notin> set pre" "CHR ''}'' \<notin> set t" "t \<noteq> []"
  shows "hash_tag (pre @ ''{'' @ t @ ''}'' @ rest) = t"
  using assms partition_at_append [of "CHR ''{''" pre "t @ ''}'' @ rest"] partition_at_append [of "CHR ''}''" t rest]
  by (simp add: hash_tag_def)

text \<open>
  The two keys a session operation writes in one pipeline, and the keys one revocation
  deletes, lie in one hash slot of a Redis cluster: for an identifier made by
  \<open>create_session_id\<close> from a non-empty secret the session key and the key of the user's index have
  the same hash tag, and the store accepts the identifier as the user's.
\<close>

theorem session_keys_one_slot:
  assumes "create_session_id secret u = Inr i" and "secret \<noteq> []"
  shows "session_routing_tag i = user_routing_tag u \<and>
    (\<exists>sk uk t. session_key i = Inr sk \<and> user_key u = Inr uk \<and> hash_tag sk = t \<and> hash_tag uk = t \<and> user_routing_tag u = Inr t)"
proof -
  obtain t where t: "user_routing_tag u = Inr t" "i = t @ ''.'' @ secret"
    using assms(1) by (auto simp: create_session_id_def bindE_eq_Inr)
  have safe: "CHR ''.'' \<notin> set t" "CHR ''}'' \<notin> set t"
    using user_tag_Inr [OF t(1)] is_b64_safe by (auto simp: list_all_iff)
  have ne: "t \<noteq> []"
  proof
    assume "t = []"
    then have "unpadded (b64encode (utf8 u)) = unpadded (b64encode (utf8 []))" using user_tag_Inr [OF t(1)] by (simp add: utf8_def unpadded_def rstrip_by_def)
    then show False using user_tag_Inr [OF t(1)] unpadded_inj utf8_bytes utf8_inj by metis
  qed
  have tag: "session_routing_tag i = Inr t"
    using t(2) safe(1) ne assms(2) partition_at_append [of "CHR ''.''" t secret] by (simp add: session_routing_tag_def)
  have pre: "CHR ''{'' \<notin> set (SESSION_NAMESPACE @ '':'')" by (simp add: SESSION_NAMESPACE_def)
  have "hash_tag (SESSION_NAMESPACE @ '':{'' @ t @ ''}:session:'' @ i) = t" "hash_tag (SESSION_NAMESPACE @ '':{'' @ t @ ''}:user-sessions'') = t"
    using hash_tag_of [OF pre safe(2) ne, of "'':session:'' @ i"] hash_tag_of [OF pre safe(2) ne, of "'':user-sessions''"] by simp_all
  then show ?thesis using t tag by (simp add: session_key_def user_key_def)
qed

theorem session_keys_one_slot_witness:
  "session_routing_tag ''YQ.s'' = user_routing_tag ''a'' \<and>
    (\<exists>sk uk t. session_key ''YQ.s'' = Inr sk \<and> user_key ''a'' = Inr uk \<and> hash_tag sk = t \<and> hash_tag uk = t \<and> user_routing_tag ''a'' = Inr t)"
  by (rule session_keys_one_slot [of "''s''"]) code_simp+

text \<open>
  The error path of the bearer dependency on the Redis store. A token without the separator of
  \<open>create_session_id\<close> is not answered with status 401: the store raises \<open>ValueError\<close> before Redis
  is asked and \<open>get_current_session\<close> lets it pass; a missing token and a token of no live session
  are answered with 401.
\<close>

theorem bearer_errors:
  assumes "CHR ''.'' \<notin> set token" and "redis_session_get api now token' r = (Inr None, r1)"
  shows "get_current_session (redis_sessions api) now (Some token) r =
      (Inl (ValueError ''session_id must be created by create_session_id''), r) \<and>
    get_current_session (redis_sessions api) now None r = (Inl (HTTPException 401 ''Bearer session is required''), r) \<and>
    get_current_session (redis_sessions api) now (Some token') r = (Inl (HTTPException 401 ''Invalid session''), r1)"
  using assms partition_at_none [OF assms(1)]
  by (simp add: get_current_session_def redis_sessions_def redis_session_get_def [of api now token] session_key_def
      session_routing_tag_def bindS_def)

theorem bearer_errors_witness:
  "get_current_session (redis_sessions mem_redis) 0 (Some ''abc'') (\<lambda>_. None) =
      (Inl (ValueError ''session_id must be created by create_session_id''), \<lambda>_. None) \<and>
    get_current_session (redis_sessions mem_redis) 0 None (\<lambda>_. None) = (Inl (HTTPException 401 ''Bearer session is required''), \<lambda>_. None) \<and>
    get_current_session (redis_sessions mem_redis) 0 (Some ''YQ.s'') (\<lambda>_. None) = (Inl (HTTPException 401 ''Invalid session''), \<lambda>_. None)"
proof (rule bearer_errors)
  show "CHR ''.'' \<notin> set ''abc''" by simp
  show "redis_session_get mem_redis 0 ''YQ.s'' (\<lambda>_. None) = (Inr None, \<lambda>_. None)"
    by (simp add: redis_session_get_def session_key_def session_routing_tag_def partition_at_def redis_error_as_def
        catchS_def mem_redis_def spec_get_def live_def bindS_def bindE_def)
qed

text \<open>A second client that creates a session between the two commands of a revocation, as the effect
  of the first command on the server.\<close>

definition interfered :: "SessionData \<Rightarrow> rstate redis_api" where
  "interfered x = mem_redis\<lparr>rd_smembers := (\<lambda>now k. bindS (rd_smembers mem_redis now k) (\<lambda>ms.
     bindS (redis_session_create mem_redis now x) (\<lambda>_. ret ms)))\<rparr>"


end
