(* ===== verification/RequestReplay.thy ===== *)
theory RequestReplay
  imports SessionStore KeyValue Outbox
begin

text \<open>
  Replay of requests with an idempotency key (\<open>infrastructure/session_store/request_replay.py\<close>) and
  the wrapper the generated routers put around every handler that writes
  (\<open>modules/*/generated/router.py\<close>): claim the key, run the handler, store the response; a
  repetition is answered from the store. The application's state is a pair of the Redis server and
  the databases. The two Lua scripts run on the server in one step; they are composed of the
  commands they call at one clock reading. The order of the members in what \<open>cjson.encode\<close> writes
  is not relied on: the reader looks members up by name.
\<close>

section \<open>The state of the application\<close>

record 'r app =
  ap_redis :: 'r
  ap_dbs :: dbs

definition on_redis :: "('r, 'a) io \<Rightarrow> ('r app, 'a) io" where
  "on_redis m s = (case m (ap_redis s) of (x, r) \<Rightarrow> (x, s\<lparr>ap_redis := r\<rparr>))"

definition on_dbs :: "(dbs, 'a) io \<Rightarrow> ('r app, 'a) io" where
  "on_dbs m s = (case m (ap_dbs s) of (x, d) \<Rightarrow> (x, s\<lparr>ap_dbs := d\<rparr>))"

lemma on_run [simp]:
  "m (ap_redis s) = (x, r) \<Longrightarrow> on_redis m s = (x, s\<lparr>ap_redis := r\<rparr>)"
  "n (ap_dbs s) = (y, d) \<Longrightarrow> on_dbs n s = (y, s\<lparr>ap_dbs := d\<rparr>)"
  by (simp_all add: on_redis_def on_dbs_def)

section \<open>The store\<close>

record ReplayClaim =
  rc_key :: string
  rc_fingerprint :: string
  rc_token :: string
  rc_ttl_seconds :: int

record ReplayRecord =
  rp_status_code :: int
  rp_body :: string

definition REPLAY_NAMESPACE :: string where "REPLAY_NAMESPACE = ''kis_session''"

definition replay_key :: "sha256_fun \<Rightarrow> string \<Rightarrow> string" where
  "replay_key sha256 key = REPLAY_NAMESPACE @ '':{replay}:request:'' @ sha256 key"

definition pending_payload :: "string \<Rightarrow> string \<Rightarrow> string" where
  "pending_payload fingerprint token = json_dumps True (JObj
     [(''fingerprint'', JStr fingerprint), (''status'', JStr ''pending''), (''token'', JStr token)])"

text \<open>\<open>int(v)\<close> of a JSON value; a float is outside the model, the script writes an integer.\<close>

fun int_of_json :: "json \<Rightarrow> int result" where
  "int_of_json (JInt i) = Inr i"
| "int_of_json (JBool b) = Inr (if b then 1 else 0)"
| "int_of_json (JStr s) = py_int s"
| "int_of_json _ = Inl (TypeError ''int()'')"

definition read_replay :: "pytext \<Rightarrow> string \<Rightarrow> string \<Rightarrow> ReplayRecord result" where
  "read_replay T fingerprint raw =
     bindE (catchE (json_loads raw) (\<lambda>e. if is_type_error e \<or> is_value_error e
              then Inl (SessionStoreError ''request replay record is invalid'') else Inl e)) (\<lambda>v.
     case v of
       JObj existing \<Rightarrow>
         if dict_get existing ''fingerprint'' \<noteq> Some (JStr fingerprint)
         then Inl (RequestReplayConflict ''idempotency key was reused with a different request'')
         else if dict_get existing ''status'' = Some (JStr ''completed'')
         then bindE (member existing ''status_code'') (\<lambda>c. bindE (int_of_json c) (\<lambda>status_code.
              bindE (member existing ''body'') (\<lambda>b.
              Inr \<lparr>rp_status_code = status_code, rp_body = py_str T b\<rparr>)))
         else Inl (RequestReplayInProgress ''request with this idempotency key is in progress'')
     | _ \<Rightarrow> Inl (AttributeError ''get''))"

text \<open>\<open>claim\<close>: \<open>token\<close> is what \<open>secrets.token_urlsafe(24)\<close> returns.\<close>

definition replay_claim ::
  "'r redis_api \<Rightarrow> sha256_fun \<Rightarrow> pytext \<Rightarrow> time \<Rightarrow> string \<Rightarrow> string \<Rightarrow> string \<Rightarrow> int
     \<Rightarrow> ('r, ReplayClaim + ReplayRecord) io" where
  "replay_claim api sha256 T now token key fingerprint ttl =
     (if strip key = [] then raise (ValueError ''idempotency key must not be empty'')
      else if ttl \<le> 0 then raise (ValueError ''idempotency ttl must be positive'')
      else
        bindS (redis_error_as (SessionStoreError ''request replay claim failed'')
          (bindS (rd_set_nx api now (replay_key sha256 key) (pending_payload fingerprint token) ttl) (\<lambda>created.
           if created then ret (Inl \<lparr>rc_key = key, rc_fingerprint = fingerprint, rc_token = token, rc_ttl_seconds = ttl\<rparr>)
           else bindS (rd_get api now (replay_key sha256 key)) (\<lambda>raw. ret (Inr raw))))) (\<lambda>x.
        case x of
          Inl claim \<Rightarrow> ret (Inl claim)
        | Inr None \<Rightarrow> raise (RequestReplayInProgress ''request replay claim is changing'')
        | Inr (Some raw) \<Rightarrow> bindS (lift (read_replay T fingerprint raw)) (\<lambda>rec. ret (Inr rec))))"

definition token_of :: "string \<Rightarrow> json option" where
  "token_of raw = (case json_loads raw of Inr (JObj d) \<Rightarrow> dict_get d ''token'' | _ \<Rightarrow> None)"

definition completed_payload :: "string \<Rightarrow> int \<Rightarrow> string \<Rightarrow> string" where
  "completed_payload raw status_code body = (case json_loads raw of
       Inr (JObj d) \<Rightarrow> json_dumps True (JObj (dict_set ''body'' (JStr body)
         (dict_set ''status_code'' (JInt status_code) (dict_set ''status'' (JStr ''completed'') d))))
     | _ \<Rightarrow> raw)"

definition complete_script :: "'r redis_api \<Rightarrow> time \<Rightarrow> string \<Rightarrow> string \<Rightarrow> int \<Rightarrow> string \<Rightarrow> int \<Rightarrow> ('r, nat) io" where
  "complete_script api now k token status_code body ttl =
     bindS (rd_get api now k) (\<lambda>v. case v of
       None \<Rightarrow> ret 0
     | Some raw \<Rightarrow> if token_of raw \<noteq> Some (JStr token) then ret 0
         else bindS (rd_set_ex api now k (completed_payload raw status_code body) ttl) (\<lambda>_. ret 1))"

definition abort_script :: "'r redis_api \<Rightarrow> time \<Rightarrow> string \<Rightarrow> string \<Rightarrow> ('r, nat) io" where
  "abort_script api now k token =
     bindS (rd_get api now k) (\<lambda>v. case v of
       None \<Rightarrow> ret 0
     | Some raw \<Rightarrow> if token_of raw \<noteq> Some (JStr token) then ret 0 else rd_del api now [k])"

definition replay_complete :: "'r redis_api \<Rightarrow> sha256_fun \<Rightarrow> time \<Rightarrow> ReplayClaim \<Rightarrow> int \<Rightarrow> string \<Rightarrow> ('r, unit) io" where
  "replay_complete api sha256 now claim status_code body =
     bindS (redis_error_as (SessionStoreError ''request replay completion failed'')
       (complete_script api now (replay_key sha256 (rc_key claim)) (rc_token claim) status_code body (rc_ttl_seconds claim)))
     (\<lambda>updated. if updated = 0 then raise (SessionStoreError ''request replay claim was lost'') else ret ())"

definition replay_abort :: "'r redis_api \<Rightarrow> sha256_fun \<Rightarrow> time \<Rightarrow> ReplayClaim \<Rightarrow> ('r, unit) io" where
  "replay_abort api sha256 now claim =
     redis_error_as (SessionStoreError ''request replay abort failed'')
       (bindS (abort_script api now (replay_key sha256 (rc_key claim)) (rc_token claim)) (\<lambda>_. ret ()))"

section \<open>The router wrapper\<close>

text \<open>What the endpoint answers: the handler's result (status 200), or a stored response.\<close>

datatype 'a response = Fresh 'a | Stored int json

text \<open>\<open>now\<close> and \<open>now'\<close> are the clock readings when the key is claimed and when the handler has
  finished; \<open>encode\<close> is \<open>jsonable_encoder\<close> on the handler's result.\<close>

definition claim_request ::
  "'r redis_api \<Rightarrow> sha256_fun \<Rightarrow> pytext \<Rightarrow> time \<Rightarrow> string \<Rightarrow> string option \<Rightarrow> string \<Rightarrow> ('r, ReplayClaim + ReplayRecord) io" where
  "claim_request api sha256 T now token header fingerprint_source = (case header of
       None \<Rightarrow> raise (HTTPException 400 ''Idempotency-Key header is required'')
     | Some key \<Rightarrow>
         if key = [] then raise (HTTPException 400 ''Idempotency-Key header is required'')
         else catchS (replay_claim api sha256 T now token key (sha256 fingerprint_source) 86400)
           (\<lambda>e. case e of RequestReplayConflict d \<Rightarrow> raise (HTTPException 409 d)
              | RequestReplayInProgress d \<Rightarrow> raise (HTTPException 409 d)
              | _ \<Rightarrow> raise e))"

definition finish_request ::
  "'r redis_api \<Rightarrow> sha256_fun \<Rightarrow> time \<Rightarrow> ('a \<Rightarrow> json) \<Rightarrow> ReplayClaim \<Rightarrow> (dbs, 'a) io \<Rightarrow> ('r app, 'a response) io" where
  "finish_request api sha256 now' encode claim handler =
     catchS (bindS (on_dbs handler) (\<lambda>result.
             bindS (on_redis (replay_complete api sha256 now' claim 200 (json_dumps True (encode result)))) (\<lambda>_.
             ret (Fresh result))))
       (\<lambda>e. bindS (on_redis (replay_abort api sha256 now' claim)) (\<lambda>_. raise e))"

definition idempotent ::
  "'r redis_api \<Rightarrow> sha256_fun \<Rightarrow> pytext \<Rightarrow> time \<Rightarrow> time \<Rightarrow> string \<Rightarrow> string option \<Rightarrow> string \<Rightarrow> ('a \<Rightarrow> json)
     \<Rightarrow> (dbs, 'a) io \<Rightarrow> ('r app, 'a response) io" where
  "idempotent api sha256 T now now' token header fingerprint_source encode handler =
     bindS (on_redis (claim_request api sha256 T now token header fingerprint_source)) (\<lambda>replay.
     case replay of
       Inr stored \<Rightarrow> bindS (lift (json_loads (rp_body stored))) (\<lambda>content. ret (Stored (rp_status_code stored) content))
     | Inl claim \<Rightarrow> finish_request api sha256 now' encode claim handler)"

section \<open>Lemmas\<close>

definition completed_record :: "string \<Rightarrow> string \<Rightarrow> int \<Rightarrow> string \<Rightarrow> string" where
  "completed_record fp tok c b = json_dumps True (JObj [(''fingerprint'', JStr fp), (''status'', JStr ''completed''),
     (''token'', JStr tok), (''status_code'', JInt c), (''body'', JStr b)])"

lemma loads_pending: "json_loads (pending_payload fp tok) =
  Inr (JObj [(''fingerprint'', JStr fp), (''status'', JStr ''pending''), (''token'', JStr tok)])"
  unfolding pending_payload_def by (rule json_loads_dumps) simp

lemma loads_completed: "json_loads (completed_record fp tok c b) =
  Inr (JObj [(''fingerprint'', JStr fp), (''status'', JStr ''completed''), (''token'', JStr tok), (''status_code'', JInt c), (''body'', JStr b)])"
  unfolding completed_record_def by (rule json_loads_dumps) simp

lemma completed_pending: "completed_payload (pending_payload fp tok) c b = completed_record fp tok c b"
  by (simp add: completed_payload_def loads_pending completed_record_def)

lemma token_of_pending: "token_of (pending_payload fp tok) = Some (JStr tok)"
  by (simp add: token_of_def loads_pending dict_get_def)

lemma read_pending: "read_replay T fp (pending_payload fp' tok) = Inl (if fp = fp'
    then RequestReplayInProgress ''request with this idempotency key is in progress''
    else RequestReplayConflict ''idempotency key was reused with a different request'')"
  by (simp add: read_replay_def loads_pending dict_get_def)

lemma read_completed: "read_replay T fp (completed_record fp' tok c b) =
    (if fp = fp' then Inr \<lparr>rp_status_code = c, rp_body = b\<rparr>
     else Inl (RequestReplayConflict ''idempotency key was reused with a different request''))"
  by (simp add: read_replay_def loads_completed dict_get_def member_def)

context redis_server
begin

lemma claim_fresh:
  assumes "replay_claim api sha256 T now token key fp ttl r = (Inr (Inl c), r1)"
  shows "live now (contents r) (replay_key sha256 key) = None \<and> 0 < ttl \<and>
    c = \<lparr>rc_key = key, rc_fingerprint = fp, rc_token = token, rc_ttl_seconds = ttl\<rparr> \<and>
    contents r1 = spec_set_ex now (replay_key sha256 key) (pending_payload fp token) ttl (contents r)"
proof -
  let ?k = "replay_key sha256 key" and ?p = "pending_payload fp token"
  have t: "0 < ttl" using assms by (auto simp: replay_claim_def split: if_splits)
  obtain b r' where nx: "rd_set_nx api now ?k ?p ttl r = (Inr b, r')"
    using assms by (auto simp: replay_claim_def bindS_eq_Inr split: if_splits)
  have b: "b" using assms nx by (auto simp: replay_claim_def bindS_eq_Inr split: if_splits option.splits)
  then have "c = \<lparr>rc_key = key, rc_fingerprint = fp, rc_token = token, rc_ttl_seconds = ttl\<rparr> \<and> r1 = r'"
    using assms nx by (auto simp: replay_claim_def bindS_eq_Inr split: if_splits)
  then show ?thesis using set_nx_ok [OF nx] b t by (auto simp: spec_set_nx_def split: option.splits)
qed

text \<open>While a record of the key is live, nobody gets the claim and the server is left as it was.\<close>

lemma claim_live:
  assumes lv: "live now (contents r) (replay_key sha256 key) = Some (RStr raw)"
    and run: "replay_claim api sha256 T now token key fp ttl r = (res, r1)"
  shows "contents r1 = contents r \<and> (\<forall>y. res = Inr y \<longrightarrow> (\<exists>rec. y = Inr rec \<and> read_replay T fp raw = Inr rec))"
proof (cases "strip key = [] \<or> ttl \<le> 0")
  case True
  then show ?thesis using run by (auto simp: replay_claim_def split: if_splits)
next
  case False
  let ?k = "replay_key sha256 key" and ?p = "pending_payload fp token"
  obtain x r2 where nx: "rd_set_nx api now ?k ?p ttl r = (x, r2)" by (cases "rd_set_nx api now ?k ?p ttl r")
  have c2: "contents r2 = contents r" "x \<noteq> Inr True"
    using lv nx set_nx_ok [of now ?k ?p ttl r _ r2] set_nx_failed [of now ?k ?p ttl r _ r2]
    by (cases x; force simp: spec_set_nx_def)+
  show ?thesis
  proof (cases x)
    case (Inl e)
    then show ?thesis using run False nx c2
      by (auto simp: replay_claim_def bindS_def redis_error_as_def catchS_def)
  next
    case (Inr b)
    then have b: "\<not> b" using c2 by simp
    obtain v r3 where g: "rd_get api now ?k r2 = (v, r3)" by (cases "rd_get api now ?k r2")
    have c3: "contents r3 = contents r" using get_ok [of now ?k r2 _ r3] get_failed [of now ?k r2 _ r3] g c2 by (cases v) auto
    have "v = Inr y \<Longrightarrow> y = Some raw" for y using get_ok [of now ?k r2 y r3] g c2 lv by (simp add: spec_get_def)
    then show ?thesis using run False nx Inr b g c3
      by (cases v; cases "read_replay T fp raw")
         (auto simp: replay_claim_def bindS_def redis_error_as_def catchS_def lift_def ret_def)
  qed
qed

end

lemma catchS_Inr: "catchS m h s = (Inr x, s') \<Longrightarrow> m s = (Inr x, s') \<or> (\<exists>e s1. m s = (Inl e, s1) \<and> h e s1 = (Inr x, s'))"
  by (auto simp: catchS_def split: prod.splits sum.splits)

lemma on_redis_Inr: "on_redis m s = (Inr x, s') \<Longrightarrow> \<exists>r. m (ap_redis s) = (Inr x, r) \<and> s' = s\<lparr>ap_redis := r\<rparr>"
  by (auto simp: on_redis_def split: prod.splits)

lemma on_dbs_redis: "on_dbs m s = (y, s') \<Longrightarrow> ap_redis s' = ap_redis s"
  by (auto simp: on_dbs_def split: prod.splits)

lemma claim_request_Inr:
  assumes "claim_request api sha256 T now token header src r = (Inr y, r1)"
  shows "\<exists>key. header = Some key \<and> key \<noteq> [] \<and> replay_claim api sha256 T now token key (sha256 src) 86400 r = (Inr y, r1)"
proof (cases header)
  case (Some key)
  then show ?thesis using assms
    by (auto simp: claim_request_def split: if_splits exn.splits dest!: catchS_Inr)
qed (use assms in \<open>simp add: claim_request_def\<close>)

context redis_server
begin

lemma fresh_request:
  assumes "idempotent api sha256 T now now' token header src encode handler s = (Inr (Fresh x), s1)"
  shows "\<exists>key. header = Some key \<and> key \<noteq> [] \<and> live now (contents (ap_redis s)) (replay_key sha256 key) = None \<and>
    now' < now + seconds 86400 \<and>
    handler (ap_dbs s) = (Inr x, ap_dbs s1) \<and>
    contents (ap_redis s1) (replay_key sha256 key) =
      Some (RStr (completed_record (sha256 src) token 200 (json_dumps True (encode x))), Some (now' + seconds 86400))"
proof -
  obtain y r1 where c: "claim_request api sha256 T now token header src (ap_redis s) = (Inr y, r1)"
    using assms by (auto simp: idempotent_def bindS_eq_Inr dest!: on_redis_Inr)
  then have oc: "on_redis (claim_request api sha256 T now token header src) s = (Inr y, s\<lparr>ap_redis := r1\<rparr>)" by simp
  obtain key where key: "header = Some key" "key \<noteq> []"
    and rcl: "replay_claim api sha256 T now token key (sha256 src) 86400 (ap_redis s) = (Inr y, r1)"
    using claim_request_Inr [OF c] by blast
  let ?k = "replay_key sha256 key" and ?fp = "sha256 src"
  obtain cl where y: "y = Inl cl" using assms oc by (cases y) (auto simp: idempotent_def bindS_def lift_def split: sum.splits)
  note f = claim_fresh [OF rcl [unfolded y]]
  have fin: "finish_request api sha256 now' encode cl handler (s\<lparr>ap_redis := r1\<rparr>) = (Inr (Fresh x), s1)"
    using assms oc y by (simp add: idempotent_def bindS_def)
  then have body: "bindS (on_dbs handler) (\<lambda>result. bindS (on_redis (replay_complete api sha256 now' cl 200 (json_dumps True (encode result)))) (\<lambda>_.
             ret (Fresh result))) (s\<lparr>ap_redis := r1\<rparr>) = (Inr (Fresh x), s1)"
    by (auto simp: finish_request_def bindS_eq_Inr dest!: catchS_Inr)
  then obtain d s2 where h: "handler (ap_dbs s) = (Inr x, d)" and s2: "s2 = s\<lparr>ap_redis := r1, ap_dbs := d\<rparr>"
    and cm: "on_redis (replay_complete api sha256 now' cl 200 (json_dumps True (encode x))) s2 = (Inr (), s1)"
    by (auto simp: bindS_eq_Inr on_dbs_def split: prod.splits)
  obtain r2 where rc: "replay_complete api sha256 now' cl 200 (json_dumps True (encode x)) r1 = (Inr (), r2)" "s1 = s2\<lparr>ap_redis := r2\<rparr>"
    using on_redis_Inr [OF cm] s2 by auto
  obtain n where n: "complete_script api now' ?k token 200 (json_dumps True (encode x)) 86400 r1 = (Inr n, r2)" "n \<noteq> 0"
    using rc(1) f by (auto simp: replay_complete_def bindS_eq_Inr split: if_splits)
  obtain raw r3 where g: "rd_get api now' ?k r1 = (Inr (Some raw), r3)"
    and se: "rd_set_ex api now' ?k (completed_payload raw 200 (json_dumps True (encode x))) 86400 r3 = (Inr (), r2)"
    using n by (auto simp: complete_script_def bindS_eq_Inr split: option.splits if_splits)
  have raw: "raw = pending_payload ?fp token" "now' < now + seconds 86400" "contents r3 = contents r1"
    using get_ok [OF g] f by (auto split: if_splits)
  have "contents r2 ?k = Some (RStr (completed_record ?fp token 200 (json_dumps True (encode x))), Some (now' + seconds 86400))"
    using set_ex_ok [OF se] raw by (simp add: spec_set_ex_def completed_pending)
  then show ?thesis using key f h s2 rc(2) raw(2) by simp
qed

lemma repeated_request:
  assumes rec: "contents (ap_redis s) (replay_key sha256 key) = Some (RStr (completed_record fp tok 200 (json_dumps True j)), Some e)"
    and wf: "json_wf j" and before: "now < e"
    and run: "idempotent api sha256 T now now' token (Some key) src encode handler s = (res, s1)"
  shows "contents (ap_redis s1) = contents (ap_redis s) \<and> ap_dbs s1 = ap_dbs s \<and>
    (\<forall>y. res = Inr y \<longrightarrow> sha256 src = fp \<and> y = Stored 200 j)"
proof -
  let ?k = "replay_key sha256 key"
  have lv: "live now (contents (ap_redis s)) ?k = Some (RStr (completed_record fp tok 200 (json_dumps True j)))"
    using rec before by (simp add: live_def)
  obtain cr r1 where c: "claim_request api sha256 T now token (Some key) src (ap_redis s) = (cr, r1)"
    by (cases "claim_request api sha256 T now token (Some key) src (ap_redis s)")
  then have oc: "on_redis (claim_request api sha256 T now token (Some key) src) s = (cr, s\<lparr>ap_redis := r1\<rparr>)" by simp
  obtain q r2 where q: "replay_claim api sha256 T now token key (sha256 src) 86400 (ap_redis s) = (q, r2)"
    by (cases "replay_claim api sha256 T now token key (sha256 src) 86400 (ap_redis s)")
  have same: "contents r1 = contents (ap_redis s)"
    using c q claim_live [OF lv q]
    by (auto simp: claim_request_def catchS_def split: if_splits sum.splits exn.splits)
  show ?thesis
  proof (cases cr)
    case (Inl e)
    then show ?thesis using run oc same by (auto simp: idempotent_def bindS_def)
  next
    case (Inr y)
    have "replay_claim api sha256 T now token key (sha256 src) 86400 (ap_redis s) = (Inr y, r1)"
      using claim_request_Inr [OF c [unfolded Inr]] by auto
    from claim_live [OF lv this] obtain st where st: "y = Inr st" "read_replay T (sha256 src) (completed_record fp tok 200 (json_dumps True j)) = Inr st"
      by auto
    then have "sha256 src = fp" "st = \<lparr>rp_status_code = 200, rp_body = json_dumps True j\<rparr>"
      by (auto simp: read_completed split: if_splits)
    then show ?thesis using run oc Inr st(1) same json_loads_dumps [OF wf, of True] by (auto simp: idempotent_def bindS_def)
  qed
qed

end

section \<open>Properties\<close>

text \<open>
  C15: a write with an idempotency key is executed once. After a request was answered with a fresh
  result, a repetition with the same key, from anybody and at any time before the record expires
  (86400 seconds after the handler finished), leaves the databases and the Redis server as they
  are: its handler does not run. If it is answered at all, with no error of the server, its
  request had the same fingerprint and the answer is the stored result of the first one.
\<close>

theorem replay_executes_once:
  assumes "redis_server api contents"
    and "idempotent api sha256 T now now' token header src encode handler s = (Inr (Fresh x), s1)"
    and "json_wf (encode x)"
    and "contents (ap_redis s2) (replay_key sha256 (the header)) = contents (ap_redis s1) (replay_key sha256 (the header))"
    and "t < now' + seconds 86400"
    and "idempotent api sha256 T t t' token' header src' encode' handler' s2 = (res, s3)"
  shows "ap_dbs s3 = ap_dbs s2 \<and> contents (ap_redis s3) = contents (ap_redis s2) \<and>
    (\<forall>y. res = Inr y \<longrightarrow> sha256 src' = sha256 src \<and> y = Stored 200 (encode x))"
proof -
  obtain key where k: "header = Some key" and c: "contents (ap_redis s1) (replay_key sha256 key) =
      Some (RStr (completed_record (sha256 src) token 200 (json_dumps True (encode x))), Some (now' + seconds 86400))"
    using redis_server.fresh_request [OF assms(1,2)] by blast
  show ?thesis
    using redis_server.repeated_request [OF assms(1) _ assms(3,5) assms(6) [unfolded k]] assms(4) k c by auto
qed

definition plain_text :: pytext where
  "plain_text = \<lparr>py_str_exn = (\<lambda>_. []), py_type_name = (\<lambda>_. []), py_repr = (\<lambda>_. [])\<rparr>"

definition demo_app :: "rstate app" where
  "demo_app = \<lparr>ap_redis = (\<lambda>_. None), ap_dbs = \<lparr>rg_global = [(''identity'', empty_db)], rg_shard = []\<rparr>\<rparr>"

definition demo_request :: "string \<Rightarrow> string \<Rightarrow> (rstate app, string response) io" where
  "demo_request tok res = idempotent mem_redis (\<lambda>s. s) plain_text 0 1 tok (Some ''k'') ''PUT'' JStr (ret res)"

theorem replay_executes_once_witness:
  "let s1 = snd (demo_request ''t'' ''first'' demo_app); s3 = snd (demo_request ''u'' ''second'' s1)
   in ap_dbs s3 = ap_dbs s1 \<and> ap_redis s3 = ap_redis s1 \<and>
    (\<forall>y. Inr (Stored 200 (JStr ''first'')) = (Inr y :: string response result) \<longrightarrow> ''PUT'' = ''PUT'' \<and> y = Stored 200 (JStr ''first''))"
proof -
  let ?s1 = "snd (demo_request ''t'' ''first'' demo_app)"
  have 1: "demo_request ''t'' ''first'' demo_app = (Inr (Fresh ''first''), ?s1)" by (rule run_result) code_simp
  have 2: "demo_request ''u'' ''second'' ?s1 = (Inr (Stored 200 (JStr ''first'')), snd (demo_request ''u'' ''second'' ?s1))"
    by (rule run_result) code_simp
  show ?thesis
    using replay_executes_once [OF mem.redis_server_axioms 1 [unfolded demo_request_def] _ _ _ 2 [unfolded demo_request_def]]
    unfolding Let_def demo_request_def by (simp add: seconds_def)
qed

text \<open>
  C16: a failed handler gives the key back. When the handler raises, the endpoint raises the same
  exception, the claim is deleted, and the key is free at every later time, so that a retry runs
  the handler again; what the handler committed before it raised stays committed.
\<close>

theorem replay_failure_releases:
  assumes "redis_server api contents" and "redis_up api" and "strip key \<noteq> []"
    and "live now (contents (ap_redis s)) (replay_key sha256 key) = None"
    and "now' < now + seconds 86400" and "handler (ap_dbs s) = (Inl e, d)"
  shows "\<exists>s1. idempotent api sha256 T now now' token (Some key) src encode handler s = (Inl e, s1) \<and>
    ap_dbs s1 = d \<and> (\<forall>n. live n (contents (ap_redis s1)) (replay_key sha256 key) = None)"
proof -
  let ?k = "replay_key sha256 key" and ?fp = "sha256 src"
  let ?cl = "\<lparr>rc_key = key, rc_fingerprint = ?fp, rc_token = token, rc_ttl_seconds = 86400\<rparr>"
  obtain b r1 where nx: "rd_set_nx api now ?k (pending_payload ?fp token) 86400 (ap_redis s) = (Inr b, r1)"
    using assms(2) unfolding redis_up_def by blast
  then have b: "b" "contents r1 = spec_set_ex now ?k (pending_payload ?fp token) 86400 (contents (ap_redis s))"
    using redis_server.set_nx_ok [OF assms(1) nx] assms(4) by (auto simp: spec_set_nx_def)
  have "key \<noteq> []" using assms(3) by (auto simp: strip_def lstrip_def rstrip_by_def)
  then have c: "claim_request api sha256 T now token (Some key) src (ap_redis s) = (Inr (Inl ?cl), r1)"
    using nx b(1) assms(3) by (simp add: claim_request_def replay_claim_def bindS_def redis_error_as_def catchS_def)
  obtain v r2 where g: "rd_get api now' ?k r1 = (Inr v, r2)" using assms(2) unfolding redis_up_def by blast
  then have v: "v = Some (pending_payload ?fp token)" "contents r2 = contents r1"
    using redis_server.get_ok [OF assms(1) g] b(2) assms(5) by simp_all
  obtain n r3 where d: "rd_del api now' [?k] r2 = (Inr n, r3)" using assms(2) unfolding redis_up_def by blast
  have "contents r3 = snd (spec_del now' [?k] (contents r2))" using redis_server.del_ok [OF assms(1) d] by (metis snd_conv)
  then have gone: "live m (contents r3) ?k = None" for m by simp
  have a: "replay_abort api sha256 now' ?cl r1 = (Inr (), r3)"
    using g v d by (simp add: replay_abort_def abort_script_def bindS_def redis_error_as_def catchS_def token_of_pending)
  show ?thesis
    using c assms(6) a gone
    by (intro exI [of _ "s\<lparr>ap_redis := r3, ap_dbs := d\<rparr>"]) (simp add: idempotent_def finish_request_def bindS_def catchS_def)
qed

theorem replay_failure_releases_witness:
  "\<exists>s1. idempotent mem_redis (\<lambda>s. s) plain_text 0 1 ''t'' (Some ''k'') ''PUT'' JStr
      (raise (HTTPException 404 ''gone'')) demo_app = (Inl (HTTPException 404 ''gone''), s1) \<and>
    ap_dbs s1 = ap_dbs demo_app \<and> (\<forall>n. live n (ap_redis s1) (replay_key (\<lambda>s. s) ''k'') = None)"
  by (rule replay_failure_releases [OF mem.redis_server_axioms mem_redis_up])
     (code_simp, simp_all add: demo_app_def live_def seconds_def)

end
