(* ===== verification/Identity.thy ===== *)
theory Identity
  imports RequestReplay Repositories
begin

text \<open>
  Who may call what: access levels (\<open>infrastructure/access_control.py\<close>), service tokens
  (\<open>infrastructure/service_tokens.py\<close>), passwords (\<open>modules/identity/passwords.py\<close>), sign-up, log-in
  and session validation (\<open>modules/identity/handlers.py\<close> and its router) and the granting of
  operator access (\<open>modules/identity/provisioning.py\<close>, \<open>scripts/provision_operator.py\<close>).
  \<open>hashlib.pbkdf2_hmac\<close> is an argument of the password functions: a function of password bytes,
  salt and iteration count that may raise. Random values and clock readings are arguments.
\<close>

section \<open>Access levels and service tokens\<close>

datatype AccessLevel = USER | OPERATOR | DEVELOPER | ADMINISTRATOR

fun access_value :: "AccessLevel \<Rightarrow> string" where
  "access_value USER = ''user''"
| "access_value OPERATOR = ''operator''"
| "access_value DEVELOPER = ''developer''"
| "access_value ADMINISTRATOR = ''administrator''"

fun ACCESS_LEVEL_RANK :: "AccessLevel \<Rightarrow> nat" where
  "ACCESS_LEVEL_RANK USER = 10"
| "ACCESS_LEVEL_RANK OPERATOR = 20"
| "ACCESS_LEVEL_RANK DEVELOPER = 30"
| "ACCESS_LEVEL_RANK ADMINISTRATOR = 40"

text \<open>\<open>AccessLevel(raw)\<close>\<close>

definition access_level_of :: "json option \<Rightarrow> AccessLevel result" where
  "access_level_of raw = (case raw of
       Some (JStr s) \<Rightarrow> (case find (\<lambda>l. access_value l = s) [USER, OPERATOR, DEVELOPER, ADMINISTRATOR] of
           Some l \<Rightarrow> Inr l | None \<Rightarrow> Inl (ValueError ''AccessLevel''))
     | _ \<Rightarrow> Inl (ValueError ''AccessLevel''))"

definition require_access_level :: "AccessLevel \<Rightarrow> SessionData \<Rightarrow> unit result" where
  "require_access_level required session =
     (case access_level_of (dict_get (sd_data session) ''access_level'') of
        Inl _ \<Rightarrow> Inl (HTTPException 403 ''session access level is invalid'')
      | Inr actual \<Rightarrow>
          if ACCESS_LEVEL_RANK actual < ACCESS_LEVEL_RANK required
          then Inl (HTTPException 403 ''insufficient access level'') else Inr ())"

definition SERVICE_TOKEN_ENVIRONMENTS :: "(string, string) dict" where
  "SERVICE_TOKEN_ENVIRONMENTS = [(''durable_jobs'', ''DURABLE_JOB_API_TOKEN''), (''operator'', ''OPERATOR_API_TOKEN'')]"

text \<open>\<open>secrets.compare_digest\<close> on two strings: it raises unless both are ASCII.\<close>

definition is_ascii :: "string \<Rightarrow> bool" where
  "is_ascii s = list_all (\<lambda>c. code c < 128) s"

definition compare_digest :: "string \<Rightarrow> string \<Rightarrow> bool result" where
  "compare_digest a b = (if is_ascii a \<and> is_ascii b then Inr (a = b)
     else Inl (TypeError ''comparing strings with non-ASCII characters is not supported''))"

definition require_service_token :: "string \<Rightarrow> environ \<Rightarrow> string option \<Rightarrow> unit result" where
  "require_service_token name env authorization =
     (case dict_get SERVICE_TOKEN_ENVIRONMENTS name of
        None \<Rightarrow> Inl (KeyError name)
      | Some token_env \<Rightarrow>
          let expected = (case dict_get env token_env of None \<Rightarrow> [] | Some v \<Rightarrow> v);
              (scheme, _, token) = partition_at CHR '' '' (case authorization of None \<Rightarrow> [] | Some a \<Rightarrow> a)
          in if expected = [] then Inl (HTTPException 503 ''service API token is not configured'')
             else if scheme \<noteq> ''Bearer'' then Inl (HTTPException 401 ''invalid service API token'')
             else bindE (compare_digest token expected) (\<lambda>same.
               if same then Inr () else Inl (HTTPException 401 ''invalid service API token'')))"

section \<open>Passwords\<close>

definition ALGORITHM :: string where "ALGORITHM = ''pbkdf2_sha256''"
definition ITERATIONS :: int where "ITERATIONS = 600000"

type_synonym pbkdf2_fun = "nat list \<Rightarrow> nat list \<Rightarrow> int \<Rightarrow> nat list result"

text \<open>\<open>salt\<close> is what \<open>secrets.token_bytes(16)\<close> returns.\<close>

definition hash_password :: "pbkdf2_fun \<Rightarrow> nat list \<Rightarrow> string \<Rightarrow> string result" where
  "hash_password pbkdf2 salt password =
     bindE (pbkdf2 (utf8 password) salt ITERATIONS) (\<lambda>digest.
     Inr (join ''$'' [ALGORITHM, string_of_int ITERATIONS, b64encode salt, b64encode digest]))"

text \<open>The part inside \<open>try\<close>: \<open>None\<close> when it returns False or an exception that it catches is raised.\<close>

definition parse_hash :: "string \<Rightarrow> (int \<times> nat list \<times> nat list) option" where
  "parse_hash encoded = (case split_at CHR ''$'' encoded of
       [algorithm, iterations_text, salt_text, digest_text] \<Rightarrow>
         if algorithm \<noteq> ALGORITHM then None
         else (case py_int iterations_text of Inl _ \<Rightarrow> None | Inr iterations \<Rightarrow>
           if \<not> is_ascii salt_text then None
           else (case b64decode salt_text of Inl _ \<Rightarrow> None | Inr salt \<Rightarrow>
             if \<not> is_ascii digest_text then None
             else (case b64decode digest_text of Inl _ \<Rightarrow> None | Inr expected \<Rightarrow>
               Some (iterations, salt, expected))))
     | _ \<Rightarrow> None)"

definition verify_password :: "pbkdf2_fun \<Rightarrow> string \<Rightarrow> string \<Rightarrow> bool result" where
  "verify_password pbkdf2 password encoded = (case parse_hash encoded of
       None \<Rightarrow> Inr False
     | Some (iterations, salt, expected) \<Rightarrow>
         bindE (pbkdf2 (utf8 password) salt iterations) (\<lambda>actual. Inr (actual = expected)))"

section \<open>Sign-up, log-in, validation\<close>

record SignupRequest =
  sq_email :: string
  sq_password :: string

record SignupResponse =
  sp_user_id :: uuid
  sp_email :: string
  sp_is_active :: bool

record LoginRequest =
  lq_email :: string
  lq_password :: string

record LoginResponse =
  lp_user_id :: uuid
  lp_access_token :: string
  lp_token_type :: string

record ValidateSessionResponse =
  vp_user_id :: uuid
  vp_shard_id :: string

record GetOperatorSessionResponse =
  gp_user_id :: uuid
  gp_access_level :: string

definition IDENTITY_TARGET :: shard_target where "IDENTITY_TARGET = global_target ''identity''"
definition ACCOUNT_SHARD_COUNT :: nat where "ACCOUNT_SHARD_COUNT = 2"

definition shard_id_for :: "uuid \<Rightarrow> string" where
  "shard_id_for user_id = string_of_nat (unat user_id mod ACCOUNT_SHARD_COUNT + 1)"

definition account_save :: "LoginAccount \<Rightarrow> (db, unit) io" where
  "account_save a d = (case SQL_LoginAccount_save a (login_accounts d) of
       Inl e \<Rightarrow> (Inl e, d) | Inr t \<Rightarrow> (Inr (), d\<lparr>login_accounts := t\<rparr>))"

definition account_by_email :: "string \<Rightarrow> (db, LoginAccount option) io" where
  "account_by_email email = gets (\<lambda>d. SQL_LoginAccount_find_by_email email (login_accounts d))"

definition signup :: "pbkdf2_fun \<Rightarrow> uuid \<Rightarrow> nat list \<Rightarrow> time \<Rightarrow> SignupRequest \<Rightarrow> (dbs, SignupResponse) io" where
  "signup pbkdf2 user_id salt now request =
     (let email = lower (strip (sq_email request)) in
      bindS (with_session IDENTITY_TARGET
        (bindS (account_by_email email) (\<lambda>found.
         if found \<noteq> None then raise (HTTPException 409 ''Email is already registered'')
         else bindS (lift (hash_password pbkdf2 salt (sq_password request))) (\<lambda>h.
              let account = \<lparr>la_user_id = user_id, la_email = email, la_password_hash = h, la_is_active = True,
                    la_access_level = ''user'', la_shard_id = shard_id_for user_id, la_created_at = now\<rparr>
              in bindS (account_save account) (\<lambda>_. ret account)))))
      (\<lambda>account. ret \<lparr>sp_user_id = la_user_id account, sp_email = la_email account, sp_is_active = la_is_active account\<rparr>))"

definition login_session :: "LoginAccount \<Rightarrow> string \<Rightarrow> SessionData" where
  "login_session account access_token = \<lparr>sd_session_id = access_token, sd_user_id = str_uuid (la_user_id account),
     sd_data = [(''shard_id'', JStr (la_shard_id account)), (''access_level'', JStr (la_access_level account))]\<rparr>"

definition login ::
  "'r session_ops \<Rightarrow> pbkdf2_fun \<Rightarrow> string \<Rightarrow> time \<Rightarrow> LoginRequest \<Rightarrow> ('r app, LoginResponse) io" where
  "login store pbkdf2 secret now request =
     (let email = lower (strip (lq_email request)) in
      bindS (on_dbs (with_session IDENTITY_TARGET (account_by_email email))) (\<lambda>found.
      bindS (lift (case found of None \<Rightarrow> Inr False
               | Some account \<Rightarrow> verify_password pbkdf2 (lq_password request) (la_password_hash account)))
        (\<lambda>valid_password. case found of
           None \<Rightarrow> raise (HTTPException 401 ''Invalid credentials'')
         | Some account \<Rightarrow>
             if \<not> la_is_active account \<or> \<not> valid_password then raise (HTTPException 401 ''Invalid credentials'')
             else
               bindS (lift (create_session_id secret (str_uuid (la_user_id account)))) (\<lambda>access_token.
               bindS (on_redis (ss_create store now (login_session account access_token))) (\<lambda>_.
               ret \<lparr>lp_user_id = la_user_id account, lp_access_token = access_token, lp_token_type = ''bearer''\<rparr>)))))"

definition validate_session :: "'r session_ops \<Rightarrow> time \<Rightarrow> string \<Rightarrow> ('r, ValidateSessionResponse) io" where
  "validate_session store now access_token =
     bindS (ss_get store now access_token) (\<lambda>session. case session of
       None \<Rightarrow> raise (HTTPException 401 ''Invalid session'')
     | Some x \<Rightarrow> (case dict_get (sd_data x) ''shard_id'' of
         Some (JStr shard_id) \<Rightarrow> bindS (lift (uuid_of (sd_user_id x))) (\<lambda>u.
           ret \<lparr>vp_user_id = u, vp_shard_id = shard_id\<rparr>)
       | _ \<Rightarrow> raise (HTTPException 500 ''Session shard is missing'')))"

definition get_operator_session :: "SessionData \<Rightarrow> GetOperatorSessionResponse result" where
  "get_operator_session current_session = bindE (uuid_of (sd_user_id current_session)) (\<lambda>u.
     Inr \<lparr>gp_user_id = u, gp_access_level = ''operator''\<rparr>)"

text \<open>A protected endpoint: the bearer session, then the access level, then the handler.\<close>

definition with_access ::
  "'r session_ops \<Rightarrow> time \<Rightarrow> AccessLevel \<Rightarrow> string option \<Rightarrow> (SessionData \<Rightarrow> ('r app, 'a) io) \<Rightarrow> ('r app, 'a) io" where
  "with_access store now level bearer endpoint =
     bindS (on_redis (get_current_session store now bearer)) (\<lambda>session.
     bindS (lift (require_access_level level session)) (\<lambda>_. endpoint session))"

definition operator_session_endpoint :: "'r session_ops \<Rightarrow> time \<Rightarrow> string option \<Rightarrow> ('r app, GetOperatorSessionResponse) io" where
  "operator_session_endpoint store now bearer =
     with_access store now OPERATOR bearer (\<lambda>session. lift (get_operator_session session))"

section \<open>Operator access\<close>

record OperatorGrantResult =
  og_user_id :: uuid
  og_changed :: bool
  og_revoked_session_count :: nat

definition audit_save :: "AccessLevelAudit \<Rightarrow> (db, unit) io" where
  "audit_save a = modify (\<lambda>d. d\<lparr>access_level_audits := SQL_AccessLevelAudit_save a (access_level_audits d)\<rparr>)"

definition grant_tx :: "uuid \<Rightarrow> time \<Rightarrow> string \<Rightarrow> string \<Rightarrow> (db, LoginAccount \<times> bool) io" where
  "grant_tx audit_id now email actor =
     bindS (account_by_email email) (\<lambda>found. case found of
       None \<Rightarrow> raise (LookupError ''identity account was not found'')
     | Some account \<Rightarrow>
         if la_access_level account = access_value USER then
           bindS (account_save (account\<lparr>la_access_level := access_value OPERATOR\<rparr>)) (\<lambda>_.
           bindS (audit_save \<lparr>aa_audit_id = audit_id, aa_subject_user_id = la_user_id account, aa_actor = actor,
                    aa_previous_access_level = access_value USER, aa_new_access_level = access_value OPERATOR,
                    aa_changed_at = now\<rparr>) (\<lambda>_. ret (account, True)))
         else if la_access_level account \<noteq> access_value OPERATOR
         then raise (ValueError ''only user-to-operator access grants are supported'')
         else ret (account, False))"

definition grant_operator_access ::
  "'r session_ops \<Rightarrow> uuid \<Rightarrow> time \<Rightarrow> time \<Rightarrow> string \<Rightarrow> string \<Rightarrow> ('r app, OperatorGrantResult) io" where
  "grant_operator_access store audit_id now now' email actor =
     (let normalized_email = lower (strip email); normalized_actor = strip actor in
      if normalized_email = [] then raise (ValueError ''email must not be empty'')
      else if normalized_actor = [] then raise (ValueError ''actor must not be empty'')
      else
        bindS (on_dbs (with_session IDENTITY_TARGET (grant_tx audit_id now normalized_email normalized_actor)))
          (\<lambda>(account, changed).
        bindS (on_redis (ss_revoke_user store now' (str_uuid (la_user_id account)))) (\<lambda>count.
        ret \<lparr>og_user_id = la_user_id account, og_changed = changed, og_revoked_session_count = count\<rparr>)))"

section \<open>Lemmas\<close>

lemma no_dollar:
  "is_bytes bs \<Longrightarrow> CHR ''$'' \<notin> set (b64encode bs) \<and> is_ascii (b64encode bs)"
proof -
  assume "is_bytes bs"
  then obtain t p where "padded (b64encode bs) t p" using b64encode_padded by blast
  then have e: "b64encode bs = t @ replicate p CHR ''=''" and t: "list_all is_b64 t" by (auto simp: padded_def)
  have "c \<noteq> CHR ''$'' \<and> code c < 128" if "c \<in> set (b64encode bs)" for c
    using that t is_b64_safe [of c] unfolding e by (auto simp: list_all_iff)
  then show ?thesis unfolding is_ascii_def list_all_iff by blast
qed

lemma dec_chars_safe: "list_all dec_char s \<Longrightarrow> CHR ''$'' \<notin> set s"
  by (auto simp: list_all_iff dec_char_def)

lemma parse_hash_of:
  assumes "is_bytes salt" "is_bytes dg"
  shows "parse_hash (join ''$'' [ALGORITHM, string_of_int ITERATIONS, b64encode salt, b64encode dg]) = Some (ITERATIONS, salt, dg)"
proof -
  have i: "string_of_int ITERATIONS = string_of_nat 600000" by (simp add: string_of_int_def ITERATIONS_def)
  have "CHR ''$'' \<notin> set (string_of_int ITERATIONS)" unfolding i using dec_chars_safe string_of_nat_decimal by blast
  moreover have "CHR ''$'' \<notin> set ALGORITHM" by (simp add: ALGORITHM_def)
  ultimately have "split_at CHR ''$'' (join ''$'' [ALGORITHM, string_of_int ITERATIONS, b64encode salt, b64encode dg]) =
      [ALGORITHM, string_of_int ITERATIONS, b64encode salt, b64encode dg]"
    using no_dollar [OF assms(1)] no_dollar [OF assms(2)] by (intro split_at_join) auto
  moreover have "py_int (string_of_int ITERATIONS) = Inr ITERATIONS" unfolding i by (simp add: ITERATIONS_def)
  ultimately show ?thesis using no_dollar assms by (simp add: parse_hash_def)
qed

text \<open>
  C17: a stored password hash verifies exactly the passwords with the same PBKDF2 digest: for a
  hash made by \<open>hash_password\<close>, \<open>verify_password\<close> recovers the salt, the iteration count and the
  digest and compares the digest of the password given; in particular the password itself verifies.
\<close>

theorem password_roundtrip:
  assumes "hash_password pbkdf2 salt password = Inr h" and "pbkdf2 (utf8 password) salt ITERATIONS = Inr dg"
    and "is_bytes salt" and "is_bytes dg"
  shows "verify_password pbkdf2 attempt h = bindE (pbkdf2 (utf8 attempt) salt ITERATIONS) (\<lambda>actual. Inr (actual = dg))
    \<and> verify_password pbkdf2 password h = Inr True"
proof -
  have "h = join ''$'' [ALGORITHM, string_of_int ITERATIONS, b64encode salt, b64encode dg]"
    using assms(1,2) by (simp add: hash_password_def)
  then have p: "parse_hash h = Some (ITERATIONS, salt, dg)" using parse_hash_of [OF assms(3,4)] by metis
  show ?thesis using assms(2) by (simp add: verify_password_def p)
qed

definition toy_pbkdf2 :: pbkdf2_fun where
  "toy_pbkdf2 password salt iterations = Inr (map (\<lambda>b. b mod 256) (salt @ password))"

lemma b64_demo: "b64encode [7] = ''Bw==''" "b64encode [7, 97] = ''B2E=''"
  by code_simp+

theorem password_roundtrip_witness:
  "verify_password toy_pbkdf2 ''x'' (join ''$'' [ALGORITHM, string_of_int ITERATIONS, ''Bw=='', ''B2E='']) =
     bindE (toy_pbkdf2 (utf8 ''x'') [7] ITERATIONS) (\<lambda>actual. Inr (actual = [7, 97]))
    \<and> verify_password toy_pbkdf2 ''a'' (join ''$'' [ALGORITHM, string_of_int ITERATIONS, ''Bw=='', ''B2E='']) = Inr True"
proof (rule password_roundtrip)
  have "toy_pbkdf2 (utf8 ''a'') [7] ITERATIONS = Inr [7, 97]" by (simp add: toy_pbkdf2_def utf8_def utf8_char_def)
  then show "toy_pbkdf2 (utf8 ''a'') [7] ITERATIONS = Inr [7, 97]"
    and "hash_password toy_pbkdf2 [7] ''a'' = Inr (join ''$'' [ALGORITHM, string_of_int ITERATIONS, ''Bw=='', ''B2E=''])"
    using b64_demo by (simp_all add: hash_password_def)
qed (simp_all add: is_bytes_def)

lemma find_email_save:
  assumes "t_get lar_email (la_email a) t = None" "la_user_id a \<notin> lar_user_id ` set t"
  shows "SQL_LoginAccount_save a t = Inr (t @ [LoginAccount_to_record a])"
    and "SQL_LoginAccount_find_by_email (la_email a) (t @ [LoginAccount_to_record a]) = Some a"
proof -
  have e: "lar_email (LoginAccount_to_record a) = la_email a" by (simp add: LoginAccount_to_record_def)
  show "SQL_LoginAccount_save a t = Inr (t @ [LoginAccount_to_record a])"
    using assms merge_absent [of lar_user_id "LoginAccount_to_record a" t]
    by (force simp: SQL_LoginAccount_save_def t_get_None_iff)
  show "SQL_LoginAccount_find_by_email (la_email a) (t @ [LoginAccount_to_record a]) = Some a"
    using assms e by (simp add: SQL_LoginAccount_find_by_email_def)
qed

definition new_account :: "uuid \<Rightarrow> string \<Rightarrow> string \<Rightarrow> time \<Rightarrow> LoginAccount" where
  "new_account user_id email h now = \<lparr>la_user_id = user_id, la_email = email, la_password_hash = h, la_is_active = True,
     la_access_level = ''user'', la_shard_id = shard_id_for user_id, la_created_at = now\<rparr>"

lemma signup_run:
  assumes "engine_for rg IDENTITY_TARGET = Inr d" "user_id \<notin> lar_user_id ` set (login_accounts d)"
    and "signup pbkdf2 user_id salt now request rg = (Inr resp, rg1)"
  shows "\<exists>h. hash_password pbkdf2 salt (sq_password request) = Inr h \<and>
    t_get lar_email (lower (strip (sq_email request))) (login_accounts d) = None \<and>
    resp = \<lparr>sp_user_id = user_id, sp_email = lower (strip (sq_email request)), sp_is_active = True\<rparr> \<and>
    rg1 = commit_to IDENTITY_TARGET (d\<lparr>login_accounts := login_accounts d @
      [LoginAccount_to_record (new_account user_id (lower (strip (sq_email request))) h now)]\<rparr>) rg"
proof -
  let ?e = "lower (strip (sq_email request))"
  have nf: "t_get lar_email ?e (login_accounts d) = None"
  proof (rule ccontr)
    assume "t_get lar_email ?e (login_accounts d) \<noteq> None"
    then show False using assms(1,3)
      by (auto simp: signup_def Let_def bindS_def with_session_def account_by_email_def SQL_LoginAccount_find_by_email_def)
  qed
  then have f: "SQL_LoginAccount_find_by_email ?e (login_accounts d) = None" by (simp add: SQL_LoginAccount_find_by_email_def)
  obtain h where h: "hash_password pbkdf2 salt (sq_password request) = Inr h"
  proof (cases "hash_password pbkdf2 salt (sq_password request)")
    case (Inl e)
    then show ?thesis using assms(1,3) f by (simp add: signup_def Let_def bindS_def with_session_def account_by_email_def)
  qed (rule that)
  have "SQL_LoginAccount_save (new_account user_id ?e h now) (login_accounts d) =
      Inr (login_accounts d @ [LoginAccount_to_record (new_account user_id ?e h now)])"
    by (rule find_email_save(1)) (simp_all add: new_account_def nf assms(2))
  then have "signup pbkdf2 user_id salt now request rg =
      (Inr \<lparr>sp_user_id = user_id, sp_email = ?e, sp_is_active = True\<rparr>, commit_to IDENTITY_TARGET (d\<lparr>login_accounts := login_accounts d @
      [LoginAccount_to_record (new_account user_id ?e h now)]\<rparr>) rg)"
    using assms(1) f h
    by (simp add: signup_def Let_def bindS_def with_session_def account_by_email_def account_save_def new_account_def)
  then show ?thesis using assms(3) nf h by auto
qed

text \<open>
  C18: who has signed up can log in. After \<open>signup\<close> returned, \<open>login\<close> with the same password and any
  spelling of the address that normalises to the same one answers with the new user's identifier
  and a token made for that user, and creates in the session store a session with the user's
  shard and the level \<open>user\<close>, whatever store is used, if the store accepts the session.
\<close>

theorem signup_then_login:
  assumes "engine_for (ap_dbs s) IDENTITY_TARGET = Inr d" and "user_id \<notin> lar_user_id ` set (login_accounts d)"
    and "signup pbkdf2 user_id salt now rq (ap_dbs s) = (Inr resp, rg1)"
    and "pbkdf2 (utf8 (sq_password rq)) salt ITERATIONS = Inr dg" and "is_bytes salt" and "is_bytes dg"
    and "lower (strip (lq_email lq)) = lower (strip (sq_email rq))" and "lq_password lq = sq_password rq"
    and "create_session_id secret (str_uuid user_id) = Inr token"
    and "ss_create store t \<lparr>sd_session_id = token, sd_user_id = str_uuid user_id,
        sd_data = [(''shard_id'', JStr (shard_id_for user_id)), (''access_level'', JStr ''user'')]\<rparr> (ap_redis s) = (Inr (), r1)"
  shows "sp_user_id resp = user_id \<and> login store pbkdf2 secret t lq (s\<lparr>ap_dbs := rg1\<rparr>) =
    (Inr \<lparr>lp_user_id = user_id, lp_access_token = token, lp_token_type = ''bearer''\<rparr>, s\<lparr>ap_dbs := rg1, ap_redis := r1\<rparr>)"
proof -
  let ?e = "lower (strip (sq_email rq))"
  obtain h where h: "hash_password pbkdf2 salt (sq_password rq) = Inr h" "t_get lar_email ?e (login_accounts d) = None"
    "resp = \<lparr>sp_user_id = user_id, sp_email = ?e, sp_is_active = True\<rparr>"
    "rg1 = commit_to IDENTITY_TARGET (d\<lparr>login_accounts := login_accounts d @ [LoginAccount_to_record (new_account user_id ?e h now)]\<rparr>) (ap_dbs s)"
    using signup_run [OF assms(1-3)] by blast
  let ?a = "new_account user_id ?e h now"
  have f: "SQL_LoginAccount_find_by_email ?e (login_accounts d @ [LoginAccount_to_record ?a]) = Some ?a"
    using find_email_save(2) [of ?a "login_accounts d"] h(2) assms(2) by (simp add: new_account_def)
  have "join ''$'' [ALGORITHM, string_of_int ITERATIONS, b64encode salt, b64encode dg] = h"
    using h(1) assms(4) by (simp add: hash_password_def)
  then have v: "verify_password pbkdf2 (sq_password rq) h = Inr True"
    using parse_hash_of [OF assms(5,6)] assms(4) by (simp add: verify_password_def)
  have q: "with_session IDENTITY_TARGET (account_by_email ?e) rg1 = (Inr (Some ?a), rg1)"
    using f by (simp add: with_session_def account_by_email_def h(4))
  have "login_session ?a token = \<lparr>sd_session_id = token, sd_user_id = str_uuid user_id,
        sd_data = [(''shard_id'', JStr (shard_id_for user_id)), (''access_level'', JStr ''user'')]\<rparr>"
    by (simp add: login_session_def new_account_def)
  then show ?thesis using q v assms(7-10) h(3)
    by (simp add: login_def Let_def bindS_def new_account_def)
qed

definition id_app :: "rstate app" where
  "id_app = \<lparr>ap_redis = (\<lambda>_. None), ap_dbs = \<lparr>rg_global = [(''identity'', empty_db)], rg_shard = []\<rparr>\<rparr>"

lemma id_app_engine: "engine_for (ap_dbs id_app) IDENTITY_TARGET = Inr empty_db"
  by (simp add: id_app_def engine_for_def IDENTITY_TARGET_def dict_get_def)

lemma demo_signup:
  "fst (signup toy_pbkdf2 5 [7] 0 \<lparr>sq_email = '' A@x '', sq_password = ''a''\<rparr> (ap_dbs id_app)) =
     Inr \<lparr>sp_user_id = 5, sp_email = ''a@x'', sp_is_active = True\<rparr>"
proof -
  have n: "lower (strip '' A@x '') = ''a@x''" by code_simp
  show ?thesis using id_app_engine n
    by (simp add: signup_def Let_def bindS_def with_session_def account_by_email_def account_save_def hash_password_def
        toy_pbkdf2_def SQL_LoginAccount_find_by_email_def SQL_LoginAccount_save_def empty_db_def)
qed

theorem signup_then_login_witness:
  "let rg1 = snd (signup toy_pbkdf2 5 [7] 0 \<lparr>sq_email = '' A@x '', sq_password = ''a''\<rparr> (ap_dbs id_app));
       token = ''MDAwMDAwMDAtMDAwMC0wMDAwLTAwMDAtMDAwMDAwMDAwMDA1.sec'';
       r1 = snd (redis_session_create mem_redis 1 \<lparr>sd_session_id = token, sd_user_id = str_uuid 5,
        sd_data = [(''shard_id'', JStr (shard_id_for 5)), (''access_level'', JStr ''user'')]\<rparr> (ap_redis id_app))
   in sp_user_id \<lparr>sp_user_id = 5, sp_email = ''a@x'', sp_is_active = True\<rparr> = 5 \<and>
      login (redis_sessions mem_redis) toy_pbkdf2 ''sec'' 1 \<lparr>lq_email = ''a@X'', lq_password = ''a''\<rparr> (id_app\<lparr>ap_dbs := rg1\<rparr>) =
      (Inr \<lparr>lp_user_id = 5, lp_access_token = token, lp_token_type = ''bearer''\<rparr>, id_app\<lparr>ap_dbs := rg1, ap_redis := r1\<rparr>)"
proof -
  let ?t = "''MDAwMDAwMDAtMDAwMC0wMDAwLTAwMDAtMDAwMDAwMDAwMDA1.sec''"
  let ?x = "\<lparr>sd_session_id = ?t, sd_user_id = str_uuid 5, sd_data = [(''shard_id'', JStr (shard_id_for 5)), (''access_level'', JStr ''user'')]\<rparr>"
  have 1: "create_session_id ''sec'' (str_uuid 5) = Inr ?t" by code_simp
  have 2: "ss_create (redis_sessions mem_redis) 1 ?x (ap_redis id_app) = (Inr (), snd (redis_session_create mem_redis 1 ?x (ap_redis id_app)))"
    unfolding redis_sessions_def session_ops.simps by (rule run_result) code_simp
  have 4: "signup toy_pbkdf2 5 [7] 0 \<lparr>sq_email = '' A@x '', sq_password = ''a''\<rparr> (ap_dbs id_app) =
      (Inr \<lparr>sp_user_id = 5, sp_email = ''a@x'', sp_is_active = True\<rparr>, snd (signup toy_pbkdf2 5 [7] 0 \<lparr>sq_email = '' A@x '', sq_password = ''a''\<rparr> (ap_dbs id_app)))"
    by (rule run_result) (rule demo_signup)
  have 3: "lower (strip ''a@X'') = lower (strip '' A@x '')" by code_simp
  show ?thesis unfolding Let_def
    by (rule signup_then_login [OF id_app_engine _ 4 _ _ _ _ _ 1 2])
       (auto simp: empty_db_def toy_pbkdf2_def is_bytes_def list_all_iff 3)
qed

text \<open>
  C19: a failed log-in says nothing about the reason and leaves no trace. For an unknown address, an
  inactive account and a wrong password the answer is the same 401, and neither the databases nor
  the session store change.
\<close>

theorem login_uniform_failure:
  assumes "engine_for (ap_dbs s) IDENTITY_TARGET = Inr d"
    and "case SQL_LoginAccount_find_by_email (lower (strip (lq_email lq))) (login_accounts d) of None \<Rightarrow> True
      | Some a \<Rightarrow> verify_password pbkdf2 (lq_password lq) (la_password_hash a) = Inr False \<or>
          \<not> la_is_active a \<and> (\<exists>b. verify_password pbkdf2 (lq_password lq) (la_password_hash a) = Inr b)"
  shows "login store pbkdf2 secret t lq s = (Inl (HTTPException 401 ''Invalid credentials''), s)"
proof -
  have q: "on_dbs (with_session IDENTITY_TARGET (account_by_email (lower (strip (lq_email lq))))) s =
      (Inr (SQL_LoginAccount_find_by_email (lower (strip (lq_email lq))) (login_accounts d)), s)"
    using assms(1) by (simp add: with_session_def account_by_email_def on_dbs_def)
  show ?thesis using assms(2) q
    by (auto simp: login_def Let_def bindS_def split: option.splits)
qed

theorem login_uniform_failure_witness:
  "login (redis_sessions mem_redis) toy_pbkdf2 ''sec'' 1 \<lparr>lq_email = ''b'', lq_password = ''b''\<rparr> id_app =
     (Inl (HTTPException 401 ''Invalid credentials''), id_app)"
  by (rule login_uniform_failure [OF id_app_engine]) (simp add: empty_db_def SQL_LoginAccount_find_by_email_def)

lemma access_level_value: "access_level_of (Some (JStr (access_value l))) = Inr l"
  by (cases l) (simp_all add: access_level_of_def)

lemma login_session_norm:
  "session_norm (login_session a tok) = (login_session a tok)\<lparr>sd_data := [(''access_level'', JStr (la_access_level a)), (''shard_id'', JStr (la_shard_id a))]\<rparr>"
  by (simp add: session_norm_def login_session_def sorted_dict_def)

text \<open>
  C20: what a token may do is what its account may do when it is issued. After a log-in on the Redis
  store, an endpoint that requires a level accepts the token while the session lives exactly if the
  account's level ranks at least as high, and runs with that user's session; a lower level is
  refused with 403, and from the end of the session's lifetime on the token is refused with 401.
\<close>

theorem token_has_account_level:
  assumes "redis_server api contents" and "redis_sessions_ok t (contents (ap_redis s))"
    and "engine_for (ap_dbs s) IDENTITY_TARGET = Inr d"
    and "SQL_LoginAccount_find_by_email (lower (strip (lq_email lq))) (login_accounts d) = Some a"
    and "la_access_level a = access_value l"
    and "login (redis_sessions api) pbkdf2 secret t lq s = (Inr resp, s1)"
    and "t \<le> t1" and "redis_session_get api t1 (lp_access_token resp) (ap_redis s1) = (Inr v, r2)"
  shows "with_access (redis_sessions api) t1 required (Some (lp_access_token resp)) endpoint s1 =
    (let s2 = s1\<lparr>ap_redis := r2\<rparr> in
     if t + seconds SESSION_TTL \<le> t1 then (Inl (HTTPException 401 ''Invalid session''), s2)
     else if ACCESS_LEVEL_RANK l < ACCESS_LEVEL_RANK required then (Inl (HTTPException 403 ''insufficient access level''), s2)
     else endpoint (session_norm (login_session a (lp_access_token resp))) s2)"
proof -
  let ?tok = "lp_access_token resp"
  have q: "on_dbs (with_session IDENTITY_TARGET (account_by_email (lower (strip (lq_email lq))))) s = (Inr (Some a), s)"
    using assms(3,4) by (simp add: with_session_def account_by_email_def on_dbs_def)
  obtain un r1 where cr: "ss_create (redis_sessions api) t (login_session a ?tok) (ap_redis s) = (Inr un, r1)" and s1: "s1 = s\<lparr>ap_redis := r1\<rparr>"
  proof -
    from assms(6) q obtain tok un where "on_redis (ss_create (redis_sessions api) t (login_session a tok)) s = (Inr un, s1)" "?tok = tok"
      by (auto simp: login_def Let_def bindS_eq_Inr split: if_splits)
    then show thesis using that on_redis_Inr by metis
  qed
  have wf: "json_wf (JObj (sd_data (login_session a ?tok)))" by (simp add: login_session_def)
  have sid: "sd_session_id (login_session a ?tok) = ?tok" by (simp add: login_session_def)
  have g: "ss_get (redis_sessions api) t1 (sd_session_id (login_session a ?tok)) r1 = (Inr v, r2)"
    using assms(8) s1 sid by (simp add: redis_sessions_def)
  have v: "v = (if t1 < t + seconds SESSION_TTL then Some (session_norm (login_session a ?tok)) else None)"
    by (rule session_store.session_lifetime [OF redis_server.redis_session_store [OF assms(1)] assms(2) wf cr, of "[]" r1])
       (use g assms(7) in simp_all)
  have c: "on_redis (get_current_session (redis_sessions api) t1 (Some ?tok)) s1 =
      ((if t1 < t + seconds SESSION_TTL then Inr (session_norm (login_session a ?tok)) else Inl (HTTPException 401 ''Invalid session'')),
       s1\<lparr>ap_redis := r2\<rparr>)"
    using g v sid by (simp add: on_redis_def get_current_session_def bindS_def s1)
  have "dict_get (sd_data (session_norm (login_session a ?tok))) ''access_level'' = Some (JStr (access_value l))"
    using assms(5) by (simp add: login_session_norm dict_get_def)
  then have "require_access_level required (session_norm (login_session a ?tok)) =
      (if ACCESS_LEVEL_RANK l < ACCESS_LEVEL_RANK required then Inl (HTTPException 403 ''insufficient access level'') else Inr ())"
    by (simp add: require_access_level_def access_level_value)
  then show ?thesis using c by (simp add: with_access_def bindS_def Let_def)
qed

definition op_account :: LoginAccount where
  "op_account = \<lparr>la_user_id = 5, la_email = ''a@x'', la_password_hash = ''pbkdf2_sha256$1$Bw==$B2E='', la_is_active = True,
     la_access_level = ''user'', la_shard_id = ''2'', la_created_at = 0\<rparr>"

definition op_db :: db where
  "op_db = empty_db\<lparr>login_accounts := [LoginAccount_to_record op_account]\<rparr>"

definition op_app :: "rstate app" where
  "op_app = \<lparr>ap_redis = (\<lambda>_. None), ap_dbs = \<lparr>rg_global = [(''identity'', op_db)], rg_shard = []\<rparr>\<rparr>"

lemma op_app_engine: "engine_for (ap_dbs op_app) IDENTITY_TARGET = Inr op_db"
  by (simp add: op_app_def engine_for_def IDENTITY_TARGET_def dict_get_def)

definition op_login :: "(rstate app, LoginResponse) io" where
  "op_login = login (redis_sessions mem_redis) toy_pbkdf2 ''sec'' 0 \<lparr>lq_email = ''a@x'', lq_password = ''a''\<rparr>"

definition op_token :: string where
  "op_token = ''MDAwMDAwMDAtMDAwMC0wMDAwLTAwMDAtMDAwMDAwMDAwMDA1.sec''"

theorem token_has_account_level_witness:
  "\<exists>r2. with_access (redis_sessions mem_redis) 1 OPERATOR (Some op_token) (\<lambda>x. ret x) (snd (op_login op_app)) =
     (Inl (HTTPException 403 ''insufficient access level''), (snd (op_login op_app))\<lparr>ap_redis := r2\<rparr>)"
proof -
  let ?s1 = "snd (op_login op_app)" and ?resp = "\<lparr>lp_user_id = 5, lp_access_token = op_token, lp_token_type = ''bearer''\<rparr>"
  let ?g = "redis_session_get mem_redis 1 (lp_access_token ?resp) (ap_redis ?s1)"
  have 1: "op_login op_app = (Inr ?resp, ?s1)" by (rule run_result) code_simp
  have 2: "?g = (Inr (Some (session_norm (login_session op_account op_token))), snd ?g)" by (rule run_result) code_simp
  have 3: "SQL_LoginAccount_find_by_email (lower (strip (lq_email \<lparr>lq_email = ''a@x'', lq_password = ''a''\<rparr>))) (login_accounts op_db) = Some op_account"
    by code_simp
  show ?thesis
    using token_has_account_level [OF mem.redis_server_axioms _ op_app_engine 3 _ 1 [unfolded op_login_def] _ 2 [unfolded op_login_def],
        of USER OPERATOR "\<lambda>x. ret x"] redis_ok_empty
    by (simp add: op_app_def op_account_def SESSION_TTL_def seconds_def Let_def op_login_def) blast
qed

section \<open>Granting operator access\<close>

lemma grant_tx_run:
  assumes "grant_tx audit_id now email actor d = (Inr (a, changed), d')" "aar_audit_id ` set (access_level_audits d) \<inter> {audit_id} = {}"
  shows "SQL_LoginAccount_find_by_email email (login_accounts d) = Some a \<and>
    (if changed then la_access_level a = ''user'' \<and>
       d' = d\<lparr>login_accounts := t_merge lar_user_id (LoginAccount_to_record (a\<lparr>la_access_level := ''operator''\<rparr>)) (login_accounts d),
           access_level_audits := access_level_audits d @ [\<lparr>aar_audit_id = audit_id, aar_subject_user_id = la_user_id a, aar_actor = actor,
             aar_previous_access_level = ''user'', aar_new_access_level = ''operator'', aar_changed_at = now\<rparr>]\<rparr>
     else la_access_level a = ''operator'' \<and> d' = d)"
proof -
  have ab: "audit_id \<notin> aar_audit_id ` set (access_level_audits d)" using assms(2) by blast
  obtain a0 where f: "SQL_LoginAccount_find_by_email email (login_accounts d) = Some a0"
    using assms(1) by (auto simp: grant_tx_def account_by_email_def split: option.splits)
  show ?thesis
  proof (cases "la_access_level a0 = ''user''")
    case True
    then show ?thesis using assms(1) f ab
      by (auto simp: grant_tx_def account_by_email_def account_save_def audit_save_def SQL_AccessLevelAudit_save_def
          AccessLevelAudit_to_record_def SQL_LoginAccount_save_def merge_absent bindS_def split: if_splits sum.splits)
  next
    case False
    then show ?thesis using assms(1) f
      by (auto simp: grant_tx_def account_by_email_def split: if_splits)
  qed
qed



section \<open>Shards\<close>

lemma shard_id_for_cases: "shard_id_for u = ''1'' \<or> shard_id_for u = ''2''"
proof -
  have "unat u mod 2 = 0 \<or> unat u mod 2 = 1" by presburger
  moreover have "string_of_nat (0 + 1) = ''1''" "string_of_nat (1 + 1) = ''2''" by code_simp+
  ultimately show ?thesis unfolding shard_id_for_def ACCOUNT_SHARD_COUNT_def by metis
qed

text \<open>
  Every user is placed on a shard that exists. The application is started only with a registry
  in which the shard that sign-up assigns to any user identifier has an engine, as do the identity and
  the automation store: no request of a signed-up user fails for want of an engine.
\<close>

theorem assigned_shard_is_configured:
  "(\<exists>e. fst (database_lifespan env connect app) = Inl (DatabaseConfigurationError e)) \<or>
   (\<exists>rg. fst (database_lifespan env connect app) = app rg \<and>
      (\<forall>u. \<exists>d. engine_for rg (shard_of ''account'' (shard_id_for u)) = Inr d) \<and>
      (\<exists>d. engine_for rg IDENTITY_TARGET = Inr d) \<and> (\<exists>d. engine_for rg (global_target ''automation'') = Inr d))"
proof -
  let ?u = "\<lambda>n. required_url env n"
  have bad: "?u n = Inl e \<Longrightarrow> \<exists>m. e = DatabaseConfigurationError m" for n e
    by (auto simp: required_url_def split: option.splits if_splits)
  have u: "\<exists>d. engine_for rg (shard_of ''account'' (shard_id_for u)) = Inr d"
    if "dict_get (rg_shard rg) (''account'', ''1'') \<noteq> None" "dict_get (rg_shard rg) (''account'', ''2'') \<noteq> None" for rg u
    using shard_id_for_cases [of u] that by (auto simp: engine_for_def)
  show ?thesis
  proof (cases "?u ''IDENTITY_DATABASE_URL''"; cases "?u ''AUTOMATION_DATABASE_URL''";
      cases "?u ''ACCOUNT_SHARD_1_DATABASE_URL''"; cases "?u ''ACCOUNT_SHARD_2_DATABASE_URL''")
    fix a b c d
    assume "?u ''IDENTITY_DATABASE_URL'' = Inr a" "?u ''AUTOMATION_DATABASE_URL'' = Inr b"
      "?u ''ACCOUNT_SHARD_1_DATABASE_URL'' = Inr c" "?u ''ACCOUNT_SHARD_2_DATABASE_URL'' = Inr d"
    then have "fst (database_lifespan env connect app) = app \<lparr>rg_global = [(''identity'', connect a), (''automation'', connect b)],
       rg_shard = [((''account'', ''1''), connect c), ((''account'', ''2''), connect d)]\<rparr>" (is "_ = app ?rg")
      by (simp add: database_lifespan_def GLOBAL_DATABASES_def SHARD_DATABASES_def)
    moreover have "\<exists>d. engine_for ?rg (shard_of ''account'' (shard_id_for v)) = Inr d" for v
      by (rule u) (simp_all add: dict_get_def)
    moreover have "\<exists>d. engine_for ?rg IDENTITY_TARGET = Inr d" "\<exists>d. engine_for ?rg (global_target ''automation'') = Inr d"
      by (simp_all add: engine_for_def dict_get_def IDENTITY_TARGET_def)
    ultimately show ?thesis by blast
  qed (use bad in \<open>force simp: database_lifespan_def GLOBAL_DATABASES_def SHARD_DATABASES_def\<close>)+
qed

end
