(* ===== verification/Account.thy ===== *)
theory Account
  imports Identity
begin

text \<open>
  The account module (\<open>modules/account/handlers.py\<close> and its router): the profile of a user on the
  account shard of the session. Reading and writing a profile go to the shard named in the session;
  a change is stored together with its event in one transaction. \<open>model_dump_json\<close> of the request
  and \<open>jsonable_encoder\<close> of the result are arguments of the endpoint.
\<close>

record UpdateProfileRequest =
  uq_investment_experience :: string
  uq_risk_tolerance :: string
  uq_investment_goal :: string
  uq_monthly_budget :: pyfloat

text \<open>\<open>session.data.get("shard_id")\<close>, checked to be a non-empty string, then \<open>UUID(session.user_id)\<close>.\<close>

definition session_shard :: "SessionData \<Rightarrow> string result" where
  "session_shard session = (case dict_get (sd_data session) ''shard_id'' of
       Some (JStr shard_id) \<Rightarrow> if shard_id = [] then Inl (HTTPException 500 ''Session shard is missing'') else Inr shard_id
     | _ \<Rightarrow> Inl (HTTPException 500 ''Session shard is missing''))"

definition session_user :: "SessionData \<Rightarrow> uuid result" where
  "session_user session = catchE (uuid_of (sd_user_id session)) (\<lambda>e.
     if is_value_error e then Inl (HTTPException 500 ''Session user is invalid'') else Inl e)"

definition profile_location :: "SessionData \<Rightarrow> (uuid \<times> shard_target) result" where
  "profile_location session = bindE (session_shard session) (\<lambda>shard_id.
     bindE (session_user session) (\<lambda>user_id. Inr (user_id, shard_of ''account'' shard_id)))"

definition profile_find :: "uuid \<Rightarrow> (db, UserProfile option) io" where
  "profile_find user_id = gets (\<lambda>d. SQL_UserProfile_find_by_id user_id (user_profiles d))"

definition profile_save :: "UserProfile \<Rightarrow> (db, unit) io" where
  "profile_save p = modify (\<lambda>d. d\<lparr>user_profiles := SQL_UserProfile_save p (user_profiles d)\<rparr>)"

definition get_profile :: "SessionData \<Rightarrow> (dbs, UserProfile) io" where
  "get_profile current_session =
     bindS (lift (profile_location current_session)) (\<lambda>(user_id, target).
     bindS (with_session target (profile_find user_id)) (\<lambda>profile. case profile of
       None \<Rightarrow> raise (HTTPException 404 ''User profile was not found'')
     | Some p \<Rightarrow> ret p))"

definition requested_profile :: "uuid \<Rightarrow> UpdateProfileRequest \<Rightarrow> UserProfile" where
  "requested_profile user_id request = \<lparr>up_user_id = user_id,
     up_investment_experience = uq_investment_experience request, up_risk_tolerance = uq_risk_tolerance request,
     up_investment_goal = uq_investment_goal request, up_monthly_budget = uq_monthly_budget request,
     up_profile_completed = True\<rparr>"

definition profile_updated_payload :: "UserProfile \<Rightarrow> shard_target \<Rightarrow> jdict" where
  "profile_updated_payload p target =
     [(''user_id'', JStr (str_uuid (up_user_id p))),
      (''shard_id'', JStr (case st_shard_id target of None \<Rightarrow> [] | Some i \<Rightarrow> i)),
      (''investment_experience'', JStr (up_investment_experience p)),
      (''risk_tolerance'', JStr (up_risk_tolerance p)),
      (''investment_goal'', JStr (up_investment_goal p)),
      (''monthly_budget'', JFloat (up_monthly_budget p)),
      (''profile_completed'', JBool (up_profile_completed p))]"

text \<open>\<open>event_id\<close> and \<open>now\<close> are what the event draws.\<close>

definition update_profile_tx :: "uuid \<Rightarrow> time \<Rightarrow> UserProfile \<Rightarrow> shard_target \<Rightarrow> (db, UserProfile) io" where
  "update_profile_tx event_id now p target =
     bindS (profile_find (up_user_id p)) (\<lambda>existing.
     if existing = Some p then ret p
     else
       bindS (profile_save p) (\<lambda>_.
       bindS (outbox_add now (new_event event_id now ''account.profile.updated'' (str_uuid (up_user_id p))
                (profile_updated_payload p target) ''account.profile.updated'') None) (\<lambda>_. ret p)))"

definition update_profile :: "uuid \<Rightarrow> time \<Rightarrow> UpdateProfileRequest \<Rightarrow> SessionData \<Rightarrow> (dbs, UserProfile) io" where
  "update_profile event_id now request current_session =
     bindS (lift (profile_location current_session)) (\<lambda>(user_id, target).
     with_session target (update_profile_tx event_id now (requested_profile user_id request) target))"

section \<open>Endpoints\<close>

definition get_profile_endpoint :: "'r session_ops \<Rightarrow> time \<Rightarrow> string option \<Rightarrow> ('r app, UserProfile) io" where
  "get_profile_endpoint store now bearer = with_access store now USER bearer (\<lambda>session. on_dbs (get_profile session))"

definition update_profile_request ::
  "'r redis_api \<Rightarrow> sha256_fun \<Rightarrow> pytext \<Rightarrow> (UpdateProfileRequest \<Rightarrow> string) \<Rightarrow> (UserProfile \<Rightarrow> json) \<Rightarrow> time \<Rightarrow> time
     \<Rightarrow> string \<Rightarrow> string option \<Rightarrow> uuid \<Rightarrow> UpdateProfileRequest \<Rightarrow> SessionData \<Rightarrow> ('r app, UserProfile response) io" where
  "update_profile_request api sha256 T dump encode now now' token header event_id request session =
     idempotent api sha256 T now now' token header (''PUT:/profile:'' @ dump request) encode
       (update_profile event_id now request session)"

definition update_profile_endpoint ::
  "'r redis_api \<Rightarrow> sha256_fun \<Rightarrow> pytext \<Rightarrow> (UpdateProfileRequest \<Rightarrow> string) \<Rightarrow> (UserProfile \<Rightarrow> json) \<Rightarrow> time \<Rightarrow> time
     \<Rightarrow> string \<Rightarrow> string option \<Rightarrow> uuid \<Rightarrow> UpdateProfileRequest \<Rightarrow> string option \<Rightarrow> ('r app, UserProfile response) io" where
  "update_profile_endpoint api sha256 T dump encode now now' token header event_id request bearer =
     with_access (redis_sessions api) now USER bearer
       (update_profile_request api sha256 T dump encode now now' token header event_id request)"

section \<open>Properties\<close>

text \<open>
  C22: updating a profile. The profile of the session's user on the session's shard becomes the
  requested one, in one transaction with exactly one event that carries it; a request that changes
  nothing writes nothing and emits nothing; no other table, row or shard changes, and reading the
  profile afterwards gives the requested one.
\<close>

theorem update_profile_effect:
  assumes "profile_location x = Inr (u, target)" and "engine_for rg target = Inr d"
    and "str_uuid event_id \<notin> oe_event_id ` set (outbox_events d)"
  shows "let p = requested_profile u request;
           ev = outbox_record now (new_event event_id now ''account.profile.updated'' (str_uuid u)
                  (profile_updated_payload p target) ''account.profile.updated'') None;
           rg' = (if SQL_UserProfile_find_by_id u (user_profiles d) = Some p then rg
                  else commit_to target (d\<lparr>user_profiles := SQL_UserProfile_save p (user_profiles d),
                         outbox_events := outbox_events d @ [ev]\<rparr>) rg)
         in update_profile event_id now request x rg = (Inr p, rg') \<and> get_profile x rg' = (Inr p, rg') \<and>
            (\<forall>v. v \<noteq> u \<longrightarrow> (\<forall>d'. engine_for rg' target = Inr d' \<longrightarrow>
               SQL_UserProfile_find_by_id v (user_profiles d') = SQL_UserProfile_find_by_id v (user_profiles d)))"
proof -
  let ?p = "requested_profile u request"
  have pu: "up_user_id ?p = u" by (simp add: requested_profile_def)
  show ?thesis
  proof (cases "SQL_UserProfile_find_by_id u (user_profiles d) = Some ?p")
    case True
    then show ?thesis using assms
      by (simp add: Let_def update_profile_def update_profile_tx_def get_profile_def with_session_def profile_find_def pu bindS_def)
  next
    case False
    have f: "SQL_UserProfile_find_by_id v (SQL_UserProfile_save ?p (user_profiles d)) =
        (if v = u then Some ?p else SQL_UserProfile_find_by_id v (user_profiles d))" for v
      by (simp add: SQL_UserProfile_find_by_id_def SQL_UserProfile_save_def pu)
    show ?thesis using assms False f
      by (simp add: Let_def update_profile_def update_profile_tx_def get_profile_def with_session_def profile_find_def
          profile_save_def outbox_add_def t_insert_def outbox_record_def pu bindS_def)
  qed
qed

definition demo_profile_request :: UpdateProfileRequest where
  "demo_profile_request = \<lparr>uq_investment_experience = ''none'', uq_risk_tolerance = ''low'', uq_investment_goal = ''save'', uq_monthly_budget = ''10.0''\<rparr>"

definition user_session :: "uuid \<Rightarrow> string \<Rightarrow> SessionData" where
  "user_session u shard = \<lparr>sd_session_id = ''t.s'', sd_user_id = str_uuid u,
     sd_data = [(''access_level'', JStr ''user''), (''shard_id'', JStr shard)]\<rparr>"

lemma user_session_location: "shard \<noteq> [] \<Longrightarrow> profile_location (user_session u shard) = Inr (u, shard_of ''account'' shard)"
  by (simp add: profile_location_def session_shard_def session_user_def user_session_def dict_get_def)

definition account_dbs :: dbs where
  "account_dbs = \<lparr>rg_global = [(''identity'', empty_db), (''automation'', empty_db)],
     rg_shard = [((''account'', ''1''), empty_db), ((''account'', ''2''), empty_db)]\<rparr>"

lemma account_dbs_engines: "engine_for account_dbs (shard_of ''account'' ''1'') = Inr empty_db"
  "engine_for account_dbs (shard_of ''account'' ''2'') = Inr empty_db"
  "engine_for account_dbs (global_target ''automation'') = Inr empty_db"
  by (simp_all add: account_dbs_def engine_for_def dict_get_def)

theorem update_profile_effect_witness:
  "let p = requested_profile 4 demo_profile_request; target = shard_of ''account'' ''1'';
       ev = outbox_record 8 (new_event 6 8 ''account.profile.updated'' (str_uuid 4)
              (profile_updated_payload p target) ''account.profile.updated'') None;
       rg' = (if SQL_UserProfile_find_by_id 4 (user_profiles empty_db) = Some p then account_dbs
              else commit_to target (empty_db\<lparr>user_profiles := SQL_UserProfile_save p (user_profiles empty_db),
                     outbox_events := outbox_events empty_db @ [ev]\<rparr>) account_dbs)
   in update_profile 6 8 demo_profile_request (user_session 4 ''1'') account_dbs = (Inr p, rg') \<and>
      get_profile (user_session 4 ''1'') rg' = (Inr p, rg') \<and>
      (\<forall>v. v \<noteq> 4 \<longrightarrow> (\<forall>d'. engine_for rg' target = Inr d' \<longrightarrow>
         SQL_UserProfile_find_by_id v (user_profiles d') = SQL_UserProfile_find_by_id v (user_profiles empty_db)))"
proof -
  have 1: "profile_location (user_session 4 ''1'') = Inr (4, shard_of ''account'' ''1'')" by (simp add: user_session_location)
  have 2: "str_uuid 6 \<notin> oe_event_id ` set (outbox_events empty_db)" by (simp add: empty_db_def)
  show ?thesis
    using update_profile_effect [OF 1 account_dbs_engines(1) 2, of demo_profile_request 8] unfolding Let_def .
qed


definition profile_app :: "rstate app" where
  "profile_app = \<lparr>ap_redis = (\<lambda>_. None), ap_dbs = account_dbs\<rparr>"

definition profile_put :: "time \<Rightarrow> string \<Rightarrow> uuid \<Rightarrow> SessionData \<Rightarrow> (rstate app, UserProfile response) io" where
  "profile_put t tok ev x = update_profile_request mem_redis (\<lambda>s. s) plain_text (\<lambda>_. ''body'')
     (\<lambda>p. JStr (up_investment_goal p)) t t tok (Some ''k'') ev demo_profile_request x"


end
