(* ===== verification/Portfolio.thy ===== *)
theory Portfolio
  imports KisMarket Account
begin

text \<open>
  The brokerage account of the deployment: the KIS account client with its pages and its cache
  (\<open>infrastructure/kis_domestic_account.py\<close>), the link between a user and the account
  (\<open>modules/brokerage_account/handlers.py\<close> and its router) and the snapshots of the holdings
  (\<open>modules/portfolio/handlers.py\<close>). Snapshots are keyed by a UUID derived from the user, the
  connection and the idempotency key, so that capturing twice stores once.
\<close>

section \<open>Account credentials\<close>

record KisAccountCredentials =
  ka_account_number :: string
  ka_account_product_code :: string
  ka_environment :: string

definition check_account_credentials :: "KisAccountCredentials \<Rightarrow> KisAccountCredentials result" where
  "check_account_credentials a =
     (if \<not> isdecimal (ka_account_number a) \<or> length (ka_account_number a) \<noteq> 8
      then Inl (KisAccountConfigurationError ''KIS account number must be eight decimal digits'')
      else if \<not> isdecimal (ka_account_product_code a) \<or> length (ka_account_product_code a) \<noteq> 2
      then Inl (KisAccountConfigurationError ''KIS account product code must be two decimal digits'')
      else if ka_environment a \<notin> {''real'', ''demo''}
      then Inl (KisAccountConfigurationError (''KIS account environment must be '' @ str_repr ''real'' @ '' or '' @ str_repr ''demo''))
      else Inr a)"

definition account_credentials_from_environment :: "environ \<Rightarrow> KisAccountCredentials result" where
  "account_credentials_from_environment env =
     (let missing = missing_names env [''KIS_ACCOUNT_NUMBER'', ''KIS_ACCOUNT_PRODUCT_CODE'', ''KIS_ACCOUNT_ENVIRONMENT''] in
      if missing \<noteq> [] then Inl (KisAccountConfigurationError
        (''Missing required KIS environment variables: '' @ join '', '' missing))
      else check_account_credentials \<lparr>ka_account_number = the (environ_get env ''KIS_ACCOUNT_NUMBER''),
        ka_account_product_code = the (environ_get env ''KIS_ACCOUNT_PRODUCT_CODE''),
        ka_environment = the (environ_get env ''KIS_ACCOUNT_ENVIRONMENT'')\<rparr>)"

section \<open>The account client\<close>

record KisDomesticStockHolding =
  kh_stock_code :: string
  kh_product_name :: string
  kh_holding_quantity :: string
  kh_orderable_quantity :: string
  kh_current_price :: string

record 's account_client =
  ac_env :: "'s kis_env"
  ac_account :: KisAccountCredentials
  ac_cache :: "'s kv_ops option"
  ac_text :: pytext

definition account_client_from_environment ::
  "('r, 'p) kis_libs \<Rightarrow> pytext \<Rightarrow> environ \<Rightarrow> ('r \<times> 'p) account_client result" where
  "account_client_from_environment L T env =
     bindE (token_credentials_from_environment env) (\<lambda>credentials.
     bindE (provider_config_from_environment env) (\<lambda>provider.
     bindE (kv_config_from_environment env) (\<lambda>cache.
     bindE (lock_config_from_environment env) (\<lambda>lock.
     bindE (new_coordinator (coordinator L provider lock cache credentials)) (\<lambda>k.
     bindE (account_credentials_from_environment env) (\<lambda>account.
       Inr \<lparr>ac_env = k, ac_account = account, ac_cache = Some (ke_cache k), ac_text = T\<rparr>))))))"

definition holdings_cache_key :: "'s account_client \<Rightarrow> string" where
  "holdings_cache_key c = ''portfolio:domestic-stock-holdings:'' @ take 16 (ke_sha256 (ac_env c)
     (ka_environment (ac_account c) @ '':'' @ ka_account_number (ac_account c) @ '':'' @ ka_account_product_code (ac_account c)))"

definition account_headers :: "'s account_client \<Rightarrow> KisAccessToken \<Rightarrow> string \<Rightarrow> (string, string) dict" where
  "account_headers c token continuation = [
     (''content-type'', ''application/json''),
     (''accept'', ''text/plain''),
     (''charset'', ''UTF-8''),
     (''authorization'', kt_token_type token @ '' '' @ kt_value token),
     (''appkey'', kc_app_key (ke_credentials (ac_env c))),
     (''appsecret'', kc_app_secret (ke_credentials (ac_env c))),
     (''tr_id'', if ka_environment (ac_account c) = ''real'' then ''TTTC8434R'' else ''VTTC8434R''),
     (''custtype'', ''P''),
     (''tr_cont'', continuation)]"

definition account_params :: "'s account_client \<Rightarrow> string \<Rightarrow> string \<Rightarrow> (string, string) dict" where
  "account_params c context_fk context_nk = [
     (''CANO'', ka_account_number (ac_account c)),
     (''ACNT_PRDT_CD'', ka_account_product_code (ac_account c)),
     (''AFHR_FLPR_YN'', ''N''),
     (''OFL_YN'', ''''),
     (''INQR_DVSN'', ''01''),
     (''UNPR_DVSN'', ''01''),
     (''FUND_STTL_ICLD_YN'', ''N''),
     (''FNCG_AMT_AUTO_RDPT_YN'', ''N''),
     (''PRCS_DVSN'', ''00''),
     (''CTX_AREA_FK100'', context_fk),
     (''CTX_AREA_NK100'', context_nk)]"

definition balance_invalid :: exn where
  "balance_invalid = KisDomesticAccountError ''KIS domestic balance response is invalid''"

definition parse_balance_response :: "pytext \<Rightarrow> int \<Rightarrow> string \<Rightarrow> jdict result" where
  "parse_balance_response T status_code content =
     (if \<not> (200 \<le> status_code \<and> status_code < 300)
      then Inl (KisDomesticAccountError (''KIS domestic balance returned HTTP '' @ string_of_int status_code))
      else bindE (loads_or balance_invalid content) (\<lambda>payload. case payload of
        JObj d \<Rightarrow>
          if dict_get d ''rt_cd'' \<noteq> Some (JStr ''0'')
          then Inl (KisDomesticAccountError (''KIS domestic balance failed: '' @
            (case dict_get d ''msg1'' of None \<Rightarrow> ''unknown KIS error'' | Some m \<Rightarrow> py_str T m)))
          else Inr d
      | _ \<Rightarrow> Inl balance_invalid))"

definition required_string :: "jdict \<Rightarrow> string \<Rightarrow> string result" where
  "required_string payload name = (case dict_get payload name of Some (JStr s) \<Rightarrow> Inr s | _ \<Rightarrow> Inl balance_invalid)"

definition parse_holding :: "json \<Rightarrow> KisDomesticStockHolding result" where
  "parse_holding record = (case record of
       JObj d \<Rightarrow>
         bindE (required_string d ''pdno'') (\<lambda>stock_code.
         bindE (required_string d ''prdt_name'') (\<lambda>product_name.
         bindE (required_string d ''hldg_qty'') (\<lambda>holding_quantity.
         bindE (required_string d ''ord_psbl_qty'') (\<lambda>orderable_quantity.
         bindE (required_string d ''prpr'') (\<lambda>current_price.
           Inr \<lparr>kh_stock_code = stock_code, kh_product_name = product_name, kh_holding_quantity = holding_quantity,
                kh_orderable_quantity = orderable_quantity, kh_current_price = current_price\<rparr>)))))
     | _ \<Rightarrow> Inl balance_invalid)"

definition parse_holdings :: "jdict \<Rightarrow> KisDomesticStockHolding list result" where
  "parse_holdings payload = (case dict_get payload ''output1'' of
     Some (JArr records) \<Rightarrow> mapE parse_holding records | _ \<Rightarrow> Inl balance_invalid)"

section \<open>The cache of holdings\<close>

definition required_holding_string :: "json \<Rightarrow> string \<Rightarrow> string result" where
  "required_holding_string value name = (case value of
       JObj d \<Rightarrow> (case dict_get d name of Some (JStr s) \<Rightarrow> Inr s
                 | _ \<Rightarrow> Inl (TypeError (''Cached domestic holding '' @ name @ '' must be a string'')))
     | _ \<Rightarrow> Inl (TypeError ''Cached domestic holdings must be objects''))"

definition cached_holding :: "json \<Rightarrow> KisDomesticStockHolding result" where
  "cached_holding item =
     bindE (required_holding_string item ''stock_code'') (\<lambda>stock_code.
     bindE (required_holding_string item ''product_name'') (\<lambda>product_name.
     bindE (required_holding_string item ''holding_quantity'') (\<lambda>holding_quantity.
     bindE (required_holding_string item ''orderable_quantity'') (\<lambda>orderable_quantity.
     bindE (required_holding_string item ''current_price'') (\<lambda>current_price.
       Inr \<lparr>kh_stock_code = stock_code, kh_product_name = product_name, kh_holding_quantity = holding_quantity,
            kh_orderable_quantity = orderable_quantity, kh_current_price = current_price\<rparr>)))))"

definition cached_holdings :: "string \<Rightarrow> KisDomesticStockHolding list option" where
  "cached_holdings value = (case json_loads value of
       Inr (JArr items) \<Rightarrow> (case mapE cached_holding items of Inr hs \<Rightarrow> Some hs | Inl _ \<Rightarrow> None)
     | _ \<Rightarrow> None)"

definition holding_json :: "KisDomesticStockHolding \<Rightarrow> json" where
  "holding_json h = JObj [(''stock_code'', JStr (kh_stock_code h)), (''product_name'', JStr (kh_product_name h)),
     (''holding_quantity'', JStr (kh_holding_quantity h)), (''orderable_quantity'', JStr (kh_orderable_quantity h)),
     (''current_price'', JStr (kh_current_price h))]"

definition holdings_payload :: "KisDomesticStockHolding list \<Rightarrow> string" where
  "holdings_payload hs = json_dumps True (JArr (map holding_json hs))"

definition read_cached_holdings :: "'s account_client \<Rightarrow> ('s world, KisDomesticStockHolding list option) io" where
  "read_cached_holdings c = (case ac_cache c of
       None \<Rightarrow> ret None
     | Some cache \<Rightarrow> bindS (timed (ke_lag (ac_env c)) (\<lambda>n. kv_get cache n (holdings_cache_key c)))
         (\<lambda>value. ret (case value of None \<Rightarrow> None | Some v \<Rightarrow> cached_holdings v)))"

definition write_cached_holdings :: "'s account_client \<Rightarrow> KisDomesticStockHolding list \<Rightarrow> ('s world, unit) io" where
  "write_cached_holdings c hs = (case ac_cache c of
       None \<Rightarrow> ret ()
     | Some cache \<Rightarrow> timed (ke_lag (ac_env c)) (\<lambda>n. kv_set cache n (holdings_cache_key c) (holdings_payload hs) (Some 15)))"

section \<open>Pages of holdings\<close>

definition balance_request :: "'s account_client \<Rightarrow> KisAccessToken \<Rightarrow> string \<Rightarrow> string \<Rightarrow> string \<Rightarrow> ExternalRequest" where
  "balance_request c token continuation context_fk context_nk =
     get_request ''/uapi/domestic-stock/v1/trading/inquire-balance'' (account_headers c token continuation)
       (account_params c context_fk context_nk)"

definition MAX_BALANCE_PAGES :: nat where "MAX_BALANCE_PAGES = 10"

text \<open>The loop over the pages; the first number counts the pages that may still be read.\<close>

fun holdings_pages ::
  "'s account_client \<Rightarrow> KisAccessToken \<Rightarrow> nat \<Rightarrow> KisDomesticStockHolding list \<Rightarrow> string \<Rightarrow> string \<Rightarrow> string
   \<Rightarrow> ('s world, KisDomesticStockHolding list) io" where
  "holdings_pages c token 0 holdings context_fk context_nk continuation =
     raise (KisDomesticAccountError ''KIS domestic balance pagination limit exceeded'')"
| "holdings_pages c token (Suc left) holdings context_fk context_nk continuation =
     bindS (ke_request (ac_env c) (balance_request c token continuation context_fk context_nk)) (\<lambda>response.
     bindS (lift (parse_balance_response (ac_text c) (ex_status_code response) (ex_content response))) (\<lambda>payload.
     bindS (lift (parse_holdings payload)) (\<lambda>page.
     if dict_get (ex_headers response) ''tr_cont'' \<notin> {Some ''M'', Some ''F''}
     then bindS (write_cached_holdings c (holdings @ page)) (\<lambda>_. ret (holdings @ page))
     else
       bindS (lift (required_string payload ''ctx_area_fk100'')) (\<lambda>fk.
       bindS (lift (required_string payload ''ctx_area_nk100'')) (\<lambda>nk.
         holdings_pages c token left (holdings @ page) fk nk ''N'')))))"

definition list_domestic_stock_holdings :: "'s account_client \<Rightarrow> ('s world, KisDomesticStockHolding list) io" where
  "list_domestic_stock_holdings c =
     bindS (read_cached_holdings c) (\<lambda>cached. case cached of
       Some hs \<Rightarrow> ret hs
     | None \<Rightarrow> bindS (get_access_token (ac_env c)) (\<lambda>token. holdings_pages c token MAX_BALANCE_PAGES [] [] [] []))"

section \<open>Linking the account of the deployment\<close>

definition CREDENTIAL_REF :: string where "CREDENTIAL_REF = ''kis:default''"
definition PROVIDER :: string where "PROVIDER = ''kis''"
definition DISPLAY_NAME :: string where "DISPLAY_NAME = ''KIS default account''"
definition OWNER_ENV :: string where "OWNER_ENV = ''KIS_ACCOUNT_OWNER_USER_ID''"

definition owner_of :: "environ \<Rightarrow> uuid result" where
  "owner_of env = (case dict_get env OWNER_ENV of None \<Rightarrow> Inl (KeyError OWNER_ENV) | Some v \<Rightarrow> uuid_of v)"

definition connection_location :: "environ \<Rightarrow> SessionData \<Rightarrow> (uuid \<times> shard_target) result" where
  "connection_location env session =
     bindE (session_shard session) (\<lambda>shard_id.
     bindE (catchE (bindE (uuid_of (sd_user_id session)) (\<lambda>user_id. bindE (owner_of env) (\<lambda>owner. Inr (user_id, owner))))
        (\<lambda>e. Inl (if is_value_error e \<or> e = KeyError OWNER_ENV then HTTPException 503 ''KIS account owner is not configured'' else e)))
     (\<lambda>(user_id, owner_user_id).
       if user_id \<noteq> owner_user_id then Inl (HTTPException 403 ''KIS account is not assigned to this user'')
       else Inr (user_id, shard_of ''account'' shard_id)))"

definition account_credentials :: "environ \<Rightarrow> KisAccountCredentials result" where
  "account_credentials env = catchE (account_credentials_from_environment env) (\<lambda>e.
     Inl (case e of KisAccountConfigurationError _ \<Rightarrow> HTTPException 503 ''KIS account credentials are not configured'' | _ \<Rightarrow> e))"

definition connection_id :: "uuid5_fun \<Rightarrow> uuid \<Rightarrow> uuid" where
  "connection_id uuid5 user_id = uuid5 NAMESPACE_URL (''autoforge:'' @ str_uuid user_id @ '':'' @ CREDENTIAL_REF)"

definition matches_deployment :: "BrokerageAccountConnection \<Rightarrow> string \<Rightarrow> string \<Rightarrow> bool" where
  "matches_deployment c environment account_mask \<longleftrightarrow>
     bc_provider c = PROVIDER \<and> bc_environment c = environment \<and> bc_display_name c = DISPLAY_NAME \<and>
     bc_account_mask c = account_mask \<and> bc_credential_ref c = CREDENTIAL_REF \<and> bc_status c = ''active''"

text \<open>\<open>number[-4:]\<close>\<close>

definition account_mask_of :: "string \<Rightarrow> string" where
  "account_mask_of number = ''****'' @ drop (length number - 4) number"

definition linked_connection ::
  "uuid \<Rightarrow> uuid \<Rightarrow> KisAccountCredentials \<Rightarrow> time \<Rightarrow> BrokerageAccountConnection option \<Rightarrow> BrokerageAccountConnection" where
  "linked_connection cid user_id credentials now existing = \<lparr>bc_connection_id = cid, bc_user_id = user_id,
     bc_provider = PROVIDER, bc_environment = ka_environment credentials, bc_display_name = DISPLAY_NAME,
     bc_account_mask = account_mask_of (ka_account_number credentials), bc_credential_ref = CREDENTIAL_REF,
     bc_status = ''active'', bc_created_at = (case existing of Some e \<Rightarrow> bc_created_at e | None \<Rightarrow> now), bc_updated_at = now\<rparr>"

definition shard_text :: "shard_target \<Rightarrow> string" where
  "shard_text target = (case st_shard_id target of Some i \<Rightarrow> i | None \<Rightarrow> [])"

definition linked_event :: "uuid \<Rightarrow> time \<Rightarrow> shard_target \<Rightarrow> BrokerageAccountConnection \<Rightarrow> EventMessage" where
  "linked_event event_id now target c = new_event event_id now ''brokerage.account.connection-linked'' (str_uuid (bc_connection_id c))
     [(''connection_id'', JStr (str_uuid (bc_connection_id c))), (''user_id'', JStr (str_uuid (bc_user_id c))),
      (''shard_id'', JStr (shard_text target)), (''provider'', JStr PROVIDER), (''status'', JStr (bc_status c))]
     ''brokerage.account.connection-linked''"

definition link_save :: "uuid \<Rightarrow> time \<Rightarrow> shard_target \<Rightarrow> BrokerageAccountConnection \<Rightarrow> (db, BrokerageAccountConnection) io" where
  "link_save event_id now target c =
     bindS (modify (\<lambda>d. d\<lparr>brokerage_account_connections :=
        SQL_BrokerageAccountConnection_save c (brokerage_account_connections d)\<rparr>)) (\<lambda>_.
     bindS (outbox_add now (linked_event event_id now target c) None) (\<lambda>_. ret c))"

definition link_tx ::
  "uuid5_fun \<Rightarrow> uuid \<Rightarrow> time \<Rightarrow> uuid \<Rightarrow> shard_target \<Rightarrow> KisAccountCredentials \<Rightarrow> (db, BrokerageAccountConnection) io" where
  "link_tx uuid5 event_id now user_id target credentials =
     bindS (gets (\<lambda>d. SQL_BrokerageAccountConnection_find_by_id (connection_id uuid5 user_id) (brokerage_account_connections d))) (\<lambda>existing.
     if (case existing of Some e \<Rightarrow> bc_user_id e \<noteq> user_id | None \<Rightarrow> False)
     then raise (HTTPException 409 ''Brokerage account ownership conflicts'')
     else case existing of
       Some e \<Rightarrow> if matches_deployment e (ka_environment credentials) (account_mask_of (ka_account_number credentials)) then ret e
         else link_save event_id now target (linked_connection (connection_id uuid5 user_id) user_id credentials now existing)
     | None \<Rightarrow> link_save event_id now target (linked_connection (connection_id uuid5 user_id) user_id credentials now existing))"

definition link_default_connection ::
  "uuid5_fun \<Rightarrow> environ \<Rightarrow> uuid \<Rightarrow> time \<Rightarrow> SessionData \<Rightarrow> (dbs, BrokerageAccountConnection) io" where
  "link_default_connection uuid5 env event_id now current_session =
     bindS (lift (connection_location env current_session)) (\<lambda>(user_id, target).
     bindS (lift (account_credentials env)) (\<lambda>credentials.
       with_session target (link_tx uuid5 event_id now user_id target credentials)))"

definition get_connection :: "uuid5_fun \<Rightarrow> environ \<Rightarrow> SessionData \<Rightarrow> (dbs, BrokerageAccountConnection) io" where
  "get_connection uuid5 env current_session =
     bindS (lift (connection_location env current_session)) (\<lambda>(user_id, target).
     bindS (with_session target (gets (\<lambda>d. SQL_BrokerageAccountConnection_find_by_id (connection_id uuid5 user_id)
              (brokerage_account_connections d)))) (\<lambda>connection. case connection of
       Some c \<Rightarrow> if bc_user_id c \<noteq> user_id then raise (HTTPException 404 ''Brokerage account connection was not found'') else ret c
     | None \<Rightarrow> raise (HTTPException 404 ''Brokerage account connection was not found'')))"

definition link_connection_endpoint ::
  "'r redis_api \<Rightarrow> sha256_fun \<Rightarrow> pytext \<Rightarrow> (BrokerageAccountConnection \<Rightarrow> json) \<Rightarrow> uuid5_fun \<Rightarrow> environ \<Rightarrow> time \<Rightarrow> time
     \<Rightarrow> string \<Rightarrow> string option \<Rightarrow> uuid \<Rightarrow> string option \<Rightarrow> ('r app, BrokerageAccountConnection response) io" where
  "link_connection_endpoint api sha256 T encode uuid5 env now now' token header event_id bearer =
     with_access (redis_sessions api) now USER bearer (\<lambda>session.
       idempotent api sha256 T now now' token header ''PUT:/connection:'' encode
         (link_default_connection uuid5 env event_id now session))"

definition get_connection_endpoint ::
  "'r session_ops \<Rightarrow> uuid5_fun \<Rightarrow> environ \<Rightarrow> time \<Rightarrow> string option \<Rightarrow> ('r app, BrokerageAccountConnection) io" where
  "get_connection_endpoint store uuid5 env now bearer =
     with_access store now USER bearer (\<lambda>session. on_dbs (get_connection uuid5 env session))"

section \<open>Portfolio snapshots\<close>

record PortfolioSnapshotCapture =
  pc_snapshot :: PortfolioSnapshot
  pc_positions :: "PortfolioPositionSnapshot list"

text \<open>\<open>_account_location\<close> reads the user before the shard.\<close>

definition account_location :: "SessionData \<Rightarrow> (uuid \<times> shard_target) result" where
  "account_location session =
     bindE (session_user session) (\<lambda>user_id.
     bindE (session_shard session) (\<lambda>shard_id. Inr (user_id, shard_of ''account'' shard_id)))"

definition snapshot_location :: "SessionData \<Rightarrow> BrokerageAccountConnection \<Rightarrow> (uuid \<times> shard_target) result" where
  "snapshot_location session connection =
     bindE (account_location session) (\<lambda>(user_id, target).
     if bc_user_id connection \<noteq> user_id then Inl (HTTPException 403 ''Brokerage account is not owned by this user'')
     else Inr (user_id, target))"

definition snapshot_id :: "uuid5_fun \<Rightarrow> uuid \<Rightarrow> uuid \<Rightarrow> string \<Rightarrow> uuid result" where
  "snapshot_id uuid5 user_id cid idempotency_key =
     (let normalized_key = strip idempotency_key in
      if normalized_key = [] then Inl (HTTPException 400 ''Idempotency-Key must not be blank'')
      else Inr (uuid5 NAMESPACE_URL (''autoforge:'' @ str_uuid user_id @ '':'' @ str_uuid cid @ '':portfolio-snapshot:'' @ normalized_key)))"

definition position_of :: "uuid5_fun \<Rightarrow> uuid \<Rightarrow> uuid \<Rightarrow> KisDomesticStockHolding \<Rightarrow> PortfolioPositionSnapshot" where
  "position_of uuid5 sid user_id h = \<lparr>pp_position_id = uuid5 sid (kh_stock_code h), pp_snapshot_id = sid, pp_user_id = user_id,
     pp_stock_code = kh_stock_code h, pp_product_name = kh_product_name h, pp_holding_quantity = kh_holding_quantity h,
     pp_orderable_quantity = kh_orderable_quantity h, pp_current_price = kh_current_price h\<rparr>"

definition position_models :: "uuid5_fun \<Rightarrow> uuid \<Rightarrow> uuid \<Rightarrow> KisDomesticStockHolding list \<Rightarrow> PortfolioPositionSnapshot list" where
  "position_models uuid5 sid user_id holdings =
     map (position_of uuid5 sid user_id) (sorted_by kh_stock_code (map snd (dict_of kh_stock_code holdings)))"

definition capture_of :: "uuid \<Rightarrow> PortfolioSnapshot \<Rightarrow> db \<Rightarrow> PortfolioSnapshotCapture" where
  "capture_of sid snapshot d = \<lparr>pc_snapshot = snapshot,
     pc_positions = SQL_PortfolioPositionSnapshot_list_by_snapshot_id sid (portfolio_position_snapshots d)\<rparr>"

definition find_capture :: "shard_target \<Rightarrow> uuid \<Rightarrow> (dbs, PortfolioSnapshotCapture option) io" where
  "find_capture target sid = with_session target (gets (\<lambda>d.
     map_option (\<lambda>snapshot. capture_of sid snapshot d) (SQL_PortfolioSnapshot_find_by_id sid (portfolio_snapshots d))))"

definition captured_event :: "uuid \<Rightarrow> time \<Rightarrow> shard_target \<Rightarrow> PortfolioSnapshot \<Rightarrow> EventMessage" where
  "captured_event event_id now target s = new_event event_id now ''portfolio.snapshot.captured'' (str_uuid (ps_snapshot_id s))
     [(''snapshot_id'', JStr (str_uuid (ps_snapshot_id s))), (''connection_id'', JStr (str_uuid (ps_connection_id s))),
      (''user_id'', JStr (str_uuid (ps_user_id s))), (''shard_id'', JStr (shard_text target)),
      (''position_count'', JInt (ps_position_count s))] ''portfolio.snapshot.captured''"

definition capture_tx ::
  "uuid \<Rightarrow> time \<Rightarrow> shard_target \<Rightarrow> PortfolioSnapshot \<Rightarrow> PortfolioPositionSnapshot list \<Rightarrow> (db, PortfolioSnapshotCapture) io" where
  "capture_tx event_id now target snapshot positions =
     bindS (gets (\<lambda>d. map_option (\<lambda>s. capture_of (ps_snapshot_id snapshot) s d)
        (SQL_PortfolioSnapshot_find_by_id (ps_snapshot_id snapshot) (portfolio_snapshots d)))) (\<lambda>existing. case existing of
       Some c \<Rightarrow> ret c
     | None \<Rightarrow>
         bindS (modify (\<lambda>d. d\<lparr>portfolio_snapshots := SQL_PortfolioSnapshot_save snapshot (portfolio_snapshots d),
            portfolio_position_snapshots := fold SQL_PortfolioPositionSnapshot_save positions (portfolio_position_snapshots d)\<rparr>)) (\<lambda>_.
         bindS (outbox_add now (captured_event event_id now target snapshot) None) (\<lambda>_.
           ret \<lparr>pc_snapshot = snapshot, pc_positions = positions\<rparr>)))"

text \<open>\<open>account\<close> lists the holdings; \<open>now\<close> is the clock reading after it.\<close>

definition capture_portfolio_snapshot ::
  "uuid5_fun \<Rightarrow> uuid \<Rightarrow> ('s world, KisDomesticStockHolding list) io \<Rightarrow> SessionData \<Rightarrow> BrokerageAccountConnection \<Rightarrow> string
   \<Rightarrow> ('s plat, PortfolioSnapshotCapture) io" where
  "capture_portfolio_snapshot uuid5 event_id account current_session connection idempotency_key =
     bindS (lift (snapshot_location current_session connection)) (\<lambda>(user_id, target).
     bindS (lift (snapshot_id uuid5 user_id (bc_connection_id connection) idempotency_key)) (\<lambda>sid.
     bindS (on_store (find_capture target sid)) (\<lambda>existing. case existing of
       Some c \<Rightarrow> ret c
     | None \<Rightarrow>
         bindS (on_world account) (\<lambda>holdings.
         bindS (gets (\<lambda>p. wl_now (pl_world p))) (\<lambda>now.
         let positions = position_models uuid5 sid user_id holdings;
             snapshot = \<lparr>ps_snapshot_id = sid, ps_connection_id = bc_connection_id connection, ps_user_id = user_id,
                         ps_captured_at = now, ps_position_count = int (length positions)\<rparr>
         in on_store (with_session target (capture_tx event_id now target snapshot positions)))))))"

definition get_portfolio_snapshot :: "SessionData \<Rightarrow> uuid \<Rightarrow> (dbs, PortfolioSnapshotCapture) io" where
  "get_portfolio_snapshot current_session sid =
     bindS (lift (account_location current_session)) (\<lambda>(user_id, target).
     bindS (find_capture target sid) (\<lambda>capture. case capture of
       Some c \<Rightarrow> if ps_user_id (pc_snapshot c) \<noteq> user_id then raise (HTTPException 404 ''Portfolio snapshot was not found'') else ret c
     | None \<Rightarrow> raise (HTTPException 404 ''Portfolio snapshot was not found'')))"

section \<open>Capturing once\<close>

lemma fold_merge_fresh:
  "distinct (map key rs) \<Longrightarrow> key ` set rs \<inter> key ` set t = {} \<Longrightarrow> fold (t_merge key) rs t = t @ rs"
proof (induction rs arbitrary: t)
  case (Cons r rs)
  then have "t_merge key r t = t @ [r]" by (intro merge_absent) auto
  moreover have "fold (t_merge key) rs (t @ [r]) = (t @ [r]) @ rs" using Cons.prems by (intro Cons.IH) auto
  ultimately show ?case by simp
qed simp

lemma fold_position_save: "fold SQL_PortfolioPositionSnapshot_save ps t =
    fold (t_merge ppr_position_id) (map PortfolioPositionSnapshot_to_record ps) t"
  by (induction ps arbitrary: t) (simp_all add: SQL_PortfolioPositionSnapshot_save_def)

lemma position_models_facts:
  "sorted (map pp_stock_code (position_models uuid5 sid u hs))" "\<forall>p\<in>set (position_models uuid5 sid u hs). pp_snapshot_id p = sid"
proof -
  have "map pp_stock_code (position_models uuid5 sid u hs) =
      map kh_stock_code (sorted_by kh_stock_code (map snd (dict_of kh_stock_code hs)))"
    by (simp add: position_models_def position_of_def o_def)
  then show "sorted (map pp_stock_code (position_models uuid5 sid u hs))" by simp
  show "\<forall>p\<in>set (position_models uuid5 sid u hs). pp_snapshot_id p = sid" by (auto simp: position_models_def position_of_def)
qed

text \<open>What was saved for a new snapshot is listed again, up to the limit of the listing.\<close>

lemma saved_positions:
  assumes new: "\<forall>r\<in>set t. ppr_snapshot_id r \<noteq> sid" and ids: "distinct (map pp_position_id ps)"
      "pp_position_id ` set ps \<inter> ppr_position_id ` set t = {}"
    and ps: "sorted (map pp_stock_code ps)" "\<forall>p\<in>set ps. pp_snapshot_id p = sid"
  shows "SQL_PortfolioPositionSnapshot_list_by_snapshot_id sid (fold SQL_PortfolioPositionSnapshot_save ps t) = take 1000 ps"
proof -
  let ?rs = "map PortfolioPositionSnapshot_to_record ps"
  have "fold SQL_PortfolioPositionSnapshot_save ps t = t @ ?rs"
    unfolding fold_position_save using ids by (intro fold_merge_fresh) (auto simp: o_def image_image)
  moreover have "filter (\<lambda>r. ppr_snapshot_id r = sid) (t @ ?rs) = ?rs"
    using new ps(2) by (auto simp: filter_empty_conv PortfolioPositionSnapshot_to_record_def intro!: filter_True)
  moreover have "sorted_by ppr_stock_code ?rs = ?rs"
    using ps(1) by (simp add: sorted_by_def sorted_sort_id sort_key_id_if_sorted o_def PortfolioPositionSnapshot_to_record_def)
  ultimately show ?thesis
    by (simp add: SQL_PortfolioPositionSnapshot_list_by_snapshot_id_def take_map o_def)
qed

lemma on_store_run: "m (pl_dbs p) = (r, d) \<Longrightarrow> on_store m p = (r, p\<lparr>pl_dbs := d\<rparr>)"
  by (simp add: on_store_def)

lemma find_capture_run:
  "engine_for rg target = Inr d \<Longrightarrow> find_capture target sid rg =
     (Inr (map_option (\<lambda>s. capture_of sid s d) (SQL_PortfolioSnapshot_find_by_id sid (portfolio_snapshots d))), rg)"
  by (simp add: find_capture_def with_session_def)

definition capture_fresh :: "uuid \<Rightarrow> db \<Rightarrow> PortfolioSnapshotCapture \<Rightarrow> bool" where
  "capture_fresh sid d c \<longleftrightarrow> (\<forall>r\<in>set (portfolio_position_snapshots d). ppr_snapshot_id r \<noteq> sid) \<and>
     distinct (map pp_position_id (pc_positions c)) \<and>
     pp_position_id ` set (pc_positions c) \<inter> ppr_position_id ` set (portfolio_position_snapshots d) = {} \<and>
     length (pc_positions c) \<le> 1000"

lemma capture_stored:
  assumes run: "capture_portfolio_snapshot uuid5 event_id account x conn key p = (Inr c, p1)"
    and loc: "snapshot_location x conn = Inr (u, target)" "snapshot_id uuid5 u (bc_connection_id conn) key = Inr sid"
    and d: "engine_for (pl_dbs p) target = Inr d"
    and fresh: "SQL_PortfolioSnapshot_find_by_id sid (portfolio_snapshots d) = None \<longrightarrow> capture_fresh sid d c"
  obtains d1 where "engine_for (pl_dbs p1) target = Inr d1"
    "SQL_PortfolioSnapshot_find_by_id sid (portfolio_snapshots d1) = Some (pc_snapshot c)" "capture_of sid (pc_snapshot c) d1 = c"
proof (cases "SQL_PortfolioSnapshot_find_by_id sid (portfolio_snapshots d)")
  case (Some s)
  then have "c = capture_of sid s d \<and> pl_dbs p1 = pl_dbs p"
    using run loc find_capture_run [OF d, of sid] by (auto simp: capture_portfolio_snapshot_def bindS_def on_store_def)
  then show ?thesis using that [of d] d Some by (simp add: capture_of_def)
next
  case None
  obtain rh w1 where h: "account (pl_world p) = (rh, w1)" by fastforce
  obtain hs where hs: "rh = Inr hs"
    using run loc find_capture_run [OF d, of sid] None h
    by (cases rh) (auto simp: capture_portfolio_snapshot_def bindS_def on_store_def on_world_def)
  let ?ps = "position_models uuid5 sid u hs"
  let ?s = "\<lparr>ps_snapshot_id = sid, ps_connection_id = bc_connection_id conn, ps_user_id = u,
    ps_captured_at = wl_now w1, ps_position_count = int (length ?ps)\<rparr>"
  have tx: "on_store (with_session target (capture_tx event_id (wl_now w1) target ?s ?ps)) (p\<lparr>pl_world := w1\<rparr>) = (Inr c, p1)"
    using run loc find_capture_run [OF d, of sid] None h hs
    by (simp add: capture_portfolio_snapshot_def bindS_def on_store_def on_world_def Let_def)
  obtain d1 where d1: "capture_tx event_id (wl_now w1) target ?s ?ps d = (Inr c, d1)" "pl_dbs p1 = commit_to target d1 (pl_dbs p)"
    using tx d by (auto simp: on_store_def with_session_def split: prod.splits sum.splits)
  then have c: "c = \<lparr>pc_snapshot = ?s, pc_positions = ?ps\<rparr>"
    and t: "portfolio_snapshots d1 = SQL_PortfolioSnapshot_save ?s (portfolio_snapshots d)"
      "portfolio_position_snapshots d1 = fold SQL_PortfolioPositionSnapshot_save ?ps (portfolio_position_snapshots d)"
    using None by (auto simp: capture_tx_def bindS_def outbox_add_def split: sum.splits)
  have f: "capture_fresh sid d c" using fresh None by simp
  have "SQL_PortfolioPositionSnapshot_list_by_snapshot_id sid (portfolio_position_snapshots d1) = take 1000 ?ps"
    unfolding t(2) using f position_models_facts by (intro saved_positions) (auto simp: capture_fresh_def c)
  then have "capture_of sid ?s d1 = c" using f by (simp add: capture_of_def c capture_fresh_def)
  moreover have "SQL_PortfolioSnapshot_find_by_id sid (portfolio_snapshots d1) = Some ?s"
    by (simp add: t(1) SQL_PortfolioSnapshot_find_by_id_def SQL_PortfolioSnapshot_save_def)
  ultimately show ?thesis using that [of d1] d1(2) c d by simp
qed

text \<open>
  C31: A portfolio snapshot is captured once per idempotency key. After a capture has returned, every
  capture with a key that is equal up to surrounding white space returns the same snapshot with the
  same positions, whatever the account holds by then: the provider is not asked and nothing is written.
  Its owner reads the same snapshot. The derived identifiers of a new snapshot are assumed not to be
  in use, and it has at most 1000 positions, the limit of the listing.
\<close>

theorem portfolio_captured_once:
  assumes "capture_portfolio_snapshot uuid5 event_id account x conn key p = (Inr c, p1)"
    and "snapshot_location x conn = Inr (u, target)" and "snapshot_id uuid5 u (bc_connection_id conn) key = Inr sid"
    and "engine_for (pl_dbs p) target = Inr d"
    and "SQL_PortfolioSnapshot_find_by_id sid (portfolio_snapshots d) = None \<longrightarrow> capture_fresh sid d c"
    and "strip key' = strip key" and "engine_for (pl_dbs p2) target = engine_for (pl_dbs p1) target"
  shows "capture_portfolio_snapshot uuid5 event_id' account' x conn key' p2 = (Inr c, p2) \<and>
    (ps_user_id (pc_snapshot c) = u \<longrightarrow> get_portfolio_snapshot x sid (pl_dbs p2) = (Inr c, pl_dbs p2))"
proof -
  from capture_stored [OF assms(1-5)] obtain d1 where d1: "engine_for (pl_dbs p1) target = Inr d1"
    "SQL_PortfolioSnapshot_find_by_id sid (portfolio_snapshots d1) = Some (pc_snapshot c)" "capture_of sid (pc_snapshot c) d1 = c" .
  then have f: "find_capture target sid (pl_dbs p2) = (Inr (Some c), pl_dbs p2)"
    using find_capture_run [of "pl_dbs p2" target d1 sid] assms(7) by simp
  have k: "snapshot_id uuid5 u (bc_connection_id conn) key' = Inr sid" using assms(3,6) by (simp add: snapshot_id_def)
  have l: "account_location x = Inr (u, target)" using assms(2) by (auto simp: snapshot_location_def bindE_eq_Inr split: if_splits)
  show ?thesis using f k l assms(2)
    by (simp add: capture_portfolio_snapshot_def get_portfolio_snapshot_def bindS_def on_store_run)
qed

definition demo_connection :: BrokerageAccountConnection where
  "demo_connection = \<lparr>bc_connection_id = 7, bc_user_id = 1, bc_provider = ''kis'', bc_environment = ''demo'', bc_display_name = ''KIS default account'',
     bc_account_mask = ''****5678'', bc_credential_ref = ''kis:default'', bc_status = ''active'', bc_created_at = 0, bc_updated_at = 0\<rparr>"

definition demo_holding :: KisDomesticStockHolding where
  "demo_holding = \<lparr>kh_stock_code = ''005930'', kh_product_name = ''stock'', kh_holding_quantity = ''3'',
     kh_orderable_quantity = ''3'', kh_current_price = ''10''\<rparr>"

definition demo_uuid5 :: uuid5_fun where
  "demo_uuid5 ns name = ns + of_nat (length name)"

definition demo_plat :: "unit plat" where
  "demo_plat = \<lparr>pl_dbs = account_dbs, pl_world = \<lparr>wl_now = 5, wl_svc = ()\<rparr>\<rparr>"

lemma demo_capture:
  assumes "sid = demo_uuid5 NAMESPACE_URL (''autoforge:'' @ str_uuid 1 @ '':'' @ str_uuid 7 @ '':portfolio-snapshot:k'')"
  shows "snapshot_location (user_session 1 ''1'') demo_connection = Inr (1, shard_of ''account'' ''1'')"
    "snapshot_id demo_uuid5 1 (bc_connection_id demo_connection) ''k'' = Inr sid"
    "SQL_PortfolioSnapshot_find_by_id sid (portfolio_snapshots empty_db) = None"
    "position_models demo_uuid5 sid 1 [demo_holding] = [position_of demo_uuid5 sid 1 demo_holding]"
  using assms
  by (simp_all add: snapshot_location_def account_location_def session_user_def session_shard_def user_session_def dict_get_def
      demo_connection_def snapshot_id_def strip_all is_space_def SQL_PortfolioSnapshot_find_by_id_def empty_db_def t_get_def
      position_models_def dict_of_def sorted_by_def)

theorem portfolio_captured_once_witness:
  "\<exists>c p1. capture_portfolio_snapshot demo_uuid5 3 (ret [demo_holding]) (user_session 1 ''1'') demo_connection ''k'' demo_plat = (Inr c, p1) \<and>
     pc_positions c \<noteq> [] \<and>
     capture_portfolio_snapshot demo_uuid5 4 (ret []) (user_session 1 ''1'') demo_connection '' k '' p1 = (Inr c, p1)"
proof -
  define sid where "sid = demo_uuid5 NAMESPACE_URL (''autoforge:'' @ str_uuid 1 @ '':'' @ str_uuid 7 @ '':portfolio-snapshot:k'')"
  note f = demo_capture [OF sid_def]
  have d: "engine_for (pl_dbs demo_plat) (shard_of ''account'' ''1'') = Inr empty_db"
    by (simp add: demo_plat_def account_dbs_engines)
  obtain c p1 where run: "capture_portfolio_snapshot demo_uuid5 3 (ret [demo_holding]) (user_session 1 ''1'') demo_connection ''k'' demo_plat = (Inr c, p1)"
    and ps: "pc_positions c = [position_of demo_uuid5 sid 1 demo_holding]"
    using f find_capture_run [OF d] d
    by (simp add: capture_portfolio_snapshot_def bindS_def on_store_def on_world_def Let_def with_session_def capture_tx_def
        outbox_add_def t_insert_def empty_db_def)
  have fresh: "SQL_PortfolioSnapshot_find_by_id sid (portfolio_snapshots empty_db) = None \<longrightarrow> capture_fresh sid empty_db c"
    by (simp add: capture_fresh_def empty_db_def ps)
  have k: "strip '' k '' = strip ''k''" by code_simp
  from portfolio_captured_once [where event_id' = 4 and account' = "ret []", OF run f(1,2) d fresh k refl] run ps
  show ?thesis by (intro exI [of _ c] exI [of _ p1]) simp
qed

end
