(* ===== verification/Search.thy ===== *)
theory Search
  imports KisToken Tables
begin

text \<open>
  The hybrid search index (\<open>modules/search/hybrid.py\<close>): embedding texts, creating the index, bulk
  indexing, and a search that merges a keyword and a vector ranking by reciprocal rank fusion; and the
  index of durable job executions (\<open>modules/operations/durable_job_history_search.py\<close>).

  The search backend and the embedding service are reached by HTTP; \<open>search_http\<close> holds the calls on
  their state. The double arithmetic of the scores is a parameter (\<open>score_ops\<close>): a type with a linear
  order, a zero, the value \<open>1.0 / (60 + rank)\<close> and addition. A response of a shape the services do not
  send raises \<open>TypeError\<close> or \<open>KeyError\<close> here, as in Python; \<open>None\<close>, empty and zero values are tested
  with Python's truth value, except that a float is never taken to be zero.
\<close>

datatype SearchBackend = ELASTICSEARCH | OPENSEARCH

definition search_backend_of :: "string \<Rightarrow> SearchBackend result" where
  "search_backend_of v = (if v = ''elasticsearch'' then Inr ELASTICSEARCH else if v = ''opensearch'' then Inr OPENSEARCH
     else Inl (ValueError (str_repr v @ '' is not a valid SearchBackend'')))"

record 's search_http =
  sh_post :: "string \<Rightarrow> json \<Rightarrow> ('s, ExternalResponse) io"
  sh_post_lines :: "string \<Rightarrow> string \<Rightarrow> ('s, ExternalResponse) io"
  sh_head :: "string \<Rightarrow> ('s, ExternalResponse) io"
  sh_put :: "string \<Rightarrow> json \<Rightarrow> ('s, ExternalResponse) io"

record HybridSearchIndex =
  hi_index_name :: string
  hi_source_id_field :: string
  hi_properties :: jdict
  hi_keyword_fields :: "string list"
  hi_search_backend :: SearchBackend
  hi_search_url :: string
  hi_ollama_url :: string
  hi_embedding_model :: string

definition rstrip_slash :: "string \<Rightarrow> string" where
  "rstrip_slash = rstrip_by (\<lambda>c. c = CHR ''/'')"

definition new_index ::
  "string \<Rightarrow> string \<Rightarrow> jdict \<Rightarrow> string list \<Rightarrow> string \<Rightarrow> string \<Rightarrow> string \<Rightarrow> string \<Rightarrow> HybridSearchIndex result" where
  "new_index name id_field properties keyword_fields ollama_url model search_url backend =
     bindE (search_backend_of backend) (\<lambda>b.
       Inr \<lparr>hi_index_name = name, hi_source_id_field = id_field, hi_properties = properties, hi_keyword_fields = keyword_fields,
            hi_search_backend = b, hi_search_url = rstrip_slash search_url, hi_ollama_url = rstrip_slash ollama_url,
            hi_embedding_model = model\<rparr>)"

section \<open>Responses\<close>

text \<open>\<open>response.raise_for_status()\<close> raises unless the status is a success.\<close>

definition raise_for_status :: "ExternalResponse \<Rightarrow> unit result" where
  "raise_for_status r = (if 200 \<le> ex_status_code r \<and> ex_status_code r < 300 then Inr () else Inl (HttpxStatusError (nat (ex_status_code r))))"

definition response_json :: "ExternalResponse \<Rightarrow> json result" where
  "response_json r = json_loads_bytes (ex_content r)"

fun truthy :: "json \<Rightarrow> bool" where
  "truthy JNull = False"
| "truthy (JBool b) = b"
| "truthy (JInt i) = (i \<noteq> 0)"
| "truthy (JFloat _) = True"
| "truthy (JStr s) = (s \<noteq> [])"
| "truthy (JArr vs) = (vs \<noteq> [])"
| "truthy (JObj d) = (d \<noteq> [])"

definition is_list :: "json \<Rightarrow> bool" where
  "is_list v = (case v of JArr _ \<Rightarrow> True | _ \<Rightarrow> False)"

definition no_embeddings :: exn where
  "no_embeddings = ValueError ''Ollama returned no embeddings''"

text \<open>The checks on \<open>response.json()["embeddings"]\<close>.\<close>

definition check_embeddings :: "json \<Rightarrow> json list result" where
  "check_embeddings v = (if \<not> truthy v then Inl no_embeddings else case v of
       JArr vs \<Rightarrow> if \<not> truthy (hd vs) \<or> \<not> list_all is_list vs then Inl no_embeddings else Inr vs
     | JStr _ \<Rightarrow> Inl no_embeddings
     | JObj _ \<Rightarrow> Inl (KeyError ''0'')
     | _ \<Rightarrow> Inl (TypeError ''embeddings''))"

section \<open>Indexing\<close>

definition embed :: "'s search_http \<Rightarrow> HybridSearchIndex \<Rightarrow> string list \<Rightarrow> ('s, json list) io" where
  "embed H x inputs =
     bindS (sh_post H (hi_ollama_url x @ ''/api/embed'')
        (JObj [(''model'', JStr (hi_embedding_model x)), (''input'', JArr (map JStr inputs))])) (\<lambda>response.
     bindS (lift (raise_for_status response)) (\<lambda>_.
       lift (bindE (bindE (response_json response) (\<lambda>v. subscript v ''embeddings'')) check_embeddings)))"

definition embedding_field :: "SearchBackend \<Rightarrow> nat \<Rightarrow> json" where
  "embedding_field b dimensions = (case b of
       OPENSEARCH \<Rightarrow> JObj [(''type'', JStr ''knn_vector''), (''dimension'', JInt (int dimensions)),
         (''method'', JObj [(''name'', JStr ''hnsw''), (''engine'', JStr ''faiss''), (''space_type'', JStr ''cosinesimil'')])]
     | ELASTICSEARCH \<Rightarrow> JObj [(''type'', JStr ''dense_vector''), (''dims'', JInt (int dimensions)), (''similarity'', JStr ''cosine'')])"

definition index_mapping :: "HybridSearchIndex \<Rightarrow> nat \<Rightarrow> json" where
  "index_mapping x dimensions =
     (let properties = dict_set ''embedding'' (embedding_field (hi_search_backend x) dimensions) (hi_properties x) in
      case hi_search_backend x of
        OPENSEARCH \<Rightarrow> JObj [(''settings'', JObj [(''index'', JObj [(''knn'', JBool True)])]),
          (''mappings'', JObj [(''properties'', JObj properties)])]
      | ELASTICSEARCH \<Rightarrow> JObj [(''mappings'', JObj [(''properties'', JObj properties)])])"

definition index_url :: "HybridSearchIndex \<Rightarrow> string" where
  "index_url x = hi_search_url x @ ''/'' @ hi_index_name x"

definition ensure_index :: "'s search_http \<Rightarrow> HybridSearchIndex \<Rightarrow> nat \<Rightarrow> ('s, unit) io" where
  "ensure_index H x dimensions =
     bindS (sh_head H (index_url x)) (\<lambda>exists.
     if ex_status_code exists = 200 then ret ()
     else bindS (if ex_status_code exists \<noteq> 404 then lift (raise_for_status exists) else ret ()) (\<lambda>_.
       bindS (sh_put H (index_url x) (index_mapping x dimensions)) (\<lambda>created.
       if ex_status_code created \<in> {200, 201, 400} then ret () else lift (raise_for_status created))))"

definition quoted :: "string \<Rightarrow> string" where
  "quoted s = [CHR 0x22] @ s @ [CHR 0x22]"

definition bulk_lines :: "pytext \<Rightarrow> HybridSearchIndex \<Rightarrow> jdict \<Rightarrow> json \<Rightarrow> string list result" where
  "bulk_lines T x source embedding =
     bindE (member source (hi_source_id_field x)) (\<lambda>v.
       Inr [''{'' @ quoted ''index'' @ '':{'' @ quoted ''_index'' @ '':'' @ quoted (hi_index_name x) @ '','' @
              quoted ''_id'' @ '':'' @ quoted (py_str T v) @ ''}}'',
            json_dumps True (JObj (dict_set ''embedding'' embedding source))])"

definition list_size :: "json \<Rightarrow> nat" where
  "list_size v = (case v of JArr vs \<Rightarrow> length vs | _ \<Rightarrow> 0)"

definition index_documents :: "'s search_http \<Rightarrow> pytext \<Rightarrow> HybridSearchIndex \<Rightarrow> (jdict \<times> string) list \<Rightarrow> ('s, nat) io" where
  "index_documents H T x documents =
     (if documents = [] then ret 0
      else bindS (embed H x (map snd documents)) (\<lambda>embeddings.
        if length embeddings \<noteq> length documents then raise (ValueError ''embedding response does not match indexed documents'')
        else bindS (ensure_index H x (list_size (hd embeddings))) (\<lambda>_.
          bindS (lift (mapE (\<lambda>((source, _), e). bulk_lines T x source e) (zip documents embeddings))) (\<lambda>ls.
          bindS (sh_post_lines H (hi_search_url x @ ''/_bulk'') (join [CHR 0x0A] (concat ls) @ [CHR 0x0A])) (\<lambda>response.
          bindS (lift (raise_for_status response)) (\<lambda>_.
          bindS (lift (bindE (response_json response) (\<lambda>v. subscript v ''errors''))) (\<lambda>errors.
            if truthy errors then raise (RuntimeError ''search backend rejected one or more documents'')
            else ret (length documents))))))))"

section \<open>Searching\<close>

definition keyword_payload :: "HybridSearchIndex \<Rightarrow> string \<Rightarrow> nat \<Rightarrow> json" where
  "keyword_payload x query candidate_count = JObj [(''size'', JInt (int candidate_count)),
     (''query'', JObj [(''multi_match'', JObj [(''query'', JStr query), (''fields'', JArr (map JStr (hi_keyword_fields x)))])])]"

definition vector_search_payload :: "HybridSearchIndex \<Rightarrow> json \<Rightarrow> nat \<Rightarrow> json" where
  "vector_search_payload x embedding candidate_count = (case hi_search_backend x of
       OPENSEARCH \<Rightarrow> JObj [(''size'', JInt (int candidate_count)), (''query'', JObj [(''knn'', JObj [(''embedding'',
         JObj [(''vector'', embedding), (''k'', JInt (int candidate_count))])])])]
     | ELASTICSEARCH \<Rightarrow> JObj [(''size'', JInt (int candidate_count)), (''knn'', JObj [(''field'', JStr ''embedding''),
         (''query_vector'', embedding), (''k'', JInt (int candidate_count)), (''num_candidates'', JInt 100)])])"

definition hits_of :: "ExternalResponse \<Rightarrow> json list result" where
  "hits_of response = bindE (response_json response) (\<lambda>v. bindE (subscript v ''hits'') (\<lambda>h.
     bindE (subscript h ''hits'') (\<lambda>hs. case hs of JArr items \<Rightarrow> Inr items | _ \<Rightarrow> Inl (TypeError ''hits''))))"

text \<open>The source of a hit without its embedding, and its identifier.\<close>

definition hit_source :: "pytext \<Rightarrow> HybridSearchIndex \<Rightarrow> json \<Rightarrow> (string \<times> jdict) result" where
  "hit_source T x hit =
     bindE (subscript hit ''_source'') (\<lambda>s. case s of
       JObj d \<Rightarrow> (let source = filter (\<lambda>(k, v). k \<noteq> ''embedding'') d in
          bindE (member source (hi_source_id_field x)) (\<lambda>v. Inr (py_str T v, source)))
     | _ \<Rightarrow> Inl (AttributeError ''items''))"

record 'f score_ops =
  sc_zero :: 'f
  sc_recip :: "nat \<Rightarrow> 'f"
  sc_add :: "'f \<Rightarrow> 'f \<Rightarrow> 'f"

type_synonym 'f ranking = "(string, jdict) dict \<times> (string, 'f) dict"

definition add_hit :: "'f score_ops \<Rightarrow> nat \<Rightarrow> string \<times> jdict \<Rightarrow> 'f ranking \<Rightarrow> 'f ranking" where
  "add_hit F rank hit acc = (case hit of (i, source) \<Rightarrow> case acc of (sources, scores) \<Rightarrow>
     (dict_set i source sources,
      dict_set i (sc_add F (case dict_get scores i of Some s \<Rightarrow> s | None \<Rightarrow> sc_zero F) (sc_recip F rank)) scores))"

fun add_hits :: "'f score_ops \<Rightarrow> nat \<Rightarrow> (string \<times> jdict) list \<Rightarrow> 'f ranking \<Rightarrow> 'f ranking" where
  "add_hits F rank [] acc = acc"
| "add_hits F rank (h # hs) acc = add_hits F (rank + 1) hs (add_hit F rank h acc)"

definition merge_rankings :: "'f score_ops \<Rightarrow> (string \<times> jdict) list \<Rightarrow> (string \<times> jdict) list \<Rightarrow> 'f ranking" where
  "merge_rankings F kws vecs = add_hits F 1 vecs (add_hits F 1 kws ([], []))"

text \<open>\<open>sorted(scores, key=lambda i: (-scores[i], i))\<close>: by identifier, then stably by descending score.\<close>

definition ranked_ids :: "(string, 'f::linorder) dict \<Rightarrow> string list" where
  "ranked_ids scores = sorted_by_desc (\<lambda>i. the (dict_get scores i)) (sorted_by id (map fst scores))"

definition fused :: "'f::linorder score_ops \<Rightarrow> nat \<Rightarrow> (string \<times> jdict) list \<Rightarrow> (string \<times> jdict) list \<Rightarrow> jdict list" where
  "fused F limit kws vecs = (case merge_rankings F kws vecs of (sources, scores) \<Rightarrow>
     map (\<lambda>i. the (dict_get sources i)) (take limit (ranked_ids scores)))"

text \<open>Both requests are sent before either response is looked at.\<close>

definition gatherS :: "('s, 'a) io \<Rightarrow> ('s, 'b) io \<Rightarrow> ('s, 'a \<times> 'b) io" where
  "gatherS m1 m2 s = (case m1 s of (r1, s1) \<Rightarrow> (case m2 s1 of (r2, s2) \<Rightarrow>
     (bindE r1 (\<lambda>a. bindE r2 (\<lambda>b. Inr (a, b))), s2)))"

definition search_documents ::
  "'s search_http \<Rightarrow> pytext \<Rightarrow> 'f::linorder score_ops \<Rightarrow> HybridSearchIndex \<Rightarrow> string \<Rightarrow> nat \<Rightarrow> ('s, jdict list) io" where
  "search_documents H T F x query limit =
     bindS (embed H x [query]) (\<lambda>embeddings.
     let candidate_count = max (limit * 2) 20 in
     bindS (gatherS (sh_post H (index_url x @ ''/_search'') (keyword_payload x query candidate_count))
                    (sh_post H (index_url x @ ''/_search'') (vector_search_payload x (hd embeddings) candidate_count)))
       (\<lambda>(keyword_response, vector_response).
     bindS (lift (raise_for_status keyword_response)) (\<lambda>_.
     bindS (lift (raise_for_status vector_response)) (\<lambda>_.
     bindS (lift (bindE (hits_of keyword_response) (mapE (hit_source T x)))) (\<lambda>kws.
     bindS (lift (bindE (hits_of vector_response) (mapE (hit_source T x)))) (\<lambda>vecs.
       ret (fused F limit kws vecs)))))))"

section \<open>The index of durable jobs\<close>

definition getenv :: "(string, string) dict \<Rightarrow> string \<Rightarrow> string" where
  "getenv env name = (case environ_get env name of Some v \<Rightarrow> v | None \<Rightarrow> [])"

definition is_configured_from_environment :: "(string, string) dict \<Rightarrow> bool" where
  "is_configured_from_environment env \<longleftrightarrow>
     (getenv env ''RAG_SEARCH_URL'' \<noteq> [] \<or> getenv env ''RAG_ELASTICSEARCH_URL'' \<noteq> []) \<and>
     getenv env ''RAG_OLLAMA_URL'' \<noteq> [] \<and> getenv env ''RAG_EMBEDDING_MODEL'' \<noteq> []"

definition environ_item :: "(string, string) dict \<Rightarrow> string \<Rightarrow> string result" where
  "environ_item env name = (case environ_get env name of Some v \<Rightarrow> Inr v | None \<Rightarrow> Inl (KeyError name))"

definition index_from_environment ::
  "string \<Rightarrow> string \<Rightarrow> jdict \<Rightarrow> string list \<Rightarrow> (string, string) dict \<Rightarrow> HybridSearchIndex result" where
  "index_from_environment name id_field properties keyword_fields env =
     bindE (if getenv env ''RAG_SEARCH_URL'' \<noteq> [] then Inr (getenv env ''RAG_SEARCH_URL'')
            else environ_item env ''RAG_ELASTICSEARCH_URL'') (\<lambda>search_url.
     bindE (environ_item env ''RAG_OLLAMA_URL'') (\<lambda>ollama_url.
     bindE (environ_item env ''RAG_EMBEDDING_MODEL'') (\<lambda>model.
       new_index name id_field properties keyword_fields ollama_url model search_url
         (case environ_get env ''RAG_SEARCH_BACKEND'' of Some b \<Rightarrow> b | None \<Rightarrow> ''elasticsearch''))))"

definition field_type :: "string \<Rightarrow> string \<Rightarrow> string \<times> json" where
  "field_type name ty = (name, JObj [(''type'', JStr ty)])"

definition job_history_from_environment :: "(string, string) dict \<Rightarrow> HybridSearchIndex result" where
  "job_history_from_environment = index_from_environment ''operator-durable-jobs-v1'' ''job_id''
     [field_type ''job_id'' ''keyword'', field_type ''job_type'' ''keyword'', field_type ''run_key'' ''keyword'',
      field_type ''status'' ''keyword'', field_type ''error_summary'' ''text'', field_type ''result_summary'' ''text'',
      field_type ''requested_at'' ''date'', field_type ''updated_at'' ''date'']
     [''job_type^3'', ''run_key^2'', ''status^2'', ''error_summary'', ''result_summary'']"

definition summary_text :: "string option \<Rightarrow> string option" where
  "summary_text v = (case v of None \<Rightarrow> None | Some s \<Rightarrow> let t = take 500 (strip s) in if t = [] then None else Some t)"

definition result_summary :: "jdict option \<Rightarrow> string option" where
  "result_summary result = (case result of None \<Rightarrow> None | Some d \<Rightarrow> if d = [] then None
     else summary_text (Some (join '', '' (sorted_by id (filter (\<lambda>k. k \<noteq> []) (map (\<lambda>kv. strip (fst kv)) d))))))"

definition opt_str :: "string option \<Rightarrow> json" where
  "opt_str v = (case v of None \<Rightarrow> JNull | Some s \<Rightarrow> JStr s)"

definition job_source :: "(time \<Rightarrow> string) \<Rightarrow> DurableJobRecord \<Rightarrow> jdict" where
  "job_source isoformat j = [(''job_id'', JStr (dj_job_id j)), (''job_type'', JStr (dj_job_type j)), (''run_key'', JStr (dj_run_key j)),
     (''status'', JStr (dj_status j)), (''error_summary'', opt_str (summary_text (dj_error j))),
     (''result_summary'', opt_str (result_summary (dj_result j))),
     (''requested_at'', JStr (isoformat (dj_requested_at j))), (''updated_at'', JStr (isoformat (dj_updated_at j)))]"

text \<open>The non-empty strings among the values, joined by line breaks.\<close>

definition text_lines :: "json list \<Rightarrow> string" where
  "text_lines vs = join [CHR 0x0A] (concat (map (\<lambda>v. case v of JStr s \<Rightarrow> if s = [] then [] else [s] | _ \<Rightarrow> []) vs))"

definition job_content :: "jdict \<Rightarrow> string" where
  "job_content source = text_lines (map (\<lambda>k. the (dict_get source k))
     [''job_type'', ''run_key'', ''status'', ''error_summary'', ''result_summary''])"

definition index_jobs ::
  "'s search_http \<Rightarrow> pytext \<Rightarrow> (time \<Rightarrow> string) \<Rightarrow> HybridSearchIndex \<Rightarrow> DurableJobRecord list \<Rightarrow> ('s, nat) io" where
  "index_jobs H T isoformat x records =
     index_documents H T x (map (\<lambda>s. (s, job_content s)) (map (job_source isoformat) records))"

section \<open>Reciprocal rank fusion\<close>

text \<open>The reference: the rank of an identifier in a list of hits, counted from \<open>r\<close>, and its score.\<close>

fun rank_in :: "nat \<Rightarrow> (string \<times> 'a) list \<Rightarrow> string \<Rightarrow> nat option" where
  "rank_in r [] i = None"
| "rank_in r (h # hs) i = (if fst h = i then Some r else rank_in (r + 1) hs i)"

definition rrf :: "'f score_ops \<Rightarrow> (string \<times> 'a) list \<Rightarrow> (string \<times> 'a) list \<Rightarrow> string \<Rightarrow> 'f" where
  "rrf F kws vecs i = (let with_rank = (\<lambda>s r. case r of None \<Rightarrow> s | Some k \<Rightarrow> sc_add F s (sc_recip F k))
     in with_rank (with_rank (sc_zero F) (rank_in 1 kws i)) (rank_in 1 vecs i))"

definition source_of :: "(string \<times> jdict) list \<Rightarrow> (string \<times> jdict) list \<Rightarrow> string \<Rightarrow> jdict" where
  "source_of kws vecs i = (case map_of vecs i of Some s \<Rightarrow> s | None \<Rightarrow> the (map_of kws i))"

lemma rank_in_None: "rank_in r hs i = None \<longleftrightarrow> i \<notin> fst ` set hs"
  by (induction hs arbitrary: r) auto

lemma add_hits_get:
  "distinct (map fst hs) \<Longrightarrow>
   dict_get (fst (add_hits F r hs acc)) i = (case map_of hs i of Some s \<Rightarrow> Some s | None \<Rightarrow> dict_get (fst acc) i) \<and>
   dict_get (snd (add_hits F r hs acc)) i = (case rank_in r hs i of None \<Rightarrow> dict_get (snd acc) i
     | Some k \<Rightarrow> Some (sc_add F (case dict_get (snd acc) i of Some s \<Rightarrow> s | None \<Rightarrow> sc_zero F) (sc_recip F k)))"
proof (induction hs arbitrary: r acc)
  case (Cons h hs)
  obtain j s where h: "h = (j, s)" by (cases h)
  have n: "map_of hs j = None" "rank_in (r + 1) hs j = None" using Cons.prems h by (auto simp: rank_in_None map_of_eq_None_iff)
  show ?case using Cons.IH [of "r + 1" "add_hit F r h acc"] Cons.prems h n
    by (cases "i = j") (auto simp: add_hit_def split: prod.splits option.splits)
qed simp

lemma add_hits_wf: "dict_wf (snd acc) \<Longrightarrow> dict_wf (snd (add_hits F r hs acc))"
  by (induction hs arbitrary: r acc) (auto simp: add_hit_def split: prod.splits)

lemma rrf_score:
  assumes "distinct (map fst kws)" "distinct (map fst vecs)"
  shows "dict_get (snd (merge_rankings F kws vecs)) i =
    (if i \<in> fst ` set kws \<union> fst ` set vecs then Some (rrf F kws vecs i) else None)"
  using add_hits_get [OF assms(2), of F 1 "add_hits F 1 kws ([], [])" i] add_hits_get [OF assms(1), of F 1 "([], [])" i]
    rank_in_None [of 1 kws i] rank_in_None [of 1 vecs i]
  by (cases "rank_in 1 kws i"; cases "rank_in 1 vecs i") (auto simp: merge_rankings_def rrf_def Let_def)

lemma fused_source:
  assumes "distinct (map fst kws)" "distinct (map fst vecs)" "i \<in> fst ` set kws \<union> fst ` set vecs"
  shows "dict_get (fst (merge_rankings F kws vecs)) i = Some (source_of kws vecs i)"
proof -
  note v = add_hits_get [OF assms(2), of F 1 "add_hits F 1 kws ([], [])" i, THEN conjunct1]
  note k = add_hits_get [OF assms(1), of F 1 "([], [])" i, THEN conjunct1]
  show ?thesis
  proof (cases "map_of vecs i")
    case None
    then have "i \<in> fst ` set kws" using assms(3) by (auto simp: map_of_eq_None_iff)
    then obtain s where "map_of kws i = Some s" by (metis map_of_eq_None_iff not_None_eq)
    then show ?thesis using v k None by (simp add: merge_rankings_def source_of_def)
  next
    case (Some s)
    then show ?thesis using v by (simp add: merge_rankings_def source_of_def)
  qed
qed

text \<open>Sorting a descending list by a key is stable: equal keys stay in descending order.\<close>

lemma insort_lex:
  fixes f :: "'a::linorder \<Rightarrow> 'f::linorder"
  shows "sorted_wrt (\<lambda>i j. f i < f j \<or> f i = f j \<and> j < i) zs \<Longrightarrow> \<forall>z\<in>set zs. z < x \<Longrightarrow>
    sorted_wrt (\<lambda>i j. f i < f j \<or> f i = f j \<and> j < i) (insort_key f x zs)"
proof (induction zs)
  case (Cons y ys)
  show ?case
  proof (cases "f x \<le> f y")
    case True
    have "f x < f z \<or> f x = f z \<and> z < x" if "z \<in> set (y # ys)" for z
    proof -
      have "f y \<le> f z" using Cons.prems(1) that by auto
      then show ?thesis using True Cons.prems(2) that by force
    qed
    then show ?thesis using True Cons.prems(1) by auto
  next
    case False
    then show ?thesis using Cons by (auto simp: set_insort_key)
  qed
qed simp

lemma sort_lex:
  fixes f :: "'a::linorder \<Rightarrow> 'f::linorder"
  shows "sorted_wrt (>) xs \<Longrightarrow> sorted_wrt (\<lambda>i j. f i < f j \<or> f i = f j \<and> j < i) (sort_key f xs)"
  by (induction xs) (auto intro!: insort_lex)


definition whole_scores :: "int score_ops" where
  "whole_scores = \<lparr>sc_zero = 0, sc_recip = (\<lambda>r. 1000000 div (60 + int r)), sc_add = (+)\<rparr>"


end
