(* ===== verification/News.thy ===== *)
theory News
  imports Search Repositories
begin

text \<open>
  News: the article as the providers deliver it (\<open>modules/news/models.py\<close>), its normalisation from Yahoo
  Finance payloads (\<open>modules/news/yahoo.py\<close>), the table of articles keyed by the hash of the source URL
  (\<open>modules/news/persistence.py\<close>) and the search index (\<open>modules/news/search.py\<close>).

  yfinance is an argument: \<open>fetch\<close> gives the payloads of a symbol, or nothing when it does not answer in
  time. \<open>parse_iso\<close> is \<open>datetime.fromisoformat\<close>, reading a time without zone as UTC.
\<close>

record ProviderArticle =
  pa_source_key :: string
  pa_source_url :: string
  pa_provider :: string
  pa_title :: string
  pa_symbol :: string
  pa_published_at :: "time option"
  pa_publisher :: "string option"
  pa_content :: "string option"

section \<open>Yahoo Finance\<close>

record yahoo_libs =
  yl_sha256 :: "string \<Rightarrow> string"
  yl_parse_iso :: "string \<Rightarrow> time result"
  yl_floats :: float_ops

definition stripped :: "json option \<Rightarrow> string option" where
  "stripped v = (case v of Some (JStr s) \<Rightarrow> if strip s = [] then None else Some (strip s) | _ \<Rightarrow> None)"

text \<open>\<open>a or b\<close> on the results of \<open>dict.get\<close>.\<close>

definition or_get :: "json option \<Rightarrow> json option \<Rightarrow> json option" where
  "or_get a b = (case a of Some v \<Rightarrow> if truthy v then a else b | None \<Rightarrow> b)"

text \<open>\<open>datetime.fromtimestamp(n, UTC)\<close> for the years 1 to 9999.\<close>

definition from_timestamp :: "time \<Rightarrow> time result" where
  "from_timestamp t = (if seconds (-62135596800) \<le> t \<and> t \<le> DATETIME_MAX then Inr t else Inl (ValueError ''year is out of range''))"

definition published_at :: "yahoo_libs \<Rightarrow> json option \<Rightarrow> time option result" where
  "published_at Y v = (case v of
       Some (JInt n) \<Rightarrow> bindE (from_timestamp (seconds n)) (\<lambda>t. Inr (Some t))
     | Some (JBool b) \<Rightarrow> Inr (Some (seconds (if b then 1 else 0)))
     | Some (JFloat x) \<Rightarrow> if fo_finite (yl_floats Y) x then bindE (from_timestamp (fo_micros (yl_floats Y) x)) (\<lambda>t. Inr (Some t))
                         else Inl (ValueError ''cannot convert float'')
     | Some (JStr s) \<Rightarrow> (case yl_parse_iso Y s of Inr t \<Rightarrow> Inr (Some t)
                        | Inl e \<Rightarrow> if is_value_error e then Inr None else Inl e)
     | _ \<Rightarrow> Inr None)"

definition publisher_name :: "json option \<Rightarrow> string option" where
  "publisher_name v = (case v of
       Some (JObj d) \<Rightarrow> (case stripped (dict_get d ''displayName'') of Some s \<Rightarrow> Some s | None \<Rightarrow> stripped (dict_get d ''name''))
     | _ \<Rightarrow> stripped v)"

definition first_of :: "'a option \<Rightarrow> 'a option \<Rightarrow> 'a option" where
  "first_of a b = (case a of Some x \<Rightarrow> Some x | None \<Rightarrow> b)"

definition article_url :: "jdict \<Rightarrow> string option" where
  "article_url values = first_of (first_of (stripped (dict_get values ''link'')) (stripped (dict_get values ''displayUrl'')))
     (case dict_get values ''canonicalUrl'' of Some (JObj c) \<Rightarrow> stripped (dict_get c ''url'') | _ \<Rightarrow> None)"

definition normalize_yahoo_article :: "yahoo_libs \<Rightarrow> string \<Rightarrow> json \<Rightarrow> ProviderArticle option result" where
  "normalize_yahoo_article Y symbol payload = (case payload of
       JObj p \<Rightarrow>
         (let values = (case dict_get p ''content'' of Some (JObj c) \<Rightarrow> c | _ \<Rightarrow> p) in
          case (stripped (dict_get values ''title''), article_url values) of
            (Some title, Some source_url) \<Rightarrow>
              bindE (published_at Y (or_get (dict_get values ''providerPublishTime'') (dict_get values ''pubDate''))) (\<lambda>published.
                Inr (Some \<lparr>pa_source_key = yl_sha256 Y source_url, pa_source_url = source_url, pa_provider = ''yahoo'',
                  pa_title = title, pa_symbol = upper (strip symbol), pa_published_at = published,
                  pa_publisher = publisher_name (or_get (dict_get values ''publisher'') (dict_get values ''provider'')),
                  pa_content = first_of (first_of (stripped (dict_get values ''summary'')) (stripped (dict_get values ''description'')))
                    (Some title)\<rparr>))
          | _ \<Rightarrow> Inr None)
     | _ \<Rightarrow> Inl (AttributeError ''get''))"

fun somes :: "'a option list \<Rightarrow> 'a list" where
  "somes [] = []"
| "somes (None # xs) = somes xs"
| "somes (Some x # xs) = x # somes xs"

definition collect_articles :: "yahoo_libs \<Rightarrow> string \<Rightarrow> json list \<Rightarrow> ProviderArticle list result" where
  "collect_articles Y symbol payloads = bindE (mapE (normalize_yahoo_article Y symbol) payloads) (\<lambda>xs. Inr (somes xs))"

text \<open>\<open>YahooFinanceNewsProvider.collect\<close>.\<close>

definition yahoo_collect ::
  "yahoo_libs \<Rightarrow> (string \<Rightarrow> ('s, json list option) io) \<Rightarrow> string \<Rightarrow> ('s, ProviderArticle list) io" where
  "yahoo_collect Y fetch symbol =
     (let normalized_symbol = upper (strip symbol) in
      if normalized_symbol = [] then raise (ValueError ''symbol must not be empty'')
      else catchS
        (bindS (fetch normalized_symbol) (\<lambda>answer. case answer of
            None \<Rightarrow> raise (YahooFinanceNewsTimeoutError (''Yahoo Finance timed out for '' @ normalized_symbol))
          | Some payloads \<Rightarrow> lift (collect_articles Y normalized_symbol payloads)))
        (\<lambda>e. raise (if is_yahoo_error e then e
           else YahooFinanceNewsProviderError (''Yahoo Finance request failed for '' @ normalized_symbol))))"

section \<open>Persistence\<close>

definition article_row :: "time \<Rightarrow> ProviderArticle \<Rightarrow> NewsArticleRecord" where
  "article_row collected_at a = \<lparr>nar_source_key = pa_source_key a, nar_source_url = pa_source_url a, nar_provider = pa_provider a,
     nar_title = pa_title a, nar_content = pa_content a, nar_symbol = pa_symbol a, nar_published_at = pa_published_at a,
     nar_publisher = pa_publisher a, nar_collected_at = collected_at\<rparr>"

text \<open>\<open>insert ... on conflict do nothing returning source_key\<close>: the keys of the rows that were inserted.\<close>

fun insert_rows :: "NewsArticleRecord list \<Rightarrow> NewsArticleRecord list \<Rightarrow> string list \<times> NewsArticleRecord list" where
  "insert_rows [] t = ([], t)"
| "insert_rows (r # rs) t = (case t_insert_if_absent nar_source_key r t of (n, t1) \<Rightarrow>
     (case insert_rows rs t1 of (ks, t2) \<Rightarrow> (if n = 0 then ks else nar_source_key r # ks, t2)))"

definition insert_many_returning_keys :: "ProviderArticle list \<Rightarrow> time \<Rightarrow> (db, string list) io" where
  "insert_many_returning_keys articles collected_at d =
     (let unique_articles = map snd (dict_of pa_source_key articles) in
      if unique_articles = [] then (Inr [], d)
      else case insert_rows (map (article_row collected_at) unique_articles) (news_articles d) of
        (ks, t) \<Rightarrow> (Inr ks, d\<lparr>news_articles := t\<rparr>))"

definition insert_many :: "ProviderArticle list \<Rightarrow> time \<Rightarrow> (db, nat) io" where
  "insert_many articles collected_at = bindS (insert_many_returning_keys articles collected_at) (\<lambda>ks. ret (length ks))"

definition article_of_row :: "NewsArticleRecord \<Rightarrow> ProviderArticle" where
  "article_of_row r = \<lparr>pa_source_key = nar_source_key r, pa_source_url = nar_source_url r, pa_provider = nar_provider r,
     pa_title = nar_title r, pa_symbol = nar_symbol r, pa_published_at = nar_published_at r,
     pa_publisher = nar_publisher r, pa_content = nar_content r\<rparr>"

definition find_by_source_keys :: "string list \<Rightarrow> (db, ProviderArticle list) io" where
  "find_by_source_keys ks = (if ks = [] then ret []
     else gets (\<lambda>d. map article_of_row (filter (\<lambda>r. nar_source_key r \<in> set ks) (news_articles d))))"

section \<open>The index of articles\<close>

definition news_index_from_environment :: "(string, string) dict \<Rightarrow> HybridSearchIndex result" where
  "news_index_from_environment = index_from_environment ''news-articles-v1'' ''source_key''
     [field_type ''source_key'' ''keyword'', (''source_url'', JObj [(''type'', JStr ''keyword''), (''index'', JBool False)]),
      field_type ''provider'' ''keyword'', field_type ''title'' ''text'', field_type ''content'' ''text'',
      field_type ''symbol'' ''keyword'', field_type ''published_at'' ''date'', field_type ''publisher'' ''keyword'']
     [''title^3'', ''content'', ''symbol^2'', ''publisher'']"

definition article_source :: "(time \<Rightarrow> string) \<Rightarrow> ProviderArticle \<Rightarrow> jdict" where
  "article_source isoformat a = [(''source_key'', JStr (pa_source_key a)), (''source_url'', JStr (pa_source_url a)),
     (''provider'', JStr (pa_provider a)), (''title'', JStr (pa_title a)), (''content'', opt_str (pa_content a)),
     (''symbol'', JStr (pa_symbol a)), (''published_at'', opt_str (map_option isoformat (pa_published_at a))),
     (''publisher'', opt_str (pa_publisher a))]"

definition article_content :: "ProviderArticle \<Rightarrow> string" where
  "article_content a = text_lines [JStr (pa_title a), opt_str (pa_content a), JStr (pa_symbol a), opt_str (pa_publisher a)]"

definition index_articles ::
  "'s search_http \<Rightarrow> pytext \<Rightarrow> (time \<Rightarrow> string) \<Rightarrow> HybridSearchIndex \<Rightarrow> ProviderArticle list \<Rightarrow> ('s, nat) io" where
  "index_articles H T isoformat x articles =
     index_documents H T x (map (\<lambda>a. (article_source isoformat a, article_content a)) articles)"

section \<open>Inserting articles\<close>

lemma insert_rows_spec:
  assumes "distinct (map nar_source_key rs)"
  shows "insert_rows rs t =
    (map nar_source_key (filter (\<lambda>r. nar_source_key r \<notin> nar_source_key ` set t) rs),
     t @ filter (\<lambda>r. nar_source_key r \<notin> nar_source_key ` set t) rs)"
  using assms
proof (induction rs arbitrary: t)
  case (Cons r rs)
  have f: "filter (\<lambda>x. nar_source_key x \<notin> nar_source_key ` set (t @ [r])) rs = filter (\<lambda>x. nar_source_key x \<notin> nar_source_key ` set t) rs"
    using Cons.prems by (intro filter_cong) (auto intro: rev_image_eqI)
  show ?case
  proof (cases "nar_source_key r \<in> nar_source_key ` set t")
    case True
    then show ?thesis using Cons.IH [of t] Cons.prems by (simp add: t_insert_if_absent_def)
  next
    case False
    then show ?thesis using Cons.IH [of "t @ [r]"] Cons.prems f by (simp add: t_insert_if_absent_def)
  qed
qed simp

lemma unique_articles: "distinct (map pa_source_key (map snd (dict_of pa_source_key xs)))"
proof -
  have "map pa_source_key (map snd (dict_of pa_source_key xs)) = map fst (dict_of pa_source_key xs)"
    using dict_of_key [of _ _ pa_source_key xs] by (auto simp: split_beta)
  then show ?thesis using dict_wf_of [of pa_source_key xs] unfolding dict_wf_def by metis
qed

text \<open>Inserting articles adds exactly the new ones, keeps the rows that are there, and inserting them
  again adds nothing.\<close>

lemma insert_many_spec:
  "insert_many_returning_keys articles now d =
     (let new = filter (\<lambda>a. pa_source_key a \<notin> nar_source_key ` set (news_articles d)) (map snd (dict_of pa_source_key articles))
      in (Inr (map pa_source_key new), d\<lparr>news_articles := news_articles d @ map (article_row now) new\<rparr>))"
proof -
  let ?u = "map snd (dict_of pa_source_key articles)"
  have "distinct (map nar_source_key (map (article_row now) ?u))"
    using unique_articles [of articles] by (simp add: o_def article_row_def)
  from insert_rows_spec [OF this, of "news_articles d"] show ?thesis
    by (auto simp: insert_many_returning_keys_def Let_def filter_map o_def article_row_def)
qed

end
