(* ===== verification/JobHandler.thy ===== *)
theory JobHandler
  imports KisMarket News
begin

text \<open>
  The durable job handler of the application (\<open>application/durable_job_handler.py\<close>) and the endpoint
  that requests a job (\<open>routers/durable_jobs.py\<close>). The worker of \<open>DurableJobs\<close> calls the handler with
  the execution it has claimed; the handler collects news, prices and candles, indexes articles and job
  records, and asks for a retry when the news provider or the search backend fails.

  The handler runs on the databases and the services of a \<open>plat\<close>. The services are those of a
  \<open>job_env\<close>; \<open>draw\<close> and the two UUIDs are what the execution draws. The worker's own theorems concern
  the databases only; \<open>handler_on_dbs\<close> is the handler as the worker sees it.
\<close>

record 's job_env =
  jb_lag :: "'s \<Rightarrow> nat"
  jb_fetch :: "string \<Rightarrow> ('s, json list option) io"
  jb_yahoo :: yahoo_libs
  jb_http :: "'s search_http"
  jb_text :: pytext
  jb_isoformat :: "time \<Rightarrow> string"
  jb_uuid5 :: uuid5_fun
  jb_indexer :: "HybridSearchIndex option"
  jb_history_indexer :: "HybridSearchIndex option"
  jb_environ :: environ
  jb_market :: "'s market_client result"

definition on_services :: "('s \<Rightarrow> nat) \<Rightarrow> ('s, 'a) io \<Rightarrow> ('s plat, 'a) io" where
  "on_services lag m = on_world (timed lag (\<lambda>_. m))"

definition clock :: "('s plat, time) io" where
  "clock = gets (\<lambda>p. wl_now (pl_world p))"

definition automation :: shard_target where
  "automation = global_target ''automation''"

section \<open>Payloads\<close>

definition domestic_stock_code_from_payload :: "jdict \<Rightarrow> string \<Rightarrow> string result" where
  "domestic_stock_code_from_payload payload job_type = (case dict_get payload ''stock_code'' of
       Some (JStr stock_code) \<Rightarrow>
         (let normalized = strip stock_code in
          if length normalized \<noteq> 6 \<or> \<not> isascii normalized \<or> \<not> isdecimal normalized
          then Inl (ValueError (job_type @ '' stock_code must be a six-digit domestic stock code''))
          else Inr normalized)
     | _ \<Rightarrow> Inl (TypeError (job_type @ '' payload requires a stock_code string'')))"

definition validate_durable_job_payload :: "string \<Rightarrow> jdict \<Rightarrow> unit result" where
  "validate_durable_job_payload job_type payload =
     (if job_type \<in> {''market_price_snapshot'', ''domestic_daily_candle_collection''}
      then bindE (domestic_stock_code_from_payload payload job_type) (\<lambda>_. Inr ()) else Inr ())"

text \<open>\<open>list(dict.fromkeys(f(s) for s in items if isinstance(s, str) and s.strip()))\<close>\<close>

definition normalized_items :: "(string \<Rightarrow> string) \<Rightarrow> json list \<Rightarrow> string list" where
  "normalized_items f items = dedup (concat (map (\<lambda>v. case v of JStr s \<Rightarrow> if strip s = [] then [] else [f s] | _ \<Rightarrow> []) items))"

definition symbols_from_payload :: "jdict \<Rightarrow> string list result" where
  "symbols_from_payload payload = (case dict_get payload ''symbols'' of
       Some (JArr symbols) \<Rightarrow>
         (let normalized = normalized_items (\<lambda>s. upper (strip s)) symbols in
          if normalized = [] then Inl (ValueError ''news_collection payload requires at least one symbol'') else Inr normalized)
     | _ \<Rightarrow> Inl (TypeError ''news_collection payload requires a symbols list''))"

definition source_keys_from_payload :: "jdict \<Rightarrow> string list result" where
  "source_keys_from_payload payload = (case dict_get payload ''source_keys'' of
       Some (JArr source_keys) \<Rightarrow>
         (let normalized = normalized_items strip source_keys in
          if normalized = [] then Inl (ValueError ''news_index payload requires at least one source key'') else Inr normalized)
     | _ \<Rightarrow> Inl (TypeError ''news_index payload requires a source_keys list''))"

definition history_request_from_payload :: "jdict \<Rightarrow> (string \<times> int) result" where
  "history_request_from_payload payload = (case dict_get payload ''history_job_type'' of
       Some (JStr job_type) \<Rightarrow>
         if dict_get JOB_DEFINITIONS job_type = None
         then Inl (ValueError ''history_job_type must name a configured durable job'')
         else (case (case dict_get payload ''limit'' of None \<Rightarrow> JInt 100 | Some v \<Rightarrow> v) of
             JInt limit \<Rightarrow> if 1 \<le> limit \<and> limit \<le> 100 then Inr (job_type, limit)
                          else Inl (ValueError ''history limit must be between 1 and 100'')
           | _ \<Rightarrow> Inl (ValueError ''history limit must be between 1 and 100''))
     | _ \<Rightarrow> Inl (ValueError ''history_job_type must name a configured durable job''))"

text \<open>A Boolean is an integer in Python.\<close>

definition news_retry_attempt :: "jdict \<Rightarrow> int" where
  "news_retry_attempt payload = (case dict_get payload ''_news_retry_attempt'' of
       Some (JInt n) \<Rightarrow> if 0 \<le> n then n else 0
     | Some (JBool b) \<Rightarrow> if b then 1 else 0
     | _ \<Rightarrow> 0)"

definition news_retry_root_run_key :: "DurableJobExecution \<Rightarrow> string" where
  "news_retry_root_run_key x = (case dict_get (je_payload x) ''_news_retry_root_run_key'' of
     Some (JStr root) \<Rightarrow> if root = [] then je_run_key x else root | _ \<Rightarrow> je_run_key x)"

definition is_transient_search_error :: "exn \<Rightarrow> bool" where
  "is_transient_search_error e = (case e of
       HttpxRequestError \<Rightarrow> True
     | HttpxStatusError n \<Rightarrow> n \<in> {408, 429} \<or> 500 \<le> n
     | _ \<Rightarrow> False)"

section \<open>Retries\<close>

definition MAX_NEWS_DURABLE_JOB_ATTEMPTS :: int where "MAX_NEWS_DURABLE_JOB_ATTEMPTS = 3"

definition retry_payload :: "DurableJobExecution \<Rightarrow> jdict \<Rightarrow> jdict" where
  "retry_payload x payload = dict_set ''_news_retry_root_run_key'' (JStr (news_retry_root_run_key x))
     (dict_set ''_news_retry_attempt'' (JInt (news_retry_attempt (je_payload x) + 1)) payload)"

definition retry_run_key :: "DurableJobExecution \<Rightarrow> string" where
  "retry_run_key x = news_retry_root_run_key x @ '':retry:'' @ string_of_int (news_retry_attempt (je_payload x) + 1)"

definition request_news_retry :: "draw \<Rightarrow> uuid \<Rightarrow> DurableJobExecution \<Rightarrow> jdict \<Rightarrow> ('s plat, unit) io" where
  "request_news_retry w new_id x payload =
     (let attempt = news_retry_attempt (je_payload x) in
      if MAX_NEWS_DURABLE_JOB_ATTEMPTS - 1 \<le> attempt then ret ()
      else bindS clock (\<lambda>now.
        bindS (on_store (with_session automation (job_request w new_id (je_job_type x) (retry_run_key x) (retry_payload x payload)
                 (Some (now + seconds (2 ^ nat (attempt + 1))))))) (\<lambda>_. ret ())))"

section \<open>Jobs\<close>

definition collect_market_price_snapshot :: "'s job_env \<Rightarrow> uuid \<Rightarrow> DurableJobExecution \<Rightarrow> ('s plat, jdict) io" where
  "collect_market_price_snapshot env snapshot_uuid x =
     bindS (lift (domestic_stock_code_from_payload (je_payload x) (je_job_type x))) (\<lambda>stock_code.
     bindS (lift (jb_market env)) (\<lambda>client.
     bindS (on_world (get_domestic_stock_price client stock_code)) (\<lambda>price.
     bindS clock (\<lambda>now.
     bindS (on_store (save_market_price_snapshot snapshot_uuid now price)) (\<lambda>snapshot.
       ret [(''job_type'', JStr (je_job_type x)), (''stock_code'', JStr (kp_stock_code price)),
            (''snapshot_id'', JStr (str_uuid (mp_snapshot_id snapshot)))])))))"

fun latest :: "string list \<Rightarrow> string option" where
  "latest [] = None"
| "latest (x # xs) = Some (foldl max x xs)"

definition collect_domestic_daily_candles :: "'s job_env \<Rightarrow> DurableJobExecution \<Rightarrow> ('s plat, jdict) io" where
  "collect_domestic_daily_candles env x =
     bindS (lift (domestic_stock_code_from_payload (je_payload x) (je_job_type x))) (\<lambda>stock_code.
     bindS (lift (jb_market env)) (\<lambda>client.
     bindS (on_world (get_domestic_daily_candles client stock_code)) (\<lambda>candles.
     bindS (on_store (save_domestic_daily_candles (jb_uuid5 env) candles)) (\<lambda>saved.
       ret [(''job_type'', JStr (je_job_type x)), (''stock_code'', JStr stock_code), (''candle_count'', JInt (int (length saved))),
            (''latest_trading_date'', opt_str (latest (map dc_trading_date saved)))]))))"

fun collect_symbols :: "'s job_env \<Rightarrow> string list \<Rightarrow> ('s plat, ProviderArticle list) io" where
  "collect_symbols env [] = ret []"
| "collect_symbols env (s # ss) =
     bindS (on_services (jb_lag env) (yahoo_collect (jb_yahoo env) (jb_fetch env) s)) (\<lambda>xs.
     bindS (collect_symbols env ss) (\<lambda>ys. ret (xs @ ys)))"

definition indexing_enabled :: "'s job_env \<Rightarrow> bool" where
  "indexing_enabled env \<longleftrightarrow> jb_indexer env \<noteq> None \<or> is_configured_from_environment (jb_environ env)"

definition history_indexing_enabled :: "'s job_env \<Rightarrow> bool" where
  "history_indexing_enabled env \<longleftrightarrow> jb_history_indexer env \<noteq> None \<or> is_configured_from_environment (jb_environ env)"

text \<open>The transaction that stores the articles and, in the same commit, asks for indexing.\<close>

definition collect_news_tx ::
  "bool \<Rightarrow> draw \<Rightarrow> uuid \<Rightarrow> time \<Rightarrow> DurableJobExecution \<Rightarrow> ProviderArticle list \<Rightarrow> (db, string list \<times> string option) io" where
  "collect_news_tx enabled w new_id now x articles =
     bindS (insert_many_returning_keys articles now) (\<lambda>source_keys.
     if enabled then
       bindS (job_request w new_id ''news_index'' (''news-index:'' @ je_job_id x)
                [(''source_keys'', JArr (map JStr source_keys))] None) (\<lambda>job. ret (source_keys, Some (jr_job_id job)))
     else ret (source_keys, None))"

definition collect_news :: "'s job_env \<Rightarrow> draw \<Rightarrow> uuid \<Rightarrow> DurableJobExecution \<Rightarrow> ('s plat, jdict) io" where
  "collect_news env w new_id x =
     bindS (lift (symbols_from_payload (je_payload x))) (\<lambda>symbols.
     bindS (catchS (collect_symbols env symbols) (\<lambda>e. if is_yahoo_error e
         then bindS (request_news_retry w new_id x [(''symbols'', JArr (map JStr symbols))]) (\<lambda>_. raise e) else raise e)) (\<lambda>articles.
     bindS clock (\<lambda>now.
     bindS (on_store (with_session automation (collect_news_tx (indexing_enabled env) w new_id now x articles)))
       (\<lambda>(source_keys, index_job_id).
       ret [(''job_type'', JStr (je_job_type x)), (''symbols'', JArr (map JStr symbols)),
            (''articles_collected'', JInt (int (length articles))), (''articles_inserted'', JInt (int (length source_keys))),
            (''index_job_id'', opt_str index_job_id),
            (''indexing_status'', JStr (if indexing_enabled env then ''requested'' else ''skipped''))]))))"

definition index_news :: "'s job_env \<Rightarrow> draw \<Rightarrow> uuid \<Rightarrow> DurableJobExecution \<Rightarrow> ('s plat, jdict) io" where
  "index_news env w new_id x =
     bindS (lift (source_keys_from_payload (je_payload x))) (\<lambda>source_keys.
     if \<not> indexing_enabled env then
       ret [(''job_type'', JStr (je_job_type x)), (''source_keys_requested'', JInt (int (length source_keys))),
            (''articles_indexed'', JInt 0), (''indexing_status'', JStr ''skipped'')]
     else
       bindS (on_store (with_session automation (find_by_source_keys source_keys))) (\<lambda>articles.
       if articles = [] then
         ret [(''job_type'', JStr (je_job_type x)), (''source_keys_requested'', JInt (int (length source_keys))),
              (''articles_indexed'', JInt 0)]
       else
         bindS (lift (case jb_indexer env of Some i \<Rightarrow> Inr i | None \<Rightarrow> news_index_from_environment (jb_environ env))) (\<lambda>indexer.
         bindS (catchS (on_services (jb_lag env) (index_articles (jb_http env) (jb_text env) (jb_isoformat env) indexer articles))
            (\<lambda>e. if is_httpx_error e \<and> is_transient_search_error e
                 then bindS (request_news_retry w new_id x [(''source_keys'', JArr (map JStr source_keys))]) (\<lambda>_. raise e)
                 else raise e)) (\<lambda>indexed.
           ret [(''job_type'', JStr (je_job_type x)), (''source_keys_requested'', JInt (int (length source_keys))),
                (''articles_indexed'', JInt (int indexed))]))))"

definition index_durable_job_history :: "'s job_env \<Rightarrow> DurableJobExecution \<Rightarrow> ('s plat, jdict) io" where
  "index_durable_job_history env x =
     bindS (lift (history_request_from_payload (je_payload x))) (\<lambda>(history_job_type, limit).
     if \<not> history_indexing_enabled env then
       ret [(''job_type'', JStr (je_job_type x)), (''history_job_type'', JStr history_job_type), (''records_indexed'', JInt 0),
            (''indexing_status'', JStr ''skipped'')]
     else
       bindS (on_store (with_session automation (job_list_recent history_job_type (nat limit)))) (\<lambda>records.
       bindS (lift (case jb_history_indexer env of Some i \<Rightarrow> Inr i | None \<Rightarrow> job_history_from_environment (jb_environ env))) (\<lambda>indexer.
       bindS (on_services (jb_lag env) (index_jobs (jb_http env) (jb_text env) (jb_isoformat env) indexer records)) (\<lambda>indexed.
         ret [(''job_type'', JStr (je_job_type x)), (''history_job_type'', JStr history_job_type),
              (''records_indexed'', JInt (int indexed))]))))"

definition handle :: "'s job_env \<Rightarrow> draw \<Rightarrow> uuid \<Rightarrow> uuid \<Rightarrow> DurableJobExecution \<Rightarrow> ('s plat, jdict option) io" where
  "handle env w new_id snapshot_uuid x =
     bindS (if je_job_type x = ''news_collection'' then collect_news env w new_id x
            else if je_job_type x = ''news_index'' then index_news env w new_id x
            else if je_job_type x = ''durable_job_history_index'' then index_durable_job_history env x
            else if je_job_type x = ''market_price_snapshot'' then collect_market_price_snapshot env snapshot_uuid x
            else if je_job_type x = ''domestic_daily_candle_collection'' then collect_domestic_daily_candles env x
            else raise (ValueError (''unsupported durable job type: '' @ je_job_type x))) (\<lambda>r. ret (Some r))"

definition handler_on_dbs :: "'s world \<Rightarrow> (DurableJobExecution \<Rightarrow> ('s plat, 'a) io) \<Rightarrow> DurableJobExecution \<Rightarrow> (dbs, 'a) io" where
  "handler_on_dbs w h x d = (case h x \<lparr>pl_dbs = d, pl_world = w\<rparr> of (r, p) \<Rightarrow> (r, pl_dbs p))"

section \<open>Requesting a job\<close>

definition trigger_durable_job ::
  "pytext \<Rightarrow> draw \<Rightarrow> uuid \<Rightarrow> string \<Rightarrow> string \<Rightarrow> jdict \<Rightarrow> (dbs, DurableJobRequestResult) io" where
  "trigger_durable_job T w new_id job_type run_key payload =
     bindS (lift (job_definition job_type)) (\<lambda>def.
     bindS (lift (catchE (validate_durable_job_payload job_type payload) (\<lambda>e.
        Inl (if is_type_error e \<or> is_value_error e then HTTPException 422 (py_str_exn T e) else e)))) (\<lambda>_.
       with_session (global_target (jd_store def)) (job_request w new_id job_type run_key payload None)))"

section \<open>Retries of news jobs\<close>

lemma on_services_dbs: "pl_dbs (snd (on_services lag m p)) = pl_dbs p"
  by (simp add: on_services_def on_world_def split: prod.splits)

lemma collect_symbols_dbs: "collect_symbols env ss p = (r, p') \<Longrightarrow> pl_dbs p' = pl_dbs p"
proof (induction ss arbitrary: p r p')
  case (Cons s ss)
  let ?m = "on_services (jb_lag env) (yahoo_collect (jb_yahoo env) (jb_fetch env) s)"
  obtain r1 p1 where 1: "?m p = (r1, p1)" by fastforce
  have d1: "pl_dbs p1 = pl_dbs p" using on_services_dbs [of "jb_lag env" _ p] 1 by (metis snd_conv)
  obtain r2 p2 where 2: "collect_symbols env ss p1 = (r2, p2)" by fastforce
  show ?case using Cons.prems 1 2 d1 Cons.IH [OF 2]
    by (cases r1; cases r2) (simp_all add: bindS_def)
qed simp

lemma retry_payload_facts:
  "news_retry_attempt (retry_payload x payload) = news_retry_attempt (je_payload x) + 1"
  "je_run_key x \<noteq> [] \<Longrightarrow> je_payload x' = retry_payload x payload \<Longrightarrow> news_retry_root_run_key x' = news_retry_root_run_key x"
  "k \<notin> {''_news_retry_attempt'', ''_news_retry_root_run_key''} \<Longrightarrow> dict_get (retry_payload x payload) k = dict_get payload k"
proof -
  have "0 \<le> news_retry_attempt (je_payload x)"
    by (auto simp: news_retry_attempt_def split: option.splits json.splits)
  then show "news_retry_attempt (retry_payload x payload) = news_retry_attempt (je_payload x) + 1"
    unfolding news_retry_attempt_def [of "retry_payload x payload"] by (simp add: retry_payload_def)
  show "news_retry_root_run_key x' = news_retry_root_run_key x" if "je_run_key x \<noteq> []" "je_payload x' = retry_payload x payload"
    using that by (auto simp: news_retry_root_run_key_def retry_payload_def split: option.splits json.splits)
  show "dict_get (retry_payload x payload) k = dict_get payload k" if "k \<notin> {''_news_retry_attempt'', ''_news_retry_root_run_key''}"
    using that by (simp add: retry_payload_def)
qed

definition news_job :: DurableJobDefinition where
  "news_job = \<lparr>jd_name = ''news_collection'', jd_store = ''automation'', jd_event_type = ''news.collection.requested'',
     jd_routing_key = ''news.collection.requested''\<rparr>"

text \<open>What a failed collection leaves behind: nothing after the last attempt, otherwise one requested
  job and its event, which the relay may publish \<open>2\<close> or \<open>4\<close> seconds later.\<close>

definition after_retry :: "draw \<Rightarrow> uuid \<Rightarrow> DurableJobExecution \<Rightarrow> jdict \<Rightarrow> time \<Rightarrow> db \<Rightarrow> db" where
  "after_retry w new_id x payload now d =
     (let rk = retry_run_key x; pl = retry_payload x payload in
      d\<lparr>durable_jobs := durable_jobs d @ [requested_job (dw_now w) (str_uuid new_id) ''news_collection'' rk pl],
        outbox_events := outbox_events d @ [request_event w news_job (str_uuid new_id) rk pl
          (Some (now + seconds (2 ^ nat (news_retry_attempt (je_payload x) + 1))))]\<rparr>)"

lemma request_news_retry_run:
  assumes "je_job_type x = ''news_collection''" and "engine_for (pl_dbs p) automation = Inr d" and "t_wf job_key (durable_jobs d)"
    and "t_get job_key (''news_collection'', retry_run_key x) (durable_jobs d) = None"
    and "str_uuid new_id \<notin> dj_job_id ` set (durable_jobs d)" and "event_id_fresh d (dw_event_id w)"
  shows "request_news_retry w new_id x payload p = (Inr (), if 2 \<le> news_retry_attempt (je_payload x) then p
    else p\<lparr>pl_dbs := commit_to automation (after_retry w new_id x payload (wl_now (pl_world p)) d) (pl_dbs p)\<rparr>)"
proof -
  have def: "dict_get JOB_DEFINITIONS ''news_collection'' = Some news_job"
    by (simp add: JOB_DEFINITIONS_def news_job_def dict_get_def)
  note run = job_request_run [OF assms(3) def, of w new_id "retry_run_key x" "retry_payload x payload"]
  show ?thesis using assms run
    by (simp add: request_news_retry_def MAX_NEWS_DURABLE_JOB_ATTEMPTS_def Let_def bindS_def clock_def on_store_def
        with_session_def after_retry_def)
qed

text \<open>
  C33: When the news provider fails, a collection job is retried at most twice. The job fails with the
  provider's error; at the first and second attempt exactly one new job is requested in the same store,
  with the run key of the first job, the number of the attempt and the same symbols, and its event is
  held back two and then four seconds; after the third attempt nothing is requested. The databases do
  not change otherwise.
\<close>

theorem news_retry_chain:
  assumes "je_job_type x = ''news_collection''" and "symbols_from_payload (je_payload x) = Inr symbols"
    and "collect_symbols env symbols p = (Inl e, p1)" and "is_yahoo_error e"
    and "engine_for (pl_dbs p) automation = Inr d" and "t_wf job_key (durable_jobs d)"
    and "t_get job_key (''news_collection'', retry_run_key x) (durable_jobs d) = None"
    and "str_uuid new_id \<notin> dj_job_id ` set (durable_jobs d)" and "event_id_fresh d (dw_event_id w)"
    and "je_run_key x \<noteq> []"
  defines "payload \<equiv> [(''symbols'', JArr (map JStr symbols))]"
  shows "handle env w new_id su x p = (Inl e, if 2 \<le> news_retry_attempt (je_payload x) then p1
      else p1\<lparr>pl_dbs := commit_to automation (after_retry w new_id x payload (wl_now (pl_world p1)) d) (pl_dbs p)\<rparr>) \<and>
    (\<forall>x'. je_payload x' = retry_payload x payload \<longrightarrow>
       news_retry_attempt (je_payload x') = news_retry_attempt (je_payload x) + 1 \<and>
       news_retry_root_run_key x' = news_retry_root_run_key x \<and>
       dict_get (je_payload x') ''symbols'' = Some (JArr (map JStr symbols)))"
proof -
  have p1: "pl_dbs p1 = pl_dbs p" using collect_symbols_dbs [OF assms(3)] .
  then have "request_news_retry w new_id x payload p1 = (Inr (), if 2 \<le> news_retry_attempt (je_payload x) then p1
      else p1\<lparr>pl_dbs := commit_to automation (after_retry w new_id x payload (wl_now (pl_world p1)) d) (pl_dbs p1)\<rparr>)"
    using assms by (intro request_news_retry_run) simp_all
  then have "handle env w new_id su x p = (Inl e, if 2 \<le> news_retry_attempt (je_payload x) then p1
      else p1\<lparr>pl_dbs := commit_to automation (after_retry w new_id x payload (wl_now (pl_world p1)) d) (pl_dbs p)\<rparr>)"
    using assms(1-4) p1 by (simp add: handle_def collect_news_def bindS_def catchS_def payload_def)
  moreover have "news_retry_root_run_key x' = news_retry_root_run_key x" if "je_payload x' = retry_payload x payload" for x'
    using retry_payload_facts(2) [OF assms(10) that] .
  ultimately show ?thesis using retry_payload_facts(1,3) by (auto simp: payload_def dict_get_def)
qed

definition retry_env :: "unit job_env" where
  "retry_env = \<lparr>jb_lag = (\<lambda>_. 0), jb_fetch = (\<lambda>_. ret None),
     jb_yahoo = \<lparr>yl_sha256 = (\<lambda>s. s), yl_parse_iso = (\<lambda>s. Inl (ValueError s)),
       yl_floats = \<lparr>fo_finite = (\<lambda>_. False), fo_positive = (\<lambda>_. False), fo_micros = (\<lambda>_. 0)\<rparr>\<rparr>,
     jb_http = \<lparr>sh_post = (\<lambda>_ _. raise HttpxRequestError), sh_post_lines = (\<lambda>_ _. raise HttpxRequestError),
       sh_head = (\<lambda>_. raise HttpxRequestError), sh_put = (\<lambda>_ _. raise HttpxRequestError)\<rparr>,
     jb_text = demo_text, jb_isoformat = (\<lambda>_. []), jb_uuid5 = (\<lambda>_ _. 0), jb_indexer = None, jb_history_indexer = None,
     jb_environ = [], jb_market = Inl HttpxRequestError\<rparr>"

definition retry_plat :: "unit plat" where
  "retry_plat = \<lparr>pl_dbs = \<lparr>rg_global = [(''automation'', empty_db)], rg_shard = []\<rparr>, pl_world = \<lparr>wl_now = 0, wl_svc = ()\<rparr>\<rparr>"

definition retry_execution :: DurableJobExecution where
  "retry_execution = \<lparr>je_job_id = ''j'', je_job_type = ''news_collection'', je_run_key = ''r'', je_payload = [(''symbols'', JArr [JStr '' aapl ''])]\<rparr>"

theorem news_retry_chain_witness:
  "\<exists>p1. handle retry_env (demo_draw 8) 2 3 retry_execution retry_plat =
     (Inl (YahooFinanceNewsTimeoutError ''Yahoo Finance timed out for AAPL''), retry_plat\<lparr>pl_dbs := commit_to automation
        (after_retry (demo_draw 8) 2 retry_execution [(''symbols'', JArr [JStr ''AAPL''])] 0 empty_db) (pl_dbs retry_plat)\<rparr>) \<and>
     retry_run_key retry_execution = ''r:retry:1'' \<and> collect_symbols retry_env [''AAPL''] retry_plat = p1"
proof -
  have 1: "je_job_type retry_execution = ''news_collection''" "je_run_key retry_execution \<noteq> []" by (simp_all add: retry_execution_def)
  have 2: "symbols_from_payload (je_payload retry_execution) = Inr [''AAPL'']" by code_simp
  have u: "upper (strip ''AAPL'') = ''AAPL''" by code_simp
  have 3: "collect_symbols retry_env [''AAPL''] retry_plat =
      (Inl (YahooFinanceNewsTimeoutError ''Yahoo Finance timed out for AAPL''), retry_plat)"
    using u by (simp add: retry_env_def retry_plat_def on_services_def on_world_def timed_def yahoo_collect_def bindS_def catchS_def Let_def)
  have 4: "engine_for (pl_dbs retry_plat) automation = Inr empty_db"
    by (simp add: retry_plat_def automation_def engine_for_def dict_get_def)
  have 5: "t_wf job_key (durable_jobs empty_db)" "t_get job_key (''news_collection'', retry_run_key retry_execution) (durable_jobs empty_db) = None"
    "str_uuid 2 \<notin> dj_job_id ` set (durable_jobs empty_db)" "event_id_fresh empty_db (dw_event_id (demo_draw 8))"
    by (simp_all add: empty_db_def t_wf_def t_get_def event_id_fresh_def)
  have 6: "news_retry_attempt (je_payload retry_execution) = 0" "wl_now (pl_world retry_plat) = 0"
    by (simp_all add: retry_execution_def news_retry_attempt_def dict_get_def retry_plat_def)
  have 7: "retry_run_key retry_execution = ''r:retry:1''" by code_simp
  from news_retry_chain [where su = 3, OF 1(1) 2 3 _ 4 5 1(2)] 3 6 7 show ?thesis by simp
qed

text \<open>A collection that stores no new article still asks for indexing, with an empty list of keys, and
  the indexing job fails on every execution.\<close>

lemma empty_index_job:
  assumes "insert_many_returning_keys articles now d = (Inr [], d)"
  shows "collect_news_tx True w new_id now x articles d =
      bindS (job_request w new_id ''news_index'' (''news-index:'' @ je_job_id x) [(''source_keys'', JArr [])] None)
        (\<lambda>job. ret ([], Some (jr_job_id job))) d"
    and "je_payload y = [(''source_keys'', JArr [])] \<Longrightarrow> index_news env w new_id y p =
      (Inl (ValueError ''news_index payload requires at least one source key''), p)"
  using assms
  by (simp_all add: collect_news_tx_def bindS_def index_news_def source_keys_from_payload_def dict_get_def normalized_items_def)

end
