(* ===== verification/Signals.thy ===== *)
theory Signals
  imports Account
begin

text \<open>
  Trading signals: subscriptions on the account shards (\<open>modules/signal/handlers.py\<close>,
  \<open>subscription_policy.py\<close>, the router), their projections and the delivery intents in the
  automation store (\<open>application/signal_subscriptions.py\<close>), the message handler of the worker
  (\<open>scripts/run_message_worker.py\<close>) and the notifications of a user
  (\<open>modules/notification/handlers.py\<close>, \<open>application/realtime_notifications.py\<close>).

  \<open>uuid5\<close> is an argument, as are pydantic's \<open>model_validate\<close> and \<open>model_dump(mode="json")\<close> on the
  models that travel in events (\<open>codec\<close>). The query inside the handler of a created signal runs in a
  session of its own on the same database; the rows it reads are not written by the handler, so it
  is modelled as a read in the handler's transaction.
\<close>

section \<open>Policy\<close>

definition normalize_domestic_stock_code :: "string \<Rightarrow> string result" where
  "normalize_domestic_stock_code stock_code =
     (let normalized = strip stock_code in
      if length normalized \<noteq> 6 \<or> \<not> is_ascii normalized \<or> \<not> isdecimal normalized
      then Inl (ValueError ''stock_code must be a six-digit domestic stock code'') else Inr normalized)"

definition subscription_id :: "uuid5_fun \<Rightarrow> uuid \<Rightarrow> string \<Rightarrow> uuid" where
  "subscription_id uuid5 user_id stock_code = uuid5 NAMESPACE_URL
     (''kis-auto-trading:signal-subscription:'' @ str_uuid user_id @ '':'' @ stock_code)"

section \<open>Signals and subscriptions\<close>

abbreviation AUTOMATION :: shard_target where "AUTOMATION \<equiv> global_target ''automation''"

record codec =
  cd_dump_signal :: "SignalEvent \<Rightarrow> jdict"
  cd_validate_signal :: "jdict \<Rightarrow> SignalEvent result"
  cd_dump_intent :: "SignalDeliveryIntent \<Rightarrow> jdict"
  cd_validate_intent :: "jdict \<Rightarrow> SignalDeliveryIntent result"
  cd_validate_projection :: "jdict \<Rightarrow> SignalSubscriptionProjection result"

definition record_signal_tx :: "codec \<Rightarrow> uuid \<Rightarrow> time \<Rightarrow> SignalEvent \<Rightarrow> (db, SignalEvent) io" where
  "record_signal_tx C event_id now signal =
     bindS (gets (\<lambda>d. SQL_SignalEvent_find_by_id (se_signal_id signal) (signal_events d))) (\<lambda>existing. case existing of
       Some e \<Rightarrow> ret e
     | None \<Rightarrow>
         bindS (modify (\<lambda>d. d\<lparr>signal_events := SQL_SignalEvent_save signal (signal_events d)\<rparr>)) (\<lambda>_.
         bindS (if se_expires_at signal = None then ret ()
                else outbox_add now (new_event event_id now ''signal.created'' (str_uuid (se_signal_id signal))
                       (cd_dump_signal C signal) ''signal.created'') None) (\<lambda>_. ret signal)))"

definition record_signal :: "codec \<Rightarrow> uuid \<Rightarrow> time \<Rightarrow> SignalEvent \<Rightarrow> (dbs, SignalEvent) io" where
  "record_signal C event_id now signal = with_session AUTOMATION (record_signal_tx C event_id now signal)"

definition subscription_location :: "SessionData \<Rightarrow> (uuid \<times> shard_target) result" where
  "subscription_location session = bindE (session_shard session) (\<lambda>shard_id.
     bindE (session_user session) (\<lambda>user_id. Inr (user_id, shard_of ''account'' shard_id)))"

definition stock_code_or_422 :: "string \<Rightarrow> string result" where
  "stock_code_or_422 stock_code = catchE (normalize_domestic_stock_code stock_code) (\<lambda>e.
     case e of ValueError m \<Rightarrow> Inl (HTTPException 422 m) | _ \<Rightarrow> Inl e)"

definition subscription_payload :: "SignalSubscription \<Rightarrow> shard_target \<Rightarrow> jdict" where
  "subscription_payload s target =
     [(''subscription_id'', JStr (str_uuid (su_subscription_id s))), (''user_id'', JStr (str_uuid (su_user_id s))),
      (''shard_id'', JStr (case st_shard_id target of None \<Rightarrow> [] | Some i \<Rightarrow> i)), (''stock_code'', JStr (su_stock_code s)),
      (''enabled'', JBool (su_enabled s)), (''revision'', JInt (su_revision s))]"

definition record_subscription_update :: "uuid \<Rightarrow> time \<Rightarrow> SignalSubscription \<Rightarrow> shard_target \<Rightarrow> (db, unit) io" where
  "record_subscription_update event_id now s target =
     outbox_add now (new_event event_id now ''signal.subscription.updated'' (str_uuid (su_subscription_id s))
       (subscription_payload s target) ''signal.subscription.updated'') None"

definition subscription_find :: "uuid \<Rightarrow> (db, SignalSubscription option) io" where
  "subscription_find i = gets (\<lambda>d. SQL_SignalSubscription_find_by_id i (signal_subscriptions d))"

definition subscription_save :: "SignalSubscription \<Rightarrow> (db, unit) io" where
  "subscription_save s = modify (\<lambda>d. d\<lparr>signal_subscriptions := SQL_SignalSubscription_save s (signal_subscriptions d)\<rparr>)"

definition subscribe_tx :: "uuid \<Rightarrow> time \<Rightarrow> uuid \<Rightarrow> uuid \<Rightarrow> string \<Rightarrow> shard_target \<Rightarrow> (db, SignalSubscription) io" where
  "subscribe_tx event_id now i user_id stock_code target =
     bindS (subscription_find i) (\<lambda>existing.
       case existing of Some e \<Rightarrow>
         if su_enabled e then ret e
         else let s = \<lparr>su_subscription_id = i, su_user_id = user_id, su_stock_code = stock_code, su_enabled = True,
                       su_revision = su_revision e + 1\<rparr>
              in bindS (subscription_save s) (\<lambda>_. bindS (record_subscription_update event_id now s target) (\<lambda>_. ret s))
       | None \<Rightarrow>
         let s = \<lparr>su_subscription_id = i, su_user_id = user_id, su_stock_code = stock_code, su_enabled = True,
                  su_revision = 0 + 1\<rparr>
         in bindS (subscription_save s) (\<lambda>_. bindS (record_subscription_update event_id now s target) (\<lambda>_. ret s)))"

definition subscribe :: "uuid5_fun \<Rightarrow> uuid \<Rightarrow> time \<Rightarrow> string \<Rightarrow> SessionData \<Rightarrow> (dbs, SignalSubscription) io" where
  "subscribe uuid5 event_id now requested_code current_session =
     bindS (lift (subscription_location current_session)) (\<lambda>(user_id, target).
     bindS (lift (stock_code_or_422 requested_code)) (\<lambda>stock_code.
     with_session target (subscribe_tx event_id now (subscription_id uuid5 user_id stock_code) user_id stock_code target)))"

definition unsubscribe_tx :: "uuid \<Rightarrow> time \<Rightarrow> uuid \<Rightarrow> uuid \<Rightarrow> string \<Rightarrow> shard_target \<Rightarrow> (db, SignalSubscription) io" where
  "unsubscribe_tx event_id now i user_id stock_code target =
     bindS (subscription_find i) (\<lambda>existing.
       case existing of None \<Rightarrow>
         ret \<lparr>su_subscription_id = i, su_user_id = user_id, su_stock_code = stock_code, su_enabled = False, su_revision = 1\<rparr>
       | Some e \<Rightarrow>
         if \<not> su_enabled e then ret e
         else let s = e\<lparr>su_enabled := False, su_revision := su_revision e + 1\<rparr>
              in bindS (subscription_save s) (\<lambda>_. bindS (record_subscription_update event_id now s target) (\<lambda>_. ret s)))"

definition unsubscribe :: "uuid5_fun \<Rightarrow> uuid \<Rightarrow> time \<Rightarrow> string \<Rightarrow> SessionData \<Rightarrow> (dbs, SignalSubscription) io" where
  "unsubscribe uuid5 event_id now requested_code current_session =
     bindS (lift (subscription_location current_session)) (\<lambda>(user_id, target).
     bindS (lift (stock_code_or_422 requested_code)) (\<lambda>stock_code.
     with_session target (unsubscribe_tx event_id now (subscription_id uuid5 user_id stock_code) user_id stock_code target)))"

text \<open>The endpoints; \<open>dump\<close> is \<open>model_dump_json\<close> of the request.\<close>

definition subscribe_endpoint ::
  "'r redis_api \<Rightarrow> sha256_fun \<Rightarrow> pytext \<Rightarrow> uuid5_fun \<Rightarrow> (string \<Rightarrow> string) \<Rightarrow> (SignalSubscription \<Rightarrow> json) \<Rightarrow> time \<Rightarrow> time
     \<Rightarrow> string \<Rightarrow> string option \<Rightarrow> uuid \<Rightarrow> string \<Rightarrow> string option \<Rightarrow> ('r app, SignalSubscription response) io" where
  "subscribe_endpoint api sha256 T uuid5 dump encode now now' token header event_id stock_code bearer =
     with_access (redis_sessions api) now USER bearer (\<lambda>session.
       idempotent api sha256 T now now' token header (''PUT:/subscription:'' @ dump stock_code) encode
         (subscribe uuid5 event_id now stock_code session))"

definition unsubscribe_endpoint ::
  "'r redis_api \<Rightarrow> sha256_fun \<Rightarrow> pytext \<Rightarrow> uuid5_fun \<Rightarrow> (string \<Rightarrow> string) \<Rightarrow> (SignalSubscription \<Rightarrow> json) \<Rightarrow> time \<Rightarrow> time
     \<Rightarrow> string \<Rightarrow> string option \<Rightarrow> uuid \<Rightarrow> string \<Rightarrow> string option \<Rightarrow> ('r app, SignalSubscription response) io" where
  "unsubscribe_endpoint api sha256 T uuid5 dump encode now now' token header event_id stock_code bearer =
     with_access (redis_sessions api) now USER bearer (\<lambda>session.
       idempotent api sha256 T now now' token header (''DELETE:/subscription:'' @ dump stock_code) encode
         (unsubscribe uuid5 event_id now stock_code session))"

section \<open>Queries\<close>

definition enabled_projections :: "string \<Rightarrow> nat \<Rightarrow> db \<Rightarrow> SignalSubscriptionProjection list" where
  "enabled_projections stock_code limit d = map SignalSubscriptionProjection_of_record
     (take limit (sort_key sjr_subscription_id
       (filter (\<lambda>r. sjr_stock_code r = stock_code \<and> sjr_enabled r) (signal_subscription_projections d))))"

definition list_enabled_signal_subscriptions :: "string \<Rightarrow> nat \<Rightarrow> (dbs, SignalSubscriptionProjection list) io" where
  "list_enabled_signal_subscriptions stock_code limit =
     bindS (lift (normalize_domestic_stock_code stock_code)) (\<lambda>normalized.
     with_session AUTOMATION (gets (enabled_projections normalized limit)))"

definition list_pending_signal_delivery_intents :: "string \<Rightarrow> nat \<Rightarrow> (dbs, SignalDeliveryIntent list) io" where
  "list_pending_signal_delivery_intents stock_code limit =
     bindS (lift (normalize_domestic_stock_code stock_code)) (\<lambda>normalized.
     with_session AUTOMATION (gets (\<lambda>d. map SignalDeliveryIntent_of_record
       (take limit (sort_key sir_intent_id
         (filter (\<lambda>r. sir_stock_code r = normalized \<and> sir_status r = ''pending'') (signal_delivery_intents d)))))))"

section \<open>The message handler of the worker\<close>

definition ACCOUNT_SHARD_URL_ENVS :: "(string, string) dict" where
  "ACCOUNT_SHARD_URL_ENVS = [(''1'', ''ACCOUNT_SHARD_1_DATABASE_URL''), (''2'', ''ACCOUNT_SHARD_2_DATABASE_URL'')]"

text \<open>\<open>repr\<close> of what \<open>payload.get(...)\<close> returned.\<close>

definition repr_member :: "pytext \<Rightarrow> json option \<Rightarrow> string" where
  "repr_member T v = (case v of None \<Rightarrow> ''None'' | Some (JStr s) \<Rightarrow> str_repr s | Some j \<Rightarrow> py_str T j)"

definition handle_profile_update :: "pytext \<Rightarrow> time \<Rightarrow> EventMessage \<Rightarrow> (dbs, unit) io" where
  "handle_profile_update T now m = (case dict_get (em_payload m) ''shard_id'' of
       Some (JStr shard_id) \<Rightarrow>
         if dict_get ACCOUNT_SHARD_URL_ENVS shard_id = None
         then raise (ValueError (''Invalid account shard: '' @ str_repr shard_id))
         else with_session (shard_of ''account'' shard_id) (bindS (inbox_claim now (em_event_id m)) (\<lambda>claimed. ret ()))
     | v \<Rightarrow> raise (ValueError (''Invalid account shard: '' @ repr_member T v)))"

definition as_value_error :: "string \<Rightarrow> 'a result \<Rightarrow> 'a result" where
  "as_value_error msg r = catchE r (\<lambda>e. if is_value_error e \<or> is_type_error e then Inl (ValueError msg) else Inl e)"

definition projection_from_payload :: "codec \<Rightarrow> jdict \<Rightarrow> SignalSubscriptionProjection result" where
  "projection_from_payload C payload =
     as_value_error ''Invalid signal subscription event payload''
       (bindE (cd_validate_projection C payload) (\<lambda>p. bindE (normalize_domestic_stock_code (sj_stock_code p)) (\<lambda>code.
          Inr (p\<lparr>sj_stock_code := code\<rparr>))))"

definition signal_from_payload :: "codec \<Rightarrow> jdict \<Rightarrow> SignalEvent result" where
  "signal_from_payload C payload =
     as_value_error ''Invalid signal event payload''
       (bindE (cd_validate_signal C payload) (\<lambda>s. bindE (normalize_domestic_stock_code (se_stock_code s)) (\<lambda>code.
          Inr (s\<lparr>se_stock_code := code\<rparr>))))"

definition delivery_intent_from_payload :: "codec \<Rightarrow> jdict \<Rightarrow> SignalDeliveryIntent result" where
  "delivery_intent_from_payload C payload =
     as_value_error ''Invalid signal delivery intent event payload''
       (bindE (cd_validate_intent C payload) (\<lambda>i. bindE (normalize_domestic_stock_code (si_stock_code i)) (\<lambda>code.
          Inr (i\<lparr>si_stock_code := code\<rparr>))))"

definition projection_tx :: "time \<Rightarrow> string \<Rightarrow> SignalSubscriptionProjection \<Rightarrow> (db, unit) io" where
  "projection_tx now event_id p =
     bindS (inbox_claim now event_id) (\<lambda>claimed.
     if \<not> claimed then ret ()
     else bindS (gets (\<lambda>d. SQL_SignalSubscriptionProjection_find_by_id (sj_subscription_id p) (signal_subscription_projections d)))
       (\<lambda>existing.
        if (case existing of None \<Rightarrow> False | Some e \<Rightarrow> sj_revision p \<le> sj_revision e) then ret ()
        else modify (\<lambda>d. d\<lparr>signal_subscription_projections :=
               SQL_SignalSubscriptionProjection_save p (signal_subscription_projections d)\<rparr>)))"

definition handle_signal_subscription_update :: "codec \<Rightarrow> time \<Rightarrow> EventMessage \<Rightarrow> (dbs, unit) io" where
  "handle_signal_subscription_update C now m =
     bindS (lift (projection_from_payload C (em_payload m))) (\<lambda>p.
     with_session AUTOMATION (projection_tx now (em_event_id m) p))"

definition delivery_intent :: "uuid5_fun \<Rightarrow> SignalEvent \<Rightarrow> time \<Rightarrow> SignalSubscriptionProjection \<Rightarrow> SignalDeliveryIntent" where
  "delivery_intent uuid5 signal expires_at p = \<lparr>
     si_intent_id = uuid5 NAMESPACE_URL (str_uuid (se_signal_id signal) @ '':'' @ str_uuid (sj_subscription_id p)),
     si_signal_id = se_signal_id signal, si_subscription_id = sj_subscription_id p, si_user_id = sj_user_id p,
     si_shard_id = sj_shard_id p, si_stock_code = se_stock_code signal, si_expires_at = expires_at, si_status = ''pending''\<rparr>"

definition materialize_intent :: "codec \<Rightarrow> uuid \<Rightarrow> time \<Rightarrow> SignalDeliveryIntent \<Rightarrow> (db, unit) io" where
  "materialize_intent C event_id now intent =
     bindS (gets (\<lambda>d. SQL_SignalDeliveryIntent_find_by_id (si_intent_id intent) (signal_delivery_intents d))) (\<lambda>found.
     if found \<noteq> None then ret ()
     else bindS (modify (\<lambda>d. d\<lparr>signal_delivery_intents := SQL_SignalDeliveryIntent_save intent (signal_delivery_intents d)\<rparr>)) (\<lambda>_.
          outbox_add now (new_event event_id now ''signal.delivery-intent.created'' (str_uuid (si_intent_id intent))
            (cd_dump_intent C intent) IN_APP_NOTIFICATION_ROUTING_KEY) None))"

text \<open>The loop over the projections; \<open>event_ids\<close> gives the identifier each iteration would draw.\<close>

fun materialize_intents :: "codec \<Rightarrow> (nat \<Rightarrow> uuid) \<Rightarrow> time \<Rightarrow> nat \<Rightarrow> SignalDeliveryIntent list \<Rightarrow> (db, unit) io" where
  "materialize_intents C event_ids now k [] = ret ()"
| "materialize_intents C event_ids now k (i # is) =
     bindS (materialize_intent C (event_ids k) now i) (\<lambda>_. materialize_intents C event_ids now (Suc k) is)"

definition SIGNAL_FANOUT_LIMIT :: nat where "SIGNAL_FANOUT_LIMIT = 1000"

definition signal_created_tx :: "codec \<Rightarrow> uuid5_fun \<Rightarrow> (nat \<Rightarrow> uuid) \<Rightarrow> time \<Rightarrow> string \<Rightarrow> SignalEvent \<Rightarrow> (db, unit) io" where
  "signal_created_tx C uuid5 event_ids now event_id signal =
     bindS (inbox_claim now event_id) (\<lambda>claimed.
     if \<not> claimed then ret ()
     else case se_expires_at signal of
       None \<Rightarrow> ret ()
     | Some expires_at \<Rightarrow>
         if expires_at \<le> now then ret ()
         else bindS (lift (normalize_domestic_stock_code (se_stock_code signal))) (\<lambda>code.
              bindS (gets (enabled_projections code SIGNAL_FANOUT_LIMIT)) (\<lambda>projections.
              materialize_intents C event_ids now 0 (map (delivery_intent uuid5 signal expires_at) projections))))"

definition handle_signal_created :: "codec \<Rightarrow> uuid5_fun \<Rightarrow> (nat \<Rightarrow> uuid) \<Rightarrow> time \<Rightarrow> EventMessage \<Rightarrow> (dbs, unit) io" where
  "handle_signal_created C uuid5 event_ids now m =
     bindS (lift (signal_from_payload C (em_payload m))) (\<lambda>signal.
     with_session AUTOMATION (signal_created_tx C uuid5 event_ids now (em_event_id m) signal))"

definition notification_channel :: "string \<Rightarrow> string result" where
  "notification_channel user_id = (if user_id = [] then Inl (ValueError ''notification user_id must not be empty'')
     else Inr (''notification:'' @ user_id))"

definition notification_hint :: "uuid \<Rightarrow> string" where
  "notification_hint notification_id = json_dumps True (JObj [(''notification_id'', JStr (str_uuid notification_id))])"

definition in_app_notification :: "uuid5_fun \<Rightarrow> time \<Rightarrow> SignalDeliveryIntent \<Rightarrow> InAppNotification" where
  "in_app_notification uuid5 now intent = \<lparr>
     no_notification_id = uuid5 NAMESPACE_URL (''in-app-notification:'' @ str_uuid (si_intent_id intent)),
     no_delivery_intent_id = si_intent_id intent, no_user_id = si_user_id intent, no_signal_id = si_signal_id intent,
     no_stock_code = si_stock_code intent, no_created_at = now, no_read_at = None\<rparr>"

text \<open>The transaction; it returns the notification when it was created.\<close>

definition notification_tx :: "uuid5_fun \<Rightarrow> time \<Rightarrow> string \<Rightarrow> SignalDeliveryIntent \<Rightarrow> (db, InAppNotification option) io" where
  "notification_tx uuid5 now event_id intent =
     bindS (inbox_claim now event_id) (\<lambda>claimed.
     if \<not> claimed then ret None
     else let n = in_app_notification uuid5 now intent in
       bindS (gets (\<lambda>d. SQL_InAppNotification_find_by_id (no_notification_id n) (in_app_notifications d))) (\<lambda>found.
       if found \<noteq> None then ret None
       else bindS (modify (\<lambda>d. d\<lparr>in_app_notifications := SQL_InAppNotification_save n (in_app_notifications d)\<rparr>))
              (\<lambda>_. ret (Some n))))"

text \<open>\<open>publish\<close> is the realtime backplane of the worker, when it has one.\<close>

definition handle_signal_delivery_intent_created ::
  "codec \<Rightarrow> uuid5_fun \<Rightarrow> (string \<Rightarrow> string \<Rightarrow> ('r, unit) io) option \<Rightarrow> time \<Rightarrow> EventMessage \<Rightarrow> ('r app, unit) io" where
  "handle_signal_delivery_intent_created C uuid5 publish now m =
     bindS (lift (delivery_intent_from_payload C (em_payload m))) (\<lambda>intent.
     if dict_get ACCOUNT_SHARD_URL_ENVS (si_shard_id intent) = None
     then raise (ValueError (''Invalid account shard: '' @ str_repr (si_shard_id intent)))
     else
       bindS (on_dbs (with_session (shard_of ''account'' (si_shard_id intent)) (notification_tx uuid5 now (em_event_id m) intent)))
         (\<lambda>created. case (created, publish) of
            (Some n, Some pub) \<Rightarrow>
              catchS (bindS (lift (notification_channel (str_uuid (no_user_id n)))) (\<lambda>channel.
                      on_redis (pub channel (notification_hint (no_notification_id n)))))
                (\<lambda>e. case e of RealtimeBackplaneError _ \<Rightarrow> ret () | _ \<Rightarrow> raise e)
          | _ \<Rightarrow> ret ()))"

definition message_handle ::
  "codec \<Rightarrow> pytext \<Rightarrow> uuid5_fun \<Rightarrow> (nat \<Rightarrow> uuid) \<Rightarrow> (string \<Rightarrow> string \<Rightarrow> ('r, unit) io) option \<Rightarrow> time \<Rightarrow> EventMessage
     \<Rightarrow> ('r app, unit) io" where
  "message_handle C T uuid5 event_ids publish now m =
     (if em_event_type m = ''account.profile.updated'' then on_dbs (handle_profile_update T now m)
      else if em_event_type m = ''signal.subscription.updated'' then on_dbs (handle_signal_subscription_update C now m)
      else if em_event_type m = ''signal.created'' then on_dbs (handle_signal_created C uuid5 event_ids now m)
      else if em_event_type m = ''signal.delivery-intent.created''
      then handle_signal_delivery_intent_created C uuid5 publish now m
      else raise (ValueError (''Unsupported event type: '' @ em_event_type m)))"

section \<open>Notifications of a user\<close>

definition notification_location :: "SessionData \<Rightarrow> (uuid \<times> shard_target) result" where
  "notification_location session = bindE (session_shard session) (\<lambda>shard_id.
     bindE (session_user session) (\<lambda>user_id. Inr (user_id, shard_of ''account'' shard_id)))"

definition list_user_notifications :: "SessionData \<Rightarrow> (dbs, InAppNotification list) io" where
  "list_user_notifications current_session =
     bindS (lift (notification_location current_session)) (\<lambda>(user_id, target).
     with_session target (gets (\<lambda>d. SQL_InAppNotification_list_by_user_id user_id (in_app_notifications d))))"

definition mark_read_tx :: "time \<Rightarrow> uuid \<Rightarrow> uuid \<Rightarrow> (db, InAppNotification) io" where
  "mark_read_tx now notification_id user_id =
     bindS (gets (\<lambda>d. SQL_InAppNotification_find_by_id notification_id (in_app_notifications d))) (\<lambda>found. case found of
       None \<Rightarrow> raise (HTTPException 404 ''Notification was not found'')
     | Some n \<Rightarrow>
         if no_user_id n \<noteq> user_id then raise (HTTPException 404 ''Notification was not found'')
         else if no_read_at n \<noteq> None then ret n
         else let updated = n\<lparr>no_read_at := Some now\<rparr> in
              bindS (modify (\<lambda>d. d\<lparr>in_app_notifications := SQL_InAppNotification_save updated (in_app_notifications d)\<rparr>))
                (\<lambda>_. ret updated))"

definition mark_user_notification_read :: "time \<Rightarrow> uuid \<Rightarrow> SessionData \<Rightarrow> (dbs, InAppNotification) io" where
  "mark_user_notification_read now notification_id current_session =
     bindS (lift (notification_location current_session)) (\<lambda>(user_id, target).
     with_session target (mark_read_tx now notification_id user_id))"

section \<open>Projections converge\<close>

definition projection_of :: "db \<Rightarrow> uuid \<Rightarrow> SignalSubscriptionProjection option" where
  "projection_of d i = SQL_SignalSubscriptionProjection_find_by_id i (signal_subscription_projections d)"

lemma projection_tx_run:
  "projection_tx now e p d = (Inr (),
     if e \<in> pm_event_id ` set (processed_messages d) then d
     else let d1 = d\<lparr>processed_messages := processed_messages d @ [\<lparr>pm_event_id = e, pm_processed_at = now\<rparr>]\<rparr> in
       if (case projection_of d (sj_subscription_id p) of None \<Rightarrow> False | Some q \<Rightarrow> sj_revision p \<le> sj_revision q) then d1
       else d1\<lparr>signal_subscription_projections := SQL_SignalSubscriptionProjection_save p (signal_subscription_projections d)\<rparr>)"
  by (simp add: projection_tx_def inbox_claim_def t_insert_if_absent_def bindS_def projection_of_def Let_def)

lemma projection_save: "projection_of (d\<lparr>signal_subscription_projections := SQL_SignalSubscriptionProjection_save p t\<rparr>) i =
    (if i = sj_subscription_id p then Some p else SQL_SignalSubscriptionProjection_find_by_id i t)"
  by (simp add: projection_of_def SQL_SignalSubscriptionProjection_find_by_id_def SQL_SignalSubscriptionProjection_save_def)

text \<open>The events applied one after the other.\<close>

fun apply_projections :: "(time \<times> string \<times> SignalSubscriptionProjection) list \<Rightarrow> db \<Rightarrow> db" where
  "apply_projections [] d = d"
| "apply_projections ((now, e, p) # xs) d = apply_projections xs (snd (projection_tx now e p d))"

lemma apply_projections_append: "apply_projections (xs @ ys) d = apply_projections ys (apply_projections xs d)"
  by (induction xs d rule: apply_projections.induct) auto

definition candidates :: "(time \<times> string \<times> SignalSubscriptionProjection) list \<Rightarrow> db \<Rightarrow> uuid \<Rightarrow> SignalSubscriptionProjection set" where
  "candidates xs d i = {p. (\<exists>t e. (t, e, p) \<in> set xs \<and> sj_subscription_id p = i) \<or> projection_of d i = Some p}"

definition is_latest :: "SignalSubscriptionProjection option \<Rightarrow> SignalSubscriptionProjection set \<Rightarrow> bool" where
  "is_latest r S = (case r of None \<Rightarrow> S = {} | Some q \<Rightarrow> q \<in> S \<and> (\<forall>p\<in>S. sj_revision p \<le> sj_revision q))"

lemma is_latest_insert:
  assumes "is_latest r S"
  shows "is_latest (if (case r of None \<Rightarrow> False | Some q \<Rightarrow> sj_revision p \<le> sj_revision q) then r else Some p) (insert p S)"
  using assms by (auto simp: is_latest_def split: option.splits)

lemma apply_projections_latest:
  assumes "fst ` snd ` set xs \<inter> pm_event_id ` set (processed_messages d) = {}"
    and "\<forall>t e p t' p'. (t, e, p) \<in> set xs \<longrightarrow> (t', e, p') \<in> set xs \<longrightarrow> p = p'"
  shows "is_latest (projection_of (apply_projections xs d) i) (candidates xs d i) \<and>
    pm_event_id ` set (processed_messages (apply_projections xs d)) = pm_event_id ` set (processed_messages d) \<union> fst ` snd ` set xs"
  using assms
proof (induction xs rule: rev_induct)
  case Nil
  then show ?case by (auto simp: candidates_def is_latest_def split: option.splits)
next
  case (snoc x xs)
  obtain t e p where x: "x = (t, e, p)" by (metis prod_cases3)
  let ?d = "apply_projections xs d"
  have IH: "is_latest (projection_of ?d i) (candidates xs d i)"
    "pm_event_id ` set (processed_messages ?d) = pm_event_id ` set (processed_messages d) \<union> fst ` snd ` set xs"
    using snoc.IH snoc.prems by (auto simp del: ex_simps)
  show ?case
  proof (cases "e \<in> pm_event_id ` set (processed_messages ?d)")
    case True
    then have "e \<in> fst ` snd ` set xs" using IH(2) snoc.prems(1) x by auto
    then obtain t' p' where m: "(t', e, p') \<in> set xs" by force
    have "(t', e, p') \<in> set (xs @ [x])" "(t, e, p) \<in> set (xs @ [x])" using m x by simp_all
    then have "p' = p" using snoc.prems(2) by blast
    then have "candidates (xs @ [x]) d i = candidates xs d i" using m x by (auto simp: candidates_def)
    moreover have "apply_projections (xs @ [x]) d = ?d" using True x by (simp add: apply_projections_append projection_tx_run)
    moreover have "fst ` snd ` set (xs @ [x]) = fst ` snd ` set xs" using \<open>e \<in> fst ` snd ` set xs\<close> x by auto
    ultimately show ?thesis using IH by simp
  next
    case False
    let ?d' = "snd (projection_tx t e p ?d)"
    have pr: "projection_of ?d' i = (if i = sj_subscription_id p then
        if (case projection_of ?d i of None \<Rightarrow> False | Some q \<Rightarrow> sj_revision p \<le> sj_revision q) then projection_of ?d i else Some p
        else projection_of ?d i)"
      using False by (auto simp: projection_tx_run Let_def projection_of_def
          SQL_SignalSubscriptionProjection_find_by_id_def SQL_SignalSubscriptionProjection_save_def)
    have c: "candidates (xs @ [x]) d i = (if i = sj_subscription_id p then insert p (candidates xs d i) else candidates xs d i)"
      using x by (auto simp: candidates_def)
    have "is_latest (projection_of ?d' i) (candidates (xs @ [x]) d i)"
      using is_latest_insert [OF IH(1), of p] IH(1) unfolding pr c by (cases "i = sj_subscription_id p") (simp_all only: simp_thms if_True if_False)
    moreover have "pm_event_id ` set (processed_messages ?d') = insert e (pm_event_id ` set (processed_messages ?d))"
      using False by (simp add: projection_tx_run Let_def)
    ultimately show ?thesis using IH(2) x by (simp add: apply_projections_append)
  qed
qed

text \<open>Deliveries to the worker: messages at times, in the order the broker delivers them.\<close>

fun deliver_updates :: "codec \<Rightarrow> (time \<times> EventMessage) list \<Rightarrow> dbs \<Rightarrow> dbs" where
  "deliver_updates C [] rg = rg"
| "deliver_updates C ((now, m) # ms) rg = deliver_updates C ms (snd (handle_signal_subscription_update C now m rg))"

lemma deliver_updates_run:
  assumes "engine_for rg AUTOMATION = Inr d" "\<forall>(t, m)\<in>set ms. projection_from_payload C (em_payload m) = Inr (pr m)"
  shows "engine_for (deliver_updates C ms rg) AUTOMATION = Inr (apply_projections (map (\<lambda>(t, m). (t, em_event_id m, pr m)) ms) d)"
  using assms
proof (induction C ms rg arbitrary: d rule: deliver_updates.induct)
  case (2 C now m ms rg)
  have "projection_from_payload C (em_payload m) = Inr (pr m)" using "2.prems"(2) by auto
  then have "handle_signal_subscription_update C now m rg = with_session AUTOMATION (projection_tx now (em_event_id m) (pr m)) rg"
    by (simp add: handle_signal_subscription_update_def)
  then have "engine_for (snd (handle_signal_subscription_update C now m rg)) AUTOMATION = Inr (snd (projection_tx now (em_event_id m) (pr m) d))"
    using "2.prems"(1) by (simp add: with_session_same projection_tx_run)
  from "2.IH" [OF this] show ?case using "2.prems"(2) by simp
qed simp

text \<open>
  C24: subscription projections converge. Whatever the order in which the broker delivers the
  update events of subscriptions to the worker, and however often it delivers each of them, the
  projection of every subscription ends as the one with the greatest revision among those delivered
  and the one stored before; a stale or repeated event never overwrites a newer one.
\<close>

theorem projections_converge:
  assumes "engine_for rg AUTOMATION = Inr d"
    and "\<forall>(t, m)\<in>set ms. projection_from_payload C (em_payload m) = Inr (pr m) \<and>
      em_event_id m \<notin> pm_event_id ` set (processed_messages d)"
    and "\<forall>(t, m)\<in>set ms. \<forall>(t', m')\<in>set ms. em_event_id m = em_event_id m' \<longrightarrow> pr m = pr m'"
  shows "\<exists>d'. engine_for (deliver_updates C ms rg) AUTOMATION = Inr d' \<and>
    (\<forall>i. let S = {pr m |t m. (t, m) \<in> set ms \<and> sj_subscription_id (pr m) = i} \<union> {p. projection_of d i = Some p}
         in case projection_of d' i of None \<Rightarrow> S = {}
            | Some q \<Rightarrow> q \<in> S \<and> (\<forall>p\<in>S. sj_revision p \<le> sj_revision q))"
proof -
  let ?xs = "map (\<lambda>(t, m). (t, em_event_id m, pr m)) ms"
  have e: "engine_for (deliver_updates C ms rg) AUTOMATION = Inr (apply_projections ?xs d)"
    by (rule deliver_updates_run [OF assms(1)]) (use assms(2) in auto)
  have 1: "fst ` snd ` set ?xs \<inter> pm_event_id ` set (processed_messages d) = {}" using assms(2) by auto
  have 2: "\<forall>t e p t' p'. (t, e, p) \<in> set ?xs \<longrightarrow> (t', e, p') \<in> set ?xs \<longrightarrow> p = p'" using assms(3) by fastforce
  have c: "candidates ?xs d i = {pr m |t m. (t, m) \<in> set ms \<and> sj_subscription_id (pr m) = i} \<union> {p. projection_of d i = Some p}" for i
    by (force simp: candidates_def)
  show ?thesis
    using e apply_projections_latest [OF 1 2] unfolding c is_latest_def Let_def by blast
qed

definition demo_projection :: "int \<Rightarrow> bool \<Rightarrow> SignalSubscriptionProjection" where
  "demo_projection r en = \<lparr>sj_subscription_id = 1, sj_user_id = 2, sj_shard_id = ''1'', sj_stock_code = ''005930'', sj_enabled = en, sj_revision = r\<rparr>"

text \<open>A codec for the examples: the projection's revision is read back from the payload.\<close>

definition demo_codec :: codec where
  "demo_codec = \<lparr>cd_dump_signal = (\<lambda>_. []), cd_validate_signal = (\<lambda>_. Inl (ValueError [])), cd_dump_intent = (\<lambda>_. []),
     cd_validate_intent = (\<lambda>_. Inl (ValueError [])),
     cd_validate_projection = (\<lambda>d. case dict_get d ''revision'' of Some (JInt r) \<Rightarrow> Inr (demo_projection r (r = 1))
        | _ \<Rightarrow> Inl (ValueError []))\<rparr>"

definition demo_update :: "int \<Rightarrow> EventMessage" where
  "demo_update r = \<lparr>em_event_type = ''signal.subscription.updated'', em_aggregate_id = [], em_payload = [(''revision'', JInt r)],
     em_routing_key = [], em_event_id = string_of_int r, em_event_version = 1, em_occurred_at = None\<rparr>"

definition update_revision :: "EventMessage \<Rightarrow> SignalSubscriptionProjection" where
  "update_revision m = (case projection_from_payload demo_codec (em_payload m) of Inr p \<Rightarrow> p | Inl _ \<Rightarrow> demo_projection 0 False)"

theorem projections_converge_witness:
  "\<exists>d'. engine_for (deliver_updates demo_codec [(0, demo_update 2), (1, demo_update 1), (2, demo_update 2)] account_dbs) AUTOMATION = Inr d' \<and>
    (\<forall>i. let S = {update_revision m |t m. (t, m) \<in> set [(0 :: time, demo_update 2), (1, demo_update 1), (2, demo_update 2)] \<and>
              sj_subscription_id (update_revision m) = i} \<union> {p. projection_of empty_db i = Some p}
         in case projection_of d' i of None \<Rightarrow> S = {}
            | Some q \<Rightarrow> q \<in> S \<and> (\<forall>p\<in>S. sj_revision p \<le> sj_revision q))"
proof (rule projections_converge [OF account_dbs_engines(3)])
  have "projection_from_payload demo_codec (em_payload (demo_update 2)) = Inr (update_revision (demo_update 2))"
    "projection_from_payload demo_codec (em_payload (demo_update 1)) = Inr (update_revision (demo_update 1))" by code_simp+
  then show "\<forall>(t, m)\<in>set [(0, demo_update 2), (1, demo_update 1), (2, demo_update 2)].
      projection_from_payload demo_codec (em_payload m) = Inr (update_revision m) \<and>
      em_event_id m \<notin> pm_event_id ` set (processed_messages empty_db)" by (simp add: empty_db_def)
  have "em_event_id (demo_update 2) \<noteq> em_event_id (demo_update 1)" by code_simp
  then show "\<forall>(t, m)\<in>set [(0, demo_update 2), (1, demo_update 1), (2, demo_update 2)].
      \<forall>(t', m')\<in>set [(0, demo_update 2), (1, demo_update 1), (2, demo_update 2)].
      em_event_id m = em_event_id m' \<longrightarrow> update_revision m = update_revision m'" by auto
qed

section \<open>Fan-out of a signal\<close>

lemma materialize_new:
  assumes "si_intent_id i \<notin> sir_intent_id ` set (signal_delivery_intents d)" "str_uuid u \<notin> oe_event_id ` set (outbox_events d)"
  shows "materialize_intent C u now i d = (Inr (), d\<lparr>
    signal_delivery_intents := signal_delivery_intents d @ [SignalDeliveryIntent_to_record i],
    outbox_events := outbox_events d @ [outbox_record now (new_event u now ''signal.delivery-intent.created'' (str_uuid (si_intent_id i))
            (cd_dump_intent C i) IN_APP_NOTIFICATION_ROUTING_KEY) None]\<rparr>)"
proof -
  have k: "sir_intent_id (SignalDeliveryIntent_to_record i) = si_intent_id i" by (simp add: SignalDeliveryIntent_to_record_def)
  have "t_get sir_intent_id (si_intent_id i) (signal_delivery_intents d) = None" using assms(1) by (simp add: t_get_None_iff)
  then show ?thesis using assms k merge_absent [of sir_intent_id "SignalDeliveryIntent_to_record i" "signal_delivery_intents d"]
    by (simp add: materialize_intent_def SQL_SignalDeliveryIntent_find_by_id_def SQL_SignalDeliveryIntent_save_def bindS_def
        outbox_add_def t_insert_def outbox_record_def)
qed

definition intent_event :: "codec \<Rightarrow> (nat \<Rightarrow> uuid) \<Rightarrow> time \<Rightarrow> nat \<Rightarrow> SignalDeliveryIntent \<Rightarrow> OutboxEventRecord" where
  "intent_event C event_ids now k i = outbox_record now (new_event (event_ids k) now ''signal.delivery-intent.created''
     (str_uuid (si_intent_id i)) (cd_dump_intent C i) IN_APP_NOTIFICATION_ROUTING_KEY) None"

lemma materialize_all:
  assumes "distinct (map si_intent_id is)" "set (map si_intent_id is) \<inter> sir_intent_id ` set (signal_delivery_intents d) = {}"
    and "inj_on event_ids {k..<k + length is}" "\<forall>j\<in>{k..<k + length is}. str_uuid (event_ids j) \<notin> oe_event_id ` set (outbox_events d)"
  shows "materialize_intents C event_ids now k is d = (Inr (), d\<lparr>
    signal_delivery_intents := signal_delivery_intents d @ map SignalDeliveryIntent_to_record is,
    outbox_events := outbox_events d @ map (\<lambda>j. intent_event C event_ids now (k + j) (is ! j)) [0..<length is]\<rparr>)"
  using assms
proof (induction "is" arbitrary: d k)
  case (Cons i "is")
  let ?d = "d\<lparr>signal_delivery_intents := signal_delivery_intents d @ [SignalDeliveryIntent_to_record i],
    outbox_events := outbox_events d @ [intent_event C event_ids now k i]\<rparr>"
  have "str_uuid (event_ids k) \<notin> oe_event_id ` set (outbox_events d)" using Cons.prems(4) by simp
  then have step: "materialize_intent C (event_ids k) now i d = (Inr (), ?d)"
    unfolding intent_event_def using Cons.prems(2) by (intro materialize_new) auto
  have k: "sir_intent_id (SignalDeliveryIntent_to_record i) = si_intent_id i" by (simp add: SignalDeliveryIntent_to_record_def)
  have oe: "oe_event_id (intent_event C event_ids now k i) = str_uuid (event_ids k)" by (simp add: intent_event_def outbox_record_def)
  have "materialize_intents C event_ids now (Suc k) is ?d = (Inr (), ?d\<lparr>
    signal_delivery_intents := signal_delivery_intents ?d @ map SignalDeliveryIntent_to_record is,
    outbox_events := outbox_events ?d @ map (\<lambda>j. intent_event C event_ids now (Suc k + j) (is ! j)) [0..<length is]\<rparr>)"
  proof (rule Cons.IH)
    have "event_ids j \<noteq> event_ids k" if "j \<in> {Suc k..<Suc k + length is}" for j
      using inj_onD [OF Cons.prems(3), of j k] that by auto
    then show "\<forall>j\<in>{Suc k..<Suc k + length is}. str_uuid (event_ids j) \<notin> oe_event_id ` set (outbox_events ?d)"
      using Cons.prems(4) oe by auto
    show "inj_on event_ids {Suc k..<Suc k + length is}" using Cons.prems(3) by (rule inj_on_subset) auto
  qed (use Cons.prems k in auto)
  moreover have "map (\<lambda>j. intent_event C event_ids now (k + j) ((i # is) ! j)) [0..<length (i # is)] =
      intent_event C event_ids now k i # map (\<lambda>j. intent_event C event_ids now (Suc k + j) (is ! j)) [0..<length is]"
    by (simp add: upt_conv_Cons map_Suc_upt [symmetric] o_def del: upt_Suc)
  ultimately show ?case using step by (simp add: bindS_def del: upt_Suc)
qed simp

lemma sorted_key_distinct: "distinct (map f xs) \<Longrightarrow> distinct (map f (sort_key g xs))"
  by (simp add: distinct_map)

lemma distinct_map_inj: "inj_on f (set xs) \<Longrightarrow> distinct xs \<Longrightarrow> distinct (map f xs)"
  by (simp add: distinct_map)

lemma enabled_projections_distinct:
  assumes "t_wf sjr_subscription_id (signal_subscription_projections d)"
  shows "distinct (map sj_subscription_id (enabled_projections stk limit d))"
proof -
  let ?f = "filter (\<lambda>r. sjr_stock_code r = stk \<and> sjr_enabled r) (signal_subscription_projections d)"
  have "distinct (map sjr_subscription_id ?f)" using assms by (simp add: t_wf_def distinct_map_filter)
  then have "distinct (map sjr_subscription_id (sort_key sjr_subscription_id ?f))" by (rule sorted_key_distinct)
  then have "distinct (map sjr_subscription_id (take limit (sort_key sjr_subscription_id ?f)))"
    by (simp add: take_map [symmetric] distinct_take)
  then show ?thesis by (simp add: enabled_projections_def o_def SignalSubscriptionProjection_of_record_def)
qed

lemma enabled_projections_length:
  "length (enabled_projections stk limit d) =
     min (length (filter (\<lambda>r. sjr_stock_code r = stk \<and> sjr_enabled r) (signal_subscription_projections d))) limit"
  by (simp add: enabled_projections_def)

text \<open>
  C25: the fan-out of a signal. Handling the event of a signal that has not expired, the first time,
  creates for each of the first 1000 enabled subscriptions of its stock in the order of their
  identifiers one pending delivery intent and one event, in one transaction with the inbox entry,
  and nothing else: exactly \<open>min n 1000\<close> of \<open>n\<close> subscribers are notified of the signal.
\<close>

theorem signal_fanout:
  assumes "engine_for rg AUTOMATION = Inr d" and "t_wf sjr_subscription_id (signal_subscription_projections d)"
    and "signal_from_payload C (em_payload m) = Inr signal" and "em_event_id m \<notin> pm_event_id ` set (processed_messages d)"
    and "se_expires_at signal = Some e" and "now < e"
    and "inj_on (\<lambda>i. uuid5 NAMESPACE_URL (str_uuid (se_signal_id signal) @ '':'' @ str_uuid i))
      (sj_subscription_id ` set (enabled_projections (se_stock_code signal) 1000 d))"
    and "\<forall>p\<in>set (enabled_projections (se_stock_code signal) 1000 d).
      uuid5 NAMESPACE_URL (str_uuid (se_signal_id signal) @ '':'' @ str_uuid (sj_subscription_id p)) \<notin> sir_intent_id ` set (signal_delivery_intents d)"
    and "inj_on event_ids {0..<1000}" and "\<forall>j\<in>{0..<1000}. str_uuid (event_ids j) \<notin> oe_event_id ` set (outbox_events d)"
  shows "let ps = enabled_projections (se_stock_code signal) 1000 d; is = map (delivery_intent uuid5 signal e) ps in
    handle_signal_created C uuid5 event_ids now m rg = (Inr (), commit_to AUTOMATION (d\<lparr>
      processed_messages := processed_messages d @ [\<lparr>pm_event_id = em_event_id m, pm_processed_at = now\<rparr>],
      signal_delivery_intents := signal_delivery_intents d @ map SignalDeliveryIntent_to_record is,
      outbox_events := outbox_events d @ map (\<lambda>j. intent_event C event_ids now j (is ! j)) [0..<length is]\<rparr>) rg) \<and>
    length is = min (length (filter (\<lambda>r. sjr_stock_code r = se_stock_code signal \<and> sjr_enabled r) (signal_subscription_projections d))) 1000"
proof -
  let ?ps = "enabled_projections (se_stock_code signal) 1000 d" and ?d = "d\<lparr>processed_messages := processed_messages d @
      [\<lparr>pm_event_id = em_event_id m, pm_processed_at = now\<rparr>]\<rparr>"
  let ?is = "map (delivery_intent uuid5 signal e) ?ps"
  have norm: "normalize_domestic_stock_code (se_stock_code signal) = Inr (se_stock_code signal)"
  proof -
    obtain s stk where s: "normalize_domestic_stock_code (se_stock_code s) = Inr stk" "signal = s\<lparr>se_stock_code := stk\<rparr>"
      using assms(3) by (auto simp: signal_from_payload_def as_value_error_def catchE_def bindE_eq_Inr split: sum.splits if_splits)
    then have c: "stk = strip (se_stock_code s)" "length stk = 6" "is_ascii stk" "isdecimal stk"
      by (auto simp: normalize_domestic_stock_code_def Let_def split: if_splits)
    have "strip stk = stk" using c(4) by (simp add: isdecimal_def strip_decimal)
    then show ?thesis using c s(2) by (simp add: normalize_domestic_stock_code_def)
  qed
  have same: "enabled_projections stk n ?d = enabled_projections stk n d" for stk n by (simp add: enabled_projections_def)
  have di: "si_intent_id (delivery_intent uuid5 signal e p) = uuid5 NAMESPACE_URL (str_uuid (se_signal_id signal) @ '':'' @ str_uuid (sj_subscription_id p))" for p
    by (simp add: delivery_intent_def)
  have "distinct (map (\<lambda>i. uuid5 NAMESPACE_URL (str_uuid (se_signal_id signal) @ '':'' @ str_uuid i)) (map sj_subscription_id ?ps))"
    by (rule distinct_map_inj [OF _ enabled_projections_distinct [OF assms(2)]]) (use assms(7) in simp)
  then have dist: "distinct (map si_intent_id ?is)" by (simp add: o_def di)
  have "materialize_intents C event_ids now 0 ?is ?d = (Inr (), ?d\<lparr>
    signal_delivery_intents := signal_delivery_intents ?d @ map SignalDeliveryIntent_to_record ?is,
    outbox_events := outbox_events ?d @ map (\<lambda>j. intent_event C event_ids now (0 + j) (?is ! j)) [0..<length ?is]\<rparr>)"
  proof (rule materialize_all)
    have n: "{0..<0 + length ?is} \<subseteq> {0..<1000}" using enabled_projections_length [of "se_stock_code signal" 1000 d] by auto
    show "inj_on event_ids {0..<0 + length ?is}" using assms(9) n by (rule inj_on_subset)
    show "\<forall>j\<in>{0..<0 + length ?is}. str_uuid (event_ids j) \<notin> oe_event_id ` set (outbox_events ?d)" using assms(10) n by auto
  qed (use dist assms(8) di in auto)
  then have "handle_signal_created C uuid5 event_ids now m rg = (Inr (), commit_to AUTOMATION (d\<lparr>
      processed_messages := processed_messages d @ [\<lparr>pm_event_id = em_event_id m, pm_processed_at = now\<rparr>],
      signal_delivery_intents := signal_delivery_intents d @ map SignalDeliveryIntent_to_record ?is,
      outbox_events := outbox_events d @ map (\<lambda>j. intent_event C event_ids now j (?is ! j)) [0..<length ?is]\<rparr>) rg)"
    using assms(1,3-6) norm same
    by (simp add: handle_signal_created_def with_session_def signal_created_tx_def inbox_claim_def t_insert_if_absent_def
        bindS_def SIGNAL_FANOUT_LIMIT_def del: upt_Suc)
  then show ?thesis using enabled_projections_length [of "se_stock_code signal" 1000 d] by (simp add: Let_def)
qed

definition fan_signal :: SignalEvent where
  "fan_signal = \<lparr>se_signal_id = 3, se_stock_code = ''005930'', se_direction = ''buy'', se_price = ''1'', se_confidence = ''0.5'',
     se_observed_at = 0, se_expires_at = Some 9\<rparr>"

definition fan_codec :: codec where
  "fan_codec = demo_codec\<lparr>cd_validate_signal := (\<lambda>_. Inr fan_signal)\<rparr>"

definition fan_db :: db where
  "fan_db = empty_db\<lparr>signal_subscription_projections := [SignalSubscriptionProjection_to_record (demo_projection 1 True)]\<rparr>"

definition fan_dbs :: dbs where
  "fan_dbs = account_dbs\<lparr>rg_global := [(''automation'', fan_db)]\<rparr>"

definition fan_message :: EventMessage where
  "fan_message = (demo_update 1)\<lparr>em_event_type := ''signal.created''\<rparr>"

text \<open>A stand-in for \<open>uuid5\<close> that keeps the identifier written after the colon apart.\<close>

definition fan_uuid5 :: uuid5_fun where
  "fan_uuid5 ns name = (case uuid_of (drop 37 name) of Inr u \<Rightarrow> u | Inl _ \<Rightarrow> 0)"

lemma length_str_uuid: "length (str_uuid u) = 36"
  by (simp add: str_uuid_def Let_def length_hexn)

lemma fan_uuid5_id: "fan_uuid5 ns (str_uuid s @ '':'' @ str_uuid i) = i"
proof -
  have "drop 37 (str_uuid s @ '':'' @ str_uuid i) = str_uuid i" by (simp add: length_str_uuid)
  then show ?thesis unfolding fan_uuid5_def by simp
qed

theorem signal_fanout_witness:
  "let ps = enabled_projections (se_stock_code fan_signal) 1000 fan_db; is = map (delivery_intent fan_uuid5 fan_signal 9) ps in
    handle_signal_created fan_codec fan_uuid5 of_nat 2 fan_message fan_dbs = (Inr (), commit_to AUTOMATION (fan_db\<lparr>
      processed_messages := processed_messages fan_db @ [\<lparr>pm_event_id = em_event_id fan_message, pm_processed_at = 2\<rparr>],
      signal_delivery_intents := signal_delivery_intents fan_db @ map SignalDeliveryIntent_to_record is,
      outbox_events := outbox_events fan_db @ map (\<lambda>j. intent_event fan_codec of_nat 2 j (is ! j)) [0..<length is]\<rparr>) fan_dbs) \<and>
    length is = min (length (filter (\<lambda>r. sjr_stock_code r = se_stock_code fan_signal \<and> sjr_enabled r) (signal_subscription_projections fan_db))) 1000"
proof (rule signal_fanout)
  show "engine_for fan_dbs AUTOMATION = Inr fan_db" by (simp add: fan_dbs_def engine_for_def dict_get_def account_dbs_def)
  show "signal_from_payload fan_codec (em_payload fan_message) = Inr fan_signal" by code_simp
  show "inj_on (of_nat :: nat \<Rightarrow> uuid) {0..<1000}"
  proof (rule inj_onI)
    fix x y :: nat assume b: "x \<in> {0..<1000}" "y \<in> {0..<1000}" and e: "(of_nat x :: uuid) = of_nat y"
    from arg_cong [OF e, of unat] have "x mod 2 ^ 128 = y mod 2 ^ 128" by (simp add: unat_of_nat)
    then show "x = y" using b by simp
  qed
  show "inj_on (\<lambda>i. fan_uuid5 NAMESPACE_URL (str_uuid (se_signal_id fan_signal) @ '':'' @ str_uuid i))
      (sj_subscription_id ` set (enabled_projections (se_stock_code fan_signal) 1000 fan_db))"
    by (rule inj_onI) (simp only: fan_uuid5_id)
qed (simp_all add: fan_db_def empty_db_def t_wf_def fan_signal_def fan_message_def)

section \<open>Notifications are created once\<close>

lemma notification_tx_run:
  "notification_tx uuid5 now e intent d =
     (let n = in_app_notification uuid5 now intent; new = e \<notin> pm_event_id ` set (processed_messages d);
          d1 = (if new then d\<lparr>processed_messages := processed_messages d @ [\<lparr>pm_event_id = e, pm_processed_at = now\<rparr>]\<rparr> else d)
      in if \<not> new \<or> SQL_InAppNotification_find_by_id (no_notification_id n) (in_app_notifications d) \<noteq> None then (Inr None, d1)
         else (Inr (Some n), d1\<lparr>in_app_notifications := SQL_InAppNotification_save n (in_app_notifications d)\<rparr>))"
  by (simp add: notification_tx_def inbox_claim_def t_insert_if_absent_def bindS_def Let_def)

text \<open>
  A delivery intent yields one notification. Once a message for an intent has been handled,
  handling another message for the same intent, a redelivery or a new event, changes no
  notification of the shard and publishes no hint.
\<close>

theorem notification_once:
  assumes "delivery_intent_from_payload C (em_payload m) = Inr intent" and "delivery_intent_from_payload C (em_payload m') = Inr intent"
    and "dict_get ACCOUNT_SHARD_URL_ENVS (si_shard_id intent) \<noteq> None" and "engine_for (ap_dbs s) (shard_of ''account'' (si_shard_id intent)) = Inr d"
    and "notification_tx uuid5 now (em_event_id m) intent d = (Inr (Some n), d1)"
    and "engine_for (ap_dbs s1) (shard_of ''account'' (si_shard_id intent)) = Inr d2"
    and "in_app_notifications d2 = in_app_notifications d1"
  shows "SQL_InAppNotification_find_by_id (no_notification_id n) (in_app_notifications d1) = Some n \<and> no_user_id n = si_user_id intent \<and>
    (\<exists>s2 d3. handle_signal_delivery_intent_created C uuid5 publish now' m' s1 = (Inr (), s2) \<and> ap_redis s2 = ap_redis s1 \<and>
       engine_for (ap_dbs s2) (shard_of ''account'' (si_shard_id intent)) = Inr d3 \<and> in_app_notifications d3 = in_app_notifications d2)"
proof -
  let ?t = "shard_of ''account'' (si_shard_id intent)"
  have n: "n = in_app_notification uuid5 now intent"
    and d1: "in_app_notifications d1 = SQL_InAppNotification_save n (in_app_notifications d)"
    using assms(5) by (auto simp: notification_tx_run Let_def split: if_splits)
  have f: "SQL_InAppNotification_find_by_id (no_notification_id n) (in_app_notifications d1) = Some n"
    by (simp add: d1 SQL_InAppNotification_find_by_id_def SQL_InAppNotification_save_def)
  have same: "no_notification_id (in_app_notification uuid5 now' intent) = no_notification_id n" by (simp add: n in_app_notification_def)
  obtain d3 where tx: "notification_tx uuid5 now' (em_event_id m') intent d2 = (Inr None, d3)" "in_app_notifications d3 = in_app_notifications d2"
    using f assms(7) same by (auto simp: notification_tx_run Let_def)
  have "handle_signal_delivery_intent_created C uuid5 publish now' m' s1 = (Inr (), s1\<lparr>ap_dbs := commit_to ?t d3 (ap_dbs s1)\<rparr>)"
    using assms(2,3,6) tx(1) by (simp add: handle_signal_delivery_intent_created_def bindS_def on_dbs_def with_session_def)
  then show ?thesis using f n tx(2) by (simp add: in_app_notification_def)
qed

section \<open>Subscriptions\<close>

text \<open>
  Subscribing and unsubscribing. A call that changes the subscription stores it with the next
  revision and emits exactly one event, with that revision, in the same transaction; a call that
  changes nothing (subscribing twice, unsubscribing what is not subscribed) writes and emits
  nothing. After subscribing the stored subscription is enabled, after unsubscribing it is not.
\<close>

theorem subscription_effect:
  assumes "subscription_location x = Inr (u, target)" and "stock_code_or_422 requested = Inr stk"
    and "engine_for rg target = Inr d" and "str_uuid ev \<notin> oe_event_id ` set (outbox_events d)"
  shows "let i = subscription_id uuid5 u stk;
           old = SQL_SignalSubscription_find_by_id i (signal_subscriptions d);
           event = (\<lambda>s. outbox_record now (new_event ev now ''signal.subscription.updated'' (str_uuid (su_subscription_id s))
                  (subscription_payload s target) ''signal.subscription.updated'') None);
           stored = (\<lambda>s. commit_to target (d\<lparr>signal_subscriptions := SQL_SignalSubscription_save s (signal_subscriptions d),
                  outbox_events := outbox_events d @ [event s]\<rparr>) rg);
           on = \<lparr>su_subscription_id = i, su_user_id = u, su_stock_code = stk, su_enabled = True,
                  su_revision = (case old of None \<Rightarrow> 0 | Some e \<Rightarrow> su_revision e) + 1\<rparr>
         in subscribe uuid5 ev now requested x rg =
              (case old of Some e \<Rightarrow> if su_enabled e then (Inr e, rg) else (Inr on, stored on) | None \<Rightarrow> (Inr on, stored on)) \<and>
            unsubscribe uuid5 ev now requested x rg =
              (case old of Some e \<Rightarrow> if su_enabled e
                  then (let off = e\<lparr>su_enabled := False, su_revision := su_revision e + 1\<rparr> in (Inr off, stored off)) else (Inr e, rg)
               | None \<Rightarrow> (Inr \<lparr>su_subscription_id = i, su_user_id = u, su_stock_code = stk, su_enabled = False, su_revision = 1\<rparr>, rg))"
  using assms
  by (simp add: Let_def subscribe_def unsubscribe_def subscribe_tx_def unsubscribe_tx_def with_session_def subscription_find_def
      subscription_save_def record_subscription_update_def outbox_add_def t_insert_def outbox_record_def bindS_def split: option.splits)

text \<open>
  Recording a signal. The first recording of an identifier stores the signal and, if it can
  expire, emits one event; every later recording of that identifier returns the stored signal and
  changes nothing.
\<close>

theorem record_signal_once:
  assumes "engine_for rg AUTOMATION = Inr d" and "str_uuid ev \<notin> oe_event_id ` set (outbox_events d)"
    and "record_signal C ev now signal rg = (Inr r, rg1)" and "se_signal_id signal' = se_signal_id signal"
  shows "record_signal C ev' now' signal' rg1 = (Inr r, rg1) \<and>
    (\<exists>d1. engine_for rg1 AUTOMATION = Inr d1 \<and> SQL_SignalEvent_find_by_id (se_signal_id signal) (signal_events d1) = Some r \<and>
      length (outbox_events d1) = length (outbox_events d) +
        (if SQL_SignalEvent_find_by_id (se_signal_id signal) (signal_events d) = None \<and> se_expires_at signal \<noteq> None then 1 else 0))"
proof (cases "SQL_SignalEvent_find_by_id (se_signal_id signal) (signal_events d)")
  case None
  have f: "SQL_SignalEvent_find_by_id (se_signal_id signal) (SQL_SignalEvent_save signal (signal_events d)) = Some signal"
    by (simp add: SQL_SignalEvent_find_by_id_def SQL_SignalEvent_save_def)
  show ?thesis
  proof (cases "se_expires_at signal")
    case none: None
    then have "r = signal \<and> rg1 = commit_to AUTOMATION (d\<lparr>signal_events := SQL_SignalEvent_save signal (signal_events d)\<rparr>) rg"
      using assms(1,3) None by (auto simp: record_signal_def with_session_def record_signal_tx_def bindS_def)
    then show ?thesis using f assms(4) none by (simp add: record_signal_def with_session_def record_signal_tx_def)
  next
    case (Some e)
    then obtain o' where o: "r = signal" "rg1 = commit_to AUTOMATION (d\<lparr>signal_events := SQL_SignalEvent_save signal (signal_events d),
        outbox_events := outbox_events d @ [o']\<rparr>) rg"
      using assms(1-3) None by (auto simp: record_signal_def with_session_def record_signal_tx_def outbox_add_def t_insert_def
          outbox_record_def bindS_def)
    then show ?thesis using f assms(4) None Some by (simp add: record_signal_def with_session_def record_signal_tx_def)
  qed
next
  case (Some e)
  then have "r = e" "rg1 = rg" using assms(1,3) by (simp_all add: record_signal_def with_session_def record_signal_tx_def)
  then show ?thesis using Some assms(1,4) by (simp add: record_signal_def with_session_def record_signal_tx_def)
qed

theorem record_signal_once_witness:
  "let rg1 = snd (record_signal demo_codec 5 0 fan_signal account_dbs) in
   record_signal demo_codec 6 1 (fan_signal\<lparr>se_price := ''2''\<rparr>) rg1 = (Inr fan_signal, rg1) \<and>
    (\<exists>d1. engine_for rg1 AUTOMATION = Inr d1 \<and> SQL_SignalEvent_find_by_id (se_signal_id fan_signal) (signal_events d1) = Some fan_signal \<and>
      length (outbox_events d1) = length (outbox_events empty_db) +
        (if SQL_SignalEvent_find_by_id (se_signal_id fan_signal) (signal_events empty_db) = None \<and> se_expires_at fan_signal \<noteq> None then 1 else 0))"
proof -
  let ?r = "record_signal demo_codec 5 0 fan_signal account_dbs"
  have 1: "?r = (Inr fan_signal, snd ?r)" by (rule run_result) code_simp
  have 2: "str_uuid 5 \<notin> oe_event_id ` set (outbox_events empty_db)" by (simp add: empty_db_def)
  show ?thesis unfolding Let_def
    by (rule record_signal_once [OF account_dbs_engines(3) 2 1]) simp
qed

theorem subscription_effect_witness:
  "subscribe fan_uuid5 9 1 ''005930'' (user_session 2 ''1'') account_dbs =
     (let s = \<lparr>su_subscription_id = subscription_id fan_uuid5 2 ''005930'', su_user_id = 2, su_stock_code = ''005930'', su_enabled = True, su_revision = 1\<rparr>;
          target = shard_of ''account'' ''1''
      in (Inr s, commit_to target (empty_db\<lparr>signal_subscriptions := SQL_SignalSubscription_save s [],
           outbox_events := [outbox_record 1 (new_event 9 1 ''signal.subscription.updated'' (str_uuid (su_subscription_id s))
                  (subscription_payload s target) ''signal.subscription.updated'') None]\<rparr>) account_dbs))"
proof -
  have 1: "subscription_location (user_session 2 ''1'') = Inr (2, shard_of ''account'' ''1'')"
    using user_session_location [of "''1''" 2] by (simp add: subscription_location_def profile_location_def)
  have 2: "stock_code_or_422 ''005930'' = Inr ''005930''" by code_simp
  have 3: "str_uuid 9 \<notin> oe_event_id ` set (outbox_events empty_db)" by (simp add: empty_db_def)
  have 4: "SQL_SignalSubscription_find_by_id i [] = None" "signal_subscriptions empty_db = []" "outbox_events empty_db = []" for i
    by (simp_all add: SQL_SignalSubscription_find_by_id_def empty_db_def)
  show ?thesis
    using subscription_effect [OF 1 2 account_dbs_engines(1) 3, of fan_uuid5 1] by (simp add: Let_def 4)
qed

definition fan_intent :: SignalDeliveryIntent where
  "fan_intent = delivery_intent fan_uuid5 fan_signal 9 (demo_projection 1 True)"

theorem notification_once_witness:
  "let C = demo_codec\<lparr>cd_validate_intent := (\<lambda>_. Inr fan_intent)\<rparr>;
       d1 = snd (notification_tx fan_uuid5 1 (em_event_id (demo_update 1)) fan_intent empty_db);
       n = in_app_notification fan_uuid5 1 fan_intent;
       s1 = \<lparr>ap_redis = (), ap_dbs = commit_to (shard_of ''account'' ''1'') d1 account_dbs\<rparr> in
   SQL_InAppNotification_find_by_id (no_notification_id n) (in_app_notifications d1) = Some n \<and> no_user_id n = si_user_id fan_intent \<and>
    (\<exists>s2 d3. handle_signal_delivery_intent_created C fan_uuid5 None 2 (demo_update 2) s1 = (Inr (), s2) \<and> ap_redis s2 = ap_redis s1 \<and>
       engine_for (ap_dbs s2) (shard_of ''account'' (si_shard_id fan_intent)) = Inr d3 \<and> in_app_notifications d3 = in_app_notifications d1)"
proof -
  let ?C = "demo_codec\<lparr>cd_validate_intent := (\<lambda>_. Inr fan_intent)\<rparr>"
  let ?tx = "notification_tx fan_uuid5 1 (em_event_id (demo_update 1)) fan_intent empty_db"
  have p: "delivery_intent_from_payload ?C (em_payload m) = Inr fan_intent" for m
    by (simp add: delivery_intent_from_payload_def as_value_error_def) code_simp
  have sh: "si_shard_id fan_intent = ''1''" by code_simp
  have 3: "dict_get ACCOUNT_SHARD_URL_ENVS (si_shard_id fan_intent) \<noteq> None" by (simp add: sh ACCOUNT_SHARD_URL_ENVS_def dict_get_def)
  have 4: "engine_for (ap_dbs \<lparr>ap_redis = (), ap_dbs = account_dbs\<rparr>) (shard_of ''account'' (si_shard_id fan_intent)) = Inr empty_db"
    by (simp add: sh account_dbs_engines)
  have 5: "?tx = (Inr (Some (in_app_notification fan_uuid5 1 fan_intent)), snd ?tx)"
    by (simp add: notification_tx_run Let_def empty_db_def SQL_InAppNotification_find_by_id_def)
  have 6: "engine_for (ap_dbs \<lparr>ap_redis = (), ap_dbs = commit_to (shard_of ''account'' ''1'') (snd ?tx) account_dbs\<rparr>)
      (shard_of ''account'' (si_shard_id fan_intent)) = Inr (snd ?tx)" by (simp add: sh)
  show ?thesis unfolding Let_def by (rule notification_once [OF p p 3 4 5 6 refl])
qed

end
