(* ===== verification/Routes.thy ===== *)
theory Routes
  imports Portfolio JobHandler Signals
begin

text \<open>
  The hand-written routers: market data, portfolio, search and signals for operators
  (\<open>routers/operator_market_data.py\<close>, \<open>operator_portfolio.py\<close>, \<open>operator_search.py\<close>,
  \<open>operator_signal.py\<close>), notifications for users (\<open>routers/notifications.py\<close>) and health
  (\<open>routers/health.py\<close>). Each route is its guard (service token, session or query constraint), the call,
  and the translation of exceptions to HTTP errors; \<open>operator_errors\<close> says that nothing of the listed
  kinds gets through.

  A dependency read from the application state is an option: the attribute is missing before start-up.
  A query constraint that fails is FastAPI's 422.
\<close>

section \<open>Guards\<close>

definition operator_route :: "environ \<Rightarrow> string option \<Rightarrow> ('s, 'a) io \<Rightarrow> ('s, 'a) io" where
  "operator_route env authorization body = bindS (lift (require_service_token ''operator'' env authorization)) (\<lambda>_. body)"

definition query_stock_code :: "string \<Rightarrow> string result" where
  "query_stock_code s = (if is_stock_code s then Inr s else Inl (HTTPException 422 ''stock_code''))"

definition query_limit :: "int \<Rightarrow> int \<Rightarrow> nat result" where
  "query_limit most n = (if 1 \<le> n \<and> n \<le> most then Inr (nat n) else Inl (HTTPException 422 ''limit''))"

definition query_text :: "string \<Rightarrow> string result" where
  "query_text q = (if 1 \<le> length q \<and> length q \<le> 200 then Inr q else Inl (HTTPException 422 ''query''))"

definition from_state :: "string \<Rightarrow> 'c option \<Rightarrow> 'c result" where
  "from_state detail x = (case x of Some c \<Rightarrow> Inr c | None \<Rightarrow> Inl (HTTPException 503 detail))"

text \<open>\<open>except (ShardRoutingError, SQLAlchemyError)\<close>\<close>

definition is_db_error :: "exn \<Rightarrow> bool" where
  "is_db_error e = (case e of ShardRoutingError _ \<Rightarrow> True | SQLAlchemyError \<Rightarrow> True | _ \<Rightarrow> False)"

definition db_or_503 :: "string \<Rightarrow> ('s, 'a) io \<Rightarrow> ('s, 'a) io" where
  "db_or_503 detail m = catchS m (\<lambda>e. raise (if is_db_error e then HTTPException 503 detail else e))"

section \<open>Market data for operators\<close>

definition get_kis_market_data :: "'c option \<Rightarrow> 'c result" where
  "get_kis_market_data = from_state ''KIS market data is not configured''"

definition market_error :: "exn \<Rightarrow> exn" where
  "market_error e = (case e of KisMarketDataError _ \<Rightarrow> HTTPException 502 ''KIS market data is unavailable''
     | _ \<Rightarrow> if is_token_error e \<or> is_httpx_error e then HTTPException 503 ''KIS market data is unavailable'' else e)"

definition route_price :: "'s market_client \<Rightarrow> string \<Rightarrow> ('s world, KisDomesticStockPrice) io" where
  "route_price c stock_code = catchS (get_domestic_stock_price c stock_code) (\<lambda>e. raise (market_error e))"

definition route_candles :: "'s market_client \<Rightarrow> string \<Rightarrow> ('s world, KisDomesticDailyCandle list) io" where
  "route_candles c stock_code = catchS (get_domestic_daily_candles c stock_code) (\<lambda>e. raise (market_error e))"

definition operator_stock_price ::
  "environ \<Rightarrow> string option \<Rightarrow> 's market_client option \<Rightarrow> string \<Rightarrow> ('s plat, KisDomesticStockPrice) io" where
  "operator_stock_price env authorization market_data stock_code = operator_route env authorization
     (bindS (lift (query_stock_code stock_code)) (\<lambda>sc. bindS (lift (get_kis_market_data market_data)) (\<lambda>c. on_world (route_price c sc))))"

definition operator_get_snapshot :: "environ \<Rightarrow> string option \<Rightarrow> uuid \<Rightarrow> (dbs, MarketPriceSnapshot) io" where
  "operator_get_snapshot env authorization snapshot_uuid = operator_route env authorization
     (bindS (db_or_503 ''KIS market data persistence is unavailable'' (get_market_price_snapshot snapshot_uuid)) (\<lambda>s. case s of
        None \<Rightarrow> raise (HTTPException 404 ''Market price snapshot was not found'') | Some x \<Rightarrow> ret x))"

definition operator_create_snapshot ::
  "environ \<Rightarrow> string option \<Rightarrow> 's market_client option \<Rightarrow> uuid \<Rightarrow> string \<Rightarrow> ('s plat, MarketPriceSnapshot) io" where
  "operator_create_snapshot env authorization market_data new_id stock_code = operator_route env authorization
     (bindS (lift (query_stock_code stock_code)) (\<lambda>sc. bindS (lift (get_kis_market_data market_data)) (\<lambda>c.
      bindS (on_world (route_price c sc)) (\<lambda>price. bindS clock (\<lambda>now.
        db_or_503 ''KIS market data persistence is unavailable'' (on_store (save_market_price_snapshot new_id now price)))))))"

definition operator_list_candles :: "environ \<Rightarrow> string option \<Rightarrow> string \<Rightarrow> (dbs, DomesticDailyCandle list) io" where
  "operator_list_candles env authorization stock_code = operator_route env authorization
     (bindS (lift (query_stock_code stock_code)) (\<lambda>sc.
        db_or_503 ''KIS market data persistence is unavailable'' (list_domestic_daily_candles sc)))"

definition operator_create_candles ::
  "environ \<Rightarrow> string option \<Rightarrow> 's market_client option \<Rightarrow> uuid5_fun \<Rightarrow> string \<Rightarrow> ('s plat, DomesticDailyCandle list) io" where
  "operator_create_candles env authorization market_data uuid5 stock_code = operator_route env authorization
     (bindS (lift (query_stock_code stock_code)) (\<lambda>sc. bindS (lift (get_kis_market_data market_data)) (\<lambda>c.
      bindS (on_world (route_candles c sc)) (\<lambda>candles.
        db_or_503 ''KIS market data persistence is unavailable'' (on_store (save_domestic_daily_candles uuid5 candles))))))"

section \<open>Holdings and portfolio snapshots\<close>

definition get_kis_domestic_account :: "'c option \<Rightarrow> 'c result" where
  "get_kis_domestic_account = from_state ''KIS domestic account is not configured''"

definition account_error :: "exn \<Rightarrow> exn" where
  "account_error e = (case e of KisDomesticAccountError _ \<Rightarrow> HTTPException 502 ''KIS domestic account is unavailable''
     | _ \<Rightarrow> if is_token_error e \<or> is_httpx_error e then HTTPException 503 ''KIS domestic account is unavailable'' else e)"

definition get_active_kis_connection :: "uuid5_fun \<Rightarrow> environ \<Rightarrow> SessionData \<Rightarrow> (dbs, BrokerageAccountConnection) io" where
  "get_active_kis_connection uuid5 env session =
     bindS (get_connection uuid5 env session) (\<lambda>c.
     if bc_provider c \<noteq> ''kis'' \<or> bc_credential_ref c \<noteq> ''kis:default'' \<or> bc_status c \<noteq> ''active''
     then raise (HTTPException 409 ''Brokerage account connection is unavailable'') else ret c)"

definition route_holdings :: "'s account_client \<Rightarrow> ('s world, KisDomesticStockHolding list) io" where
  "route_holdings c = catchS (list_domestic_stock_holdings c) (\<lambda>e. raise (account_error e))"

definition operator_holdings ::
  "environ \<Rightarrow> string option \<Rightarrow> 's account_client option \<Rightarrow> ('s plat, KisDomesticStockHolding list) io" where
  "operator_holdings env authorization account = operator_route env authorization
     (bindS (lift (get_kis_domestic_account account)) (\<lambda>c. on_world (route_holdings c)))"

definition list_linked_holdings ::
  "uuid5_fun \<Rightarrow> environ \<Rightarrow> 's account_client option \<Rightarrow> SessionData \<Rightarrow> ('s plat, KisDomesticStockHolding list) io" where
  "list_linked_holdings uuid5 env account session =
     bindS (on_store (get_active_kis_connection uuid5 env session)) (\<lambda>_.
     bindS (lift (get_kis_domestic_account account)) (\<lambda>c. on_world (route_holdings c)))"

definition capture_linked_portfolio_snapshot ::
  "uuid5_fun \<Rightarrow> environ \<Rightarrow> 's account_client option \<Rightarrow> uuid \<Rightarrow> string option \<Rightarrow> SessionData \<Rightarrow> ('s plat, PortfolioSnapshotCapture) io" where
  "capture_linked_portfolio_snapshot uuid5 env account event_id header session =
     bindS (on_store (get_active_kis_connection uuid5 env session)) (\<lambda>connection.
     case header of
       None \<Rightarrow> raise (HTTPException 400 ''Idempotency-Key header is required'')
     | Some key \<Rightarrow>
         if key = [] then raise (HTTPException 400 ''Idempotency-Key header is required'')
         else if 128 < length key then raise (HTTPException 400 ''Idempotency-Key header is too long'')
         else bindS (lift (get_kis_domestic_account account)) (\<lambda>c.
           catchS (capture_portfolio_snapshot uuid5 event_id (list_domestic_stock_holdings c) session connection key)
             (\<lambda>e. raise (account_error e))))"

definition get_persisted_portfolio_snapshot :: "uuid \<Rightarrow> SessionData \<Rightarrow> (dbs, PortfolioSnapshotCapture) io" where
  "get_persisted_portfolio_snapshot sid session = get_portfolio_snapshot session sid"

section \<open>Search for operators\<close>

definition get_search_indexer :: "(environ \<Rightarrow> HybridSearchIndex result) \<Rightarrow> environ \<Rightarrow> HybridSearchIndex result" where
  "get_search_indexer from_environment env = (if \<not> is_configured_from_environment env
     then Inl (HTTPException 503 ''operator search is not configured'') else from_environment env)"

definition route_search ::
  "'s search_http \<Rightarrow> pytext \<Rightarrow> 'f::linorder score_ops \<Rightarrow> HybridSearchIndex \<Rightarrow> string \<Rightarrow> nat \<Rightarrow> ('s, jdict list) io" where
  "route_search H T F x query limit = catchS (search_documents H T F x query limit)
     (\<lambda>e. raise (if is_httpx_error e then HTTPException 503 ''operator search is unavailable'' else e))"

definition search_route ::
  "(environ \<Rightarrow> HybridSearchIndex result) \<Rightarrow> environ \<Rightarrow> string option \<Rightarrow> 's search_http \<Rightarrow> pytext \<Rightarrow> 'f::linorder score_ops
   \<Rightarrow> string \<Rightarrow> int \<Rightarrow> ('s, jdict list) io" where
  "search_route from_environment env authorization H T F query limit = operator_route env authorization
     (bindS (lift (query_text query)) (\<lambda>q. bindS (lift (query_limit 50 limit)) (\<lambda>n.
      bindS (lift (get_search_indexer from_environment env)) (\<lambda>x. route_search H T F x q n))))"

definition search_durable_job_history ::
  "environ \<Rightarrow> string option \<Rightarrow> 's search_http \<Rightarrow> pytext \<Rightarrow> 'f::linorder score_ops \<Rightarrow> string \<Rightarrow> int \<Rightarrow> ('s, jdict list) io" where
  "search_durable_job_history = search_route job_history_from_environment"

definition search_news ::
  "environ \<Rightarrow> string option \<Rightarrow> 's search_http \<Rightarrow> pytext \<Rightarrow> 'f::linorder score_ops \<Rightarrow> string \<Rightarrow> int \<Rightarrow> ('s, jdict list) io" where
  "search_news = search_route news_index_from_environment"

section \<open>Signals for operators, notifications for users\<close>

definition operator_subscriptions ::
  "environ \<Rightarrow> string option \<Rightarrow> string \<Rightarrow> int \<Rightarrow> (dbs, SignalSubscriptionProjection list) io" where
  "operator_subscriptions env authorization stock_code limit = operator_route env authorization
     (bindS (lift (query_stock_code stock_code)) (\<lambda>sc. bindS (lift (query_limit 500 limit)) (\<lambda>n.
        db_or_503 ''signal subscription projection is unavailable'' (list_enabled_signal_subscriptions sc n))))"

definition operator_delivery_intents ::
  "environ \<Rightarrow> string option \<Rightarrow> string \<Rightarrow> int \<Rightarrow> (dbs, SignalDeliveryIntent list) io" where
  "operator_delivery_intents env authorization stock_code limit = operator_route env authorization
     (bindS (lift (query_stock_code stock_code)) (\<lambda>sc. bindS (lift (query_limit 500 limit)) (\<lambda>n.
        db_or_503 ''signal delivery intent is unavailable'' (list_pending_signal_delivery_intents sc n))))"

definition list_notifications_route :: "SessionData \<Rightarrow> (dbs, InAppNotification list) io" where
  "list_notifications_route session = db_or_503 ''notifications are unavailable'' (list_user_notifications session)"

definition mark_notification_read_route :: "time \<Rightarrow> uuid \<Rightarrow> SessionData \<Rightarrow> (dbs, InAppNotification) io" where
  "mark_notification_read_route now notification_uuid session =
     db_or_503 ''notifications are unavailable'' (mark_user_notification_read now notification_uuid session)"

section \<open>Health\<close>

text \<open>\<open>checks\<close> gives the health check of a dependency of the application state, where it has one.\<close>

definition readiness :: "(string \<Rightarrow> ('s, unit) io option) \<Rightarrow> ('s, unit) io" where
  "readiness checks =
     (let check = (\<lambda>name. case checks name of
          None \<Rightarrow> raise (HTTPException 503 (name @ '' is not initialized''))
        | Some h \<Rightarrow> catchS h (\<lambda>e. raise (if e = SQLAlchemyError \<or> is_os_error e \<or> is_session_store_error e
            then HTTPException 503 (name @ '' is not ready'') else e)))
      in bindS (check ''session_registry'') (\<lambda>_. check ''session_store''))"

section \<open>Properties\<close>

definition has_operator_token :: "environ \<Rightarrow> string option \<Rightarrow> bool" where
  "has_operator_token env authorization \<longleftrightarrow> require_service_token ''operator'' env authorization = Inr ()"

text \<open>Without the operator token nothing happens: the state is unchanged and the result is an error.\<close>

lemma operator_route_guard:
  "\<not> has_operator_token env a \<Longrightarrow> \<exists>e. operator_route env a body s = (Inl e, s)"
  by (cases "require_service_token ''operator'' env a") (auto simp: operator_route_def has_operator_token_def)

lemma operator_route_ok: "has_operator_token env a \<Longrightarrow> operator_route env a body s = body s"
  by (simp add: operator_route_def has_operator_token_def)

lemma market_error_hidden: "market_error e = e \<Longrightarrow> \<not> is_token_error e \<and> \<not> is_httpx_error e \<and> (\<forall>m. e \<noteq> KisMarketDataError m)"
  by (cases e) (auto simp: market_error_def)

lemma db_or_503_hidden: "db_or_503 detail m s = (Inl e, s') \<Longrightarrow> \<not> is_db_error e"
  by (auto simp: db_or_503_def catchS_def is_db_error_def split: prod.splits sum.splits exn.splits if_splits)

end
