(* ===== verification/Realtime.thy ===== *)
theory Realtime
  imports Signals
begin

text \<open>
  Notification hints in real time: the in-process hub (\<open>infrastructure/realtime/service.py\<close>), its
  subscribers (\<open>fake.py\<close>, \<open>websocket.py\<close>), the Redis Pub/Sub backplane that carries hints between
  replicas (\<open>backplane.py\<close>) and its in-memory stand-in, and the web socket route
  (\<open>routers/realtime_notifications.py\<close>).

  A subscriber is known by its object identity, a value of the type \<open>'i\<close>. The state of a replica is
  its hub, whether the hub is registered in the application state, and the state \<open>'s\<close> of everything
  outside: web sockets, session store and Redis. The critical sections of the hub are the bodies under
  its lock, so each is one step here; the sends of one \<open>publish\<close> happen after the lock is released.
\<close>

section \<open>The hub\<close>

record 'i RealtimeHub =
  rh_subscribers :: "(string, 'i list) dict"
  rh_closed :: bool

definition new_hub :: "'i RealtimeHub" where
  "new_hub = \<lparr>rh_subscribers = [], rh_closed = False\<rparr>"

definition require_channel :: "string \<Rightarrow> unit result" where
  "require_channel channel = (if strip channel = [] then Inl (ValueError ''realtime channel must not be empty'') else Inr ())"

definition require_open :: "'i RealtimeHub \<Rightarrow> unit result" where
  "require_open h = (if rh_closed h then Inl (RuntimeError ''realtime hub is closed'') else Inr ())"

definition subscribers_of :: "'i RealtimeHub \<Rightarrow> string \<Rightarrow> 'i list" where
  "subscribers_of h channel = (case dict_get (rh_subscribers h) channel of Some l \<Rightarrow> l | None \<Rightarrow> [])"

definition hub_subscribe :: "string \<Rightarrow> 'i \<Rightarrow> ('i RealtimeHub, unit) io" where
  "hub_subscribe channel subscriber =
     bindS (lift (require_channel channel)) (\<lambda>_.
     bindS get_state (\<lambda>h.
     bindS (lift (require_open h)) (\<lambda>_.
     let subscribers = subscribers_of h channel in
     modify (\<lambda>h. h\<lparr>rh_subscribers := dict_set channel
       (if subscriber \<in> set subscribers then subscribers else subscribers @ [subscriber]) (rh_subscribers h)\<rparr>))))"

definition hub_unsubscribe :: "string \<Rightarrow> 'i \<Rightarrow> ('i RealtimeHub, unit) io" where
  "hub_unsubscribe channel subscriber =
     bindS (lift (require_channel channel)) (\<lambda>_.
     bindS get_state (\<lambda>h. case dict_get (rh_subscribers h) channel of
       None \<Rightarrow> ret ()
     | Some subscribers \<Rightarrow>
         let remaining = filter (\<lambda>item. item \<noteq> subscriber) subscribers in
         if remaining \<noteq> [] then modify (\<lambda>h. h\<lparr>rh_subscribers := dict_set channel remaining (rh_subscribers h)\<rparr>)
         else modify (\<lambda>h. h\<lparr>rh_subscribers := dict_del channel (rh_subscribers h)\<rparr>)))"

definition hub_targets :: "string \<Rightarrow> ('i RealtimeHub, 'i list) io" where
  "hub_targets channel =
     bindS (lift (require_channel channel)) (\<lambda>_.
     bindS get_state (\<lambda>h.
     bindS (lift (require_open h)) (\<lambda>_. ret (subscribers_of h channel))))"

definition hub_aclose :: "('i RealtimeHub, unit) io" where
  "hub_aclose = modify (\<lambda>h. h\<lparr>rh_closed := True, rh_subscribers := []\<rparr>)"

section \<open>The state of a replica\<close>

record ('i, 's) replica =
  rp_hub :: "'i RealtimeHub"
  rp_registered :: bool
  rp_env :: 's

definition on_hub :: "('i RealtimeHub, 'a) io \<Rightarrow> (('i, 's) replica, 'a) io" where
  "on_hub m r = (case m (rp_hub r) of (x, h) \<Rightarrow> (x, r\<lparr>rp_hub := h\<rparr>))"

definition on_env :: "('s, 'a) io \<Rightarrow> (('i, 's) replica, 'a) io" where
  "on_env m r = (case m (rp_env r) of (x, e) \<Rightarrow> (x, r\<lparr>rp_env := e\<rparr>))"

text \<open>\<open>asyncio.gather\<close>: every send runs; the first exception is raised.\<close>

fun gather_all :: "('s, unit) io list \<Rightarrow> ('s, unit) io" where
  "gather_all [] s = (Inr (), s)"
| "gather_all (m # ms) s = (case m s of (r, s1) \<Rightarrow> case gather_all ms s1 of (r', s2) \<Rightarrow>
     (case r of Inl e \<Rightarrow> Inl e | Inr _ \<Rightarrow> r', s2))"

definition hub_publish :: "('i \<Rightarrow> string \<Rightarrow> ('s, unit) io) \<Rightarrow> string \<Rightarrow> string \<Rightarrow> (('i, 's) replica, nat) io" where
  "hub_publish send channel message =
     bindS (on_hub (hub_targets channel)) (\<lambda>subscribers.
     bindS (on_env (gather_all (map (\<lambda>i. send i message) subscribers))) (\<lambda>_. ret (length subscribers)))"

section \<open>Subscribers\<close>

text \<open>The in-memory subscriber: the messages each object has received.\<close>

definition fake_send :: "'i \<Rightarrow> string \<Rightarrow> ('i \<Rightarrow> string list, unit) io" where
  "fake_send i message = modify (\<lambda>m. m(i := m i @ [message]))"

record ('i, 's) websockets =
  ws_accept :: "'i \<Rightarrow> ('s, unit) io"
  ws_send_text :: "'i \<Rightarrow> string \<Rightarrow> ('s, unit) io"
  ws_close :: "'i \<Rightarrow> nat \<Rightarrow> ('s, unit) io"

definition fastapi_send :: "('i, 's) websockets \<Rightarrow> 'i \<Rightarrow> string \<Rightarrow> ('s, unit) io" where
  "fastapi_send W i message = ws_send_text W i message"

definition safe_send :: "('i, 's) websockets \<Rightarrow> 'i \<Rightarrow> string \<Rightarrow> ('s, unit) io" where
  "safe_send W i message = catchS (fastapi_send W i message)
     (\<lambda>e. if is_runtime_error e \<or> e = WebSocketDisconnect then ret () else raise e)"

section \<open>The web socket route\<close>

definition bearer_credentials :: "string option \<Rightarrow> string option" where
  "bearer_credentials authorization = (case authorization of
       None \<Rightarrow> None
     | Some a \<Rightarrow> (case partition_at CHR '' '' a of (scheme, separator, credentials) \<Rightarrow>
         if lower scheme \<noteq> ''bearer'' \<or> \<not> separator \<or> credentials = [] then None else Some credentials))"

definition current_websocket_session :: "'s session_ops \<Rightarrow> time \<Rightarrow> string option \<Rightarrow> ('s, SessionData) io" where
  "current_websocket_session store now authorization = get_current_session store now (bearer_credentials authorization)"

definition WS_1008_POLICY_VIOLATION :: nat where "WS_1008_POLICY_VIOLATION = 1008"
definition WS_1013_TRY_AGAIN_LATER :: nat where "WS_1013_TRY_AGAIN_LATER = 1013"

definition authorized_websocket_session ::
  "('i, 's) websockets \<Rightarrow> 's session_ops \<Rightarrow> time \<Rightarrow> 'i \<Rightarrow> string option \<Rightarrow> ('s, SessionData option) io" where
  "authorized_websocket_session W store now i authorization =
     catchS (bindS (current_websocket_session store now authorization) (\<lambda>current_session.
             bindS (lift (require_access_level USER current_session)) (\<lambda>_. ret (Some current_session))))
       (\<lambda>e. if is_http_exception e then bindS (ws_close W i WS_1008_POLICY_VIOLATION) (\<lambda>_. ret None)
            else if is_session_store_error e then bindS (ws_close W i WS_1013_TRY_AGAIN_LATER) (\<lambda>_. ret None)
            else raise e)"

text \<open>
  The receive loop. Each element of the list is one completed \<open>receive_text\<close>, with whatever the other
  tasks of the replica did while it was waiting; the loop is left by the exception of the last one.
\<close>

fun receive_loop :: "('s, string) io list \<Rightarrow> ('s, unit) io" where
  "receive_loop [] = ret ()"
| "receive_loop (m # ms) = bindS m (\<lambda>_. receive_loop ms)"

definition stream_until_disconnect :: "string \<Rightarrow> 'i \<Rightarrow> (('i, 's) replica, string) io list \<Rightarrow> (('i, 's) replica, unit) io" where
  "stream_until_disconnect channel i frames =
     finallyS (catchS (receive_loop frames) (\<lambda>e. if e = WebSocketDisconnect then ret () else raise e))
       (on_hub (hub_unsubscribe channel i))"

definition stream_notifications ::
  "('i, 's) websockets \<Rightarrow> 's session_ops \<Rightarrow> time \<Rightarrow> 'i \<Rightarrow> string option \<Rightarrow> (('i, 's) replica, string) io list
   \<Rightarrow> (('i, 's) replica, unit) io" where
  "stream_notifications W store now i authorization frames =
     bindS (on_env (authorized_websocket_session W store now i authorization)) (\<lambda>session. case session of
       None \<Rightarrow> ret ()
     | Some current_session \<Rightarrow>
         bindS (gets rp_registered) (\<lambda>registered.
         if \<not> registered then on_env (ws_close W i WS_1013_TRY_AGAIN_LATER)
         else
           bindS (lift (notification_channel (sd_user_id current_session))) (\<lambda>channel.
           bindS (on_env (ws_accept W i)) (\<lambda>_.
           bindS (catchS (bindS (on_hub (hub_subscribe channel i)) (\<lambda>_. ret True))
                    (\<lambda>e. if is_runtime_error e then bindS (on_env (ws_close W i WS_1013_TRY_AGAIN_LATER)) (\<lambda>_. ret False)
                         else raise e)) (\<lambda>subscribed.
           if subscribed then stream_until_disconnect channel i frames else ret ())))))"

section \<open>The Redis backplane\<close>

definition REALTIME_TOPIC :: string where "REALTIME_TOPIC = ''realtime.notifications.v1''"

text \<open>The redis client library, for clients of the type \<open>'c\<close>.\<close>

record ('c, 's) pubsub_api =
  ps_from_url :: "string \<Rightarrow> 'c"
  ps_master_for :: "(string \<times> int) list \<Rightarrow> string \<Rightarrow> 'c"
  ps_ping :: "'c \<Rightarrow> ('s, unit) io"
  ps_publish :: "'c \<Rightarrow> string \<Rightarrow> string \<Rightarrow> ('s, unit) io"
  ps_subscribe :: "'c \<Rightarrow> string \<Rightarrow> ('s, unit) io"
  ps_aclose :: "'c \<Rightarrow> ('s, unit) io"

record 'c RedisPubSubRealtimeBackplane =
  bp_urls :: "string list"
  bp_topic :: string
  bp_sentinel :: "((string \<times> int) list \<times> string) option"
  bp_publisher :: "'c option"
  bp_listening :: bool
  bp_closed :: bool

definition backplane_sentinel_endpoint :: "string \<Rightarrow> (string \<times> int) result" where
  "backplane_sentinel_endpoint item = (case rpartition_at CHR '':'' item of (host, separator, port_text) \<Rightarrow>
     if \<not> separator \<or> host = [] then Inl (RealtimeBackplaneError (''Invalid Redis Sentinel endpoint: '' @ str_repr item))
     else (case py_int port_text of
       Inl _ \<Rightarrow> Inl (RealtimeBackplaneError (''Invalid Redis Sentinel port: '' @ str_repr item))
     | Inr port \<Rightarrow> Inr (host, port)))"

definition backplane_sentinel_endpoints :: "string list \<Rightarrow> (string \<times> int) list result" where
  "backplane_sentinel_endpoints values = bindE (mapE backplane_sentinel_endpoint values) (\<lambda>endpoints.
     if endpoints = [] then Inl (RealtimeBackplaneError ''Redis Sentinel endpoints are empty'') else Inr endpoints)"

definition new_backplane :: "string list \<Rightarrow> string \<Rightarrow> string option \<Rightarrow> 'c RedisPubSubRealtimeBackplane result" where
  "new_backplane urls topic sentinel_master =
     (if urls = [] then Inl (ValueError ''Redis realtime backplane requires at least one URL'')
      else if topic = [] then Inl (ValueError ''Redis realtime topic must not be empty'')
      else bindE (case sentinel_master of None \<Rightarrow> Inr None
             | Some m \<Rightarrow> bindE (backplane_sentinel_endpoints urls) (\<lambda>es. Inr (Some (es, m)))) (\<lambda>sentinel.
        Inr \<lparr>bp_urls = urls, bp_topic = topic, bp_sentinel = sentinel, bp_publisher = None, bp_listening = False, bp_closed = False\<rparr>))"

definition redis_urls_from_environment :: "environ \<Rightarrow> string list result" where
  "redis_urls_from_environment env = (case environ_get env ''REDIS_URL'' of
       Some url \<Rightarrow> if url = [] then Inl (RealtimeBackplaneError ''Required environment variable is missing: REDIS_URL'') else Inr [url]
     | None \<Rightarrow> Inl (RealtimeBackplaneError ''Required environment variable is missing: REDIS_URL''))"

definition backplane_from_environment :: "environ \<Rightarrow> 'c RedisPubSubRealtimeBackplane result" where
  "backplane_from_environment env = bindE (redis_urls_from_environment env) (\<lambda>urls. new_backplane urls REALTIME_TOPIC None)"

text \<open>The state of its operations: the backplane object and the outside.\<close>

definition on_snd_state :: "('s, 'a) io \<Rightarrow> ('b \<times> 's, 'a) io" where
  "on_snd_state m p = (case p of (b, s) \<Rightarrow> case m s of (x, s') \<Rightarrow> (x, (b, s')))"

definition gets_bp :: "('b \<Rightarrow> 'a) \<Rightarrow> ('b \<times> 's, 'a) io" where
  "gets_bp f = gets (\<lambda>p. f (fst p))"

definition modify_bp :: "('b \<Rightarrow> 'b) \<Rightarrow> ('b \<times> 's, unit) io" where
  "modify_bp f = modify (\<lambda>p. (f (fst p), snd p))"

fun open_first :: "('c, 's) pubsub_api \<Rightarrow> string list \<Rightarrow> ('s, 'c) io" where
  "open_first A [] = raise (RealtimeBackplaneError ''Redis realtime connection failed'')"
| "open_first A (url # urls) = catchS (bindS (ps_ping A (ps_from_url A url)) (\<lambda>_. ret (ps_from_url A url)))
     (\<lambda>e. if e = RedisError then bindS (ps_aclose A (ps_from_url A url)) (\<lambda>_. open_first A urls) else raise e)"

definition open_client :: "('c, 's) pubsub_api \<Rightarrow> ('c RedisPubSubRealtimeBackplane \<times> 's, 'c) io" where
  "open_client A = bindS (gets_bp bp_sentinel) (\<lambda>sentinel. case sentinel of
       Some (endpoints, master) \<Rightarrow> ret (ps_master_for A endpoints master)
     | None \<Rightarrow> bindS (gets_bp bp_urls) (\<lambda>urls. on_snd_state (open_first A urls)))"

definition publisher_client :: "('c, 's) pubsub_api \<Rightarrow> ('c RedisPubSubRealtimeBackplane \<times> 's, 'c) io" where
  "publisher_client A = bindS (gets_bp bp_publisher) (\<lambda>p. case p of
       Some c \<Rightarrow> ret c
     | None \<Rightarrow> bindS (open_client A) (\<lambda>c. bindS (modify_bp (\<lambda>b. b\<lparr>bp_publisher := Some c\<rparr>)) (\<lambda>_. ret c)))"

definition discard_publisher :: "('c, 's) pubsub_api \<Rightarrow> ('c RedisPubSubRealtimeBackplane \<times> 's, unit) io" where
  "discard_publisher A = bindS (gets_bp bp_publisher) (\<lambda>publisher.
     bindS (modify_bp (\<lambda>b. b\<lparr>bp_publisher := None\<rparr>)) (\<lambda>_. case publisher of
       None \<Rightarrow> ret () | Some c \<Rightarrow> on_snd_state (ps_aclose A c)))"

definition hint_payload :: "string \<Rightarrow> string \<Rightarrow> string" where
  "hint_payload channel message = json_dumps False (JObj [(''channel'', JStr channel), (''message'', JStr message)])"

fun publish_attempts :: "('c, 's) pubsub_api \<Rightarrow> string \<Rightarrow> nat \<Rightarrow> ('c RedisPubSubRealtimeBackplane \<times> 's, unit) io" where
  "publish_attempts A payload 0 = raise (RealtimeBackplaneError ''Redis realtime publish failed'')"
| "publish_attempts A payload (Suc n) =
     bindS (publisher_client A) (\<lambda>client.
     bindS (gets_bp bp_topic) (\<lambda>topic.
     bindS (catchS (bindS (on_snd_state (ps_publish A client topic payload)) (\<lambda>_. ret True))
              (\<lambda>e. if e = RedisError then bindS (discard_publisher A) (\<lambda>_. ret False) else raise e)) (\<lambda>sent.
     if sent then ret () else publish_attempts A payload n)))"

definition backplane_publish ::
  "('c, 's) pubsub_api \<Rightarrow> string \<Rightarrow> string \<Rightarrow> ('c RedisPubSubRealtimeBackplane \<times> 's, unit) io" where
  "backplane_publish A channel message =
     bindS (gets_bp bp_closed) (\<lambda>closed.
     if closed then raise (RealtimeBackplaneError ''realtime backplane is closed'')
     else if channel = [] then raise (ValueError ''realtime channel must not be empty'')
     else publish_attempts A (hint_payload channel message) 2)"

definition backplane_start :: "('c RedisPubSubRealtimeBackplane \<times> 's, unit) io" where
  "backplane_start =
     bindS (gets_bp bp_closed) (\<lambda>closed.
     if closed then raise (RealtimeBackplaneError ''realtime backplane is closed'')
     else bindS (gets_bp bp_listening) (\<lambda>listening.
       if listening then raise (RealtimeBackplaneError ''realtime backplane is already started'')
       else modify_bp (\<lambda>b. b\<lparr>bp_listening := True\<rparr>)))"

definition backplane_aclose :: "('c, 's) pubsub_api \<Rightarrow> ('c RedisPubSubRealtimeBackplane \<times> 's, unit) io" where
  "backplane_aclose A =
     bindS (modify_bp (\<lambda>b. b\<lparr>bp_closed := True, bp_listening := False\<rparr>)) (\<lambda>_. discard_publisher A)"

text \<open>\<open>_decode_payload\<close> on the data of a message: \<open>None\<close> stands for data that is not a string.\<close>

definition decode_payload :: "string option \<Rightarrow> (string \<times> string) option" where
  "decode_payload value = (case value of
       None \<Rightarrow> None
     | Some text \<Rightarrow> (case json_loads text of
         Inr (JObj d) \<Rightarrow> (case (dict_get d ''channel'', dict_get d ''message'') of
             (Some (JStr channel), Some (JStr message)) \<Rightarrow> if channel = [] then None else Some (channel, message)
           | _ \<Rightarrow> None)
       | _ \<Rightarrow> None))"

text \<open>One message of the inner loop of \<open>_listen\<close>; \<open>None\<close> when \<open>get_message\<close> timed out.\<close>

definition listen_event :: "(string \<Rightarrow> string \<Rightarrow> ('s, 'a) io) \<Rightarrow> string option option \<Rightarrow> ('s, unit) io" where
  "listen_event deliver event = (case event of
       None \<Rightarrow> ret ()
     | Some data \<Rightarrow> (case decode_payload data of
         None \<Rightarrow> ret () | Some (channel, message) \<Rightarrow> bindS (deliver channel message) (\<lambda>_. ret ())))"

text \<open>
  One connection of \<open>_listen\<close>: the list holds the results of \<open>get_message\<close> until the connection ends,
  by an exception of the last one or because the backplane is closed.
\<close>

fun listen_events :: "(string \<Rightarrow> string \<Rightarrow> ('s, 'a) io) \<Rightarrow> ('s, string option option) io list \<Rightarrow> ('s, unit) io" where
  "listen_events deliver [] = ret ()"
| "listen_events deliver (m # ms) = bindS m (\<lambda>event. bindS (listen_event deliver event) (\<lambda>_. listen_events deliver ms))"

definition listen_errors :: "exn \<Rightarrow> bool" where
  "listen_errors e = (case e of RedisError \<Rightarrow> True | RealtimeBackplaneError _ \<Rightarrow> True | _ \<Rightarrow> False)"

definition listen_connection ::
  "('c, 's) pubsub_api \<Rightarrow> ('s, 'c) io \<Rightarrow> string \<Rightarrow> (string \<Rightarrow> string \<Rightarrow> ('s, 'a) io) \<Rightarrow> ('s, string option option) io list
   \<Rightarrow> ('s, unit) io" where
  "listen_connection A connect topic deliver events =
     catchS (bindS connect (\<lambda>client.
             finallyS (bindS (ps_subscribe A client topic) (\<lambda>_. listen_events deliver events)) (ps_aclose A client)))
       (\<lambda>e. if listen_errors e then ret () else raise e)"

text \<open>Reconnecting: the events of each connection of the listener's life.\<close>

fun listen_connections ::
  "('c, 's) pubsub_api \<Rightarrow> ('s, 'c) io \<Rightarrow> string \<Rightarrow> (string \<Rightarrow> string \<Rightarrow> ('s, 'a) io) \<Rightarrow> ('s, string option option) io list list
   \<Rightarrow> ('s, unit) io" where
  "listen_connections A connect topic deliver [] = ret ()"
| "listen_connections A connect topic deliver (es # ess) =
     bindS (listen_connection A connect topic deliver es) (\<lambda>_. listen_connections A connect topic deliver ess)"

section \<open>The in-memory backplane\<close>

record 's FakeRealtimeBackplane =
  fb_published :: "(string \<times> string) list"
  fb_deliver :: "(string \<Rightarrow> string \<Rightarrow> ('s, unit) io) option"
  fb_closed :: bool

definition fake_backplane_start :: "(string \<Rightarrow> string \<Rightarrow> ('s, unit) io) \<Rightarrow> ('s FakeRealtimeBackplane \<times> 's, unit) io" where
  "fake_backplane_start deliver = bindS (gets_bp fb_closed) (\<lambda>closed.
     if closed then raise (RuntimeError ''realtime backplane is closed'')
     else modify_bp (\<lambda>b. b\<lparr>fb_deliver := Some deliver\<rparr>))"

definition fake_backplane_publish :: "string \<Rightarrow> string \<Rightarrow> ('s FakeRealtimeBackplane \<times> 's, unit) io" where
  "fake_backplane_publish channel message = bindS (gets_bp fb_closed) (\<lambda>closed.
     if closed then raise (RuntimeError ''realtime backplane is closed'')
     else bindS (modify_bp (\<lambda>b. b\<lparr>fb_published := fb_published b @ [(channel, message)]\<rparr>)) (\<lambda>_.
       bindS (gets_bp fb_deliver) (\<lambda>deliver. case deliver of
         None \<Rightarrow> ret () | Some d \<Rightarrow> on_snd_state (d channel message))))"

definition fake_backplane_aclose :: "('s FakeRealtimeBackplane \<times> 's, unit) io" where
  "fake_backplane_aclose = modify_bp (\<lambda>b. b\<lparr>fb_closed := True, fb_deliver := None\<rparr>)"

section \<open>Start and end of a replica\<close>

definition realtime_lifespan_start ::
  "environ \<Rightarrow> 's \<Rightarrow> ('c RedisPubSubRealtimeBackplane \<times> ('i, 's) replica) result" where
  "realtime_lifespan_start env s =
     bindE (backplane_from_environment env) (\<lambda>b. case backplane_start (b, s) of
       (Inl e, _) \<Rightarrow> Inl e
     | (Inr _, (b', s')) \<Rightarrow> Inr (b', \<lparr>rp_hub = new_hub, rp_registered = True, rp_env = s'\<rparr>))"

definition realtime_lifespan_stop :: "('s, unit) io \<Rightarrow> (('i, 's) replica, unit) io" where
  "realtime_lifespan_stop close_backplane =
     bindS (modify (\<lambda>r. r\<lparr>rp_registered := False\<rparr>)) (\<lambda>_.
     bindS (on_env close_backplane) (\<lambda>_. on_hub hub_aclose))"

section \<open>The hub as a set of streams\<close>

datatype 'i hub_op = HSubscribe string 'i | HUnsubscribe string 'i | HClose

fun hub_step :: "'i hub_op \<Rightarrow> ('i RealtimeHub, unit) io" where
  "hub_step (HSubscribe channel i) = hub_subscribe channel i"
| "hub_step (HUnsubscribe channel i) = hub_unsubscribe channel i"
| "hub_step HClose = hub_aclose"

text \<open>The results of a sequence of operations, exceptions included, and the hub after it.\<close>

fun run_hub :: "'i hub_op list \<Rightarrow> 'i RealtimeHub \<Rightarrow> unit result list \<times> 'i RealtimeHub" where
  "run_hub [] h = ([], h)"
| "run_hub (x # xs) h = (case hub_step x h of (r, h1) \<Rightarrow> case run_hub xs h1 of (rs, h2) \<Rightarrow> (r # rs, h2))"

text \<open>The abstract hub: whether it is closed, and the streams of every channel in the order they came.\<close>

type_synonym 'i streams = "bool \<times> (string \<Rightarrow> 'i list)"

definition no_streams :: "'i streams" where "no_streams = (False, \<lambda>_. [])"

fun spec_step :: "'i hub_op \<Rightarrow> 'i streams \<Rightarrow> unit result \<times> 'i streams" where
  "spec_step (HSubscribe channel i) (closed, f) =
     (if strip channel = [] then (Inl (ValueError ''realtime channel must not be empty''), (closed, f))
      else if closed then (Inl (RuntimeError ''realtime hub is closed''), (closed, f))
      else (Inr (), (closed, f(channel := if i \<in> set (f channel) then f channel else f channel @ [i]))))"
| "spec_step (HUnsubscribe channel i) (closed, f) =
     (if strip channel = [] then (Inl (ValueError ''realtime channel must not be empty''), (closed, f))
      else (Inr (), (closed, f(channel := removeAll i (f channel)))))"
| "spec_step HClose (closed, f) = (Inr (), (True, \<lambda>_. []))"

fun run_spec :: "'i hub_op list \<Rightarrow> 'i streams \<Rightarrow> unit result list \<times> 'i streams" where
  "run_spec [] a = ([], a)"
| "run_spec (x # xs) a = (case spec_step x a of (r, a1) \<Rightarrow> case run_spec xs a1 of (rs, a2) \<Rightarrow> (r # rs, a2))"

definition hub_streams :: "'i RealtimeHub \<Rightarrow> 'i streams" where
  "hub_streams h = (rh_closed h, subscribers_of h)"

text \<open>
  The well-formed hubs: one entry for each channel that has subscribers and none for the others, no
  subscriber twice on a channel, and nothing left in a closed hub.
\<close>

definition hub_wf :: "'i RealtimeHub \<Rightarrow> bool" where
  "hub_wf h \<longleftrightarrow> dict_wf (rh_subscribers h) \<and>
     (\<forall>channel l. dict_get (rh_subscribers h) channel = Some l \<longrightarrow> strip channel \<noteq> [] \<and> l \<noteq> [] \<and> distinct l) \<and>
     (rh_closed h \<longrightarrow> rh_subscribers h = [])"

lemma hub_wf_new [simp]: "hub_wf new_hub"
  by (simp add: hub_wf_def new_hub_def)

lemma hub_streams_new [simp]: "hub_streams new_hub = no_streams"
  by (auto simp: hub_streams_def new_hub_def no_streams_def subscribers_of_def)

lemma subscribers_of_set [simp]:
  "subscribers_of (h\<lparr>rh_subscribers := dict_set c l (rh_subscribers h)\<rparr>) = (subscribers_of h)(c := l)"
  by (auto simp: subscribers_of_def)

lemma subscribers_of_del [simp]:
  "subscribers_of (h\<lparr>rh_subscribers := dict_del c (rh_subscribers h)\<rparr>) = (subscribers_of h)(c := [])"
  by (auto simp: subscribers_of_def)

lemma subscribers_distinct [simp]: "hub_wf h \<Longrightarrow> distinct (subscribers_of h channel)"
  by (auto simp: hub_wf_def subscribers_of_def split: option.splits)

lemma hub_subscribe_run:
  "hub_subscribe c i h = (if strip c = [] then (Inl (ValueError ''realtime channel must not be empty''), h)
     else if rh_closed h then (Inl (RuntimeError ''realtime hub is closed''), h)
     else (Inr (), h\<lparr>rh_subscribers := dict_set c (if i \<in> set (subscribers_of h c) then subscribers_of h c
                else subscribers_of h c @ [i]) (rh_subscribers h)\<rparr>))"
  by (simp add: hub_subscribe_def require_channel_def require_open_def Let_def)

lemma hub_unsubscribe_run:
  "hub_unsubscribe c i h = (if strip c = [] then (Inl (ValueError ''realtime channel must not be empty''), h)
     else (Inr (), if dict_get (rh_subscribers h) c = None then h
       else if removeAll i (subscribers_of h c) = [] then h\<lparr>rh_subscribers := dict_del c (rh_subscribers h)\<rparr>
       else h\<lparr>rh_subscribers := dict_set c (removeAll i (subscribers_of h c)) (rh_subscribers h)\<rparr>))"
proof -
  have "removeAll i l = filter (\<lambda>x. x \<noteq> i) l" for l :: "'a list"
    by (induction l) auto
  then show ?thesis
    by (auto simp: hub_unsubscribe_def require_channel_def subscribers_of_def Let_def split: option.splits)
qed

lemma hub_step_wf: "hub_wf h \<Longrightarrow> hub_wf (snd (hub_step x h))"
  by (cases x)
     (auto simp: hub_subscribe_run hub_unsubscribe_run hub_aclose_def hub_wf_def subscribers_of_def distinct_removeAll
           split: option.splits if_splits)

lemma hub_step_refines:
  "(case hub_step x h of (r, h') \<Rightarrow> (r, hub_streams h')) = spec_step x (hub_streams h)"
  by (cases x)
     (auto simp: hub_subscribe_run hub_unsubscribe_run hub_aclose_def hub_streams_def subscribers_of_def fun_eq_iff
           split: option.splits)

lemma run_hub_wf: "hub_wf h \<Longrightarrow> hub_wf (snd (run_hub xs h))"
proof (induction xs arbitrary: h)
  case (Cons x xs)
  from Cons.IH [OF hub_step_wf [OF Cons.prems, of x]] show ?case by (auto split: prod.splits)
qed simp

lemma run_hub_refines:
  "(case run_hub xs h of (rs, h') \<Rightarrow> (rs, hub_streams h')) = run_spec xs (hub_streams h)"
proof (induction xs arbitrary: h)
  case (Cons x xs)
  obtain r h1 where 1: "hub_step x h = (r, h1)" by fastforce
  then have "spec_step x (hub_streams h) = (r, hub_streams h1)" using hub_step_refines [of x h] by simp
  then show ?case using Cons [of h1] 1 by (simp split: prod.splits) (metis prod.inject)
qed simp

lemma hub_after:
  assumes "run_hub xs new_hub = (rs, h)"
  shows "hub_wf h" "run_spec xs no_streams = (rs, hub_streams h)"
  using run_hub_refines [of xs new_hub] run_hub_wf [of new_hub xs] assms by simp_all

text \<open>
  C34: The hub implements its specification. For every sequence of subscriptions, unsubscriptions and
  closings each operation returns or raises as the abstract hub does, and the subscribers a message to
  a channel goes to are exactly the open streams of that channel, in the order they were opened and each
  once. The hub stays well-formed: it keeps no entry for a channel without subscribers, so clients that
  come and go leave nothing behind, and a closed hub is empty.
\<close>

theorem hub_refines_streams:
  "fst (run_hub xs new_hub) = fst (run_spec xs no_streams)
   \<and> hub_streams (snd (run_hub xs new_hub)) = snd (run_spec xs no_streams)
   \<and> hub_wf (snd (run_hub xs new_hub))"
  using hub_after [of xs] by (cases "run_hub xs new_hub") simp

section \<open>Subscribers that take messages\<close>

text \<open>
  What the hub needs of its subscribers: sending never raises, adds the message to what the subscriber
  has received when it is up, and does not touch the others.
\<close>

locale realtime_subscribers =
  fixes send :: "'i \<Rightarrow> string \<Rightarrow> ('s, unit) io"
    and received :: "'s \<Rightarrow> 'i \<Rightarrow> string list"
    and up :: "'s \<Rightarrow> 'i \<Rightarrow> bool"
  assumes send_returns: "\<exists>s'. send i m s = (Inr (), s') \<and>
      received s' = (received s)(i := if up s i then received s i @ [m] else received s i) \<and>
      (\<forall>j. j \<noteq> i \<longrightarrow> up s' j = up s j)"
begin

lemma gather_delivers:
  assumes "distinct ids"
  shows "\<exists>s'. gather_all (map (\<lambda>i. send i m) ids) s = (Inr (), s') \<and>
    (\<forall>j. received s' j = (if j \<in> set ids \<and> up s j then received s j @ [m] else received s j)) \<and>
    (\<forall>j. j \<notin> set ids \<longrightarrow> up s' j = up s j)"
  using assms
proof (induction ids arbitrary: s)
  case (Cons i ids)
  obtain s1 where 1: "send i m s = (Inr (), s1)"
    "received s1 = (received s)(i := if up s i then received s i @ [m] else received s i)"
    "\<And>j. j \<noteq> i \<Longrightarrow> up s1 j = up s j"
    using send_returns [of i m s] by blast
  obtain s2 where 2: "gather_all (map (\<lambda>i. send i m) ids) s1 = (Inr (), s2)"
    "\<And>j. received s2 j = (if j \<in> set ids \<and> up s1 j then received s1 j @ [m] else received s1 j)"
    "\<And>j. j \<notin> set ids \<Longrightarrow> up s2 j = up s1 j"
    using Cons.IH [of s1] Cons.prems by auto
  have "gather_all (map (\<lambda>i. send i m) (i # ids)) s = (Inr (), s2)" using 1 2 by simp
  moreover have "received s2 j = (if j \<in> set (i # ids) \<and> up s j then received s j @ [m] else received s j)" for j
    using Cons.prems 1(2, 3) 2(2) [of j] by (cases "j = i") auto
  moreover have "up s2 j = up s j" if "j \<notin> set (i # ids)" for j
    using that 1(3) [of j] 2(3) [of j] by simp
  ultimately show ?case by blast
qed simp

lemma publish_delivers:
  assumes "hub_wf (rp_hub r)" "\<not> rh_closed (rp_hub r)" "strip channel \<noteq> []"
  shows "\<exists>s'. hub_publish send channel m r = (Inr (length (subscribers_of (rp_hub r) channel)), r\<lparr>rp_env := s'\<rparr>) \<and>
    (\<forall>j. received s' j = (if j \<in> set (subscribers_of (rp_hub r) channel) \<and> up (rp_env r) j
       then received (rp_env r) j @ [m] else received (rp_env r) j))"
proof -
  obtain s' where s': "gather_all (map (\<lambda>i. send i m) (subscribers_of (rp_hub r) channel)) (rp_env r) = (Inr (), s')"
    "\<And>j. received s' j = (if j \<in> set (subscribers_of (rp_hub r) channel) \<and> up (rp_env r) j
       then received (rp_env r) j @ [m] else received (rp_env r) j)"
    using gather_delivers [OF subscribers_distinct [OF assms(1)], where m = m and s = "rp_env r"] by blast
  have "on_hub (hub_targets channel) r = (Inr (subscribers_of (rp_hub r) channel), r)"
    using assms(2, 3) by (simp add: on_hub_def hub_targets_def require_channel_def require_open_def)
  then have "hub_publish send channel m r = (Inr (length (subscribers_of (rp_hub r) channel)), r\<lparr>rp_env := s'\<rparr>)"
    using s'(1) by (simp add: hub_publish_def bindS_run on_env_def)
  with s'(2) show ?thesis by blast
qed

end

interpretation fakes: realtime_subscribers fake_send "\<lambda>s. s" "\<lambda>s i. True"
  by unfold_locales (simp add: fake_send_def)

text \<open>
  Web sockets. \<open>up s i\<close> tells that the next \<open>send_text\<close> on the socket succeeds; on a socket whose peer
  is gone it raises \<open>RuntimeError\<close> or \<open>WebSocketDisconnect\<close>. A send does not affect other sockets.
\<close>

locale websocket_transport =
  fixes W :: "('i, 's) websockets"
    and received :: "'s \<Rightarrow> 'i \<Rightarrow> string list"
    and up :: "'s \<Rightarrow> 'i \<Rightarrow> bool"
  assumes send_live: "up s i \<Longrightarrow> \<exists>s'. ws_send_text W i m s = (Inr (), s') \<and>
      received s' = (received s)(i := received s i @ [m]) \<and> (\<forall>j. j \<noteq> i \<longrightarrow> up s' j = up s j)"
    and send_dead: "\<not> up s i \<Longrightarrow> \<exists>e s'. ws_send_text W i m s = (Inl e, s') \<and>
      (is_runtime_error e \<or> e = WebSocketDisconnect) \<and> received s' = received s \<and> (\<forall>j. j \<noteq> i \<longrightarrow> up s' j = up s j)"

sublocale websocket_transport \<subseteq> safe: realtime_subscribers "safe_send W" received up
proof
  fix i m s
  show "\<exists>s'. safe_send W i m s = (Inr (), s') \<and>
      received s' = (received s)(i := if up s i then received s i @ [m] else received s i) \<and>
      (\<forall>j. j \<noteq> i \<longrightarrow> up s' j = up s j)"
  proof (cases "up s i")
    case True
    with send_live [OF True, of m] show ?thesis by (auto simp: safe_send_def fastapi_send_def catchS_def)
  next
    case False
    with send_dead [OF False, of m] show ?thesis by (auto simp: safe_send_def fastapi_send_def catchS_def)
  qed
qed

context websocket_transport
begin

lemmas sockets_deliver = safe.publish_delivers

end

section \<open>A hint on its way to the user\<close>

lemma hint_decodes: "channel \<noteq> [] \<Longrightarrow> decode_payload (Some (hint_payload channel message)) = Some (channel, message)"
  by (simp add: decode_payload_def hint_payload_def json_loads_dumps dict_get_def)

lemma notification_channel_not_blank: "strip (''notification:'' @ u) \<noteq> []"
proof -
  have "lstrip (''notification:'' @ u) = ''notification:'' @ u" by (simp add: lstrip_def is_space_def)
  moreover have "CHR ''n'' \<in> set (''notification:'' @ u)" "\<not> is_space CHR ''n''" by (simp_all add: is_space_def)
  ultimately show ?thesis by (auto simp: strip_def rstrip_by_def dropWhile_eq_Nil_conv simp del: append_Cons)
qed

text \<open>
  A hint reaches the user's streams and nobody else's. When a replica's listener takes the message
  that another process published for a notification of the user \<open>u\<close>, then whatever streams were opened and
  closed on the replica before, every stream open on the channel of \<open>u\<close> whose socket still works gets the
  hint exactly once, no other socket gets anything, and sockets that fail neither stop the delivery to
  the others nor the listener.
\<close>

theorem hint_reaches_streams:
  assumes "websocket_transport W received up"
    and "run_hub xs new_hub = (rs, rp_hub r)" "snd (run_spec xs no_streams) = (False, streams)"
    and "notification_channel u = Inr channel"
  shows "\<exists>s'. listen_event (hub_publish (safe_send W)) (Some (Some (hint_payload channel (notification_hint n)))) r
      = (Inr (), r\<lparr>rp_env := s'\<rparr>) \<and>
    (\<forall>j. received s' j = (if j \<in> set (streams channel) \<and> up (rp_env r) j
       then received (rp_env r) j @ [notification_hint n] else received (rp_env r) j))"
proof -
  have channel: "channel = ''notification:'' @ u" "channel \<noteq> []" "strip channel \<noteq> []"
    using assms(4) notification_channel_not_blank [of u] by (auto simp: notification_channel_def split: if_splits)
  have hub: "hub_wf (rp_hub r)" "\<not> rh_closed (rp_hub r)" "subscribers_of (rp_hub r) = streams"
    using hub_after [OF assms(2)] assms(3) by (auto simp: hub_streams_def)
  from websocket_transport.sockets_deliver [OF assms(1) hub(1, 2) channel(3), where m = "notification_hint n"]
  show ?thesis by (auto simp: listen_event_def hint_decodes [OF channel(2)] hub(3) bindS_run)
qed

text \<open>Sockets in memory, with the peers that are still there.\<close>

type_synonym demo_net = "(nat \<Rightarrow> string list) \<times> nat set"

definition demo_sockets :: "(nat, demo_net) websockets" where
  "demo_sockets = \<lparr>ws_accept = (\<lambda>i. ret ()),
     ws_send_text = (\<lambda>i m s. if i \<in> snd s then (Inr (), ((fst s)(i := fst s i @ [m]), snd s)) else (Inl WebSocketDisconnect, s)),
     ws_close = (\<lambda>i n. modify (\<lambda>s. (fst s, snd s - {i})))\<rparr>"

interpretation demo_ws: websocket_transport demo_sockets fst "\<lambda>s i. i \<in> snd s"
  by unfold_locales (auto simp: demo_sockets_def)

definition demo_ops :: "nat hub_op list" where
  "demo_ops = [HSubscribe ''notification:ann'' 1, HSubscribe ''notification:bob'' 2, HSubscribe ''notification:ann'' 3,
     HSubscribe ''notification:ann'' 4, HUnsubscribe ''notification:ann'' 3]"

definition demo_replica :: "(nat, demo_net) replica" where
  "demo_replica = \<lparr>rp_hub = snd (run_hub demo_ops new_hub), rp_registered = True, rp_env = (\<lambda>_. [], {1, 2, 3})\<rparr>"

theorem hint_reaches_streams_witness:
  "\<exists>s'. listen_event (hub_publish (safe_send demo_sockets))
       (Some (Some (hint_payload ''notification:ann'' (notification_hint 7)))) demo_replica = (Inr (), demo_replica\<lparr>rp_env := s'\<rparr>) \<and>
     fst s' 1 = [notification_hint 7] \<and> fst s' 2 = [] \<and> fst s' 3 = [] \<and> fst s' 4 = []"
proof -
  have run: "run_hub demo_ops new_hub = (fst (run_hub demo_ops new_hub), rp_hub demo_replica)"
    by (simp add: demo_replica_def)
  have "\<not> fst (snd (run_spec demo_ops no_streams))" by code_simp
  then have spec: "snd (run_spec demo_ops no_streams) = (False, snd (snd (run_spec demo_ops no_streams)))"
    by (simp add: prod_eq_iff)
  have ann: "snd (snd (run_spec demo_ops no_streams)) ''notification:ann'' = [1, 4]" by code_simp
  have "notification_channel ''ann'' = Inr ''notification:ann''" by (simp add: notification_channel_def)
  from hint_reaches_streams [OF demo_ws.websocket_transport_axioms run spec this, where n = 7]
  show ?thesis by (auto simp: ann demo_replica_def)
qed

section \<open>The life of a stream\<close>

text \<open>What other tasks may do to the hub while a stream waits: anything but subscribe this subscriber.\<close>

definition leaves_alone :: "'i \<Rightarrow> (('i, 's) replica, 'a) io \<Rightarrow> bool" where
  "leaves_alone i m \<longleftrightarrow> (\<forall>r. hub_wf (rp_hub r) \<longrightarrow> hub_wf (rp_hub (snd (m r))) \<and>
     (\<forall>c. i \<in> set (subscribers_of (rp_hub (snd (m r))) c) \<longrightarrow> i \<in> set (subscribers_of (rp_hub r) c)))"

definition only_on :: "'i \<Rightarrow> string set \<Rightarrow> 'i RealtimeHub \<Rightarrow> bool" where
  "only_on i cs h \<longleftrightarrow> hub_wf h \<and> (\<forall>c. i \<in> set (subscribers_of h c) \<longrightarrow> c \<in> cs)"

lemma leaves_aloneD: "leaves_alone i m \<Longrightarrow> only_on i cs (rp_hub r) \<Longrightarrow> only_on i cs (rp_hub (snd (m r)))"
  unfolding leaves_alone_def only_on_def by blast

lemma on_env_hub [simp]: "rp_hub (snd (on_env m r)) = rp_hub r"
  by (simp add: on_env_def split: prod.splits)

lemma on_hub_hub [simp]: "rp_hub (snd (on_hub m r)) = snd (m (rp_hub r))"
  by (simp add: on_hub_def split: prod.splits)

lemma receive_loop_keeps:
  "\<lbrakk>\<forall>m\<in>set frames. leaves_alone i m; only_on i cs (rp_hub r)\<rbrakk> \<Longrightarrow> only_on i cs (rp_hub (snd (receive_loop frames r)))"
proof (induction frames arbitrary: r)
  case (Cons m ms)
  have "only_on i cs (rp_hub (snd (m r)))" using Cons.prems leaves_aloneD by fastforce
  with Cons.IH Cons.prems(1) show ?case by (fastforce simp: bindS_def split: prod.splits sum.splits)
qed simp

lemma only_on_subscribe: "only_on i {} h \<Longrightarrow> only_on i {c} (snd (hub_subscribe c i h))"
  using hub_step_wf [of h "HSubscribe c i"] by (auto simp: only_on_def hub_subscribe_run)

lemma only_on_unsubscribe: "only_on i {c} h \<Longrightarrow> strip c \<noteq> [] \<Longrightarrow> only_on i {} (snd (hub_unsubscribe c i h))"
  using hub_step_wf [of h "HUnsubscribe c i"]
  by (auto simp: only_on_def hub_unsubscribe_run subscribers_of_def split: option.splits if_splits)

lemma stream_until_disconnect_clean:
  assumes "\<forall>m\<in>set frames. leaves_alone i m" "only_on i {channel} (rp_hub r)" "strip channel \<noteq> []"
  shows "only_on i {} (rp_hub (snd (stream_until_disconnect channel i frames r)))"
proof -
  let ?m = "catchS (receive_loop frames) (\<lambda>e. if e = WebSocketDisconnect then ret () else raise e)"
  have "snd (?m r) = snd (receive_loop frames r)" by (auto simp: catchS_def split: prod.splits sum.splits)
  then have "only_on i {channel} (rp_hub (snd (?m r)))" using receive_loop_keeps [OF assms(1, 2)] by simp
  from only_on_unsubscribe [OF this assms(3)] show ?thesis
    unfolding stream_until_disconnect_def finallyS_def
    by (auto simp: on_hub_def split: prod.splits sum.splits)
qed

text \<open>The session that a stream is opened with.\<close>

definition stream_session :: "'s session_ops \<Rightarrow> time \<Rightarrow> string option \<Rightarrow> 's \<Rightarrow> SessionData \<Rightarrow> bool" where
  "stream_session store now authorization s session \<longleftrightarrow>
     fst (get_current_session store now (bearer_credentials authorization) s) = Inr session \<and>
     require_access_level USER session = Inr ()"

lemma authorized_session:
  assumes "authorized_websocket_session W store now i authorization s = (Inr (Some session), s')"
  shows "stream_session store now authorization s session"
  using assms
  by (auto simp: authorized_websocket_session_def current_websocket_session_def stream_session_def catchS_def bindS_def
           split: prod.splits sum.splits if_splits)

lemma stream_authorized:
  assumes "only_on i {} (rp_hub r)" "\<forall>m\<in>set frames. leaves_alone i m"
    and "on_env (authorized_websocket_session W store now i authorization) r = (Inr (Some session), r1)"
  shows "only_on i {} (rp_hub (snd (stream_notifications W store now i authorization frames r)))"
proof -
  have r1: "rp_hub r1 = rp_hub r" using assms(3) on_env_hub [of "authorized_websocket_session W store now i authorization" r] by simp
  have env: "only_on i {} (rp_hub (snd (on_env m r1)))" for m :: "('b, unit) io" using assms(1) r1 by simp
  show ?thesis
  proof (cases "rp_registered r1 \<and> sd_user_id session \<noteq> []")
    case False
    then show ?thesis using assms(1, 3) r1 env by (auto simp: stream_notifications_def bindS_run notification_channel_def)
  next
    case True
    let ?c = "''notification:'' @ sd_user_id session"
    obtain x r2 where acc: "on_env (ws_accept W i) r1 = (x, r2)" by fastforce
    then have r2: "rp_hub r2 = rp_hub r" using r1 on_env_hub [of "ws_accept W i" r1] by simp
    obtain y r3 where sub: "on_hub (hub_subscribe ?c i) r2 = (y, r3)" by fastforce
    have y: "y = Inr () \<or> y = Inl (RuntimeError ''realtime hub is closed'') \<and> rp_hub r3 = rp_hub r"
      using sub notification_channel_not_blank [of "sd_user_id session"] r2
      by (auto simp: on_hub_def hub_subscribe_run split: if_splits)
    have "only_on i {?c} (rp_hub r3)"
      using only_on_subscribe [OF assms(1)] sub r2 on_hub_hub [of "hub_subscribe ?c i" r2] by simp
    from stream_until_disconnect_clean [OF assms(2) this notification_channel_not_blank]
    show ?thesis using assms(1, 3) True acc r1 r2 sub y
      by (cases x) (auto simp: stream_notifications_def bindS_run notification_channel_def catchS_def bindS_def
          on_env_def split: prod.splits sum.splits)
  qed
qed

text \<open>
  C35: A stream leaves nothing behind. However the web socket handler ends (refused, hub missing or
  closed, client gone, any other exception), its subscriber is on no channel of the hub afterwards, and
  the hub is well-formed; other tasks may subscribe, unsubscribe and publish meanwhile. Without a token
  of a session with user access the handler never touches the hub.
\<close>

theorem stream_leaves_nothing:
  assumes "hub_wf (rp_hub r)" "\<forall>c. i \<notin> set (subscribers_of (rp_hub r) c)" "\<forall>m\<in>set frames. leaves_alone i m"
  shows "hub_wf (rp_hub (snd (stream_notifications W store now i authorization frames r)))
    \<and> (\<forall>c. i \<notin> set (subscribers_of (rp_hub (snd (stream_notifications W store now i authorization frames r))) c))
    \<and> ((\<nexists>session. stream_session store now authorization (rp_env r) session) \<longrightarrow>
        rp_hub (snd (stream_notifications W store now i authorization frames r)) = rp_hub r)"
proof -
  let ?a = "authorized_websocket_session W store now i authorization"
  have start: "only_on i {} (rp_hub r)" using assms(1, 2) by (simp add: only_on_def)
  obtain x r1 where 1: "on_env ?a r = (x, r1)" by fastforce
  then have r1: "rp_hub r1 = rp_hub r" using on_env_hub [of ?a r] by simp
  show ?thesis
  proof (cases "\<exists>session. x = Inr (Some session)")
    case True
    then obtain session where x: "x = Inr (Some session)" by blast
    then have "stream_session store now authorization (rp_env r) session"
      using 1 by (auto simp: on_env_def split: prod.splits intro: authorized_session)
    with stream_authorized [OF start assms(3)] 1 x show ?thesis by (auto simp: only_on_def)
  next
    case False
    then have "rp_hub (snd (stream_notifications W store now i authorization frames r)) = rp_hub r"
      using 1 r1 by (cases x) (auto simp: stream_notifications_def bindS_run split: option.splits)
    with assms(1, 2) show ?thesis by simp
  qed
qed

section \<open>Publishing through Redis\<close>

text \<open>
  The client library: a publication that returns was taken by the server, one that raises \<open>RedisError\<close>
  may or may not have been taken; a ping and closing a client publish nothing.
\<close>

locale redis_pubsub =
  fixes A :: "('c, 's) pubsub_api"
    and taken :: "'s \<Rightarrow> (string \<times> string) list"
  assumes publish_taken: "ps_publish A c t p s = (x, s') \<Longrightarrow>
      x = Inr () \<and> taken s' = taken s @ [(t, p)] \<or> x = Inl RedisError \<and> taken s' \<in> {taken s, taken s @ [(t, p)]}"
    and ping_takes: "ps_ping A c s = (x, s') \<Longrightarrow> x \<in> {Inr (), Inl RedisError} \<and> taken s' = taken s"
    and aclose_takes: "\<exists>s'. ps_aclose A c s = (Inr (), s') \<and> taken s' = taken s"
begin

lemma open_first_takes:
  "\<exists>x s'. open_first A urls s = (x, s') \<and> taken s' = taken s \<and>
     ((\<exists>c. x = Inr c) \<or> x = Inl (RealtimeBackplaneError ''Redis realtime connection failed''))"
proof (induction urls arbitrary: s)
  case (Cons url urls)
  obtain x s1 where 1: "ps_ping A (ps_from_url A url) s = (x, s1)" by fastforce
  obtain s2 where 2: "ps_aclose A (ps_from_url A url) s1 = (Inr (), s2)" "taken s2 = taken s1"
    using aclose_takes by blast
  from Cons.IH [of s2] ping_takes [OF 1] 1 2 show ?case by (auto simp: catchS_def bindS_def)
qed simp

lemma publisher_client_takes:
  "\<exists>x b' s'. publisher_client A (b, s) = (x, (b', s')) \<and> taken s' = taken s \<and> bp_topic b' = bp_topic b \<and>
     ((\<exists>c. x = Inr c) \<or> x = Inl (RealtimeBackplaneError ''Redis realtime connection failed''))"
  using open_first_takes [of "bp_urls b" s]
  by (auto simp: publisher_client_def open_client_def gets_bp_def modify_bp_def on_snd_state_def bindS_def
           split: option.splits prod.splits)

lemma discard_publisher_takes:
  "\<exists>b' s'. discard_publisher A (b, s) = (Inr (), (b', s')) \<and> taken s' = taken s \<and> bp_topic b' = bp_topic b"
proof (cases "bp_publisher b")
  case (Some c)
  obtain s' where "ps_aclose A c s = (Inr (), s')" "taken s' = taken s" using aclose_takes by blast
  with Some show ?thesis by (auto simp: discard_publisher_def gets_bp_def modify_bp_def on_snd_state_def bindS_def)
qed (simp add: discard_publisher_def gets_bp_def modify_bp_def bindS_def)

lemma publish_attempts_takes:
  "\<exists>x b' s' k. publish_attempts A p n (b, s) = (x, (b', s')) \<and> k \<le> n \<and>
     taken s' = taken s @ replicate k (bp_topic b, p) \<and> (x = Inr () \<and> 1 \<le> k \<or> (\<exists>m. x = Inl (RealtimeBackplaneError m)))"
proof (induction n arbitrary: b s)
  case (Suc n)
  obtain x b1 s1 where 1: "publisher_client A (b, s) = (x, (b1, s1))" "taken s1 = taken s" "bp_topic b1 = bp_topic b"
    "(\<exists>c. x = Inr c) \<or> x = Inl (RealtimeBackplaneError ''Redis realtime connection failed'')"
    using publisher_client_takes by blast
  show ?case
  proof (cases x)
    case (Inl e)
    with 1 show ?thesis by (auto simp: bindS_run intro: exI [of _ "0::nat"])
  next
    case (Inr c)
    obtain y s2 where 2: "ps_publish A c (bp_topic b1) p s1 = (y, s2)" by fastforce
    show ?thesis
    proof (cases y)
      case (Inr u)
      then have "publish_attempts A p (Suc n) (b, s) = (Inr (), (b1, s2))" "taken s2 = taken s1 @ [(bp_topic b1, p)]"
        using 1 2 \<open>x = Inr c\<close> publish_taken [OF 2] by (auto simp: bindS_def gets_bp_def on_snd_state_def catchS_def)
      then show ?thesis using 1 by (intro exI [of _ "Inr ()"] exI [of _ b1] exI [of _ s2] exI [of _ "1::nat"]) auto
    next
      case (Inl e)
      then have e: "e = RedisError" "taken s2 \<in> {taken s1, taken s1 @ [(bp_topic b1, p)]}" using publish_taken [OF 2] by auto
      obtain b3 s3 where 3: "discard_publisher A (b1, s2) = (Inr (), (b3, s3))" "taken s3 = taken s2" "bp_topic b3 = bp_topic b1"
        using discard_publisher_takes by blast
      obtain z b4 s4 k where 4: "publish_attempts A p n (b3, s3) = (z, (b4, s4))" "k \<le> n"
        "taken s4 = taken s3 @ replicate k (bp_topic b3, p)" "z = Inr () \<and> 1 \<le> k \<or> (\<exists>m. z = Inl (RealtimeBackplaneError m))"
        using Suc.IH [of b3 s3] by blast
      have run: "publish_attempts A p (Suc n) (b, s) = (z, (b4, s4))"
        using 1 2 3 4(1) Inl e(1) \<open>x = Inr c\<close> by (simp add: bindS_def gets_bp_def on_snd_state_def catchS_def)
      from e(2) consider "taken s2 = taken s1" | "taken s2 = taken s1 @ [(bp_topic b1, p)]" by blast
      then obtain k' where "taken s4 = taken s @ replicate k' (bp_topic b, p)" "k \<le> k'" "k' \<le> Suc n"
      proof cases
        case 1 with \<open>k \<le> n\<close> 4(3) 3(2, 3) \<open>taken s1 = taken s\<close> \<open>bp_topic b1 = bp_topic b\<close> show ?thesis by (intro that [of k]) auto
      next
        case 2 with \<open>k \<le> n\<close> 4(3) 3(2, 3) \<open>taken s1 = taken s\<close> \<open>bp_topic b1 = bp_topic b\<close> show ?thesis by (intro that [of "Suc k"]) auto
      qed
      then show ?thesis using run 4(4) by (intro exI [of _ z] exI [of _ b4] exI [of _ s4] exI [of _ k']) auto
    qed
  qed
qed simp

end

text \<open>
  Publishing a hint fails softly. On an open backplane \<open>publish\<close> either returns, and then the server
  took the message at least once and at most twice, or raises \<open>RealtimeBackplaneError\<close>, the only
  exception the message worker skips over; no error of Redis escapes, whichever call it comes from. What
  the server took is decoded by every listener to the channel and the message.
\<close>

theorem backplane_publish_soft:
  assumes "redis_pubsub A taken" "\<not> bp_closed b" "channel \<noteq> []"
  shows "\<exists>x b' s' k. backplane_publish A channel message (b, s) = (x, (b', s')) \<and> k \<le> 2 \<and>
     taken s' = taken s @ replicate k (bp_topic b, hint_payload channel message) \<and>
     (x = Inr () \<and> 1 \<le> k \<or> (\<exists>m. x = Inl (RealtimeBackplaneError m))) \<and>
     decode_payload (Some (hint_payload channel message)) = Some (channel, message)"
  using redis_pubsub.publish_attempts_takes [OF assms(1), of "hint_payload channel message" 2 b s] assms(2, 3)
  by (auto simp: backplane_publish_def gets_bp_def bindS_def hint_decodes [OF assms(3)])

text \<open>A Redis in memory whose connections break a number of times.\<close>

definition demo_pubsub :: "(string, (string \<times> string) list \<times> nat) pubsub_api" where
  "demo_pubsub = \<lparr>ps_from_url = (\<lambda>u. u), ps_master_for = (\<lambda>es m. m), ps_ping = (\<lambda>c. ret ()),
     ps_publish = (\<lambda>c t p s. case snd s of 0 \<Rightarrow> (Inr (), (fst s @ [(t, p)], 0)) | Suc n \<Rightarrow> (Inl RedisError, (fst s, n))),
     ps_subscribe = (\<lambda>c t. ret ()), ps_aclose = (\<lambda>c. ret ())\<rparr>"

interpretation demo_ps: redis_pubsub demo_pubsub fst
  by unfold_locales (auto simp: demo_pubsub_def split: nat.splits)

definition demo_backplane :: "string RedisPubSubRealtimeBackplane" where
  "demo_backplane = \<lparr>bp_urls = [''redis://a''], bp_topic = REALTIME_TOPIC, bp_sentinel = None,
     bp_publisher = Some ''redis://a'', bp_listening = True, bp_closed = False\<rparr>"

theorem backplane_publish_soft_witness:
  "\<exists>x b' s' k. backplane_publish demo_pubsub ''c'' ''m'' (demo_backplane, ([], 1)) = (x, (b', s')) \<and> k \<le> 2 \<and>
     fst s' = fst ([], 1::nat) @ replicate k (bp_topic demo_backplane, hint_payload ''c'' ''m'') \<and>
     (x = Inr () \<and> 1 \<le> k \<or> (\<exists>m. x = Inl (RealtimeBackplaneError m))) \<and>
     decode_payload (Some (hint_payload ''c'' ''m'')) = Some (''c'', ''m'')"
  by (rule backplane_publish_soft [OF demo_ps.redis_pubsub_axioms]) (simp_all add: demo_backplane_def)

text \<open>A connection that broke once is replaced.\<close>

lemma demo_reconnects:
  "map_prod id snd (backplane_publish demo_pubsub ''c'' ''m'' (demo_backplane, ([], 1))) =
     (Inr (), ([(REALTIME_TOPIC, hint_payload ''c'' ''m'')], 0))"
  by code_simp

text \<open>
  A message on the topic whose channel is blank but not empty passes \<open>_decode_payload\<close> and is rejected by
  the hub; the \<open>ValueError\<close> is not among the exceptions the listener handles, so the listener ends.
\<close>

lemma blank_channel_ends_listener:
  assumes "ps_subscribe A c t r = (Inr (), r)" "ps_aclose A c r = (Inr (), r)"
  shows "listen_connection A (ret c) t (hub_publish send) [ret (Some (Some (hint_payload '' '' m)))] r
    = (Inl (ValueError ''realtime channel must not be empty''), r)"
proof -
  have "strip '' '' = []" by code_simp
  then have "hub_publish send '' '' m r = (Inl (ValueError ''realtime channel must not be empty''), r)"
    by (simp add: hub_publish_def on_hub_def hub_targets_def require_channel_def bindS_def)
  then show ?thesis using assms
    by (simp add: listen_connection_def listen_event_def hint_decodes catchS_def finallyS_def bindS_def listen_errors_def)
qed

section \<open>A stream in memory\<close>

definition demo_store :: "demo_net session_ops" where
  "demo_store = \<lparr>ss_create = (\<lambda>now x. ret ()),
     ss_get = (\<lambda>now t. ret (if t = ''t'' then Some \<lparr>sd_session_id = ''t'', sd_user_id = ''eve'',
        sd_data = [(''access_level'', JStr ''user'')]\<rparr> else None)),
     ss_refresh = (\<lambda>now t. ret False), ss_revoke = (\<lambda>now t. ret False), ss_revoke_user = (\<lambda>now u. ret 0)\<rparr>"

text \<open>The client sends one text, another client arrives, and then the client disconnects.\<close>

definition demo_frames :: "((nat, demo_net) replica, string) io list" where
  "demo_frames = [ret ''ping'', bindS (on_hub (hub_subscribe ''notification:bob'' 6)) (\<lambda>_. ret ''''), raise WebSocketDisconnect]"

lemma demo_frames_alone: "\<forall>m\<in>set demo_frames. leaves_alone 5 m"
proof -
  let ?m = "bindS (on_hub (hub_subscribe ''notification:bob'' 6)) (\<lambda>_. ret '''') :: ((nat, demo_net) replica, string) io"
  have hub: "rp_hub (snd (?m r)) = snd (hub_subscribe ''notification:bob'' 6 (rp_hub r))" for r
    by (simp add: bindS_def on_hub_def split: prod.splits sum.splits)
  have "leaves_alone 5 ?m"
    unfolding leaves_alone_def hub using hub_step_wf [of _ "HSubscribe ''notification:bob'' (6::nat)"]
    by (auto simp: hub_subscribe_run split: if_splits)
  then show ?thesis by (simp add: demo_frames_def leaves_alone_def)
qed

theorem stream_leaves_nothing_witness:
  "let r' = snd (stream_notifications demo_sockets demo_store 0 5 (Some ''Bearer t'') demo_frames demo_replica) in
     hub_wf (rp_hub r') \<and> (\<forall>c. 5 \<notin> set (subscribers_of (rp_hub r') c)) \<and>
     subscribers_of (rp_hub r') ''notification:bob'' = [2, 6]"
proof -
  have streams: "subscribers_of (rp_hub demo_replica) = snd (snd (run_spec demo_ops no_streams))" "hub_wf (rp_hub demo_replica)"
    using hub_after [of demo_ops "fst (run_hub demo_ops new_hub)" "rp_hub demo_replica"]
    by (simp_all add: demo_replica_def hub_streams_def)
  have "5 \<notin> set (subscribers_of (rp_hub demo_replica) c)" for c
    by (simp add: streams(1) demo_ops_def no_streams_def strip_def)
  moreover have "subscribers_of (rp_hub (snd (stream_notifications demo_sockets demo_store 0 5 (Some ''Bearer t'') demo_frames demo_replica)))
      ''notification:bob'' = [2, 6]"
    by code_simp
  ultimately show ?thesis
    using stream_leaves_nothing [OF streams(2) _ demo_frames_alone, where W = demo_sockets and store = demo_store and now = 0
        and authorization = "Some ''Bearer t''"] by (simp add: Let_def)
qed

end
