(* ===== verification/Processes.thy ===== *)
theory Processes
  imports Routes Realtime "HOL-Library.Multiset"
begin

text \<open>
  The processes of the system from start to end: the lifespan of the web application
  (\<open>application/generated/lifespan.py\<close> with the lifespans it enters, in order: databases, session store,
  heartbeat, KIS market data, KIS domestic account, realtime notifications), the message worker, the
  durable job worker, the outbox relay and the script that grants operator access.

  What is followed is which resources are open and which attributes \<open>app.state\<close> has. A record of faults
  says which third-party constructors and closing calls raise; an asynchronous context manager is the pair
  of its code before and after the \<open>yield\<close>.
  Main result: however a start-up or the application ends, everything that was opened is closed again,
  except the clients a KIS lifespan had opened when a later one of its own could not be.
\<close>

section \<open>Resources\<close>

datatype kis_client = MarketData | DomesticAccount

datatype resource =
    Engine string
  | SessionRedis
  | HeartbeatTask
  | ProviderClient kis_client
  | CacheClient kis_client
  | LockClient kis_client
  | BackplaneListener
  | AmqpConnection

record process =
  pr_attrs :: "string set"
  pr_open :: "resource multiset"

record faults =
  fl_open :: "resource \<Rightarrow> exn option"
  fl_close :: "resource \<Rightarrow> exn option"

definition open_r :: "faults \<Rightarrow> resource \<Rightarrow> (process, unit) io" where
  "open_r F r = (case fl_open F r of Some e \<Rightarrow> raise e | None \<Rightarrow> modify (\<lambda>p. p\<lparr>pr_open := add_mset r (pr_open p)\<rparr>))"

definition close_r :: "faults \<Rightarrow> resource \<Rightarrow> (process, unit) io" where
  "close_r F r = (case fl_close F r of Some e \<Rightarrow> raise e | None \<Rightarrow> modify (\<lambda>p. p\<lparr>pr_open := pr_open p - {#r#}\<rparr>))"

fun close_all :: "faults \<Rightarrow> resource list \<Rightarrow> (process, unit) io" where
  "close_all F [] = ret ()"
| "close_all F (r # rs) = bindS (close_r F r) (\<lambda>_. close_all F rs)"

definition set_attr :: "string \<Rightarrow> (process, unit) io" where
  "set_attr x = modify (\<lambda>p. p\<lparr>pr_attrs := insert x (pr_attrs p)\<rparr>)"

definition del_attr :: "string \<Rightarrow> (process, unit) io" where
  "del_attr x p = (if x \<in> pr_attrs p then (Inr (), p\<lparr>pr_attrs := pr_attrs p - {x}\<rparr>) else (Inl (AttributeError x), p))"

section \<open>Lifespans\<close>

record context_manager =
  cx_enter :: "(process, unit) io"
  cx_exit :: "(process, unit) io"

text \<open>\<open>AsyncExitStack\<close>: contexts are entered in order and left in reverse order, on every outcome.\<close>

fun with_contexts :: "context_manager list \<Rightarrow> (process, 'a) io \<Rightarrow> (process, 'a) io" where
  "with_contexts [] body = body"
| "with_contexts (c # cs) body = bindS (cx_enter c) (\<lambda>_. finallyS (with_contexts cs body) (cx_exit c))"

text \<open>The engines of \<open>database_lifespan\<close>: the error of the loops, if any, and the engines opened before it.\<close>

fun open_engines :: "faults \<Rightarrow> environ \<Rightarrow> string list \<Rightarrow> resource list \<Rightarrow> (process, exn option \<times> resource list) io" where
  "open_engines F env [] es = ret (None, es)"
| "open_engines F env (n # ns) es = (\<lambda>p. case bindS (lift (required_url env n)) (\<lambda>_. open_r F (Engine n)) p of
       (Inl e, p') \<Rightarrow> (Inr (Some e, es), p')
     | (Inr _, p') \<Rightarrow> open_engines F env ns (es @ [Engine n]) p')"

definition DATABASE_NAMES :: "string list" where
  "DATABASE_NAMES = map snd GLOBAL_DATABASES @ map (\<lambda>(s, i, n). n) SHARD_DATABASES"

definition database_context :: "faults \<Rightarrow> environ \<Rightarrow> context_manager" where
  "database_context F env = \<lparr>
     cx_enter = bindS (open_engines F env DATABASE_NAMES []) (\<lambda>(error, engines). case error of
         Some e \<Rightarrow> bindS (close_all F (rev engines)) (\<lambda>_. raise e)
       | None \<Rightarrow> set_attr ''session_registry''),
     cx_exit = bindS (del_attr ''session_registry'') (\<lambda>_. close_all F (rev (map Engine DATABASE_NAMES)))\<rparr>"

definition session_store_lifespan :: "faults \<Rightarrow> environ \<Rightarrow> context_manager" where
  "session_store_lifespan F env = \<lparr>
     cx_enter = (if getenv env ''REDIS_URL'' = [] then raise (SessionStoreError ''Required environment variable is missing: REDIS_URL'')
       else bindS (open_r F SessionRedis) (\<lambda>_. bindS (set_attr ''session_store'') (\<lambda>_. set_attr ''request_replay_store''))),
     cx_exit = bindS (del_attr ''session_store'') (\<lambda>_. bindS (del_attr ''request_replay_store'') (\<lambda>_. close_r F SessionRedis))\<rparr>"

definition service_heartbeat_lifespan :: "faults \<Rightarrow> context_manager" where
  "service_heartbeat_lifespan F = \<lparr>cx_enter = open_r F HeartbeatTask, cx_exit = close_r F HeartbeatTask\<rparr>"

text \<open>\<open>from_environment\<close> of the KIS clients, which opens three clients one after the other; \<open>aclose\<close> of the
  token coordinator closes them.\<close>

definition open_kis :: "faults \<Rightarrow> environ \<Rightarrow> kis_client \<Rightarrow> unit result \<Rightarrow> (process, unit) io" where
  "open_kis F env k account =
     bindS (lift (token_credentials_from_environment env)) (\<lambda>_.
     bindS (lift (provider_config_from_environment env)) (\<lambda>_. bindS (open_r F (ProviderClient k)) (\<lambda>_.
     bindS (lift (kv_config_from_environment env)) (\<lambda>_. bindS (open_r F (CacheClient k)) (\<lambda>_.
     bindS (lift (lock_config_from_environment env)) (\<lambda>_. bindS (open_r F (LockClient k)) (\<lambda>_. lift account)))))))"

definition close_kis :: "faults \<Rightarrow> kis_client \<Rightarrow> (process, unit) io" where
  "close_kis F k = close_all F [ProviderClient k, LockClient k, CacheClient k]"

definition kis_market_data_lifespan :: "faults \<Rightarrow> environ \<Rightarrow> context_manager" where
  "kis_market_data_lifespan F env = \<lparr>
     cx_enter = bindS (open_kis F env MarketData (Inr ())) (\<lambda>_. set_attr ''kis_market_data''),
     cx_exit = bindS (del_attr ''kis_market_data'') (\<lambda>_. close_kis F MarketData)\<rparr>"

definition kis_domestic_account_lifespan :: "faults \<Rightarrow> environ \<Rightarrow> context_manager" where
  "kis_domestic_account_lifespan F env = \<lparr>
     cx_enter = bindS (open_kis F env DomesticAccount (bindE (account_credentials_from_environment env) (\<lambda>_. Inr ())))
       (\<lambda>_. set_attr ''kis_domestic_account''),
     cx_exit = bindS (del_attr ''kis_domestic_account'') (\<lambda>_. close_kis F DomesticAccount)\<rparr>"

text \<open>A new backplane is neither closed nor started, so its \<open>start\<close> opens the listener; the hub holds nothing outside.\<close>

definition realtime_context :: "faults \<Rightarrow> environ \<Rightarrow> context_manager" where
  "realtime_context F env = \<lparr>
     cx_enter = bindS (lift (redis_urls_from_environment env)) (\<lambda>_.
       bindS (open_r F BackplaneListener) (\<lambda>_. set_attr ''notification_realtime_hub'')),
     cx_exit = bindS (del_attr ''notification_realtime_hub'') (\<lambda>_. close_r F BackplaneListener)\<rparr>"

definition lifespans :: "faults \<Rightarrow> environ \<Rightarrow> context_manager list" where
  "lifespans F env = [database_context F env, session_store_lifespan F env, service_heartbeat_lifespan F,
     kis_market_data_lifespan F env, kis_domestic_account_lifespan F env, realtime_context F env]"

definition lifespan :: "faults \<Rightarrow> environ \<Rightarrow> (process, 'a) io \<Rightarrow> (process, 'a) io" where
  "lifespan F env body = with_contexts (lifespans F env) body"

text \<open>The dependencies that hand out what a lifespan registered.\<close>

definition get_session_store :: "(process, unit) io" where
  "get_session_store p = (if ''session_store'' \<in> pr_attrs p then Inr () else Inl (SessionStoreError ''SessionStore is not initialized''), p)"

definition get_request_replay_store :: "(process, unit) io" where
  "get_request_replay_store p =
     (if ''request_replay_store'' \<in> pr_attrs p then Inr () else Inl (SessionStoreError ''RequestReplayStore is not initialized''), p)"

definition get_session_registry :: "(process, unit) io" where
  "get_session_registry p =
     (if ''session_registry'' \<in> pr_attrs p then Inr () else Inl (DatabaseConfigurationError ''Database session registry is not initialized''), p)"

section \<open>Workers and scripts\<close>

fun open_named :: "faults \<Rightarrow> environ \<Rightarrow> string list \<Rightarrow> (process, unit) io" where
  "open_named F env [] = ret ()"
| "open_named F env (n # ns) = bindS (lift (environ_item env n)) (\<lambda>_. bindS (open_r F (Engine n)) (\<lambda>_. open_named F env ns))"

definition build_account_engines :: "faults \<Rightarrow> environ \<Rightarrow> (process, unit) io" where
  "build_account_engines F env = open_named F env (map snd ACCOUNT_SHARD_URL_ENVS)"

definition connect_rabbitmq :: "faults \<Rightarrow> environ \<Rightarrow> (process, unit) io" where
  "connect_rabbitmq F env = bindS (lift (environ_item env ''RABBITMQ_URL'')) (\<lambda>_. open_r F AmqpConnection)"

text \<open>
  \<open>consume queue keys\<close> declares the topology and registers the handler; \<open>wait\<close> is \<open>asyncio.Future()\<close>, which
  only ends by an exception. The worker's backplane is not started; the Redis client it opens when it first
  publishes, and closes at the end, belongs to the model of the backplane in \<open>Realtime\<close>.
\<close>

definition message_worker_body :: "(string \<Rightarrow> string list \<Rightarrow> (process, unit) io) \<Rightarrow> (process, unit) io \<Rightarrow> (process, unit) io" where
  "message_worker_body consume wait =
        bindS (consume QUEUE_NAME [ROUTING_KEY]) (\<lambda>_.
        bindS (consume SUBSCRIPTION_PROJECTION_QUEUE [SUBSCRIPTION_PROJECTION_ROUTING_KEY]) (\<lambda>_.
        bindS (consume DELIVERY_INTENT_QUEUE [DELIVERY_INTENT_ROUTING_KEY]) (\<lambda>_.
        bindS (consume IN_APP_NOTIFICATION_QUEUE [IN_APP_NOTIFICATION_ROUTING_KEY]) (\<lambda>_. wait))))"

definition message_worker_resources :: "resource list" where
  "message_worker_resources = AmqpConnection # Engine ''AUTOMATION_DATABASE_URL'' # map (\<lambda>(i, n). Engine n) ACCOUNT_SHARD_URL_ENVS"

definition message_worker_main ::
  "faults \<Rightarrow> environ \<Rightarrow> (string \<Rightarrow> string list \<Rightarrow> (process, unit) io) \<Rightarrow> (process, unit) io \<Rightarrow> (process, unit) io" where
  "message_worker_main F env consume wait =
     bindS (bindS (build_account_engines F env) (\<lambda>_. bindS (open_named F env [''AUTOMATION_DATABASE_URL'']) (\<lambda>_.
            bindS (lift (redis_urls_from_environment env)) (\<lambda>_. connect_rabbitmq F env)))) (\<lambda>_.
     finallyS (message_worker_body consume wait) (close_all F message_worker_resources))"

definition DURABLE_JOB_QUEUE :: string where "DURABLE_JOB_QUEUE = ''kis.profile.events.durable-jobs''"

definition DURABLE_JOB_EVENT_TYPES :: "string list" where
  "DURABLE_JOB_EVENT_TYPES = [''news.collection.requested'', ''news.index.requested'', ''durable-job.history.index.requested'',
     ''market-price.snapshot.requested'', ''market-history.domestic-daily.collection.requested'']"

definition durable_job_worker_resources :: "resource list" where
  "durable_job_worker_resources = [HeartbeatTask, AmqpConnection, Engine ''AUTOMATION_DATABASE_URL'']"

definition durable_job_worker_main ::
  "faults \<Rightarrow> environ \<Rightarrow> (string \<Rightarrow> string list \<Rightarrow> (process, unit) io) \<Rightarrow> (process, unit) io \<Rightarrow> (process, unit) io" where
  "durable_job_worker_main F env consume wait =
     bindS (bindS (open_named F env [''AUTOMATION_DATABASE_URL'']) (\<lambda>_. bindS (connect_rabbitmq F env) (\<lambda>_. open_r F HeartbeatTask))) (\<lambda>_.
     finallyS (bindS (consume DURABLE_JOB_QUEUE DURABLE_JOB_EVENT_TYPES) (\<lambda>_. wait)) (close_all F durable_job_worker_resources))"

definition DATABASE_URL_ENVS :: "string list" where
  "DATABASE_URL_ENVS = [''AUTOMATION_DATABASE_URL'', ''ACCOUNT_SHARD_1_DATABASE_URL'', ''ACCOUNT_SHARD_2_DATABASE_URL'']"

text \<open>\<open>declare\<close> is \<open>publisher.start()\<close> with \<open>declare_user_message_topology\<close>; \<open>passes\<close> is the endless loop of
  \<open>relay_pass\<close>.\<close>

definition outbox_relay_main :: "faults \<Rightarrow> environ \<Rightarrow> (process, unit) io \<Rightarrow> (process, unit) io \<Rightarrow> (process, unit) io" where
  "outbox_relay_main F env declare passes =
     bindS (bindS (connect_rabbitmq F env) (\<lambda>_. bindS declare (\<lambda>_. open_named F env DATABASE_URL_ENVS))) (\<lambda>_.
     finallyS passes (close_all F (map Engine DATABASE_URL_ENVS @ [AmqpConnection])))"

definition provision_operator_main :: "faults \<Rightarrow> environ \<Rightarrow> (process, 'a) io \<Rightarrow> (process, 'a) io" where
  "provision_operator_main F env grant =
     bindS (bindS (lift (environ_item env ''IDENTITY_DATABASE_URL'')) (\<lambda>_. bindS (lift (environ_item env ''REDIS_URL'')) (\<lambda>_.
            bindS (open_r F (Engine ''IDENTITY_DATABASE_URL'')) (\<lambda>_. open_r F SessionRedis)))) (\<lambda>_.
     finallyS grant (close_all F [SessionRedis, Engine ''IDENTITY_DATABASE_URL'']))"

section \<open>A context manager keeps its promise\<close>

text \<open>
  \<open>manages N R L c\<close>: entering \<open>c\<close> registers the attributes \<open>N\<close> and opens \<open>R\<close>, or raises, registers nothing
  and leaves at most \<open>L\<close> open; leaving it undoes this and returns.
\<close>

definition entered :: "string set \<Rightarrow> resource multiset \<Rightarrow> resource multiset \<Rightarrow> process \<Rightarrow> unit result \<times> process \<Rightarrow> bool" where
  "entered N R L p out \<longleftrightarrow> (case out of
       (Inr _, p') \<Rightarrow> pr_attrs p' = pr_attrs p \<union> N \<and> pr_open p' = pr_open p + R
     | (Inl _, p') \<Rightarrow> pr_attrs p' = pr_attrs p \<and> (\<exists>X. X \<subseteq># L \<and> pr_open p' = pr_open p + X))"

definition manages :: "string set \<Rightarrow> resource multiset \<Rightarrow> resource multiset \<Rightarrow> context_manager \<Rightarrow> bool" where
  "manages N R L c \<longleftrightarrow>
     (\<forall>p. N \<inter> pr_attrs p = {} \<longrightarrow> entered N R L p (cx_enter c p)) \<and>
     (\<forall>p A M. N \<inter> A = {} \<longrightarrow> pr_attrs p = A \<union> N \<longrightarrow> pr_open p = M + R \<longrightarrow>
        (\<exists>p'. cx_exit c p = (Inr (), p') \<and> pr_attrs p' = A \<and> pr_open p' = M))"

text \<open>A body that neither opens or closes resources of the process nor touches \<open>app.state\<close>.\<close>

definition steady :: "(process, 'a) io \<Rightarrow> bool" where
  "steady m \<longleftrightarrow> (\<forall>p. pr_attrs (snd (m p)) = pr_attrs p \<and> pr_open (snd (m p)) = pr_open p)"

text \<open>What a run leaves: the attributes as before and at most \<open>L\<close> more resources; if it reached the body,
  the body ran with everything in place, its outcome is the outcome, and nothing is left.\<close>

definition span_ran :: "string set \<Rightarrow> resource multiset \<Rightarrow> resource multiset \<Rightarrow> (process, 'a) io \<Rightarrow> process \<Rightarrow> 'a result \<times> process \<Rightarrow> bool" where
  "span_ran N R L body p out \<longleftrightarrow> pr_attrs (snd out) = pr_attrs p \<and>
     ((\<exists>p1. pr_attrs p1 = pr_attrs p \<union> N \<and> pr_open p1 = pr_open p + R \<and> fst out = fst (body p1) \<and> pr_open (snd out) = pr_open p) \<or>
      (\<exists>e X. fst out = Inl e \<and> X \<subseteq># L \<and> pr_open (snd out) = pr_open p + X))"

fun all_manage :: "(string set \<times> resource multiset \<times> resource multiset) list \<Rightarrow> context_manager list \<Rightarrow> bool" where
  "all_manage [] [] \<longleftrightarrow> True"
| "all_manage ((N, R, L) # ts) (c # cs) \<longleftrightarrow> manages N R L c \<and> (\<forall>(N', R', L')\<in>set ts. N \<inter> N' = {}) \<and> all_manage ts cs"
| "all_manage _ _ \<longleftrightarrow> False"

abbreviation all_attrs :: "(string set \<times> resource multiset \<times> resource multiset) list \<Rightarrow> string set" where
  "all_attrs ts \<equiv> (\<Union>(N, R, L)\<in>set ts. N)"

abbreviation all_open :: "(string set \<times> resource multiset \<times> resource multiset) list \<Rightarrow> resource multiset" where
  "all_open ts \<equiv> sum_list (map (\<lambda>(N, R, L). R) ts)"

abbreviation all_left :: "(string set \<times> resource multiset \<times> resource multiset) list \<Rightarrow> resource multiset" where
  "all_left ts \<equiv> sum_list (map (\<lambda>(N, R, L). L) ts)"

lemma with_contexts_ran:
  assumes "all_manage ts cs" "steady body" "all_attrs ts \<inter> pr_attrs p = {}"
  shows "span_ran (all_attrs ts) (all_open ts) (all_left ts) body p (with_contexts cs body p)"
  using assms
proof (induction ts cs arbitrary: p rule: all_manage.induct)
  case 1
  then show ?case by (auto simp: span_ran_def steady_def)
next
  case (2 N R L ts c cs)
  have m: "manages N R L c" "all_manage ts cs" and dis: "N \<inter> all_attrs ts = {}" "N \<inter> pr_attrs p = {}" using 2(2, 4) by auto
  obtain x p1 where 1: "cx_enter c p = (x, p1)" by fastforce
  with m(1) dis(2) have ent: "entered N R L p (x, p1)" unfolding manages_def by metis
  show ?case
  proof (cases x)
    case (Inl e)
    with ent 1 show ?thesis by (auto simp: span_ran_def entered_def bindS_def intro: subset_mset.trans [OF _ mset_subset_eq_add_left])
  next
    case (Inr u)
    with ent have p1: "pr_attrs p1 = pr_attrs p \<union> N" "pr_open p1 = pr_open p + R" by (auto simp: entered_def)
    obtain y p2 where 2: "with_contexts cs body p1 = (y, p2)" by fastforce
    have "all_attrs ts \<inter> pr_attrs p1 = {}" using dis(1) p1(1) "2.prems"(3) by auto
    from "2.IH" [OF m(2) "2.prems"(2) this] have r: "span_ran (all_attrs ts) (all_open ts) (all_left ts) body p1 (y, p2)" unfolding 2 .
    then have p2: "pr_attrs p2 = pr_attrs p \<union> N" using p1 by (simp add: span_ran_def)
    from r consider (body) p4 where "pr_attrs p4 = pr_attrs p1 \<union> all_attrs ts" "pr_open p4 = pr_open p1 + all_open ts"
        "y = fst (body p4)" "pr_open p2 = pr_open p + R"
      | (failed) e X where "y = Inl e" "X \<subseteq># all_left ts" "pr_open p2 = (pr_open p + X) + R"
      using p1(2) by (auto simp: span_ran_def ac_simps)
    then show ?thesis
    proof cases
      case body
      with m(1) dis(2) p2 obtain p3 where 3: "cx_exit c p2 = (Inr (), p3)" "pr_attrs p3 = pr_attrs p" "pr_open p3 = pr_open p"
        unfolding manages_def by metis
      with body p1 1 2 Inr show ?thesis
        by (auto simp: span_ran_def bindS_def finallyS_def ac_simps intro!: exI [of _ p4])
    next
      case failed
      with m(1) dis(2) p2 obtain p3 where 3: "cx_exit c p2 = (Inr (), p3)" "pr_attrs p3 = pr_attrs p" "pr_open p3 = pr_open p + X"
        unfolding manages_def by metis
      with failed 1 2 Inr show ?thesis
        by (auto simp: span_ran_def bindS_def finallyS_def intro: subset_mset.trans [OF _ mset_subset_eq_add_right])
    qed
  qed
qed auto

section \<open>The lifespans of the application\<close>

definition no_close_faults :: "faults \<Rightarrow> bool" where
  "no_close_faults F \<longleftrightarrow> fl_close F = (\<lambda>_. None)"

lemma close_all_run:
  "no_close_faults F \<Longrightarrow> close_all F rs p = (Inr (), p\<lparr>pr_open := pr_open p - mset rs\<rparr>)"
  by (induction rs arbitrary: p) (simp_all add: no_close_faults_def close_r_def bindS_def)

lemma close_r_run: "no_close_faults F \<Longrightarrow> close_r F r p = (Inr (), p\<lparr>pr_open := pr_open p - {#r#}\<rparr>)"
  by (simp add: no_close_faults_def close_r_def)

lemma open_r_run:
  "open_r F r p = (case fl_open F r of Some e \<Rightarrow> (Inl e, p) | None \<Rightarrow> (Inr (), p\<lparr>pr_open := add_mset r (pr_open p)\<rparr>))"
  by (simp add: open_r_def split: option.splits)

lemmas resource_runs = close_all_run close_r_run open_r_run set_attr_def del_attr_def

lemma open_engines_run:
  "\<exists>err k. open_engines F env ns es p = (Inr (err, es @ map Engine (take k ns)), p\<lparr>pr_open := pr_open p + mset (map Engine (take k ns))\<rparr>)
     \<and> (err = None \<longrightarrow> take k ns = ns)"
proof (induction ns arbitrary: es p)
  case Nil
  show ?case by simp
next
  case (Cons n ns)
  show ?case
  proof (cases "bindS (lift (required_url env n)) (\<lambda>_. open_r F (Engine n)) p")
    case (Pair x p')
    show ?thesis
    proof (cases x)
      case (Inl e)
      with Pair have "p' = p" by (auto simp: bindS_def lift_def open_r_run split: sum.splits option.splits)
      with Pair Inl show ?thesis by (auto intro!: exI [of _ "Some e"] exI [of _ 0])
    next
      case (Inr u)
      with Pair have p': "p' = p\<lparr>pr_open := add_mset (Engine n) (pr_open p)\<rparr>"
        by (auto simp: bindS_def lift_def open_r_run split: sum.splits option.splits)
      from Cons.IH [of "es @ [Engine n]" p'] obtain err k where
        "open_engines F env ns (es @ [Engine n]) p' = (Inr (err, (es @ [Engine n]) @ map Engine (take k ns)),
           p'\<lparr>pr_open := pr_open p' + mset (map Engine (take k ns))\<rparr>)" "err = None \<longrightarrow> take k ns = ns" by blast
      with Pair Inr p' show ?thesis by (intro exI [of _ err] exI [of _ "Suc k"]) auto
    qed
  qed
qed

lemma manages_database:
  assumes "no_close_faults F"
  shows "manages {''session_registry''} (mset (map Engine DATABASE_NAMES)) {#} (database_context F env)"
proof -
  have "entered {''session_registry''} (mset (map Engine DATABASE_NAMES)) {#} p (cx_enter (database_context F env) p)" for p
  proof -
    obtain err k where 1: "open_engines F env DATABASE_NAMES [] p = (Inr (err, map Engine (take k DATABASE_NAMES)),
        p\<lparr>pr_open := pr_open p + mset (map Engine (take k DATABASE_NAMES))\<rparr>)" "err = None \<longrightarrow> take k DATABASE_NAMES = DATABASE_NAMES"
      using open_engines_run [of F env DATABASE_NAMES "[]" p] by auto
    then show ?thesis
      by (cases err) (auto simp: database_context_def entered_def bindS_def resource_runs assms)
  qed
  then show ?thesis
    by (auto simp: manages_def database_context_def bindS_def resource_runs assms)
qed

lemma manages_session_store:
  "no_close_faults F \<Longrightarrow> manages {''session_store'', ''request_replay_store''} {#SessionRedis#} {#} (session_store_lifespan F env)"
  by (auto simp: manages_def entered_def session_store_lifespan_def bindS_def resource_runs split: option.splits)

lemma manages_heartbeat: "no_close_faults F \<Longrightarrow> manages {} {#HeartbeatTask#} {#} (service_heartbeat_lifespan F)"
  by (auto simp: manages_def entered_def service_heartbeat_lifespan_def resource_runs split: option.splits)

lemma manages_realtime:
  "no_close_faults F \<Longrightarrow> manages {''notification_realtime_hub''} {#BackplaneListener#} {#} (realtime_context F env)"
  by (auto simp: manages_def entered_def realtime_context_def bindS_def lift_def resource_runs split: option.splits sum.splits)

text \<open>The KIS clients. When one of the three cannot be opened, the ones before it stay open.\<close>

definition kis_resources :: "kis_client \<Rightarrow> resource multiset" where
  "kis_resources k = {#ProviderClient k, CacheClient k, LockClient k#}"

definition kis_ready :: "faults \<Rightarrow> environ \<Rightarrow> kis_client \<Rightarrow> unit result \<Rightarrow> bool" where
  "kis_ready F env k account \<longleftrightarrow> fl_open F (ProviderClient k) = None \<and> fl_open F (CacheClient k) = None \<and>
     fl_open F (LockClient k) = None \<and> account = Inr () \<and> (\<exists>x. token_credentials_from_environment env = Inr x) \<and>
     (\<exists>x. provider_config_from_environment env = Inr x) \<and> (\<exists>x. kv_config_from_environment env = Inr x) \<and>
     (\<exists>x. lock_config_from_environment env = Inr x)"

definition kis_left :: "faults \<Rightarrow> environ \<Rightarrow> kis_client \<Rightarrow> unit result \<Rightarrow> resource multiset" where
  "kis_left F env k account = (if kis_ready F env k account then {#} else kis_resources k)"

definition account_ok :: "environ \<Rightarrow> unit result" where
  "account_ok env = bindE (account_credentials_from_environment env) (\<lambda>_. Inr ())"

lemma open_kis_ready:
  "kis_ready F env k account \<Longrightarrow> open_kis F env k account p = (Inr (), p\<lparr>pr_open := pr_open p + kis_resources k\<rparr>)"
  by (auto simp: kis_ready_def open_kis_def kis_resources_def bindS_def resource_runs)

lemma open_kis_entered: "entered {} (kis_resources k) (kis_resources k) p (open_kis F env k account p)"
proof -
  have sub: "{#} \<subseteq># kis_resources k" "{#ProviderClient k#} \<subseteq># kis_resources k" "{#ProviderClient k, CacheClient k#} \<subseteq># kis_resources k"
    by (simp_all add: kis_resources_def)
  show ?thesis
    using sub by (auto simp: open_kis_def entered_def bindS_def lift_def resource_runs kis_resources_def split: option.splits sum.splits)
qed

lemma manages_kis:
  assumes "no_close_faults F"
    and "cx_enter c = bindS (open_kis F env k account) (\<lambda>_. set_attr x)" "cx_exit c = bindS (del_attr x) (\<lambda>_. close_kis F k)"
  shows "manages {x} (kis_resources k) (kis_left F env k account) c"
proof -
  have "entered {x} (kis_resources k) (kis_left F env k account) p (cx_enter c p)" for p
  proof (cases "kis_ready F env k account")
    case True
    then show ?thesis using open_kis_ready [OF True, of p] by (auto simp: assms(2) entered_def bindS_def resource_runs)
  next
    case False
    then show ?thesis using open_kis_entered [of k p F env account]
      by (auto simp: assms(2) entered_def bindS_def resource_runs kis_left_def split: prod.splits sum.splits)
  qed
  then show ?thesis
    by (auto simp: manages_def assms close_kis_def kis_resources_def bindS_def resource_runs)
qed

text \<open>What the lifespans promise, in the order they are entered.\<close>

definition promises :: "faults \<Rightarrow> environ \<Rightarrow> (string set \<times> resource multiset \<times> resource multiset) list" where
  "promises F env = [({''session_registry''}, mset (map Engine DATABASE_NAMES), {#}),
     ({''session_store'', ''request_replay_store''}, {#SessionRedis#}, {#}), ({}, {#HeartbeatTask#}, {#}),
     ({''kis_market_data''}, kis_resources MarketData, kis_left F env MarketData (Inr ())),
     ({''kis_domestic_account''}, kis_resources DomesticAccount, kis_left F env DomesticAccount (account_ok env)),
     ({''notification_realtime_hub''}, {#BackplaneListener#}, {#})]"

lemma lifespans_manage: "no_close_faults F \<Longrightarrow> all_manage (promises F env) (lifespans F env)"
  by (auto simp: promises_def lifespans_def manages_database [simplified] manages_session_store manages_heartbeat manages_realtime
      kis_market_data_lifespan_def kis_domestic_account_lifespan_def account_ok_def intro!: manages_kis)

definition APP_ATTRIBUTES :: "string set" where
  "APP_ATTRIBUTES = {''session_registry'', ''session_store'', ''request_replay_store'', ''kis_market_data'', ''kis_domestic_account'',
     ''notification_realtime_hub''}"


section \<open>Workers release what they opened\<close>

definition opens :: "(process, unit) io \<Rightarrow> resource multiset \<Rightarrow> bool" where
  "opens m R \<longleftrightarrow> (\<forall>p. entered {} R R p (m p))"

lemma opens_bind: "opens m R \<Longrightarrow> opens m' R' \<Longrightarrow> opens (bindS m (\<lambda>_. m')) (R + R')"
  unfolding opens_def entered_def bindS_def
  by (fastforce split: prod.splits sum.splits simp: ac_simps intro: subset_mset.trans [OF _ mset_subset_eq_add_left] subset_mset.add_mono)

lemma opens_lift: "opens m R \<Longrightarrow> opens (bindS (lift x) (\<lambda>_. m)) R"
  by (auto simp: opens_def entered_def bindS_def lift_def split: sum.splits)

lemma opens_one: "opens (open_r F r) {#r#}"
  by (auto simp: opens_def entered_def resource_runs split: option.splits)

lemma opens_steady: "steady m \<Longrightarrow> opens m {#}"
  by (auto simp: opens_def entered_def steady_def split: prod.splits sum.splits) (metis snd_conv)+

lemma opens_named: "opens (open_named F env ns) (mset (map Engine ns))"
proof (induction ns)
  case Nil
  show ?case by (simp add: opens_def entered_def)
next
  case (Cons n ns)
  from opens_lift [OF opens_bind [OF opens_one [of F "Engine n"] Cons]] show ?case by simp
qed

lemma steady_bind: "steady m \<Longrightarrow> (\<And>x. steady (f x)) \<Longrightarrow> steady (bindS m f)"
  unfolding steady_def bindS_def by (auto split: prod.splits sum.splits) (metis snd_conv)+

text \<open>A process that opens, works in a \<open>try\<close> block and closes what it opened in its \<open>finally\<close> clause.\<close>

lemma main_ran:
  assumes "no_close_faults F" "opens start (mset rs)" "steady body"
  shows "span_ran {} (mset rs) (mset rs) body p (bindS start (\<lambda>_. finallyS body (close_all F rs)) p)"
proof -
  obtain x p1 where 1: "start p = (x, p1)" by fastforce
  with assms(2) have "entered {} (mset rs) (mset rs) p (x, p1)" unfolding opens_def by metis
  with 1 assms(3) show ?thesis
    by (cases x; cases "body p1") (auto simp: entered_def span_ran_def steady_def bindS_def finallyS_def resource_runs assms(1)
        intro!: exI [of _ p1] dest: spec [of _ p1])
qed

text \<open>
  The four processes: whenever one of them got to its work it ends with the outcome of the work and with
  nothing open; an incomplete start-up raises, and what it had opened ends with the process.
\<close>

lemma message_worker_ran:
  assumes "no_close_faults F" "\<And>q ks. steady (consume q ks)" "steady wait"
  shows "span_ran {} (mset message_worker_resources) (mset message_worker_resources) (message_worker_body consume wait) p
    (message_worker_main F env consume wait p)"
proof -
  have "opens (connect_rabbitmq F env) {#AmqpConnection#}" unfolding connect_rabbitmq_def by (intro opens_lift opens_one)
  from opens_bind [OF opens_named [of F env "map snd ACCOUNT_SHARD_URL_ENVS"]
      opens_bind [OF opens_named [of F env "[''AUTOMATION_DATABASE_URL'']"] opens_lift [OF this]]]
  have "opens (bindS (build_account_engines F env) (\<lambda>_. bindS (open_named F env [''AUTOMATION_DATABASE_URL'']) (\<lambda>_.
      bindS (lift (redis_urls_from_environment env)) (\<lambda>_. connect_rabbitmq F env)))) (mset message_worker_resources)"
    by (simp add: build_account_engines_def message_worker_resources_def ACCOUNT_SHARD_URL_ENVS_def add_mset_commute)
  note ran = main_ran [OF assms(1) this]
  show ?thesis unfolding message_worker_main_def by (rule ran) (unfold message_worker_body_def, intro steady_bind assms(2, 3))
qed

lemma durable_job_worker_ran:
  assumes "no_close_faults F" "\<And>q ks. steady (consume q ks)" "steady wait"
  shows "span_ran {} (mset durable_job_worker_resources) (mset durable_job_worker_resources)
    (bindS (consume DURABLE_JOB_QUEUE DURABLE_JOB_EVENT_TYPES) (\<lambda>_. wait)) p (durable_job_worker_main F env consume wait p)"
proof -
  have "opens (connect_rabbitmq F env) {#AmqpConnection#}" unfolding connect_rabbitmq_def by (intro opens_lift opens_one)
  from opens_bind [OF opens_named [of F env "[''AUTOMATION_DATABASE_URL'']"] opens_bind [OF this opens_one [of F HeartbeatTask]]]
  have "opens (bindS (open_named F env [''AUTOMATION_DATABASE_URL'']) (\<lambda>_. bindS (connect_rabbitmq F env) (\<lambda>_. open_r F HeartbeatTask)))
      (mset durable_job_worker_resources)"
    by (simp add: durable_job_worker_resources_def add_mset_commute)
  note ran = main_ran [OF assms(1) this]
  show ?thesis unfolding durable_job_worker_main_def by (rule ran) (intro steady_bind assms(2, 3))
qed

lemma outbox_relay_ran:
  assumes "no_close_faults F" "steady declare" "steady passes"
  shows "span_ran {} (mset (map Engine DATABASE_URL_ENVS @ [AmqpConnection])) (mset (map Engine DATABASE_URL_ENVS @ [AmqpConnection])) passes p
    (outbox_relay_main F env declare passes p)"
proof -
  have "opens (connect_rabbitmq F env) {#AmqpConnection#}" unfolding connect_rabbitmq_def by (intro opens_lift opens_one)
  from opens_bind [OF this opens_bind [OF opens_steady [OF assms(2)] opens_named [of F env DATABASE_URL_ENVS]]]
  have "opens (bindS (connect_rabbitmq F env) (\<lambda>_. bindS declare (\<lambda>_. open_named F env DATABASE_URL_ENVS)))
      (mset (map Engine DATABASE_URL_ENVS @ [AmqpConnection]))" by simp
  from main_ran [OF assms(1) this assms(3)] show ?thesis unfolding outbox_relay_main_def .
qed

lemma provision_operator_ran:
  assumes "no_close_faults F" "steady grant"
  shows "span_ran {} (mset [SessionRedis, Engine ''IDENTITY_DATABASE_URL'']) (mset [SessionRedis, Engine ''IDENTITY_DATABASE_URL'']) grant p
    (provision_operator_main F env grant p)"
proof -
  have "opens (bindS (lift (environ_item env ''IDENTITY_DATABASE_URL'')) (\<lambda>_. bindS (lift (environ_item env ''REDIS_URL'')) (\<lambda>_.
      bindS (open_r F (Engine ''IDENTITY_DATABASE_URL'')) (\<lambda>_. open_r F SessionRedis)))) (mset [SessionRedis, Engine ''IDENTITY_DATABASE_URL''])"
    using opens_lift [OF opens_lift [OF opens_bind [OF opens_one [of F "Engine ''IDENTITY_DATABASE_URL''"] opens_one [of F SessionRedis]]]]
    by (simp add: add_mset_commute)
  from main_ran [OF assms(1) this assms(2)] show ?thesis unfolding provision_operator_main_def .
qed

section \<open>An application without Redis\<close>

definition no_faults :: faults where "no_faults = \<lparr>fl_open = (\<lambda>_. None), fl_close = (\<lambda>_. None)\<rparr>"

definition fresh_process :: process where "fresh_process = \<lparr>pr_attrs = {}, pr_open = {#}\<rparr>"

definition no_redis :: environ where
  "no_redis = [(''IDENTITY_DATABASE_URL'', ''a''), (''AUTOMATION_DATABASE_URL'', ''b''), (''ACCOUNT_SHARD_1_DATABASE_URL'', ''c''),
     (''ACCOUNT_SHARD_2_DATABASE_URL'', ''d'')]"


lemma no_redis_closes_engines:
  "lifespan no_faults no_redis (ret (0::nat)) fresh_process =
     (Inl (SessionStoreError ''Required environment variable is missing: REDIS_URL''), fresh_process)"
  by (simp add: lifespan_def lifespans_def database_context_def session_store_lifespan_def bindS_def finallyS_def resource_runs no_faults_def
      no_close_faults_def no_redis_def fresh_process_def DATABASE_NAMES_def GLOBAL_DATABASES_def SHARD_DATABASES_def required_url_def dict_get_def
      getenv_def environ_get_def)

end
