(* ===== verification/Observability.thy ===== *)
theory Observability
  imports Realtime
begin

text \<open>
  What the application logs (\<open>application/observability.py\<close>): the middleware around every request, the
  redaction of credentials in messages, the JSON line a record becomes and the configuration of the logger. The two regular expressions of the redaction are written out as
  matchers at the head of a text. This is exact because neither can be matched in more than one way from a
  position: each repetition runs over a class of characters that excludes the character that has to follow.
  Results: every request is logged once and passed on unchanged; after redaction no URL in the text carries
  a password; a line has no line break and parses back to its payload; configuring twice leaves one set of handlers.
\<close>

section \<open>Request logging\<close>

record http_response =
  hr_status :: nat
  hr_headers :: "(string, string) dict"

record log_entry =
  lg_message :: string
  lg_request_id :: string
  lg_method :: string
  lg_path :: string
  lg_status :: nat

text \<open>The middleware; \<open>new_id\<close> is \<open>uuid4()\<close>. The duration it logs as well is left out.\<close>

definition log_request ::
  "uuid \<Rightarrow> string \<Rightarrow> string \<Rightarrow> (string, string) dict \<Rightarrow> ('s, http_response) io \<Rightarrow> (log_entry list \<times> 's, http_response) io" where
  "log_request new_id meth path headers call_next =
     (let request_id = (case dict_get headers ''X-Request-ID'' of Some v \<Rightarrow> if v = [] then hexn 32 (unat new_id) else v
                        | None \<Rightarrow> hexn 32 (unat new_id));
          entry = (\<lambda>message status. \<lparr>lg_message = message, lg_request_id = request_id, lg_method = meth, lg_path = path, lg_status = status\<rparr>);
          log = (\<lambda>e. modify (\<lambda>(l, s). (l @ [e], s)))
      in bindS (catchS (on_snd_state call_next) (\<lambda>e. bindS (log (entry ''request failed'' 500)) (\<lambda>_. raise e))) (\<lambda>response.
         let response' = response\<lparr>hr_headers := dict_set ''X-Request-ID'' request_id (hr_headers response)\<rparr> in
         bindS (log (entry ''request completed'' (hr_status response'))) (\<lambda>_. ret response')))"

section \<open>Redaction\<close>

definition REDACTED :: string where "REDACTED = ''[REDACTED]''"

text \<open>The two character classes of the first pattern.\<close>

definition user_char :: "char \<Rightarrow> bool" where
  "user_char c \<longleftrightarrow> c \<noteq> CHR '':'' \<and> c \<noteq> CHR ''/'' \<and> \<not> is_space c"

definition pass_char :: "char \<Rightarrow> bool" where
  "pass_char c \<longleftrightarrow> c \<noteq> CHR ''@'' \<and> c \<noteq> CHR ''/'' \<and> \<not> is_space c"

text \<open>\<open>user:password@\<close> at the head of a text, and the whole of \<open>_URL_CREDENTIALS\<close>: the user, the password and
  the text behind the match.\<close>

definition credentials :: "string \<Rightarrow> (string \<times> string \<times> string) option" where
  "credentials s = (case dropWhile user_char s of
       c # r \<Rightarrow> (case dropWhile pass_char r of
           d # t \<Rightarrow> if takeWhile user_char s \<noteq> [] \<and> c = CHR '':'' \<and> takeWhile pass_char r \<noteq> [] \<and> d = CHR ''@''
             then Some (takeWhile user_char s, takeWhile pass_char r, t) else None
         | [] \<Rightarrow> None)
     | [] \<Rightarrow> None)"

definition url_credentials :: "string \<Rightarrow> (string \<times> string \<times> string) option" where
  "url_credentials s = (if take 3 s = ''://'' then credentials (drop 3 s) else None)"

lemma credentials_shorter: "credentials s = Some (u, p, t) \<Longrightarrow> length t < length s"
proof -
  assume "credentials s = Some (u, p, t)"
  then obtain c r d where "dropWhile user_char s = c # r" "dropWhile pass_char r = d # t"
    by (auto simp: credentials_def split: list.splits if_splits)
  then have "Suc (length r) \<le> length s" "Suc (length t) \<le> length r"
    using length_dropWhile_le [of user_char s] length_dropWhile_le [of pass_char r] by simp_all
  then show ?thesis by simp
qed

function redact_urls :: "string \<Rightarrow> string" where
  "redact_urls s = (case url_credentials s of
       Some (u, p, t) \<Rightarrow> ''://'' @ u @ '':'' @ REDACTED @ ''@'' @ redact_urls t
     | None \<Rightarrow> (case s of [] \<Rightarrow> [] | c # s' \<Rightarrow> c # redact_urls s'))"
  by pat_completeness auto
termination
  by (relation "measure length") (auto simp: url_credentials_def dest!: credentials_shorter split: if_splits)

text \<open>\<open>_SECRET_VALUE\<close>: a keyword at a word boundary, spaces, an equals sign or colon, spaces, and a value up
  to a comma or space. \<open>prev\<close> is the character before, if any.\<close>

definition word_char :: "char \<Rightarrow> bool" where
  "word_char c \<longleftrightarrow> (let n = code c in 48 \<le> n \<and> n \<le> 57 \<or> 65 \<le> n \<and> n \<le> 90 \<or> 97 \<le> n \<and> n \<le> 122 \<or> n = 95 \<or>
     n \<in> {170, 178, 179, 181, 185, 186, 188, 189, 190} \<or> 192 \<le> n \<and> n \<noteq> 215 \<and> n \<noteq> 247)"

definition SECRET_NAMES :: "string list" where
  "SECRET_NAMES = [''password'', ''token'', ''secret'', ''api_key'', ''api-key'', ''apikey'']"

definition secret_name :: "string \<Rightarrow> string option" where
  "secret_name s = find (\<lambda>w. lower (take (length w) s) = w) SECRET_NAMES"

definition value_char :: "char \<Rightarrow> bool" where
  "value_char c \<longleftrightarrow> c \<noteq> CHR '','' \<and> \<not> is_space c"

definition secret_value :: "char option \<Rightarrow> string \<Rightarrow> (string \<times> string \<times> string) option" where
  "secret_value prev s = (if (case prev of Some c \<Rightarrow> word_char c | None \<Rightarrow> False) then None
     else case secret_name s of
       None \<Rightarrow> None
     | Some w \<Rightarrow> (case lstrip (drop (length w) s) of
           c # r \<Rightarrow> if (c = CHR ''='' \<or> c = CHR '':'') \<and> takeWhile value_char (lstrip r) \<noteq> []
             then Some (take (length w) s @ [c], takeWhile value_char (lstrip r), dropWhile value_char (lstrip r)) else None
         | [] \<Rightarrow> None))"

lemma secret_value_shorter: "secret_value prev s = Some (k, v, t) \<Longrightarrow> length t < length s"
proof -
  assume "secret_value prev s = Some (k, v, t)"
  then obtain w :: string and c r where "lstrip (drop (length w) s) = c # r" "t = dropWhile value_char (lstrip r)"
    by (auto simp: secret_value_def split: option.splits list.splits if_splits)
  then have "Suc (length r) \<le> length s" "length t \<le> length r"
    using length_dropWhile_le [of is_space "drop (length w) s"] length_dropWhile_le [of value_char "lstrip r"]
      length_dropWhile_le [of is_space r] by (simp_all add: lstrip_def)
  then show ?thesis by simp
qed

function redact_secrets :: "char option \<Rightarrow> string \<Rightarrow> string" where
  "redact_secrets prev s = (case secret_value prev s of
       Some (k, v, t) \<Rightarrow> k @ REDACTED @ redact_secrets (Some (last v)) t
     | None \<Rightarrow> (case s of [] \<Rightarrow> [] | c # s' \<Rightarrow> c # redact_secrets (Some c) s'))"
  by pat_completeness auto
termination
  by (relation "measure (\<lambda>(p, s). length s)") (auto dest: secret_value_shorter)

definition redact :: "string \<Rightarrow> string" where
  "redact s = redact_secrets None (redact_urls s)"

declare redact_urls.simps [simp del] redact_secrets.simps [simp del]

section \<open>Every request is logged once\<close>

text \<open>
  The middleware passes on what the application did: the same exception, or the same response with the
  identifier added, which is the one the client sent unless it sent none. Either way exactly one entry is
  logged, with that identifier and the status.
\<close>

lemma request_logged_once:
  assumes "log_request new_id meth path headers call_next (l, s) = (x, (l', s'))"
  shows "\<exists>y rid e. call_next s = (y, s') \<and> l' = l @ [e] \<and> lg_request_id e = rid \<and> lg_method e = meth \<and> lg_path e = path \<and>
    (\<forall>v. dict_get headers ''X-Request-ID'' = Some v \<and> v \<noteq> [] \<longrightarrow> rid = v) \<and>
    (case y of Inl err \<Rightarrow> x = Inl err \<and> lg_status e = 500
     | Inr r \<Rightarrow> x = Inr (r\<lparr>hr_headers := dict_set ''X-Request-ID'' rid (hr_headers r)\<rparr>) \<and> lg_status e = hr_status r)"
  using assms
  by (cases "call_next s"; cases "fst (call_next s)")
     (auto simp: log_request_def Let_def bindS_def catchS_def on_snd_state_def split: option.splits)

section \<open>No URL keeps its password\<close>

text \<open>Whether a text begins with credentials, and with which, is decided before its first slash or space.\<close>

definition part_char :: "char \<Rightarrow> bool" where
  "part_char c \<longleftrightarrow> c \<noteq> CHR ''/'' \<and> \<not> is_space c"

lemma credentials_iff:
  "credentials s = Some (u, p, t) \<longleftrightarrow> s = u @ CHR '':'' # p @ CHR ''@'' # t \<and> u \<noteq> [] \<and> p \<noteq> [] \<and> list_all user_char u \<and> list_all pass_char p"
proof
  assume "credentials s = Some (u, p, t)"
  then obtain r where "dropWhile user_char s = CHR '':'' # r" "dropWhile pass_char r = CHR ''@'' # t" "u = takeWhile user_char s" "u \<noteq> []"
    "p = takeWhile pass_char r" "p \<noteq> []"
    by (auto simp: credentials_def split: list.splits if_splits)
  then show "s = u @ CHR '':'' # p @ CHR ''@'' # t \<and> u \<noteq> [] \<and> p \<noteq> [] \<and> list_all user_char u \<and> list_all pass_char p"
    by (metis takeWhile_dropWhile_id list_all_iff set_takeWhileD)
next
  assume a: "s = u @ CHR '':'' # p @ CHR ''@'' # t \<and> u \<noteq> [] \<and> p \<noteq> [] \<and> list_all user_char u \<and> list_all pass_char p"
  then have "takeWhile user_char s = u \<and> dropWhile user_char s = CHR '':'' # p @ CHR ''@'' # t"
    using takeWhile_rest [of user_char u "CHR '':'' # p @ CHR ''@'' # t"] by (simp add: user_char_def)
  moreover have "takeWhile pass_char (p @ CHR ''@'' # t) = p \<and> dropWhile pass_char (p @ CHR ''@'' # t) = CHR ''@'' # t"
    using a takeWhile_rest [of pass_char p "CHR ''@'' # t"] by (simp add: pass_char_def)
  ultimately show "credentials s = Some (u, p, t)" using a by (simp add: credentials_def)
qed

lemma part_of_credentials:
  assumes "list_all user_char u" "list_all pass_char p"
  shows "list_all part_char (u @ CHR '':'' # p @ ''@'')"
  using assms by (auto simp: list_all_iff user_char_def pass_char_def part_char_def is_space_def)

lemma credentials_head:
  assumes "credentials s = Some (u, p, t)" "takeWhile part_char s = takeWhile part_char s'"
  shows "\<exists>t'. credentials s' = Some (u, p, t')"
proof -
  let ?x = "u @ CHR '':'' # p @ ''@''"
  from assms(1) have s: "s = ?x @ t" "u \<noteq> []" "p \<noteq> []" "list_all user_char u" "list_all pass_char p" by (auto simp: credentials_iff)
  then have "takeWhile part_char s = ?x @ takeWhile part_char t"
    using part_of_credentials [OF s(4, 5)] by (simp add: list_all_iff takeWhile_append2)
  then obtain t' where "s' = ?x @ t'" using assms(2) by (metis append_assoc takeWhile_dropWhile_id)
  with s show ?thesis by (auto simp: credentials_iff)
qed

lemma redact_urls_unfold:
  "url_credentials s = Some (u, p, t) \<Longrightarrow> redact_urls s = ''://'' @ u @ '':'' @ REDACTED @ ''@'' @ redact_urls t"
  "url_credentials (c # s) = None \<Longrightarrow> redact_urls (c # s) = c # redact_urls s"
  "redact_urls [] = []"
  by (simp_all add: redact_urls.simps url_credentials_def)

lemma url_credentials_Some:
  "url_credentials s = Some (u, p, t) \<longleftrightarrow> (\<exists>s'. s = ''://'' @ s' \<and> credentials s' = Some (u, p, t))"
  by (auto simp: url_credentials_def) (metis append_take_drop_id append_Cons append_Nil)

lemma redact_urls_part: "takeWhile part_char (redact_urls s) = takeWhile part_char s"
proof (induction s rule: redact_urls.induct)
  case (1 s)
  show ?case
  proof (cases "url_credentials s")
    case None
    then show ?thesis using 1 by (cases s) (auto simp: redact_urls_unfold)
  next
    case (Some x)
    then obtain u p t where x: "url_credentials s = Some (u, p, t)" by (cases x) auto
    then obtain s' where s: "s = ''://'' @ s'" by (auto simp: url_credentials_Some)
    have "takeWhile part_char (''://'' @ z) = '':''" for z by (simp add: part_char_def is_space_def)
    then show ?thesis unfolding redact_urls_unfold(1) [OF x] unfolding s by simp
  qed
qed

text \<open>A match begins with a colon, so it begins behind a stretch of text that has none.\<close>

lemma match_behind:
  "list_all (\<lambda>c. c \<noteq> CHR '':'') a \<Longrightarrow> a @ b = x @ y \<Longrightarrow> take 3 y = ''://'' \<Longrightarrow> \<exists>x'. x = a @ x' \<and> b = x' @ y"
proof (induction a arbitrary: x)
  case (Cons c a)
  then show ?case by (cases x) auto
qed simp

lemma redact_urls_Cons: "redact_urls s = c # z \<Longrightarrow> c \<noteq> CHR '':'' \<Longrightarrow> \<exists>s'. s = c # s' \<and> z = redact_urls s'"
  by (cases "url_credentials s"; cases s) (auto simp: redact_urls_unfold redact_urls_unfold(1))

lemma redact_urls_no_new:
  assumes "url_credentials (c # s) = None"
  shows "url_credentials (c # redact_urls s) = None"
proof (rule ccontr)
  assume "url_credentials (c # redact_urls s) \<noteq> None"
  then obtain u p t w where c: "c = CHR '':''" and w: "redact_urls s = CHR ''/'' # CHR ''/'' # w" "credentials w = Some (u, p, t)"
    by (auto simp: url_credentials_Some)
  from redact_urls_Cons [OF w(1)] obtain s1 where s1: "s = CHR ''/'' # s1" "redact_urls s1 = CHR ''/'' # w" by auto
  from redact_urls_Cons [OF s1(2)] s1(1) obtain s2 where s2: "s = ''//'' @ s2" "w = redact_urls s2" by auto
  from credentials_head [OF w(2), of s2] obtain t' where "credentials s2 = Some (u, p, t')"
    by (auto simp: s2(2) redact_urls_part)
  with assms show False by (simp add: c s2(1) url_credentials_def)
qed

text \<open>Every way to read a user and password out of the redacted text gives the placeholder.\<close>

lemma redact_urls_hides:
  "redact_urls s = x @ y \<Longrightarrow> url_credentials y = Some (u, p, t) \<Longrightarrow> p = REDACTED"
proof (induction s arbitrary: x rule: redact_urls.induct)
  case (1 s)
  have y: "take 3 y = ''://''" using "1.prems"(2) by (auto simp: url_credentials_def split: if_splits)
  show ?case
  proof (cases "url_credentials s")
    case None
    show ?thesis
    proof (cases s)
      case Nil
      then show ?thesis using "1.prems" y by (simp add: redact_urls_unfold)
    next
      case (Cons c s')
      then show ?thesis using 1 None redact_urls_no_new [of c s'] by (cases x) (auto simp: redact_urls_unfold)
    qed
  next
    case (Some z)
    then obtain v q r where z: "url_credentials s = Some (v, q, r)" by (cases z) auto
    then have v: "v \<noteq> []" "list_all user_char v" by (auto simp: url_credentials_Some credentials_iff)
    have out: "CHR '':'' # (''//'' @ v) @ CHR '':'' # (REDACTED @ ''@'') @ redact_urls r = x @ y"
      using "1.prems"(1) by (simp add: redact_urls_unfold(1) [OF z])
    show ?thesis
    proof (cases x)
      case Nil
      have "credentials (v @ CHR '':'' # REDACTED @ CHR ''@'' # redact_urls r) = Some (v, REDACTED, redact_urls r)"
        using v by (simp add: credentials_iff REDACTED_def pass_char_def is_space_def)
      then show ?thesis using "1.prems"(2) out Nil by (auto simp: url_credentials_def)
    next
      case (Cons c x1)
      have plain: "list_all (\<lambda>c. c \<noteq> CHR '':'') (''//'' @ v)" "list_all (\<lambda>c. c \<noteq> CHR '':'') (REDACTED @ ''@'')"
        using v by (auto simp: list_all_iff user_char_def REDACTED_def)
      obtain x2 where 2: "CHR '':'' # (REDACTED @ ''@'') @ redact_urls r = x2 @ y"
        using match_behind [OF plain(1) _ y] out Cons by auto
      then obtain x3 where "(REDACTED @ ''@'') @ redact_urls r = x3 @ y"
        using y by (cases x2) (auto simp: REDACTED_def)
      from match_behind [OF plain(2) this y] obtain x4 where "redact_urls r = x4 @ y" by blast
      with 1 z show ?thesis by blast
    qed
  qed
qed

lemma redact_example:
  "redact ''connect postgres://app:pw@db/kis with Token = abc, retry'' = ''connect postgres://app:[REDACTED]@db/kis with Token=[REDACTED], retry''"
  by code_simp

section \<open>Log lines\<close>

text \<open>\<open>json.dumps(..., ensure_ascii=False)\<close> of an object whose members are scalars: only quotes, backslashes and
  control characters are escaped. The attributes a log record carries are strings and numbers, so
  \<open>default=str\<close> is not used.\<close>

definition raw_char :: "char \<Rightarrow> string" where
  "raw_char c = (if code c = 34 \<or> code c = 92 \<or> code c < 32 then esc_char c else [c])"

definition raw_quote :: "string \<Rightarrow> string" where
  "raw_quote s = CHR 0x22 # concat (map raw_char s) @ [CHR 0x22]"

definition raw_value :: "json \<Rightarrow> string" where
  "raw_value v = (case v of JStr s \<Rightarrow> raw_quote s | _ \<Rightarrow> json_dumps False v)"

fun raw_members :: "(string \<times> json) list \<Rightarrow> string" where
  "raw_members [] = []"
| "raw_members ((k, v) # kvs) = raw_quote k @ '': '' @ raw_value v @ (if kvs = [] then [] else '', '' @ raw_members kvs)"

definition raw_dumps :: "jdict \<Rightarrow> string" where
  "raw_dumps kvs = CHR ''{'' # raw_members kvs @ ''}''"

record log_record =
  lr_created :: time
  lr_levelname :: string
  lr_name :: string
  lr_message :: string
  lr_extra :: jdict
  lr_exception :: "string option"

definition LOG_FIELDS :: "string list" where
  "LOG_FIELDS = [''request_id'', ''method'', ''path'', ''status_code'', ''duration_ms'', ''event_id'', ''event_type'', ''job_type'',
     ''job_id'', ''run_key'', ''attempt'', ''max_attempts'']"

definition extra_field :: "jdict \<Rightarrow> string \<Rightarrow> (string \<times> json) list" where
  "extra_field extra name = (case dict_get extra name of None \<Rightarrow> [] | Some v \<Rightarrow> if v = JNull then [] else [(name, v)])"

definition log_payload :: "(time \<Rightarrow> string) \<Rightarrow> log_record \<Rightarrow> jdict" where
  "log_payload isoformat r =
     [(''timestamp'', JStr (isoformat (lr_created r))), (''level'', JStr (lr_levelname r)), (''logger'', JStr (lr_name r)),
      (''message'', JStr (redact (lr_message r)))] @
     concat (map (extra_field (lr_extra r)) LOG_FIELDS) @
     (case lr_exception r of None \<Rightarrow> [] | Some e \<Rightarrow> [(''exception'', JStr (redact e))])"

definition format_record :: "(time \<Rightarrow> string) \<Rightarrow> log_record \<Rightarrow> string" where
  "format_record isoformat r = raw_dumps (log_payload isoformat r)"

text \<open>The parser reads such a line back.\<close>

fun scalar :: "json \<Rightarrow> bool" where
  "scalar (JArr _) = False"
| "scalar (JObj _) = False"
| "scalar (JFloat t) = is_float_token t"
| "scalar _ = True"

lemma parse_raw_char: "parse_str (raw_char c @ t) = map_option (apfst ((#) c)) (parse_str t)"
  by (cases "code c = 34 \<or> code c = 92 \<or> code c < 32") (simp_all add: raw_char_def parse_str_esc_char)

lemma parse_raw_str: "parse_str (concat (map raw_char s) @ CHR 0x22 # r) = Some (s, r)"
  by (induction s) (simp_all add: parse_raw_char)

lemma parse_raw_value:
  assumes "scalar v" "rest_ok r" "2 * length (raw_value v) < n"
  shows "parse_value n (raw_value v @ r) = Some (v, r)"
proof (cases v)
  case (JStr s)
  then show ?thesis using assms(3) by (cases n) (simp_all add: raw_value_def raw_quote_def parse_raw_str)
qed (use assms parse_print(1) [of v r False n] in \<open>simp_all add: raw_value_def json_dumps_def del: parse_value.simps\<close>)

lemma raw_value_first: "scalar v \<Longrightarrow> first_ok (raw_value v)"
  using first_ok_print [of v False] by (cases v) (auto simp: raw_value_def raw_quote_def json_dumps_def first_ok_def json_ws_def)

lemma raw_members_first: "kvs \<noteq> [] \<Longrightarrow> \<exists>t. raw_members kvs = CHR 0x22 # t"
  by (cases kvs) (auto simp: raw_quote_def)

lemma parse_raw_members:
  "kvs \<noteq> [] \<Longrightarrow> \<forall>(k, v)\<in>set kvs. scalar v \<Longrightarrow> 2 * length (raw_members kvs) + 2 \<le> n \<Longrightarrow>
   parse_members n (raw_members kvs @ CHR ''}'' # r) = Some (kvs, r)"
proof (induction kvs arbitrary: n)
  case (Cons kv kvs)
  obtain k v where kv: "kv = (k, v)" by (cases kv)
  obtain m where n: "n = Suc m" using Cons.prems(3) by (cases n) auto
  let ?rest = "if kvs = [] then CHR ''}'' # r else '', '' @ raw_members kvs @ CHR ''}'' # r"
  have out: "raw_members (kv # kvs) @ CHR ''}'' # r = CHR 0x22 # concat (map raw_char k) @ CHR 0x22 # CHR '':'' # CHR '' '' # raw_value v @ ?rest"
    by (simp add: kv raw_quote_def)
  have "2 * length (raw_value v) < m" "scalar v" using Cons.prems n by (auto simp: kv)
  then have v: "parse_value m (raw_value v @ ?rest) = Some (v, ?rest)" "skip (raw_value v @ ?rest) = raw_value v @ ?rest"
    by (simp_all add: parse_raw_value raw_value_first del: parse_value.simps)
  show ?case
  proof (cases "kvs = []")
    case True
    then show ?thesis unfolding out n using v
      by (simp add: parse_raw_str skip_keep json_ws_def kv del: parse_value.simps)
  next
    case False
    have "parse_members m (raw_members kvs @ CHR ''}'' # r) = Some (kvs, r)"
      by (rule Cons.IH [OF False]) (use Cons.prems n False in \<open>auto simp: kv raw_quote_def\<close>)
    then show ?thesis unfolding out n using v False raw_members_first [OF False]
      by (auto simp: parse_raw_str skip_keep json_ws_def kv simp del: parse_value.simps)
  qed
qed simp

lemma raw_loads:
  assumes "kvs \<noteq> []" "\<forall>(k, v)\<in>set kvs. scalar v" "distinct (map fst kvs)"
  shows "json_loads (raw_dumps kvs) = Inr (JObj kvs)"
proof -
  obtain t where t: "raw_members kvs = CHR 0x22 # t" using raw_members_first [OF assms(1)] by blast
  have m: "parse_members (2 * length (raw_dumps kvs) + 1) (raw_members kvs @ ''}'') = Some (kvs, [])"
    by (rule parse_raw_members [OF assms(1, 2)]) (simp add: raw_dumps_def)
  have "fold (\<lambda>(k, v). dict_set k v) kvs [] = kvs" using assms(3) by (simp add: fold_dict_set_distinct)
  then have "parse_value (Suc (2 * length (raw_dumps kvs) + 1)) (raw_dumps kvs) = Some (JObj kvs, [])"
    using m t by (simp add: raw_dumps_def skip_keep json_ws_def del: parse_members.simps)
  moreover have "skip (raw_dumps kvs) = raw_dumps kvs" by (simp add: raw_dumps_def skip_keep json_ws_def)
  ultimately show ?thesis by (simp add: json_loads_def del: parse_value.simps)
qed

definition printable :: "string \<Rightarrow> bool" where
  "printable s \<longleftrightarrow> list_all (\<lambda>c. 32 \<le> code c) s"

lemma printable_append [simp]: "printable (s @ t) \<longleftrightarrow> printable s \<and> printable t" "printable (c # s) \<longleftrightarrow> 32 \<le> code c \<and> printable s" "printable []"
  by (simp_all add: printable_def)

lemma hex_char_printable: "n < 16 \<Longrightarrow> 32 \<le> code (hex_char n)"
  by (simp add: hex_char_def)

lemma raw_char_printable: "printable (raw_char c)"
proof -
  have "code c div 16 < 16" by (rule less_mult_imp_div_less) (use nat_of_char_less_256 [of c] in simp)
  moreover have "code c mod 16 < 16" by simp
  ultimately show ?thesis by (auto simp: raw_char_def esc_char_def Let_def hex_char_printable)
qed

lemma raw_quote_printable: "printable (raw_quote s)"
  by (induction s) (auto simp: raw_quote_def raw_char_printable)

lemma raw_value_printable:
  assumes "scalar v" shows "printable (raw_value v)"
proof (cases v)
  case (JInt i)
  have "32 \<le> code c" if "num_char c" for c using that by (auto simp: num_char_def dec_char_def)
  then show ?thesis using JInt num_chars_nat
    by (auto simp: raw_value_def json_dumps_def printable_def string_of_int_def list_all_iff)
next
  case (JFloat t)
  have "32 \<le> code c" if "num_char c" for c using that by (auto simp: num_char_def dec_char_def)
  then show ?thesis using JFloat assms num_chars_float [of t]
    by (auto simp: raw_value_def json_dumps_def printable_def list_all_iff)
qed (use assms in \<open>auto simp: raw_value_def json_dumps_def raw_quote_printable\<close>)

lemma raw_dumps_printable: "\<forall>(k, v)\<in>set kvs. scalar v \<Longrightarrow> printable (raw_dumps kvs)"
  unfolding raw_dumps_def by (induction kvs rule: raw_members.induct) (auto simp: raw_quote_printable raw_value_printable)

text \<open>The members of a line: the four fixed ones, the known attributes that are set, the exception.\<close>

lemma extra_keys: "map fst (concat (map (extra_field extra) names)) = filter (\<lambda>n. dict_get extra n \<notin> {None, Some JNull}) names"
  by (induction names) (auto simp: extra_field_def split: option.splits)

lemma log_payload_keys: "distinct (map fst (log_payload isoformat r))"
proof -
  have "set (filter p LOG_FIELDS) \<inter> {''timestamp'', ''level'', ''logger'', ''message'', ''exception''} = {}" for p
    by (auto simp: LOG_FIELDS_def)
  moreover have "distinct (filter p LOG_FIELDS)" for p by (rule distinct_filter) (simp add: LOG_FIELDS_def)
  ultimately show ?thesis unfolding log_payload_def map_append extra_keys by (auto split: option.splits)
qed

lemma dict_get_mem: "dict_get d k = Some v \<Longrightarrow> (k, v) \<in> set d"
  by (induction d) (auto simp: dict_get_def split: if_splits)

lemma extra_field_mem: "(k, v) \<in> set (extra_field extra n) \<Longrightarrow> (n, v) \<in> set extra"
  by (rule dict_get_mem) (auto simp: extra_field_def split: option.splits if_splits)

lemma log_payload_scalar:
  "\<forall>(k, v)\<in>set (lr_extra r). scalar v \<Longrightarrow> \<forall>(k, v)\<in>set (log_payload isoformat r). scalar v"
  by (auto simp: log_payload_def split: option.splits dest!: extra_field_mem)

text \<open>
  C39: Every log record becomes one line that a JSON parser reads back. The line has no line break or other
  control character, whatever the message and the attributes contain; parsing it gives the time, the level, the
  name and the redacted message, the known attributes that are set, and the redacted exception, in this order;
  other attributes are not written.
\<close>

theorem log_line_readable:
  assumes "\<forall>(k, v)\<in>set (lr_extra r). scalar v"
  shows "list_all (\<lambda>c. 32 \<le> code c) (format_record isoformat r) \<and>
    json_loads (format_record isoformat r) = Inr (JObj (log_payload isoformat r)) \<and>
    dict_get (log_payload isoformat r) ''message'' = Some (JStr (redact (lr_message r))) \<and>
    map fst (log_payload isoformat r) = [''timestamp'', ''level'', ''logger'', ''message''] @
      filter (\<lambda>n. dict_get (lr_extra r) n \<notin> {None, Some JNull}) LOG_FIELDS @ (if lr_exception r = None then [] else [''exception''])"
proof (intro conjI)
  note s = log_payload_scalar [OF assms, of isoformat]
  show "list_all (\<lambda>c. 32 \<le> code c) (format_record isoformat r)"
    using raw_dumps_printable [OF s] by (simp add: format_record_def printable_def)
  show "json_loads (format_record isoformat r) = Inr (JObj (log_payload isoformat r))"
    unfolding format_record_def by (rule raw_loads [OF _ s log_payload_keys]) (simp add: log_payload_def)
  show "dict_get (log_payload isoformat r) ''message'' = Some (JStr (redact (lr_message r)))"
    by (simp add: log_payload_def dict_get_def)
  show "map fst (log_payload isoformat r) = [''timestamp'', ''level'', ''logger'', ''message''] @
      filter (\<lambda>n. dict_get (lr_extra r) n \<notin> {None, Some JNull}) LOG_FIELDS @ (if lr_exception r = None then [] else [''exception''])"
    unfolding log_payload_def map_append extra_keys by (auto split: option.splits)
qed

definition demo_log_record :: log_record where
  "demo_log_record = \<lparr>lr_created = 0, lr_levelname = ''INFO'', lr_name = ''kis_auto_trading'',
     lr_message = ''a'' @ [CHR 0x0A] @ ''token=b'', lr_extra = [(''message_id'', JStr ''m''), (''attempt'', JInt 2), (''event_id'', JStr ''e'')],
     lr_exception = None\<rparr>"

theorem log_line_readable_witness:
  "json_loads (format_record (\<lambda>_. ''t'') demo_log_record) = Inr (JObj [(''timestamp'', JStr ''t''), (''level'', JStr ''INFO''),
     (''logger'', JStr ''kis_auto_trading''), (''message'', JStr (''a'' @ [CHR 0x0A] @ ''token=[REDACTED]'')), (''event_id'', JStr ''e''),
     (''attempt'', JInt 2)]) \<and> CHR 0x0A \<notin> set (format_record (\<lambda>_. ''t'') demo_log_record)"
proof -
  have "\<forall>(k, v)\<in>set (lr_extra demo_log_record). scalar v" by (simp add: demo_log_record_def)
  note use = log_line_readable [OF this, of "\<lambda>_. ''t''"]
  have "log_payload (\<lambda>_. ''t'') demo_log_record = [(''timestamp'', JStr ''t''), (''level'', JStr ''INFO''),
     (''logger'', JStr ''kis_auto_trading''), (''message'', JStr (''a'' @ [CHR 0x0A] @ ''token=[REDACTED]'')), (''event_id'', JStr ''e''),
     (''attempt'', JInt 2)]" by code_simp
  moreover have "CHR 0x0A \<notin> set (format_record (\<lambda>_. ''t'') demo_log_record)"
  proof
    assume "CHR 0x0A \<in> set (format_record (\<lambda>_. ''t'') demo_log_record)"
    then have "32 \<le> code (CHR 0x0A)" using use [THEN conjunct1] unfolding list_all_iff by blast
    then show False by simp
  qed
  ultimately show ?thesis using use by simp
qed

section \<open>Configuring the logger\<close>

text \<open>The named logger: its level, whether records go on to its parents, its handlers. A handler of this module
  carries the mark \<open>_generated_observability_handler\<close>.\<close>

datatype log_sink = StreamSink | FileSink string int int | OtherSink string

record log_handler =
  lh_sink :: log_sink
  lh_managed :: bool

record logger =
  lo_level :: string
  lo_propagate :: bool
  lo_handlers :: "log_handler list"
  lo_closed :: "log_handler list"

definition LEVEL_NAMES :: "string list" where
  "LEVEL_NAMES = [''CRITICAL'', ''FATAL'', ''ERROR'', ''WARN'', ''WARNING'', ''INFO'', ''DEBUG'', ''NOTSET'']"

definition env_default :: "environ \<Rightarrow> string \<Rightarrow> string \<Rightarrow> string" where
  "env_default env k d = (case dict_get env k of Some v \<Rightarrow> v | None \<Rightarrow> d)"

definition set_level :: "string \<Rightarrow> (logger, unit) io" where
  "set_level level = (if level \<in> set LEVEL_NAMES then modify (lo_level_update (\<lambda>_. level))
     else raise (ValueError (''Unknown level: '' @ str_repr level)))"

text \<open>\<open>mkdir\<close> and \<open>open_file\<close> are the effects on the file system, which may fail; \<open>hostname\<close> and \<open>pid\<close> name the file.\<close>

definition configure_logging ::
  "(string \<Rightarrow> unit result) \<Rightarrow> (string \<Rightarrow> unit result) \<Rightarrow> environ \<Rightarrow> string \<Rightarrow> int \<Rightarrow> (logger, unit) io" where
  "configure_logging mkdir open_file env hostname pid =
     bindS (set_level (upper (env_default env ''LOG_LEVEL'' ''INFO''))) (\<lambda>_.
     bindS (modify (\<lambda>l. l\<lparr>lo_propagate := False, lo_handlers := filter (\<lambda>h. \<not> lh_managed h) (lo_handlers l),
               lo_closed := lo_closed l @ filter lh_managed (lo_handlers l)\<rparr>)) (\<lambda>_.
     let directory = env_default env ''LOG_DIRECTORY'' ''logs'';
         path = directory @ ''/kis_auto_trading-'' @ hostname @ ''-'' @ string_of_int pid @ ''.log'' in
     bindS (lift (mkdir directory)) (\<lambda>_.
     bindS (lift (py_int (env_default env ''LOG_MAX_BYTES'' (string_of_int (10 * 1024 * 1024))))) (\<lambda>max_bytes.
     bindS (lift (py_int (env_default env ''LOG_BACKUP_COUNT'' ''7''))) (\<lambda>backup_count.
     bindS (lift (open_file path)) (\<lambda>_.
       modify (\<lambda>l. l\<lparr>lo_handlers := lo_handlers l @ [\<lparr>lh_sink = StreamSink, lh_managed = True\<rparr>,
         \<lparr>lh_sink = FileSink path max_bytes backup_count, lh_managed = True\<rparr>]\<rparr>)))))))"

text \<open>However often the logger is configured, it ends with the two handlers of the last call beside the foreign ones,
  and every earlier managed handler is closed: no record is written twice.\<close>

lemma configure_logging_effect:
  assumes "configure_logging mkdir open_file env hostname pid l = (Inr (), l')"
  shows "\<exists>path n b. filter lh_managed (lo_handlers l') =
      [\<lparr>lh_sink = StreamSink, lh_managed = True\<rparr>, \<lparr>lh_sink = FileSink path n b, lh_managed = True\<rparr>] \<and>
    filter (\<lambda>h. \<not> lh_managed h) (lo_handlers l') = filter (\<lambda>h. \<not> lh_managed h) (lo_handlers l) \<and>
    lo_closed l' = lo_closed l @ filter lh_managed (lo_handlers l) \<and> \<not> lo_propagate l'"
  using assms
  by (auto simp: configure_logging_def set_level_def Let_def bindS_eq_Inr filter_empty_conv split: if_splits)

end
