(* ===== verification/Schema.thy ===== *)
theory Schema
  imports PyBase "HOL-Library.Multiset"
begin

text \<open>
  The database schema: the Alembic migrations of the three stores (\<open>migrations/*/versions\<close>), the tables
  the SQLAlchemy models describe (\<open>modules/*/generated/sqlalchemy_models.py\<close>, the outbox and the durable
  jobs), and the migration script (\<open>scripts/migrate.py\<close>).

  A schema holds the tables and the indexes of one database. The statements have the effect PostgreSQL
  documents: a name that is taken or missing is an error, dropping a table drops its indexes, dropping a
  column drops the indexes that use it. Alembic runs \<open>upgrade heads\<close> in an order that respects
  \<open>down_revision\<close> and \<open>depends_on\<close>; which one is not fixed, so the statements here are about all of them.
\<close>

section \<open>Tables and statements\<close>

datatype sql_type = SqlUuid | SqlText | SqlVarchar nat | SqlDouble | SqlBoolean | SqlTimestamptz | SqlBigint | SqlInteger | SqlJsonb

datatype sql_default = DefaultBool bool | DefaultText string | DefaultNumber int

record column =
  cl_name :: string
  cl_type :: sql_type
  cl_nullable :: bool
  cl_default :: "sql_default option"
  cl_primary :: bool
  cl_unique :: bool

definition optional :: "string \<Rightarrow> sql_type \<Rightarrow> column" where
  "optional n t = \<lparr>cl_name = n, cl_type = t, cl_nullable = True, cl_default = None, cl_primary = False, cl_unique = False\<rparr>"

definition required :: "string \<Rightarrow> sql_type \<Rightarrow> column" where
  "required n t = (optional n t)\<lparr>cl_nullable := False\<rparr>"

definition primary :: "string \<Rightarrow> sql_type \<Rightarrow> column" where
  "primary n t = (required n t)\<lparr>cl_primary := True\<rparr>"

definition unique :: "column \<Rightarrow> column" where
  "unique c = c\<lparr>cl_unique := True\<rparr>"

definition with_default :: "sql_default \<Rightarrow> column \<Rightarrow> column" where
  "with_default d c = c\<lparr>cl_default := Some d\<rparr>"

record table_def =
  td_columns :: "column list"
  td_uniques :: "(string \<times> string list) list"

record schema =
  sc_tables :: "string \<Rightarrow> table_def option"
  sc_indexes :: "string \<Rightarrow> (string \<times> string list) option"

definition empty_schema :: schema where
  "empty_schema = \<lparr>sc_tables = (\<lambda>_. None), sc_indexes = (\<lambda>_. None)\<rparr>"

datatype ddl =
    CreateTable string table_def
  | DropTable string
  | DropTableIfExists string
  | CreateIndex string string "string list"
  | DropIndex string string
  | AddColumn string column
  | DropColumn string string

definition relation_exists :: "schema \<Rightarrow> string \<Rightarrow> bool" where
  "relation_exists s n \<longleftrightarrow> sc_tables s n \<noteq> None \<or> sc_indexes s n \<noteq> None"

definition has_column :: "table_def \<Rightarrow> string \<Rightarrow> bool" where
  "has_column d n \<longleftrightarrow> n \<in> set (map cl_name (td_columns d))"

definition drop_indexes :: "(string \<times> string list \<Rightarrow> bool) \<Rightarrow> schema \<Rightarrow> schema" where
  "drop_indexes p s = s\<lparr>sc_indexes := (\<lambda>i. case sc_indexes s i of Some x \<Rightarrow> if p x then None else Some x | None \<Rightarrow> None)\<rparr>"

definition drop_relation :: "string \<Rightarrow> schema \<Rightarrow> schema" where
  "drop_relation t s = drop_indexes (\<lambda>x. fst x = t) (s\<lparr>sc_tables := (sc_tables s)(t := None)\<rparr>)"

definition set_table :: "string \<Rightarrow> table_def \<Rightarrow> schema \<Rightarrow> schema" where
  "set_table t d s = s\<lparr>sc_tables := (sc_tables s)(t := Some d)\<rparr>"

definition set_index :: "string \<Rightarrow> (string \<times> string list) option \<Rightarrow> schema \<Rightarrow> schema" where
  "set_index i x s = s\<lparr>sc_indexes := (sc_indexes s)(i := x)\<rparr>"

fun apply_ddl :: "ddl \<Rightarrow> schema \<Rightarrow> schema result" where
  "apply_ddl (CreateTable t d) s = (if relation_exists s t then Inl SQLAlchemyError else Inr (set_table t d s))"
| "apply_ddl (DropTable t) s = (case sc_tables s t of None \<Rightarrow> Inl SQLAlchemyError | Some _ \<Rightarrow> Inr (drop_relation t s))"
| "apply_ddl (DropTableIfExists t) s = (case sc_tables s t of None \<Rightarrow> Inr s | Some _ \<Rightarrow> Inr (drop_relation t s))"
| "apply_ddl (CreateIndex i t cs) s = (case sc_tables s t of None \<Rightarrow> Inl SQLAlchemyError
     | Some d \<Rightarrow> if relation_exists s i \<or> \<not> list_all (has_column d) cs then Inl SQLAlchemyError
                else Inr (set_index i (Some (t, cs)) s))"
| "apply_ddl (DropIndex i t) s = (case sc_indexes s i of None \<Rightarrow> Inl SQLAlchemyError | Some _ \<Rightarrow> Inr (set_index i None s))"
| "apply_ddl (AddColumn t c) s = (case sc_tables s t of None \<Rightarrow> Inl SQLAlchemyError
     | Some d \<Rightarrow> if has_column d (cl_name c) then Inl SQLAlchemyError
                else Inr (set_table t (d\<lparr>td_columns := td_columns d @ [c]\<rparr>) s))"
| "apply_ddl (DropColumn t n) s = (case sc_tables s t of None \<Rightarrow> Inl SQLAlchemyError
     | Some d \<Rightarrow> if \<not> has_column d n then Inl SQLAlchemyError
                else Inr (drop_indexes (\<lambda>x. fst x = t \<and> n \<in> set (snd x))
                       (set_table t (d\<lparr>td_columns := filter (\<lambda>c. cl_name c \<noteq> n) (td_columns d)\<rparr>) s)))"

fun run_ddl :: "ddl list \<Rightarrow> schema \<Rightarrow> schema result" where
  "run_ddl [] s = Inr s"
| "run_ddl (x # xs) s = bindE (apply_ddl x s) (run_ddl xs)"

section \<open>Revisions\<close>

record revision =
  rv_revision :: string
  rv_down_revision :: "string option"
  rv_depends_on :: "string option"
  rv_upgrade :: "ddl list"
  rv_downgrade :: "ddl list"

definition requires :: "revision \<Rightarrow> string list" where
  "requires r = (case rv_down_revision r of None \<Rightarrow> [] | Some d \<Rightarrow> [d]) @ (case rv_depends_on r of None \<Rightarrow> [] | Some d \<Rightarrow> [d])"

text \<open>An order in which Alembic may run revisions on a database that has those in \<open>done\<close>.\<close>

fun valid_order :: "string set \<Rightarrow> revision list \<Rightarrow> bool" where
  "valid_order done [] \<longleftrightarrow> True"
| "valid_order done (r # rs) \<longleftrightarrow> set (requires r) \<subseteq> done \<and> rv_revision r \<notin> done \<and> valid_order (insert (rv_revision r) done) rs"

fun run_upgrades :: "revision list \<Rightarrow> schema \<Rightarrow> schema result" where
  "run_upgrades [] s = Inr s"
| "run_upgrades (r # rs) s = bindE (run_ddl (rv_upgrade r) s) (run_upgrades rs)"

fun run_downgrades :: "revision list \<Rightarrow> schema \<Rightarrow> schema result" where
  "run_downgrades [] s = Inr s"
| "run_downgrades (r # rs) s = bindE (run_ddl (rv_downgrade r) s) (run_downgrades rs)"

section \<open>The migrations of the identity store\<close>

definition af_identity_identity_0001 :: revision where
  "af_identity_identity_0001 = \<lparr>rv_revision = ''af_identity_identity_0001'', rv_down_revision = None, rv_depends_on = None,
     rv_upgrade = [CreateTable ''login_accounts'' \<lparr>td_columns = [
       primary ''user_id'' SqlUuid,
       unique (required ''email'' SqlText),
       required ''password_hash'' SqlText,
       with_default (DefaultBool True) (required ''is_active'' SqlBoolean),
       required ''shard_id'' SqlText,
       required ''created_at'' SqlTimestamptz],
       td_uniques = []\<rparr>],
     rv_downgrade = [DropTableIfExists ''login_accounts'']\<rparr>"

definition kis_identity_access_level_0001 :: revision where
  "kis_identity_access_level_0001 = \<lparr>rv_revision = ''kis_identity_access_level_0001'', rv_down_revision = Some ''af_identity_identity_0001'', rv_depends_on = None,
     rv_upgrade = [AddColumn ''login_accounts'' (with_default (DefaultText ''user'') (required ''access_level'' SqlText))],
     rv_downgrade = [DropColumn ''login_accounts'' ''access_level'']\<rparr>"

definition kis_identity_audit_0001 :: revision where
  "kis_identity_audit_0001 = \<lparr>rv_revision = ''kis_identity_audit_0001'', rv_down_revision = Some ''kis_identity_access_level_0001'', rv_depends_on = None,
     rv_upgrade = [CreateTable ''access_level_audits'' \<lparr>td_columns = [
       primary ''audit_id'' SqlUuid,
       required ''subject_user_id'' SqlUuid,
       required ''actor'' SqlText,
       required ''previous_access_level'' SqlText,
       required ''new_access_level'' SqlText,
       required ''changed_at'' SqlTimestamptz],
       td_uniques = []\<rparr>],
     rv_downgrade = [DropTable ''access_level_audits'']\<rparr>"

definition identity_revisions :: "revision list" where
  "identity_revisions = [af_identity_identity_0001, kis_identity_access_level_0001, kis_identity_audit_0001]"

section \<open>The migrations of the automation store\<close>

definition af_automation_market_data_0001 :: revision where
  "af_automation_market_data_0001 = \<lparr>rv_revision = ''af_automation_market_data_0001'', rv_down_revision = None, rv_depends_on = None,
     rv_upgrade = [CreateTable ''market_price_snapshots'' \<lparr>td_columns = [
       primary ''snapshot_id'' SqlUuid,
       required ''stock_code'' SqlText,
       required ''current_price'' SqlText,
       required ''observed_at'' SqlTimestamptz],
       td_uniques = []\<rparr>,
     CreateIndex ''ix_market_price_snapshots_stock_code'' ''market_price_snapshots'' [''stock_code''],
     CreateIndex ''ix_market_price_snapshots_observed_at'' ''market_price_snapshots'' [''observed_at'']],
     rv_downgrade = [DropTableIfExists ''market_price_snapshots'']\<rparr>"

definition af_995f6cee244f28112f3fb0fb :: revision where
  "af_995f6cee244f28112f3fb0fb = \<lparr>rv_revision = ''af_995f6cee244f28112f3fb0fb'', rv_down_revision = None, rv_depends_on = None,
     rv_upgrade = [CreateTable ''domestic_daily_candles'' \<lparr>td_columns = [
       primary ''candle_id'' SqlUuid,
       required ''stock_code'' SqlText,
       required ''trading_date'' SqlText,
       required ''open_price'' SqlText,
       required ''high_price'' SqlText,
       required ''low_price'' SqlText,
       required ''close_price'' SqlText,
       required ''volume'' SqlBigint],
       td_uniques = []\<rparr>,
     CreateIndex ''ix_domestic_daily_candles_stock_code'' ''domestic_daily_candles'' [''stock_code''],
     CreateIndex ''ix_domestic_daily_candles_trading_date'' ''domestic_daily_candles'' [''trading_date'']],
     rv_downgrade = [DropTableIfExists ''domestic_daily_candles'']\<rparr>"

definition af_automation_news_0001 :: revision where
  "af_automation_news_0001 = \<lparr>rv_revision = ''af_automation_news_0001'', rv_down_revision = None, rv_depends_on = None,
     rv_upgrade = [CreateTable ''news_articles'' \<lparr>td_columns = [
       primary ''source_key'' SqlText,
       required ''source_url'' SqlText,
       required ''provider'' SqlText,
       required ''title'' SqlText,
       required ''symbol'' SqlText,
       optional ''published_at'' SqlTimestamptz,
       optional ''publisher'' SqlText,
       required ''collected_at'' SqlTimestamptz],
       td_uniques = []\<rparr>],
     rv_downgrade = [DropTableIfExists ''news_articles'']\<rparr>"

definition af_automation_signal_0001 :: revision where
  "af_automation_signal_0001 = \<lparr>rv_revision = ''af_automation_signal_0001'', rv_down_revision = None, rv_depends_on = None,
     rv_upgrade = [CreateTable ''signal_events'' \<lparr>td_columns = [
       primary ''signal_id'' SqlUuid,
       required ''stock_code'' SqlText,
       required ''direction'' SqlText,
       required ''price'' SqlText,
       required ''confidence'' SqlDouble,
       required ''observed_at'' SqlTimestamptz],
       td_uniques = []\<rparr>,
     CreateIndex ''ix_signal_events_stock_code'' ''signal_events'' [''stock_code''],
     CreateIndex ''ix_signal_events_observed_at'' ''signal_events'' [''observed_at'']],
     rv_downgrade = [DropTableIfExists ''signal_events'']\<rparr>"

definition af_automation_outbox_0001 :: revision where
  "af_automation_outbox_0001 = \<lparr>rv_revision = ''af_automation_outbox_0001'', rv_down_revision = None, rv_depends_on = None,
     rv_upgrade = [CreateTable ''outbox_events'' \<lparr>td_columns = [
       primary ''event_id'' SqlUuid,
       required ''event_type'' (SqlVarchar 200),
       required ''event_version'' SqlInteger,
       required ''aggregate_id'' (SqlVarchar 200),
       required ''routing_key'' (SqlVarchar 200),
       required ''payload'' SqlJsonb,
       required ''status'' (SqlVarchar 20),
       required ''attempts'' SqlInteger,
       required ''available_at'' SqlTimestamptz,
       required ''occurred_at'' SqlTimestamptz,
       optional ''published_at'' SqlTimestamptz,
       optional ''last_error'' SqlText],
       td_uniques = []\<rparr>,
     CreateIndex ''ix_outbox_pending'' ''outbox_events'' [''status'', ''available_at''],
     CreateTable ''processed_messages'' \<lparr>td_columns = [
       primary ''event_id'' SqlUuid,
       required ''processed_at'' SqlTimestamptz],
       td_uniques = []\<rparr>],
     rv_downgrade = [DropTable ''processed_messages'', DropIndex ''ix_outbox_pending'' ''outbox_events'', DropTable ''outbox_events'']\<rparr>"

definition af_f53c218e509cd494e0f4754f :: revision where
  "af_f53c218e509cd494e0f4754f = \<lparr>rv_revision = ''af_f53c218e509cd494e0f4754f'', rv_down_revision = Some ''af_automation_signal_0001'', rv_depends_on = None,
     rv_upgrade = [CreateTable ''signal_delivery_intents'' \<lparr>td_columns = [
       primary ''intent_id'' SqlUuid,
       required ''signal_id'' SqlUuid,
       required ''subscription_id'' SqlUuid,
       required ''user_id'' SqlUuid,
       required ''shard_id'' SqlText,
       required ''stock_code'' SqlText,
       required ''expires_at'' SqlTimestamptz,
       with_default (DefaultText ''pending'') (required ''status'' SqlText)],
       td_uniques = []\<rparr>,
     CreateIndex ''ix_signal_delivery_intents_signal_id'' ''signal_delivery_intents'' [''signal_id''],
     CreateIndex ''ix_signal_delivery_intents_subscription_id'' ''signal_delivery_intents'' [''subscription_id''],
     CreateIndex ''ix_signal_delivery_intents_user_id'' ''signal_delivery_intents'' [''user_id''],
     CreateIndex ''ix_signal_delivery_intents_stock_code'' ''signal_delivery_intents'' [''stock_code''],
     CreateIndex ''ix_signal_delivery_intents_expires_at'' ''signal_delivery_intents'' [''expires_at''],
     AddColumn ''signal_events'' (optional ''expires_at'' SqlTimestamptz),
     CreateIndex ''ix_signal_events_expires_at'' ''signal_events'' [''expires_at'']],
     rv_downgrade = [DropColumn ''signal_events'' ''expires_at'', DropTableIfExists ''signal_delivery_intents'']\<rparr>"

definition af_automation_durable_jobs_0001 :: revision where
  "af_automation_durable_jobs_0001 = \<lparr>rv_revision = ''af_automation_durable_jobs_0001'', rv_down_revision = Some ''af_automation_outbox_0001'', rv_depends_on = None,
     rv_upgrade = [CreateTable ''durable_jobs'' \<lparr>td_columns = [
       primary ''job_id'' SqlUuid,
       required ''job_type'' (SqlVarchar 100),
       required ''run_key'' (SqlVarchar 200),
       required ''status'' (SqlVarchar 20),
       required ''payload'' SqlJsonb,
       optional ''result'' SqlJsonb,
       optional ''error'' SqlText,
       required ''requested_at'' SqlTimestamptz,
       required ''updated_at'' SqlTimestamptz],
       td_uniques = [(''uq_durable_jobs_type_run_key'', [''job_type'', ''run_key''])]\<rparr>],
     rv_downgrade = [DropTable ''durable_jobs'']\<rparr>"

definition kis_automation_news_content_0001 :: revision where
  "kis_automation_news_content_0001 = \<lparr>rv_revision = ''kis_automation_news_content_0001'', rv_down_revision = Some ''af_automation_durable_jobs_0001'', rv_depends_on = Some ''af_automation_news_0001'',
     rv_upgrade = [AddColumn ''news_articles'' (optional ''content'' SqlText)],
     rv_downgrade = [DropColumn ''news_articles'' ''content'']\<rparr>"

definition kis_signal_projection_0001 :: revision where
  "kis_signal_projection_0001 = \<lparr>rv_revision = ''kis_signal_projection_0001'', rv_down_revision = Some ''kis_automation_news_content_0001'', rv_depends_on = Some ''af_automation_signal_0001'',
     rv_upgrade = [CreateTable ''signal_subscription_projections'' \<lparr>td_columns = [
       primary ''subscription_id'' SqlUuid,
       required ''user_id'' SqlUuid,
       required ''shard_id'' SqlText,
       required ''stock_code'' SqlText,
       required ''enabled'' SqlBoolean,
       required ''revision'' SqlInteger],
       td_uniques = []\<rparr>,
     CreateIndex ''ix_signal_subscription_projections_user_id'' ''signal_subscription_projections'' [''user_id''],
     CreateIndex ''ix_signal_subscription_projections_stock_code'' ''signal_subscription_projections'' [''stock_code'']],
     rv_downgrade = [DropIndex ''ix_signal_subscription_projections_stock_code'' ''signal_subscription_projections'', DropIndex ''ix_signal_subscription_projections_user_id'' ''signal_subscription_projections'', DropTable ''signal_subscription_projections'']\<rparr>"

definition automation_revisions :: "revision list" where
  "automation_revisions = [af_automation_market_data_0001, af_995f6cee244f28112f3fb0fb, af_automation_news_0001, af_automation_signal_0001, af_automation_outbox_0001, af_f53c218e509cd494e0f4754f, af_automation_durable_jobs_0001, kis_automation_news_content_0001, kis_signal_projection_0001]"

section \<open>The migrations of the account store\<close>

definition af_account_account_0001 :: revision where
  "af_account_account_0001 = \<lparr>rv_revision = ''af_account_account_0001'', rv_down_revision = None, rv_depends_on = None,
     rv_upgrade = [CreateTable ''user_profiles'' \<lparr>td_columns = [
       primary ''user_id'' SqlUuid,
       required ''investment_experience'' SqlText,
       required ''risk_tolerance'' SqlText,
       required ''investment_goal'' SqlText,
       required ''monthly_budget'' SqlDouble,
       with_default (DefaultBool False) (required ''profile_completed'' SqlBoolean)],
       td_uniques = []\<rparr>],
     rv_downgrade = [DropTableIfExists ''user_profiles'']\<rparr>"

definition af_0f60163b2ebcbec8aa8039df :: revision where
  "af_0f60163b2ebcbec8aa8039df = \<lparr>rv_revision = ''af_0f60163b2ebcbec8aa8039df'', rv_down_revision = None, rv_depends_on = None,
     rv_upgrade = [CreateTable ''brokerage_account_connections'' \<lparr>td_columns = [
       primary ''connection_id'' SqlUuid,
       required ''user_id'' SqlUuid,
       required ''provider'' SqlText,
       required ''environment'' SqlText,
       required ''display_name'' SqlText,
       required ''account_mask'' SqlText,
       required ''credential_ref'' SqlText,
       required ''status'' SqlText,
       required ''created_at'' SqlTimestamptz,
       required ''updated_at'' SqlTimestamptz],
       td_uniques = []\<rparr>,
     CreateIndex ''ix_brokerage_account_connections_user_id'' ''brokerage_account_connections'' [''user_id'']],
     rv_downgrade = [DropTableIfExists ''brokerage_account_connections'']\<rparr>"

definition af_account_notification_0001 :: revision where
  "af_account_notification_0001 = \<lparr>rv_revision = ''af_account_notification_0001'', rv_down_revision = None, rv_depends_on = None,
     rv_upgrade = [CreateTable ''in_app_notifications'' \<lparr>td_columns = [
       primary ''notification_id'' SqlUuid,
       required ''delivery_intent_id'' SqlUuid,
       required ''user_id'' SqlUuid,
       required ''signal_id'' SqlUuid,
       required ''stock_code'' SqlText,
       required ''created_at'' SqlTimestamptz,
       optional ''read_at'' SqlTimestamptz],
       td_uniques = []\<rparr>,
     CreateIndex ''ix_in_app_notifications_delivery_intent_id'' ''in_app_notifications'' [''delivery_intent_id''],
     CreateIndex ''ix_in_app_notifications_user_id'' ''in_app_notifications'' [''user_id''],
     CreateIndex ''ix_in_app_notifications_signal_id'' ''in_app_notifications'' [''signal_id''],
     CreateIndex ''ix_in_app_notifications_stock_code'' ''in_app_notifications'' [''stock_code''],
     CreateIndex ''ix_in_app_notifications_created_at'' ''in_app_notifications'' [''created_at''],
     CreateIndex ''ix_in_app_notifications_read_at'' ''in_app_notifications'' [''read_at'']],
     rv_downgrade = [DropTableIfExists ''in_app_notifications'']\<rparr>"

definition af_account_portfolio_0001 :: revision where
  "af_account_portfolio_0001 = \<lparr>rv_revision = ''af_account_portfolio_0001'', rv_down_revision = None, rv_depends_on = None,
     rv_upgrade = [CreateTable ''portfolio_snapshots'' \<lparr>td_columns = [
       primary ''snapshot_id'' SqlUuid,
       required ''connection_id'' SqlUuid,
       required ''user_id'' SqlUuid,
       required ''captured_at'' SqlTimestamptz,
       required ''position_count'' SqlBigint],
       td_uniques = []\<rparr>,
     CreateIndex ''ix_portfolio_snapshots_connection_id'' ''portfolio_snapshots'' [''connection_id''],
     CreateIndex ''ix_portfolio_snapshots_user_id'' ''portfolio_snapshots'' [''user_id''],
     CreateTable ''portfolio_position_snapshots'' \<lparr>td_columns = [
       primary ''position_id'' SqlUuid,
       required ''snapshot_id'' SqlUuid,
       required ''user_id'' SqlUuid,
       required ''stock_code'' SqlText,
       required ''product_name'' SqlText,
       required ''holding_quantity'' SqlText,
       required ''orderable_quantity'' SqlText,
       required ''current_price'' SqlText],
       td_uniques = []\<rparr>,
     CreateIndex ''ix_portfolio_position_snapshots_snapshot_id'' ''portfolio_position_snapshots'' [''snapshot_id''],
     CreateIndex ''ix_portfolio_position_snapshots_user_id'' ''portfolio_position_snapshots'' [''user_id''],
     CreateIndex ''ix_portfolio_position_snapshots_stock_code'' ''portfolio_position_snapshots'' [''stock_code'']],
     rv_downgrade = [DropTableIfExists ''portfolio_position_snapshots'', DropTableIfExists ''portfolio_snapshots'']\<rparr>"

definition af_account_signal_0001 :: revision where
  "af_account_signal_0001 = \<lparr>rv_revision = ''af_account_signal_0001'', rv_down_revision = None, rv_depends_on = None,
     rv_upgrade = [CreateTable ''signal_subscriptions'' \<lparr>td_columns = [
       primary ''subscription_id'' SqlUuid,
       required ''user_id'' SqlUuid,
       required ''stock_code'' SqlText,
       with_default (DefaultBool True) (required ''enabled'' SqlBoolean)],
       td_uniques = []\<rparr>,
     CreateIndex ''ix_signal_subscriptions_user_id'' ''signal_subscriptions'' [''user_id''],
     CreateIndex ''ix_signal_subscriptions_stock_code'' ''signal_subscriptions'' [''stock_code'']],
     rv_downgrade = [DropTableIfExists ''signal_subscriptions'']\<rparr>"

definition af_account_outbox_0001 :: revision where
  "af_account_outbox_0001 = \<lparr>rv_revision = ''af_account_outbox_0001'', rv_down_revision = None, rv_depends_on = None,
     rv_upgrade = [CreateTable ''outbox_events'' \<lparr>td_columns = [
       primary ''event_id'' SqlUuid,
       required ''event_type'' (SqlVarchar 200),
       required ''event_version'' SqlInteger,
       required ''aggregate_id'' (SqlVarchar 200),
       required ''routing_key'' (SqlVarchar 200),
       required ''payload'' SqlJsonb,
       required ''status'' (SqlVarchar 20),
       required ''attempts'' SqlInteger,
       required ''available_at'' SqlTimestamptz,
       required ''occurred_at'' SqlTimestamptz,
       optional ''published_at'' SqlTimestamptz,
       optional ''last_error'' SqlText],
       td_uniques = []\<rparr>,
     CreateIndex ''ix_outbox_pending'' ''outbox_events'' [''status'', ''available_at''],
     CreateTable ''processed_messages'' \<lparr>td_columns = [
       primary ''event_id'' SqlUuid,
       required ''processed_at'' SqlTimestamptz],
       td_uniques = []\<rparr>],
     rv_downgrade = [DropTable ''processed_messages'', DropIndex ''ix_outbox_pending'' ''outbox_events'', DropTable ''outbox_events'']\<rparr>"

definition kis_account_signal_revision_1 :: revision where
  "kis_account_signal_revision_1 = \<lparr>rv_revision = ''kis_account_signal_revision_1'', rv_down_revision = Some ''af_account_outbox_0001'', rv_depends_on = Some ''af_account_signal_0001'',
     rv_upgrade = [AddColumn ''signal_subscriptions'' (with_default (DefaultNumber 1) (required ''revision'' SqlInteger))],
     rv_downgrade = [DropColumn ''signal_subscriptions'' ''revision'']\<rparr>"

definition account_revisions :: "revision list" where
  "account_revisions = [af_account_account_0001, af_0f60163b2ebcbec8aa8039df, af_account_notification_0001, af_account_portfolio_0001, af_account_signal_0001, af_account_outbox_0001, kis_account_signal_revision_1]"
section \<open>The models\<close>

text \<open>
  A table as a model class declares it, with the names SQLAlchemy gives to the indexes of its columns.
\<close>

record orm_table =
  ot_name :: string
  ot_table :: table_def
  ot_indexes :: "(string \<times> string list) list"

definition orm_login_accounts :: orm_table where
  "orm_login_accounts = \<lparr>ot_name = ''login_accounts'', ot_table = \<lparr>td_columns = [
       primary ''user_id'' SqlUuid,
       unique (required ''email'' SqlText),
       required ''password_hash'' SqlText,
       with_default (DefaultBool True) (required ''is_active'' SqlBoolean),
       with_default (DefaultText ''user'') (required ''access_level'' SqlText),
       required ''shard_id'' SqlText,
       required ''created_at'' SqlTimestamptz],
       td_uniques = []\<rparr>,
     ot_indexes = []\<rparr>"

definition orm_access_level_audits :: orm_table where
  "orm_access_level_audits = \<lparr>ot_name = ''access_level_audits'', ot_table = \<lparr>td_columns = [
       primary ''audit_id'' SqlUuid,
       required ''subject_user_id'' SqlUuid,
       required ''actor'' SqlText,
       required ''previous_access_level'' SqlText,
       required ''new_access_level'' SqlText,
       required ''changed_at'' SqlTimestamptz],
       td_uniques = []\<rparr>,
     ot_indexes = []\<rparr>"

definition orm_market_price_snapshots :: orm_table where
  "orm_market_price_snapshots = \<lparr>ot_name = ''market_price_snapshots'', ot_table = \<lparr>td_columns = [
       primary ''snapshot_id'' SqlUuid,
       required ''stock_code'' SqlText,
       required ''current_price'' SqlText,
       required ''observed_at'' SqlTimestamptz],
       td_uniques = []\<rparr>,
     ot_indexes = [(''ix_market_price_snapshots_stock_code'', [''stock_code'']), (''ix_market_price_snapshots_observed_at'', [''observed_at''])]\<rparr>"

definition orm_domestic_daily_candles :: orm_table where
  "orm_domestic_daily_candles = \<lparr>ot_name = ''domestic_daily_candles'', ot_table = \<lparr>td_columns = [
       primary ''candle_id'' SqlUuid,
       required ''stock_code'' SqlText,
       required ''trading_date'' SqlText,
       required ''open_price'' SqlText,
       required ''high_price'' SqlText,
       required ''low_price'' SqlText,
       required ''close_price'' SqlText,
       required ''volume'' SqlBigint],
       td_uniques = []\<rparr>,
     ot_indexes = [(''ix_domestic_daily_candles_stock_code'', [''stock_code'']), (''ix_domestic_daily_candles_trading_date'', [''trading_date''])]\<rparr>"

definition orm_news_articles :: orm_table where
  "orm_news_articles = \<lparr>ot_name = ''news_articles'', ot_table = \<lparr>td_columns = [
       primary ''source_key'' SqlText,
       required ''source_url'' SqlText,
       required ''provider'' SqlText,
       required ''title'' SqlText,
       optional ''content'' SqlText,
       required ''symbol'' SqlText,
       optional ''published_at'' SqlTimestamptz,
       optional ''publisher'' SqlText,
       required ''collected_at'' SqlTimestamptz],
       td_uniques = []\<rparr>,
     ot_indexes = []\<rparr>"

definition orm_user_profiles :: orm_table where
  "orm_user_profiles = \<lparr>ot_name = ''user_profiles'', ot_table = \<lparr>td_columns = [
       primary ''user_id'' SqlUuid,
       required ''investment_experience'' SqlText,
       required ''risk_tolerance'' SqlText,
       required ''investment_goal'' SqlText,
       required ''monthly_budget'' SqlDouble,
       with_default (DefaultBool False) (required ''profile_completed'' SqlBoolean)],
       td_uniques = []\<rparr>,
     ot_indexes = []\<rparr>"

definition orm_brokerage_account_connections :: orm_table where
  "orm_brokerage_account_connections = \<lparr>ot_name = ''brokerage_account_connections'', ot_table = \<lparr>td_columns = [
       primary ''connection_id'' SqlUuid,
       required ''user_id'' SqlUuid,
       required ''provider'' SqlText,
       required ''environment'' SqlText,
       required ''display_name'' SqlText,
       required ''account_mask'' SqlText,
       required ''credential_ref'' SqlText,
       required ''status'' SqlText,
       required ''created_at'' SqlTimestamptz,
       required ''updated_at'' SqlTimestamptz],
       td_uniques = []\<rparr>,
     ot_indexes = [(''ix_brokerage_account_connections_user_id'', [''user_id''])]\<rparr>"

definition orm_in_app_notifications :: orm_table where
  "orm_in_app_notifications = \<lparr>ot_name = ''in_app_notifications'', ot_table = \<lparr>td_columns = [
       primary ''notification_id'' SqlUuid,
       required ''delivery_intent_id'' SqlUuid,
       required ''user_id'' SqlUuid,
       required ''signal_id'' SqlUuid,
       required ''stock_code'' SqlText,
       required ''created_at'' SqlTimestamptz,
       optional ''read_at'' SqlTimestamptz],
       td_uniques = []\<rparr>,
     ot_indexes = [(''ix_in_app_notifications_delivery_intent_id'', [''delivery_intent_id'']), (''ix_in_app_notifications_user_id'', [''user_id'']), (''ix_in_app_notifications_signal_id'', [''signal_id'']), (''ix_in_app_notifications_stock_code'', [''stock_code'']), (''ix_in_app_notifications_created_at'', [''created_at'']), (''ix_in_app_notifications_read_at'', [''read_at''])]\<rparr>"

definition orm_portfolio_snapshots :: orm_table where
  "orm_portfolio_snapshots = \<lparr>ot_name = ''portfolio_snapshots'', ot_table = \<lparr>td_columns = [
       primary ''snapshot_id'' SqlUuid,
       required ''connection_id'' SqlUuid,
       required ''user_id'' SqlUuid,
       required ''captured_at'' SqlTimestamptz,
       required ''position_count'' SqlBigint],
       td_uniques = []\<rparr>,
     ot_indexes = [(''ix_portfolio_snapshots_connection_id'', [''connection_id'']), (''ix_portfolio_snapshots_user_id'', [''user_id''])]\<rparr>"

definition orm_portfolio_position_snapshots :: orm_table where
  "orm_portfolio_position_snapshots = \<lparr>ot_name = ''portfolio_position_snapshots'', ot_table = \<lparr>td_columns = [
       primary ''position_id'' SqlUuid,
       required ''snapshot_id'' SqlUuid,
       required ''user_id'' SqlUuid,
       required ''stock_code'' SqlText,
       required ''product_name'' SqlText,
       required ''holding_quantity'' SqlText,
       required ''orderable_quantity'' SqlText,
       required ''current_price'' SqlText],
       td_uniques = []\<rparr>,
     ot_indexes = [(''ix_portfolio_position_snapshots_snapshot_id'', [''snapshot_id'']), (''ix_portfolio_position_snapshots_user_id'', [''user_id'']), (''ix_portfolio_position_snapshots_stock_code'', [''stock_code''])]\<rparr>"

definition orm_signal_events :: orm_table where
  "orm_signal_events = \<lparr>ot_name = ''signal_events'', ot_table = \<lparr>td_columns = [
       primary ''signal_id'' SqlUuid,
       required ''stock_code'' SqlText,
       required ''direction'' SqlText,
       required ''price'' SqlText,
       required ''confidence'' SqlDouble,
       required ''observed_at'' SqlTimestamptz,
       optional ''expires_at'' SqlTimestamptz],
       td_uniques = []\<rparr>,
     ot_indexes = [(''ix_signal_events_stock_code'', [''stock_code'']), (''ix_signal_events_observed_at'', [''observed_at'']), (''ix_signal_events_expires_at'', [''expires_at''])]\<rparr>"

definition orm_signal_delivery_intents :: orm_table where
  "orm_signal_delivery_intents = \<lparr>ot_name = ''signal_delivery_intents'', ot_table = \<lparr>td_columns = [
       primary ''intent_id'' SqlUuid,
       required ''signal_id'' SqlUuid,
       required ''subscription_id'' SqlUuid,
       required ''user_id'' SqlUuid,
       required ''shard_id'' SqlText,
       required ''stock_code'' SqlText,
       required ''expires_at'' SqlTimestamptz,
       with_default (DefaultText ''pending'') (required ''status'' SqlText)],
       td_uniques = []\<rparr>,
     ot_indexes = [(''ix_signal_delivery_intents_signal_id'', [''signal_id'']), (''ix_signal_delivery_intents_subscription_id'', [''subscription_id'']), (''ix_signal_delivery_intents_user_id'', [''user_id'']), (''ix_signal_delivery_intents_stock_code'', [''stock_code'']), (''ix_signal_delivery_intents_expires_at'', [''expires_at''])]\<rparr>"

definition orm_signal_subscriptions :: orm_table where
  "orm_signal_subscriptions = \<lparr>ot_name = ''signal_subscriptions'', ot_table = \<lparr>td_columns = [
       primary ''subscription_id'' SqlUuid,
       required ''user_id'' SqlUuid,
       required ''stock_code'' SqlText,
       with_default (DefaultBool True) (required ''enabled'' SqlBoolean),
       with_default (DefaultNumber 1) (required ''revision'' SqlBigint)],
       td_uniques = []\<rparr>,
     ot_indexes = [(''ix_signal_subscriptions_user_id'', [''user_id'']), (''ix_signal_subscriptions_stock_code'', [''stock_code''])]\<rparr>"

definition orm_signal_subscription_projections :: orm_table where
  "orm_signal_subscription_projections = \<lparr>ot_name = ''signal_subscription_projections'', ot_table = \<lparr>td_columns = [
       primary ''subscription_id'' SqlUuid,
       required ''user_id'' SqlUuid,
       required ''shard_id'' SqlText,
       required ''stock_code'' SqlText,
       required ''enabled'' SqlBoolean,
       required ''revision'' SqlBigint],
       td_uniques = []\<rparr>,
     ot_indexes = [(''ix_signal_subscription_projections_user_id'', [''user_id'']), (''ix_signal_subscription_projections_stock_code'', [''stock_code''])]\<rparr>"

definition orm_outbox_events :: orm_table where
  "orm_outbox_events = \<lparr>ot_name = ''outbox_events'', ot_table = \<lparr>td_columns = [
       primary ''event_id'' SqlUuid,
       required ''event_type'' (SqlVarchar 200),
       required ''event_version'' SqlInteger,
       required ''aggregate_id'' (SqlVarchar 200),
       required ''routing_key'' (SqlVarchar 200),
       required ''payload'' SqlJsonb,
       required ''status'' (SqlVarchar 20),
       required ''attempts'' SqlInteger,
       required ''available_at'' SqlTimestamptz,
       required ''occurred_at'' SqlTimestamptz,
       optional ''published_at'' SqlTimestamptz,
       optional ''last_error'' SqlText],
       td_uniques = []\<rparr>,
     ot_indexes = []\<rparr>"

definition orm_processed_messages :: orm_table where
  "orm_processed_messages = \<lparr>ot_name = ''processed_messages'', ot_table = \<lparr>td_columns = [
       primary ''event_id'' SqlUuid,
       required ''processed_at'' SqlTimestamptz],
       td_uniques = []\<rparr>,
     ot_indexes = []\<rparr>"

definition orm_durable_jobs :: orm_table where
  "orm_durable_jobs = \<lparr>ot_name = ''durable_jobs'', ot_table = \<lparr>td_columns = [
       primary ''job_id'' SqlUuid,
       required ''job_type'' (SqlVarchar 100),
       required ''run_key'' (SqlVarchar 200),
       required ''status'' (SqlVarchar 20),
       required ''payload'' SqlJsonb,
       optional ''result'' SqlJsonb,
       optional ''error'' SqlText,
       required ''requested_at'' SqlTimestamptz,
       required ''updated_at'' SqlTimestamptz],
       td_uniques = [(''uq_durable_jobs_type_run_key'', [''job_type'', ''run_key''])]\<rparr>,
     ot_indexes = []\<rparr>"

definition identity_models :: "orm_table list" where
  "identity_models = [orm_login_accounts, orm_access_level_audits]"

definition automation_models :: "orm_table list" where
  "automation_models = [orm_market_price_snapshots, orm_domestic_daily_candles, orm_news_articles, orm_signal_events, orm_signal_delivery_intents, orm_signal_subscription_projections, orm_outbox_events, orm_processed_messages, orm_durable_jobs]"

definition account_models :: "orm_table list" where
  "account_models = [orm_user_profiles, orm_brokerage_account_connections, orm_in_app_notifications, orm_portfolio_snapshots, orm_portfolio_position_snapshots, orm_signal_subscriptions, orm_outbox_events, orm_processed_messages]"

section \<open>The migration script\<close>

text \<open>A database: the revisions it has (the version table) and its schema.\<close>

record database =
  da_applied :: "string set"
  da_schema :: schema

definition upgrade_one :: "revision \<Rightarrow> database \<Rightarrow> database result" where
  "upgrade_one r d = (if rv_revision r \<in> da_applied d then Inr d
     else bindE (run_ddl (rv_upgrade r) (da_schema d)) (\<lambda>s. Inr \<lparr>da_applied = insert (rv_revision r) (da_applied d), da_schema = s\<rparr>))"

fun upgrade_heads :: "revision list \<Rightarrow> database \<Rightarrow> database result" where
  "upgrade_heads [] d = Inr d"
| "upgrade_heads (r # rs) d = bindE (upgrade_one r d) (upgrade_heads rs)"

definition DATABASE_TARGETS :: "(string \<times> string) list" where
  "DATABASE_TARGETS = [(''identity'', ''IDENTITY_DATABASE_URL''), (''automation'', ''AUTOMATION_DATABASE_URL''),
     (''account'', ''ACCOUNT_SHARD_1_DATABASE_URL''), (''account'', ''ACCOUNT_SHARD_2_DATABASE_URL'')]"

text \<open>\<open>orders store\<close> is the order in which Alembic runs the revisions of a store; databases are known by their URL.\<close>

definition migrate ::
  "(string \<Rightarrow> revision list) \<Rightarrow> (string, string) dict \<Rightarrow> string \<Rightarrow> string \<Rightarrow> (string \<Rightarrow> database, unit) io" where
  "migrate orders env store environment_name = (case dict_get env environment_name of
       None \<Rightarrow> raise (RuntimeError (''Required environment variable is missing: '' @ environment_name))
     | Some url \<Rightarrow> if url = [] then raise (RuntimeError (''Required environment variable is missing: '' @ environment_name))
         else bindS get_state (\<lambda>dbs. bindS (lift (upgrade_heads (orders store) (dbs url))) (\<lambda>d. modify (\<lambda>dbs. dbs(url := d)))))"

fun migrate_targets ::
  "(string \<Rightarrow> revision list) \<Rightarrow> (string, string) dict \<Rightarrow> (string \<times> string) list \<Rightarrow> (string \<Rightarrow> database, unit) io" where
  "migrate_targets orders env [] = ret ()"
| "migrate_targets orders env ((store, name) # targets) =
     bindS (migrate orders env store name) (\<lambda>_. migrate_targets orders env targets)"

definition migrate_main :: "(string \<Rightarrow> revision list) \<Rightarrow> (string, string) dict \<Rightarrow> (string \<Rightarrow> database, unit) io" where
  "migrate_main orders env = migrate_targets orders env DATABASE_TARGETS"

section \<open>Revisions that do not meet\<close>

text \<open>The relations an upgrade statement looks at; statements that remove something are not upgrades here.\<close>

fun is_creation :: "ddl \<Rightarrow> bool" where
  "is_creation (CreateTable _ _) = True"
| "is_creation (CreateIndex _ _ _) = True"
| "is_creation (AddColumn _ _) = True"
| "is_creation _ = False"

fun touches :: "ddl \<Rightarrow> string list" where
  "touches (CreateTable t d) = [t]"
| "touches (CreateIndex i t cs) = [i, t]"
| "touches (AddColumn t c) = [t]"
| "touches (DropTable t) = [t]"
| "touches (DropTableIfExists t) = [t]"
| "touches (DropIndex i t) = [i, t]"
| "touches (DropColumn t n) = [t]"

definition apart :: "ddl list \<Rightarrow> ddl list \<Rightarrow> bool" where
  "apart us vs \<longleftrightarrow> (\<forall>x\<in>set us. \<forall>y\<in>set vs. is_creation x \<and> is_creation y \<and> set (touches x) \<inter> set (touches y) = {})"

lemma schema_upd_simps [simp]:
  "sc_tables (set_table t d s) = (sc_tables s)(t := Some d)" "sc_indexes (set_table t d s) = sc_indexes s"
  "sc_tables (set_index i x s) = sc_tables s" "sc_indexes (set_index i x s) = (sc_indexes s)(i := x)"
  by (simp_all add: set_table_def set_index_def)

lemma schema_upd_commute:
  "t \<noteq> t' \<Longrightarrow> set_table t d (set_table t' d' s) = set_table t' d' (set_table t d s)"
  "i \<noteq> i' \<Longrightarrow> set_index i x (set_index i' x' s) = set_index i' x' (set_index i x s)"
  "set_table t d (set_index i x s) = set_index i x (set_table t d s)"
  by (simp_all add: set_table_def set_index_def fun_upd_twist)

lemma apply_commute:
  assumes "is_creation x" "is_creation y" "set (touches x) \<inter> set (touches y) = {}"
  shows "bindE (apply_ddl x s) (apply_ddl y) = bindE (apply_ddl y s) (apply_ddl x)"
  using assms
  by (cases x; cases y) (auto simp: relation_exists_def schema_upd_commute split: option.splits)

lemma bindE_assoc: "bindE (bindE r f) g = bindE r (\<lambda>x. bindE (f x) g)"
  by (cases r) simp_all

lemma run_ddl_append: "run_ddl (us @ vs) s = bindE (run_ddl us s) (run_ddl vs)"
  by (induction us arbitrary: s) (auto simp: bindE_def split: sum.splits)

lemma run_past:
  assumes "is_creation x" "\<forall>y\<in>set vs. is_creation y \<and> set (touches x) \<inter> set (touches y) = {}"
  shows "bindE (apply_ddl x s) (run_ddl vs) = bindE (run_ddl vs s) (apply_ddl x)"
  using assms(2)
proof (induction vs arbitrary: s)
  case Nil
  then show ?case by (cases "apply_ddl x s") simp_all
next
  case (Cons y vs)
  have "bindE (apply_ddl x s) (run_ddl (y # vs)) = bindE (bindE (apply_ddl x s) (apply_ddl y)) (run_ddl vs)"
    by (simp add: bindE_def split: sum.splits)
  also have "\<dots> = bindE (apply_ddl y s) (\<lambda>s1. bindE (apply_ddl x s1) (run_ddl vs))"
    using apply_commute [OF assms(1), of y s] Cons.prems by (simp add: bindE_assoc)
  also have "\<dots> = bindE (apply_ddl y s) (\<lambda>s1. bindE (run_ddl vs s1) (apply_ddl x))" using Cons by simp
  finally show ?case unfolding run_ddl.simps(2) [of y vs s] bindE_assoc .
qed

lemma run_apart: "apart us vs \<Longrightarrow> bindE (run_ddl us s) (run_ddl vs) = bindE (run_ddl vs s) (run_ddl us)"
proof (induction us arbitrary: s)
  case Nil
  then show ?case by (cases "run_ddl vs s") simp_all
next
  case (Cons x us)
  then have x: "is_creation x" "\<forall>y\<in>set vs. is_creation y \<and> set (touches x) \<inter> set (touches y) = {}" if "vs \<noteq> []"
    using that by (auto simp: apart_def neq_Nil_conv)
  show ?case
  proof (cases "vs = []")
    case True
    then show ?thesis by (cases "run_ddl (x # us) s") simp_all
  next
    case False
    have "bindE (run_ddl (x # us) s) (run_ddl vs) = bindE (apply_ddl x s) (\<lambda>s1. bindE (run_ddl vs s1) (run_ddl us))"
      using Cons by (simp add: bindE_assoc apart_def)
    also have "\<dots> = bindE (bindE (apply_ddl x s) (run_ddl vs)) (run_ddl us)" by (simp add: bindE_assoc)
    also have "\<dots> = bindE (run_ddl vs s) (run_ddl (x # us))" using run_past [OF x [OF False]] by (simp add: bindE_def split: sum.splits)
    finally show ?thesis .
  qed
qed

text \<open>A revision can be moved in front of revisions it does not meet.\<close>

lemma run_upgrades_two:
  "run_upgrades (a # b # rs) s = bindE (bindE (run_ddl (rv_upgrade a) s) (run_ddl (rv_upgrade b))) (run_upgrades rs)"
  by (simp add: bindE_def split: sum.splits)

lemma upgrades_move:
  assumes "\<forall>y\<in>set ys. apart (rv_upgrade y) (rv_upgrade a)"
  shows "run_upgrades (ys @ a # zs) s = run_upgrades (a # ys @ zs) s"
  using assms
proof (induction ys arbitrary: s)
  case (Cons y ys)
  have "run_upgrades ((y # ys) @ a # zs) s = bindE (bindE (run_ddl (rv_upgrade y) s) (run_ddl (rv_upgrade a))) (run_upgrades (ys @ zs))"
    using Cons by (simp add: bindE_def split: sum.splits)
  also have "\<dots> = run_upgrades (a # (y # ys) @ zs) s"
    using run_apart [of "rv_upgrade y" "rv_upgrade a" s] Cons.prems by (simp add: run_upgrades_two del: run_upgrades.simps)
  finally show ?case .
qed simp

definition ordered_or_apart :: "revision list \<Rightarrow> bool" where
  "ordered_or_apart rs \<longleftrightarrow> (\<forall>a\<in>set rs. \<forall>b\<in>set rs. a = b \<or>
     rv_revision a \<in> set (requires b) \<or> rv_revision b \<in> set (requires a) \<or> apart (rv_upgrade a) (rv_upgrade b))"

lemma valid_order_later: "valid_order done rs \<Longrightarrow> r \<in> set rs \<Longrightarrow> rv_revision r \<notin> done"
  by (induction rs arbitrary: "done") auto

lemma valid_order_distinct: "valid_order done rs \<Longrightarrow> distinct (map rv_revision rs)"
  by (induction rs arbitrary: "done") (auto dest: valid_order_later)

lemma valid_order_before:
  "valid_order done (ys @ a # zs) \<Longrightarrow> y \<in> set ys \<Longrightarrow> rv_revision a \<notin> set (requires y)"
proof (induction ys arbitrary: "done")
  case (Cons x ys)
  have "rv_revision a \<notin> insert (rv_revision x) done"
    using valid_order_later [of "insert (rv_revision x) done" "ys @ a # zs" a] Cons.prems by simp
  with Cons show ?case by auto
qed simp

lemma valid_order_remove:
  "valid_order done (ys @ a # zs) \<Longrightarrow> valid_order (insert (rv_revision a) done) (ys @ zs)"
proof (induction ys arbitrary: "done")
  case (Cons x ys)
  then have "valid_order (insert (rv_revision x) done) (ys @ a # zs)" by simp
  from Cons.IH [OF this] valid_order_later [OF this, of a] Cons.prems show ?case
    by (auto simp: insert_commute)
qed simp

text \<open>Every order that respects the dependencies has the same outcome.\<close>

lemma upgrades_any_order:
  assumes "valid_order done xs" "valid_order done ys" "mset xs = mset ys" "ordered_or_apart xs"
  shows "run_upgrades xs s = run_upgrades ys s"
  using assms
proof (induction xs arbitrary: "done" ys s)
  case (Cons a xs)
  obtain us zs where ys: "ys = us @ a # zs" using Cons.prems(3) by (metis in_set_conv_decomp list.set_intros(1) set_mset_mset)
  then have mset: "mset xs = mset (us @ zs)" using Cons.prems(3) by simp
  have "apart (rv_upgrade y) (rv_upgrade a)" if y: "y \<in> set us" for y
  proof -
    have "y \<in> set (a # xs)" using y mset by (metis mset_eq_setD Un_iff list.set_intros(2) set_append)
    moreover have "rv_revision y \<notin> done" using valid_order_later [OF Cons.prems(2)] y ys by simp
    then have "rv_revision y \<notin> set (requires a)" using Cons.prems(1) by auto
    moreover have "rv_revision a \<notin> set (requires y)" using valid_order_before Cons.prems(2) y ys by blast
    moreover have "y \<noteq> a" using valid_order_distinct [OF Cons.prems(2)] y ys by auto
    ultimately show ?thesis using Cons.prems(4) by (auto simp: ordered_or_apart_def)
  qed
  then have "run_upgrades ys s = run_upgrades (a # us @ zs) s" using ys upgrades_move by blast
  moreover have "run_upgrades xs s' = run_upgrades (us @ zs) s'" for s'
    using Cons.IH [of "insert (rv_revision a) done" "us @ zs"] Cons.prems valid_order_remove [of "done" us a zs] mset ys
    by (auto simp: ordered_or_apart_def)
  ultimately show ?case by (simp add: bindE_def split: sum.splits)
qed simp

section \<open>Downgrades undo upgrades\<close>

definition schema_wf :: "schema \<Rightarrow> bool" where
  "schema_wf s \<longleftrightarrow> (\<forall>i t cs. sc_indexes s i = Some (t, cs) \<longrightarrow> (\<exists>d. sc_tables s t = Some d \<and> list_all (has_column d) cs))"

definition undoes :: "ddl list \<Rightarrow> ddl list \<Rightarrow> bool" where
  "undoes ds us \<longleftrightarrow> (\<forall>s s'. schema_wf s \<longrightarrow> run_ddl us s = Inr s' \<longrightarrow> schema_wf s' \<and> run_ddl ds s' = Inr s)"

lemma schema_wfD:
  assumes "schema_wf s" "sc_indexes s i = Some (t, cs)"
  obtains d where "sc_tables s t = Some d" "list_all (has_column d) cs"
  using assms unfolding schema_wf_def by blast

lemma creation_wf:
  assumes "is_creation x" "schema_wf s" "apply_ddl x s = Inr s'"
  shows "schema_wf s'"
  unfolding schema_wf_def
proof (intro allI impI)
  fix i t cs
  assume i: "sc_indexes s' i = Some (t, cs)"
  show "\<exists>d. sc_tables s' t = Some d \<and> list_all (has_column d) cs"
  proof (cases x)
    case (CreateTable u d)
    with assms(3) have s': "s' = set_table u d s" "sc_tables s u = None" by (auto simp: relation_exists_def split: if_splits)
    then have "sc_indexes s i = Some (t, cs)" using i by simp
    with schema_wfD [OF assms(2)] obtain e where "sc_tables s t = Some e" "list_all (has_column e) cs" by blast
    with s' show ?thesis by auto
  next
    case (CreateIndex u v ds)
    with assms(3) obtain e where e: "s' = set_index u (Some (v, ds)) s" "sc_tables s v = Some e" "list_all (has_column e) ds"
      by (auto split: option.splits if_splits)
    show ?thesis
    proof (cases "i = u")
      case False
      then have "sc_indexes s i = Some (t, cs)" using i e(1) by simp
      with schema_wfD [OF assms(2)] e(1) show ?thesis by fastforce
    qed (use e i in auto)
  next
    case (AddColumn u c)
    with assms(3) obtain e where e: "sc_tables s u = Some e" "s' = set_table u (e\<lparr>td_columns := td_columns e @ [c]\<rparr>) s"
      by (auto split: option.splits if_splits)
    then have "sc_indexes s i = Some (t, cs)" using i by simp
    with schema_wfD [OF assms(2)] obtain d where "sc_tables s t = Some d" "list_all (has_column d) cs" by blast
    with e show ?thesis by (auto simp: has_column_def list_all_iff)
  qed (use assms(1) in auto)
qed

lemma creations_wf: "list_all is_creation us \<Longrightarrow> schema_wf s \<Longrightarrow> run_ddl us s = Inr s' \<Longrightarrow> schema_wf s'"
  by (induction us arbitrary: s) (auto simp: bindE_eq_Inr dest: creation_wf)

lemma undoes_then: "undoes [d] block \<Longrightarrow> undoes ds us \<Longrightarrow> undoes (d # ds) (us @ block)"
  unfolding undoes_def
proof (intro allI impI)
  fix s s'
  assume d: "\<forall>s s'. schema_wf s \<longrightarrow> run_ddl block s = Inr s' \<longrightarrow> schema_wf s' \<and> run_ddl [d] s' = Inr s"
    and ds: "\<forall>s s'. schema_wf s \<longrightarrow> run_ddl us s = Inr s' \<longrightarrow> schema_wf s' \<and> run_ddl ds s' = Inr s"
    and s: "schema_wf s" "run_ddl (us @ block) s = Inr s'"
  from s(2) obtain s1 where s1: "run_ddl us s = Inr s1" "run_ddl block s1 = Inr s'"
    by (auto simp: run_ddl_append bindE_eq_Inr)
  have "schema_wf s1" "run_ddl ds s1 = Inr s" using ds s(1) s1(1) by blast+
  moreover from this(1) have "schema_wf s'" "run_ddl [d] s' = Inr s1" using d s1(2) by blast+
  moreover have "run_ddl (d # ds) s' = bindE (run_ddl [d] s') (run_ddl ds)" using run_ddl_append [of "[d]" ds s'] by simp
  ultimately show "schema_wf s' \<and> run_ddl (d # ds) s' = Inr s" by simp
qed

text \<open>Dropping a table undoes its creation and the indexes created on it since.\<close>

definition index_on :: "string \<Rightarrow> ddl \<Rightarrow> bool" where
  "index_on t x \<longleftrightarrow> (case x of CreateIndex i t' cs \<Rightarrow> t' = t | _ \<Rightarrow> False)"

lemma index_onE:
  assumes "index_on t x" "apply_ddl x s = Inr s'"
  obtains i cs where "x = CreateIndex i t cs" "sc_indexes s i = None" "s' = set_index i (Some (t, cs)) s"
  using assms by (auto simp: index_on_def relation_exists_def split: ddl.splits option.splits if_splits)

lemma drop_after_indexes:
  "list_all (index_on t) us \<Longrightarrow> run_ddl us s1 = Inr s' \<Longrightarrow> drop_relation t s1 = s \<Longrightarrow> sc_tables s1 t \<noteq> None \<Longrightarrow>
   drop_relation t s' = s \<and> sc_tables s' t \<noteq> None"
proof (induction us arbitrary: s1)
  case (Cons x us)
  then obtain s2 where 2: "apply_ddl x s1 = Inr s2" "run_ddl us s2 = Inr s'" by (auto simp: bindE_eq_Inr)
  with Cons.prems obtain i cs where "sc_indexes s1 i = None" "s2 = set_index i (Some (t, cs)) s1" by (auto elim: index_onE)
  then have "drop_relation t s2 = drop_relation t s1" "sc_tables s2 t = sc_tables s1 t"
    by (auto simp: drop_relation_def drop_indexes_def set_index_def fun_eq_iff)
  with Cons 2 show ?case by simp
qed simp

lemma undo_table:
  assumes "list_all (index_on t) us" "d = DropTable t \<or> d = DropTableIfExists t"
  shows "undoes [d] (CreateTable t td # us)"
  unfolding undoes_def
proof (intro allI impI)
  fix s s'
  assume s: "schema_wf s" "run_ddl (CreateTable t td # us) s = Inr s'"
  then have run: "run_ddl us (set_table t td s) = Inr s'" and new: "sc_tables s t = None"
    by (auto simp: bindE_eq_Inr relation_exists_def split: if_splits)
  have "sc_indexes s i \<noteq> Some (t, cs)" for i cs using new by (auto elim: schema_wfD [OF s(1), of i t cs])
  then have "drop_relation t (set_table t td s) = s"
    using new by (auto simp: drop_relation_def drop_indexes_def set_table_def fun_upd_idem fun_eq_iff intro!: schema.equality split: option.splits)
  from drop_after_indexes [OF assms(1) run this] have "drop_relation t s' = s" "sc_tables s' t \<noteq> None" by simp_all
  moreover have "list_all is_creation (CreateTable t td # us)"
    using assms(1) by (auto elim!: list.pred_mono_strong simp: index_on_def split: ddl.splits)
  then have "schema_wf s'" using creations_wf s by blast
  ultimately show "schema_wf s' \<and> run_ddl [d] s' = Inr s" using assms(2) by auto
qed

lemma undo_index: "undoes [DropIndex i t'] [CreateIndex i t cs]"
  using creation_wf [of "CreateIndex i t cs"]
  by (fastforce simp: undoes_def bindE_eq_Inr relation_exists_def set_index_def fun_upd_idem split: option.splits if_splits)

definition index_on_column :: "string \<Rightarrow> string \<Rightarrow> ddl \<Rightarrow> bool" where
  "index_on_column t n x \<longleftrightarrow> (case x of CreateIndex i t' cs \<Rightarrow> t' = t \<and> n \<in> set cs | _ \<Rightarrow> False)"

lemma drop_column_after_indexes:
  "list_all (index_on_column t n) us \<Longrightarrow> run_ddl us s1 = Inr s' \<Longrightarrow> apply_ddl (DropColumn t n) s1 = Inr s \<Longrightarrow>
   apply_ddl (DropColumn t n) s' = Inr s"
proof (induction us arbitrary: s1)
  case (Cons x us)
  then obtain s2 where 2: "apply_ddl x s1 = Inr s2" "run_ddl us s2 = Inr s'" by (auto simp: bindE_eq_Inr)
  with Cons.prems obtain i cs where i: "sc_indexes s1 i = None" "s2 = set_index i (Some (t, cs)) s1" "n \<in> set cs"
    by (auto simp: index_on_column_def relation_exists_def split: ddl.splits option.splits if_splits)
  then have "apply_ddl (DropColumn t n) s2 = apply_ddl (DropColumn t n) s1"
    by (auto simp: drop_indexes_def set_index_def set_table_def fun_eq_iff split: option.splits)
  with Cons 2 show ?case by simp
qed simp

lemma undo_column:
  assumes "list_all (index_on_column t (cl_name c)) us"
  shows "undoes [DropColumn t (cl_name c)] (AddColumn t c # us)"
  unfolding undoes_def
proof (intro allI impI)
  fix s s'
  assume s: "schema_wf s" "run_ddl (AddColumn t c # us) s = Inr s'"
  then obtain d where d: "sc_tables s t = Some d" "\<not> has_column d (cl_name c)"
    and run: "run_ddl us (set_table t (d\<lparr>td_columns := td_columns d @ [c]\<rparr>) s) = Inr s'"
    by (auto simp: bindE_eq_Inr split: option.splits if_splits)
  have "cl_name c \<notin> set cs" if "sc_indexes s i = Some (t, cs)" for i cs
    using schema_wfD [OF s(1) that] d by (metis list_all_iff option.inject)
  moreover have "filter (\<lambda>x. cl_name x \<noteq> cl_name c) (td_columns d) = td_columns d"
    using d(2) by (intro filter_True ballI) (metis has_column_def imageI set_map)
  ultimately have "apply_ddl (DropColumn t (cl_name c)) (set_table t (d\<lparr>td_columns := td_columns d @ [c]\<rparr>) s) = Inr s"
    using d by (auto simp: has_column_def drop_indexes_def set_table_def fun_upd_idem fun_eq_iff intro!: schema.equality split: option.splits)
  from drop_column_after_indexes [OF assms run this] have "run_ddl [DropColumn t (cl_name c)] s' = Inr s" by simp
  moreover have "list_all is_creation (AddColumn t c # us)"
    using assms by (auto elim!: list.pred_mono_strong simp: index_on_column_def split: ddl.splits)
  ultimately show "schema_wf s' \<and> run_ddl [DropColumn t (cl_name c)] s' = Inr s" using creations_wf s by blast
qed

text \<open>
  A check that a list of downgrade statements undoes a list of upgrade statements, given in reverse.
\<close>

fun undo_check :: "ddl list \<Rightarrow> ddl list \<Rightarrow> bool" where
  "undo_check [] us \<longleftrightarrow> us = []"
| "undo_check (DropTable t # ds) us \<longleftrightarrow> (case dropWhile (index_on t) us of
     CreateTable t' d # rest \<Rightarrow> t' = t \<and> undo_check ds rest | _ \<Rightarrow> False)"
| "undo_check (DropTableIfExists t # ds) us \<longleftrightarrow> (case dropWhile (index_on t) us of
     CreateTable t' d # rest \<Rightarrow> t' = t \<and> undo_check ds rest | _ \<Rightarrow> False)"
| "undo_check (DropIndex i t # ds) us \<longleftrightarrow> (case us of CreateIndex i' t' cs # rest \<Rightarrow> i' = i \<and> undo_check ds rest | _ \<Rightarrow> False)"
| "undo_check (DropColumn t n # ds) us \<longleftrightarrow> (case dropWhile (index_on_column t n) us of
     AddColumn t' c # rest \<Rightarrow> t' = t \<and> cl_name c = n \<and> undo_check ds rest | _ \<Rightarrow> False)"
| "undo_check _ us \<longleftrightarrow> False"

lemma rev_block:
  assumes "dropWhile p us = x # rest"
  shows "rev us = rev rest @ x # rev (takeWhile p us)" "list_all p (rev (takeWhile p us))"
proof -
  have "us = takeWhile p us @ x # rest" using assms takeWhile_dropWhile_id [of p us] by simp
  then have "rev us = rev (takeWhile p us @ x # rest)" by simp
  then show "rev us = rev rest @ x # rev (takeWhile p us)" by simp
  show "list_all p (rev (takeWhile p us))" by (auto simp: list_all_iff dest: set_takeWhileD)
qed

lemma undo_check_sound: "undo_check ds us \<Longrightarrow> undoes ds (rev us)"
proof (induction ds us rule: undo_check.induct)
  case (1 us)
  then show ?case by (simp add: undoes_def)
next
  case (2 t ds us)
  then obtain d rest where u: "dropWhile (index_on t) us = CreateTable t d # rest" "undo_check ds rest"
    by (auto split: list.splits ddl.splits)
  from 2(1) [OF u(1)] u(2) undoes_then [OF undo_table [OF rev_block(2) [OF u(1)], of "DropTable t" d]]
  show ?case unfolding rev_block(1) [OF u(1)] by simp
next
  case (3 t ds us)
  then obtain d rest where u: "dropWhile (index_on t) us = CreateTable t d # rest" "undo_check ds rest"
    by (auto split: list.splits ddl.splits)
  from 3(1) [OF u(1)] u(2) undoes_then [OF undo_table [OF rev_block(2) [OF u(1)], of "DropTableIfExists t" d]]
  show ?case unfolding rev_block(1) [OF u(1)] by simp
next
  case (4 i t ds us)
  then obtain t' cs rest where u: "us = CreateIndex i t' cs # rest" "undo_check ds rest"
    by (auto split: list.splits ddl.splits)
  from 4(1) [OF u(1)] u(2) undoes_then [OF undo_index [of i t t' cs]] show ?case unfolding u(1) by simp
next
  case (5 t n ds us)
  then obtain c rest where u: "dropWhile (index_on_column t n) us = AddColumn t c # rest" "cl_name c = n" "undo_check ds rest"
    by (auto split: list.splits ddl.splits)
  from 5(1) [OF u(1)] u(2, 3) undoes_then [OF undo_column [of t c "rev (takeWhile (index_on_column t n) us)"]] rev_block(2) [OF u(1)]
  show ?case unfolding rev_block(1) [OF u(1)] by simp
qed simp_all

lemma downgrades_undo:
  assumes "\<forall>r\<in>set rs. undoes (rv_downgrade r) (rv_upgrade r)" "schema_wf s" "run_upgrades rs s = Inr s'"
  shows "run_downgrades (rev rs) s' = Inr s"
proof -
  have append: "run_downgrades (xs @ ys) s1 = bindE (run_downgrades xs s1) (run_downgrades ys)" for xs ys s1
    by (induction xs arbitrary: s1) (auto simp: bindE_def split: sum.splits)
  show ?thesis using assms
  proof (induction rs arbitrary: s)
    case (Cons r rs)
    then obtain s1 where "run_ddl (rv_upgrade r) s = Inr s1" "run_upgrades rs s1 = Inr s'" by (auto simp: bindE_eq_Inr)
    moreover from this(1) have "schema_wf s1" "run_ddl (rv_downgrade r) s1 = Inr s"
      using Cons.prems(1, 2) unfolding undoes_def by (meson list.set_intros(1))+
    ultimately show ?case using Cons by (simp add: append)
  qed simp
qed

section \<open>The schema and the models\<close>

definition column_of :: "table_def \<Rightarrow> string \<Rightarrow> column option" where
  "column_of d n = map_of (map (\<lambda>c. (cl_name c, c)) (td_columns d)) n"

text \<open>
  The columns in which a migrated table and the model differ, on whichever side they are, and the unique
  constraints and indexes of the model that the database does not have. A missing table is reported under
  its own name.
\<close>

definition model_differences :: "schema \<Rightarrow> orm_table \<Rightarrow> (string \<times> string) list" where
  "model_differences s m = (case sc_tables s (ot_name m) of
       None \<Rightarrow> [(ot_name m, ot_name m)]
     | Some d \<Rightarrow> map (Pair (ot_name m))
         (filter (\<lambda>n. column_of d n \<noteq> column_of (ot_table m) n) (dedup (map cl_name (td_columns d @ td_columns (ot_table m)))) @
          map fst (filter (\<lambda>u. u \<notin> set (td_uniques d)) (td_uniques (ot_table m))) @
          map fst (filter (\<lambda>(i, cs). sc_indexes s i \<noteq> Some (ot_name m, cs)) (ot_indexes m))))"

definition schema_differences :: "schema \<Rightarrow> orm_table list \<Rightarrow> (string \<times> string) list" where
  "schema_differences s ms = concat (map (model_differences s) ms)"

text \<open>What is checked of the revisions of a store by evaluation.\<close>

definition store_checks :: "revision list \<Rightarrow> orm_table list \<Rightarrow> (string \<times> string) list \<Rightarrow> bool" where
  "store_checks revisions models differences \<longleftrightarrow>
     valid_order {} revisions \<and> ordered_or_apart revisions \<and>
     list_all (\<lambda>r. undo_check (rv_downgrade r) (rev (rv_upgrade r))) revisions \<and>
     (case run_upgrades revisions empty_schema of Inl _ \<Rightarrow> False | Inr s \<Rightarrow> schema_differences s models = differences)"

lemma schema_wf_empty: "schema_wf empty_schema"
  by (simp add: schema_wf_def empty_schema_def)

lemma store_migrates:
  assumes "store_checks revisions models differences" "valid_order {} order" "mset order = mset revisions"
  shows "\<exists>s. run_upgrades order empty_schema = Inr s \<and> schema_differences s models = differences \<and>
    run_downgrades (rev order) s = Inr empty_schema"
proof -
  from assms(1) obtain s where s: "run_upgrades revisions empty_schema = Inr s" "schema_differences s models = differences"
    by (auto simp: store_checks_def split: sum.splits)
  have "run_upgrades order empty_schema = Inr s"
    using upgrades_any_order [of "{}" revisions order empty_schema] assms s(1) by (simp add: store_checks_def)
  moreover have "undoes (rv_downgrade r) (rv_upgrade r)" if "r \<in> set order" for r
  proof -
    have "r \<in> set revisions" using that assms(3) by (metis mset_eq_setD)
    then have "undo_check (rv_downgrade r) (rev (rv_upgrade r))" using assms(1) by (simp add: store_checks_def list_all_iff)
    from undo_check_sound [OF this] show ?thesis by simp
  qed
  ultimately show ?thesis using s(2) downgrades_undo [OF _ schema_wf_empty] by blast
qed

lemma identity_checks: "store_checks identity_revisions identity_models []"
  by code_simp

lemma account_checks: "store_checks account_revisions account_models [(''signal_subscriptions'', ''revision'')]"
  by code_simp

lemma automation_checks:
  "store_checks automation_revisions automation_models [(''signal_subscription_projections'', ''revision'')]"
  by code_simp

definition store_revisions :: "string \<Rightarrow> revision list" where
  "store_revisions store = (if store = ''identity'' then identity_revisions else if store = ''automation'' then automation_revisions
     else if store = ''account'' then account_revisions else [])"

definition store_models :: "string \<Rightarrow> orm_table list" where
  "store_models store = (if store = ''identity'' then identity_models else if store = ''automation'' then automation_models
     else if store = ''account'' then account_models else [])"

text \<open>The columns whose declared types differ: the migrations create them as 32-bit integers, the models say 64.\<close>

definition known_differences :: "string \<Rightarrow> (string \<times> string) list" where
  "known_differences store = (if store = ''automation'' then [(''signal_subscription_projections'', ''revision'')]
     else if store = ''account'' then [(''signal_subscriptions'', ''revision'')] else [])"

lemma revision_column_types:
  "map_option cl_type (column_of (ot_table orm_signal_subscriptions) ''revision'') = Some SqlBigint"
  "(case run_upgrades account_revisions empty_schema of Inl _ \<Rightarrow> None
     | Inr s \<Rightarrow> Option.bind (sc_tables s ''signal_subscriptions'') (\<lambda>d. map_option cl_type (column_of d ''revision''))) = Some SqlInteger"
  by code_simp+

lemma all_store_checks:
  "store \<in> {''identity'', ''automation'', ''account''} \<Longrightarrow>
   store_checks (store_revisions store) (store_models store) (known_differences store)"
  using identity_checks automation_checks account_checks
  by (auto simp: store_revisions_def store_models_def known_differences_def)

text \<open>
  C36: The migrations and the models describe the same database. In whatever order Alembic runs the
  revisions of a store, as long as it respects \<open>down_revision\<close> and \<open>depends_on\<close>, every statement
  succeeds on an empty database and the result is a schema in which every table of the models exists
  with the same columns, types, nullability, defaults, keys, unique constraints and indexes; the only
  exceptions are the two \<open>revision\<close> columns, which the database has as \<open>INTEGER\<close> and the models as
  \<open>BIGINT\<close>. Running the downgrades in the opposite order restores the empty database.
\<close>

theorem migrations_agree_with_models:
  assumes "store \<in> {''identity'', ''automation'', ''account''}"
    and "valid_order {} order" "mset order = mset (store_revisions store)"
  shows "\<exists>s. run_upgrades order empty_schema = Inr s \<and>
    schema_differences s (store_models store) = known_differences store \<and>
    run_downgrades (rev order) s = Inr empty_schema"
  using store_migrates [OF all_store_checks [OF assms(1)] assms(2, 3)] .

definition other_order :: "revision list" where
  "other_order = [af_account_outbox_0001, af_account_signal_0001, kis_account_signal_revision_1, af_account_portfolio_0001,
     af_account_notification_0001, af_0f60163b2ebcbec8aa8039df, af_account_account_0001]"

theorem migrations_agree_with_models_witness:
  "\<exists>s. run_upgrades other_order empty_schema = Inr s \<and>
    schema_differences s account_models = [(''signal_subscriptions'', ''revision'')] \<and>
    run_downgrades (rev other_order) s = Inr empty_schema"
proof -
  have "valid_order {} other_order" by code_simp
  moreover have "mset other_order = mset (store_revisions ''account'')"
    by (simp add: other_order_def store_revisions_def account_revisions_def)
  ultimately show ?thesis
    using migrations_agree_with_models [of "''account''" other_order] by (simp add: store_models_def known_differences_def)
qed

section \<open>Running the migrations again\<close>

lemma upgrade_heads_applied:
  "upgrade_heads rs d = Inr d' \<Longrightarrow> da_applied d \<subseteq> da_applied d' \<and> rv_revision ` set rs \<subseteq> da_applied d'"
proof (induction rs arbitrary: d)
  case (Cons r rs)
  then obtain d1 where d1: "upgrade_one r d = Inr d1" "upgrade_heads rs d1 = Inr d'" by (auto simp: bindE_eq_Inr)
  then have "insert (rv_revision r) (da_applied d) \<subseteq> da_applied d1"
    by (auto simp: upgrade_one_def bindE_eq_Inr split: if_splits)
  with Cons.IH [OF d1(2)] show ?case by auto
qed simp

lemma upgrade_heads_again: "rv_revision ` set rs \<subseteq> da_applied d \<Longrightarrow> upgrade_heads rs d = Inr d"
  by (induction rs) (auto simp: upgrade_one_def)

text \<open>A fresh database gets exactly the revisions, and migrating it again changes nothing.\<close>

lemma upgrade_heads_fresh:
  assumes "valid_order (da_applied d) rs" "upgrade_heads rs d = Inr d'"
  shows "run_upgrades rs (da_schema d) = Inr (da_schema d')" "upgrade_heads rs d' = Inr d'"
proof -
  show "run_upgrades rs (da_schema d) = Inr (da_schema d')" using assms
  proof (induction rs arbitrary: d)
    case (Cons r rs)
    from Cons.prems obtain s1 where s1: "run_ddl (rv_upgrade r) (da_schema d) = Inr s1"
      "upgrade_heads rs \<lparr>da_applied = insert (rv_revision r) (da_applied d), da_schema = s1\<rparr> = Inr d'"
      by (auto simp: upgrade_one_def bindE_eq_Inr)
    from Cons.IH [OF _ s1(2)] Cons.prems(1) s1(1) show ?case by simp
  qed simp
  show "upgrade_heads rs d' = Inr d'" using upgrade_heads_again upgrade_heads_applied [OF assms(2)] by blast
qed

end
