(* ===== verification/Scheduling.thy ===== *)
theory Scheduling
  imports JobHandler Identity
begin

text \<open>
  The Airflow DAGs that schedule durable jobs through the HTTP interface of the application
  (\<open>airflow/dags/news_collection.py\<close> and \<open>domestic_daily_candle_collection.py\<close>, which differ only in
  their names), the application's side of that interface (\<open>routers/durable_jobs.py\<close>), and the heartbeat
  of a service (\<open>application/generated/service_heartbeat.py\<close>).

  \<open>urlopen\<close> is an argument: it takes method, URL, headers and body and gives the body of a successful
  response, or raises; an HTTP error status raises \<open>HTTPError\<close>, which is an \<open>OSError\<close>. Airflow repeats a
  task that raises, so a task body has to be safe to run again.
\<close>

section \<open>The tasks of a DAG\<close>

record dag =
  dg_job_type :: string
  dg_payload_env :: string
  dg_dag_id :: string
  dg_schedule :: string

definition news_collection_dag :: dag where
  "news_collection_dag = \<lparr>dg_job_type = ''news_collection'', dg_payload_env = ''DURABLE_JOB_NEWS_COLLECTION_PAYLOAD_JSON'',
     dg_dag_id = ''durable_job_news_collection'', dg_schedule = ''0 * * * *''\<rparr>"

definition domestic_daily_candle_dag :: dag where
  "domestic_daily_candle_dag = \<lparr>dg_job_type = ''domestic_daily_candle_collection'',
     dg_payload_env = ''DURABLE_JOB_DOMESTIC_DAILY_CANDLE_COLLECTION_PAYLOAD_JSON'',
     dg_dag_id = ''durable_job_domestic_daily_candle_collection'', dg_schedule = ''0 8 * * 1-5''\<rparr>"

type_synonym 's urlopen = "string \<Rightarrow> string \<Rightarrow> (string, string) dict \<Rightarrow> string option \<Rightarrow> ('s, string) io"

definition dag_request :: "'s urlopen \<Rightarrow> environ \<Rightarrow> string \<Rightarrow> string \<Rightarrow> jdict option \<Rightarrow> ('s, jdict) io" where
  "dag_request urlopen env meth path body =
     bindS (lift (environ_item env ''DURABLE_JOB_API_URL'')) (\<lambda>base_url.
     bindS (lift (environ_item env ''DURABLE_JOB_API_TOKEN'')) (\<lambda>api_token.
     bindS (urlopen meth (rstrip_slash base_url @ path)
        [(''Authorization'', ''Bearer '' @ api_token), (''Content-Type'', ''application/json'')]
        (map_option (\<lambda>b. json_dumps False (JObj b)) body)) (\<lambda>response.
     bindS (lift (json_loads response)) (\<lambda>payload. case payload of
       JObj d \<Rightarrow> ret d | _ \<Rightarrow> raise (TypeError ''durable job API response must be an object'')))))"

definition dag_payload :: "environ \<Rightarrow> string \<Rightarrow> jdict result" where
  "dag_payload env payload_env =
     bindE (json_loads (case environ_get env payload_env of Some v \<Rightarrow> v | None \<Rightarrow> ''{}'')) (\<lambda>payload. case payload of
       JObj d \<Rightarrow> Inr d | _ \<Rightarrow> Inl (TypeError (payload_env @ '' must contain a JSON object'')))"

text \<open>\<open>start\<close> is the ISO form of the start of the data interval, when there is one.\<close>

definition dag_run_key :: "dag \<Rightarrow> string \<Rightarrow> string" where
  "dag_run_key g start = dg_job_type g @ '':'' @ start"

definition trigger_job :: "pytext \<Rightarrow> dag \<Rightarrow> 's urlopen \<Rightarrow> environ \<Rightarrow> string option \<Rightarrow> ('s, string) io" where
  "trigger_job T g urlopen env start = (case start of
       None \<Rightarrow> raise (RuntimeError ''Airflow data interval start is required'')
     | Some st \<Rightarrow>
         bindS (lift (dag_payload env (dg_payload_env g))) (\<lambda>payload.
         bindS (dag_request urlopen env ''POST'' (''/internal/jobs/'' @ dg_job_type g)
            (Some [(''run_key'', JStr (dag_run_key g st)), (''payload'', JObj payload)])) (\<lambda>response.
           lift (bindE (member response ''job_id'') (\<lambda>v. Inr (py_str T v))))))"

text \<open>One round of \<open>wait_for_job\<close>: \<open>None\<close> to go on polling, otherwise how the task ends.\<close>

definition job_outcome :: "pytext \<Rightarrow> jdict \<Rightarrow> unit result option" where
  "job_outcome T response = (case dict_get response ''status'' of
       None \<Rightarrow> Some (Inl (KeyError ''status''))
     | Some v \<Rightarrow> let status = py_str T v in
         if status = ''succeeded'' then Some (Inr ())
         else if status = ''failed'' then Some (Inl (RuntimeError
           (case dict_get response ''error'' of Some e \<Rightarrow> if truthy e then py_str T e else ''durable job failed'' | None \<Rightarrow> ''durable job failed'')))
         else if status = ''cancelled'' then Some (Inl (RuntimeError ''durable job cancelled''))
         else None)"

definition poll_job :: "dag \<Rightarrow> 's urlopen \<Rightarrow> environ \<Rightarrow> string \<Rightarrow> ('s, jdict) io" where
  "poll_job g urlopen env job_id = dag_request urlopen env ''GET'' (''/internal/jobs/'' @ dg_job_type g @ ''/'' @ job_id) None"

text \<open>
  The loop has no bound of its own (Airflow ends the task at its execution timeout), so its value is
  \<open>None\<close> when it polls for ever. \<open>pause\<close> is what happens to the world during \<open>time.sleep\<close>.
\<close>

partial_function (option) wait_for_job ::
  "pytext \<Rightarrow> dag \<Rightarrow> 's urlopen \<Rightarrow> environ \<Rightarrow> ('s \<Rightarrow> 's) \<Rightarrow> string \<Rightarrow> 's \<Rightarrow> (unit result \<times> 's) option" where
  "wait_for_job T g urlopen env pause job_id s = (case poll_job g urlopen env job_id s of
       (Inl e, s1) \<Rightarrow> Some (Inl e, s1)
     | (Inr response, s1) \<Rightarrow> (case job_outcome T response of
         Some r \<Rightarrow> Some (r, s1)
       | None \<Rightarrow> wait_for_job T g urlopen env pause job_id (pause s1)))"

text \<open>The module of the second DAG has the same tasks over its own names.\<close>

definition candle_trigger_job :: "pytext \<Rightarrow> 's urlopen \<Rightarrow> environ \<Rightarrow> string option \<Rightarrow> ('s, string) io" where
  "candle_trigger_job T = trigger_job T domestic_daily_candle_dag"

definition candle_wait_for_job ::
  "pytext \<Rightarrow> 's urlopen \<Rightarrow> environ \<Rightarrow> ('s \<Rightarrow> 's) \<Rightarrow> string \<Rightarrow> 's \<Rightarrow> (unit result \<times> 's) option" where
  "candle_wait_for_job T = wait_for_job T domestic_daily_candle_dag"

section \<open>The interface of the application\<close>

text \<open>The body of a trigger request, as its model validates it, and the response.\<close>

definition DurableJobTriggerRequest :: "string option \<Rightarrow> (string \<times> jdict) result" where
  "DurableJobTriggerRequest body = (case body of
       None \<Rightarrow> Inl (HTTPException 422 ''body'')
     | Some text \<Rightarrow> (case json_loads text of
         Inr (JObj d) \<Rightarrow> (case dict_get d ''run_key'' of
             Some (JStr run_key) \<Rightarrow> if run_key = [] then Inl (HTTPException 422 ''run_key'')
               else (case dict_get d ''payload'' of
                   None \<Rightarrow> Inr (run_key, [])
                 | Some (JObj payload) \<Rightarrow> Inr (run_key, payload)
                 | Some _ \<Rightarrow> Inl (HTTPException 422 ''payload''))
           | _ \<Rightarrow> Inl (HTTPException 422 ''run_key''))
       | _ \<Rightarrow> Inl (HTTPException 422 ''body'')))"

definition DurableJobTriggerResponse :: "DurableJobRequestResult \<Rightarrow> string" where
  "DurableJobTriggerResponse r = json_dumps True (JObj [(''job_id'', JStr (jr_job_id r)), (''created'', JBool (jr_created r))])"

definition status_json :: "(time \<Rightarrow> string) \<Rightarrow> DurableJobStatusResponse \<Rightarrow> string" where
  "status_json isoformat r = json_dumps True (JObj [(''job_id'', JStr (js_job_id r)), (''job_type'', JStr (js_job_type r)),
     (''run_key'', JStr (js_run_key r)), (''status'', JStr (js_status r)), (''payload'', JObj (js_payload r)),
     (''result'', case js_result r of None \<Rightarrow> JNull | Some d \<Rightarrow> JObj d),
     (''error'', case js_error r of None \<Rightarrow> JNull | Some e \<Rightarrow> JStr e),
     (''requested_at'', JStr (isoformat (js_requested_at r))), (''updated_at'', JStr (isoformat (js_updated_at r)))])"

text \<open>
  The router: every route needs the service token; the application listens at \<open>base\<close>. The draws are
  those of the one request that is served.
\<close>

definition job_routes ::
  "pytext \<Rightarrow> (time \<Rightarrow> string) \<Rightarrow> string \<Rightarrow> environ \<Rightarrow> draw \<Rightarrow> uuid \<Rightarrow> string \<Rightarrow> string \<Rightarrow> (string, string) dict \<Rightarrow> string option
   \<Rightarrow> (dbs, string) io" where
  "job_routes T isoformat base server_env w new_id meth url headers body =
     bindS (lift (require_service_token ''durable_jobs'' server_env (dict_get headers ''Authorization''))) (\<lambda>_.
     let parts = split_at CHR ''/'' (drop (length base) url) in
     if take (length base) url \<noteq> base \<or> take 3 parts \<noteq> [[], ''internal'', ''jobs''] then raise (HTTPException 404 ''Not Found'')
     else if meth = ''POST'' \<and> length parts = 4 then
       bindS (lift (DurableJobTriggerRequest body)) (\<lambda>(run_key, payload).
       bindS (trigger_durable_job T w new_id (parts ! 3) run_key payload) (\<lambda>r. ret (DurableJobTriggerResponse r)))
     else if meth = ''GET'' \<and> length parts = 5 then
       bindS (get_durable_job (parts ! 3) (parts ! 4)) (\<lambda>r. ret (status_json isoformat r))
     else raise (HTTPException 404 ''Not Found''))"

definition over_http :: "('s, string) io \<Rightarrow> ('s, string) io" where
  "over_http m = catchS m (\<lambda>_. raise OSError)"

definition job_server ::
  "pytext \<Rightarrow> (time \<Rightarrow> string) \<Rightarrow> string \<Rightarrow> environ \<Rightarrow> draw \<Rightarrow> uuid \<Rightarrow> dbs urlopen" where
  "job_server T isoformat base server_env w new_id meth url headers body =
     over_http (job_routes T isoformat base server_env w new_id meth url headers body)"

section \<open>Heartbeat\<close>

definition instance_char :: "char \<Rightarrow> bool" where
  "instance_char c \<longleftrightarrow> (let n = code c in 65 \<le> n \<and> n \<le> 90 \<or> 97 \<le> n \<and> n \<le> 122 \<or> 48 \<le> n \<and> n \<le> 57) \<or> c \<in> set ''._:-''"

definition strip_dashes :: "string \<Rightarrow> string" where
  "strip_dashes s = rstrip_by (\<lambda>c. c = CHR ''-'') (dropWhile (\<lambda>c. c = CHR ''-'') s)"

definition instance_id :: "environ \<Rightarrow> string \<Rightarrow> string" where
  "instance_id env hostname =
     (let candidate = (if getenv env ''POD_NAME'' \<noteq> [] then getenv env ''POD_NAME''
                       else if getenv env ''HOSTNAME'' \<noteq> [] then getenv env ''HOSTNAME'' else hostname);
          normalized = strip_dashes (map (\<lambda>c. if instance_char c then c else CHR ''-'') candidate);
          limited = take 128 normalized
      in if limited = [] then ''unknown'' else limited)"

definition post_heartbeat ::
  "'s urlopen \<Rightarrow> environ \<Rightarrow> string \<Rightarrow> string \<Rightarrow> string \<Rightarrow> string \<Rightarrow> (string, string) dict \<Rightarrow> ('s, unit) io" where
  "post_heartbeat urlopen env hostname endpoint token service_name dependencies =
     bindS (urlopen ''POST'' endpoint [(''Authorization'', ''Bearer '' @ token), (''Content-Type'', ''application/json'')]
       (Some (json_dumps False (JObj [(''instance_id'', JStr (instance_id env hostname)), (''service_name'', JStr service_name),
          (''deployed_version'', JStr ''0.1.0''), (''dependencies'', JObj (map (\<lambda>(k, v). (k, JStr v)) dependencies))])))) (\<lambda>_. ret ())"

text \<open>One round of the reporter; the outcome of reports it survives is dropped.\<close>

definition heartbeat_round ::
  "'s urlopen \<Rightarrow> environ \<Rightarrow> string \<Rightarrow> string \<Rightarrow> (string, string) dict \<Rightarrow> ('s, bool) io" where
  "heartbeat_round urlopen env hostname service_name dependencies =
     (if getenv env ''CONTROL_PLANE_HEARTBEAT_URL'' = [] \<or> getenv env ''CONTROL_PLANE_API_TOKEN'' = [] then ret False
      else catchS (bindS (post_heartbeat urlopen env hostname (getenv env ''CONTROL_PLANE_HEARTBEAT_URL'')
             (getenv env ''CONTROL_PLANE_API_TOKEN'') service_name dependencies) (\<lambda>_. ret True))
        (\<lambda>e. if is_os_error e \<or> is_value_error e then ret True else raise e))"

text \<open>The reporter, up to the round in which its task is cancelled: it reports, sleeps and reports again, or ends at
  once when it is not configured. The settings it reads before the loop do not change during it.\<close>

fun run_service_heartbeat_reporter ::
  "'s urlopen \<Rightarrow> (int \<Rightarrow> ('s, unit) io) \<Rightarrow> environ \<Rightarrow> string \<Rightarrow> string \<Rightarrow> (string, string) dict \<Rightarrow> nat \<Rightarrow> ('s, unit) io" where
  "run_service_heartbeat_reporter urlopen pause env hostname service_name dependencies 0 = ret ()"
| "run_service_heartbeat_reporter urlopen pause env hostname service_name dependencies (Suc n) =
     bindS (heartbeat_round urlopen env hostname service_name dependencies) (\<lambda>enabled.
     if enabled then bindS (pause 30) (\<lambda>_. run_service_heartbeat_reporter urlopen pause env hostname service_name dependencies n)
     else ret ())"

text \<open>A control plane that cannot be reached does not end the reporter: while the requests fail only with the two
  kinds of errors the loop catches, it survives every number of rounds.\<close>

lemma heartbeat_round_survives:
  assumes "\<And>m u h b s e s'. urlopen m u h b s = (Inl e, s') \<Longrightarrow> is_os_error e \<or> is_value_error e"
  shows "\<exists>enabled s'. heartbeat_round urlopen env hostname name deps s = (Inr enabled, s')"
  using assms
  by (auto simp: heartbeat_round_def post_heartbeat_def catchS_def bindS_def split: prod.splits sum.splits if_splits)

lemma heartbeat_survives:
  assumes "\<And>m u h b s e s'. urlopen m u h b s = (Inl e, s') \<Longrightarrow> is_os_error e \<or> is_value_error e"
    and "\<And>k s. \<exists>s'. pause k s = (Inr (), s')"
  shows "fst (run_service_heartbeat_reporter urlopen pause env hostname name deps n s) = Inr ()"
proof (induction n arbitrary: s)
  case (Suc n)
  have "\<exists>b s1. heartbeat_round urlopen env hostname name deps s = (Inr b, s1)"
    by (rule heartbeat_round_survives) (rule assms(1))
  then obtain b s1 where 1: "heartbeat_round urlopen env hostname name deps s = (Inr b, s1)" by blast
  obtain s2 where 2: "pause 30 s1 = (Inr (), s2)" using assms(2) by blast
  show ?case using 1 2 Suc.IH [of s2] by (simp add: bindS_def)
qed simp

section \<open>Triggering again\<close>

lemma request_again:
  assumes "job_inv d" "dict_get JOB_DEFINITIONS ty = Some def" "job_request w u ty rk p av d = (Inr r, d')"
  shows "job_request w' u' ty rk p' av' d' = (Inr (r\<lparr>jr_created := False\<rparr>), d')"
    "t_get job_key (ty, rk) (durable_jobs d') \<noteq> None"
proof -
  note run = assms(3) [unfolded job_request_run [OF job_inv_wf(2) [OF assms(1)] assms(2)]]
  note again = job_request_run [OF job_inv_wf(2) [OF job_inv_request [OF assms(1, 3)]] assms(2), of w' u' rk p' av']
  have "job_request w' u' ty rk p' av' d' = (Inr (r\<lparr>jr_created := False\<rparr>), d') \<and> t_get job_key (ty, rk) (durable_jobs d') \<noteq> None"
    using run again by (cases "t_get job_key (ty, rk) (durable_jobs d)") (auto simp: Let_def split: if_splits)
  then show "job_request w' u' ty rk p' av' d' = (Inr (r\<lparr>jr_created := False\<rparr>), d')"
    "t_get job_key (ty, rk) (durable_jobs d') \<noteq> None" by blast+
qed

lemma trigger_again:
  assumes "job_definition ty = Inr def" "engine_for rg (global_target (jd_store def)) = Inr d" "job_inv d"
    and "trigger_durable_job T w u ty rk p rg = (Inr r, rg')"
  shows "trigger_durable_job T w' u' ty rk p rg' = (Inr (r\<lparr>jr_created := False\<rparr>), rg')"
    "\<exists>d'. engine_for rg' (global_target (jd_store def)) = Inr d' \<and> job_inv d' \<and> t_get job_key (ty, rk) (durable_jobs d') \<noteq> None"
proof -
  have def: "dict_get JOB_DEFINITIONS ty = Some def"
    using assms(1) by (auto simp: job_definition_def split: option.splits)
  obtain x d' where run: "job_request w u ty rk p None d = (x, d')" by fastforce
  have valid: "validate_durable_job_payload ty p = Inr ()"
    using assms(1, 4) by (auto simp: trigger_durable_job_def catchE_def bindS_def split: sum.splits if_splits)
  then have "x = Inr r" "rg' = commit_to (global_target (jd_store def)) d' rg"
    using assms run by (cases x; simp add: trigger_durable_job_def with_session_def commit_to_def)+
  with run assms(1, 2, 3) def valid request_again [OF assms(3) def, of w u rk p None r d']
    job_inv_request [OF assms(3), of w u ty rk p None r d']
  show "trigger_durable_job T w' u' ty rk p rg' = (Inr (r\<lparr>jr_created := False\<rparr>), rg')"
    "\<exists>d'. engine_for rg' (global_target (jd_store def)) = Inr d' \<and> job_inv d' \<and> t_get job_key (ty, rk) (durable_jobs d') \<noteq> None"
    by (simp_all add: trigger_durable_job_def with_session_def commit_to_same)
qed

lemma jobs_in_automation: "job_definition ty = Inr def \<Longrightarrow> jd_store def = ''automation''"
  by (auto simp: job_definition_def JOB_DEFINITIONS_def dict_get_def split: if_splits option.splits)

lemma routes_again:
  assumes "engine_for rg (global_target ''automation'') = Inr d" "job_inv d"
    and "job_routes T isoformat base senv w u ''POST'' url hs body rg = (Inr text, rg')"
  shows "\<exists>r. text = DurableJobTriggerResponse r \<and>
    job_routes T isoformat base senv w' u' ''POST'' url hs body rg' = (Inr (DurableJobTriggerResponse (r\<lparr>jr_created := False\<rparr>)), rg')"
proof -
  let ?ty = "split_at CHR ''/'' (drop (length base) url) ! 3"
  obtain rk p r where 1: "require_service_token ''durable_jobs'' senv (dict_get hs ''Authorization'') = Inr ()"
    "take (length base) url = base" "take 3 (split_at CHR ''/'' (drop (length base) url)) = [[], ''internal'', ''jobs'']"
    "length (split_at CHR ''/'' (drop (length base) url)) = 4" "DurableJobTriggerRequest body = Inr (rk, p)"
    "trigger_durable_job T w u ?ty rk p rg = (Inr r, rg')" "text = DurableJobTriggerResponse r"
    using assms(3) by (auto simp: job_routes_def bindS_eq_Inr Let_def split: if_splits)
  obtain def where def: "job_definition ?ty = Inr def"
    using 1(6) by (cases "job_definition ?ty") (auto simp: trigger_durable_job_def)
  then have store: "engine_for rg (global_target (jd_store def)) = Inr d" using assms(1) jobs_in_automation by simp
  from trigger_again(1) [OF def store assms(2) 1(6), of w' u'] 1 show ?thesis
    by (intro exI [of _ r]) (simp add: job_routes_def bindS_run)
qed

lemma response_job_id:
  "json_loads (DurableJobTriggerResponse r) = Inr (JObj [(''job_id'', JStr (jr_job_id r)), (''created'', JBool (jr_created r))])"
  by (simp add: DurableJobTriggerResponse_def json_loads_dumps)

text \<open>
  A DAG run requests its job once. When the trigger task of a DAG has succeeded against the
  application, running it again for the same data interval, as Airflow does when it repeats a task,
  returns the same job and changes nothing in the databases, whatever clock and identifiers the
  application draws for the second request.
\<close>

theorem dag_trigger_once:
  assumes "engine_for rg (global_target ''automation'') = Inr d" "job_inv d"
    and "trigger_job T g (job_server T isoformat base senv w u) env start rg = (Inr job_id, rg')"
  shows "trigger_job T g (job_server T isoformat base senv w' u') env start rg' = (Inr job_id, rg')"
proof -
  obtain st payload base_url token where 1: "start = Some st" "dag_payload env (dg_payload_env g) = Inr payload"
    "environ_item env ''DURABLE_JOB_API_URL'' = Inr base_url" "environ_item env ''DURABLE_JOB_API_TOKEN'' = Inr token"
    using assms(3) by (auto simp: trigger_job_def dag_request_def bindS_eq_Inr split: option.splits)
  let ?url = "rstrip_slash base_url @ ''/internal/jobs/'' @ dg_job_type g"
  let ?hs = "[(''Authorization'', ''Bearer '' @ token), (''Content-Type'', ''application/json'')]"
  let ?body = "Some (json_dumps False (JObj [(''run_key'', JStr (dag_run_key g st)), (''payload'', JObj payload)]))"
  let ?routes = "\<lambda>w u. job_routes T isoformat base senv w u ''POST'' ?url ?hs ?body"
  obtain x rg1 where 2: "?routes w u rg = (x, rg1)" by fastforce
  obtain reply where x: "x = Inr reply" and rg1: "rg1 = rg'"
    using assms(3) 1 2
    by (cases x) (auto simp: trigger_job_def dag_request_def bindS_def job_server_def over_http_def catchS_def
        split: sum.splits json.splits)
  obtain r where r: "reply = DurableJobTriggerResponse r"
    "?routes w' u' rg' = (Inr (DurableJobTriggerResponse (r\<lparr>jr_created := False\<rparr>)), rg')"
    using routes_again [OF assms(1, 2), of T isoformat base senv w u ?url ?hs ?body reply rg' w' u'] 2 x rg1 by auto
  have "job_id = jr_job_id r" using assms(3) 1 2 x r(1)
    by (simp add: trigger_job_def dag_request_def bindS_def job_server_def over_http_def catchS_def response_job_id member_def dict_get_def)
  then show ?thesis using 1 r(2)
    by (simp add: trigger_job_def dag_request_def bindS_def job_server_def over_http_def catchS_def response_job_id member_def dict_get_def)
qed

section \<open>Waiting for the job\<close>

definition poll_round :: "dag \<Rightarrow> 's urlopen \<Rightarrow> environ \<Rightarrow> ('s \<Rightarrow> 's) \<Rightarrow> string \<Rightarrow> 's \<Rightarrow> 's" where
  "poll_round g urlopen env pause job_id s = pause (snd (poll_job g urlopen env job_id s))"

text \<open>The status of a response decides: only the three final ones end the task.\<close>

lemma job_outcome_status:
  assumes "dict_get response ''status'' = Some (JStr (status_value st))"
  shows "job_outcome T response = (case st of SUCCEEDED \<Rightarrow> Some (Inr ())
     | FAILED \<Rightarrow> Some (Inl (RuntimeError (case dict_get response ''error'' of
          Some e \<Rightarrow> if truthy e then py_str T e else ''durable job failed'' | None \<Rightarrow> ''durable job failed'')))
     | CANCELLED \<Rightarrow> Some (Inl (RuntimeError ''durable job cancelled'')) | _ \<Rightarrow> None)"
  using assms by (cases st) (simp_all add: job_outcome_def Let_def)

lemma wait_for_job_step:
  "poll_job g urlopen env job_id s = (Inr response, s1) \<Longrightarrow> job_outcome T response = None \<Longrightarrow>
   wait_for_job T g urlopen env pause job_id s = wait_for_job T g urlopen env pause job_id (pause s1)"
  by (subst wait_for_job.simps) simp

lemma wait_for_job_last:
  "poll_job g urlopen env job_id s = (Inr response, s1) \<Longrightarrow> job_outcome T response = Some r \<Longrightarrow>
   wait_for_job T g urlopen env pause job_id s = Some (r, s1)"
  by (subst wait_for_job.simps) simp

text \<open>
  The wait task ends with the job. If the first \<open>n\<close> polls answer with the status requested or
  running and the next one with a final status, the task ends right then: it succeeds for a job that
  succeeded, and raises \<open>RuntimeError\<close> with the job's error for one that failed, or because the job was
  cancelled.
\<close>

theorem wait_ends_with_job:
  assumes "\<forall>k<n. \<exists>response s1. poll_job g urlopen env job_id ((poll_round g urlopen env pause job_id ^^ k) s) = (Inr response, s1)
        \<and> dict_get response ''status'' \<in> {Some (JStr (status_value REQUESTED)), Some (JStr (status_value RUNNING))}"
    and "poll_job g urlopen env job_id ((poll_round g urlopen env pause job_id ^^ n) s) = (Inr response, s')"
    and "dict_get response ''status'' = Some (JStr (status_value st))" "st \<in> {SUCCEEDED, FAILED, CANCELLED}"
  shows "\<exists>r. wait_for_job T g urlopen env pause job_id s = Some (r, s') \<and>
    (r = Inr () \<longleftrightarrow> st = SUCCEEDED) \<and> (st \<noteq> SUCCEEDED \<longrightarrow> (\<exists>m. r = Inl (RuntimeError m)))"
  using assms
proof (induction n arbitrary: s)
  case 0
  then show ?case using job_outcome_status [OF 0(3), of T] by (auto simp: wait_for_job_last)
next
  case (Suc n)
  obtain resp s1 where 1: "poll_job g urlopen env job_id s = (Inr resp, s1)"
    "dict_get resp ''status'' \<in> {Some (JStr (status_value REQUESTED)), Some (JStr (status_value RUNNING))}"
    using Suc.prems(1) by (metis funpow_0 zero_less_Suc)
  then have "job_outcome T resp = None" using job_outcome_status [of resp] by fastforce
  from wait_for_job_step [OF 1(1) this, of pause]
  have step: "wait_for_job T g urlopen env pause job_id s = wait_for_job T g urlopen env pause job_id (pause s1)" .
  have shift: "(poll_round g urlopen env pause job_id ^^ Suc k) s = (poll_round g urlopen env pause job_id ^^ k) (pause s1)" for k
    using 1(1) by (simp add: funpow_Suc_right poll_round_def del: funpow.simps)
  have "\<forall>k<n. \<exists>response s2. poll_job g urlopen env job_id ((poll_round g urlopen env pause job_id ^^ k) (pause s1)) = (Inr response, s2)
        \<and> dict_get response ''status'' \<in> {Some (JStr (status_value REQUESTED)), Some (JStr (status_value RUNNING))}"
    using Suc.prems(1) shift by (metis Suc_less_eq)
  from Suc.IH [OF this] Suc.prems(2-) show ?case unfolding shift step by blast
qed

text \<open>A server whose job runs for two polls.\<close>

definition two_polls :: "nat urlopen" where
  "two_polls meth url hs body s = (Inr (json_dumps True (JObj [(''status'', JStr (if s < 2 then ''running'' else ''succeeded''))])), s)"

definition dag_variables :: environ where
  "dag_variables = [(''DURABLE_JOB_API_URL'', ''http://app/''), (''DURABLE_JOB_API_TOKEN'', ''tok''),
     (''DURABLE_JOB_NEWS_COLLECTION_PAYLOAD_JSON'', ''{}'')]"

lemma two_polls_run:
  "poll_job news_collection_dag two_polls dag_variables j s =
     (Inr [(''status'', JStr (if s < 2 then ''running'' else ''succeeded''))], s)"
  by (simp add: poll_job_def dag_request_def bindS_def two_polls_def environ_item_def environ_get_def dag_variables_def
      dict_get_def json_loads_dumps)

theorem wait_ends_with_job_witness:
  "\<exists>r. wait_for_job demo_text news_collection_dag two_polls dag_variables Suc ''j'' 0 = Some (r, 2) \<and> (r = Inr () \<longleftrightarrow> SUCCEEDED = SUCCEEDED) \<and>
     (SUCCEEDED \<noteq> SUCCEEDED \<longrightarrow> (\<exists>m. r = Inl (RuntimeError m)))"
proof -
  have round: "(poll_round news_collection_dag two_polls dag_variables Suc ''j'' ^^ k) 0 = k" for k
    by (induction k) (simp_all add: poll_round_def two_polls_run)
  show ?thesis
    by (rule wait_ends_with_job [where n = 2 and response = "[(''status'', JStr ''succeeded'')]"])
       (auto simp: round two_polls_run dict_get_def)
qed

section \<open>Identifiers of instances\<close>

text \<open>Whatever the host is called, the identifier has 1 to 128 characters of the allowed ones.\<close>

lemma instance_id_wf: "1 \<le> length (instance_id env h) \<and> length (instance_id env h) \<le> 128 \<and> list_all instance_char (instance_id env h)"
proof -
  have sub: "set (strip_dashes s) \<subseteq> set s" for s
    unfolding strip_dashes_def rstrip_by_def by (auto dest!: set_dropWhileD)
  define normalized where "normalized c = strip_dashes (map (\<lambda>c. if instance_char c then c else CHR ''-'') c)" for c
  have chars: "list_all instance_char (take 128 (normalized c))" for c
    using sub [of "map (\<lambda>c. if instance_char c then c else CHR ''-'') c"]
    by (auto simp: list_all_iff normalized_def instance_char_def dest!: in_set_takeD split: if_splits)
  have unknown: "list_all instance_char ''unknown''" by (simp add: instance_char_def)
  show ?thesis
    using chars unknown unfolding instance_id_def Let_def normalized_def [symmetric]
    by (auto simp: Suc_le_eq)
qed

section \<open>A run in memory\<close>

definition fresh_dbs :: dbs where
  "fresh_dbs = \<lparr>rg_global = [(''automation'', empty_db)], rg_shard = []\<rparr>"

definition demo_trigger :: "uuid \<Rightarrow> (dbs, string) io" where
  "demo_trigger u = trigger_job demo_text news_collection_dag
     (job_server demo_text (\<lambda>_. '''') ''http://app'' dag_variables (demo_draw u) u) dag_variables (Some ''2024-01-01T00:00:00+00:00'')"

theorem dag_trigger_once_witness:
  "fst (demo_trigger 1 fresh_dbs) = Inr (str_uuid 1) \<and>
   demo_trigger 2 (snd (demo_trigger 1 fresh_dbs)) = (Inr (str_uuid 1), snd (demo_trigger 1 fresh_dbs))"
proof -
  have first: "fst (demo_trigger 1 fresh_dbs) = Inr (str_uuid 1)" by code_simp
  have "engine_for fresh_dbs (global_target ''automation'') = Inr empty_db"
    by (simp add: engine_for_def fresh_dbs_def dict_get_def)
  from dag_trigger_once [OF this job_inv_empty, of demo_text news_collection_dag "\<lambda>_. ''''" "''http://app''" dag_variables
      "demo_draw 1" 1 dag_variables "Some ''2024-01-01T00:00:00+00:00''" "str_uuid 1" "snd (demo_trigger 1 fresh_dbs)" "demo_draw 2" 2]
  show ?thesis using first by (simp add: demo_trigger_def prod_eq_iff)
qed

end
