(* ===== verification/Typing.thy ===== *)
theory Typing
  imports Routes
begin

text \<open>
  What the rows of the databases look like. Every table has a type: its key columns are unique and
  each row satisfies the constraints the code maintains but the schema does not declare (the
  statuses a column may hold, which columns are set together, identifiers that are computed from
  other columns, the form of stock codes and e-mail addresses). The theory gives a small logic of
  typed computations, one rule per combinator of the library, and uses it to show that every
  transaction and every handler of the service keeps all databases typed, whatever it is sent and
  whatever the services it calls answer.
\<close>

named_theorems typed_intros \<open>rules that type a computation by its structure\<close>
named_theorems typed_ops \<open>typings of the operations\<close>

section \<open>Typed computations\<close>

text \<open>\<open>typed_io P m Q\<close>: the computation \<open>m\<close> keeps the invariant \<open>P\<close> of the state, also when it
  raises, and what it returns satisfies \<open>Q\<close>.\<close>

definition typed_io :: "('s \<Rightarrow> bool) \<Rightarrow> ('s, 'a) io \<Rightarrow> ('a \<Rightarrow> bool) \<Rightarrow> bool" where
  "typed_io P m Q \<longleftrightarrow> (\<forall>s. P s \<longrightarrow> P (snd (m s)) \<and> (\<forall>x. fst (m s) = Inr x \<longrightarrow> Q x))"

lemma typed_ioI:
  assumes "\<And>s r s'. P s \<Longrightarrow> m s = (r, s') \<Longrightarrow> P s' \<and> (\<forall>x. r = Inr x \<longrightarrow> Q x)"
  shows "typed_io P m Q"
  unfolding typed_io_def using assms by (metis prod.collapse)

lemma typed_ioD:
  assumes "typed_io P m Q" "P s" "m s = (r, s')"
  shows "P s'" "r = Inr x \<Longrightarrow> Q x"
  using assms by (auto simp: typed_io_def)

lemma typed_weaken: "typed_io P m Q \<Longrightarrow> (\<And>x. Q x \<Longrightarrow> R x) \<Longrightarrow> typed_io P m R"
  by (simp add: typed_io_def)

lemma typed_any: "typed_io P m Q \<Longrightarrow> typed_io P m (\<lambda>_. True)"
  by (rule typed_weaken) simp_all

lemma typed_ret [typed_intros]: "Q x \<Longrightarrow> typed_io P (ret x) Q"
  by (simp add: typed_io_def)

lemma typed_raise [typed_intros]: "typed_io P (raise e) Q"
  by (simp add: typed_io_def)

lemma typed_lift: "typed_io P (lift r) (\<lambda>x. r = Inr x)"
  by (cases r) (simp_all add: typed_io_def)

lemma typed_gets: "typed_io P (gets f) (\<lambda>x. \<exists>s. P s \<and> x = f s)"
  by (auto simp: typed_io_def)

lemma typed_modify: "(\<And>s. P s \<Longrightarrow> P (f s)) \<Longrightarrow> typed_io P (modify f) Q \<longleftrightarrow> (\<exists>s. P s) \<longrightarrow> Q ()"
  by (auto simp: typed_io_def)

lemma typed_modifyI [typed_intros]: "(\<And>s. P s \<Longrightarrow> P (f s)) \<Longrightarrow> typed_io P (modify f) (\<lambda>_. True)"
  by (simp add: typed_modify)

lemma typed_bind:
  assumes "typed_io P m R" "\<And>x. R x \<Longrightarrow> typed_io P (f x) Q"
  shows "typed_io P (bindS m f) Q"
proof (rule typed_ioI)
  fix s r s' assume s: "P s" and run: "bindS m f s = (r, s')"
  obtain r1 s1 where 1: "m s = (r1, s1)" by fastforce
  note t = typed_ioD [OF assms(1) s 1]
  show "P s' \<and> (\<forall>x. r = Inr x \<longrightarrow> Q x)"
  proof (cases r1)
    case (Inl e)
    then show ?thesis using 1 run t by (auto simp: bindS_def)
  next
    case (Inr x)
    then show ?thesis using 1 run t typed_ioD [OF assms(2) t(1)] by (simp add: bindS_def)
  qed
qed

lemma typed_bind_lift [typed_intros]:
  "(\<And>x. r = Inr x \<Longrightarrow> typed_io P (f x) Q) \<Longrightarrow> typed_io P (bindS (lift r) f) Q"
  by (rule typed_bind [OF typed_lift])

lemma typed_bind_gets [typed_intros]:
  "(\<And>s. P s \<Longrightarrow> typed_io P (f (g s)) Q) \<Longrightarrow> typed_io P (bindS (gets g) f) Q"
  by (rule typed_bind [OF typed_gets]) blast

lemma typed_bind_any [typed_intros]:
  "typed_io P m (\<lambda>_. True) \<Longrightarrow> (\<And>x. typed_io P (f x) Q) \<Longrightarrow> typed_io P (bindS m f) Q"
  by (rule typed_bind)

lemma typed_catch [typed_intros]:
  assumes "typed_io P m Q" "\<And>e. typed_io P (h e) Q"
  shows "typed_io P (catchS m h) Q"
proof (rule typed_ioI)
  fix s r s' assume s: "P s" and run: "catchS m h s = (r, s')"
  obtain r1 s1 where 1: "m s = (r1, s1)" by fastforce
  note t = typed_ioD [OF assms(1) s 1]
  show "P s' \<and> (\<forall>x. r = Inr x \<longrightarrow> Q x)"
  proof (cases r1)
    case (Inl e)
    then show ?thesis using 1 run typed_ioD [OF assms(2) t(1)] by (auto simp: catchS_def)
  next
    case (Inr x)
    then show ?thesis using 1 run t by (auto simp: catchS_def)
  qed
qed

lemma typed_if [typed_intros]:
  "(b \<Longrightarrow> typed_io P m Q) \<Longrightarrow> (\<not> b \<Longrightarrow> typed_io P n Q) \<Longrightarrow> typed_io P (if b then m else n) Q"
  by simp

lemma typed_option [typed_intros]:
  "(x = None \<Longrightarrow> typed_io P m Q) \<Longrightarrow> (\<And>y. x = Some y \<Longrightarrow> typed_io P (f y) Q) \<Longrightarrow> typed_io P (case x of None \<Rightarrow> m | Some y \<Rightarrow> f y) Q"
  by (cases x) simp_all

lemma typed_sum [typed_intros]:
  "(\<And>y. x = Inl y \<Longrightarrow> typed_io P (f y) Q) \<Longrightarrow> (\<And>y. x = Inr y \<Longrightarrow> typed_io P (g y) Q) \<Longrightarrow>
   typed_io P (case x of Inl y \<Rightarrow> f y | Inr y \<Rightarrow> g y) Q"
  by (cases x) simp_all

lemma typed_prod [typed_intros]:
  "(\<And>y z. x = (y, z) \<Longrightarrow> typed_io P (f y z) Q) \<Longrightarrow> typed_io P (case x of (y, z) \<Rightarrow> f y z) Q"
  by (cases x) simp

lemma typed_let [typed_intros]: "(\<And>y. y = x \<Longrightarrow> typed_io P (f y) Q) \<Longrightarrow> typed_io P (let y = x in f y) Q"
  by simp

lemma typed_lift_any [typed_intros]: "typed_io P (lift r) (\<lambda>_. True)"
  by (rule typed_any [OF typed_lift])

lemma typed_gets_any [typed_intros]: "typed_io P (gets f) (\<lambda>_. True)"
  by (rule typed_any [OF typed_gets])

section \<open>Invariants of the databases, the application and the platform\<close>

definition all_dbs :: "('d \<Rightarrow> bool) \<Rightarrow> 'd registry \<Rightarrow> bool" where
  "all_dbs P rg \<longleftrightarrow> list_all (\<lambda>(_, d). P d) (rg_global rg) \<and> list_all (\<lambda>(_, d). P d) (rg_shard rg)"

lemma list_all_dict_get: "list_all (\<lambda>(_, d). P d) m \<Longrightarrow> dict_get m k = Some d \<Longrightarrow> P d"
  by (induction m) (auto simp: dict_get_def split: if_splits)

lemma list_all_dict_set: "list_all (\<lambda>(_, d). P d) m \<Longrightarrow> P d \<Longrightarrow> list_all (\<lambda>(_, d). P d) (dict_set k d m)"
  by (induction m) auto

lemma all_dbs_engine: "all_dbs P rg \<Longrightarrow> engine_for rg t = Inr d \<Longrightarrow> P d"
  by (auto simp: all_dbs_def engine_for_def split: option.splits dest: list_all_dict_get)

lemma all_dbs_commit: "all_dbs P rg \<Longrightarrow> P d \<Longrightarrow> all_dbs P (commit_to t d rg)"
  by (auto simp: all_dbs_def commit_to_def list_all_dict_set split: option.splits)

lemma typed_with_session [typed_intros]:
  assumes "typed_io P body Q"
  shows "typed_io (all_dbs P) (with_session t body) Q"
proof (rule typed_ioI)
  fix rg r rg' assume rg: "all_dbs P rg" and run: "with_session t body rg = (r, rg')"
  show "all_dbs P rg' \<and> (\<forall>x. r = Inr x \<longrightarrow> Q x)"
  proof (cases "engine_for rg t")
    case (Inr d)
    obtain r1 d1 where 1: "body d = (r1, d1)" by fastforce
    show ?thesis using run 1 Inr rg all_dbs_commit [OF rg] typed_ioD [OF assms all_dbs_engine [OF rg Inr] 1]
      by (cases r1) (auto simp: with_session_def)
  qed (use run rg in \<open>auto simp: with_session_def\<close>)
qed

lemma typed_on_dbs [typed_intros]: "typed_io P m Q \<Longrightarrow> typed_io (\<lambda>s. P (ap_dbs s)) (on_dbs m) Q"
  by (simp add: typed_io_def on_dbs_def split_beta)

lemma typed_on_redis [typed_intros]: "typed_io (\<lambda>s. P (ap_dbs s)) (on_redis m) (\<lambda>_. True)"
  by (simp add: typed_io_def on_redis_def split_beta)

lemma typed_on_store [typed_intros]: "typed_io P m Q \<Longrightarrow> typed_io (\<lambda>s. P (pl_dbs s)) (on_store m) Q"
  by (simp add: typed_io_def on_store_def split_beta)

lemma typed_on_world [typed_intros]: "typed_io (\<lambda>s. P (pl_dbs s)) (on_world m) (\<lambda>_. True)"
  by (simp add: typed_io_def on_world_def split_beta)

lemma typed_on_services [typed_intros]: "typed_io (\<lambda>s. P (pl_dbs s)) (on_services lag m) (\<lambda>_. True)"
  unfolding on_services_def by (rule typed_on_world)

lemma typed_clock [typed_intros]: "typed_io P clock (\<lambda>_. True)"
  unfolding clock_def by (rule typed_gets_any)

lemma typed_db_or_503 [typed_intros]: "typed_io P m Q \<Longrightarrow> typed_io P (db_or_503 detail m) Q"
  unfolding db_or_503_def by (intro typed_intros)

lemma typed_operator_route [typed_intros]: "typed_io P m Q \<Longrightarrow> typed_io P (operator_route env a m) Q"
  unfolding operator_route_def by (intro typed_intros)

lemma typed_with_access [typed_intros]:
  "(\<And>session. typed_io (\<lambda>s. P (ap_dbs s)) (f session) Q) \<Longrightarrow>
   typed_io (\<lambda>s. P (ap_dbs s)) (with_access store now level bearer f) Q"
  unfolding with_access_def by (rule typed_bind_any [OF typed_on_redis]) (intro typed_intros)

lemma typed_idempotent [typed_intros]:
  "typed_io P handler (\<lambda>_. True) \<Longrightarrow>
   typed_io (\<lambda>s. P (ap_dbs s)) (idempotent api sha256 T now now' token header source encode handler) (\<lambda>_. True)"
  unfolding idempotent_def finish_request_def
  by (rule typed_bind_any [OF typed_on_redis])
    (auto intro!: typed_intros intro: typed_any)

section \<open>Typed tables\<close>

definition t_typed :: "('r \<Rightarrow> 'k) \<Rightarrow> ('r \<Rightarrow> bool) \<Rightarrow> 'r list \<Rightarrow> bool" where
  "t_typed key row t \<longleftrightarrow> t_wf key t \<and> list_all row t"

lemma t_typed_Nil [simp]: "t_typed key row []"
  by (simp add: t_typed_def)

lemma t_typed_get: "t_typed key row t \<Longrightarrow> t_get key' k t = Some r \<Longrightarrow> row r"
  by (auto simp: t_typed_def list_all_iff dest: t_get_key)

lemma t_typed_merge: "t_typed key row t \<Longrightarrow> row r \<Longrightarrow> t_typed key row (t_merge key r t)"
  by (auto simp: t_typed_def list_all_iff set_merge)

lemma t_typed_insert: "t_typed key row t \<Longrightarrow> row r \<Longrightarrow> key r \<notin> key ` set t \<Longrightarrow> t_typed key row (t @ [r])"
  by (auto simp: t_typed_def t_wf_def)

lemma t_typed_insert_if_absent:
  "t_typed key row t \<Longrightarrow> row r \<Longrightarrow> t_typed key row (snd (t_insert_if_absent key r t))"
  by (auto simp: t_insert_if_absent_def intro: t_typed_insert)

lemma t_typed_fold_merge:
  "t_typed key row t \<Longrightarrow> list_all row rs \<Longrightarrow> t_typed key row (fold (t_merge key) rs t)"
  by (induction rs arbitrary: t) (auto intro: t_typed_merge)

lemma t_typed_update:
  assumes "t_typed key row t" "\<And>r. key (f r) = key r" "\<And>r. row r \<Longrightarrow> p r \<Longrightarrow> row (f r)"
  shows "t_typed key row (snd (t_update p f t))"
  using assms by (auto simp: t_typed_def t_wf_update list_all_iff) (auto simp: t_update_def)

text \<open>A merge keeps a second key unique when no other row holds its value.\<close>

lemma merge_other_key:
  assumes "t_wf key t" "t_wf key' t" "\<And>x. x \<in> set t \<Longrightarrow> key' x = key' r \<Longrightarrow> key x = key r"
  shows "t_wf key' (t_merge key r t)"
  using assms
proof (induction t)
  case (Cons x t)
  have "t_wf key' (t_merge key r t)" using Cons by (auto simp: t_wf_def)
  moreover have "key x \<noteq> key r \<Longrightarrow> key' x \<notin> key' ` set (t_merge key r t)"
    using Cons.prems by (auto simp: t_wf_def set_merge)
  moreover have "key x = key r \<Longrightarrow> y \<in> set t \<Longrightarrow> key' y \<noteq> key' r" for y
    using Cons.prems(1) Cons.prems(3) [of y] by (auto simp: t_wf_def rev_image_eqI)
  ultimately show ?case using Cons.prems(2) by (auto simp: t_wf_def) (metis imageE)
qed (simp add: t_wf_def)

section \<open>The types of the rows\<close>

text \<open>An event is pending until it is published; a published one was attempted, has its time and no
  error. An error text fits the column.\<close>

definition outbox_row :: "OutboxEventRecord \<Rightarrow> bool" where
  "outbox_row r \<longleftrightarrow>
     (oe_status r = ''pending'' \<and> oe_published_at r = None \<or>
      oe_status r = ''published'' \<and> oe_published_at r \<noteq> None \<and> oe_last_error r = None \<and> 0 < oe_attempts r) \<and>
     (case oe_last_error r of None \<Rightarrow> True | Some e \<Rightarrow> length e \<le> 2000 \<and> 0 < oe_attempts r)"

text \<open>A job is of a defined type and in one of the five statuses; it has a result exactly when it has
  succeeded and an error exactly when it has failed.\<close>

definition job_row :: "DurableJobRecord \<Rightarrow> bool" where
  "job_row j \<longleftrightarrow> dict_get JOB_DEFINITIONS (dj_job_type j) \<noteq> None \<and>
     dj_status j \<in> status_value ` {REQUESTED, RUNNING, SUCCEEDED, FAILED, CANCELLED} \<and>
     (dj_result j \<noteq> None \<longleftrightarrow> dj_status j = status_value SUCCEEDED) \<and>
     (dj_error j \<noteq> None \<longleftrightarrow> dj_status j = status_value FAILED)"

definition profile_row :: "UserProfileRecord \<Rightarrow> bool" where
  "profile_row r \<longleftrightarrow> upr_profile_completed r"

definition connection_row :: "uuid5_fun \<Rightarrow> BrokerageAccountConnectionRecord \<Rightarrow> bool" where
  "connection_row uuid5 r \<longleftrightarrow> bcr_connection_id r = connection_id uuid5 (bcr_user_id r) \<and>
     bcr_provider r = PROVIDER \<and> bcr_credential_ref r = CREDENTIAL_REF \<and> bcr_status r = ''active'' \<and>
     take 4 (bcr_account_mask r) = ''****'' \<and> length (bcr_account_mask r) \<le> 8"

text \<open>No operation creates a developer or an administrator, and an account lives on the shard its
  identifier selects. The address is in normal form, so the lookups of log-in find it.\<close>

definition account_row :: "LoginAccountRecord \<Rightarrow> bool" where
  "account_row r \<longleftrightarrow> lar_email r = lower (strip (lar_email r)) \<and>
     lar_access_level r \<in> {access_value USER, access_value OPERATOR} \<and> lar_shard_id r = shard_id_for (lar_user_id r)"

definition audit_row :: "AccessLevelAuditRecord \<Rightarrow> bool" where
  "audit_row r \<longleftrightarrow> aar_previous_access_level r = access_value USER \<and> aar_new_access_level r = access_value OPERATOR \<and>
     aar_actor r \<noteq> []"

definition candle_row :: "uuid5_fun \<Rightarrow> DomesticDailyCandleRecord \<Rightarrow> bool" where
  "candle_row uuid5 r \<longleftrightarrow> dcr_candle_id r =
     uuid5 NAMESPACE_URL (''kis:domestic-daily:'' @ dcr_stock_code r @ '':'' @ dcr_trading_date r)"

definition notification_row :: "uuid5_fun \<Rightarrow> InAppNotificationRecord \<Rightarrow> bool" where
  "notification_row uuid5 r \<longleftrightarrow> is_stock_code (nor_stock_code r) \<and>
     nor_notification_id r = uuid5 NAMESPACE_URL (''in-app-notification:'' @ str_uuid (nor_delivery_intent_id r))"

definition snapshot_row :: "PortfolioSnapshotRecord \<Rightarrow> bool" where
  "snapshot_row r \<longleftrightarrow> 0 \<le> psr_position_count r"

definition position_row :: "uuid5_fun \<Rightarrow> PortfolioPositionSnapshotRecord \<Rightarrow> bool" where
  "position_row uuid5 r \<longleftrightarrow> ppr_position_id r = uuid5 (ppr_snapshot_id r) (ppr_stock_code r)"

definition intent_row :: "uuid5_fun \<Rightarrow> SignalDeliveryIntentRecord \<Rightarrow> bool" where
  "intent_row uuid5 r \<longleftrightarrow> is_stock_code (sir_stock_code r) \<and> sir_status r = ''pending'' \<and>
     sir_intent_id r = uuid5 NAMESPACE_URL (str_uuid (sir_signal_id r) @ '':'' @ str_uuid (sir_subscription_id r))"

definition subscription_row :: "uuid5_fun \<Rightarrow> SignalSubscriptionRecord \<Rightarrow> bool" where
  "subscription_row uuid5 r \<longleftrightarrow> is_stock_code (sur_stock_code r) \<and> 1 \<le> sur_revision r \<and>
     sur_subscription_id r = subscription_id uuid5 (sur_user_id r) (sur_stock_code r)"

definition projection_row :: "SignalSubscriptionProjectionRecord \<Rightarrow> bool" where
  "projection_row r \<longleftrightarrow> is_stock_code (sjr_stock_code r)"

definition db_typed :: "uuid5_fun \<Rightarrow> db \<Rightarrow> bool" where
  "db_typed uuid5 d \<longleftrightarrow>
     t_typed oe_event_id outbox_row (outbox_events d) \<and>
     t_typed pm_event_id (\<lambda>_. True) (processed_messages d) \<and>
     t_typed dj_job_id job_row (durable_jobs d) \<and> t_wf job_key (durable_jobs d) \<and>
     t_typed upr_user_id profile_row (user_profiles d) \<and>
     t_typed bcr_connection_id (connection_row uuid5) (brokerage_account_connections d) \<and>
     t_typed lar_user_id account_row (login_accounts d) \<and> t_wf lar_email (login_accounts d) \<and>
     t_typed aar_audit_id audit_row (access_level_audits d) \<and>
     t_typed mpr_snapshot_id (\<lambda>_. True) (market_price_snapshots d) \<and>
     t_typed dcr_candle_id (candle_row uuid5) (domestic_daily_candles d) \<and>
     t_typed nar_source_key (\<lambda>_. True) (news_articles d) \<and>
     t_typed nor_notification_id (notification_row uuid5) (in_app_notifications d) \<and>
     t_typed psr_snapshot_id snapshot_row (portfolio_snapshots d) \<and>
     t_typed ppr_position_id (position_row uuid5) (portfolio_position_snapshots d) \<and>
     t_typed ser_signal_id (\<lambda>_. True) (signal_events d) \<and>
     t_typed sir_intent_id (intent_row uuid5) (signal_delivery_intents d) \<and>
     t_typed sur_subscription_id (subscription_row uuid5) (signal_subscriptions d) \<and>
     t_typed sjr_subscription_id projection_row (signal_subscription_projections d)"

lemma db_typed_empty [simp]: "db_typed uuid5 empty_db"
  by (simp add: db_typed_def empty_db_def)

text \<open>A typed database satisfies every key constraint of the schema.\<close>

lemma db_typed_wf: "db_typed uuid5 d \<Longrightarrow> db_wf d"
  by (simp add: db_typed_def db_wf_def t_typed_def job_key_def [abs_def])

section \<open>Outbox, inbox and jobs\<close>

lemma outbox_row_new: "outbox_row (outbox_record now m av)"
  by (simp add: outbox_row_def outbox_record_def Let_def)

lemma db_typed_events:
  "db_typed u d \<Longrightarrow> t_typed oe_event_id outbox_row t \<Longrightarrow> db_typed u (d\<lparr>outbox_events := t\<rparr>)"
  by (simp add: db_typed_def)

lemma typed_outbox_add [typed_intros]: "typed_io (db_typed u) (outbox_add now m av) (\<lambda>_. True)"
proof (rule typed_ioI)
  fix d r d' assume d: "db_typed u d" and run: "outbox_add now m av d = (r, d')"
  have "t_typed oe_event_id outbox_row (outbox_events d)" using d by (simp add: db_typed_def)
  then have "em_event_id m \<notin> oe_event_id ` set (outbox_events d) \<Longrightarrow>
      t_typed oe_event_id outbox_row (outbox_events d @ [outbox_record now m av])"
    by (intro t_typed_insert outbox_row_new) simp_all
  then show "db_typed u d' \<and> (\<forall>x. r = Inr x \<longrightarrow> True)"
    using run d by (auto simp: outbox_add_run db_typed_events split: if_splits)
qed

lemma typed_inbox_claim [typed_intros]: "typed_io (db_typed u) (inbox_claim now e) (\<lambda>_. True)"
proof (rule typed_ioI)
  fix d r d' assume d: "db_typed u d" and run: "inbox_claim now e d = (r, d')"
  have "t_typed pm_event_id (\<lambda>_. True) (processed_messages d)" using d by (simp add: db_typed_def)
  from t_typed_insert_if_absent [OF this, of "\<lparr>pm_event_id = e, pm_processed_at = now\<rparr>"]
  show "db_typed u d' \<and> (\<forall>x. r = Inr x \<longrightarrow> True)"
    using run d by (auto simp: inbox_claim_def Let_def split_beta db_typed_def)
qed

lemma relay_one_row:
  assumes "outbox_row r" "oe_status r = ''pending''" "relay_one publish now done_at r b = (Inr (ok, r'), b')"
  shows "outbox_row r'"
  using assms by (auto simp: relay_one_def outbox_row_def Let_def split: prod.splits sum.splits exn.splits)

lemma relay_loop_rows:
  assumes "relay_loop publish now done_at rs b = (Inr xs, b')" "list_all outbox_row rs" "\<forall>r\<in>set rs. oe_status r = ''pending''"
  shows "list_all outbox_row (map snd xs)"
  using assms
proof (induction rs arbitrary: b xs)
  case (Cons r rs)
  then obtain ok r' b1 ys where 1: "relay_one publish now done_at r b = (Inr (ok, r'), b1)"
    and 2: "relay_loop publish now done_at rs b1 = (Inr ys, b')" and "xs = (ok, r') # ys"
    by (auto simp: bindS_eq_Inr)
  then show ?case using Cons.prems Cons.IH [OF 2] relay_one_row [OF _ _ 1] by simp
qed simp

lemma relay_select_rows: "set (relay_select locked n now t) \<subseteq> {r \<in> set t. oe_status r = ''pending''}"
  using set_take_subset [of n "sorted_by oe_occurred_at (filter (\<lambda>r. outbox_due now r \<and> \<not> locked (oe_event_id r)) t)"]
  by (auto simp: relay_select_def outbox_due_def)

lemma typed_publish_pending:
  assumes d: "db_typed u d" and run: "publish_pending publish locked n now done_at (b, d) = (r, (b', d'))"
  shows "db_typed u d'"
proof -
  let ?rs = "relay_select locked n now (outbox_events d)"
  have t: "t_typed oe_event_id outbox_row (outbox_events d)" using d by (simp add: db_typed_def)
  then have "list_all outbox_row ?rs" "\<forall>r\<in>set ?rs. oe_status r = ''pending''"
    using relay_select_rows [of locked n now "outbox_events d"] by (auto simp: t_typed_def list_all_iff)
  then have "t_typed oe_event_id outbox_row (write_back (map snd xs) (outbox_events d))"
    if "relay_loop publish now done_at ?rs b = (Inr xs, b')" for xs
    unfolding write_back_def using relay_loop_rows [OF that] by (intro t_typed_fold_merge t) simp_all
  then show ?thesis using run d
    by (auto simp: publish_pending_def db_typed_events split: prod.splits sum.splits)
qed

lemma db_typed_jobs:
  "db_typed u d \<Longrightarrow> t_typed dj_job_id job_row t \<Longrightarrow> t_wf job_key t \<Longrightarrow> db_typed u (d\<lparr>durable_jobs := t\<rparr>)"
  by (simp add: db_typed_def)

lemma typed_insert_job:
  assumes "job_row j" shows "typed_io (db_typed u) (insert_job j) (\<lambda>_. True)"
proof (rule typed_ioI)
  fix d r d' assume d: "db_typed u d" and run: "insert_job j d = (r, d')"
  have "t_typed dj_job_id job_row (durable_jobs d)" "t_wf job_key (durable_jobs d)" using d by (simp_all add: db_typed_def)
  then have "db_typed u (d\<lparr>durable_jobs := durable_jobs d @ [j]\<rparr>)"
    if "job_key j \<notin> job_key ` set (durable_jobs d)" "dj_job_id j \<notin> dj_job_id ` set (durable_jobs d)"
    using that assms d by (intro db_typed_jobs) (auto intro: t_typed_insert simp: t_wf_def)
  then show "db_typed u d' \<and> (\<forall>x. r = Inr x \<longrightarrow> True)" using run d by (auto simp: insert_job_def split: if_splits)
qed

lemma typed_job_request [typed_intros]:
  "typed_io (db_typed u) (job_request w new_id job_type run_key payload av) (\<lambda>_. True)"
proof (cases "dict_get JOB_DEFINITIONS job_type")
  case None
  then show ?thesis by (simp add: job_request_def typed_raise)
next
  case (Some def)
  then have "job_row (requested_job now i (jd_name def) run_key payload)" for now i
    using JOB_DEFINITIONS_name [OF Some] by (auto simp: job_row_def requested_job_def)
  then show ?thesis unfolding job_request_def Some option.case
    by (rule typed_bind_any [OF typed_insert_job]) (intro typed_intros TrueI, auto intro!: typed_intros split: list.splits)
qed

text \<open>What a transition may set: a result with success only, an error with failure only.\<close>

definition outcome :: "DurableJobStatus \<Rightarrow> jdict option \<Rightarrow> string option \<Rightarrow> bool" where
  "outcome status result error \<longleftrightarrow> (result \<noteq> None \<longleftrightarrow> status = SUCCEEDED) \<and> (error \<noteq> None \<longleftrightarrow> status = FAILED)"

lemma typed_job_transition:
  assumes "outcome st res err"
  shows "typed_io (db_typed u) (job_transition w i ex st res err) (\<lambda>_. True)"
proof (rule typed_ioI)
  fix d r d' assume d: "db_typed u d" and run: "job_transition w i ex st res err d = (r, d')"
  have t: "t_typed dj_job_id job_row (durable_jobs d)" "t_wf job_key (durable_jobs d)"
    "t_typed oe_event_id outbox_row (outbox_events d)" using d by (simp_all add: db_typed_def)
  let ?m = "\<lambda>j. t_merge dj_job_id (moved w st res err j) (durable_jobs d)"
  have m: "db_typed u (d\<lparr>durable_jobs := ?m j\<rparr>)" if j: "t_get dj_job_id i (durable_jobs d) = Some j" for j
  proof (rule db_typed_jobs [OF d t_typed_merge [OF t(1)]])
    show "job_row (moved w st res err j)" using t_typed_get [OF t(1) j] assms by (cases st) (auto simp: job_row_def outcome_def)
    show "t_wf job_key (?m j)" using job_key_merge [OF _ t(2) j] t(1) t_get_key [OF j] by (simp add: t_typed_def)
  qed
  have e: "outbox_row (status_event w i st res err)" unfolding status_event_def by (rule outbox_row_new)
  have o: "t_typed oe_event_id outbox_row (outbox_events d @ [status_event w i st res err])" if "event_id_fresh d (dw_event_id w)"
    using that by (intro t_typed_insert t(3) e) (simp add: event_id_fresh_def)
  show "db_typed u d' \<and> (\<forall>x. r = Inr x \<longrightarrow> True)"
    using run d m o db_typed_events [OF m o] t(1)
    by (auto simp: job_transition_run t_typed_def Let_def split: option.splits if_splits)
qed

section \<open>Handlers of the modules\<close>

lemma normal_code: "normalize_domestic_stock_code s = Inr c \<Longrightarrow> is_stock_code c"
  by (auto simp: normalize_domestic_stock_code_def is_stock_code_def isdecimal_def Let_def split: if_splits)

lemma code_or_422: "stock_code_or_422 s = Inr c \<Longrightarrow> is_stock_code c"
  by (auto simp: stock_code_or_422_def catchE_def normal_code split: sum.splits exn.splits)

lemma from_payload_codes:
  "projection_from_payload C p = Inr x \<Longrightarrow> is_stock_code (sj_stock_code x)"
  "signal_from_payload C p = Inr y \<Longrightarrow> is_stock_code (se_stock_code y)"
  "delivery_intent_from_payload C p = Inr z \<Longrightarrow> is_stock_code (si_stock_code z)"
  by (auto simp: projection_from_payload_def signal_from_payload_def delivery_intent_from_payload_def as_value_error_def
      catchE_def bindE_eq_Inr bindE_eq_Inl normal_code split: sum.splits if_splits)

lemma lower_char_space [simp]: "is_space (lower_char c) = is_space c"
  by (cases "65 \<le> code c \<and> code c \<le> 90 \<or> 192 \<le> code c \<and> code c \<le> 222 \<and> code c \<noteq> 215")
    (auto simp: lower_char_def is_space_def Let_def)

lemma lower_char_idem [simp]: "lower_char (lower_char c) = lower_char c"
  by (cases "65 \<le> code c \<and> code c \<le> 90 \<or> 192 \<le> code c \<and> code c \<le> 222 \<and> code c \<noteq> 215")
    (auto simp: lower_char_def Let_def)

lemma strip_lower: "strip (lower s) = lower (strip s)"
  by (simp add: strip_def lstrip_def rstrip_by_def lower_def dropWhile_map rev_map comp_def)

lemma normal_email: "lower (strip (lower (strip e))) = lower (strip e)"
  by (simp add: strip_lower) (simp add: lower_def comp_def)

lemma typed_account_save:
  assumes "account_row (LoginAccount_to_record a)"
  shows "typed_io (db_typed u) (account_save a) (\<lambda>_. True)"
proof (rule typed_ioI)
  fix d r d' assume d: "db_typed u d" and run: "account_save a d = (r, d')"
  have t: "t_typed lar_user_id account_row (login_accounts d)" "t_wf lar_email (login_accounts d)" using d by (simp_all add: db_typed_def)
  have e: "t_wf lar_email (t_merge lar_user_id (LoginAccount_to_record a) (login_accounts d))"
    if "\<not> (\<exists>r\<in>set (login_accounts d). lar_email r = la_email a \<and> lar_user_id r \<noteq> la_user_id a)"
    using that t by (intro merge_other_key) (auto simp: t_typed_def LoginAccount_to_record_def)
  show "db_typed u d' \<and> (\<forall>x. r = Inr x \<longrightarrow> True)"
    using run d e t_typed_merge [OF t(1) assms]
    by (auto simp: account_save_def SQL_LoginAccount_save_def db_typed_def split: if_splits)
qed

lemma typed_signup [typed_ops]: "typed_io (all_dbs (db_typed u)) (signup pbkdf2 user_id salt now request) (\<lambda>_. True)"
  unfolding signup_def account_by_email_def
  by (intro typed_intros TrueI; simp)
    (intro typed_intros typed_account_save TrueI; simp add: account_row_def LoginAccount_to_record_def normal_email)

lemma typed_audit_save:
  "audit_row (AccessLevelAudit_to_record a) \<Longrightarrow> typed_io (db_typed u) (audit_save a) (\<lambda>_. True)"
  unfolding audit_save_def
  by (rule typed_modifyI) (simp add: db_typed_def SQL_AccessLevelAudit_save_def t_typed_merge)

abbreviation dbs_typed :: "uuid5_fun \<Rightarrow> dbs \<Rightarrow> bool" where
  "dbs_typed u \<equiv> all_dbs (db_typed u)"

abbreviation app_typed :: "uuid5_fun \<Rightarrow> 'r app \<Rightarrow> bool" where
  "app_typed u \<equiv> \<lambda>s. dbs_typed u (ap_dbs s)"

abbreviation plat_typed :: "uuid5_fun \<Rightarrow> 's plat \<Rightarrow> bool" where
  "plat_typed u \<equiv> \<lambda>s. dbs_typed u (pl_dbs s)"

lemma account_by_email_row:
  assumes "db_typed u d" "SQL_LoginAccount_find_by_email e (login_accounts d) = Some a"
  shows "account_row (LoginAccount_to_record a)"
proof -
  obtain r where r: "t_get lar_email e (login_accounts d) = Some r" "a = LoginAccount_of_record r"
    using assms(2) by (auto simp: SQL_LoginAccount_find_by_email_def)
  have "account_row r" by (rule t_typed_get [where key = lar_user_id, OF _ r(1)]) (use assms(1) in \<open>simp add: db_typed_def\<close>)
  then show ?thesis using r(2) by (simp add: account_row_def LoginAccount_to_record_def LoginAccount_of_record_def)
qed

lemma typed_grant_tx:
  assumes "actor \<noteq> []" shows "typed_io (db_typed u) (grant_tx audit_id now email actor) (\<lambda>_. True)"
proof -
  have a: "account_row (LoginAccount_to_record (a\<lparr>la_access_level := access_value OPERATOR\<rparr>))"
    if "account_row (LoginAccount_to_record a)" for a
    using that by (simp add: account_row_def LoginAccount_to_record_def)
  show ?thesis unfolding grant_tx_def account_by_email_def
    by (intro typed_intros typed_account_save typed_audit_save TrueI a, erule (1) account_by_email_row)
      (simp add: audit_row_def AccessLevelAudit_to_record_def assms)
qed

lemma typed_grant [typed_ops]:
  "typed_io (app_typed u) (grant_operator_access store audit_id now now' email actor) (\<lambda>_. True)"
  unfolding grant_operator_access_def by (intro typed_intros typed_grant_tx TrueI) simp

lemma typed_update_profile: "typed_io (dbs_typed u) (update_profile event_id now request session) (\<lambda>_. True)"
  unfolding update_profile_def update_profile_tx_def profile_find_def profile_save_def
  by (intro typed_intros TrueI)
    (simp add: db_typed_def SQL_UserProfile_save_def t_typed_merge profile_row_def UserProfile_to_record_def requested_profile_def)

lemma typed_update_profile_endpoint [typed_ops]:
  "typed_io (app_typed u) (update_profile_endpoint api sha256 T dump encode now now' token header event_id request bearer) (\<lambda>_. True)"
  unfolding update_profile_endpoint_def update_profile_request_def by (intro typed_intros typed_update_profile)

text \<open>Subscriptions.\<close>

lemma subscription_find_row:
  assumes "db_typed u d" "SQL_SignalSubscription_find_by_id i (signal_subscriptions d) = Some s"
  shows "subscription_row u (SignalSubscription_to_record s)"
proof -
  obtain r where r: "t_get sur_subscription_id i (signal_subscriptions d) = Some r" "s = SignalSubscription_of_record r"
    using assms(2) by (auto simp: SQL_SignalSubscription_find_by_id_def)
  have "subscription_row u r" by (rule t_typed_get [where key = sur_subscription_id, OF _ r(1)]) (use assms(1) in \<open>simp add: db_typed_def\<close>)
  then show ?thesis using r(2) by (simp add: subscription_row_def SignalSubscription_to_record_def SignalSubscription_of_record_def)
qed

lemma typed_subscription_save:
  "subscription_row u (SignalSubscription_to_record s) \<Longrightarrow> typed_io (db_typed u) (subscription_save s) (\<lambda>_. True)"
  unfolding subscription_save_def
  by (rule typed_modifyI) (simp add: db_typed_def SQL_SignalSubscription_save_def t_typed_merge)

lemma typed_subscription_update [typed_intros]:
  "typed_io (db_typed u) (record_subscription_update event_id now s target) (\<lambda>_. True)"
  unfolding record_subscription_update_def by (rule typed_outbox_add)

lemma typed_subscribe_tx:
  assumes "is_stock_code c"
  shows "typed_io (db_typed u) (subscribe_tx event_id now (subscription_id u user_id c) user_id c target) (\<lambda>_. True)"
  unfolding subscribe_tx_def subscription_find_def
  by (intro typed_intros typed_subscription_save TrueI)
    (auto dest!: subscription_find_row simp: subscription_row_def SignalSubscription_to_record_def assms)

lemma typed_unsubscribe_tx: "typed_io (db_typed u) (unsubscribe_tx event_id now i user_id c target) (\<lambda>_. True)"
  unfolding unsubscribe_tx_def subscription_find_def
  by (intro typed_intros typed_subscription_save TrueI)
    (auto dest!: subscription_find_row simp: subscription_row_def SignalSubscription_to_record_def)

lemma typed_subscribe: "typed_io (dbs_typed u) (subscribe u event_id now c session) (\<lambda>_. True)"
  unfolding subscribe_def by (intro typed_intros typed_subscribe_tx code_or_422)

lemma typed_unsubscribe: "typed_io (dbs_typed u) (unsubscribe u event_id now c session) (\<lambda>_. True)"
  unfolding unsubscribe_def by (intro typed_intros typed_unsubscribe_tx)

lemma typed_subscribe_endpoint [typed_ops]:
  "typed_io (app_typed u) (subscribe_endpoint api sha256 T u dump encode now now' token header event_id c bearer) (\<lambda>_. True)"
  unfolding subscribe_endpoint_def by (intro typed_intros typed_subscribe)

lemma typed_unsubscribe_endpoint [typed_ops]:
  "typed_io (app_typed u) (unsubscribe_endpoint api sha256 T u dump encode now now' token header event_id c bearer) (\<lambda>_. True)"
  unfolding unsubscribe_endpoint_def by (intro typed_intros typed_unsubscribe)

text \<open>Signals and what the message worker does with the events.\<close>

lemma typed_record_signal [typed_ops]: "typed_io (dbs_typed u) (record_signal C event_id now signal) (\<lambda>_. True)"
  unfolding record_signal_def record_signal_tx_def
  by (intro typed_intros TrueI) (simp add: db_typed_def SQL_SignalEvent_save_def t_typed_merge)

lemma typed_projection_tx:
  "is_stock_code (sj_stock_code p) \<Longrightarrow> typed_io (db_typed u) (projection_tx now event_id p) (\<lambda>_. True)"
  unfolding projection_tx_def
  by (intro typed_intros TrueI) (simp_all add: db_typed_def SQL_SignalSubscriptionProjection_save_def t_typed_merge
      projection_row_def SignalSubscriptionProjection_to_record_def)

lemma typed_materialize_intent:
  "intent_row u (SignalDeliveryIntent_to_record i) \<Longrightarrow> typed_io (db_typed u) (materialize_intent C event_id now i) (\<lambda>_. True)"
  unfolding materialize_intent_def
  by (intro typed_intros TrueI) (simp add: db_typed_def SQL_SignalDeliveryIntent_save_def t_typed_merge)

lemma typed_materialize_intents:
  "\<forall>i\<in>set is. intent_row u (SignalDeliveryIntent_to_record i) \<Longrightarrow>
   typed_io (db_typed u) (materialize_intents C event_ids now k is) (\<lambda>_. True)"
proof (induction "is" arbitrary: k)
  case (Cons i "is")
  then show ?case unfolding materialize_intents.simps by (intro typed_bind_any typed_materialize_intent Cons.IH) simp_all
qed (simp add: typed_ret)

lemma delivery_intent_row:
  "is_stock_code (se_stock_code signal) \<Longrightarrow>
   intent_row u (SignalDeliveryIntent_to_record (delivery_intent u signal expires p))"
  by (simp add: intent_row_def SignalDeliveryIntent_to_record_def delivery_intent_def)

lemma typed_signal_created_tx:
  "is_stock_code (se_stock_code signal) \<Longrightarrow>
   typed_io (db_typed u) (signal_created_tx C u event_ids now event_id signal) (\<lambda>_. True)"
  unfolding signal_created_tx_def
  by (intro typed_intros typed_materialize_intents TrueI) (simp add: delivery_intent_row)

lemma notification_row_new:
  "is_stock_code (si_stock_code i) \<Longrightarrow> notification_row u (InAppNotification_to_record (in_app_notification u now i))"
  by (simp add: notification_row_def InAppNotification_to_record_def in_app_notification_def)

lemma typed_notification_tx:
  "is_stock_code (si_stock_code i) \<Longrightarrow> typed_io (db_typed u) (notification_tx u now event_id i) (\<lambda>_. True)"
  unfolding notification_tx_def
  by (intro typed_intros TrueI) (simp add: db_typed_def SQL_InAppNotification_save_def t_typed_merge notification_row_new)

lemma typed_message_handle [typed_ops]:
  "typed_io (app_typed u) (message_handle C T u event_ids publish now m) (\<lambda>_. True)"
proof -
  have "typed_io (dbs_typed u) (handle_profile_update T now m) (\<lambda>_. True)"
    unfolding handle_profile_update_def by (auto intro!: typed_intros split: option.splits json.splits)
  moreover have "typed_io (dbs_typed u) (handle_signal_subscription_update C now m) (\<lambda>_. True)"
    unfolding handle_signal_subscription_update_def by (intro typed_intros typed_projection_tx from_payload_codes)
  moreover have "typed_io (dbs_typed u) (handle_signal_created C u event_ids now m) (\<lambda>_. True)"
    unfolding handle_signal_created_def by (intro typed_intros typed_signal_created_tx from_payload_codes)
  moreover have "typed_io (app_typed u) (handle_signal_delivery_intent_created C u publish now m) (\<lambda>_. True)"
    unfolding handle_signal_delivery_intent_created_def
    by (intro typed_intros typed_notification_tx from_payload_codes TrueI)
      (auto intro!: typed_intros split: option.splits exn.splits)
  ultimately show ?thesis unfolding message_handle_def by (intro typed_intros) simp_all
qed

lemma notification_find_row:
  assumes "db_typed u d" "SQL_InAppNotification_find_by_id n (in_app_notifications d) = Some x"
  shows "notification_row u (InAppNotification_to_record (x\<lparr>no_read_at := t\<rparr>))"
proof -
  obtain r where r: "t_get nor_notification_id n (in_app_notifications d) = Some r" "x = InAppNotification_of_record r"
    using assms(2) by (auto simp: SQL_InAppNotification_find_by_id_def)
  have "notification_row u r" by (rule t_typed_get [where key = nor_notification_id, OF _ r(1)]) (use assms(1) in \<open>simp add: db_typed_def\<close>)
  then show ?thesis using r(2) by (simp add: notification_row_def InAppNotification_to_record_def InAppNotification_of_record_def)
qed

lemma typed_notification_save:
  "notification_row u (InAppNotification_to_record n) \<Longrightarrow> typed_io (db_typed u)
     (modify (\<lambda>d. d\<lparr>in_app_notifications := SQL_InAppNotification_save n (in_app_notifications d)\<rparr>)) (\<lambda>_. True)"
  by (rule typed_modifyI) (simp add: db_typed_def SQL_InAppNotification_save_def t_typed_merge)

lemma typed_mark_read_tx: "typed_io (db_typed u) (mark_read_tx now n user_id) (\<lambda>_. True)"
  unfolding mark_read_tx_def Let_def
  by (intro typed_bind_gets typed_option typed_if typed_raise typed_ret typed_bind_any typed_notification_save TrueI)
    (rule notification_find_row)

lemma typed_mark_read [typed_ops]: "typed_io (dbs_typed u) (mark_notification_read_route now n session) (\<lambda>_. True)"
  unfolding mark_notification_read_route_def mark_user_notification_read_def by (intro typed_intros typed_mark_read_tx)

text \<open>Connections, snapshots, prices, candles and news.\<close>

lemma typed_link_save:
  "connection_row u (BrokerageAccountConnection_to_record c) \<Longrightarrow> typed_io (db_typed u) (link_save event_id now target c) (\<lambda>_. True)"
  unfolding link_save_def
  by (intro typed_intros TrueI) (simp add: db_typed_def SQL_BrokerageAccountConnection_save_def t_typed_merge)

lemma linked_row:
  "connection_row u (BrokerageAccountConnection_to_record (linked_connection (connection_id u user_id) user_id credentials now existing))"
  by (simp add: connection_row_def BrokerageAccountConnection_to_record_def linked_connection_def account_mask_of_def)

lemma typed_link_tx: "typed_io (db_typed u) (link_tx u event_id now user_id target credentials) (\<lambda>_. True)"
  unfolding link_tx_def by (intro typed_intros typed_link_save linked_row TrueI)

lemma typed_link_endpoint [typed_ops]:
  "typed_io (app_typed u) (link_connection_endpoint api sha256 T encode u env now now' token header event_id bearer) (\<lambda>_. True)"
  unfolding link_connection_endpoint_def link_default_connection_def by (intro typed_intros typed_link_tx)

lemma typed_capture_tx:
  assumes "0 \<le> ps_position_count s" "\<forall>p\<in>set ps. position_row u (PortfolioPositionSnapshot_to_record p)"
  shows "typed_io (db_typed u) (capture_tx event_id now target s ps) (\<lambda>_. True)"
proof -
  have "t_typed ppr_position_id (position_row u) t \<Longrightarrow>
      t_typed ppr_position_id (position_row u) (fold SQL_PortfolioPositionSnapshot_save ps t)" for t
    unfolding fold_position_save by (rule t_typed_fold_merge) (use assms(2) in \<open>simp_all add: list_all_iff\<close>)
  then show ?thesis unfolding capture_tx_def
    by (intro typed_intros TrueI) (simp add: db_typed_def SQL_PortfolioSnapshot_save_def t_typed_merge snapshot_row_def
        PortfolioSnapshot_to_record_def assms(1))
qed

lemma position_rows:
  "\<forall>p\<in>set (position_models u sid user_id holdings). position_row u (PortfolioPositionSnapshot_to_record p)"
  by (auto simp: position_models_def position_row_def PortfolioPositionSnapshot_to_record_def position_of_def)

lemma typed_reads [typed_intros]:
  "typed_io (dbs_typed u) (get_connection u' env session) (\<lambda>_. True)"
  "typed_io (dbs_typed u) (get_active_kis_connection u' env session) (\<lambda>_. True)"
  "typed_io (dbs_typed u) (find_capture target sid) (\<lambda>_. True)"
  unfolding get_active_kis_connection_def get_connection_def find_capture_def by (intro typed_intros TrueI)+

lemma typed_capture [typed_ops]:
  "typed_io (plat_typed u) (capture_linked_portfolio_snapshot u env account event_id header session) (\<lambda>_. True)"
  unfolding capture_linked_portfolio_snapshot_def capture_portfolio_snapshot_def
  by (intro typed_intros TrueI typed_capture_tx) (simp_all add: position_rows)

lemma typed_save_price [typed_intros]: "typed_io (dbs_typed u) (save_market_price_snapshot new_id now price) (\<lambda>_. True)"
  unfolding save_market_price_snapshot_def
  by (intro typed_intros TrueI) (simp add: db_typed_def SQL_MarketPriceSnapshot_save_def t_typed_merge)

lemma candle_rows:
  "t_typed dcr_candle_id (candle_row u) t \<Longrightarrow>
   t_typed dcr_candle_id (candle_row u) (fold SQL_DomesticDailyCandle_save (map (stored_candle u) cs) t)"
  by (induction cs arbitrary: t) (auto simp: SQL_DomesticDailyCandle_save_def candle_row_def stored_candle_def
      DomesticDailyCandle_to_record_def t_typed_merge)

lemma typed_save_candles [typed_intros]: "typed_io (dbs_typed u) (save_domestic_daily_candles u candles) (\<lambda>_. True)"
  unfolding save_domestic_daily_candles_def
  by (intro typed_intros TrueI) (simp add: db_typed_def candle_rows)

lemma typed_operator_price [typed_ops]:
  "typed_io (plat_typed u) (operator_create_snapshot env a market new_id c) (\<lambda>_. True)"
  unfolding operator_create_snapshot_def by (intro typed_intros)

lemma typed_operator_candles [typed_ops]:
  "typed_io (plat_typed u) (operator_create_candles env a market u c) (\<lambda>_. True)"
  unfolding operator_create_candles_def by (intro typed_intros)

lemma insert_rows_typed: "t_typed nar_source_key (\<lambda>_. True) t \<Longrightarrow> t_typed nar_source_key (\<lambda>_. True) (snd (insert_rows rs t))"
proof (induction rs arbitrary: t)
  case (Cons r rs)
  from Cons.IH [OF t_typed_insert_if_absent [OF Cons.prems TrueI, of r]] show ?case by (simp add: split_beta)
qed simp

lemma typed_insert_many [typed_intros]: "typed_io (db_typed u) (insert_many_returning_keys articles now) (\<lambda>_. True)"
proof (rule typed_ioI)
  fix d r d' assume d: "db_typed u d" and run: "insert_many_returning_keys articles now d = (r, d')"
  let ?rows = "map (article_row now) (map snd (dict_of pa_source_key articles))"
  have "t_typed nar_source_key (\<lambda>_. True) (snd (insert_rows ?rows (news_articles d)))"
    by (rule insert_rows_typed) (use d in \<open>simp add: db_typed_def\<close>)
  then have "db_typed u (d\<lparr>news_articles := snd (insert_rows ?rows (news_articles d))\<rparr>)" using d by (simp add: db_typed_def)
  then show "db_typed u d' \<and> (\<forall>x. r = Inr x \<longrightarrow> True)"
    using run d by (auto simp: insert_many_returning_keys_def Let_def split: if_splits prod.splits)
qed

section \<open>Jobs\<close>

lemma typed_news_retry [typed_intros]: "typed_io (plat_typed u) (request_news_retry w new_id x payload) (\<lambda>_. True)"
  unfolding request_news_retry_def by (intro typed_intros TrueI)

lemma typed_collect_symbols [typed_intros]: "typed_io (plat_typed u) (collect_symbols env ss) (\<lambda>_. True)"
proof (induction ss)
  case (Cons s ss)
  show ?case unfolding collect_symbols.simps by (intro typed_bind_any typed_on_services Cons.IH typed_ret TrueI)
qed (unfold collect_symbols.simps, intro typed_ret TrueI)

lemma typed_find_sources [typed_intros]:
  "typed_io (db_typed u) (find_by_source_keys ks) (\<lambda>_. True)" "typed_io (db_typed u) (job_list_recent t n) (\<lambda>_. True)"
  "typed_io (db_typed u) (job_get i) (\<lambda>_. True)"
  unfolding find_by_source_keys_def job_list_recent_def job_get_def by (intro typed_intros TrueI)+

lemma typed_handle:
  assumes "jb_uuid5 env = u"
  shows "typed_io (plat_typed u) (handle env w new_id sid x) (\<lambda>r. r \<noteq> None)"
proof -
  have "typed_io (plat_typed u) (collect_news env w new_id x) (\<lambda>_. True)"
    unfolding collect_news_def collect_news_tx_def by (intro typed_intros TrueI)
  moreover have "typed_io (plat_typed u) (index_news env w new_id x) (\<lambda>_. True)"
    unfolding index_news_def by (intro typed_intros TrueI)
  moreover have "typed_io (plat_typed u) (index_durable_job_history env x) (\<lambda>_. True)"
    unfolding index_durable_job_history_def by (intro typed_intros TrueI)
  moreover have "typed_io (plat_typed u) (collect_market_price_snapshot env sid x) (\<lambda>_. True)"
    unfolding collect_market_price_snapshot_def by (intro typed_intros TrueI)
  moreover have "typed_io (plat_typed u) (collect_domestic_daily_candles env x) (\<lambda>_. True)"
    unfolding collect_domestic_daily_candles_def assms by (intro typed_intros TrueI)
  ultimately show ?thesis unfolding handle_def by (intro typed_bind_any typed_if typed_ret typed_raise) simp_all
qed

lemma typed_handler_on_dbs: "typed_io (plat_typed u) (h x) Q \<Longrightarrow> typed_io (dbs_typed u) (handler_on_dbs w h x) Q"
  unfolding typed_io_def handler_on_dbs_def split_beta by (metis fst_conv plat.select_convs(1) snd_conv)

lemma typed_worker [typed_ops]:
  assumes "\<And>x. typed_io (dbs_typed u) (handler x) (\<lambda>r. r \<noteq> None)"
  shows "typed_io (dbs_typed u) (worker_handle T handler w1 w2 m) (\<lambda>_. True)"
proof -
  have c: "typed_io (dbs_typed u) (catchS (handler x) (\<lambda>e. bindS (with_session t (job_transition w2 i RUNNING FAILED None
      (Some (error_text T e)))) (\<lambda>_. raise e))) (\<lambda>r. r \<noteq> None)" for x t i
    by (intro typed_catch assms typed_bind_any typed_with_session typed_job_transition typed_raise) (simp add: outcome_def)
  have s: "typed_io (dbs_typed u) (with_session t (job_transition w2 i RUNNING SUCCEEDED r None)) (\<lambda>_. True)" if "r \<noteq> None" for r t i
    using that by (intro typed_with_session typed_job_transition) (simp add: outcome_def)
  show ?thesis unfolding worker_handle_def
    by (intro typed_bind_lift typed_prod typed_bind_any [OF typed_with_session [OF typed_job_transition]] typed_if typed_ret TrueI
        typed_bind [OF c] typed_bind_any [OF s] typed_raise) (simp_all add: outcome_def)
qed

lemma typed_cancel [typed_ops]: "typed_io (dbs_typed u) (cancel_durable_job w job_type job_id) (\<lambda>_. True)"
proof -
  have "typed_io (db_typed u) (job_transition w job_id REQUESTED CANCELLED None None) (\<lambda>_. True)"
    by (rule typed_job_transition) (simp add: outcome_def)
  then show ?thesis unfolding cancel_durable_job_def cancel_tx_def by (intro typed_intros TrueI)
qed

lemma typed_trigger [typed_ops]: "typed_io (dbs_typed u) (trigger_durable_job T w new_id job_type run_key payload) (\<lambda>_. True)"
  unfolding trigger_durable_job_def by (intro typed_intros)

section \<open>The service\<close>

text \<open>What a deployment supplies: the services, the environment and the library functions. The steps
  below are the operations that write to a database, as the routes, the workers, the relay and the
  operator script run them; every argument of a step (clock readings, fresh identifiers, requests,
  headers, messages, the contents of Redis) is arbitrary.\<close>

record ('r, 's, 'b) deployment =
  dp_api :: "'r redis_api"
  dp_sha256 :: sha256_fun
  dp_pbkdf2 :: pbkdf2_fun
  dp_uuid5 :: uuid5_fun
  dp_text :: pytext
  dp_codec :: codec
  dp_env :: environ
  dp_market :: "'s market_client option"
  dp_account :: "'s account_client option"
  dp_jobs :: "'s job_env"
  dp_publish :: "EventMessage \<Rightarrow> ('b, unit) io"
  dp_push :: "(string \<Rightarrow> string \<Rightarrow> ('r, unit) io) option"

definition dp_job_env :: "('r, 's, 'b) deployment \<Rightarrow> 's job_env" where
  "dp_job_env D = dp_jobs D\<lparr>jb_uuid5 := dp_uuid5 D\<rparr>"

text \<open>The databases after a computation of the application or of the platform.\<close>

definition app_run :: "'r \<Rightarrow> ('r app, 'a) io \<Rightarrow> dbs \<Rightarrow> dbs" where
  "app_run r m rg = ap_dbs (snd (m \<lparr>ap_redis = r, ap_dbs = rg\<rparr>))"

definition plat_run :: "'s world \<Rightarrow> ('s plat, 'a) io \<Rightarrow> dbs \<Rightarrow> dbs" where
  "plat_run w m rg = pl_dbs (snd (m \<lparr>pl_dbs = rg, pl_world = w\<rparr>))"

inductive service_step :: "('r, 's, 'b) deployment \<Rightarrow> dbs \<Rightarrow> dbs \<Rightarrow> bool" for D :: "('r, 's, 'b) deployment" where
  sign_up: "service_step D rg (snd (signup (dp_pbkdf2 D) user_id salt now request rg))"
| grant: "service_step D rg (app_run r (grant_operator_access (redis_sessions (dp_api D)) audit_id now now' email actor) rg)"
| profile: "service_step D rg (app_run r (update_profile_endpoint (dp_api D) (dp_sha256 D) (dp_text D) dump encode now now' token
     header event_id request bearer) rg)"
| subscribed: "service_step D rg (app_run r (subscribe_endpoint (dp_api D) (dp_sha256 D) (dp_text D) (dp_uuid5 D) sdump sencode now now'
     token header event_id stock_code bearer) rg)"
| unsubscribed: "service_step D rg (app_run r (unsubscribe_endpoint (dp_api D) (dp_sha256 D) (dp_text D) (dp_uuid5 D) sdump sencode now
     now' token header event_id stock_code bearer) rg)"
| linked: "service_step D rg (app_run r (link_connection_endpoint (dp_api D) (dp_sha256 D) (dp_text D) cencode (dp_uuid5 D) (dp_env D)
     now now' token header event_id bearer) rg)"
| captured: "service_step D rg (plat_run w (capture_linked_portfolio_snapshot (dp_uuid5 D) (dp_env D) (dp_account D) event_id header
     session) rg)"
| read: "service_step D rg (snd (mark_notification_read_route now notification session rg))"
| priced: "service_step D rg (plat_run w (operator_create_snapshot (dp_env D) authorization (dp_market D) new_id stock_code) rg)"
| charted: "service_step D rg (plat_run w (operator_create_candles (dp_env D) authorization (dp_market D) (dp_uuid5 D) stock_code) rg)"
| signalled: "service_step D rg (snd (record_signal (dp_codec D) event_id now signal rg))"
| triggered: "service_step D rg (snd (trigger_durable_job (dp_text D) dw new_id job_type run_key payload rg))"
| cancelled: "service_step D rg (snd (cancel_durable_job dw job_type job_id rg))"
| worked: "service_step D rg (snd (worker_handle (dp_text D) (handler_on_dbs w (handle (dp_job_env D) dw new_id snapshot_uuid)) w1 w2 m rg))"
| delivered: "service_step D rg (app_run r (message_handle (dp_codec D) (dp_text D) (dp_uuid5 D) event_ids (dp_push D) now m) rg)"
| relayed: "engine_for rg t = Inr d \<Longrightarrow> publish_pending (dp_publish D) locked batch now done_at (b, d) = (x, (b', d')) \<Longrightarrow>
     service_step D rg (commit_to t d' rg)"

inductive service_run :: "('r, 's, 'b) deployment \<Rightarrow> dbs \<Rightarrow> dbs \<Rightarrow> bool" for D :: "('r, 's, 'b) deployment" where
  start: "service_run D rg rg"
| more: "service_run D rg rg1 \<Longrightarrow> service_step D rg1 rg2 \<Longrightarrow> service_run D rg rg2"

lemma typed_snd: "typed_io P m Q \<Longrightarrow> P s \<Longrightarrow> P (snd (m s))"
  by (simp add: typed_io_def)

lemma typed_app_run: "typed_io (app_typed u) m Q \<Longrightarrow> dbs_typed u rg \<Longrightarrow> dbs_typed u (app_run r m rg)"
  by (simp add: typed_io_def app_run_def)

lemma typed_plat_run: "typed_io (plat_typed u) m Q \<Longrightarrow> dbs_typed u rg \<Longrightarrow> dbs_typed u (plat_run w m rg)"
  by (simp add: typed_io_def plat_run_def)

lemma service_step_typed:
  "service_step D rg rg' \<Longrightarrow> dbs_typed (dp_uuid5 D) rg \<Longrightarrow> dbs_typed (dp_uuid5 D) rg'"
proof (induction rule: service_step.induct)
  case (worked rg w dw new_id snapshot_uuid w1 w2 m)
  then show ?case
    by (intro typed_snd [OF typed_worker] typed_handler_on_dbs typed_handle) (simp add: dp_job_env_def)
next
  case (relayed rg t d locked batch now done_at b x b' d')
  then show ?case using all_dbs_engine all_dbs_commit typed_publish_pending by metis
qed (auto intro: typed_snd typed_app_run typed_plat_run typed_ops)

lemma service_run_typed:
  "service_run D rg rg' \<Longrightarrow> dbs_typed (dp_uuid5 D) rg \<Longrightarrow> dbs_typed (dp_uuid5 D) rg'"
  by (induction rule: service_run.induct) (auto intro: service_step_typed)

section \<open>Properties\<close>

text \<open>
  C3: The databases stay well typed. Starting from typed databases (empty ones, after the
  migrations), after any sequence of the writing operations of the service, with arbitrary requests,
  messages, clock readings and answers of the services, every table of every database still has
  unique keys and typed rows: an event is pending or published and then has its time; a job has a
  result exactly when it succeeded and an error exactly when it failed; accounts are users or
  operators with a normalised address on the shard their identifier selects; every audit records a
  promotion from user to operator with an actor; stock codes have six digits; computed identifiers
  are the ones their other columns give. In particular the key constraints of the schema hold.
\<close>

theorem databases_stay_typed:
  assumes "service_run D rg rg'" and "dbs_typed (dp_uuid5 D) rg"
  shows "dbs_typed (dp_uuid5 D) rg' \<and> (\<forall>t d. engine_for rg' t = Inr d \<longrightarrow> db_wf d)"
proof (intro conjI allI impI)
  show t: "dbs_typed (dp_uuid5 D) rg'" by (rule service_run_typed [OF assms])
  show "db_wf d" if "engine_for rg' t = Inr d" for t d by (rule db_typed_wf [OF all_dbs_engine [OF t that]])
qed

definition demo_deployment :: "(rstate, unit, unit) deployment" where
  "demo_deployment = \<lparr>dp_api = mem_redis, dp_sha256 = (\<lambda>s. s), dp_pbkdf2 = (\<lambda>_ _ _. Inr []), dp_uuid5 = demo_uuid5,
     dp_text = demo_text, dp_codec = demo_codec, dp_env = [], dp_market = None, dp_account = None, dp_jobs = retry_env,
     dp_publish = (\<lambda>_. ret ()), dp_push = None\<rparr>"

definition demo_signed_up :: dbs where
  "demo_signed_up = snd (signup (dp_pbkdf2 demo_deployment) 7 [1] 5 \<lparr>sq_email = '' A@B '', sq_password = ''p''\<rparr> account_dbs)"

definition demo_triggered :: dbs where
  "demo_triggered = snd (trigger_durable_job (dp_text demo_deployment) (demo_draw 3) 9 ''news_index'' ''k'' [] demo_signed_up)"

definition dbs_emails :: "dbs \<Rightarrow> string list" where
  "dbs_emails rg = concat (map (\<lambda>(_, d). map lar_email (login_accounts d)) (rg_global rg))"

definition dbs_statuses :: "dbs \<Rightarrow> string list" where
  "dbs_statuses rg = concat (map (\<lambda>(_, d). map dj_status (durable_jobs d)) (rg_global rg))"

theorem databases_stay_typed_witness:
  "service_run demo_deployment account_dbs demo_triggered \<and> dbs_typed demo_uuid5 account_dbs \<and> dbs_typed demo_uuid5 demo_triggered \<and>
   dbs_emails demo_triggered = [''a@b''] \<and> dbs_statuses demo_triggered = [''requested'']"
proof -
  have run: "service_run demo_deployment account_dbs demo_triggered"
    unfolding demo_triggered_def
    by (rule service_run.more [OF service_run.more [OF service_run.start, of _ _ demo_signed_up] service_step.triggered])
      (unfold demo_signed_up_def, rule service_step.sign_up)
  have start: "dbs_typed demo_uuid5 account_dbs" by (simp add: all_dbs_def account_dbs_def)
  have "dp_uuid5 demo_deployment = demo_uuid5" by (simp add: demo_deployment_def)
  then have "dbs_typed demo_uuid5 demo_triggered" using databases_stay_typed [OF run] start by simp
  moreover have "dbs_emails demo_triggered = [''a@b'']" by code_simp
  moreover have "dbs_statuses demo_triggered = [''requested'']" by code_simp
  ultimately show ?thesis using run start by blast
qed

end
