(* ===== verification/Application.thy ===== *)
theory Application
  imports Routes Observability
begin

text \<open>
  How the application is put together (\<open>application/app_factory.py\<close>): the routers of
  \<open>routers/*.py\<close> and \<open>modules/*/generated/router.py\<close> as data, with their prefixes, paths and
  dependencies, the tuples that list them (\<open>extensions.py\<close>, \<open>generated/module_registry.py\<close>) and
  \<open>create_app\<close>, which includes them in order. The web framework is a parameter: \<open>matches\<close> tells
  whether a path template matches a path, \<open>bearer\<close> is the \<open>HTTPBearer\<close> scheme, \<open>decode\<close> the parsing of
  a request body, which comes before the dependencies, and \<open>fallback\<close> the answer when no route of the
  application matches (404, 405, redirects, the generated documentation). The handlers are an argument:
  what is shown holds for all of them.
\<close>

section \<open>Routers\<close>

datatype dependency = Access AccessLevel | ServiceToken string

record route =
  rt_method :: string
  rt_path :: string
  rt_name :: string
  rt_deps :: "dependency list"

record router =
  ro_prefix :: string
  ro_deps :: "dependency list"
  ro_routes :: "route list"

abbreviation open_route :: "string \<Rightarrow> string \<Rightarrow> string \<Rightarrow> route" where
  "open_route m p n \<equiv> \<lparr>rt_method = m, rt_path = p, rt_name = n, rt_deps = []\<rparr>"

abbreviation level_route :: "AccessLevel \<Rightarrow> string \<Rightarrow> string \<Rightarrow> string \<Rightarrow> route" where
  "level_route l m p n \<equiv> \<lparr>rt_method = m, rt_path = p, rt_name = n, rt_deps = [Access l]\<rparr>"

definition health_router :: router where
  "health_router = \<lparr>ro_prefix = [], ro_deps = [], ro_routes =
     [open_route ''GET'' ''/health'' ''health'', open_route ''GET'' ''/readiness'' ''readiness'']\<rparr>"

definition durable_jobs_router :: router where
  "durable_jobs_router = \<lparr>ro_prefix = ''/internal/jobs'', ro_deps = [ServiceToken ''durable_jobs''], ro_routes =
     [open_route ''POST'' ''/{job_type}'' ''trigger_durable_job'', open_route ''GET'' ''/{job_type}'' ''list_durable_jobs'',
      open_route ''GET'' ''/{job_type}/{job_id}'' ''get_durable_job'',
      open_route ''DELETE'' ''/{job_type}/{job_id}'' ''cancel_durable_job'']\<rparr>"

definition operator_market_data_router :: router where
  "operator_market_data_router = \<lparr>ro_prefix = ''/internal/operator/market-data'', ro_deps = [ServiceToken ''operator''], ro_routes =
     [open_route ''GET'' ''/domestic-stock-price'' ''get_domestic_stock_price'',
      open_route ''GET'' ''/domestic-stock-price/snapshots/{snapshot_id}'' ''get_domestic_stock_price_snapshot'',
      open_route ''POST'' ''/domestic-stock-price/snapshots'' ''create_domestic_stock_price_snapshot'',
      open_route ''GET'' ''/domestic-daily-candles'' ''get_domestic_daily_candles'',
      open_route ''POST'' ''/domestic-daily-candles'' ''create_domestic_daily_candles'']\<rparr>"

definition operator_portfolio_router :: router where
  "operator_portfolio_router = \<lparr>ro_prefix = ''/internal/operator/portfolio'', ro_deps = [ServiceToken ''operator''], ro_routes =
     [open_route ''GET'' ''/domestic-stock-holdings'' ''list_domestic_stock_holdings'']\<rparr>"

definition user_portfolio_router :: router where
  "user_portfolio_router = \<lparr>ro_prefix = ''/api/brokerage-account'', ro_deps = [Access USER], ro_routes =
     [open_route ''GET'' ''/domestic-stock-holdings'' ''list_linked_domestic_stock_holdings'']\<rparr>"

definition user_portfolio_snapshot_router :: router where
  "user_portfolio_snapshot_router = \<lparr>ro_prefix = ''/api/portfolio'', ro_deps = [Access USER], ro_routes =
     [open_route ''POST'' ''/snapshots'' ''capture_linked_portfolio_snapshot'',
      open_route ''GET'' ''/snapshots/{snapshot_id}'' ''get_persisted_portfolio_snapshot'']\<rparr>"

definition operator_search_router :: router where
  "operator_search_router = \<lparr>ro_prefix = ''/internal/operator/search'', ro_deps = [ServiceToken ''operator''], ro_routes =
     [open_route ''GET'' ''/durable-jobs'' ''search_durable_job_history'', open_route ''GET'' ''/news'' ''search_news'']\<rparr>"

definition operator_signal_router :: router where
  "operator_signal_router = \<lparr>ro_prefix = ''/internal/operator/signal'', ro_deps = [ServiceToken ''operator''], ro_routes =
     [open_route ''GET'' ''/subscriptions'' ''list_signal_subscriptions'',
      open_route ''GET'' ''/delivery-intents'' ''list_signal_delivery_intents'']\<rparr>"

definition notifications_router :: router where
  "notifications_router = \<lparr>ro_prefix = ''/api/notifications'', ro_deps = [Access USER], ro_routes =
     [open_route ''GET'' [] ''list_notifications'', open_route ''PATCH'' ''/{notification_id}/read'' ''mark_notification_read'']\<rparr>"

text \<open>The websocket route has no dependencies: its handler checks the session itself
  (\<open>authorized_websocket_session\<close>).\<close>

definition realtime_notifications_router :: router where
  "realtime_notifications_router = \<lparr>ro_prefix = ''/api/notifications'', ro_deps = [], ro_routes =
     [open_route ''WEBSOCKET'' ''/stream'' ''stream_notifications'']\<rparr>"

definition identity_router :: router where
  "identity_router = \<lparr>ro_prefix = ''/api/identity'', ro_deps = [], ro_routes =
     [open_route ''POST'' ''/signup'' ''signup'', open_route ''POST'' ''/login'' ''login'',
      open_route ''POST'' ''/session/validate'' ''validate_session'',
      level_route OPERATOR ''GET'' ''/operator/session'' ''get_operator_session'']\<rparr>"

definition account_router :: router where
  "account_router = \<lparr>ro_prefix = ''/api/account'', ro_deps = [], ro_routes =
     [level_route USER ''GET'' ''/profile'' ''get_profile'', level_route USER ''PUT'' ''/profile'' ''update_profile'']\<rparr>"

definition brokerage_account_router :: router where
  "brokerage_account_router = \<lparr>ro_prefix = ''/api/brokerage-account'', ro_deps = [], ro_routes =
     [level_route USER ''PUT'' ''/connection'' ''link_default_connection'',
      level_route USER ''GET'' ''/connection'' ''get_connection'']\<rparr>"

definition signal_router :: router where
  "signal_router = \<lparr>ro_prefix = ''/api/signal'', ro_deps = [], ro_routes =
     [level_route USER ''PUT'' ''/subscription'' ''subscribe'', level_route USER ''DELETE'' ''/subscription'' ''unsubscribe'']\<rparr>"

definition news_router :: router where
  "news_router = \<lparr>ro_prefix = ''/api/news'', ro_deps = [], ro_routes = []\<rparr>"

definition market_data_router :: router where
  "market_data_router = \<lparr>ro_prefix = ''/api/market-data'', ro_deps = [], ro_routes = []\<rparr>"

definition market_history_router :: router where
  "market_history_router = \<lparr>ro_prefix = ''/api/market-history'', ro_deps = [], ro_routes = []\<rparr>"

definition portfolio_router :: router where
  "portfolio_router = \<lparr>ro_prefix = ''/api/portfolio'', ro_deps = [], ro_routes = []\<rparr>"

definition notification_router :: router where
  "notification_router = \<lparr>ro_prefix = ''/api/notifications'', ro_deps = [], ro_routes = []\<rparr>"

definition USER_ROUTERS :: "router list" where
  "USER_ROUTERS = [operator_market_data_router, operator_portfolio_router, user_portfolio_router, user_portfolio_snapshot_router,
     operator_search_router, operator_signal_router, notifications_router, realtime_notifications_router]"

definition MODULE_ROUTERS :: "router list" where
  "MODULE_ROUTERS = [identity_router, account_router, news_router, market_data_router, market_history_router,
     brokerage_account_router, portfolio_router, signal_router, notification_router]"

definition include_router :: "router \<Rightarrow> route list \<Rightarrow> route list" where
  "include_router x routes = routes @ map (\<lambda>r. r\<lparr>rt_path := ro_prefix x @ rt_path r, rt_deps := ro_deps x @ rt_deps r\<rparr>) (ro_routes x)"

definition create_app :: "router list \<Rightarrow> bool \<Rightarrow> route list" where
  "create_app module_routers include_user_routers =
     (let app = include_router durable_jobs_router (include_router health_router []);
          app = (if include_user_routers then fold include_router USER_ROUTERS app else app)
      in fold include_router module_routers app)"

section \<open>Serving a request\<close>

record app_request =
  hq_method :: string
  hq_path :: string
  hq_headers :: "(string, string) dict"

record 'r framework =
  fw_matches :: "string \<Rightarrow> string \<Rightarrow> bool"
  fw_bearer :: "string option \<Rightarrow> string option"
  fw_decode :: "route \<Rightarrow> app_request \<Rightarrow> unit result"
  fw_fallback :: "app_request \<Rightarrow> http_response"
  fw_env :: environ
  fw_sessions :: "'r session_ops"

definition find_route :: "(string \<Rightarrow> string \<Rightarrow> bool) \<Rightarrow> route list \<Rightarrow> string \<Rightarrow> string \<Rightarrow> route option" where
  "find_route matches routes m p = find (\<lambda>r. rt_method r = m \<and> matches (rt_path r) p) routes"

definition check_dependency :: "'r framework \<Rightarrow> time \<Rightarrow> app_request \<Rightarrow> dependency \<Rightarrow> ('r app, unit) io" where
  "check_dependency W now q dep = (let authorization = dict_get (hq_headers q) ''Authorization'' in case dep of
       Access level \<Rightarrow> with_access (fw_sessions W) now level (fw_bearer W authorization) (\<lambda>_. ret ())
     | ServiceToken name \<Rightarrow> lift (require_service_token name (fw_env W) authorization))"

fun check_dependencies :: "'r framework \<Rightarrow> time \<Rightarrow> app_request \<Rightarrow> dependency list \<Rightarrow> ('r app, unit) io" where
  "check_dependencies W now q [] = ret ()"
| "check_dependencies W now q (dep # deps) = bindS (check_dependency W now q dep) (\<lambda>_. check_dependencies W now q deps)"

text \<open>An \<open>HTTPException\<close> becomes a response with its status; any other exception goes on to the middleware.\<close>

definition respond :: "('s, http_response) io \<Rightarrow> ('s, http_response) io" where
  "respond m = catchS m (\<lambda>e. case e of HTTPException status _ \<Rightarrow> ret \<lparr>hr_status = status, hr_headers = []\<rparr> | _ \<Rightarrow> raise e)"

definition dispatch ::
  "'r framework \<Rightarrow> time \<Rightarrow> route list \<Rightarrow> (string \<Rightarrow> app_request \<Rightarrow> ('r app, http_response) io) \<Rightarrow> app_request
   \<Rightarrow> ('r app, http_response) io" where
  "dispatch W now routes handlers q = respond (case find_route (fw_matches W) routes (hq_method q) (hq_path q) of
       None \<Rightarrow> ret (fw_fallback W q)
     | Some r \<Rightarrow> bindS (lift (fw_decode W r q)) (\<lambda>_.
                 bindS (check_dependencies W now q (rt_deps r)) (\<lambda>_. handlers (rt_name r) q)))"

definition serve ::
  "'r framework \<Rightarrow> uuid \<Rightarrow> time \<Rightarrow> route list \<Rightarrow> (string \<Rightarrow> app_request \<Rightarrow> ('r app, http_response) io) \<Rightarrow> app_request
   \<Rightarrow> (log_entry list \<times> 'r app, http_response) io" where
  "serve W new_id now routes handlers q =
     log_request new_id (hq_method q) (hq_path q) (hq_headers q) (dispatch W now routes handlers q)"

section \<open>Which route a request reaches\<close>

text \<open>The documented meaning of a path template: a segment in braces stands for one non-empty segment of the
  path, any other segment for itself.\<close>

definition is_parameter :: "string \<Rightarrow> bool" where
  "is_parameter t \<longleftrightarrow> take 1 t = ''{''"

definition template_matches :: "string \<Rightarrow> string \<Rightarrow> bool" where
  "template_matches t p \<longleftrightarrow> list_all2 (\<lambda>a b. if is_parameter a then b \<noteq> [] else b = a) (split_at CHR ''/'' t) (split_at CHR ''/'' p)"

definition overlap :: "string \<Rightarrow> string \<Rightarrow> bool" where
  "overlap t u \<longleftrightarrow> list_all2 (\<lambda>a b. is_parameter a \<or> is_parameter b \<or> a = b) (split_at CHR ''/'' t) (split_at CHR ''/'' u)"

lemma matches_overlap: "template_matches t p \<Longrightarrow> template_matches u p \<Longrightarrow> overlap t u"
  by (auto simp: template_matches_def overlap_def list_all2_conv_all_nth split: if_splits) metis

definition app_routes :: "route list" where
  "app_routes = create_app MODULE_ROUTERS True"

definition clash :: "route \<Rightarrow> route \<Rightarrow> bool" where
  "clash r s \<longleftrightarrow> rt_method r = rt_method s \<and> overlap (rt_path r) (rt_path s)"

fun no_clashes :: "route list \<Rightarrow> bool" where
  "no_clashes [] = True"
| "no_clashes (r # rs) = (list_all (\<lambda>s. \<not> clash r s) rs \<and> no_clashes rs)"

lemma app_no_clashes: "no_clashes app_routes"
  by code_simp

lemma clash_sym: "clash r s = clash s r"
  by (auto simp: clash_def overlap_def list_all2_conv_all_nth)

lemma no_clashes_unique: "no_clashes rs \<Longrightarrow> r \<in> set rs \<Longrightarrow> s \<in> set rs \<Longrightarrow> clash r s \<Longrightarrow> r = s"
  by (induction rs) (auto simp: list_all_iff clash_sym)

lemma find_unique:
  assumes "set xs = set ys" "\<And>x y. x \<in> set xs \<Longrightarrow> y \<in> set xs \<Longrightarrow> P x \<Longrightarrow> P y \<Longrightarrow> x = y"
  shows "find P xs = find P ys"
proof (cases "find P xs")
  case None
  then show ?thesis using assms(1) by (metis find_None_iff)
next
  case (Some x)
  then have "x \<in> set xs" "P x" by (auto simp: find_Some_iff)
  moreover obtain y where "find P ys = Some y" "y \<in> set ys" "P y"
    using calculation assms(1) by (metis (no_types, lifting) find_None_iff find_Some_iff not_Some_eq nth_mem)
  ultimately show ?thesis using Some assms by auto
qed

text \<open>
  Routing is unambiguous. Of the routes of the application at most one matches the method and path of a
  request, so the order in which the routers are included does not matter: any arrangement of the same routes
  selects the same one.
\<close>

theorem routing_unambiguous:
  assumes "\<And>t p. matches t p \<Longrightarrow> template_matches t p"
  shows "(\<forall>r\<in>set app_routes. \<forall>s\<in>set app_routes. rt_method r = rt_method s \<and> matches (rt_path r) p \<and> matches (rt_path s) p \<longrightarrow> r = s) \<and>
    (\<forall>routes. set routes = set app_routes \<longrightarrow> find_route matches routes m p = find_route matches app_routes m p)"
proof -
  have unique: "r = s" if "r \<in> set app_routes" "s \<in> set app_routes" "rt_method r = rt_method s" "matches (rt_path r) p" "matches (rt_path s) p" for r s
    using no_clashes_unique [OF app_no_clashes that(1, 2)] matches_overlap [OF assms [OF that(4)] assms [OF that(5)]] that(3)
    by (simp add: clash_def)
  then have "find_route matches routes m p = find_route matches app_routes m p" if "set routes = set app_routes" for routes
    unfolding find_route_def using that by (intro find_unique) auto
  then show ?thesis using unique by blast
qed

theorem routing_unambiguous_witness:
  "find_route template_matches (rev app_routes) ''DELETE'' ''/internal/jobs/news_index/7'' =
     find_route template_matches app_routes ''DELETE'' ''/internal/jobs/news_index/7'' \<and>
   map_option rt_name (find_route template_matches app_routes ''DELETE'' ''/internal/jobs/news_index/7'') = Some ''cancel_durable_job''"
proof -
  have "map_option rt_name (find_route template_matches app_routes ''DELETE'' ''/internal/jobs/news_index/7'') = Some ''cancel_durable_job''"
    by code_simp
  moreover have "find_route template_matches (rev app_routes) ''DELETE'' ''/internal/jobs/news_index/7'' =
     find_route template_matches app_routes ''DELETE'' ''/internal/jobs/news_index/7''"
    by (rule routing_unambiguous [THEN conjunct2, rule_format]) (assumption, rule set_rev)
  ultimately show ?thesis by (intro conjI)
qed

section \<open>Requests without credentials\<close>

definition PUBLIC :: "string list" where
  "PUBLIC = [''health'', ''readiness'', ''stream_notifications'', ''signup'', ''login'', ''validate_session'']"

definition guarded :: "route \<Rightarrow> bool" where
  "guarded r = (case rt_deps r of [] \<Rightarrow> False | Access _ # _ \<Rightarrow> True
     | ServiceToken name # _ \<Rightarrow> dict_get SERVICE_TOKEN_ENVIRONMENTS name \<noteq> None)"

lemma app_guarded: "list_all (\<lambda>r. guarded r \<noteq> (rt_name r \<in> set PUBLIC)) app_routes"
  by code_simp

lemma dependency_refuses:
  assumes "fw_bearer W None = None" "dict_get (hq_headers q) ''Authorization'' = None" "guarded r"
  shows "\<exists>status d. check_dependencies W now q (rt_deps r) s = (Inl (HTTPException status d), s) \<and> status \<in> {401, 503}"
proof -
  obtain dep deps where r: "rt_deps r = dep # deps" using assms(3) by (cases "rt_deps r") (auto simp: guarded_def)
  have "\<exists>status d. check_dependency W now q dep s = (Inl (HTTPException status d), s) \<and> status \<in> {401, 503}"
  proof (cases dep)
    case (Access level)
    then show ?thesis using assms(1, 2)
      by (simp add: check_dependency_def with_access_def get_current_session_def bindS_def on_redis_def)
  next
    case (ServiceToken name)
    then show ?thesis using assms(2, 3) r
      by (auto simp: check_dependency_def require_service_token_def guarded_def partition_at_def Let_def split: option.splits)
  qed
  then show ?thesis unfolding r by (auto simp: bindS_def)
qed

lemma dispatch_refuses:
  assumes "fw_bearer W None = None" "dict_get (hq_headers q) ''Authorization'' = None" "guarded r"
    and "\<And>r q e. fw_decode W r q = Inl e \<Longrightarrow> \<exists>c d. e = HTTPException c d \<and> 400 \<le> c"
    and "find_route (fw_matches W) routes (hq_method q) (hq_path q) = Some r"
  shows "\<exists>resp. dispatch W now routes handlers q s = (Inr resp, s) \<and> 400 \<le> hr_status resp \<and>
    (fw_decode W r q = Inr () \<longrightarrow> hr_status resp \<in> {401, 503})"
proof (cases "fw_decode W r q")
  case (Inl e)
  then obtain c d where "e = HTTPException c d" "400 \<le> c" using assms(4) by blast
  then show ?thesis using Inl assms(5) by (simp add: dispatch_def respond_def catchS_def)
next
  case (Inr u)
  obtain c d where c: "check_dependencies W now q (rt_deps r) s = (Inl (HTTPException c d), s)" "c \<in> {401, 503}"
    using dependency_refuses [OF assms(1-3)] by blast
  then have "400 \<le> c" by auto
  then show ?thesis using Inr c assms(5) by (simp add: dispatch_def respond_def catchS_def bindS_def)
qed

text \<open>
  C38: Nothing happens without credentials. Except for the six public routes (health, readiness, sign-up,
  log-in, session validation and the websocket, whose handler authenticates by itself), a request to any route
  of the application that has no Authorization header does not reach the handler, whatever the handlers are:
  the sessions and the databases are unchanged, the answer is an error (401, or 503 while the service token is
  not configured, unless the body was already refused), and one line with its status is logged.
\<close>

theorem credentials_required:
  assumes "fw_bearer W None = None"
    and "\<And>r q e. fw_decode W r q = Inl e \<Longrightarrow> \<exists>c d. e = HTTPException c d \<and> 400 \<le> c"
    and "find_route (fw_matches W) app_routes (hq_method q) (hq_path q) = Some r"
    and "rt_name r \<notin> {''health'', ''readiness'', ''stream_notifications'', ''signup'', ''login'', ''validate_session''}"
    and "dict_get (hq_headers q) ''Authorization'' = None"
  shows "\<exists>resp e. serve W new_id now app_routes handlers q (l, s) = (Inr resp, (l @ [e], s)) \<and>
    lg_path e = hq_path q \<and> lg_status e = hr_status resp \<and> 400 \<le> hr_status resp \<and>
    (fw_decode W r q = Inr () \<longrightarrow> hr_status resp \<in> {401, 503})"
proof -
  have "r \<in> set app_routes" using assms(3) by (auto simp: find_route_def find_Some_iff)
  then have g: "guarded r" using app_guarded assms(4) by (auto simp: list_all_iff PUBLIC_def)
  have "\<exists>resp. dispatch W now app_routes handlers q s = (Inr resp, s) \<and> 400 \<le> hr_status resp \<and>
      (fw_decode W r q = Inr () \<longrightarrow> hr_status resp \<in> {401, 503})"
    by (rule dispatch_refuses [OF assms(1, 5) g _ assms(3)]) (rule assms(2))
  then obtain resp where d: "dispatch W now app_routes handlers q s = (Inr resp, s)" "400 \<le> hr_status resp"
      "fw_decode W r q = Inr () \<longrightarrow> hr_status resp \<in> {401, 503}"
    by blast
  obtain x l' s' where run: "serve W new_id now app_routes handlers q (l, s) = (x, l', s')" by (rule prod_cases3)
  from request_logged_once [OF run [unfolded serve_def]] show ?thesis using run d by auto
qed

definition demo_framework :: "rstate framework" where
  "demo_framework = \<lparr>fw_matches = template_matches, fw_bearer = (\<lambda>_. None), fw_decode = (\<lambda>_ _. Inr ()),
     fw_fallback = (\<lambda>_. \<lparr>hr_status = 404, hr_headers = []\<rparr>), fw_env = [(''OPERATOR_API_TOKEN'', ''t'')],
     fw_sessions = redis_sessions mem_redis\<rparr>"

definition demo_http_request :: app_request where
  "demo_http_request = \<lparr>hq_method = ''POST'', hq_path = ''/internal/operator/market-data/domestic-daily-candles'', hq_headers = []\<rparr>"

theorem credentials_required_witness:
  "\<exists>resp e. serve demo_framework 1 2 app_routes (\<lambda>_ _ s. (Inr \<lparr>hr_status = 200, hr_headers = []\<rparr>, s\<lparr>ap_dbs := account_dbs\<rparr>)) demo_http_request
     ([], demo_app) = (Inr resp, ([e], demo_app)) \<and> lg_status e = hr_status resp \<and> hr_status resp \<in> {401, 503}"
proof -
  have "map_option rt_name (find_route template_matches app_routes (hq_method demo_http_request) (hq_path demo_http_request)) =
      Some ''create_domestic_daily_candles''" by code_simp
  then obtain r where r: "find_route template_matches app_routes (hq_method demo_http_request) (hq_path demo_http_request) = Some r"
    "rt_name r = ''create_domestic_daily_candles''" by auto
  have "fw_bearer demo_framework None = None" "dict_get (hq_headers demo_http_request) ''Authorization'' = None"
    "find_route (fw_matches demo_framework) app_routes (hq_method demo_http_request) (hq_path demo_http_request) = Some r"
    using r by (simp_all add: demo_framework_def demo_http_request_def)
  note use = credentials_required [OF this(1) _ this(3) _ this(2), where l = "[]" and s = demo_app]
  show ?thesis using use [where handlers = "\<lambda>_ _ s. (Inr \<lparr>hr_status = 200, hr_headers = []\<rparr>, s\<lparr>ap_dbs := account_dbs\<rparr>)"
        and new_id = 1 and now = 2] r(2) by (auto simp: demo_framework_def)
qed

end
