(* ===== verification/RedisClients.thy ===== *)
theory RedisClients
  imports Locks "HOL-Library.Multiset"
begin

text \<open>
  Construction and closing of the two Redis clients (\<open>infrastructure/distributed_lock/redis.py\<close> and
  \<open>infrastructure/key_value_store/redis.py\<close>): which connection each mode opens, and what \<open>aclose\<close> closes.
  The library's constructors are arguments, a \<open>driver\<close>; \<open>'c\<close> is the type of its client objects.
  Main results: closing a client the service has opened leaves the open connections as they were before, in all three
  modes, and a client that was passed in stays open (\<open>redis_client_balanced\<close>).
\<close>

section \<open>Opening and closing\<close>

text \<open>\<open>dr_sentinel\<close> gives the clients of the sentinels, one for each endpoint; \<open>dr_master_for\<close> the client of the
  primary they name.\<close>

record ('s, 'c) driver =
  dr_cluster :: "string \<Rightarrow> (string \<times> int) list option \<Rightarrow> ('s, 'c) io"
  dr_sentinel :: "(string \<times> int) list \<Rightarrow> ('s, 'c list) io"
  dr_master_for :: "'c list \<Rightarrow> string \<Rightarrow> ('s, 'c) io"
  dr_single :: "string \<Rightarrow> ('s, 'c) io"
  dr_close :: "'c \<Rightarrow> ('s, unit) io"

record 'c redis_client =
  rc_client :: 'c
  rc_owns_client :: bool
  rc_sentinel :: "'c list option"

text \<open>The constructor and \<open>aclose\<close> are the same text in both classes, over their own configurations.\<close>

definition connect ::
  "('s, 'c) driver \<Rightarrow> RedisMode \<Rightarrow> string \<Rightarrow> (string \<times> int) list \<Rightarrow> (string \<times> int) list result \<Rightarrow> string \<Rightarrow> 'c option
   \<Rightarrow> ('s, 'c redis_client) io" where
  "connect D mode redis_url startup_nodes endpoints sentinel_master client = (case client of
       Some c \<Rightarrow> ret \<lparr>rc_client = c, rc_owns_client = False, rc_sentinel = None\<rparr>
     | None \<Rightarrow> (case mode of
         CLUSTER \<Rightarrow> bindS (dr_cluster D redis_url (if startup_nodes = [] then None else Some startup_nodes)) (\<lambda>c.
           ret \<lparr>rc_client = c, rc_owns_client = True, rc_sentinel = None\<rparr>)
       | SENTINEL \<Rightarrow> bindS (lift endpoints) (\<lambda>es. bindS (dr_sentinel D es) (\<lambda>sentinels.
           bindS (dr_master_for D sentinels sentinel_master) (\<lambda>c.
           ret \<lparr>rc_client = c, rc_owns_client = True, rc_sentinel = Some sentinels\<rparr>)))
       | STANDALONE \<Rightarrow> bindS (dr_single D redis_url) (\<lambda>c.
           ret \<lparr>rc_client = c, rc_owns_client = True, rc_sentinel = None\<rparr>)))"

fun close_each :: "('s, 'c) driver \<Rightarrow> 'c list \<Rightarrow> ('s, unit) io" where
  "close_each D [] = ret ()"
| "close_each D (c # cs) = bindS (dr_close D c) (\<lambda>_. close_each D cs)"

definition redis_aclose :: "('s, 'c) driver \<Rightarrow> 'c redis_client \<Rightarrow> ('s, unit) io" where
  "redis_aclose D k = (if rc_owns_client k
     then bindS (dr_close D (rc_client k)) (\<lambda>_. case rc_sentinel k of None \<Rightarrow> ret () | Some sentinels \<Rightarrow> close_each D sentinels)
     else ret ())"

definition lock_cluster_startup_nodes :: "(string \<Rightarrow> string option \<times> int option) \<Rightarrow> DistributedLockConfig \<Rightarrow> (string \<times> int) list" where
  "lock_cluster_startup_nodes urlparse cfg = cluster_startup_nodes urlparse (lc_cluster_startup_nodes cfg)"

definition lock_sentinel_endpoints :: "string \<Rightarrow> (string \<times> int) list result" where
  "lock_sentinel_endpoints value = sentinel_endpoints value"

definition redis_lock_new ::
  "('s, 'c) driver \<Rightarrow> (string \<Rightarrow> string option \<times> int option) \<Rightarrow> DistributedLockConfig \<Rightarrow> 'c option \<Rightarrow> ('s, 'c redis_client) io" where
  "redis_lock_new D urlparse cfg client = connect D (lc_mode cfg) (lc_redis_url cfg)
     (lock_cluster_startup_nodes urlparse cfg) (lock_sentinel_endpoints (lc_sentinel_urls cfg)) (lc_sentinel_master cfg) client"

definition redis_lock_aclose :: "('s, 'c) driver \<Rightarrow> 'c redis_client \<Rightarrow> ('s, unit) io" where
  "redis_lock_aclose D k = redis_aclose D k"

definition redis_kv_new ::
  "('s, 'c) driver \<Rightarrow> (string \<Rightarrow> string option \<times> int option) \<Rightarrow> KeyValueStoreConfig \<Rightarrow> 'c option \<Rightarrow> ('s, 'c redis_client) io" where
  "redis_kv_new D urlparse cfg client = connect D (kc_mode cfg) (kc_redis_url cfg)
     (cluster_startup_nodes urlparse (kc_cluster_startup_nodes cfg)) (sentinel_endpoints (kc_sentinel_urls cfg)) (kc_sentinel_master cfg) client"

definition redis_kv_aclose :: "('s, 'c) driver \<Rightarrow> 'c redis_client \<Rightarrow> ('s, unit) io" where
  "redis_kv_aclose D k = redis_aclose D k"

section \<open>Nothing is left open\<close>

text \<open>What the driver does with the open connections \<open>opened\<close>: a constructor that succeeds adds what it returns, one
  that fails adds nothing, and closing takes the connection away.\<close>

definition accounts_for :: "('s, 'c) driver \<Rightarrow> ('s \<Rightarrow> 'c multiset) \<Rightarrow> bool" where
  "accounts_for D opened \<longleftrightarrow>
     (\<forall>u ns s c s'. dr_cluster D u ns s = (Inr c, s') \<longrightarrow> opened s' = opened s + {#c#}) \<and>
     (\<forall>es s cs s'. dr_sentinel D es s = (Inr cs, s') \<longrightarrow> opened s' = opened s + mset cs) \<and>
     (\<forall>cs m s c s'. dr_master_for D cs m s = (Inr c, s') \<longrightarrow> opened s' = opened s + {#c#}) \<and>
     (\<forall>u s c s'. dr_single D u s = (Inr c, s') \<longrightarrow> opened s' = opened s + {#c#}) \<and>
     (\<forall>c s s'. dr_close D c s = (Inr (), s') \<longrightarrow> opened s' = opened s - {#c#})"

lemma close_each_closes:
  assumes "accounts_for D opened" "close_each D cs s = (Inr (), s')"
  shows "opened s' = opened s - mset cs"
  using assms(2)
proof (induction cs arbitrary: s)
  case (Cons c cs)
  then obtain s1 where 1: "dr_close D c s = (Inr (), s1)" "close_each D cs s1 = (Inr (), s')"
    by (auto simp: bindS_eq_Inr)
  then have "opened s1 = opened s - {#c#}" using assms(1) unfolding accounts_for_def by blast
  then show ?case using Cons.IH [OF 1(2)] by (simp add: diff_diff_add)
qed simp

text \<open>What a client holds beyond what was passed in.\<close>

definition held :: "'c redis_client \<Rightarrow> 'c multiset" where
  "held k = (if rc_owns_client k then {#rc_client k#} + (case rc_sentinel k of None \<Rightarrow> {#} | Some cs \<Rightarrow> mset cs) else {#})"

lemma connect_opens:
  assumes "accounts_for D opened" "connect D mode url nodes endpoints master client s = (Inr k, s')"
  shows "opened s' = opened s + held k" and "rc_owns_client k \<longleftrightarrow> client = None"
  using assms unfolding connect_def accounts_for_def held_def
  by (auto simp: bindS_eq_Inr add.commute add.left_commute union_assoc split: option.splits RedisMode.splits)

lemma aclose_closes:
  assumes "accounts_for D opened" "redis_aclose D k s = (Inr (), s')"
  shows "opened s' = opened s - held k"
proof (cases "rc_owns_client k")
  case True
  then obtain s1 where 1: "dr_close D (rc_client k) s = (Inr (), s1)"
    and 2: "(case rc_sentinel k of None \<Rightarrow> ret () | Some cs \<Rightarrow> close_each D cs) s1 = (Inr (), s')"
    using assms(2) by (auto simp: redis_aclose_def bindS_eq_Inr)
  have "opened s1 = opened s - {#rc_client k#}" using assms(1) 1 unfolding accounts_for_def by blast
  then show ?thesis using True 2 close_each_closes [OF assms(1), of _ s1 s']
    by (auto simp: held_def split: option.splits)
qed (use assms(2) in \<open>simp add: redis_aclose_def held_def\<close>)

theorem redis_client_balanced:
  assumes "accounts_for D opened"
    and "redis_lock_new D urlparse lc client s = (Inr k, s1)" "redis_lock_aclose D k s1 = (Inr (), s2)"
    and "redis_kv_new D urlparse kc client' t = (Inr k', t1)" "redis_kv_aclose D k' t1 = (Inr (), t2)"
  shows "opened s2 = opened s" "opened t2 = opened t"
    "client = Some c \<Longrightarrow> s2 = s" "client' = Some c' \<Longrightarrow> t2 = t"
proof -
  note l = assms(2,3) [unfolded redis_lock_new_def redis_lock_aclose_def]
  note v = assms(4,5) [unfolded redis_kv_new_def redis_kv_aclose_def]
  show "opened s2 = opened s" using connect_opens(1) [OF assms(1) l(1)] aclose_closes [OF assms(1) l(2)] by simp
  show "opened t2 = opened t" using connect_opens(1) [OF assms(1) v(1)] aclose_closes [OF assms(1) v(2)] by simp
  show "client = Some c \<Longrightarrow> s2 = s" using l by (auto simp: connect_def redis_aclose_def)
  show "client' = Some c' \<Longrightarrow> t2 = t" using v by (auto simp: connect_def redis_aclose_def)
qed

text \<open>A driver that numbers its clients has these laws.\<close>

definition numbering :: "(nat \<times> nat multiset, nat) driver" where
  "numbering = (let new = (\<lambda>(n, m). (Inr n, (n + 1, m + {#n#}))) in
     \<lparr>dr_cluster = (\<lambda>_ _. new),
      dr_sentinel = (\<lambda>es (n, m). (Inr [n..<n + length es], (n + length es, m + mset [n..<n + length es]))),
      dr_master_for = (\<lambda>_ _. new), dr_single = (\<lambda>_. new),
      dr_close = (\<lambda>c (n, m). (Inr (), (n, m - {#c#})))\<rparr>)"

lemma numbering_accounts: "accounts_for numbering snd"
  by (auto simp: accounts_for_def numbering_def Let_def)

end
