(* ===== verification/DrillsScaleOut.thy ===== *)
theory DrillsScaleOut
  imports DrillsHost KisMarket
begin

text \<open>
  The script that checks the scaled-out deployment (\<open>scripts/verify_scale_out.py\<close>): two API instances with a shared
  session store, account shards, the outbox through an outage of RabbitMQ, dead letters, and the failover of a Redis
  primary; and the script that reads one price (\<open>verify_kis_read_only_price.py\<close>).
  Main results: the owner of a slot is found from what \<open>CLUSTER NODES\<close> prints (\<open>owns_printed\<close>), where the failover
  script of the generated environment misses single slots and fails on a slot in migration
  (\<open>slot_readers_differ\<close>); services the script stops are started again (\<open>worker_started_again\<close>).
\<close>

definition API_URLS :: "string list" where "API_URLS = [''http://localhost:18001/health'', ''http://localhost:18002/health'']"
definition API_SERVICES :: "string list" where "API_SERVICES = [''api-1'', ''api-2'']"
definition SCALE_ATTEMPTS :: nat where "SCALE_ATTEMPTS = 30"

definition compose_command :: "environ \<Rightarrow> string list" where
  "compose_command env = [''docker'', ''compose'']
     @ (if getenv env ''KIS_SCALE_OUT_COMPOSE_ENV_FILE'' \<noteq> [] then [''--env-file'', getenv env ''KIS_SCALE_OUT_COMPOSE_ENV_FILE''] else [])
     @ (if getenv env ''KIS_SCALE_OUT_COMPOSE_PROJECT'' \<noteq> [] then [''--project-name'', getenv env ''KIS_SCALE_OUT_COMPOSE_PROJECT''] else [])
     @ [''-f'', ''compose.integration.yaml'']"

definition REDIS_NODES :: "(string, string) dict" where
  "REDIS_NODES = [(''172.29.0.10'', ''redis-node-1''), (''172.29.0.11'', ''redis-node-2''), (''172.29.0.12'', ''redis-node-3''),
     (''172.29.0.13'', ''redis-node-4''), (''172.29.0.14'', ''redis-node-5''), (''172.29.0.15'', ''redis-node-6'')]"

section \<open>Nodes of the cluster\<close>

record ClusterNodeInfo =
  cn_node_id :: string
  cn_address :: string
  cn_flags :: "string list"
  cn_master_id :: string
  cn_slots :: "string list"

fun owns_items :: "string list \<Rightarrow> int \<Rightarrow> bool result" where
  "owns_items [] slot = Inr False"
| "owns_items (item # items) slot = (if take 1 item = ''['' then owns_items items slot
     else case partition_at (CHR ''-'') item of (start_text, separator, end_text) \<Rightarrow>
       bindE (py_int start_text) (\<lambda>start.
       bindE (if separator then py_int end_text else Inr start) (\<lambda>end.
       if start \<le> slot \<and> slot \<le> end then Inr True else owns_items items slot)))"

definition owns :: "ClusterNodeInfo \<Rightarrow> int \<Rightarrow> bool result" where
  "owns node slot = owns_items (cn_slots node) slot"

definition compose :: "'s bench \<Rightarrow> string list \<Rightarrow> ('s, completed) io" where
  "compose B args = bindS (bn_run B (compose_command (bn_environ B) @ args) None None None) (\<lambda>r.
     if cp_returncode r \<noteq> 0 then raise (SubprocessError ''CalledProcessError'') else ret r)"

definition compose_with_input :: "'s bench \<Rightarrow> string \<Rightarrow> string list \<Rightarrow> ('s, completed) io" where
  "compose_with_input B input_text args = bindS (bn_run B (compose_command (bn_environ B) @ args) None (Some input_text) None) (\<lambda>r.
     if cp_returncode r \<noteq> 0 then raise (SubprocessError ''CalledProcessError'') else ret r)"

definition node_of_line :: "string \<Rightarrow> ClusterNodeInfo option" where
  "node_of_line line = (let fields = split_words [] line in
     if length fields < 8 then None
     else Some \<lparr>cn_node_id = fields ! 0,
       cn_address = fst (partition_at (CHR '':'') (fst (partition_at (CHR ''@'') (fields ! 1)))),
       cn_flags = split_at (CHR '','') (fields ! 2), cn_master_id = fields ! 3, cn_slots = drop 8 fields\<rparr>)"

definition cluster_nodes :: "'s bench \<Rightarrow> string \<Rightarrow> ('s, ClusterNodeInfo list) io" where
  "cluster_nodes B service =
     bindS (compose B [''exec'', ''-T'', service, ''redis-cli'', ''--raw'', ''CLUSTER'', ''NODES'']) (\<lambda>result.
     ret (List.map_filter node_of_line (splitlines (cp_stdout result))))"

definition cluster_slot :: "'s bench \<Rightarrow> string \<Rightarrow> ('s, int) io" where
  "cluster_slot B key =
     bindS (compose B [''exec'', ''-T'', ''redis-node-1'', ''redis-cli'', ''--raw'', ''CLUSTER'', ''KEYSLOT'', key]) (\<lambda>result.
     lift (py_int (strip (cp_stdout result))))"

text \<open>\<open>next(...)\<close> without a default.\<close>

definition nextE :: "'a option \<Rightarrow> 'a result" where
  "nextE v = (case v of Some x \<Rightarrow> Inr x | None \<Rightarrow> Inl StopIteration)"

definition redis_service :: "string \<Rightarrow> string result" where
  "redis_service address = (case dict_get REDIS_NODES address of Some v \<Rightarrow> Inr v | None \<Rightarrow> Inl (KeyError address))"

definition failover_target :: "ClusterNodeInfo list \<Rightarrow> int \<Rightarrow> (string \<times> string \<times> string \<times> string) result" where
  "failover_target nodes slot =
     bindE (bindE (findE (\<lambda>node. if ''master'' \<in> set (cn_flags node) then owns node slot else Inr False) nodes) nextE) (\<lambda>primary.
     bindE (nextE (List.find (\<lambda>node. cn_master_id node = cn_node_id primary) nodes)) (\<lambda>replica.
     bindE (redis_service (cn_address primary)) (\<lambda>primary_service.
     bindE (redis_service (cn_address replica)) (\<lambda>replica_service.
     Inr (primary_service, replica_service, cn_node_id replica, cn_node_id primary)))))"

definition cluster_failover_target :: "'s bench \<Rightarrow> int \<Rightarrow> ('s, string \<times> string \<times> string \<times> string) io" where
  "cluster_failover_target B slot = bindS (cluster_nodes B ''redis-node-1'') (\<lambda>nodes. lift (failover_target nodes slot))"

definition no_node_or_command :: "exn \<Rightarrow> bool" where
  "no_node_or_command e \<longleftrightarrow> e = StopIteration \<or> e = SubprocessError ''CalledProcessError''"

definition wait_for_cluster_rejoin :: "'s bench \<Rightarrow> string \<Rightarrow> string \<Rightarrow> string \<Rightarrow> ('s, unit) io" where
  "wait_for_cluster_rejoin B service node_id promoted_node_id =
     poll no_node_or_command (bn_sleep B) (RuntimeError (''Redis Cluster primary did not rejoin as replica: '' @ service))
       (bindS (cluster_nodes B service) (\<lambda>nodes.
        bindS (lift (nextE (List.find (\<lambda>item. cn_node_id item = node_id) nodes))) (\<lambda>node.
        ret (if ''fail'' \<notin> set (cn_flags node) \<and> (''slave'' \<in> set (cn_flags node) \<or> ''replica'' \<in> set (cn_flags node))
               \<and> cn_master_id node = promoted_node_id then Some () else None))))
       45"

definition wait_for_cluster_promotion :: "'s bench \<Rightarrow> string \<Rightarrow> string \<Rightarrow> ('s, unit) io" where
  "wait_for_cluster_promotion B service node_id =
     poll no_node_or_command (bn_sleep B) (RuntimeError (''Redis Cluster replica was not promoted: '' @ service))
       (bindS (cluster_nodes B service) (\<lambda>nodes.
        bindS (lift (nextE (List.find (\<lambda>item. cn_node_id item = node_id) nodes))) (\<lambda>node.
        ret (if ''master'' \<in> set (cn_flags node) \<and> ''fail'' \<notin> set (cn_flags node) then Some () else None))))
       45"

section \<open>Requests\<close>

definition read_json :: "nat list \<Rightarrow> nat \<times> string \<Rightarrow> json result" where
  "read_json accepted response = (if fst response \<notin> set accepted
     then Inl (RuntimeError (''Unexpected HTTP status: '' @ string_of_nat (fst response))) else json_loads (snd response))"

definition wait_for_health :: "'s bench \<Rightarrow> string \<Rightarrow> ('s, json) io" where
  "wait_for_health B url =
     poll (\<lambda>e. is_os_error e \<or> is_runtime_error e) (bn_sleep B) (RuntimeError (''API instance did not become healthy: '' @ url))
       (bindS (bn_urlopen B ''GET'' url [] None) (\<lambda>response.
        bindS (lift (read_json [200] response)) (\<lambda>payload.
        if payload \<noteq> JObj [(''status'', JStr ''ok'')]
        then raise (RuntimeError (''Unexpected health response: '' @ py_repr (bn_text B) payload)) else ret (Some payload))))
       SCALE_ATTEMPTS"

definition post_json :: "'s bench \<Rightarrow> string \<Rightarrow> jdict \<Rightarrow> ('s, json) io" where
  "post_json B url payload =
     bindS (bn_urlopen B ''POST'' url [(''Content-Type'', ''application/json'')] (Some (json_dumps False (JObj payload)))) (\<lambda>response.
     lift (read_json [200] response))"

definition bearer_headers :: "string \<Rightarrow> (string, string) dict" where
  "bearer_headers token = [(''Authorization'', ''Bearer '' @ token), (''Content-Type'', ''application/json'')]"

definition authenticated_json :: "'s bench \<Rightarrow> string \<Rightarrow> string \<Rightarrow> string \<Rightarrow> jdict option \<Rightarrow> ('s, json) io" where
  "authenticated_json B meth url access_token payload =
     bindS (bn_urlopen B meth url (bearer_headers access_token) (map_option (\<lambda>d. json_dumps False (JObj d)) payload)) (\<lambda>response.
     lift (read_json [200] response))"

definition wait_for_post_json :: "'s bench \<Rightarrow> string \<Rightarrow> jdict \<Rightarrow> ('s, json) io" where
  "wait_for_post_json B url payload =
     poll (\<lambda>e. is_os_error e \<or> is_runtime_error e) (bn_sleep B) (RuntimeError (''POST did not recover after failover: '' @ url))
       (bindS (post_json B url payload) (\<lambda>v. ret (Some v))) 30"

definition durable_job_json :: "'s bench \<Rightarrow> string \<Rightarrow> string \<Rightarrow> string \<Rightarrow> jdict option \<Rightarrow> ('s, json) io" where
  "durable_job_json B meth url api_token payload =
     catchS
       (bindS (bn_urlopen B meth url (bearer_headers api_token) (map_option (\<lambda>d. json_dumps False (JObj d)) payload)) (\<lambda>response.
        lift (read_json [200, 202] response)))
       (\<lambda>e. if e = HTTPError 401 then raise (RuntimeError ''DURABLE_JOB_API_TOKEN does not match the running API'') else raise e)"

section \<open>Containers, databases and queues\<close>

definition scale_application_container :: "'s bench \<Rightarrow> string \<Rightarrow> ('s, string) io" where
  "scale_application_container B service =
     bindS (compose B [''ps'', ''-q'', service]) (\<lambda>result.
     case lines_of (cp_stdout result) of
       [container] \<Rightarrow> ret container
     | found \<Rightarrow> raise (RuntimeError (''Expected one '' @ service @ '' container, got '' @ repr_list found)))"

definition api_recovered :: "'s bench \<Rightarrow> (string, string) dict \<Rightarrow> string \<times> string \<Rightarrow> ('s, unit) io" where
  "api_recovered B expected = (\<lambda>(service, url).
     bindS (scale_application_container B service) (\<lambda>container.
     bindS (lift (case dict_get expected service of Some c \<Rightarrow> Inr c | None \<Rightarrow> Inl (KeyError service))) (\<lambda>c.
     if container \<noteq> c then raise (RuntimeError (service @ '' container was recreated during Redis failover'')) else
     bindS (inspect_health B None container) (\<lambda>health.
     if cp_returncode health \<noteq> 0 \<or> strip (cp_stdout health) \<noteq> ''healthy''
     then raise (RuntimeError (service @ '' health is '' @ str_repr (strip (cp_stdout health)))) else
     bindS (bn_urlopen B ''GET'' url [] None) (\<lambda>response.
     if fst response \<noteq> 200 then raise (RuntimeError (service @ '' health returned '' @ string_of_nat (fst response)))
     else ret ())))))"

definition wait_for_application_recovery :: "'s bench \<Rightarrow> (string, string) dict \<Rightarrow> ('s, unit) io" where
  "wait_for_application_recovery B expected =
     poll (\<lambda>e. is_os_error e \<or> is_runtime_error e \<or> is_subprocess_error e) (bn_sleep B)
       (RuntimeError ''API containers did not recover after Redis failover'')
       (bindS (mapS (api_recovered B expected) (zip API_SERVICES API_URLS)) (\<lambda>_. ret (Some ()))) SCALE_ATTEMPTS"

definition account_scalar :: "'s bench \<Rightarrow> string \<Rightarrow> string \<Rightarrow> ('s, string) io" where
  "account_scalar B service statement =
     bindS (compose B [''exec'', ''-T'', service, ''psql'', ''-U'', ''kis_test'', ''-d'', ''account'', ''-tAc'', statement]) (\<lambda>result.
     ret (strip (cp_stdout result)))"

definition profile_count :: "'s bench \<Rightarrow> string \<Rightarrow> string \<Rightarrow> ('s, int) io" where
  "profile_count B service user_id =
     bindS (account_scalar B service (''SELECT count(*) FROM user_profiles WHERE user_id = '' @ sq user_id)) (\<lambda>v. lift (py_int v))"

definition wait_for_rabbitmq :: "'s bench \<Rightarrow> ('s, unit) io" where
  "wait_for_rabbitmq B =
     poll (\<lambda>e. e = SubprocessError ''CalledProcessError'') (bn_sleep B) (RuntimeError ''RabbitMQ did not recover'')
       (bindS (compose B [''exec'', ''-T'', ''rabbitmq'', ''rabbitmq-diagnostics'', ''-q'', ''ping'']) (\<lambda>_. ret (Some ()))) 45"

definition latest_outbox_event :: "'s bench \<Rightarrow> string \<Rightarrow> string \<Rightarrow> ('s, (string \<times> string) option) io" where
  "latest_outbox_event B service user_id =
     bindS (account_scalar B service (''SELECT event_id || '' @ sq ''|'' @ '' || status FROM outbox_events WHERE aggregate_id = '' @
        sq user_id @ '' ORDER BY occurred_at DESC LIMIT 1'')) (\<lambda>value.
     if value = [] then ret None
     else case partition_at (CHR ''|'') value of (event_id, separator, status) \<Rightarrow>
       if separator then ret (Some (event_id, status)) else raise (RuntimeError (''Unexpected outbox row: '' @ str_repr value)))"

definition processed_count :: "'s bench \<Rightarrow> string \<Rightarrow> string \<Rightarrow> ('s, int) io" where
  "processed_count B service event_id =
     bindS (account_scalar B service (''SELECT count(*) FROM processed_messages WHERE event_id = '' @ sq event_id)) (\<lambda>v. lift (py_int v))"

definition py_int_of :: "'s bench \<Rightarrow> json \<Rightarrow> int result" where
  "py_int_of B v = (case v of JInt i \<Rightarrow> Inr i | JBool b \<Rightarrow> Inr (if b then 1 else 0) | JStr s \<Rightarrow> py_int s
     | JFloat x \<Rightarrow> bn_int_of_float B x | _ \<Rightarrow> Inl (TypeError ''int() argument''))"

fun queue_messages :: "'s bench \<Rightarrow> string \<Rightarrow> json list \<Rightarrow> int result" where
  "queue_messages B queue_name [] = Inl (RuntimeError (''RabbitMQ queue was not declared: '' @ queue_name))"
| "queue_messages B queue_name (queue # queues) = bindE (dict_item queue ''name'') (\<lambda>name.
     if name = JStr queue_name then bindE (dict_item queue ''messages'') (py_int_of B) else queue_messages B queue_name queues)"

definition rabbitmq_queue_messages :: "'s bench \<Rightarrow> string \<Rightarrow> ('s, int) io" where
  "rabbitmq_queue_messages B queue_name =
     bindS (compose B [''exec'', ''-T'', ''rabbitmq'', ''rabbitmqctl'', ''list_queues'', ''name'', ''messages'', ''--formatter'', ''json'']) (\<lambda>result.
     lift (bindE (json_loads (cp_stdout result)) (\<lambda>v. bindE (jiter v) (queue_messages B queue_name))))"

definition wait_for_dead_letter :: "'s bench \<Rightarrow> string \<Rightarrow> ('s, unit) io" where
  "wait_for_dead_letter B queue_name =
     poll (\<lambda>_. False) (bn_sleep B) (RuntimeError (''Poison message did not reach DLQ: '' @ queue_name))
       (bindS (rabbitmq_queue_messages B queue_name) (\<lambda>n. ret (if 1 \<le> n then Some () else None))) 30"

definition wait_for_outbox_delivery :: "'s bench \<Rightarrow> string \<Rightarrow> string \<Rightarrow> string option \<Rightarrow> ('s, string) io" where
  "wait_for_outbox_delivery B service user_id expected_event_id =
     poll (\<lambda>_. False) (bn_sleep B) (RuntimeError ''Outbox event was not delivered'')
       (bindS (latest_outbox_event B service user_id) (\<lambda>last_state. case last_state of
          None \<Rightarrow> ret None
        | Some (event_id, status) \<Rightarrow>
            if status \<noteq> ''published'' then ret None
            else bindS (processed_count B service event_id) (\<lambda>n.
              ret (if n = 1 \<and> (case expected_event_id of None \<Rightarrow> True | Some x \<Rightarrow> event_id = x) then Some event_id else None))))
       90"

section \<open>The checks\<close>

text \<open>\<open>token\<close> is \<open>DURABLE_JOB_API_TOKEN\<close>; a missing or empty one ends the check.\<close>

definition required_token :: "'s bench \<Rightarrow> string result" where
  "required_token B = (let token = getenv (bn_environ B) ''DURABLE_JOB_API_TOKEN'' in
     if token = [] then Inl (RuntimeError ''DURABLE_JOB_API_TOKEN is required for Airflow validation'') else Inr token)"

definition cancelled_job_script :: "string \<Rightarrow> string" where \<open>
  cancelled_job_script job_id = newline @ text_block [
    ''import runpy'',
    ''namespace = runpy.run_path('' @ sq ''/opt/airflow/dags/news_collection.py'' @ '')'',
    ''ti = type('' @ sq ''TI'' @ '', (), {'' @ sq ''xcom_pull'' @ '': lambda self, task_ids: '' @ str_repr job_id @ ''})()'',
    ''try:'',
    ''    namespace['' @ sq ''wait_for_job'' @ ''](ti)'',
    ''except RuntimeError as error:'',
    ''    assert str(error) == '' @ sq ''durable job cancelled'',
    ''    print('' @ sq ''airflow_cancelled_wait=controlled_failure'' @ '')'',
    ''else:'',
    ''    raise AssertionError('' @ sq ''expected cancelled failure'' @ '')'']\<close>

definition cancelled_job_checks :: "'s bench \<Rightarrow> string \<Rightarrow> ('s, unit) io" where
  "cancelled_job_checks B api_token =
     bindS (bn_uuid4 B) (\<lambda>u.
     let base_url = ''http://localhost:18001/internal/jobs/news_collection'' in
     bindS (durable_job_json B ''POST'' base_url api_token (Some [(''run_key'', JStr (''scale-out-airflow-cancel-'' @ str_uuid u)),
        (''payload'', JObj [(''symbols'', JArr [JStr ''CANCELLED''])])])) (\<lambda>created.
     bindS (lift (dict_item created ''job_id'')) (\<lambda>j.
     let job_id = py_str (bn_text B) j in
     bindS (durable_job_json B ''DELETE'' (base_url @ ''/'' @ job_id) api_token None) (\<lambda>cancelled.
     bindS (lift (jattr_get cancelled ''status'')) (\<lambda>status.
     if status \<noteq> Some (JStr ''cancelled'')
     then raise (RuntimeError (''Durable Job was not cancelled: '' @ py_repr (bn_text B) cancelled)) else
     bindS (compose B [''exec'', ''-T'', ''airflow-webserver'', ''airflow'', ''dags'', ''list'', ''--output'', ''json'']) (\<lambda>dags.
     bindS (lift (bindE (json_loads (cp_stdout dags)) lists_dag)) (\<lambda>found.
     if \<not> found then raise (RuntimeError ''Generated durable-job Airflow DAG was not discovered'') else
     bindS (compose_with_input B (cancelled_job_script job_id) [''exec'', ''-T'', ''airflow-webserver'', ''python'', ''-'']) (\<lambda>result.
     if \<not> is_sub ''airflow_cancelled_wait=controlled_failure'' (cp_stdout result)
     then raise (RuntimeError (''Airflow cancellation assertion missing: '' @ str_repr (cp_stdout result)))
     else bn_print B ''Airflow cancellation verified: DAG discovery + controlled wait failure''))))))))"

definition verify_airflow_cancelled_job :: "'s bench \<Rightarrow> ('s, unit) io" where
  "verify_airflow_cancelled_job B =
     bindS (lift (required_token B)) (\<lambda>api_token.
     bindS (compose B [''stop'', ''durable-job-worker'']) (\<lambda>_.
     finallyS (cancelled_job_checks B api_token) (compose B [''start'', ''durable-job-worker''])))"

definition successful_job_script :: "uuid \<Rightarrow> string" where \<open>
  successful_job_script u = newline @ text_block [
    ''import json'',
    ''import os'',
    ''import runpy'',
    ''from datetime import datetime, timezone'',
    [],
    ''namespace = runpy.run_path('' @ sq ''/opt/airflow/dags/news_collection.py'' @ '')'',
    ''job_globals = namespace['' @ sq ''trigger_job'' @ ''].__globals__'',
    ''job_globals['' @ sq ''JOB_TYPE'' @ ''] = '' @ sq ''news_index'',
    ''job_globals['' @ sq ''PAYLOAD_ENV'' @ ''] = '' @ sq ''DURABLE_JOB_NEWS_INDEX_PAYLOAD_JSON'',
    ''os.environ['' @ sq ''DURABLE_JOB_NEWS_INDEX_PAYLOAD_JSON'' @ ''] = json.dumps({'',
    ''    '' @ sq ''source_keys'' @ '': ['' @ sq (''missing-'' @ str_uuid u) @ ''],'',
    ''})'',
    ''dag_run = namespace['' @ sq ''dag'' @ ''].test(execution_date=datetime.now(timezone.utc))'',
    ''if str(dag_run.state) != '' @ sq ''success'' @ '':'',
    ''    raise RuntimeError(f'' @ sq ''Airflow DAG test did not succeed: {dag_run.state!r}'' @ '')'',
    ''print(f'' @ sq ''airflow_dag_test=succeeded:{dag_run.run_id}'' @ '')'']\<close>

definition verify_airflow_successful_job :: "'s bench \<Rightarrow> ('s, unit) io" where
  "verify_airflow_successful_job B =
     bindS (lift (required_token B)) (\<lambda>_.
     bindS (bn_uuid4 B) (\<lambda>u.
     bindS (compose_with_input B (successful_job_script u) [''exec'', ''-T'', ''airflow-webserver'', ''python'', ''-'']) (\<lambda>result.
     if \<not> is_sub ''airflow_dag_test=succeeded:'' (cp_stdout result)
     then raise (RuntimeError (''Airflow DAG test assertion missing: '' @ str_repr (cp_stdout result)))
     else bn_print B ''Airflow success verified: DAG test trigger + worker completion + wait'')))"

text \<open>\<open>==\<close> of two responses; numbers are compared as they are written.\<close>

definition json_same :: "json \<Rightarrow> json \<Rightarrow> bool" where
  "json_same a b \<longleftrightarrow> sort_keys a = sort_keys b"

definition json_print :: "'s bench \<Rightarrow> json \<Rightarrow> string" where
  "json_print B v = py_str (bn_text B) v"

text \<open>The first part of \<open>main\<close>: both instances are healthy and share sessions.\<close>

record scale_session =
  sx_email :: string
  sx_access_token :: string
  sx_user_id :: string
  sx_shard_id :: string
  sx_validated :: json

definition PASSWORD :: string where "PASSWORD = ''integration-test-password''"

definition sessions_shared :: "'s bench \<Rightarrow> ('s, scale_session) io" where
  "sessions_shared B =
     bindS (bn_uuid4 B) (\<lambda>u.
     let email = ''scale-out-'' @ str_uuid u @ ''@example.com''; credentials = [(''email'', JStr email), (''password'', JStr PASSWORD)] in
     bindS (post_json B ''http://localhost:18001/api/identity/signup'' credentials) (\<lambda>signup.
     bindS (post_json B ''http://localhost:18001/api/identity/login'' credentials) (\<lambda>login.
     bindS (lift (dict_item login ''access_token'')) (\<lambda>token.
     bindS (post_json B ''http://localhost:18002/api/identity/session/validate''
        [(''access_token'', JStr (json_print B token))]) (\<lambda>validated.
     bindS (lift (dict_item signup ''user_id'')) (\<lambda>signup_user.
     bindS (lift (dict_item login ''user_id'')) (\<lambda>login_user.
     if \<not> json_same signup_user login_user then raise (RuntimeError ''Signup and login resolved different users'') else
     bindS (lift (dict_item validated ''user_id'')) (\<lambda>validated_user.
     if \<not> json_same login_user validated_user then raise (RuntimeError ''API 2 resolved a different Redis session user'') else
     bindS (lift (dict_item validated ''shard_id'')) (\<lambda>shard.
     bindS (lift (in_set (Some shard) [''1'', ''2''])) (\<lambda>valid.
     if \<not> valid then raise (RuntimeError ''Session contains an invalid account shard'') else
     bindS (bn_print B (''cross-instance session verified: api-1 login -> api-2 validation, shard='' @ json_print B shard)) (\<lambda>_.
     ret \<lparr>sx_email = email, sx_access_token = json_print B token, sx_user_id = json_print B login_user,
          sx_shard_id = json_print B shard, sx_validated = validated\<rparr>)))))))))))"

text \<open>A profile is written while RabbitMQ is down: it lands in one shard, with a pending event.\<close>

definition outage_write :: "'s bench \<Rightarrow> scale_session \<Rightarrow> ('s, string \<times> string) io" where
  "outage_write B x =
     bindS (compose B [''stop'', ''rabbitmq'']) (\<lambda>_.
     bindS (authenticated_json B ''PUT'' ''http://localhost:18002/api/account/profile'' (sx_access_token x)
        (Some [(''investment_experience'', JStr ''INTERMEDIATE''), (''risk_tolerance'', JStr ''MODERATE''),
           (''investment_goal'', JStr ''GROWTH''), (''monthly_budget'', JInt 1000000)])) (\<lambda>updated_profile.
     bindS (authenticated_json B ''GET'' ''http://localhost:18001/api/account/profile'' (sx_access_token x) None) (\<lambda>loaded_profile.
     if \<not> json_same updated_profile loaded_profile then raise (RuntimeError ''API instances resolved different account profiles'') else
     let expected_service = ''account-db-'' @ sx_shard_id x;
         other_service = (if expected_service = ''account-db-1'' then ''account-db-2'' else ''account-db-1'') in
     bindS (profile_count B expected_service (sx_user_id x)) (\<lambda>stored.
     if stored \<noteq> 1 then raise (RuntimeError ''Profile was not stored in the selected account shard'') else
     bindS (profile_count B other_service (sx_user_id x)) (\<lambda>leaked.
     if leaked \<noteq> 0 then raise (RuntimeError ''Profile leaked into the non-selected account shard'') else
     bindS (latest_outbox_event B expected_service (sx_user_id x)) (\<lambda>pending_event. case pending_event of
       None \<Rightarrow> raise (RuntimeError ''Profile transaction did not leave a pending outbox event while RabbitMQ was down: None'')
     | Some (event_id, status) \<Rightarrow>
         if status \<noteq> ''pending''
         then raise (RuntimeError (''Profile transaction did not leave a pending outbox event while RabbitMQ was down: '' @
           repr_tuple [event_id, status])) else
         bindS (processed_count B expected_service event_id) (\<lambda>processed.
         if processed \<noteq> 0 then raise (RuntimeError ''Outbox event was processed while RabbitMQ was down'') else
         bindS (bn_print B (''cross-instance account shard verified: api-2 write -> api-1 read, store='' @ expected_service)) (\<lambda>_.
         bindS (bn_print B (''RabbitMQ outage write verified: profile + pending outbox committed, event_id='' @ event_id)) (\<lambda>_.
         ret (expected_service, event_id))))))))))"

text \<open>After RabbitMQ is back the event is delivered; delivered again, it is processed once; an event nobody handles
  reaches the dead-letter queue.\<close>

definition outage_recovery :: "'s bench \<Rightarrow> scale_session \<Rightarrow> string \<Rightarrow> string \<Rightarrow> ('s, unit) io" where
  "outage_recovery B x expected_service event_id =
     bindS (compose B [''start'', ''rabbitmq'']) (\<lambda>_.
     bindS (wait_for_rabbitmq B) (\<lambda>_.
     bindS (wait_for_outbox_delivery B expected_service (sx_user_id x) (Some event_id)) (\<lambda>delivered.
     bindS (bn_print B (''RabbitMQ recovery verified: outbox published and worker processed, event_id='' @ delivered)) (\<lambda>_.
     bindS (account_scalar B expected_service (''UPDATE outbox_events SET status = '' @ sq ''pending'' @
        '', published_at = NULL, available_at = NOW() WHERE event_id = '' @ sq event_id @ '' RETURNING event_id'')) (\<lambda>_.
     bindS (wait_for_outbox_delivery B expected_service (sx_user_id x) (Some event_id)) (\<lambda>_.
     bindS (processed_count B expected_service event_id) (\<lambda>processed.
     if processed \<noteq> 1 then raise (RuntimeError ''Duplicate event produced more than one inbox record'')
     else bn_print B (''duplicate delivery verified: repeated publish kept one inbox record, event_id='' @ event_id))))))))"

definition dead_letter_check :: "'s bench \<Rightarrow> scale_session \<Rightarrow> string \<Rightarrow> ('s, unit) io" where \<open>
  dead_letter_check B x expected_service =
     bindS (bn_uuid4 B) (\<lambda>u.
     let poison_event_id = str_uuid u in
     bindS (account_scalar B expected_service (
        ''INSERT INTO outbox_events (event_id, event_type, event_version, aggregate_id, routing_key, '' @
        ''payload, status, attempts, available_at, occurred_at) VALUES ('' @
        sq poison_event_id @ '', '' @ sq ''account.profile.unsupported'' @ '', 1, '' @ sq (sx_user_id x) @ '', '' @
        sq ''account.profile.unsupported'' @ '', '' @ sq (''{"shard_id":"'' @ sx_shard_id x @ ''"}'') @ ''::jsonb, '' @
        sq ''pending'' @ '', 0, NOW(), NOW()) RETURNING event_id'')) (\<lambda>_.
     bindS (wait_for_dead_letter B ''kis.profile.events.dead-letter'') (\<lambda>_.
     bindS (processed_count B expected_service poison_event_id) (\<lambda>processed.
     if processed \<noteq> 0 then raise (RuntimeError ''Poison event was incorrectly claimed as processed'') else
     bindS (compose B [''exec'', ''-T'', ''rabbitmq'', ''rabbitmqctl'', ''purge_queue'', ''kis.profile.events.dead-letter'']) (\<lambda>_.
     bn_print B (''dead-letter verified: unsupported event rejected without inbox claim, event_id='' @ poison_event_id))))))\<close>

text \<open>A session survives the loss of the primary that holds it; the primary is started again in any case.\<close>

definition failover_checks :: "'s bench \<Rightarrow> scale_session \<Rightarrow> (string, string) dict \<Rightarrow> string \<times> string \<times> string \<times> string \<Rightarrow> ('s, unit) io" where
  "failover_checks B x app_containers = (\<lambda>(primary_service, replica_service, replica_id, primary_id).
     bindS (compose B [''exec'', ''-T'', primary_service, ''redis-cli'', ''WAIT'', ''1'', ''5000'']) (\<lambda>_.
     bindS (compose B [''stop'', primary_service]) (\<lambda>_.
     bindS (wait_for_cluster_promotion B replica_service replica_id) (\<lambda>_.
     bindS (wait_for_application_recovery B app_containers) (\<lambda>_.
     bindS (wait_for_post_json B ''http://localhost:18002/api/identity/session/validate''
        [(''access_token'', JStr (sx_access_token x))]) (\<lambda>recovered.
     if \<not> json_same recovered (sx_validated x) then raise (RuntimeError ''Replicated session changed during Redis failover'') else
     bindS (wait_for_post_json B ''http://localhost:18001/api/identity/login''
        [(''email'', JStr (sx_email x)), (''password'', JStr PASSWORD)]) (\<lambda>second_login.
     bindS (lift (dict_item second_login ''access_token'')) (\<lambda>token.
     bindS (wait_for_post_json B ''http://localhost:18002/api/identity/session/validate''
        [(''access_token'', JStr (json_print B token))]) (\<lambda>_.
     bindS (compose B [''start'', primary_service]) (\<lambda>_.
     bindS (wait_for_cluster_rejoin B primary_service primary_id replica_id) (\<lambda>_.
     wait_for_application_recovery B app_containers)))))))))))"

definition failover_check :: "'s bench \<Rightarrow> scale_session \<Rightarrow> (string, string) dict \<Rightarrow> ('s, unit) io" where
  "failover_check B x app_containers =
     (let routing_tag = fst (partition_at (CHR ''.'') (sx_access_token x));
          session_key = ''kis_session:{'' @ routing_tag @ ''}:session:'' @ sx_access_token x;
          user_key = ''kis_session:{'' @ routing_tag @ ''}:user-sessions'' in
     bindS (cluster_slot B session_key) (\<lambda>session_slot.
     bindS (cluster_slot B user_key) (\<lambda>user_slot.
     if user_slot \<noteq> session_slot then raise (RuntimeError ''Session keys do not share one Redis Cluster slot'') else
     bindS (cluster_failover_target B session_slot) (\<lambda>target.
     bindS (finallyS (failover_checks B x app_containers target) (compose B [''start'', fst target])) (\<lambda>_.
     bn_print B (''Redis Cluster failover verified: slot='' @ string_of_int session_slot @ '', '' @ fst target @ '' stopped -> '' @
       fst (snd target) @ '' promoted, API containers stayed healthy, '' @ fst target @
       '' rejoined as replica, old read + new write passed''))))))"

definition scale_out_main :: "'s bench \<Rightarrow> ('s, unit) io" where
  "scale_out_main B =
     bindS (mapS (\<lambda>url. bindS (wait_for_health B url) (\<lambda>v. ret (url, v))) API_URLS) (\<lambda>results.
     if length results \<noteq> 2 then raise (RuntimeError ''Two independent API instances are required'') else
     bindS (mapS (\<lambda>service. bindS (scale_application_container B service) (\<lambda>c. ret (service, c))) API_SERVICES) (\<lambda>app_containers.
     bindS (mapS (\<lambda>(url, payload). bn_print B (''healthy: '' @ url @ '' -> '' @ py_repr (bn_text B) payload)) results) (\<lambda>_.
     bindS (verify_airflow_cancelled_job B) (\<lambda>_.
     bindS (verify_airflow_successful_job B) (\<lambda>_.
     bindS (sessions_shared B) (\<lambda>x.
     bindS (outage_write B x) (\<lambda>(expected_service, event_id).
     bindS (outage_recovery B x expected_service event_id) (\<lambda>_.
     bindS (dead_letter_check B x expected_service) (\<lambda>_.
     failover_check B x app_containers)))))))))"

section \<open>Reading the slots of a node\<close>

text \<open>What Redis prints after the eighth field: ranges, single slots, and slots in migration in square brackets.\<close>

datatype slot_item = Range nat nat | Single nat | Migrating nat string

fun print_item :: "slot_item \<Rightarrow> string" where
  "print_item (Range a b) = string_of_nat a @ ''-'' @ string_of_nat b"
| "print_item (Single a) = string_of_nat a"
| "print_item (Migrating a rest) = ''['' @ string_of_nat a @ ''-'' @ rest"

fun item_has :: "nat \<Rightarrow> slot_item \<Rightarrow> bool" where
  "item_has n (Range a b) = (a \<le> n \<and> n \<le> b)"
| "item_has n (Single a) = (n = a)"
| "item_has n (Migrating a rest) = False"

lemma no_dash_in_number: "c \<in> set (string_of_nat n) \<Longrightarrow> c \<noteq> CHR ''-'' \<and> c \<noteq> CHR ''[''"
  using string_of_nat_decimal [of n] by (auto simp: list_all_iff dec_char_def)

lemma partition_number:
  "partition_at (CHR ''-'') (string_of_nat a) = (string_of_nat a, False, [])"
  "partition_at (CHR ''-'') (string_of_nat a @ ''-'' @ t) = (string_of_nat a, True, t)"
proof -
  have all: "\<And>c. c \<in> set (string_of_nat a) \<Longrightarrow> c \<noteq> CHR ''-''" using no_dash_in_number by blast
  have t1: "takeWhile (\<lambda>x. x \<noteq> CHR ''-'') (string_of_nat a) = string_of_nat a" using all by (simp add: takeWhile_eq_all_conv)
  have t2: "dropWhile (\<lambda>x. x \<noteq> CHR ''-'') (string_of_nat a) = []" using all by (simp add: dropWhile_eq_Nil_conv)
  show "partition_at (CHR ''-'') (string_of_nat a) = (string_of_nat a, False, [])"
    by (simp add: partition_at_def t1 t2)
  show "partition_at (CHR ''-'') (string_of_nat a @ ''-'' @ t) = (string_of_nat a, True, t)"
    using all by (simp add: partition_at_def takeWhile_append2 dropWhile_append2)
qed

lemma number_no_bracket: "take 1 (string_of_nat a @ t) \<noteq> ''[''"
  using string_of_nat_decimal [of a] no_dash_in_number [of "hd (string_of_nat a)" a] by (cases "string_of_nat a") auto

lemma owns_printed: "owns_items (map print_item items) (int n) = Inr (list_ex (item_has n) items)"
proof (induction items)
  case (Cons item items)
  show ?case
  proof (cases item)
    case (Range a b)
    then show ?thesis using Cons.IH number_no_bracket [of a "''-'' @ string_of_nat b"]
      by (auto simp: partition_number [simplified])
  next
    case (Single a)
    then show ?thesis using Cons.IH number_no_bracket [of a "[]"]
      by (auto simp: partition_number)
  qed (use Cons.IH in simp)
qed simp

text \<open>The failover script of the generated environment reads the same text: it looks only at items with a dash, so it
  agrees when there are only ranges.\<close>

lemma failover_owns_ranges:
  assumes "\<And>item. item \<in> set items \<Longrightarrow> \<exists>a b. item = Range a b"
  shows "failover_owns (int n) (map print_item items) = Inr (list_ex (item_has n) items)"
  using assms
proof (induction items)
  case (Cons item items)
  then obtain a b where "item = Range a b" by (metis list.set_intros(1))
  then show ?case using Cons
    by (auto simp: failover_owns_def range_has_def partition_number [simplified])
qed (simp add: failover_owns_def)

text \<open>With a single slot the two scripts differ, and a slot in migration makes the second one fail.\<close>

lemma slot_readers_differ:
  "owns_items (map print_item [Single 5]) 5 = Inr True" "failover_owns 5 (map print_item [Single 5]) = Inr False"
  "owns_items (map print_item [Migrating 93 ''>-abc]'', Range 0 5]) 5 = Inr True"
  "failover_owns 5 (map print_item [Migrating 93 ''>-abc]'', Range 0 5]) = Inl (ValueError ''invalid literal for int()'')"
  by code_simp+

section \<open>What is stopped is started\<close>

text \<open>Once the worker has been stopped for the cancellation check, the last thing the check does is to start it, on
  success and on failure.\<close>

lemma worker_started_again:
  assumes "required_token B = Inr token" "compose B [''stop'', ''durable-job-worker''] s = (Inr r0, s0)"
    and "verify_airflow_cancelled_job B s = (r, s')"
  shows "\<exists>t r1. compose B [''start'', ''durable-job-worker''] t = (r1, s') \<and> (\<forall>e. r1 = Inl e \<longrightarrow> r = Inl e)"
proof -
  obtain r1 t where 1: "cancelled_job_checks B token s0 = (r1, t)" by fastforce
  obtain r2 t2 where 2: "compose B [''start'', ''durable-job-worker''] t = (r2, t2)" by fastforce
  show ?thesis using assms 1 2 unfolding verify_airflow_cancelled_job_def
    by (cases r2) (auto simp: bindS_def finallyS_def)
qed

section \<open>Reading one price\<close>

definition REQUIRED_ENVIRONMENT_NAMES :: "string list" where
  "REQUIRED_ENVIRONMENT_NAMES = [''KIS_API_URL'', ''KIS_APP_KEY'', ''KIS_APP_SECRET'', ''REDIS_URL'']"
definition PLACEHOLDER_API_URL :: string where "PLACEHOLDER_API_URL = ''https://example.invalid''"

definition stock_code_from_environment :: "environ \<Rightarrow> string result" where
  "stock_code_from_environment env =
     (let missing = filter (\<lambda>name. getenv env name = []) REQUIRED_ENVIRONMENT_NAMES in
      if missing \<noteq> [] then Inl (ValueError (''missing required runtime values: '' @ join '', '' missing))
      else if getenv env ''KIS_API_URL'' = PLACEHOLDER_API_URL then Inl (ValueError ''KIS_API_URL is still the generated placeholder'')
      else let stock_code = (case dict_get env ''KIS_INTEGRATION_STOCK_CODE'' of Some c \<Rightarrow> c | None \<Rightarrow> ''005930'') in
        if is_stock_code stock_code then Inr stock_code
        else Inl (ValueError ''KIS_INTEGRATION_STOCK_CODE must be a six-digit stock code''))"

text \<open>\<open>make_client\<close> is \<open>KisMarketDataClient.from_environment\<close>, \<open>close\<close> its \<open>aclose\<close>, \<open>info\<close> and \<open>error\<close> the logger.\<close>

definition verify_read_only_price ::
  "environ \<Rightarrow> ('s world, 's market_client) io \<Rightarrow> ('s world, unit) io \<Rightarrow> (string \<Rightarrow> ('s world, unit) io) \<Rightarrow> ('s world, unit) io" where
  "verify_read_only_price env make_client close info =
     bindS (lift (stock_code_from_environment env)) (\<lambda>stock_code.
     bindS make_client (\<lambda>client.
     bindS (finallyS (get_domestic_stock_price client stock_code) close) (\<lambda>price.
     info (''read-only KIS current-price verification succeeded for '' @ kp_stock_code price))))"

definition price_failure :: "exn \<Rightarrow> bool" where
  "price_failure e \<longleftrightarrow> is_httpx_error e \<or> (\<exists>m. e = KisMarketDataError m) \<or> is_token_error e \<or> is_os_error e \<or>
     e = RedisError \<or> is_runtime_error e \<or> is_value_error e"

definition price_main ::
  "pytext \<Rightarrow> environ \<Rightarrow> ('s world, 's market_client) io \<Rightarrow> ('s world, unit) io \<Rightarrow> (string \<Rightarrow> ('s world, unit) io) \<Rightarrow>
   (string \<Rightarrow> ('s world, unit) io) \<Rightarrow> ('s world, int) io" where
  "price_main T env make_client close info error =
     catchS (bindS (verify_read_only_price env make_client close info) (\<lambda>_. ret 0)) (\<lambda>e.
       if price_failure e
       then bindS (error (''read-only KIS current-price verification failed: '' @ py_str_exn T e)) (\<lambda>_. ret 1)
       else raise e)"

text \<open>With a configuration that is not complete, or with the placeholder address, no client is opened and nothing is
  requested; the exit code is 1.\<close>

lemma price_main_refuses:
  assumes "stock_code_from_environment env = Inl e"
    and "\<And>m t. error m t = (Inr (), t)"
  shows "price_main T env make_client close info error s = (Inr 1, s)"
proof -
  have "price_failure e" using assms(1) unfolding stock_code_from_environment_def
    by (auto simp: price_failure_def Let_def split: if_splits)
  then show ?thesis using assms by (simp add: price_main_def verify_read_only_price_def catchS_def bindS_def)
qed

section \<open>The profile request\<close>

text \<open>The script writes the profile with the two headers of \<open>authenticated_json\<close>. The endpoint refuses a request
  without an idempotency key, so against this application the script does not get past that request.\<close>

lemma profile_request_refused:
  "fst (update_profile_endpoint api sha256 T dump encode now now' tok (dict_get (bearer_headers token) ''Idempotency-Key'')
     event_id request bearer s) \<noteq> Inr r"
proof -
  have "dict_get (bearer_headers token) ''Idempotency-Key'' = None" by (simp add: bearer_headers_def dict_get_def)
  then have claim: "claim_request api sha256 T now tok (dict_get (bearer_headers token) ''Idempotency-Key'') src =
      raise (HTTPException 400 ''Idempotency-Key header is required'')" for src
    by (simp add: claim_request_def)
  have "fst (update_profile_request api sha256 T dump encode now now' tok
      (dict_get (bearer_headers token) ''Idempotency-Key'') event_id request session t) \<noteq> Inr r" for session t
    unfolding update_profile_request_def idempotent_def claim by (simp add: on_redis_def bindS_def raise_def)
  then show ?thesis unfolding update_profile_endpoint_def with_access_def
    by (auto simp: bindS_def split: prod.splits sum.splits)
qed

definition never_returns :: "('s, 'a) io \<Rightarrow> bool" where
  "never_returns m \<longleftrightarrow> (\<forall>s x. fst (m s) \<noteq> Inr x)"

lemma never_returns_bind1: "never_returns m \<Longrightarrow> never_returns (bindS m f)"
  unfolding never_returns_def bindS_def by (auto split: prod.split sum.split) (metis fst_conv)+

lemma never_returns_bind2: "(\<And>x. never_returns (f x)) \<Longrightarrow> never_returns (bindS m f)"
  unfolding never_returns_def bindS_def by (auto split: prod.split sum.split)

lemma never_returns_if: "never_returns m \<Longrightarrow> never_returns (if b then raise e else m)"
  by (simp add: never_returns_def)

lemma scale_out_blocked:
  assumes "\<And>token body t. \<exists>e t'. bn_urlopen B ''PUT'' ''http://localhost:18002/api/account/profile'' (bearer_headers token) body t = (Inl e, t')"
  shows "fst (scale_out_main B s) \<noteq> Inr ()"
proof -
  have put: "never_returns (authenticated_json B ''PUT'' ''http://localhost:18002/api/account/profile'' token payload)"
    for token payload
    unfolding authenticated_json_def
  proof (rule never_returns_bind1, unfold never_returns_def, intro allI)
    fix t and x :: "nat \<times> string"
    show "fst (bn_urlopen B ''PUT'' ''http://localhost:18002/api/account/profile'' (bearer_headers token)
        (map_option (\<lambda>d. json_dumps False (JObj d)) payload) t) \<noteq> Inr x"
      using assms [of token "map_option (\<lambda>d. json_dumps False (JObj d)) payload" t] by auto
  qed
  have blocked: "never_returns (outage_write B x)" for x
    unfolding outage_write_def by (rule never_returns_bind2) (rule never_returns_bind1 [OF put])
  have "never_returns (scale_out_main B)"
    unfolding scale_out_main_def
    by (rule never_returns_bind2, rule never_returns_if, rule never_returns_bind2, rule never_returns_bind2,
      rule never_returns_bind2, rule never_returns_bind2, rule never_returns_bind2, rule never_returns_bind1, rule blocked)
  then show ?thesis by (simp add: never_returns_def)
qed

end
