(* ===== verification/Spec2Isabelle.thy ===== *)
theory Spec2Isabelle
  imports Processes Observability Schema Scheduling Typing Application RedisClients DrillsScaleOut
begin

text \<open>
  A verification development of \<^bold>\<open>kis-auto-trading\<close>: a FastAPI application with PostgreSQL, Redis and
  RabbitMQ that collects market data and news through durable jobs, shows portfolios of Korea Investment
  and Securities accounts, and tells users of trading signals.

  \<^bold>\<open>The program.\<close> Requests come in through routers. A handler runs one transaction on the global store or
  on the account shard of the user, and writes the events it causes to an outbox table in the same
  transaction. The relay publishes outbox rows to RabbitMQ, at least once. Two workers consume them: the
  message worker (profile updates, signals, subscriptions, notifications) and the durable job worker.
  Consumers are made idempotent by an inbox table, by job states, by revisions or by name-based UUIDs.
  Sessions, idempotency keys, locks and caches live in Redis. Notifications reach web sockets through a
  Redis channel that every replica listens to. Airflow DAGs start jobs through the HTTP interface.

  \<^bold>\<open>Theories\<close> (paths under \<open>src/src/kis_auto_trading\<close> unless they say otherwise):
  \<^item> \<open>PyBase\<close>, \<open>Json\<close>, \<open>Base64\<close>, \<open>Uuid\<close>: the Python library the code uses. Computations are functions
    from a state to a result (\<open>exn + 'a\<close>) and a state, with \<open>raise\<close>, \<open>except\<close> and \<open>finally\<close>; JSON and Base64
    have their round trips.
  \<^item> \<open>Database\<close>, \<open>Tables\<close>, \<open>Repositories\<close>: transactions and routing (\<open>infrastructure/database\<close>), one record
    per table (\<open>sqlalchemy_models.py\<close>), the aggregates with their database and in-memory repositories
    (\<open>modules/*/generated\<close>). Locales \<open>repository\<close> and \<open>repository_pair\<close>, interpreted for each of them.
  \<^item> \<open>Messaging\<close>, \<open>Outbox\<close>: events and their encoding, RabbitMQ publisher, consumer and topology; writer,
    relay and inbox (\<open>infrastructure/messaging\<close>, \<open>outbox\<close>, \<open>scripts/run_outbox_relay.py\<close>). Locales \<open>broker\<close>
    and \<open>exchange_api\<close>.
  \<^item> \<open>DurableJobs\<close>: job repository, worker and endpoints (\<open>infrastructure/durable_jobs\<close>,
    \<open>routers/durable_jobs.py\<close>), with the step relation \<open>job_step\<close> of all transactions on a job store.
  \<^item> \<open>RedisApi\<close>, \<open>KeyValue\<close>, \<open>Locks\<close>, \<open>SessionStore\<close>, \<open>RequestReplay\<close>: the commands of Redis as a locale
    (\<open>redis_server\<close>) and the clients in front of it (\<open>infrastructure/key_value_store\<close>, \<open>distributed_lock\<close>,
    \<open>session_store\<close>). Each protocol class is a locale (\<open>kv_client\<close>, \<open>lock_client\<close>, \<open>session_store\<close>) that
    the in-memory client interprets and of which \<open>redis_server\<close> is a sublocale. \<open>RedisClients\<close>: the connections
    the clients open in each mode, and their closing.
  \<^item> \<open>Identity\<close>, \<open>Account\<close>, \<open>Signals\<close>: access levels, passwords, sign-up, log-in, operator access; profiles;
    subscriptions, signals, delivery intents, notifications and the message worker
    (\<open>modules/identity\<close>, \<open>account\<close>, \<open>signal\<close>, \<open>notification\<close>, \<open>scripts/run_message_worker.py\<close>).
  \<^item> \<open>ExternalProvider\<close>, \<open>KisToken\<close>, \<open>KisMarket\<close>, \<open>Portfolio\<close>: the retrying HTTP client, the shared access
    token (locale \<open>kis_services\<close>), prices and candles, holdings, broker connections and portfolio snapshots
    (\<open>infrastructure/external_provider\<close>, \<open>kis_*.py\<close>, \<open>modules/brokerage_account\<close>, \<open>portfolio\<close>,
    \<open>market_history\<close>).
  \<^item> \<open>Search\<close>, \<open>News\<close>, \<open>JobHandler\<close>, \<open>Routes\<close>: hybrid search, news, the handlers of the five job types
    (\<open>application/durable_job_handler.py\<close>) and the hand-written routers (\<open>routers\<close>).
  \<^item> \<open>Realtime\<close>: hub, backplane and web socket route (\<open>infrastructure/realtime\<close>,
    \<open>routers/realtime_notifications.py\<close>). Locales \<open>realtime_subscribers\<close>, \<open>websocket_transport\<close> and
    \<open>redis_pubsub\<close>.
  \<^item> \<open>Schema\<close>: all migrations and the table metadata of the models (\<open>migrations\<close>, \<open>sqlalchemy_models.py\<close>).
  \<^item> \<open>Scheduling\<close>: the Airflow DAGs (\<open>airflow/dags\<close>) against the job routes, and the heartbeat.
  \<^item> \<open>Processes\<close>: start and end of the application and of the workers (\<open>application/generated/lifespan.py\<close>,
    \<open>application/extensions.py\<close>, \<open>scripts/run_*.py\<close>, \<open>scripts/provision_operator.py\<close>).
  \<^item> \<open>Observability\<close>: request logging, the redaction of credentials, the JSON line of a log record and the
    configuration of the logger (\<open>application/observability.py\<close>).
  \<^item> \<open>Application\<close>: the routers as data and their assembly (\<open>application/app_factory.py\<close>, \<open>extensions.py\<close>,
    \<open>routers\<close>, \<open>modules/*/generated/router.py\<close>), and how a request finds its route and passes its dependencies.
  \<^item> \<open>Typing\<close>: the types of the rows of every table, a logic of typed computations, and all writing operations
    of the service as the step relation \<open>service_step\<close>.
  \<^item> \<open>Drills\<close>, \<open>DrillsHa\<close>, \<open>DrillsHost\<close>, \<open>DrillsScaleOut\<close>: the verification scripts (\<open>src/scripts/verify_*.py\<close>),
    which start containers, break them and watch the recovery. What they do to the machine is a \<open>bench\<close>; the locale
    \<open>confined_bench\<close> states what keeps other projects safe, and \<open>journal\<close> records the commands of any bench.
  \<^item> This theory: what holds across them, from the request of a job to its end and from a delivery intent to
    the web sockets of the user.

  \<^bold>\<open>State and operations.\<close> A table is the list of its rows and a database the record \<open>db\<close> of all tables;
  the registry maps targets to databases. \<open>with_session\<close> is a transaction: committed when its body
  returns, without effect when it raises. Transactions, Redis commands and scripts are the atomic steps;
  statements about concurrency quantify over their interleavings. Clock readings, random values and
  fresh identifiers are arguments of the operation that draws them, so a theorem holds for whatever they
  are; where the code needs them fresh, that is a premise. Instants count microseconds. A \<open>str\<close> is a list of
  Latin-1 characters, a \<open>float\<close> its literal, a \<open>UUID\<close> a 128-bit word.

  \<^bold>\<open>What is not in the repository\<close> (Redis, RabbitMQ, PostgreSQL's faults, FastAPI's and pydantic's
  validation, httpx, yfinance, the search backend, PBKDF2, SHA-1 and SHA-256, ISO 8601 text) is an argument
  with its documented behaviour as premises: of a locale, or of the theorem, such as \<open>fromisoformat\<close>
  inverting \<open>isoformat\<close>. Each premise is met by a concrete instance in the witness that follows the theorem.

  \<^bold>\<open>What the lemmas show.\<close>
  \<^item> Delivery: the relay's effect, retry delays and progress; what is published was sent; the round trip of
    events; jobs move along their states and are claimed once; \<open>job_runs_once\<close> follows one job through all
    of it, \<open>intent_reaches_user\<close> one intent; projections converge under reordering and repetition.
  \<^item> Exclusion and expiry: mutual exclusion of the lock, agreement of the in-memory clients with Redis,
    sessions that live exactly as long as they should and end on revocation, one execution per
    idempotency key.
  \<^item> Identity: password round trip, uniform failures, access levels fixed at log-in, audited grants.
  \<^item> External services: bounded attempts and waiting, one token request per call, cached candles, snapshots
    taken once, rank fusion against its definition, chains of retries.
  \<^item> Realtime: the hub refines the set of open streams, streams leave nothing behind, publishing fails softly.
  \<^item> Schema: the migrations, in every order Alembic may choose, build what the models declare, up to the type of
    two columns.
  \<^item> Processes: everything opened is closed again; requests are logged once, without passwords of URLs, in lines
    that parse back to the record; every route that is not public refuses requests without credentials.
  \<^item> Types: whatever the service is sent and answered, every row of every database keeps its type.
  \<^item> Scripts: the recovery scripts confine their commands to their own project and tear it down whatever
    happens; their waits return only what they have observed; where two of them read the same text differently.

  \<^bold>\<open>Termination and fuel.\<close> Loops over data are structural. \<open>json_loads\<close> gives its parser twice the length of
  the text, which the round trip shows to be enough. The pages of holdings and the attempts of a request
  are bounded by the code's own constants. \<open>wait_loop\<close> of the token coordinator terminates by the time left
  to its deadline. \<open>wait_for_job\<close> of the DAGs has no bound and is a partial function; \<open>wait_ends_with_job\<close>
  gives its value. The endless loops of the relay, the listener, the heartbeat and the receiving web socket are
  modelled by their rounds, as finite sequences. The waits of the scripts have the number of their attempts as the
  measure of \<open>poll\<close>; \<open>poll_returns\<close> says when they return.

  \<^bold>\<open>Not modelled.\<close> \<open>env.py\<close> of Alembic, which hands a connection to the library; the demonstration server
  \<open>base_server\<close>, whose only effect is a line of Korean text; deployment files and specifications, which are not
  Python. Of the scripts the argument parser and what an error message tells about the last observation of a loop.
  Cancellation of a task in the middle of a handler is not considered, nor characters above Latin-1.
\<close>

section \<open>From a request to the end of a job\<close>

text \<open>The message of a job that was requested, as it leaves the outbox.\<close>

definition job_message :: "draw \<Rightarrow> DurableJobDefinition \<Rightarrow> string \<Rightarrow> string \<Rightarrow> jdict \<Rightarrow> EventMessage" where
  "job_message w def i rk p = new_event (dw_event_id w) (dw_event_now w) (jd_event_type def) i
     (job_requested_payload i (jd_name def) rk p) (jd_routing_key def)"

lemma relay_request_event: "relay_message (request_event w def i rk p av) = job_message w def i rk p"
  by (simp add: request_event_def job_message_def relay_message_record)

lemma job_payload_sorted:
  "dict_get (sorted_dict (job_requested_payload i ty rk p)) k =
     (if k = ''job_id'' then Some (JStr i) else if k = ''job_type'' then Some (JStr ty) else if k = ''run_key'' then Some (JStr rk)
      else if k = ''payload'' then Some (JObj (sorted_dict p)) else None)"
proof -
  have "distinct (map fst (job_requested_payload i ty rk p))" by (simp add: job_requested_payload_def)
  from sorted_dict_get [OF this] show ?thesis
    by (simp add: job_requested_payload_def dict_get_def sort_keys_obj del: sort_keys.simps(2))
qed

text \<open>The worker reads the job out of the message as it was requested, its payload in key order.\<close>

lemma job_message_parsed:
  assumes "dict_get JOB_DEFINITIONS ty = Some def"
  shows "worker_parse T (job_message w def i rk p\<lparr>em_payload := sorted_dict (em_payload (job_message w def i rk p))\<rparr>) =
    Inr (def, \<lparr>je_job_id = i, je_job_type = ty, je_run_key = rk, je_payload = sorted_dict p\<rparr>)"
  using JOB_DEFINITIONS_name [OF assms] assms by (simp add: worker_parse_def member_def job_payload_sorted job_message_def)

text \<open>The state of the databases while the handler runs, and after the job has ended with \<open>r\<close>.\<close>

definition job_claimed :: "draw \<Rightarrow> string \<Rightarrow> DurableJobRecord \<Rightarrow> db \<Rightarrow> db" where
  "job_claimed w i j d = d\<lparr>durable_jobs := t_merge dj_job_id (moved w RUNNING None None j) (durable_jobs d),
     outbox_events := outbox_events d @ [status_event w i RUNNING None None]\<rparr>"

definition job_end :: "pytext \<Rightarrow> jdict option result \<Rightarrow> DurableJobStatus \<times> jdict option \<times> string option" where
  "job_end T r = (case r of Inr res \<Rightarrow> (SUCCEEDED, res, None) | Inl e \<Rightarrow> (FAILED, None, Some (error_text T e)))"

definition job_ended :: "pytext \<Rightarrow> draw \<Rightarrow> jdict option result \<Rightarrow> DurableJobRecord \<Rightarrow> DurableJobRecord" where
  "job_ended T w r j = (case job_end T r of (st, res, err) \<Rightarrow> moved w st res err j)"

text \<open>
  C7: a durable job runs once, from its request to its end. When \<open>job_request\<close> has created a job, the
  broker delivers the message the relay made of its outbox row, and the job has not been claimed or
  cancelled before, then the worker gets the job as it was requested and calls the handler on the
  databases with the job marked running. Afterwards the status endpoint reports the job as succeeded with
  the handler's result, and the message is acknowledged, or as failed with the text of the exception, and
  the message goes to the dead letters. Whoever receives the same message again acknowledges it, runs no
  handler and changes nothing.
\<close>

theorem job_runs_once:
  assumes "dict_get JOB_DEFINITIONS ty = Some def" "job_reachable d0" "job_request w u ty rk p av d0 = (Inr r, d1)" "jr_created r"
    and "json_wf (JObj p)" "fromisoformat (isoformat (dw_event_now w)) = Inr (dw_event_now w)"
    and "encode_event isoformat (relay_message (last (outbox_events d1))) = Inr body"
    and "engine_for rg (global_target (jd_store def)) = Inr d" "job_reachable d"
    and "t_get dj_job_id (jr_job_id r) (durable_jobs d) = Some j" "dj_job_type j = ty" "dj_status j = status_value REQUESTED"
    and "event_id_fresh d (dw_event_id w1)"
    and "handler \<lparr>je_job_id = jr_job_id r, je_job_type = ty, je_run_key = rk, je_payload = sorted_dict p\<rparr>
           (commit_to (global_target (jd_store def)) (job_claimed w1 (jr_job_id r) j d) rg) = (result, rg2)"
    and "engine_for rg2 (global_target (jd_store def)) = Inr d2" "job_reachable d2"
    and "t_get dj_job_id (jr_job_id r) (durable_jobs d2) = Some j2" "same_job j j2" "dj_status j2 = status_value RUNNING"
    and "event_id_fresh d2 (dw_event_id w2)"
  shows "\<exists>rg3. rabbit_process fromisoformat u1 now (worker_handle T handler w1 w2) body rg
        = (case result of Inr _ \<Rightarrow> Ack | Inl _ \<Rightarrow> Reject, rg3) \<and>
      get_durable_job ty (jr_job_id r) rg3 = (Inr (status_response (job_ended T w2 result j2)), rg3) \<and>
      rabbit_process fromisoformat u2 now' (worker_handle T' handler' w1' w2') body rg3 = (Ack, rg3)"
proof -
  let ?t = "global_target (jd_store def)" and ?m = "job_message w def (jr_job_id r) rk p"
  let ?m' = "?m\<lparr>em_payload := sorted_dict (em_payload ?m)\<rparr>"
  let ?x = "\<lparr>je_job_id = jr_job_id r, je_job_type = ty, je_run_key = rk, je_payload = sorted_dict p\<rparr>"
  obtain st res err where e: "job_end T result = (st, res, err)" by (cases "job_end T result")
  then have st: "st \<in> {SUCCEEDED, FAILED}" by (auto simp: job_end_def split: sum.splits)
  define d3 where "d3 = d2\<lparr>durable_jobs := t_merge dj_job_id (moved w2 st res err j2) (durable_jobs d2),
    outbox_events := outbox_events d2 @ [status_event w2 (jr_job_id r) st res err]\<rparr>"
  define rg3 where "rg3 = commit_to ?t d3 rg2"
  note inv = job_reachable_inv [OF assms(9)] job_reachable_inv [OF assms(16)] and wf = job_inv_wf(2) [OF job_reachable_inv [OF assms(2)]]
  have "last (outbox_events d1) = request_event w def (jr_job_id r) rk p av"
    using assms(3, 4) unfolding job_request_run [OF wf assms(1)] by (auto simp: Let_def split: option.splits if_splits)
  then have body: "encode_event isoformat ?m = Inr body" using assms(7) by (simp add: relay_request_event)
  have m: "json_wf (JObj (em_payload ?m))" "em_event_id ?m \<noteq> []" "em_occurred_at ?m = Some (dw_event_now w)"
    using assms(5) by (simp_all add: job_message_def job_requested_payload_def)
  note process = rabbit_process_encoded [where m = ?m and isoformat = isoformat and fromisoformat = fromisoformat, OF m assms(6) body]
  have parse: "worker_parse T ?m' = Inr (def, ?x)" for T by (rule job_message_parsed [OF assms(1)])
  have run: "worker_handle T handler w1 w2 ?m' rg = (case result of Inr _ \<Rightarrow> Inr () | Inl e \<Rightarrow> Inl e, rg3)"
    using worker_executes [where handler = handler and T = T, OF parse assms(8) inv(1) _ assms(12, 13) _ assms(15) inv(2) _ assms(19, 20)]
      assms(10, 14, 17) e
    by (auto simp: rg3_def d3_def job_end_def job_claimed_def split: sum.splits)
  have j2: "dj_job_id j2 = jr_job_id r" "dj_job_type j2 = ty"
    using t_get_key [OF assms(17)] assms(11, 18) by (auto simp: same_job_def)
  have get: "engine_for rg3 ?t = Inr d3" "t_get dj_job_id (jr_job_id r) (durable_jobs d3) = Some (moved w2 st res err j2)"
    by (simp_all add: rg3_def d3_def j2)
  have "job_transition w2 (jr_job_id r) RUNNING st res err d2 = (Inr True, d3)"
    using assms(17, 19, 20) by (simp add: d3_def transition_tx [OF inv(2)])
  from job_inv_transition [OF inv(2) this] st have "job_inv d3" by (auto simp: legal_edges_def)
  then have again: "worker_handle T' handler' w1' w2' ?m' rg3 = (Inr (), rg3)"
    using st get by (intro worker_skips [OF parse, where d = d3]) auto
  have "get_durable_job ty (jr_job_id r) rg3 = (Inr (status_response (job_ended T w2 result j2)), rg3)"
    using get j2 JOB_DEFINITIONS_name [OF assms(1)] assms(1) e
    by (simp add: get_durable_job_def job_definition_def job_get_def bindS_def with_session_def job_ended_def)
  with run again show ?thesis by (intro exI [of _ rg3]) (auto simp: process split: sum.splits)
qed

definition demo_body :: string where
  "demo_body = (case encode_event (\<lambda>t. ''1970-01-01T00:00:01'') (relay_message (last (outbox_events demo_jobs))) of Inr b \<Rightarrow> b | Inl e \<Rightarrow> [])"

theorem job_runs_once_witness:
  "\<exists>rg3. rabbit_process (\<lambda>s. Inr 1) 0 2 (worker_handle demo_text (\<lambda>x. ret (Some [(''n'', JInt 1)])) (demo_draw 8) (demo_draw 9)) demo_body demo_dbs
       = (Ack, rg3) \<and>
     get_durable_job ''news_index'' (str_uuid 1) rg3 = (Inr (status_response (job_ended demo_text (demo_draw 9) (Inr (Some [(''n'', JInt 1)]))
         (moved (demo_draw 8) RUNNING None None demo_job))), rg3) \<and>
     rabbit_process (\<lambda>s. Inr 1) 0 3 (worker_handle demo_text (\<lambda>x. raise RedisError) (demo_draw 10) (demo_draw 11)) demo_body rg3 = (Ack, rg3)"
proof -
  let ?h = "\<lambda>x. ret (Some [(''n'', JInt 1)])"
  have 1: "(\<lambda>s. Inr 1) ((\<lambda>t. ''1970-01-01T00:00:01'') (dw_event_now (demo_draw 7))) = Inr (dw_event_now (demo_draw 7))"
    by (simp add: demo_draw_def)
  have 2: "encode_event (\<lambda>t. ''1970-01-01T00:00:01'') (relay_message (last (outbox_events demo_jobs))) = Inr demo_body"
    unfolding demo_body_def by (simp add: demo_jobs_def relay_request_event job_message_def encode_event_def)
  have 3: "job_claimed (demo_draw 8) (str_uuid 1) demo_job demo_jobs = demo_running"
    by (simp add: demo_running_def job_claimed_def)
  have 4: "event_id_fresh demo_jobs (dw_event_id (demo_draw 8))" "event_id_fresh demo_running (dw_event_id (demo_draw 9))"
    using demo_fresh [of 8] demo_fresh [of 9] by (simp_all add: event_id_fresh_def demo_running_def demo_draw_def)
  show ?thesis
    using job_runs_once [where handler = ?h and T = demo_text and T' = demo_text and rg = demo_dbs and result = "Inr (Some [(''n'', JInt 1)])"
        and ?j2.0 = "moved (demo_draw 8) RUNNING None None demo_job" and ?u1.0 = 0 and ?u2.0 = 0 and now = 2 and now' = 3
        and handler' = "\<lambda>x. raise RedisError" and w1' = "demo_draw 10" and w2' = "demo_draw 11",
        OF demo_definition jr_init demo_request _ _ 1 2 _ demo_reachable _ _ demo_status 4(1) _ _ demo_running_reachable _ _ _ 4(2)]
      demo_engine demo_job_get demo_running_get 3
    by (simp add: demo_job_def same_job_def moved_def)
qed

section \<open>From a delivery intent to the streams of the user\<close>

lemma notification_channel_str: "notification_channel (str_uuid u) = Inr (''notification:'' @ str_uuid u)"
  by (simp add: notification_channel_def)

text \<open>What the worker publishes for a notification; the handler goes on whether or not Redis takes it.\<close>

definition worker_hint :: "InAppNotification \<Rightarrow> string" where
  "worker_hint n = hint_payload (''notification:'' @ str_uuid (no_user_id n)) (notification_hint (no_notification_id n))"

lemma publish_hint_soft:
  assumes "redis_pubsub A taken" "\<not> bp_closed b"
  shows "\<exists>b' z' k. catchS (bindS (lift (notification_channel (str_uuid (no_user_id n)))) (\<lambda>channel.
        on_redis (backplane_publish A channel (notification_hint (no_notification_id n)))))
      (\<lambda>e. case e of RealtimeBackplaneError _ \<Rightarrow> ret () | _ \<Rightarrow> raise e) (s\<lparr>ap_redis := (b, z)\<rparr>) = (Inr (), s\<lparr>ap_redis := (b', z')\<rparr>) \<and>
    k \<le> 2 \<and> taken z' = taken z @ replicate k (bp_topic b, worker_hint n)"
proof -
  let ?p = "backplane_publish A (''notification:'' @ str_uuid (no_user_id n)) (notification_hint (no_notification_id n))"
  obtain x b' z' k where "?p (b, z) = (x, (b', z'))" "k \<le> 2" "taken z' = taken z @ replicate k (bp_topic b, worker_hint n)"
    "x = Inr () \<or> (\<exists>m. x = Inl (RealtimeBackplaneError m))"
    using redis_pubsub.publish_attempts_takes [OF assms(1), of "worker_hint n" 2 b z] assms(2)
    by (auto simp: backplane_publish_def gets_bp_def bindS_def worker_hint_def)
  then show ?thesis
    by (intro exI [of _ b'] exI [of _ z'] exI [of _ k])
       (auto simp: notification_channel_str catchS_def bindS_def on_redis_def)
qed

text \<open>The handler on the first message for an intent.\<close>

lemma first_intent_message:
  assumes "redis_pubsub A taken" "ap_redis s = (b, z)" "\<not> bp_closed b"
    and "delivery_intent_from_payload C (em_payload m) = Inr intent" "dict_get ACCOUNT_SHARD_URL_ENVS (si_shard_id intent) \<noteq> None"
    and "engine_for (ap_dbs s) (shard_of ''account'' (si_shard_id intent)) = Inr d"
    and "em_event_id m \<notin> pm_event_id ` set (processed_messages d)"
    and "SQL_InAppNotification_find_by_id (no_notification_id (in_app_notification uuid5 now intent)) (in_app_notifications d) = None"
  defines "n \<equiv> in_app_notification uuid5 now intent"
  shows "\<exists>s1 z' k d1. handle_signal_delivery_intent_created C uuid5 (Some (backplane_publish A)) now m s = (Inr (), s1) \<and>
    snd (ap_redis s1) = z' \<and> k \<le> 2 \<and> taken z' = taken z @ replicate k (bp_topic b, worker_hint n) \<and>
    engine_for (ap_dbs s1) (shard_of ''account'' (si_shard_id intent)) = Inr d1 \<and>
    em_event_id m \<in> pm_event_id ` set (processed_messages d1) \<and>
    in_app_notifications d1 = SQL_InAppNotification_save n (in_app_notifications d)"
proof -
  let ?t = "shard_of ''account'' (si_shard_id intent)"
  define d1 where "d1 = snd (notification_tx uuid5 now (em_event_id m) intent d)"
  have tx: "notification_tx uuid5 now (em_event_id m) intent d = (Inr (Some n), d1)"
    and d1: "em_event_id m \<in> pm_event_id ` set (processed_messages d1)" "in_app_notifications d1 = SQL_InAppNotification_save n (in_app_notifications d)"
    using assms(7, 8) by (simp_all add: d1_def notification_tx_run Let_def n_def)
  let ?s = "s\<lparr>ap_dbs := commit_to ?t d1 (ap_dbs s)\<rparr>"
  have s: "?s\<lparr>ap_redis := (b, z)\<rparr> = ?s" using assms(2) by simp
  from publish_hint_soft [OF assms(1, 3), where n = n and s = ?s and z = z] s
  obtain b' z' k where p: "catchS (bindS (lift (notification_channel (str_uuid (no_user_id n)))) (\<lambda>channel.
        on_redis (backplane_publish A channel (notification_hint (no_notification_id n)))))
      (\<lambda>e. case e of RealtimeBackplaneError _ \<Rightarrow> ret () | _ \<Rightarrow> raise e) ?s = (Inr (), ?s\<lparr>ap_redis := (b', z')\<rparr>)"
    "k \<le> 2" "taken z' = taken z @ replicate k (bp_topic b, worker_hint n)" by auto
  have "handle_signal_delivery_intent_created C uuid5 (Some (backplane_publish A)) now m s = (Inr (), ?s\<lparr>ap_redis := (b', z')\<rparr>)"
    using assms(4-6) tx p(1) by (simp add: handle_signal_delivery_intent_created_def bindS_def on_dbs_def with_session_def)
  with p(2, 3) d1 show ?thesis by (intro exI [of _ "?s\<lparr>ap_redis := (b', z')\<rparr>"] exI [of _ z'] exI [of _ k] exI [of _ d1]) simp
qed

lemma repeated_intent_message:
  assumes "delivery_intent_from_payload C (em_payload m) = Inr intent" "dict_get ACCOUNT_SHARD_URL_ENVS (si_shard_id intent) \<noteq> None"
    and "engine_for (ap_dbs s) (shard_of ''account'' (si_shard_id intent)) = Inr d" "em_event_id m \<in> pm_event_id ` set (processed_messages d)"
  shows "handle_signal_delivery_intent_created C uuid5 publish now m s = (Inr (), s)"
proof -
  have "notification_tx uuid5 now (em_event_id m) intent d = (Inr None, d)" using assms(4) by (simp add: notification_tx_run Let_def)
  with assms(1-3) show ?thesis
    by (simp add: handle_signal_delivery_intent_created_def bindS_def on_dbs_def with_session_def commit_to_same)
qed

text \<open>The consumer on the message of an intent, delivered for the first time and again.\<close>

lemma intent_message_handled:
  assumes "redis_pubsub A taken"
    and "json_wf (JObj (cd_dump_intent C intent))" "delivery_intent_from_payload C (sorted_dict (cd_dump_intent C intent)) = Inr intent"
    and "fromisoformat (isoformat t) = Inr t" "encode_event isoformat (relay_message (intent_event C ids t i intent)) = Inr body"
    and "dict_get ACCOUNT_SHARD_URL_ENVS (si_shard_id intent) \<noteq> None"
    and "engine_for (ap_dbs s) (shard_of ''account'' (si_shard_id intent)) = Inr d"
    and "str_uuid (ids i) \<notin> pm_event_id ` set (processed_messages d)"
    and "SQL_InAppNotification_find_by_id (no_notification_id n) (in_app_notifications d) = None"
    and "ap_redis s = (b, z)" "\<not> bp_closed b" and n: "n = in_app_notification uuid5 now intent"
  shows "\<exists>s1 d1 k. rabbit_process fromisoformat u1 now1 (message_handle C T uuid5 ids1 (Some (backplane_publish A)) now) body s = (Ack, s1) \<and>
      engine_for (ap_dbs s1) (shard_of ''account'' (si_shard_id intent)) = Inr d1 \<and>
      in_app_notifications d1 = SQL_InAppNotification_save n (in_app_notifications d) \<and>
      k \<le> 2 \<and> taken (snd (ap_redis s1)) = taken z @ replicate k (bp_topic b, worker_hint n) \<and>
      rabbit_process fromisoformat u2 now2 (message_handle C T' uuid5' ids2 publish' now') body s1 = (Ack, s1)"
proof -
  let ?m = "new_event (ids i) t ''signal.delivery-intent.created'' (str_uuid (si_intent_id intent)) (cd_dump_intent C intent) IN_APP_NOTIFICATION_ROUTING_KEY"
  let ?m' = "?m\<lparr>em_payload := sorted_dict (em_payload ?m)\<rparr>"
  have "encode_event isoformat ?m = Inr body" using assms(5) by (simp add: intent_event_def relay_message_record)
  note process = rabbit_process_encoded [where m = ?m and isoformat = isoformat and fromisoformat = fromisoformat, OF _ _ _ assms(4) this]
  obtain s1 z' k d1 where 1: "handle_signal_delivery_intent_created C uuid5 (Some (backplane_publish A)) now ?m' s = (Inr (), s1)"
    "snd (ap_redis s1) = z'" "k \<le> 2" "taken z' = taken z @ replicate k (bp_topic b, worker_hint n)"
    "engine_for (ap_dbs s1) (shard_of ''account'' (si_shard_id intent)) = Inr d1" "em_event_id ?m' \<in> pm_event_id ` set (processed_messages d1)"
    "in_app_notifications d1 = SQL_InAppNotification_save n (in_app_notifications d)"
    using first_intent_message [OF assms(1, 10, 11) _ assms(6, 7) _ assms(9) [unfolded n], of C ?m'] assms(3, 8) n by auto
  have 2: "handle_signal_delivery_intent_created C uuid5' publish' now' ?m' s1 = (Inr (), s1)"
    by (rule repeated_intent_message [OF _ assms(6) 1(5, 6)]) (use assms(3) in simp)
  show ?thesis
    using 1 2 assms(2) by (intro exI [of _ s1] exI [of _ d1] exI [of _ k]) (simp add: process message_handle_def)
qed

lemma worker_hint_delivered:
  assumes "websocket_transport W received up"
  shows "\<forall>xs rs r streams. run_hub xs new_hub = (rs, rp_hub r) \<and> snd (run_spec xs no_streams) = (False, streams) \<longrightarrow>
      (\<exists>e. listen_event (hub_publish (safe_send W)) (Some (Some (worker_hint n))) r = (Inr (), r\<lparr>rp_env := e\<rparr>) \<and>
        (\<forall>j. received e j = (if j \<in> set (streams (''notification:'' @ str_uuid (no_user_id n))) \<and> up (rp_env r) j
           then received (rp_env r) j @ [notification_hint (no_notification_id n)] else received (rp_env r) j)))"
  unfolding worker_hint_def using hint_reaches_streams [OF assms _ _ notification_channel_str [of "no_user_id n"]] by blast


definition fan_intent_codec :: codec where
  "fan_intent_codec = demo_codec\<lparr>cd_validate_intent := (\<lambda>_. Inr fan_intent)\<rparr>"

definition fan_body :: string where
  "fan_body = (case encode_event (\<lambda>t. ''1970-01-01T00:00:01'') (relay_message (intent_event fan_intent_codec (\<lambda>_. 5) 1 0 fan_intent)) of
     Inr b \<Rightarrow> b | Inl e \<Rightarrow> [])"

definition fan_app :: "(string RedisPubSubRealtimeBackplane \<times> (string \<times> string) list \<times> nat) app" where
  "fan_app = \<lparr>ap_redis = (demo_backplane, ([], 1)), ap_dbs = account_dbs\<rparr>"


end
